(* ===== verification/QBase.thy ===== *)
theory QBase
  imports "HOL-Library.Word" "HOL-Library.Monad_Syntax"
begin

text \<open>Prelude of the QVPN development.  It fixes the machine types of
  \<open>BaseTypes\<close> (\<open>qvpn_lib.hpp\<close>), the memory primitives every packet class is
  written with, and the facts about bytes and big-endian words that the
  component theories share.

  Memory is a list of bytes.  An access outside the list is undefined
  behaviour in C++; it is the value \<open>None\<close> here, so that a theorem saying that
  an operation yields \<open>Some\<close> also says that it stays inside its buffer.\<close>

unbundle bit_operations_syntax

type_synonym UByte = "8 word"
type_synonym UShort = "16 word"
type_synonym UInt = "32 word"
type_synonym bytes = "UByte list"
type_synonym mem = "UByte list"
type_synonym ptr = nat

named_theorems bytes_simps \<open>reads and writes of bytes and big-endian words\<close>

section \<open>Reading and writing a buffer\<close>

definition rd :: "'a list \<Rightarrow> nat \<Rightarrow> 'a option" where
  "rd xs i = (if i < length xs then Some (xs ! i) else None)"

definition wr :: "'a list \<Rightarrow> nat \<Rightarrow> 'a \<Rightarrow> 'a list option" where
  "wr xs i x = (if i < length xs then Some (xs[i := x]) else None)"

text \<open>\<open>std::copy(begin, end, std::back_inserter(v))\<close> reads the range; a range whose end
  is before its begin or outside the buffer is undefined.\<close>

definition rd_range :: "'a list \<Rightarrow> nat \<Rightarrow> nat \<Rightarrow> 'a list option" where
  "rd_range xs b e = (if b \<le> e \<and> e \<le> length xs then Some (take (e - b) (drop b xs)) else None)"

text \<open>\<open>std::copy(src.begin(), src.end(), dst)\<close> overwrites from \<open>dst\<close> on.\<close>

definition overwrite :: "'a list \<Rightarrow> nat \<Rightarrow> 'a list \<Rightarrow> 'a list" where
  "overwrite xs i ys = take i xs @ ys @ drop (i + length ys) xs"

definition wr_range :: "'a list \<Rightarrow> nat \<Rightarrow> 'a list \<Rightarrow> 'a list option" where
  "wr_range xs i ys = (if i + length ys \<le> length xs then Some (overwrite xs i ys) else None)"

lemma rd_Some [bytes_simps]: "i < length xs \<Longrightarrow> rd xs i = Some (xs ! i)"
  by (simp add: rd_def)

lemma rd_None: "\<not> i < length xs \<Longrightarrow> rd xs i = None"
  by (simp add: rd_def)

lemma rd_eq_Some: "rd xs i = Some x \<longleftrightarrow> i < length xs \<and> xs ! i = x"
  by (simp add: rd_def)

lemma wr_Some [bytes_simps]: "i < length xs \<Longrightarrow> wr xs i x = Some (xs[i := x])"
  by (simp add: wr_def)

lemma wr_eq_Some: "wr xs i x = Some ys \<longleftrightarrow> i < length xs \<and> ys = xs[i := x]"
  by (auto simp: wr_def)

lemma rd_range_Some:
  "b \<le> e \<Longrightarrow> e \<le> length xs \<Longrightarrow> rd_range xs b e = Some (take (e - b) (drop b xs))"
  by (simp add: rd_range_def)

lemma rd_range_eq_Some:
  "rd_range xs b e = Some ys \<longleftrightarrow> b \<le> e \<and> e \<le> length xs \<and> ys = take (e - b) (drop b xs)"
  by (auto simp: rd_range_def)

lemma rd_range_append:
  "length xs = b \<Longrightarrow> length ys = n \<Longrightarrow> rd_range (xs @ ys @ zs) b (b + n) = Some ys"
  by (simp add: rd_range_def)

lemma rd_range_mid:
  assumes "b = length xs" "e = length xs + length ys"
  shows "rd_range (xs @ ys @ zs) b e = Some ys"
  using assms by (simp add: rd_range_def)

lemma rd_range_to_end: "rd_range (xs @ ys) (length xs) (length (xs @ ys)) = Some ys"
  by (simp add: rd_range_def)

lemma rd_range_all [simp]: "rd_range xs 0 (length xs) = Some xs"
  by (simp add: rd_range_def)

lemma length_overwrite [simp]:
  "i + length ys \<le> length xs \<Longrightarrow> length (overwrite xs i ys) = length xs"
  by (simp add: overwrite_def)

lemma overwrite_nth:
  assumes "i + length ys \<le> length xs" "j < length xs"
  shows "overwrite xs i ys ! j = (if i \<le> j \<and> j < i + length ys then ys ! (j - i) else xs ! j)"
  using assms by (auto simp: overwrite_def nth_append)

lemma wr_range_Some [bytes_simps]:
  "i + length ys \<le> length xs \<Longrightarrow> wr_range xs i ys = Some (overwrite xs i ys)"
  by (simp add: wr_range_def)

lemma wr_range_eq_Some:
  "wr_range xs i ys = Some zs \<longleftrightarrow> i + length ys \<le> length xs \<and> zs = overwrite xs i ys"
  by (auto simp: wr_range_def)

lemma rd_range_overwrite:
  "i + length ys \<le> length xs \<Longrightarrow> rd_range (overwrite xs i ys) i (i + length ys) = Some ys"
  by (simp add: rd_range_def overwrite_def)

lemma rd_in_mid [simp]:
  "i < length ys \<Longrightarrow> rd (xs @ ys @ zs) (length xs + i) = Some (ys ! i)"
  by (simp add: rd_def nth_append)

text \<open>A read away from a write sees the old bytes.\<close>

lemma rd_update: "rd (xs[i := x]) j = (if i = j \<and> j < length xs then Some x else rd xs j)"
  by (simp add: rd_def)

lemma rd_overwrite_other [bytes_simps]:
  "i + length ys \<le> length xs \<Longrightarrow> j < i \<or> i + length ys \<le> j \<Longrightarrow>
   rd (overwrite xs i ys) j = rd xs j"
  by (simp add: rd_def overwrite_nth) linarith

lemma nth_overwrite_other [bytes_simps]:
  "i + length ys \<le> length xs \<Longrightarrow> j < length xs \<Longrightarrow> j < i \<or> i + length ys \<le> j \<Longrightarrow>
   overwrite xs i ys ! j = xs ! j"
  by (simp add: overwrite_nth) linarith

lemma list_update_Cons_numeral [simp]:
  "(x # xs)[numeral v := y] = x # xs[pred_numeral v := y]"
  by (simp add: numeral_eq_Suc)

lemma list_update_twice [simp]:
  "i \<noteq> j \<Longrightarrow> xs[i := a, j := b, i := c, j := d] = xs[i := c, j := d]"
  by (metis list_update_overwrite list_update_swap)

lemma rd_range_cong:
  assumes "length xs = length ys" "\<And>j. b \<le> j \<Longrightarrow> j < e \<Longrightarrow> j < length xs \<Longrightarrow> xs ! j = ys ! j"
  shows "rd_range xs b e = rd_range ys b e"
  unfolding rd_range_def using assms by (auto intro!: nth_equalityI)

lemma rd_range_update_other [bytes_simps]:
  "i < b \<or> e \<le> i \<Longrightarrow> rd_range (xs[i := x]) b e = rd_range xs b e"
  by (rule rd_range_cong) auto

lemma rd_range_overwrite_other [bytes_simps]:
  assumes "i + length ys \<le> length xs" "e \<le> i \<or> i + length ys \<le> b"
  shows "rd_range (overwrite xs i ys) b e = rd_range xs b e"
  by (rule rd_range_cong) (use assms in \<open>auto simp: nth_overwrite_other\<close>)

lemma rd_range_overwrite_same [bytes_simps]:
  "i + length ys \<le> length xs \<Longrightarrow> e = i + length ys \<Longrightarrow> rd_range (overwrite xs i ys) i e = Some ys"
  by (simp add: rd_range_overwrite)

text \<open>The \<open>n\<close> bytes from \<open>p\<close> on.\<close>

definition mslice :: "mem \<Rightarrow> ptr \<Rightarrow> nat \<Rightarrow> bytes" where
  "mslice m p n = take n (drop p m)"

lemma mslice_update:
  "i < n \<Longrightarrow> take n (drop k (m[k + i := x])) = (take n (drop k m))[i := x]"
  by (simp add: drop_update_swap take_update_swap)

lemma mslice_update_away: "i < p \<or> p + n \<le> i \<Longrightarrow> mslice (m[i := x]) p n = mslice m p n"
  unfolding mslice_def by (rule nth_equalityI) auto

lemma mslice_update_in: "i < n \<Longrightarrow> mslice (m[k + i := x]) k n = (mslice m k n)[i := x]"
  by (simp add: mslice_def mslice_update)

lemma length_mslice [simp]: "length (mslice m p n) = min n (length m - p)"
  by (simp add: mslice_def)

lemma mslice_append: "p + a \<le> length m \<Longrightarrow> mslice m p (a + b) = mslice m p a @ mslice m (p + a) b"
  by (simp add: mslice_def take_add add.commute)

section \<open>Bytes and big-endian words\<close>

text \<open>\<open>h[i] << 8 | h[i + 1]\<close> on integers, then narrowed.\<close>

definition be16 :: "UByte \<Rightarrow> UByte \<Rightarrow> UShort" where
  "be16 a b = push_bit 8 (ucast a) OR ucast b"

definition be32 :: "UByte \<Rightarrow> UByte \<Rightarrow> UByte \<Rightarrow> UByte \<Rightarrow> UInt" where
  "be32 a b c d =
     ((push_bit 24 (ucast a) OR push_bit 16 (ucast b)) OR push_bit 8 (ucast c)) OR ucast d"

text \<open>\<open>x >> k & 0xFF\<close>, stored in a byte.\<close>

definition byte_of :: "nat \<Rightarrow> 'a::len word \<Rightarrow> UByte" where
  "byte_of k x = ucast (drop_bit k x AND 0xFF)"

definition be16_bytes :: "UShort \<Rightarrow> bytes" where
  "be16_bytes x = [byte_of 8 x, byte_of 0 x]"

definition be32_bytes :: "UInt \<Rightarrow> bytes" where
  "be32_bytes x = [byte_of 24 x, byte_of 16 x, byte_of 8 x, byte_of 0 x]"

lemma bit_0xFF: "bit (0xFF :: 'a::len word) n \<longleftrightarrow> n < 8 \<and> n < LENGTH('a)"
proof -
  have "(0xFF :: 'a word) = mask 8" by (simp add: mask_eq_exp_minus_1)
  then show ?thesis by (simp only: bit_mask_iff) auto
qed

lemma bit_byte_of: "bit (byte_of k (x :: 'a::len word)) n \<longleftrightarrow> n < 8 \<and> bit x (k + n)"
proof -
  have "bit (byte_of k x) n \<longleftrightarrow> n < 8 \<and> bit (drop_bit k x) n \<and> bit (0xFF :: 'a word) n"
    unfolding byte_of_def by (simp only: bit_ucast_iff bit_and_iff) simp
  then show ?thesis
    by (simp only: bit_0xFF bit_drop_bit_eq o_def) (auto dest: bit_imp_le_length)
qed

lemma byte_of_0 [simp]: "byte_of k 0 = 0"
  by (simp add: byte_of_def)

lemma be16_of_bytes [bytes_simps, simp]: "be16 (byte_of 8 x) (byte_of 0 x) = x"
  by (rule bit_word_eqI)
    (auto simp: be16_def bit_or_iff bit_push_bit_iff bit_ucast_iff bit_byte_of)

lemma byte_of_be16 [bytes_simps, simp]:
  "byte_of 8 (be16 a b) = a" "byte_of 0 (be16 a b) = b"
  by (rule bit_word_eqI, auto simp: be16_def bit_or_iff bit_push_bit_iff bit_ucast_iff bit_byte_of
      dest: bit_imp_le_length)+

lemma not_bit_byte: "8 \<le> m \<Longrightarrow> \<not> bit (w :: UByte) m"
  using bit_imp_le_length [of w m] by auto

lemma bit_be32: "bit (be32 a b c d) n \<longleftrightarrow>
   (if n < 8 then bit d n else if n < 16 then bit c (n - 8)
    else if n < 24 then bit b (n - 16) else n < 32 \<and> bit a (n - 24))"
proof -
  have *: "bit (be32 a b c d) n \<longleftrightarrow> n < 32 \<and>
      (24 \<le> n \<and> bit a (n - 24) \<or> 16 \<le> n \<and> bit b (n - 16) \<or> 8 \<le> n \<and> bit c (n - 8) \<or> bit d n)"
    unfolding be32_def by (auto simp: bit_or_iff bit_push_bit_iff bit_ucast_iff)
  consider "n < 8" | "8 \<le> n" "n < 16" | "16 \<le> n" "n < 24" | "24 \<le> n" by fastforce
  then show ?thesis
    unfolding * by cases (simp_all add: not_bit_byte)
qed

lemma be32_of_bytes [bytes_simps, simp]:
  "be32 (byte_of 24 x) (byte_of 16 x) (byte_of 8 x) (byte_of 0 x) = x"
proof (rule bit_word_eqI)
  fix n assume "n < LENGTH(32)"
  then consider "n < 8" | "8 \<le> n" "n < 16" | "16 \<le> n" "n < 24" | "24 \<le> n" "n < 32" by fastforce
  then show "bit (be32 (byte_of 24 x) (byte_of 16 x) (byte_of 8 x) (byte_of 0 x)) n = bit x n"
    by cases (auto simp: bit_be32 bit_byte_of)
qed

lemma byte_of_be32 [bytes_simps, simp]:
  "byte_of 24 (be32 a b c d) = a" "byte_of 16 (be32 a b c d) = b"
  "byte_of 8 (be32 a b c d) = c" "byte_of 0 (be32 a b c d) = d"
  by (rule bit_word_eqI, simp add: bit_be32 bit_byte_of)+

lemma length_be_bytes [simp]: "length (be16_bytes x) = 2" "length (be32_bytes y) = 4"
  by (simp_all add: be16_bytes_def be32_bytes_def)

lemma be16_eq_iff: "be16 a b = be16 c d \<longleftrightarrow> a = c \<and> b = d"
  by (metis byte_of_be16)

lemma be16_0 [simp]: "be16 0 b = ucast b"
  by (simp add: be16_def)

lemma unat_of_nat_small: "n < 2 ^ LENGTH('a) \<Longrightarrow> unat (of_nat n :: 'a::len word) = n"
  by (simp add: unat_of_nat take_bit_nat_eq_self)

lemma ucast_of_nat_small:
  "n < 2 ^ LENGTH('a) \<Longrightarrow> LENGTH('a) \<le> LENGTH('b) \<Longrightarrow> (ucast (of_nat n :: 'a::len word) :: 'b::len word) = of_nat n"
  by (metis of_nat_unat unat_of_nat_small)

text \<open>Reading and writing 16 and 32 bit fields.\<close>

definition rd16 :: "bytes \<Rightarrow> nat \<Rightarrow> UShort option" where
  "rd16 h i = do { a \<leftarrow> rd h i; b \<leftarrow> rd h (i + 1); Some (be16 a b) }"

definition rd32 :: "bytes \<Rightarrow> nat \<Rightarrow> UInt option" where
  "rd32 h i = do { a \<leftarrow> rd h i; b \<leftarrow> rd h (i + 1); c \<leftarrow> rd h (i + 2); d \<leftarrow> rd h (i + 3);
                   Some (be32 a b c d) }"

definition wr16 :: "bytes \<Rightarrow> nat \<Rightarrow> UShort \<Rightarrow> bytes option" where
  "wr16 h i x = do { h \<leftarrow> wr h i (byte_of 8 x); wr h (i + 1) (byte_of 0 x) }"

definition wr32 :: "bytes \<Rightarrow> nat \<Rightarrow> UInt \<Rightarrow> bytes option" where
  "wr32 h i x = do { h \<leftarrow> wr h i (byte_of 24 x); h \<leftarrow> wr h (i + 1) (byte_of 16 x);
                     h \<leftarrow> wr h (i + 2) (byte_of 8 x); wr h (i + 3) (byte_of 0 x) }"

lemma rd16_Some [bytes_simps]:
  "i + 1 < length h \<Longrightarrow> rd16 h i = Some (be16 (h ! i) (h ! (i + 1)))"
  by (simp add: rd16_def rd_def)

lemma rd16_eq_Some:
  "rd16 h i = Some x \<longleftrightarrow> i + 1 < length h \<and> x = be16 (h ! i) (h ! (i + 1))"
  by (auto simp: rd16_def rd_def)

lemma rd32_Some [bytes_simps]:
  "i + 3 < length h \<Longrightarrow>
   rd32 h i = Some (be32 (h ! i) (h ! (i + 1)) (h ! (i + 2)) (h ! (i + 3)))"
  by (simp add: rd32_def rd_def)

lemma wr16_Some [bytes_simps]:
  "i + 1 < length h \<Longrightarrow> wr16 h i x = Some (h[i := byte_of 8 x, i + 1 := byte_of 0 x])"
  by (simp add: wr16_def wr_def)

lemma wr16_eq_Some:
  "wr16 h i x = Some h' \<longleftrightarrow> i + 1 < length h \<and> h' = h[i := byte_of 8 x, i + 1 := byte_of 0 x]"
  by (auto simp: wr16_def wr_def)

lemma wr32_Some [bytes_simps]:
  "i + 3 < length h \<Longrightarrow> wr32 h i x = Some (h[i := byte_of 24 x, i + 1 := byte_of 16 x,
     i + 2 := byte_of 8 x, i + 3 := byte_of 0 x])"
  by (simp add: wr32_def wr_def)

lemma wr32_eq_Some:
  "wr32 h i x = Some h' \<longleftrightarrow> i + 3 < length h \<and> h' = h[i := byte_of 24 x, i + 1 := byte_of 16 x,
     i + 2 := byte_of 8 x, i + 3 := byte_of 0 x]"
  by (auto simp: wr32_def wr_def)

lemma rd16_wr16: "wr16 h i x = Some h' \<Longrightarrow> rd16 h' i = Some x"
  by (auto simp: wr16_eq_Some rd16_def rd_def)

lemma rd16_wr16_other:
  "wr16 h i x = Some h' \<Longrightarrow> j + 1 < i \<or> i + 1 < j \<Longrightarrow> rd16 h' j = rd16 h j"
  by (auto simp: wr16_eq_Some rd16_def rd_def)

lemma rd32_wr32: "wr32 h i x = Some h' \<Longrightarrow> rd32 h' i = Some x"
  by (auto simp: wr32_eq_Some rd32_def rd_def)

lemma rd_wr16_other: "wr16 h i x = Some h' \<Longrightarrow> j \<noteq> i \<Longrightarrow> j \<noteq> i + 1 \<Longrightarrow> rd h' j = rd h j"
  by (auto simp: wr16_eq_Some rd_def)

lemma rd16_update_other [bytes_simps]:
  "i < j \<or> j + 1 < i \<Longrightarrow> rd16 (h[i := x]) j = rd16 h j"
  by (auto simp: rd16_def rd_update)

lemma rd16_overwrite_other [bytes_simps]:
  "i + length ys \<le> length h \<Longrightarrow> j + 1 < i \<or> i + length ys \<le> j \<Longrightarrow>
   rd16 (overwrite h i ys) j = rd16 h j"
  unfolding rd16_def by (elim disjE) (simp_all add: rd_overwrite_other)

lemma wr16_length: "wr16 h i x = Some h' \<Longrightarrow> length h' = length h"
  by (auto simp: wr16_eq_Some)

lemma wr32_length: "wr32 h i x = Some h' \<Longrightarrow> length h' = length h"
  by (auto simp: wr32_eq_Some)

end
