(* ===== verification/NetAddress.thy ===== *)
theory NetAddress
  imports QBase
begin

text \<open>Addresses, protocol numbers and TCP flags (\<open>qvpn_lib.hpp\<close>, \<open>qvpn_lib.cpp\<close>,
  \<open>Tools::parse_net_addr\<close> of \<open>qvpn_tools.cpp\<close>).  The protocol enumerations have a
  fixed underlying byte and are produced by \<open>static_cast\<close> from packet bytes, so a value
  outside the listed enumerators is representable: they are bytes with named constants.\<close>

section \<open>Protocol numbers\<close>

type_synonym NetProtocol = UByte

definition NetProtocol_IPv4 :: NetProtocol where "NetProtocol_IPv4 = 4"
definition NetProtocol_IPv6 :: NetProtocol where "NetProtocol_IPv6 = 6"
definition NetProtocol_NET_UNDEFINED :: NetProtocol where "NetProtocol_NET_UNDEFINED = 255"

type_synonym TransportProtocol = UByte

definition TransportProtocol_TCP :: TransportProtocol where "TransportProtocol_TCP = 6"
definition TransportProtocol_UDP :: TransportProtocol where "TransportProtocol_UDP = 17"
definition TransportProtocol_TRANSPORT_UNDEFINED :: TransportProtocol where
  "TransportProtocol_TRANSPORT_UNDEFINED = 255"

lemmas protocol_defs = NetProtocol_IPv4_def NetProtocol_IPv6_def NetProtocol_NET_UNDEFINED_def
  TransportProtocol_TCP_def TransportProtocol_UDP_def TransportProtocol_TRANSPORT_UNDEFINED_def

section \<open>IPv4 addresses\<close>

text \<open>The member \<open>std::array<UByte, 4> ip_\<close>.\<close>

datatype IPv4Address = IPv4Address UByte UByte UByte UByte

definition IPv4Address_any :: IPv4Address where
  "IPv4Address_any = IPv4Address 0 0 0 0"

text \<open>The iterator constructor copies the range over the zero initialised array.\<close>

definition IPv4Address_of_range :: "bytes \<Rightarrow> IPv4Address option" where
  "IPv4Address_of_range bs =
     (if length bs \<le> 4
      then (let ip = bs @ replicate (4 - length bs) 0
            in Some (IPv4Address (ip ! 0) (ip ! 1) (ip ! 2) (ip ! 3)))
      else None)"

text \<open>From four bytes, from an array, and the copies.  A move leaves zeros behind in the other address: the second component.  The
  assignments are from another object.\<close>

definition IPv4Address_of_bytes :: "UByte \<Rightarrow> UByte \<Rightarrow> UByte \<Rightarrow> UByte \<Rightarrow> IPv4Address" where
  "IPv4Address_of_bytes a b c d = IPv4Address a b c d"

definition IPv4Address_of_array :: "bytes \<Rightarrow> IPv4Address option" where
  "IPv4Address_of_array data = do { a \<leftarrow> rd data 0; b \<leftarrow> rd data 1; c \<leftarrow> rd data 2; d \<leftarrow> rd data 3; Some (IPv4Address a b c d) }"

definition IPv4Address_copy :: "IPv4Address \<Rightarrow> IPv4Address" where
  "IPv4Address_copy other = other"

definition IPv4Address_move :: "IPv4Address \<Rightarrow> IPv4Address \<times> IPv4Address" where
  "IPv4Address_move other = (other, IPv4Address_any)"

definition IPv4Address_assign :: "IPv4Address \<Rightarrow> IPv4Address \<Rightarrow> IPv4Address" where
  "IPv4Address_assign this other = other"

definition IPv4Address_move_assign :: "IPv4Address \<Rightarrow> IPv4Address \<Rightarrow> IPv4Address \<times> IPv4Address" where
  "IPv4Address_move_assign this other = (other, IPv4Address_any)"

definition IPv4Address_assign_array :: "IPv4Address \<Rightarrow> bytes \<Rightarrow> IPv4Address option" where
  "IPv4Address_assign_array this other = IPv4Address_of_array other"

definition IPv4Address_of_uint :: "UInt \<Rightarrow> IPv4Address" where
  "IPv4Address_of_uint data =
     IPv4Address (byte_of 24 data) (byte_of 16 data) (byte_of 8 data) (byte_of 0 data)"

fun IPv4Address_to_bytes :: "IPv4Address \<Rightarrow> bytes" where
  "IPv4Address_to_bytes (IPv4Address a b c d) = [a, b, c, d]"

fun IPv4Address_to_uint :: "IPv4Address \<Rightarrow> UInt" where
  "IPv4Address_to_uint (IPv4Address a b c d) = be32 a b c d"

definition IPv4Address_index :: "IPv4Address \<Rightarrow> nat \<Rightarrow> UByte option" where
  "IPv4Address_index ip elem = rd (IPv4Address_to_bytes ip) elem"

definition IPv4Address_eq :: "IPv4Address \<Rightarrow> IPv4Address \<Rightarrow> bool" where
  "IPv4Address_eq a b = (IPv4Address_to_uint a = IPv4Address_to_uint b)"

definition IPv4Address_get_addr_family :: "IPv4Address \<Rightarrow> NetProtocol" where
  "IPv4Address_get_addr_family ip = NetProtocol_IPv4"

definition IPv4Address_get_addr_size :: "IPv4Address \<Rightarrow> nat" where
  "IPv4Address_get_addr_size ip = 4"

section \<open>Decimal text of a byte\<close>

definition digit_char :: "nat \<Rightarrow> char" where
  "digit_char d = char_of (48 + d)"

text \<open>\<open>operator<<(int)\<close> on a value of at most three digits.\<close>

definition dec_byte :: "UByte \<Rightarrow> string" where
  "dec_byte b = (let n = unat b in
     if n < 10 then [digit_char n]
     else if n < 100 then [digit_char (n div 10), digit_char (n mod 10)]
     else [digit_char (n div 100), digit_char (n div 10 mod 10), digit_char (n mod 10)])"

definition IPv4Address_to_string :: "IPv4Address \<Rightarrow> string" where
  "IPv4Address_to_string ip = (case ip of IPv4Address a b c d \<Rightarrow>
     dec_byte a @ ''.'' @ dec_byte b @ ''.'' @ dec_byte c @ ''.'' @ dec_byte d)"

section \<open>IPv6 addresses\<close>

text \<open>The member \<open>std::array<UByte, 16> ip_\<close>, a list of sixteen bytes.\<close>

type_synonym IPv6Address = bytes

definition IPv6Address_inv :: "IPv6Address \<Rightarrow> bool" where
  "IPv6Address_inv ip = (length ip = 16)"

definition IPv6Address_any :: IPv6Address where
  "IPv6Address_any = replicate 16 0"

definition IPv6Address_of_range :: "bytes \<Rightarrow> IPv6Address option" where
  "IPv6Address_of_range bs =
     (if length bs \<le> 16 then Some (bs @ replicate (16 - length bs) 0) else None)"

definition IPv6Address_of_array :: "bytes \<Rightarrow> IPv6Address" where
  "IPv6Address_of_array data = data"

definition IPv6Address_get_addr_family :: "IPv6Address \<Rightarrow> NetProtocol" where
  "IPv6Address_get_addr_family ip = NetProtocol_IPv6"

definition IPv6Address_get_addr_size :: "IPv6Address \<Rightarrow> nat" where
  "IPv6Address_get_addr_size ip = 6"

definition IPv6Address_to_bytes :: "IPv6Address \<Rightarrow> bytes" where
  "IPv6Address_to_bytes ip = ip"

text \<open>The loop prints each byte followed by a dot; the last two characters are cut.\<close>

definition dotted_bytes :: "bytes \<Rightarrow> string" where
  "dotted_bytes ip = concat (map (\<lambda>b. dec_byte b @ ''.'') ip)"

definition IPv6Address_to_string :: "IPv6Address \<Rightarrow> string" where
  "IPv6Address_to_string ip = (let temp = dotted_bytes ip in take (length temp - 2) temp)"

section \<open>Untyped addresses\<close>

type_synonym NetAddr = bytes

definition NetAddr_default :: NetAddr where
  "NetAddr_default = replicate 16 0"

definition NetAddr_of_range :: "bytes \<Rightarrow> NetAddr" where
  "NetAddr_of_range bs = bs"

definition NetAddr_of_uint :: "UInt \<Rightarrow> NetAddr" where
  "NetAddr_of_uint data = [byte_of 24 data, byte_of 16 data, byte_of 8 data, byte_of 0 data]"

definition NetAddr_of_ipv4 :: "IPv4Address \<Rightarrow> NetAddr" where
  "NetAddr_of_ipv4 a = IPv4Address_to_bytes a"

definition NetAddr_of_ipv6 :: "IPv6Address \<Rightarrow> NetAddr" where
  "NetAddr_of_ipv6 a = IPv6Address_to_bytes a"

definition NetAddr_get_addr_size :: "NetAddr \<Rightarrow> nat" where
  "NetAddr_get_addr_size ip = length ip"

definition NetAddr_get_addr_family :: "NetAddr \<Rightarrow> NetProtocol" where
  "NetAddr_get_addr_family ip =
     (if length ip = 4 then NetProtocol_IPv4
      else if length ip = 16 then NetProtocol_IPv6
      else NetProtocol_NET_UNDEFINED)"

definition NetAddr_to_ipv4 :: "NetAddr \<Rightarrow> IPv4Address option" where
  "NetAddr_to_ipv4 ip = do { a \<leftarrow> rd ip 0; b \<leftarrow> rd ip 1; c \<leftarrow> rd ip 2; d \<leftarrow> rd ip 3;
     Some (IPv4Address a b c d) }"

definition NetAddr_to_ipv6 :: "NetAddr \<Rightarrow> IPv6Address option" where
  "NetAddr_to_ipv6 ip = rd_range ip 0 16"

definition NetAddr_index :: "NetAddr \<Rightarrow> nat \<Rightarrow> UByte option" where
  "NetAddr_index ip elem = rd ip elem"

definition NetAddr_to_bytes :: "NetAddr \<Rightarrow> bytes" where
  "NetAddr_to_bytes ip = ip"

definition NetAddr_to_string :: "NetAddr \<Rightarrow> string" where
  "NetAddr_to_string ip = (let temp = dotted_bytes ip in take (length temp - 1) temp)"

definition NetAddr_to_uint :: "NetAddr \<Rightarrow> UInt option" where
  "NetAddr_to_uint ip =
     (if NetAddr_get_addr_family ip = NetProtocol_IPv4 then rd32 ip 0 else Some 0)"

text \<open>\<open>operator==\<close> runs over the left address only; a shorter right address is read past its
  end unless an earlier byte differs.\<close>

fun NetAddr_eq :: "NetAddr \<Rightarrow> NetAddr \<Rightarrow> bool option" where
  "NetAddr_eq [] other = Some True"
| "NetAddr_eq (x # xs) [] = None"
| "NetAddr_eq (x # xs) (y # ys) = (if x \<noteq> y then Some False else NetAddr_eq xs ys)"

section \<open>Parsing an address\<close>

datatype std_exception = Invalid_argument | Out_of_range

text \<open>\<open>std::string_view::find(delim, start)\<close>; \<open>None\<close> is \<open>npos\<close>.\<close>

fun find_sub :: "'a list \<Rightarrow> 'a list \<Rightarrow> nat option" where
  "find_sub d [] = (if d = [] then Some 0 else None)"
| "find_sub d (x # xs) =
     (if take (length d) (x # xs) = d then Some 0 else map_option Suc (find_sub d xs))"

definition find_from :: "'a list \<Rightarrow> 'a list \<Rightarrow> nat \<Rightarrow> nat option" where
  "find_from s d i = (if i \<le> length s then map_option ((+) i) (find_sub d (drop i s)) else None)"

text \<open>\<open>std::stoi\<close> in base ten: leading white space, an optional sign, the longest run of digits.\<close>

definition is_space :: "char \<Rightarrow> bool" where
  "is_space c = (of_char c = (32 :: nat) \<or> 9 \<le> (of_char c :: nat) \<and> of_char c \<le> (13 :: nat))"

definition is_digit :: "char \<Rightarrow> bool" where
  "is_digit c = (48 \<le> (of_char c :: nat) \<and> of_char c \<le> (57 :: nat))"

definition digits_value :: "string \<Rightarrow> int" where
  "digits_value ds = foldl (\<lambda>v c. 10 * v + (of_char c - 48)) 0 ds"

definition stoi :: "string \<Rightarrow> std_exception + int" where
  "stoi s = (let s1 = dropWhile is_space s;
                 (neg, s2) = (case s1 of [] \<Rightarrow> (False, [])
                   | c # cs \<Rightarrow> if c = CHR ''-'' then (True, cs)
                               else if c = CHR ''+'' then (False, cs) else (False, c # cs));
                 ds = takeWhile is_digit s2;
                 v = (if neg then - digits_value ds else digits_value ds)
             in if ds = [] then Inl Invalid_argument
                else if v < - (2 ^ 31) \<or> 2 ^ 31 - 1 < v then Inl Out_of_range
                else Inr v)"

text \<open>The loop of \<open>parse_net_addr\<close>; the counter is the number of rounds left of the sixteen.\<close>

fun parse_net_addr_loop ::
    "nat \<Rightarrow> string \<Rightarrow> string \<Rightarrow> nat \<Rightarrow> bytes \<Rightarrow> std_exception + bytes" where
  "parse_net_addr_loop 0 addr delim start ip = Inr ip"
| "parse_net_addr_loop (Suc n) addr delim start ip =
     (let e = find_from addr delim start;
          elem = (case e of None \<Rightarrow> drop start addr | Some k \<Rightarrow> take (k - start) (drop start addr))
      in case stoi elem of
           Inl ex \<Rightarrow> Inl ex
         | Inr v \<Rightarrow> (case e of
               None \<Rightarrow> Inr (ip @ [word_of_int v])
             | Some k \<Rightarrow> parse_net_addr_loop n addr delim (k + 1) (ip @ [word_of_int v])))"

definition parse_net_addr :: "string \<Rightarrow> std_exception + bytes" where
  "parse_net_addr addr =
     (let delim = (if find_from addr ''.'' 0 = None then ''::'' else ''.'')
      in parse_net_addr_loop 16 addr delim 0 [])"

definition NetAddr_of_string :: "string \<Rightarrow> std_exception + NetAddr" where
  "NetAddr_of_string data = parse_net_addr data"

text \<open>The copy into the four byte array is undefined for more than four numbers.\<close>

definition IPv4Address_of_string :: "string \<Rightarrow> (std_exception + IPv4Address) option" where
  "IPv4Address_of_string data = (case parse_net_addr data of
     Inl ex \<Rightarrow> Some (Inl ex) | Inr vec \<Rightarrow> map_option Inr (IPv4Address_of_range vec))"

definition IPv6Address_of_string :: "string \<Rightarrow> (std_exception + IPv6Address) option" where
  "IPv6Address_of_string data = (case parse_net_addr data of
     Inl ex \<Rightarrow> Some (Inl ex) | Inr vec \<Rightarrow> map_option Inr (IPv6Address_of_range vec))"

section \<open>TCP flags\<close>

text \<open>\<open>TcpFlagsObject\<close> wraps the sixteen bit value \<open>flags_\<close>; bit 8 is NS.\<close>

type_synonym TcpFlagsObject = UShort

definition TCPFlags_FIN :: UShort where "TCPFlags_FIN = 1"
definition TCPFlags_SYN :: UShort where "TCPFlags_SYN = 2"
definition TCPFlags_RST :: UShort where "TCPFlags_RST = 4"
definition TCPFlags_PSH :: UShort where "TCPFlags_PSH = 8"
definition TCPFlags_ACK :: UShort where "TCPFlags_ACK = 16"
definition TCPFlags_URG :: UShort where "TCPFlags_URG = 32"
definition TCPFlags_ECE :: UShort where "TCPFlags_ECE = 64"
definition TCPFlags_CWR :: UShort where "TCPFlags_CWR = 128"
definition TCPFlags_NS :: UShort where "TCPFlags_NS = 256"
definition TCPFlags_SYN_ACK :: UShort where "TCPFlags_SYN_ACK = 0x12"

definition TcpFlagsObject_of_bits ::
    "UByte \<Rightarrow> UByte \<Rightarrow> UByte \<Rightarrow> UByte \<Rightarrow> UByte \<Rightarrow> UByte \<Rightarrow> UByte \<Rightarrow> UByte \<Rightarrow> UByte \<Rightarrow> TcpFlagsObject"
  where
  "TcpFlagsObject_of_bits ns cwr ecn urg ack psh rst syn fin =
     push_bit 8 (ucast ns) OR push_bit 7 (ucast cwr) OR push_bit 6 (ucast ecn) OR
     push_bit 5 (ucast urg) OR push_bit 4 (ucast ack) OR push_bit 3 (ucast psh) OR
     push_bit 2 (ucast rst) OR push_bit 1 (ucast syn) OR ucast fin"

definition TcpFlagsObject_get_ns :: "TcpFlagsObject \<Rightarrow> UByte" where
  "TcpFlagsObject_get_ns flags = ucast (drop_bit 8 flags AND 1)"
definition TcpFlagsObject_get_cwr :: "TcpFlagsObject \<Rightarrow> UByte" where
  "TcpFlagsObject_get_cwr flags = ucast (drop_bit 7 flags AND 1)"
definition TcpFlagsObject_get_ecn :: "TcpFlagsObject \<Rightarrow> UByte" where
  "TcpFlagsObject_get_ecn flags = ucast (drop_bit 6 flags AND 1)"
definition TcpFlagsObject_get_urg :: "TcpFlagsObject \<Rightarrow> UByte" where
  "TcpFlagsObject_get_urg flags = ucast (drop_bit 5 flags AND 1)"
definition TcpFlagsObject_get_ack :: "TcpFlagsObject \<Rightarrow> UByte" where
  "TcpFlagsObject_get_ack flags = ucast (drop_bit 4 flags AND 1)"
definition TcpFlagsObject_get_psh :: "TcpFlagsObject \<Rightarrow> UByte" where
  "TcpFlagsObject_get_psh flags = ucast (drop_bit 3 flags AND 1)"
definition TcpFlagsObject_get_rst :: "TcpFlagsObject \<Rightarrow> UByte" where
  "TcpFlagsObject_get_rst flags = ucast (drop_bit 2 flags AND 1)"
definition TcpFlagsObject_get_syn :: "TcpFlagsObject \<Rightarrow> UByte" where
  "TcpFlagsObject_get_syn flags = ucast (drop_bit 1 flags AND 1)"
definition TcpFlagsObject_get_fin :: "TcpFlagsObject \<Rightarrow> UByte" where
  "TcpFlagsObject_get_fin flags = ucast (flags AND 1)"

definition TcpFlagsObject_get_without_ns :: "TcpFlagsObject \<Rightarrow> UByte" where
  "TcpFlagsObject_get_without_ns flags = ucast (flags AND 0xFF)"

text \<open>\<open>flags_\<close> is promoted to \<open>int\<close>: a shift of 32 or more is undefined.\<close>

definition TcpFlagsObject_index :: "TcpFlagsObject \<Rightarrow> nat \<Rightarrow> UByte option" where
  "TcpFlagsObject_index flags i = (if i < 32 then Some (ucast (drop_bit i flags AND 1)) else None)"

section \<open>Laws of the addresses\<close>

lemma IPv4Address_of_to_uint [simp]: "IPv4Address_of_uint (IPv4Address_to_uint a) = a"
  by (cases a) (simp add: IPv4Address_of_uint_def)

lemma IPv4Address_to_of_uint [simp]: "IPv4Address_to_uint (IPv4Address_of_uint n) = n"
  by (simp add: IPv4Address_of_uint_def)

lemma IPv4Address_of_to_bytes [simp]: "IPv4Address_of_range (IPv4Address_to_bytes a) = Some a"
  by (cases a) (simp add: IPv4Address_of_range_def)

lemma length_IPv4Address_to_bytes [simp]: "length (IPv4Address_to_bytes a) = 4"
  by (cases a) simp

lemma IPv4Address_to_bytes_inj [simp]:
  "IPv4Address_to_bytes a = IPv4Address_to_bytes b \<longleftrightarrow> a = b"
  by (cases a; cases b) auto

lemma IPv4Address_eq_iff: "IPv4Address_eq a b \<longleftrightarrow> a = b"
  by (metis IPv4Address_eq_def IPv4Address_of_to_uint)

lemma NetAddr_eq_same_length: "length a = length b \<Longrightarrow> NetAddr_eq a b = Some (a = b)"
  by (induction a b rule: NetAddr_eq.induct) auto

lemma NetAddr_eq_prefix: "NetAddr_eq a (a @ b) = Some True"
  by (induction a) auto

lemma NetAddr_to_ipv4_of_ipv4 [simp]: "NetAddr_to_ipv4 (NetAddr_of_ipv4 a) = Some a"
  by (cases a) (simp add: NetAddr_to_ipv4_def NetAddr_of_ipv4_def rd_def)

lemma NetAddr_family_ipv4 [simp]: "NetAddr_get_addr_family (NetAddr_of_ipv4 a) = NetProtocol_IPv4"
  by (simp add: NetAddr_get_addr_family_def NetAddr_of_ipv4_def)

subsection \<open>Printing and parsing\<close>

lemma of_char_digit_char [simp]: "d < 10 \<Longrightarrow> of_char (digit_char d) = (48 + d :: nat)"
  by (simp add: digit_char_def)

lemma is_digit_digit_char [simp]: "d < 10 \<Longrightarrow> is_digit (digit_char d)"
  by (simp add: is_digit_def)

lemma of_char_int_nat: "(of_char c :: int) = int (of_char c)"
  by (metis of_nat_of_char)

lemma digits_value_Cons_simps [simp]:
  "d < 10 \<Longrightarrow> digits_value [digit_char d] = int d"
  "d < 10 \<Longrightarrow> e < 10 \<Longrightarrow> digits_value [digit_char d, digit_char e] = int (10 * d + e)"
  "d < 10 \<Longrightarrow> e < 10 \<Longrightarrow> f < 10 \<Longrightarrow>
   digits_value [digit_char d, digit_char e, digit_char f] = int (100 * d + 10 * e + f)"
  by (simp_all add: digits_value_def of_char_int_nat)

lemma unat_byte_less: "unat (b :: UByte) < 256"
proof -
  have "unat b < 2 ^ LENGTH(8)" by (rule unsigned_less)
  then show ?thesis by simp
qed

lemma uint_byte_less: "uint (b :: UByte) < 256"
proof -
  have "uint b < 2 ^ LENGTH(8)" by (rule unsigned_less)
  then show ?thesis by simp
qed

lemma uint_nonnegative: "- 2147483648 \<le> uint (b :: UByte)"
  by (rule order_trans [OF _ unsigned_greater_eq]) simp

lemma dec_byte_digits: "list_all is_digit (dec_byte b)" "dec_byte b \<noteq> []"
  using unat_byte_less [of b] by (auto simp: dec_byte_def Let_def)

lemma digits_value_dec_byte [simp]: "digits_value (dec_byte b) = int (unat b)"
proof -
  let ?n = "unat b"
  have n: "?n < 256" by (rule unat_byte_less)
  have h: "100 * (?n div 100) + 10 * (?n div 10 mod 10) + ?n mod 10 = ?n"
  proof -
    have "?n div 100 = ?n div 10 div 10" using div_mult2_eq [of ?n 10 10] by simp
    moreover have "10 * (?n div 10 div 10) + ?n div 10 mod 10 = ?n div 10"
      "10 * (?n div 10) + ?n mod 10 = ?n" by (rule mult_div_mod_eq)+
    ultimately show ?thesis by linarith
  qed
  consider "?n < 10" | "10 \<le> ?n" "?n < 100" | "100 \<le> ?n" by linarith
  then show ?thesis
  proof cases
    case 1 then show ?thesis by (simp add: dec_byte_def Let_def)
  next
    case 2
    then have "?n div 10 < 10" by linarith
    with 2 show ?thesis
      by (simp only: dec_byte_def Let_def if_False not_less [symmetric] if_True digits_value_Cons_simps
          mod_less_divisor zero_less_numeral mult_div_mod_eq) 
  next
    case 3
    have "?n div 100 < 10" using n by linarith
    then have "digits_value [digit_char (?n div 100), digit_char (?n div 10 mod 10),
        digit_char (?n mod 10)] = int ?n"
      by (subst digits_value_Cons_simps) (simp_all only: h mod_less_divisor zero_less_numeral)
    with 3 show ?thesis by (simp only: dec_byte_def Let_def if_False not_less [symmetric]) simp
  qed
qed

lemma digit_not_sign: "is_digit c \<Longrightarrow> \<not> is_space c \<and> c \<noteq> CHR ''-'' \<and> c \<noteq> CHR ''+''"
  by (auto simp: is_digit_def is_space_def)

lemma stoi_dec_byte [simp]: "stoi (dec_byte b) = Inr (int (unat b))"
proof -
  obtain c cs where c: "dec_byte b = c # cs" using dec_byte_digits(2) by (cases "dec_byte b") auto
  have d: "list_all is_digit (c # cs)" using dec_byte_digits(1) [of b] c by simp
  then have "takeWhile is_digit (c # cs) = c # cs"
    by (simp add: list_all_iff takeWhile_eq_all_conv)
  moreover have "\<not> is_space c" "c \<noteq> CHR ''-''" "c \<noteq> CHR ''+''"
    using d digit_not_sign [of c] by auto
  moreover have "digits_value (c # cs) = int (unat b)" using digits_value_dec_byte [of b] c by simp
  ultimately show ?thesis
    using uint_byte_less [of b] uint_nonnegative [of b] by (auto simp: stoi_def c Let_def not_less)
qed

lemma find_sub_dot_skip:
  "CHR ''.'' \<notin> set xs \<Longrightarrow> find_sub ''.'' (xs @ CHR ''.'' # ys) = Some (length xs)"
  by (induction xs) auto

lemma find_sub_dot_none: "CHR ''.'' \<notin> set xs \<Longrightarrow> find_sub ''.'' xs = None"
  by (induction xs) auto

lemma dot_notin_dec_byte [simp]: "CHR ''.'' \<notin> set (dec_byte b)"
  using dec_byte_digits(1) [of b] by (force simp: list_all_iff is_digit_def)

lemma dec_byte_no_colon_start: "find_sub ''::'' (dec_byte b) = None"
proof -
  have "CHR '':'' \<notin> set (dec_byte b)"
    using dec_byte_digits(1) [of b] by (force simp: list_all_iff is_digit_def)
  moreover have "CHR '':'' \<notin> set xs \<Longrightarrow> find_sub ''::'' xs = None" for xs
    by (induction xs) auto
  ultimately show ?thesis by blast
qed

text \<open>The text \<open>NetAddr::to_string\<close> prints, as a join.\<close>

fun join_dots :: "bytes \<Rightarrow> string" where
  "join_dots [] = []"
| "join_dots [b] = dec_byte b"
| "join_dots (b # bs) = dec_byte b @ CHR ''.'' # join_dots bs"

lemma dotted_bytes_join: "bs \<noteq> [] \<Longrightarrow> dotted_bytes bs = join_dots bs @ ''.''"
  by (induction bs rule: join_dots.induct) (auto simp: dotted_bytes_def)

lemma NetAddr_to_string_join: "bs \<noteq> [] \<Longrightarrow> NetAddr_to_string bs = join_dots bs"
  by (simp add: NetAddr_to_string_def dotted_bytes_join)

lemma parse_loop_join:
  assumes "bs \<noteq> []" "length bs \<le> n" "start \<le> length addr" "drop start addr = join_dots bs"
  shows "parse_net_addr_loop n addr ''.'' start ip = Inr (ip @ bs)"
  using assms
proof (induction bs arbitrary: n start ip rule: join_dots.induct)
  case 1 then show ?case by simp
next
  case (2 b)
  then obtain m where "n = Suc m" by (cases n) auto
  with 2 show ?case by (simp add: find_from_def find_sub_dot_none)
next
  case (3 b c cs)
  then obtain m where n: "n = Suc m" by (cases n) auto
  let ?k = "start + length (dec_byte b)"
  have d: "drop start addr = dec_byte b @ CHR ''.'' # join_dots (c # cs)" using 3 by simp
  have f: "find_from addr ''.'' start = Some ?k"
    using 3 by (simp add: find_from_def d find_sub_dot_skip)
  have "drop (?k + 1) addr = join_dots (c # cs)"
    using arg_cong [OF d, of "drop (length (dec_byte b) + 1)"] by (simp add: add.commute)
  moreover have "?k + 1 \<le> length addr"
    using arg_cong [OF length_drop [of start addr, unfolded d], of "\<lambda>n. n + start"] 3(4) by simp
  ultimately have "parse_net_addr_loop m addr ''.'' (?k + 1) (ip @ [b]) = Inr ((ip @ [b]) @ c # cs)"
    using "3.IH" [of m "?k + 1" "ip @ [b]"] 3 n by simp
  then show ?case by (simp add: n f d)
qed

lemma parse_net_addr_join:
  assumes "bs \<noteq> []" "length bs \<le> 16"
  shows "parse_net_addr (join_dots bs) = Inr bs"
proof (cases "\<exists>b. bs = [b]")
  case True
  then obtain b where b: "bs = [b]" by blast
  have "parse_net_addr_loop 16 (dec_byte b) ''::'' 0 [] = Inr [b]"
    by (simp add: eval_nat_numeral find_from_def dec_byte_no_colon_start)
  then show ?thesis using b by (simp add: parse_net_addr_def find_from_def find_sub_dot_none)
next
  case False
  then obtain b c cs where "bs = b # c # cs" using assms by (metis neq_Nil_conv)
  then have "find_from (join_dots bs) ''.'' 0 \<noteq> None"
    by (simp add: find_from_def find_sub_dot_skip)
  then show ?thesis
    using parse_loop_join [OF assms, of 0 "join_dots bs" "[]"]
    by (simp only: parse_net_addr_def Let_def if_False append_Nil drop0 le0 refl if_P HOL.simp_thms)
qed

section \<open>Laws of the flags\<close>

lemma and_one_ucast: "ucast (x AND 1 :: 'a::len word) = (of_bool (bit x 0) :: 'b::len word)"
  by (rule bit_word_eqI) (auto simp: bit_ucast_iff bit_and_iff bit_1_iff intro!: gr0I)

section \<open>Properties\<close>

text \<open>Parsing the dotted text that \<open>to_string\<close> prints gives the address back, for every address
  of one to sixteen bytes: the printer and the parser agree on digits, dots and the last element.\<close>

lemma NetAddr_text_roundtrip:
  assumes "a \<noteq> []" "length a \<le> 16"
  shows "NetAddr_of_string (NetAddr_to_string a) = Inr a"
  using assms by (simp add: NetAddr_of_string_def NetAddr_to_string_join parse_net_addr_join)

text \<open>An IPv4 address converts to the host integer and to its four bytes and back without loss, the
  comparison of addresses is equality, and a \<open>NetAddr\<close> made from it is of the IPv4 family and
  converts back.\<close>

lemma IPv4Address_conversions:
  "IPv4Address_of_uint (IPv4Address_to_uint a) = a \<and>
   IPv4Address_to_uint (IPv4Address_of_uint n) = n \<and>
   IPv4Address_of_range (IPv4Address_to_bytes a) = Some a \<and>
   (IPv4Address_eq a b \<longleftrightarrow> a = b) \<and>
   NetAddr_get_addr_family (NetAddr_of_ipv4 a) = NetProtocol_IPv4 \<and>
   NetAddr_to_ipv4 (NetAddr_of_ipv4 a) = Some a"
  by (simp add: IPv4Address_eq_iff)

end
