(* ===== verification/Checksum.thy ===== *)
theory Checksum
  imports NetAddress
begin

text \<open>The Internet checksum as the packet classes compute it
  (\<open>recalculate_ip_checksum\<close>, \<open>recalculate_transport_checksum\<close> in \<open>qvpn_structures.cpp\<close>):
  sixteen bit words accumulated in a 32 bit register, the end-around carry loop, the complement.
  The second part gives the mathematical reading: the register holds the sum of the words, the carry
  loop is reduction modulo 65535, and storing the complement makes the whole sum fold to \<open>0xFFFF\<close>.\<close>

section \<open>The loops\<close>

text \<open>\<open>for (i = 0; i < size; i += 2) sum += h[i] << 8 | h[i + 1]\<close>: an odd size reads one byte past
  the end.\<close>

fun sum_words :: "bytes \<Rightarrow> UInt \<Rightarrow> UInt option" where
  "sum_words [] s = Some s"
| "sum_words [x] s = None"
| "sum_words (x # y # r) s = sum_words r (s + ucast (be16 x y))"

text \<open>The data loop; a last byte without a partner is the high half of its word.\<close>

fun sum_data :: "bytes \<Rightarrow> UInt \<Rightarrow> UInt" where
  "sum_data [] s = s"
| "sum_data [x] s = s + ucast (be16 x 0)"
| "sum_data (x # y # r) s = sum_data r (s + ucast (be16 x y))"

text \<open>\<open>while (sum >> 16) sum = (sum & 0xFFFF) + (sum >> 16);\<close>\<close>

lemma unat_low16: "unat (s AND 0xFFFF :: UInt) = unat s mod 65536"
proof -
  have "(0xFFFF :: UInt) = mask 16" by (simp add: mask_eq_exp_minus_1)
  then have *: "s AND 0xFFFF = take_bit 16 s" by (simp only: take_bit_eq_mask)
  show ?thesis unfolding * by (simp only: unsigned_take_bit_eq) (simp add: take_bit_eq_mod)
qed

lemma unat_high16: "unat (drop_bit 16 (s :: UInt)) = unat s div 65536"
  by (simp only: unat_drop_bit_eq) (simp add: drop_bit_eq_div)

lemma unat_uint_less: "unat (s :: UInt) < 4294967296"
proof -
  have "unat s < 2 ^ LENGTH(32)" by (rule unsigned_less)
  then show ?thesis by simp
qed

lemma unat_carry_step:
  "unat ((s AND 0xFFFF) + drop_bit 16 (s :: UInt)) = unat s mod 65536 + unat s div 65536"
proof -
  have "unat s div 65536 < 65536" using unat_uint_less [of s] by linarith
  then have "unat (s AND 0xFFFF) + unat (drop_bit 16 s) < 2 ^ LENGTH(32)"
    using mod_less_divisor [of 65536 "unat s"] by (simp add: unat_low16 unat_high16)
  then have "unat ((s AND 0xFFFF) + drop_bit 16 s) = unat (s AND 0xFFFF) + unat (drop_bit 16 s)"
    by (rule unat_add_lem [THEN iffD1])
  then show ?thesis by (simp only: unat_low16 unat_high16)
qed

lemma drop_bit_16_nonzero: "drop_bit 16 (s :: UInt) \<noteq> 0 \<longleftrightarrow> 65536 \<le> unat s"
  by (metis unat_high16 unsigned_eq_0_iff div_eq_0_iff not_less zero_neq_numeral)

lemma fold_carry_decreases:
  assumes "drop_bit 16 (s :: UInt) \<noteq> 0"
  shows "unat ((s AND 0xFFFF) + drop_bit 16 s) < unat s"
proof -
  let ?d = "unat s div 65536"
  have "?d \<noteq> 0" using assms by (simp add: drop_bit_16_nonzero)
  moreover have "65536 * ?d + unat s mod 65536 = unat s" by (rule mult_div_mod_eq)
  ultimately show ?thesis unfolding unat_carry_step by linarith
qed

function fold_carry :: "UInt \<Rightarrow> UInt" where
  "fold_carry s = (if drop_bit 16 s \<noteq> 0 then fold_carry ((s AND 0xFFFF) + drop_bit 16 s) else s)"
  by pat_completeness auto
termination
  by (relation "measure unat") (simp_all only: wf_measure in_measure fold_carry_decreases not_False_eq_True simp_thms)

declare fold_carry.simps [simp del]

text \<open>\<open>res = ~sum\<close>, narrowed to sixteen bits.\<close>

definition checksum_of :: "UInt \<Rightarrow> UShort" where
  "checksum_of s = NOT (ucast (fold_carry s))"

section \<open>The pseudo header\<close>

text \<open>The twelve bytes of \<open>TransportIpv4PseudoHeader::data\<close>.\<close>

definition TransportIpv4PseudoHeader_of_uint :: "UInt \<Rightarrow> UInt \<Rightarrow> UByte \<Rightarrow> UShort \<Rightarrow> bytes" where
  "TransportIpv4PseudoHeader_of_uint src dst protocol len =
     be32_bytes src @ be32_bytes dst @ [0, protocol] @ be16_bytes len"

definition TransportIpv4PseudoHeader_of_addr ::
    "IPv4Address \<Rightarrow> IPv4Address \<Rightarrow> UByte \<Rightarrow> UShort \<Rightarrow> bytes" where
  "TransportIpv4PseudoHeader_of_addr src dst protocol len =
     IPv4Address_to_bytes src @ IPv4Address_to_bytes dst @ [0, protocol] @ be16_bytes len"

text \<open>\<open>get_by_bytes\<close> is the whole array.\<close>

definition TransportIpv4PseudoHeader_get_by_bytes :: "bytes \<Rightarrow> bytes" where
  "TransportIpv4PseudoHeader_get_by_bytes data = data"

text \<open>\<open>get_by_types\<close> copies the bytes into numbers, on a machine that stores the low byte first.\<close>

record TransportIpv4PseudoHeaderTypesBuffer =
  ph_src :: UInt
  ph_dst :: UInt
  ph_zero :: UByte
  ph_protocol :: UByte
  ph_length :: UShort

definition TransportIpv4PseudoHeader_get_by_types :: "bytes \<Rightarrow> TransportIpv4PseudoHeaderTypesBuffer option" where
  "TransportIpv4PseudoHeader_get_by_types data = (case data of
     [a, b, c, d, e, f, g, h, z, protocol, i, j] \<Rightarrow> Some \<lparr> ph_src = be32 d c b a, ph_dst = be32 h g f e, ph_zero = 0,
       ph_protocol = protocol, ph_length = be16 j i \<rparr>
   | _ \<Rightarrow> None)"

lemma pseudo_header_types_swapped:
  "TransportIpv4PseudoHeader_get_by_types (TransportIpv4PseudoHeader_of_addr (IPv4Address a b c d) (IPv4Address e f g h) p n) =
    Some \<lparr> ph_src = be32 d c b a, ph_dst = be32 h g f e, ph_zero = 0, ph_protocol = p,
      ph_length = be16 (byte_of 0 n) (byte_of 8 n) \<rparr>"
  by (simp add: TransportIpv4PseudoHeader_get_by_types_def TransportIpv4PseudoHeader_of_addr_def be16_bytes_def)

lemma pseudo_header_agree:
  "TransportIpv4PseudoHeader_of_uint (IPv4Address_to_uint s) (IPv4Address_to_uint d) p n =
   TransportIpv4PseudoHeader_of_addr s d p n"
  by (cases s; cases d)
    (simp add: TransportIpv4PseudoHeader_of_uint_def TransportIpv4PseudoHeader_of_addr_def
      be32_bytes_def)

lemma length_pseudo_header [simp]:
  "length (TransportIpv4PseudoHeader_of_uint s d p n) = 12"
  "length (TransportIpv4PseudoHeader_of_addr a b p n) = 12"
  by (simp_all add: TransportIpv4PseudoHeader_of_uint_def TransportIpv4PseudoHeader_of_addr_def)

section \<open>What the loops compute\<close>

text \<open>The sum of the sixteen bit words of a byte string, an odd tail padded with zero.\<close>

fun words_sum :: "bytes \<Rightarrow> nat" where
  "words_sum [] = 0"
| "words_sum [x] = unat (be16 x 0)"
| "words_sum (x # y # r) = unat (be16 x y) + words_sum r"

lemma unat_ushort_less: "unat (x :: UShort) < 65536"
proof -
  have "unat x < 2 ^ LENGTH(16)" by (rule unsigned_less)
  then show ?thesis by simp
qed

lemma ucast_of_nat: "(ucast (x :: UShort) :: UInt) = of_nat (unat x)"
  by simp

lemma sum_words_eq:
  "even (length bs) \<Longrightarrow> sum_words bs s = Some (s + of_nat (words_sum bs))"
  by (induction bs s rule: sum_words.induct) (simp_all add: ucast_of_nat del: of_nat_unat)

lemma sum_words_odd: "odd (length bs) \<Longrightarrow> sum_words bs s = None"
  by (induction bs s rule: sum_words.induct) simp_all

lemma sum_data_eq: "sum_data bs s = s + of_nat (words_sum bs)"
  by (induction bs s rule: sum_data.induct) (simp_all add: ucast_of_nat del: of_nat_unat)

lemma words_sum_append: "even (length xs) \<Longrightarrow> words_sum (xs @ ys) = words_sum xs + words_sum ys"
  by (induction xs rule: words_sum.induct) simp_all

lemma words_sum_bound: "words_sum bs \<le> 65535 * ((length bs + 1) div 2)"
proof (induction bs rule: words_sum.induct)
  case (2 x) then show ?case using unat_ushort_less [of "be16 x 0"] by simp
next
  case (3 x y r) then show ?case using unat_ushort_less [of "be16 x y"] by simp
qed simp

lemma words_sum_bound_le: "length bs \<le> k \<Longrightarrow> words_sum bs \<le> 65535 * ((k + 1) div 2)"
  by (rule order_trans [OF words_sum_bound]) (simp add: div_le_mono)

lemma words_sum_update:
  assumes "even i" "i + 1 < length xs"
  shows "words_sum (xs[i := a, i + 1 := b]) + unat (be16 (xs ! i) (xs ! (i + 1))) =
         words_sum xs + unat (be16 a b)"
  using assms
proof (induction xs arbitrary: i rule: words_sum.induct)
  case (3 x y r)
  show ?case
  proof (cases i)
    case 0 then show ?thesis by simp
  next
    case (Suc j)
    with 3 obtain k where "i = Suc (Suc k)" "even k" by (cases j) auto
    with 3 show ?thesis by simp
  qed
qed auto

section \<open>The carry loop is reduction modulo 65535\<close>

lemma mod_65535_step: "(n mod 65536 + n div 65536) mod 65535 = n mod (65535 :: nat)"
proof -
  have "n = n mod 65536 + n div 65536 + 65535 * (n div 65536)"
    using mod_mult_div_eq [of n 65536] by simp
  then show ?thesis by (metis mod_mult_self2)
qed

lemma fold_carry_spec:
  "unat (fold_carry s) < 65536 \<and> unat (fold_carry s) mod 65535 = unat s mod 65535 \<and>
   (fold_carry s = 0 \<longleftrightarrow> s = 0)"
proof (induction s rule: fold_carry.induct)
  case (1 s)
  let ?t = "(s AND 0xFFFF) + drop_bit 16 s"
  show ?case
  proof (cases "drop_bit 16 s \<noteq> 0")
    case True
    have "?t \<noteq> 0"
    proof
      assume "?t = 0"
      then have "unat s div 65536 = 0" using unat_carry_step [of s] by simp
      with True show False by (simp add: drop_bit_16_nonzero)
    qed
    moreover have "s \<noteq> 0" using True by auto
    moreover have "unat ?t mod 65535 = unat s mod 65535"
      by (simp only: unat_carry_step mod_65535_step)
    ultimately show ?thesis
      using 1 [OF True] True by (subst (1 2 3) fold_carry.simps) simp
  next
    case False
    then show ?thesis
      using drop_bit_16_nonzero [of s] by (subst (1 2 3) fold_carry.simps) simp
  qed
qed

lemma fold_carry_eq_FFFF:
  "fold_carry s = 0xFFFF \<longleftrightarrow> s \<noteq> 0 \<and> unat s mod 65535 = 0"
proof -
  have s: "unat (fold_carry s) < 65536" "unat (fold_carry s) mod 65535 = unat s mod 65535"
    "fold_carry s = 0 \<longleftrightarrow> s = 0" using fold_carry_spec [of s] by auto
  have "fold_carry s = 0xFFFF \<longleftrightarrow> unat (fold_carry s) = 65535"
    using word_unat_eq_iff [of "fold_carry s" "0xFFFF"] by simp
  also have "\<dots> \<longleftrightarrow> unat (fold_carry s) \<noteq> 0 \<and> unat (fold_carry s) mod 65535 = 0"
  proof (cases "unat (fold_carry s) < 65535")
    case False
    then have "unat (fold_carry s) = 65535" using s(1) by linarith
    then show ?thesis by simp
  qed auto
  also have "\<dots> \<longleftrightarrow> s \<noteq> 0 \<and> unat s mod 65535 = 0"
    using s(2,3) by (simp only: unsigned_eq_0_iff)
  finally show ?thesis .
qed

lemma unat_not_ushort: "unat (NOT w :: UShort) = 65535 - unat w"
proof -
  have hi: "uint w < 65536" using unsigned_less [of w, where 'a = int] by simp
  have lo: "0 \<le> uint w" by (rule unsigned_greater_eq)
  have 1: "uint (NOT w) = (- uint w - 1) mod 65536"
    by (simp only: unsigned_not_eq) (simp add: take_bit_eq_mod not_int_def)
  have 2: "(- uint w - 1) mod 65536 = (65535 - uint w) mod 65536"
    using mod_add_self2 [of "- uint w - 1" 65536] by (simp add: algebra_simps)
  have 3: "(65535 - uint w) mod 65536 = 65535 - uint w"
  proof (rule mod_pos_pos_trivial)
    show "0 \<le> 65535 - uint w" using hi by linarith
    show "65535 - uint w < 65536" using lo by linarith
  qed
  have "uint (NOT w) = 65535 - uint w" by (rule trans [OF 1 trans [OF 2 3]])
  then have "unat (NOT w) = nat (65535 - uint w)" by (simp only: unat_eq_nat_uint)
  also have "\<dots> = nat 65535 - nat (uint w)" using lo by (rule nat_diff_distrib) (use hi in linarith)
  finally show ?thesis by simp
qed

lemma unat_checksum_of: "unat (checksum_of s) = 65535 - unat (fold_carry s)"
proof -
  have "unat (fold_carry s) < 65536" using fold_carry_spec by blast
  then have "unat (ucast (fold_carry s) :: UShort) = unat (fold_carry s)"
    by (simp add: unsigned_ucast_eq take_bit_eq_mod)
  then show ?thesis
    by (simp only: checksum_of_def unat_not_ushort)
qed

text \<open>A receiver adds up all words, the stored checksum included, and wants \<open>0xFFFF\<close>.\<close>

definition checksum_valid :: "nat \<Rightarrow> bool" where
  "checksum_valid n = (fold_carry (of_nat n) = 0xFFFF)"

theorem checksum_of_valid:
  assumes "n < 2 ^ 32 - 65536"
  shows "checksum_valid (n + unat (checksum_of (of_nat n)))"
proof -
  let ?s = "of_nat n :: UInt" and ?f = "unat (fold_carry (of_nat n))"
  have s: "unat ?s = n" using assms by (simp add: unat_of_nat)
  have f: "?f < 65536" "?f mod 65535 = n mod 65535" "fold_carry ?s = 0 \<longleftrightarrow> ?s = 0"
    using fold_carry_spec [of ?s] s by auto
  let ?t = "n + (65535 - ?f)"
  have "?t < 2 ^ LENGTH(32)" using assms by simp
  then have t: "unat (of_nat ?t :: UInt) = ?t" by (simp only: unat_of_nat mod_less)
  have "?t mod 65535 = 0"
  proof -
    have "int n mod 65535 = int ?f mod 65535" using f(2) by (metis of_nat_mod of_nat_numeral)
    then have "65535 dvd (int n - int ?f) + 65535" by (simp only: mod_eq_dvd_iff) simp
    moreover have "(int n - int ?f) + 65535 = int ?t" using f(1) by simp
    ultimately have "65535 dvd ?t" by (metis int_dvd_int_iff of_nat_numeral)
    then show ?thesis by simp
  qed
  moreover have "?t \<noteq> 0"
    using f(3) s by (cases "n = 0") auto
  ultimately show ?thesis
    unfolding checksum_valid_def fold_carry_eq_FFFF unat_checksum_of t
    by (metis t unsigned_0)
qed

section \<open>Properties\<close>

text \<open>C25: The end-around carry loop ends on every register value and reduces it modulo 65535 to sixteen
  bits, with zero only from zero: the ones' complement sum of RFC 1071.\<close>

theorem fold_carry_ones_complement:
  "unat (fold_carry s) < 65536 \<and> unat (fold_carry s) mod 65535 = unat s mod 65535 \<and>
   (fold_carry s = 0 \<longleftrightarrow> s = 0)"
  by (rule fold_carry_spec)

end
