(* ===== verification/Ipv4Packet.thy ===== *)
theory Ipv4Packet
  imports Checksum
begin

text \<open>The IPv4 header classes of \<open>qvpn_structures.hpp/.cpp\<close>.  \<open>Ipv4PacketLE\<close> is
  \<open>Ipv4PacketLittleEndian\<close>: it owns the vector \<open>header_\<close>, here a byte list.
  \<open>Ipv4PacketView\<close> keeps pointers into memory it does not own: a record of offsets, and
  every operation takes the memory it reads and returns the memory it wrote.  The interface both
  implement, the C++ concept \<open>Ip4PacketLike\<close>, is the locale \<open>ip4_packet_like\<close>.\<close>

definition default_ip_quart_size :: nat where "default_ip_quart_size = 5"
definition bytes_in_quartet :: nat where "bytes_in_quartet = 4"
definition default_ip_bytes :: nat where
  "default_ip_bytes = default_ip_quart_size * bytes_in_quartet"

lemmas ip_size_defs = default_ip_quart_size_def bytes_in_quartet_def default_ip_bytes_def

text \<open>The bit fields both classes cut out of their bytes.\<close>

definition hi_nibble :: "UByte \<Rightarrow> UByte" where "hi_nibble x = drop_bit 4 x"
definition lo_nibble :: "UByte \<Rightarrow> UByte" where "lo_nibble x = x AND 0xF"
definition ip_offset_of :: "UByte \<Rightarrow> UByte \<Rightarrow> UShort" where
  "ip_offset_of a b = push_bit 5 (ucast (a AND 0x1F)) OR ucast b"

section \<open>The owning class\<close>

definition Ipv4PacketLE_new :: bytes where "Ipv4PacketLE_new = []"

definition Ipv4PacketLE_get_ip_header_length :: "bytes \<Rightarrow> UByte option" where
  "Ipv4PacketLE_get_ip_header_length header = map_option lo_nibble (rd header 0)"

text \<open>\<open>parse_packet\<close> appends the twenty fixed bytes at \<open>begin\<close> and then the options; it does
  not look at \<open>end\<close>.  A header length below five makes the second range end before it begins.\<close>

definition Ipv4PacketLE_parse_packet :: "bytes \<Rightarrow> mem \<Rightarrow> ptr \<Rightarrow> ptr \<Rightarrow> bytes option" where
  "Ipv4PacketLE_parse_packet header m b e = do {
     fixed \<leftarrow> rd_range m b (b + default_ip_bytes);
     let header = header @ fixed;
     hl \<leftarrow> Ipv4PacketLE_get_ip_header_length header;
     let start = b + default_ip_bytes;
     extra \<leftarrow> (if unat hl < default_ip_quart_size then None
       else rd_range m start (start + (unat hl - default_ip_quart_size) * bytes_in_quartet));
     Some (header @ extra) }"

definition Ipv4PacketLE_of_range :: "mem \<Rightarrow> ptr \<Rightarrow> ptr \<Rightarrow> bytes option" where
  "Ipv4PacketLE_of_range m b e = Ipv4PacketLE_parse_packet [] m b e"

definition Ipv4PacketLE_set_data :: "bytes \<Rightarrow> mem \<Rightarrow> ptr \<Rightarrow> ptr \<Rightarrow> bytes option" where
  "Ipv4PacketLE_set_data header m b e = Ipv4PacketLE_parse_packet [] m b e"

definition Ipv4PacketLE_get_size :: "bytes \<Rightarrow> UShort" where
  "Ipv4PacketLE_get_size header = of_nat (length header)"


definition Ipv4PacketLE_get_ip_version :: "bytes \<Rightarrow> NetProtocol option" where
  "Ipv4PacketLE_get_ip_version header = map_option hi_nibble (rd header 0)"

definition Ipv4PacketLE_get_ip_dscp :: "bytes \<Rightarrow> UByte option" where
  "Ipv4PacketLE_get_ip_dscp header = map_option (drop_bit 2) (rd header 1)"

definition Ipv4PacketLE_get_ip_ecn :: "bytes \<Rightarrow> UByte option" where
  "Ipv4PacketLE_get_ip_ecn header = map_option (\<lambda>x. x AND 3) (rd header 1)"

definition Ipv4PacketLE_get_ip_total_length :: "bytes \<Rightarrow> UShort option" where
  "Ipv4PacketLE_get_ip_total_length header = rd16 header 2"

definition Ipv4PacketLE_get_ip_id :: "bytes \<Rightarrow> UShort option" where
  "Ipv4PacketLE_get_ip_id header = rd16 header 4"

definition Ipv4PacketLE_get_ip_flags :: "bytes \<Rightarrow> UByte option" where
  "Ipv4PacketLE_get_ip_flags header = map_option (drop_bit 5) (rd header 6)"

definition Ipv4PacketLE_get_ip_df_flag :: "bytes \<Rightarrow> UByte option" where
  "Ipv4PacketLE_get_ip_df_flag header = map_option (\<lambda>f. drop_bit 1 f AND 1) (Ipv4PacketLE_get_ip_flags header)"

definition Ipv4PacketLE_get_ip_mf_flag :: "bytes \<Rightarrow> UByte option" where
  "Ipv4PacketLE_get_ip_mf_flag header = map_option (\<lambda>f. f AND 1) (Ipv4PacketLE_get_ip_flags header)"

definition Ipv4PacketLE_get_ip_offset :: "bytes \<Rightarrow> UShort option" where
  "Ipv4PacketLE_get_ip_offset header = do { a \<leftarrow> rd header 6; b \<leftarrow> rd header 7; Some (ip_offset_of a b) }"

definition Ipv4PacketLE_get_ip_ttl :: "bytes \<Rightarrow> UByte option" where
  "Ipv4PacketLE_get_ip_ttl header = rd header 8"

definition Ipv4PacketLE_get_ip_protocol :: "bytes \<Rightarrow> TransportProtocol option" where
  "Ipv4PacketLE_get_ip_protocol header = rd header 9"

definition Ipv4PacketLE_get_ip_checksum :: "bytes \<Rightarrow> UShort option" where
  "Ipv4PacketLE_get_ip_checksum header = rd16 header 10"

definition Ipv4PacketLE_get_ip_source :: "bytes \<Rightarrow> IPv4Address option" where
  "Ipv4PacketLE_get_ip_source header = do { a \<leftarrow> rd header 12; b \<leftarrow> rd header 13; c \<leftarrow> rd header 14; d \<leftarrow> rd header 15; Some (IPv4Address a b c d) }"

definition Ipv4PacketLE_get_ip_dest :: "bytes \<Rightarrow> IPv4Address option" where
  "Ipv4PacketLE_get_ip_dest header = do { a \<leftarrow> rd header 16; b \<leftarrow> rd header 17; c \<leftarrow> rd header 18; d \<leftarrow> rd header 19; Some (IPv4Address a b c d) }"

definition Ipv4PacketLE_get_src_addr :: "bytes \<Rightarrow> NetAddr option" where
  "Ipv4PacketLE_get_src_addr header = rd_range header 12 16"

definition Ipv4PacketLE_get_dst_addr :: "bytes \<Rightarrow> NetAddr option" where
  "Ipv4PacketLE_get_dst_addr header = rd_range header 16 20"

definition Ipv4PacketLE_get_protocol_version :: "bytes \<Rightarrow> NetProtocol option" where
  "Ipv4PacketLE_get_protocol_version header = Ipv4PacketLE_get_ip_version header"

definition Ipv4PacketLE_get_transport_protocol :: "bytes \<Rightarrow> TransportProtocol option" where
  "Ipv4PacketLE_get_transport_protocol header = Ipv4PacketLE_get_ip_protocol header"

definition Ipv4PacketLE_get_ip_additional_header :: "bytes \<Rightarrow> bytes option" where
  "Ipv4PacketLE_get_ip_additional_header header = rd_range header default_ip_bytes (length header)"

definition Ipv4PacketLE_set_ip_source :: "bytes \<Rightarrow> IPv4Address \<Rightarrow> bytes option" where
  "Ipv4PacketLE_set_ip_source header src = wr_range header 12 (IPv4Address_to_bytes src)"

definition Ipv4PacketLE_set_ip_dest :: "bytes \<Rightarrow> IPv4Address \<Rightarrow> bytes option" where
  "Ipv4PacketLE_set_ip_dest header dst = wr_range header 16 (IPv4Address_to_bytes dst)"

definition Ipv4PacketLE_set_ip_total_length :: "bytes \<Rightarrow> UShort \<Rightarrow> bytes option" where
  "Ipv4PacketLE_set_ip_total_length header len = wr16 header 2 len"

definition Ipv4PacketLE_set_ip_checksum :: "bytes \<Rightarrow> UShort \<Rightarrow> bytes option" where
  "Ipv4PacketLE_set_ip_checksum header checksum = wr16 header 10 checksum"

definition Ipv4PacketLE_set_src_addr :: "bytes \<Rightarrow> NetAddr \<Rightarrow> bytes option" where
  "Ipv4PacketLE_set_src_addr header net_addr = wr_range header 12 (NetAddr_to_bytes net_addr)"

definition Ipv4PacketLE_set_dst_addr :: "bytes \<Rightarrow> NetAddr \<Rightarrow> bytes option" where
  "Ipv4PacketLE_set_dst_addr header net_addr = wr_range header 16 (NetAddr_to_bytes net_addr)"

text \<open>\<open>to_bytes\<close> and \<open>to_net_bytes\<close> hand out the whole vector; an object made from it
  parses the bytes again, a view points into it.\<close>

definition Ipv4PacketLE_to_bytes :: "bytes \<Rightarrow> bytes" where
  "Ipv4PacketLE_to_bytes header = header"

definition Ipv4PacketLE_to_net_bytes :: "bytes \<Rightarrow> bytes" where
  "Ipv4PacketLE_to_net_bytes header = header"

definition Ipv4PacketLE_to_object :: "bytes \<Rightarrow> bytes option" where
  "Ipv4PacketLE_to_object header = Ipv4PacketLE_of_range header 0 (length header)"

definition Ipv4PacketLE_to_net_object :: "bytes \<Rightarrow> bytes option" where
  "Ipv4PacketLE_to_net_object header = Ipv4PacketLE_of_range header 0 (length header)"

definition Ipv4PacketLE_recalculate_ip_checksum :: "bytes \<Rightarrow> bytes option" where
  "Ipv4PacketLE_recalculate_ip_checksum header = do {
     header \<leftarrow> Ipv4PacketLE_set_ip_checksum header 0;
     s \<leftarrow> sum_words header 0;
     Ipv4PacketLE_set_ip_checksum header (checksum_of s) }"

section \<open>The view class\<close>

record Ipv4PacketView =
  ip4_header :: ptr
  ip4_additional_header :: ptr
  ip4_add_header_size :: int

definition ip4_header_size :: nat where "ip4_header_size = 20"

definition Ipv4PacketView_get_ip_header_length :: "Ipv4PacketView \<Rightarrow> mem \<Rightarrow> UByte option" where
  "Ipv4PacketView_get_ip_header_length v m = map_option lo_nibble (rd m (ip4_header v + 0))"

text \<open>The additional header is counted in words here: \<open>start + (length - 5)\<close> without the factor
  four the owning class has.\<close>

definition Ipv4PacketView_parse_packet :: "mem \<Rightarrow> ptr \<Rightarrow> ptr \<Rightarrow> Ipv4PacketView option" where
  "Ipv4PacketView_parse_packet m b e = do {
     let start = b + default_ip_bytes;
     hl \<leftarrow> Ipv4PacketView_get_ip_header_length
       \<lparr> ip4_header = b, ip4_additional_header = start, ip4_add_header_size = 0 \<rparr> m;
     Some \<lparr> ip4_header = b, ip4_additional_header = start,
            ip4_add_header_size = int (unat hl) - int default_ip_quart_size \<rparr> }"

definition Ipv4PacketView_of_range :: "mem \<Rightarrow> ptr \<Rightarrow> ptr \<Rightarrow> Ipv4PacketView option" where
  "Ipv4PacketView_of_range m b e = Ipv4PacketView_parse_packet m b e"

definition Ipv4PacketView_set_data ::
    "Ipv4PacketView \<Rightarrow> mem \<Rightarrow> ptr \<Rightarrow> ptr \<Rightarrow> Ipv4PacketView option" where
  "Ipv4PacketView_set_data v m b e = Ipv4PacketView_parse_packet m b e"

definition Ipv4PacketView_get_size :: "Ipv4PacketView \<Rightarrow> UShort" where
  "Ipv4PacketView_get_size v = of_int (int ip4_header_size + ip4_add_header_size v)"


definition Ipv4PacketView_get_ip_version :: "Ipv4PacketView \<Rightarrow> mem \<Rightarrow> NetProtocol option" where
  "Ipv4PacketView_get_ip_version v m = map_option hi_nibble (rd m (ip4_header v + 0))"

definition Ipv4PacketView_get_ip_dscp :: "Ipv4PacketView \<Rightarrow> mem \<Rightarrow> UByte option" where
  "Ipv4PacketView_get_ip_dscp v m = map_option (drop_bit 2) (rd m (ip4_header v + 1))"

definition Ipv4PacketView_get_ip_ecn :: "Ipv4PacketView \<Rightarrow> mem \<Rightarrow> UByte option" where
  "Ipv4PacketView_get_ip_ecn v m = map_option (\<lambda>x. x AND 3) (rd m (ip4_header v + 1))"

definition Ipv4PacketView_get_ip_total_length :: "Ipv4PacketView \<Rightarrow> mem \<Rightarrow> UShort option" where
  "Ipv4PacketView_get_ip_total_length v m = rd16 m (ip4_header v + 2)"

definition Ipv4PacketView_get_ip_id :: "Ipv4PacketView \<Rightarrow> mem \<Rightarrow> UShort option" where
  "Ipv4PacketView_get_ip_id v m = rd16 m (ip4_header v + 4)"

definition Ipv4PacketView_get_ip_flags :: "Ipv4PacketView \<Rightarrow> mem \<Rightarrow> UByte option" where
  "Ipv4PacketView_get_ip_flags v m = map_option (drop_bit 5) (rd m (ip4_header v + 6))"

definition Ipv4PacketView_get_ip_df_flag :: "Ipv4PacketView \<Rightarrow> mem \<Rightarrow> UByte option" where
  "Ipv4PacketView_get_ip_df_flag v m = map_option (\<lambda>f. drop_bit 1 f AND 1) (Ipv4PacketView_get_ip_flags v m)"

definition Ipv4PacketView_get_ip_mf_flag :: "Ipv4PacketView \<Rightarrow> mem \<Rightarrow> UByte option" where
  "Ipv4PacketView_get_ip_mf_flag v m = map_option (\<lambda>f. f AND 1) (Ipv4PacketView_get_ip_flags v m)"

definition Ipv4PacketView_get_ip_offset :: "Ipv4PacketView \<Rightarrow> mem \<Rightarrow> UShort option" where
  "Ipv4PacketView_get_ip_offset v m = do { a \<leftarrow> rd m (ip4_header v + 6); b \<leftarrow> rd m (ip4_header v + 7); Some (ip_offset_of a b) }"

definition Ipv4PacketView_get_ip_ttl :: "Ipv4PacketView \<Rightarrow> mem \<Rightarrow> UByte option" where
  "Ipv4PacketView_get_ip_ttl v m = rd m (ip4_header v + 8)"

definition Ipv4PacketView_get_ip_protocol :: "Ipv4PacketView \<Rightarrow> mem \<Rightarrow> TransportProtocol option" where
  "Ipv4PacketView_get_ip_protocol v m = rd m (ip4_header v + 9)"

definition Ipv4PacketView_get_ip_checksum :: "Ipv4PacketView \<Rightarrow> mem \<Rightarrow> UShort option" where
  "Ipv4PacketView_get_ip_checksum v m = rd16 m (ip4_header v + 10)"

definition Ipv4PacketView_get_ip_source :: "Ipv4PacketView \<Rightarrow> mem \<Rightarrow> IPv4Address option" where
  "Ipv4PacketView_get_ip_source v m = do { a \<leftarrow> rd m (ip4_header v + 12); b \<leftarrow> rd m (ip4_header v + 13); c \<leftarrow> rd m (ip4_header v + 14); d \<leftarrow> rd m (ip4_header v + 15); Some (IPv4Address a b c d) }"

definition Ipv4PacketView_get_ip_dest :: "Ipv4PacketView \<Rightarrow> mem \<Rightarrow> IPv4Address option" where
  "Ipv4PacketView_get_ip_dest v m = do { a \<leftarrow> rd m (ip4_header v + 16); b \<leftarrow> rd m (ip4_header v + 17); c \<leftarrow> rd m (ip4_header v + 18); d \<leftarrow> rd m (ip4_header v + 19); Some (IPv4Address a b c d) }"

definition Ipv4PacketView_get_src_addr :: "Ipv4PacketView \<Rightarrow> mem \<Rightarrow> NetAddr option" where
  "Ipv4PacketView_get_src_addr v m = rd_range m (ip4_header v + 12) (ip4_header v + 16)"

definition Ipv4PacketView_get_dst_addr :: "Ipv4PacketView \<Rightarrow> mem \<Rightarrow> NetAddr option" where
  "Ipv4PacketView_get_dst_addr v m = rd_range m (ip4_header v + 16) (ip4_header v + 20)"

definition Ipv4PacketView_get_protocol_version :: "Ipv4PacketView \<Rightarrow> mem \<Rightarrow> NetProtocol option" where
  "Ipv4PacketView_get_protocol_version v m = Ipv4PacketView_get_ip_version v m"

definition Ipv4PacketView_get_transport_protocol :: "Ipv4PacketView \<Rightarrow> mem \<Rightarrow> TransportProtocol option" where
  "Ipv4PacketView_get_transport_protocol v m = Ipv4PacketView_get_ip_protocol v m"

text \<open>Pointer pairs of a view: \<open>[header_, additional_header_ + add_header_size_)\<close>.\<close>

definition Ipv4PacketView_get_ip_additional_header :: "Ipv4PacketView \<Rightarrow> int \<times> int" where
  "Ipv4PacketView_get_ip_additional_header v =
     (int (ip4_additional_header v), int (ip4_additional_header v) + ip4_add_header_size v)"

definition Ipv4PacketView_to_bytes :: "Ipv4PacketView \<Rightarrow> ptr \<times> ptr" where
  "Ipv4PacketView_to_bytes v =
     (ip4_header v, nat (int (ip4_additional_header v) + ip4_add_header_size v))"

definition Ipv4PacketView_to_net_bytes :: "Ipv4PacketView \<Rightarrow> ptr \<times> ptr" where
  "Ipv4PacketView_to_net_bytes v =
     (ip4_header v, nat (int (ip4_additional_header v) + ip4_add_header_size v))"

definition Ipv4PacketView_to_object :: "Ipv4PacketView \<Rightarrow> mem \<Rightarrow> bytes option" where
  "Ipv4PacketView_to_object v m = (case Ipv4PacketView_to_bytes v of (b, e) \<Rightarrow>
     Ipv4PacketLE_of_range m b e)"

definition Ipv4PacketView_to_view :: "Ipv4PacketView \<Rightarrow> mem \<Rightarrow> Ipv4PacketView option" where
  "Ipv4PacketView_to_view v m = (case Ipv4PacketView_to_bytes v of (b, e) \<Rightarrow>
     Ipv4PacketView_of_range m b e)"

definition Ipv4PacketView_to_net_object :: "Ipv4PacketView \<Rightarrow> mem \<Rightarrow> bytes option" where
  "Ipv4PacketView_to_net_object v m = (case Ipv4PacketView_to_bytes v of (b, e) \<Rightarrow>
     Ipv4PacketLE_of_range m b e)"

definition Ipv4PacketView_to_net_view :: "Ipv4PacketView \<Rightarrow> mem \<Rightarrow> Ipv4PacketView option" where
  "Ipv4PacketView_to_net_view v m = (case Ipv4PacketView_to_bytes v of (b, e) \<Rightarrow>
     Ipv4PacketView_of_range m b e)"

definition Ipv4PacketLE_to_view :: "bytes \<Rightarrow> Ipv4PacketView option" where
  "Ipv4PacketLE_to_view header = Ipv4PacketView_of_range header 0 (length header)"

definition Ipv4PacketLE_to_net_view :: "bytes \<Rightarrow> Ipv4PacketView option" where
  "Ipv4PacketLE_to_net_view header = Ipv4PacketView_of_range header 0 (length header)"

definition Ipv4PacketView_set_ip_source :: "Ipv4PacketView \<Rightarrow> mem \<Rightarrow> IPv4Address \<Rightarrow> mem option" where
  "Ipv4PacketView_set_ip_source v m src = wr_range m (ip4_header v + 12) (IPv4Address_to_bytes src)"

definition Ipv4PacketView_set_ip_dest :: "Ipv4PacketView \<Rightarrow> mem \<Rightarrow> IPv4Address \<Rightarrow> mem option" where
  "Ipv4PacketView_set_ip_dest v m dst = wr_range m (ip4_header v + 16) (IPv4Address_to_bytes dst)"

definition Ipv4PacketView_set_ip_total_length :: "Ipv4PacketView \<Rightarrow> mem \<Rightarrow> UShort \<Rightarrow> mem option" where
  "Ipv4PacketView_set_ip_total_length v m len = wr16 m (ip4_header v + 2) len"

definition Ipv4PacketView_set_ip_checksum :: "Ipv4PacketView \<Rightarrow> mem \<Rightarrow> UShort \<Rightarrow> mem option" where
  "Ipv4PacketView_set_ip_checksum v m checksum = wr16 m (ip4_header v + 10) checksum"

definition Ipv4PacketView_set_src_addr :: "Ipv4PacketView \<Rightarrow> mem \<Rightarrow> NetAddr \<Rightarrow> mem option" where
  "Ipv4PacketView_set_src_addr v m net_addr = wr_range m (ip4_header v + 12) (NetAddr_to_bytes net_addr)"

definition Ipv4PacketView_set_dst_addr :: "Ipv4PacketView \<Rightarrow> mem \<Rightarrow> NetAddr \<Rightarrow> mem option" where
  "Ipv4PacketView_set_dst_addr v m net_addr = wr_range m (ip4_header v + 16) (NetAddr_to_bytes net_addr)"

text \<open>The loop over the additional header steps by one: \<open>i++\<close>, each time adding the word at \<open>i\<close>.\<close>

fun sum_overlapping :: "mem \<Rightarrow> ptr \<Rightarrow> nat \<Rightarrow> UInt \<Rightarrow> UInt option" where
  "sum_overlapping m p 0 s = Some s"
| "sum_overlapping m p (Suc n) s = do {
     t \<leftarrow> rd16 m p;
     sum_overlapping m (p + 1) n (s + ucast t) }"

definition Ipv4PacketView_recalculate_ip_checksum :: "Ipv4PacketView \<Rightarrow> mem \<Rightarrow> mem option" where
  "Ipv4PacketView_recalculate_ip_checksum v m = do {
     m \<leftarrow> Ipv4PacketView_set_ip_checksum v m 0;
     fixed \<leftarrow> rd_range m (ip4_header v) (ip4_header v + ip4_header_size);
     s \<leftarrow> sum_words fixed 0;
     s \<leftarrow> sum_overlapping m (ip4_additional_header v) (nat (ip4_add_header_size v)) s;
     Ipv4PacketView_set_ip_checksum v m (checksum_of s) }"

section \<open>Generating a header\<close>

text \<open>The generation strategy; \<open>last_id_\<close> is its only, mutable, member.\<close>

record IPv4DefaultGenStrategy =
  last_id :: UShort

definition IPv4DefaultGenStrategy_new :: IPv4DefaultGenStrategy where
  "IPv4DefaultGenStrategy_new = \<lparr> last_id = 0 \<rparr>"

definition IPv4DefaultGenStrategy_get_ver :: "IPv4DefaultGenStrategy \<Rightarrow> NetProtocol" where
  "IPv4DefaultGenStrategy_get_ver g = NetProtocol_IPv4"
definition IPv4DefaultGenStrategy_get_header_length :: "IPv4DefaultGenStrategy \<Rightarrow> UByte" where
  "IPv4DefaultGenStrategy_get_header_length g = 5"
definition IPv4DefaultGenStrategy_get_dscp :: "IPv4DefaultGenStrategy \<Rightarrow> UByte" where
  "IPv4DefaultGenStrategy_get_dscp g = 0"
definition IPv4DefaultGenStrategy_get_ecn :: "IPv4DefaultGenStrategy \<Rightarrow> UByte" where
  "IPv4DefaultGenStrategy_get_ecn g = 0"
definition IPv4DefaultGenStrategy_get_qos :: "IPv4DefaultGenStrategy \<Rightarrow> UByte" where
  "IPv4DefaultGenStrategy_get_qos g =
     push_bit 6 (IPv4DefaultGenStrategy_get_dscp g) OR (IPv4DefaultGenStrategy_get_ecn g AND 3)"
definition IPv4DefaultGenStrategy_get_id :: "IPv4DefaultGenStrategy \<Rightarrow> UShort" where
  "IPv4DefaultGenStrategy_get_id g = last_id g"
definition IPv4DefaultGenStrategy_get_additional_headers :: "IPv4DefaultGenStrategy \<Rightarrow> bytes" where
  "IPv4DefaultGenStrategy_get_additional_headers g = []"
definition IPv4DefaultGenStrategy_get_next_id ::
    "IPv4DefaultGenStrategy \<Rightarrow> UShort \<times> IPv4DefaultGenStrategy" where
  "IPv4DefaultGenStrategy_get_next_id g = (last_id g + 1, g\<lparr> last_id := last_id g + 1 \<rparr>)"
definition IPv4DefaultGenStrategy_get_ttl :: "IPv4DefaultGenStrategy \<Rightarrow> UByte" where
  "IPv4DefaultGenStrategy_get_ttl g = 64"

lemmas strategy_defs = IPv4DefaultGenStrategy_get_ver_def IPv4DefaultGenStrategy_get_header_length_def
  IPv4DefaultGenStrategy_get_dscp_def IPv4DefaultGenStrategy_get_ecn_def
  IPv4DefaultGenStrategy_get_qos_def IPv4DefaultGenStrategy_get_id_def
  IPv4DefaultGenStrategy_get_additional_headers_def IPv4DefaultGenStrategy_get_next_id_def
  IPv4DefaultGenStrategy_get_ttl_def

text \<open>\<open>generate_object_bytes\<close> with a strategy.  Lengths are computed in \<open>size_t\<close>.  The bytes are
  laid out with a zero checksum and the view class fills it in.\<close>

definition Ipv4PacketLE_generate_object_bytes ::
    "IPv4DefaultGenStrategy \<Rightarrow> NetAddr \<Rightarrow> NetAddr \<Rightarrow> TransportProtocol \<Rightarrow> UShort \<Rightarrow> bool \<Rightarrow> bool \<Rightarrow>
     UShort \<Rightarrow> (bytes \<times> IPv4DefaultGenStrategy) option" where
  "Ipv4PacketLE_generate_object_bytes strategy src dst proto total_length DF MF offset = do {
     let add_headers = IPv4DefaultGenStrategy_get_additional_headers strategy;
     let sz = length add_headers div 4;
     let ver = IPv4DefaultGenStrategy_get_ver strategy;
     let total_h_length = unat (IPv4DefaultGenStrategy_get_header_length strategy) + sz;
     let first_byte = push_bit 4 ver OR (of_nat total_h_length AND 0xF);
     let qos = IPv4DefaultGenStrategy_get_qos strategy;
     let len = unat total_length + total_h_length * 4;
     let (ident, strategy) =
       (let i = IPv4DefaultGenStrategy_get_id strategy
        in if \<not> MF \<and> offset = 0 \<and> i \<noteq> 0
           then IPv4DefaultGenStrategy_get_next_id strategy else (i, strategy));
     let flags_offset = push_bit 6 (of_bool DF) OR push_bit 5 (of_bool MF) OR
       (ucast (drop_bit 11 offset AND 0x1F) :: UByte);
     src4 \<leftarrow> NetAddr_to_ipv4 src;
     dst4 \<leftarrow> NetAddr_to_ipv4 dst;
     let obj_bytes = [first_byte, qos, of_nat (len div 256), of_nat (len mod 256)] @
       be16_bytes ident @ [flags_offset, byte_of 0 offset,
       IPv4DefaultGenStrategy_get_ttl strategy, proto, 0, 0] @
       IPv4Address_to_bytes src4 @ IPv4Address_to_bytes dst4 @ add_headers;
     ip4 \<leftarrow> Ipv4PacketView_of_range obj_bytes 0 (length obj_bytes);
     obj_bytes \<leftarrow> Ipv4PacketView_recalculate_ip_checksum ip4 obj_bytes;
     Some (obj_bytes, strategy) }"

definition Ipv4PacketLE_generate_object ::
    "IPv4DefaultGenStrategy \<Rightarrow> NetAddr \<Rightarrow> NetAddr \<Rightarrow> TransportProtocol \<Rightarrow> UShort \<Rightarrow> bool \<Rightarrow> bool \<Rightarrow>
     UShort \<Rightarrow> (bytes \<times> IPv4DefaultGenStrategy) option" where
  "Ipv4PacketLE_generate_object strategy src dst proto total_length DF MF offset = do {
     (obj_bytes, strategy) \<leftarrow>
       Ipv4PacketLE_generate_object_bytes strategy src dst proto total_length DF MF offset;
     ob \<leftarrow> Ipv4PacketLE_of_range obj_bytes 0 (length obj_bytes);
     Some (ob, strategy) }"

text \<open>The overload that copies the header of a parent packet and readdresses the copy.\<close>

definition Ipv4PacketLE_generate_from_parent ::
    "Ipv4PacketView \<Rightarrow> mem \<Rightarrow> NetAddr \<Rightarrow> NetAddr \<Rightarrow> UShort \<Rightarrow> bytes option" where
  "Ipv4PacketLE_generate_from_parent parent m src dst total_length = do {
     let (b, e) = Ipv4PacketView_to_bytes parent;
     obj_bytes \<leftarrow> rd_range m b e;
     packet \<leftarrow> Ipv4PacketView_of_range obj_bytes 0 (length obj_bytes);
     obj_bytes \<leftarrow> Ipv4PacketView_set_src_addr packet obj_bytes src;
     obj_bytes \<leftarrow> Ipv4PacketView_set_dst_addr packet obj_bytes dst;
     obj_bytes \<leftarrow> Ipv4PacketView_set_ip_total_length packet obj_bytes total_length;
     Ipv4PacketView_recalculate_ip_checksum packet obj_bytes }"

definition Ipv4PacketLE_generate_object_from_parent ::
    "Ipv4PacketView \<Rightarrow> mem \<Rightarrow> NetAddr \<Rightarrow> NetAddr \<Rightarrow> UShort \<Rightarrow> bytes option" where
  "Ipv4PacketLE_generate_object_from_parent parent m src dst total_length = do {
     obj_bytes \<leftarrow> Ipv4PacketLE_generate_from_parent parent m src dst total_length;
     Ipv4PacketLE_of_range obj_bytes 0 (length obj_bytes) }"

text \<open>The view class repeats this overload.\<close>

definition Ipv4PacketView_generate_from_parent ::
    "Ipv4PacketView \<Rightarrow> mem \<Rightarrow> NetAddr \<Rightarrow> NetAddr \<Rightarrow> UShort \<Rightarrow> bytes option" where
  "Ipv4PacketView_generate_from_parent parent m src dst total_length = do {
     let (b, e) = Ipv4PacketView_to_bytes parent;
     obj_bytes \<leftarrow> rd_range m b e;
     packet \<leftarrow> Ipv4PacketView_of_range obj_bytes 0 (length obj_bytes);
     obj_bytes \<leftarrow> Ipv4PacketView_set_src_addr packet obj_bytes src;
     obj_bytes \<leftarrow> Ipv4PacketView_set_dst_addr packet obj_bytes dst;
     obj_bytes \<leftarrow> Ipv4PacketView_set_ip_total_length packet obj_bytes total_length;
     Ipv4PacketView_recalculate_ip_checksum packet obj_bytes }"

definition Ipv4PacketView_generate_object_from_parent ::
    "Ipv4PacketView \<Rightarrow> mem \<Rightarrow> NetAddr \<Rightarrow> NetAddr \<Rightarrow> UShort \<Rightarrow> bytes option" where
  "Ipv4PacketView_generate_object_from_parent parent m src dst total_length = do {
     obj_bytes \<leftarrow> Ipv4PacketView_generate_from_parent parent m src dst total_length;
     Ipv4PacketLE_of_range obj_bytes 0 (length obj_bytes) }"


lemmas ip4_le_get_defs = Ipv4PacketLE_get_ip_header_length_def
  Ipv4PacketLE_get_ip_version_def
  Ipv4PacketLE_get_ip_dscp_def
  Ipv4PacketLE_get_ip_ecn_def
  Ipv4PacketLE_get_ip_total_length_def
  Ipv4PacketLE_get_ip_id_def
  Ipv4PacketLE_get_ip_flags_def
  Ipv4PacketLE_get_ip_df_flag_def
  Ipv4PacketLE_get_ip_mf_flag_def
  Ipv4PacketLE_get_ip_offset_def
  Ipv4PacketLE_get_ip_ttl_def
  Ipv4PacketLE_get_ip_protocol_def
  Ipv4PacketLE_get_ip_checksum_def
  Ipv4PacketLE_get_ip_source_def
  Ipv4PacketLE_get_ip_dest_def
  Ipv4PacketLE_get_src_addr_def
  Ipv4PacketLE_get_dst_addr_def
  Ipv4PacketLE_get_protocol_version_def
  Ipv4PacketLE_get_transport_protocol_def

lemmas ip4_le_set_defs = Ipv4PacketLE_set_ip_source_def
  Ipv4PacketLE_set_ip_dest_def
  Ipv4PacketLE_set_ip_total_length_def
  Ipv4PacketLE_set_ip_checksum_def
  Ipv4PacketLE_set_src_addr_def
  Ipv4PacketLE_set_dst_addr_def

lemmas ip4_view_get_defs = Ipv4PacketView_get_ip_header_length_def
  Ipv4PacketView_get_ip_version_def
  Ipv4PacketView_get_ip_dscp_def
  Ipv4PacketView_get_ip_ecn_def
  Ipv4PacketView_get_ip_total_length_def
  Ipv4PacketView_get_ip_id_def
  Ipv4PacketView_get_ip_flags_def
  Ipv4PacketView_get_ip_df_flag_def
  Ipv4PacketView_get_ip_mf_flag_def
  Ipv4PacketView_get_ip_offset_def
  Ipv4PacketView_get_ip_ttl_def
  Ipv4PacketView_get_ip_protocol_def
  Ipv4PacketView_get_ip_checksum_def
  Ipv4PacketView_get_ip_source_def
  Ipv4PacketView_get_ip_dest_def
  Ipv4PacketView_get_src_addr_def
  Ipv4PacketView_get_dst_addr_def
  Ipv4PacketView_get_protocol_version_def
  Ipv4PacketView_get_transport_protocol_def

lemmas ip4_view_set_defs = Ipv4PacketView_set_ip_source_def
  Ipv4PacketView_set_ip_dest_def
  Ipv4PacketView_set_ip_total_length_def
  Ipv4PacketView_set_ip_checksum_def
  Ipv4PacketView_set_src_addr_def
  Ipv4PacketView_set_dst_addr_def

section \<open>The interface of the IPv4 classes\<close>

text \<open>The operations of the concepts \<open>UnifiedIpPacketLike\<close> and \<open>Ip4PacketLike\<close> that the rest
  of the library uses to readdress a packet, with the laws a caller relies on: a setter stays in
  its buffer, is read back, and leaves the other fields alone.\<close>

locale ip4_packet_like =
  fixes valid :: "'s \<Rightarrow> bool"
    and src :: "'s \<Rightarrow> NetAddr option" and dst :: "'s \<Rightarrow> NetAddr option"
    and total :: "'s \<Rightarrow> UShort option" and proto :: "'s \<Rightarrow> TransportProtocol option"
    and set_src :: "'s \<Rightarrow> NetAddr \<Rightarrow> 's option" and set_dst :: "'s \<Rightarrow> NetAddr \<Rightarrow> 's option"
    and set_total :: "'s \<Rightarrow> UShort \<Rightarrow> 's option" and recalculate :: "'s \<Rightarrow> 's option"
  assumes set_src_law: "valid s \<Longrightarrow> length a = 4 \<Longrightarrow> \<exists>t. set_src s a = Some t \<and> valid t \<and>
      src t = Some a \<and> dst t = dst s \<and> total t = total s \<and> proto t = proto s"
    and set_dst_law: "valid s \<Longrightarrow> length a = 4 \<Longrightarrow> \<exists>t. set_dst s a = Some t \<and> valid t \<and>
      src t = src s \<and> dst t = Some a \<and> total t = total s \<and> proto t = proto s"
    and set_total_law: "valid s \<Longrightarrow> \<exists>t. set_total s n = Some t \<and> valid t \<and>
      src t = src s \<and> dst t = dst s \<and> total t = Some n \<and> proto t = proto s"
    and recalculate_law: "valid s \<Longrightarrow> \<exists>t. recalculate s = Some t \<and> valid t \<and>
      src t = src s \<and> dst t = dst s \<and> total t = total s \<and> proto t = proto s"
begin

lemma readdress:
  assumes "valid s" "length a = 4" "length b = 4"
  shows "\<exists>t. do { s1 \<leftarrow> set_src s a; s2 \<leftarrow> set_dst s1 b; s3 \<leftarrow> set_total s2 n; recalculate s3 } = Some t \<and>
     valid t \<and> src t = Some a \<and> dst t = Some b \<and> total t = Some n \<and> proto t = proto s"
proof -
  obtain s1 where 1: "set_src s a = Some s1" "valid s1" "src s1 = Some a" "proto s1 = proto s"
    using set_src_law [of s a] assms by blast
  obtain s2 where 2: "set_dst s1 b = Some s2" "valid s2" "src s2 = Some a" "dst s2 = Some b"
    "proto s2 = proto s" using set_dst_law [of s1 b] 1 assms by metis
  obtain s3 where 3: "set_total s2 n = Some s3" "valid s3" "src s3 = Some a" "dst s3 = Some b"
    "total s3 = Some n" "proto s3 = proto s" using set_total_law [of s2 n] 2 by metis
  show ?thesis using recalculate_law [of s3] 1 2 3 by auto
qed

end

text \<open>The owning class: at least the fixed header, an even number of bytes.\<close>

definition Ipv4PacketLE_valid :: "bytes \<Rightarrow> bool" where
  "Ipv4PacketLE_valid h = (20 \<le> length h \<and> even (length h))"

lemma Ipv4PacketLE_recalculate_eq:
  assumes "Ipv4PacketLE_valid h" "c = checksum_of (of_nat (words_sum (h[10 := 0, 11 := 0])))"
  shows "Ipv4PacketLE_recalculate_ip_checksum h =
    Some (h[10 := byte_of 8 c, 11 := byte_of 0 c])"
  using assms
  by (simp add: Ipv4PacketLE_recalculate_ip_checksum_def Ipv4PacketLE_set_ip_checksum_def
      wr16_Some sum_words_eq Ipv4PacketLE_valid_def)

interpretation ip4_le: ip4_packet_like Ipv4PacketLE_valid Ipv4PacketLE_get_src_addr
  Ipv4PacketLE_get_dst_addr Ipv4PacketLE_get_ip_total_length Ipv4PacketLE_get_transport_protocol
  Ipv4PacketLE_set_src_addr Ipv4PacketLE_set_dst_addr Ipv4PacketLE_set_ip_total_length
  Ipv4PacketLE_recalculate_ip_checksum
proof unfold_locales
  fix s and a :: NetAddr
  assume "Ipv4PacketLE_valid s" "length a = 4"
  then show "\<exists>t. Ipv4PacketLE_set_src_addr s a = Some t \<and> Ipv4PacketLE_valid t \<and>
      Ipv4PacketLE_get_src_addr t = Some a \<and>
      Ipv4PacketLE_get_dst_addr t = Ipv4PacketLE_get_dst_addr s \<and>
      Ipv4PacketLE_get_ip_total_length t = Ipv4PacketLE_get_ip_total_length s \<and>
      Ipv4PacketLE_get_transport_protocol t = Ipv4PacketLE_get_transport_protocol s"
    by (simp add: Ipv4PacketLE_valid_def ip4_le_get_defs ip4_le_set_defs NetAddr_to_bytes_def
        bytes_simps)
next
  fix s and a :: NetAddr
  assume "Ipv4PacketLE_valid s" "length a = 4"
  then show "\<exists>t. Ipv4PacketLE_set_dst_addr s a = Some t \<and> Ipv4PacketLE_valid t \<and>
      Ipv4PacketLE_get_src_addr t = Ipv4PacketLE_get_src_addr s \<and>
      Ipv4PacketLE_get_dst_addr t = Some a \<and>
      Ipv4PacketLE_get_ip_total_length t = Ipv4PacketLE_get_ip_total_length s \<and>
      Ipv4PacketLE_get_transport_protocol t = Ipv4PacketLE_get_transport_protocol s"
    by (simp add: Ipv4PacketLE_valid_def ip4_le_get_defs ip4_le_set_defs NetAddr_to_bytes_def
        bytes_simps)
next
  fix s and n :: UShort
  assume "Ipv4PacketLE_valid s"
  then show "\<exists>t. Ipv4PacketLE_set_ip_total_length s n = Some t \<and> Ipv4PacketLE_valid t \<and>
      Ipv4PacketLE_get_src_addr t = Ipv4PacketLE_get_src_addr s \<and>
      Ipv4PacketLE_get_dst_addr t = Ipv4PacketLE_get_dst_addr s \<and>
      Ipv4PacketLE_get_ip_total_length t = Some n \<and>
      Ipv4PacketLE_get_transport_protocol t = Ipv4PacketLE_get_transport_protocol s"
    by (simp add: Ipv4PacketLE_valid_def ip4_le_get_defs ip4_le_set_defs bytes_simps)
next
  fix s
  assume "Ipv4PacketLE_valid s"
  then show "\<exists>t. Ipv4PacketLE_recalculate_ip_checksum s = Some t \<and> Ipv4PacketLE_valid t \<and>
      Ipv4PacketLE_get_src_addr t = Ipv4PacketLE_get_src_addr s \<and>
      Ipv4PacketLE_get_dst_addr t = Ipv4PacketLE_get_dst_addr s \<and>
      Ipv4PacketLE_get_ip_total_length t = Ipv4PacketLE_get_ip_total_length s \<and>
      Ipv4PacketLE_get_transport_protocol t = Ipv4PacketLE_get_transport_protocol s"
    by (simp add: Ipv4PacketLE_recalculate_eq [OF _ refl])
      (simp add: Ipv4PacketLE_valid_def ip4_le_get_defs bytes_simps)
qed

text \<open>The view: the header lies in memory, and so does the word after the additional header
  when there is one.\<close>

definition Ipv4PacketView_valid :: "Ipv4PacketView \<Rightarrow> mem \<Rightarrow> bool" where
  "Ipv4PacketView_valid v m =
     (ip4_additional_header v = ip4_header v + 20 \<and> ip4_header v + 20 \<le> length m \<and>
      (0 < ip4_add_header_size v \<longrightarrow>
       ip4_header v + 20 + nat (ip4_add_header_size v) + 1 \<le> length m))"

lemma sum_overlapping_total:
  "p + n < length m \<or> n = 0 \<Longrightarrow> \<exists>s'. sum_overlapping m p n s = Some s'"
  by (induction n arbitrary: p s) (auto simp: rd16_Some)

lemma Ipv4PacketView_recalculate_eq:
  assumes "Ipv4PacketView_valid v m"
  shows "\<exists>c :: UShort. Ipv4PacketView_recalculate_ip_checksum v m =
      Some (m[ip4_header v + 10 := byte_of 8 c, ip4_header v + 11 := byte_of 0 c])"
proof -
  let ?m = "m[ip4_header v + 10 := 0, ip4_header v + 11 := 0]"
  let ?f = "take 20 (drop (ip4_header v) ?m)"
  obtain s where "sum_overlapping ?m (ip4_additional_header v) (nat (ip4_add_header_size v))
      (of_nat (words_sum ?f)) = Some s"
    using sum_overlapping_total [of "ip4_additional_header v" "nat (ip4_add_header_size v)" ?m]
      assms by (fastforce simp: Ipv4PacketView_valid_def)
  then show ?thesis
    using assms by - (rule exI [of _ "checksum_of s"],
      auto simp: Ipv4PacketView_recalculate_ip_checksum_def wr16_Some
        Ipv4PacketView_set_ip_checksum_def rd_range_Some ip4_header_size_def sum_words_eq ac_simps
        Ipv4PacketView_valid_def)
qed

lemma Ipv4PacketView_recalculate_plain:
  assumes "ip4_header v + 20 \<le> length m" "ip4_add_header_size v \<le> 0"
    and "c = checksum_of (of_nat (words_sum (take 20 (drop (ip4_header v)
           (m[ip4_header v + 10 := 0, ip4_header v + 11 := 0])))))"
  shows "Ipv4PacketView_recalculate_ip_checksum v m =
      Some (m[ip4_header v + 10 := byte_of 8 c, ip4_header v + 11 := byte_of 0 c])"
  using assms by (simp add: Ipv4PacketView_recalculate_ip_checksum_def wr16_Some
      Ipv4PacketView_set_ip_checksum_def rd_range_Some ip4_header_size_def sum_words_eq ac_simps)

interpretation ip4_view: ip4_packet_like "Ipv4PacketView_valid v" "Ipv4PacketView_get_src_addr v"
  "Ipv4PacketView_get_dst_addr v" "Ipv4PacketView_get_ip_total_length v"
  "Ipv4PacketView_get_transport_protocol v" "Ipv4PacketView_set_src_addr v"
  "Ipv4PacketView_set_dst_addr v" "Ipv4PacketView_set_ip_total_length v"
  "Ipv4PacketView_recalculate_ip_checksum v" for v
proof unfold_locales
  fix s and a :: NetAddr
  assume "Ipv4PacketView_valid v s" "length a = 4"
  then show "\<exists>t. Ipv4PacketView_set_src_addr v s a = Some t \<and> Ipv4PacketView_valid v t \<and>
      Ipv4PacketView_get_src_addr v t = Some a \<and>
      Ipv4PacketView_get_dst_addr v t = Ipv4PacketView_get_dst_addr v s \<and>
      Ipv4PacketView_get_ip_total_length v t = Ipv4PacketView_get_ip_total_length v s \<and>
      Ipv4PacketView_get_transport_protocol v t = Ipv4PacketView_get_transport_protocol v s"
    by (simp add: Ipv4PacketView_valid_def ip4_view_get_defs ip4_view_set_defs NetAddr_to_bytes_def
        bytes_simps)
next
  fix s and a :: NetAddr
  assume "Ipv4PacketView_valid v s" "length a = 4"
  then show "\<exists>t. Ipv4PacketView_set_dst_addr v s a = Some t \<and> Ipv4PacketView_valid v t \<and>
      Ipv4PacketView_get_src_addr v t = Ipv4PacketView_get_src_addr v s \<and>
      Ipv4PacketView_get_dst_addr v t = Some a \<and>
      Ipv4PacketView_get_ip_total_length v t = Ipv4PacketView_get_ip_total_length v s \<and>
      Ipv4PacketView_get_transport_protocol v t = Ipv4PacketView_get_transport_protocol v s"
    by (simp add: Ipv4PacketView_valid_def ip4_view_get_defs ip4_view_set_defs NetAddr_to_bytes_def
        bytes_simps)
next
  fix s and n :: UShort
  assume "Ipv4PacketView_valid v s"
  then show "\<exists>t. Ipv4PacketView_set_ip_total_length v s n = Some t \<and> Ipv4PacketView_valid v t \<and>
      Ipv4PacketView_get_src_addr v t = Ipv4PacketView_get_src_addr v s \<and>
      Ipv4PacketView_get_dst_addr v t = Ipv4PacketView_get_dst_addr v s \<and>
      Ipv4PacketView_get_ip_total_length v t = Some n \<and>
      Ipv4PacketView_get_transport_protocol v t = Ipv4PacketView_get_transport_protocol v s"
    by (simp add: Ipv4PacketView_valid_def ip4_view_get_defs ip4_view_set_defs bytes_simps)
next
  fix s
  assume v: "Ipv4PacketView_valid v s"
  then obtain c :: UShort where "Ipv4PacketView_recalculate_ip_checksum v s =
      Some (s[ip4_header v + 10 := byte_of 8 c, ip4_header v + 11 := byte_of 0 c])"
    using Ipv4PacketView_recalculate_eq by blast
  with v show "\<exists>t. Ipv4PacketView_recalculate_ip_checksum v s = Some t \<and> Ipv4PacketView_valid v t \<and>
      Ipv4PacketView_get_src_addr v t = Ipv4PacketView_get_src_addr v s \<and>
      Ipv4PacketView_get_dst_addr v t = Ipv4PacketView_get_dst_addr v s \<and>
      Ipv4PacketView_get_ip_total_length v t = Ipv4PacketView_get_ip_total_length v s \<and>
      Ipv4PacketView_get_transport_protocol v t = Ipv4PacketView_get_transport_protocol v s"
    by (simp add: Ipv4PacketView_valid_def ip4_view_get_defs bytes_simps)
qed

section \<open>The stored checksum verifies\<close>

lemma words_sum_checksum:
  assumes i: "even i" "j = i + 1" "j < length h"
    and c: "c = checksum_of (of_nat (words_sum (h[i := 0, j := 0]) + r))"
    and bound: "65535 * ((length h + 1) div 2) + r < 4294901760"
  shows "checksum_valid (words_sum (h[i := byte_of 8 c, j := byte_of 0 c]) + r)"
proof -
  let ?z = "h[i := 0, j := 0]"
  have "words_sum (?z[i := byte_of 8 c, j := byte_of 0 c]) = words_sum ?z + unat c"
    using words_sum_update [of i ?z "byte_of 8 c" "byte_of 0 c"] i by simp
  moreover have "?z[i := byte_of 8 c, j := byte_of 0 c] = h[i := byte_of 8 c, j := byte_of 0 c]"
    using i by simp
  moreover have "words_sum ?z + r < 2 ^ 32 - 65536"
    using words_sum_bound [of ?z] bound by simp
  ultimately show ?thesis
    using checksum_of_valid [of "words_sum ?z + r"] c by (simp add: ac_simps)
qed

lemma Ipv4PacketLE_recalculate_valid:
  assumes "Ipv4PacketLE_valid h" "length h \<le> 65536"
  shows "\<exists>h'. Ipv4PacketLE_recalculate_ip_checksum h = Some h' \<and> length h' = length h \<and>
    checksum_valid (words_sum h')"
  using words_sum_checksum [of 10 11 h _ 0, OF _ _ _ refl] assms
  by (simp add: Ipv4PacketLE_recalculate_eq [OF _ refl] Ipv4PacketLE_valid_def)

section \<open>The generated header\<close>

lemma be16_of_nat: "be16 (of_nat (k div 256)) (of_nat (k mod 256)) = of_nat k"
proof -
  have k: "k div 256 = drop_bit 8 k" "k mod 256 = take_bit 8 k"
    by (simp_all add: drop_bit_eq_div take_bit_eq_mod)
  show ?thesis
    unfolding k be16_def
    by (rule bit_word_eqI)
      (auto simp: bit_or_iff bit_push_bit_iff bit_ucast_iff bit_of_nat_iff possible_bit_word bit_drop_bit_eq
        bit_take_bit_iff)
qed

lemma NetAddr_to_ipv4_length4:
  "length a = 4 \<Longrightarrow> \<exists>i. NetAddr_to_ipv4 a = Some i \<and> IPv4Address_to_bytes i = a"
  by (auto simp: NetAddr_to_ipv4_def rd_def numeral_eq_Suc length_Suc_conv)

lemma generate_object_bytes_layout:
  assumes "length src = 4" "length dst = 4"
  shows "\<exists>(c :: UShort) ident g'. Ipv4PacketLE_generate_object_bytes g src dst proto n DF MF off =
    Some ([0x45, 0, of_nat ((unat n + 20) div 256), of_nat ((unat n + 20) mod 256)] @
      be16_bytes ident @ [push_bit 6 (of_bool DF) OR push_bit 5 (of_bool MF) OR
        ucast (drop_bit 11 off AND 0x1F), byte_of 0 off, 64, proto, byte_of 8 c, byte_of 0 c] @
      src @ dst, g') \<and>
    checksum_valid (words_sum ([0x45, 0, of_nat ((unat n + 20) div 256),
      of_nat ((unat n + 20) mod 256)] @
      be16_bytes ident @ [push_bit 6 (of_bool DF) OR push_bit 5 (of_bool MF) OR
        ucast (drop_bit 11 off AND 0x1F), byte_of 0 off, 64, proto, byte_of 8 c, byte_of 0 c] @
      src @ dst)) \<and> (ident, g') = (if \<not> MF \<and> off = 0 \<and> last_id g \<noteq> 0
        then (last_id g + 1, g\<lparr> last_id := last_id g + 1 \<rparr>) else (last_id g, g))"
proof -
  obtain i4 j4 where i: "NetAddr_to_ipv4 src = Some i4" "IPv4Address_to_bytes i4 = src"
    "NetAddr_to_ipv4 dst = Some j4" "IPv4Address_to_bytes j4 = dst"
    using NetAddr_to_ipv4_length4 assms by blast
  obtain ident g' where g: "(ident, g') = (if \<not> MF \<and> off = 0 \<and> last_id g \<noteq> 0
        then (last_id g + 1, g\<lparr> last_id := last_id g + 1 \<rparr>) else (last_id g, g))"
    by (metis surj_pair)
  let ?f = "push_bit 6 (of_bool DF) OR push_bit 5 (of_bool MF) OR
        (ucast (drop_bit 11 off AND 0x1F) :: UByte)"
  let ?h = "\<lambda>x y. [0x45, 0, of_nat ((unat n + 20) div 256), of_nat ((unat n + 20) mod 256)] @
      be16_bytes ident @ [?f, byte_of 0 off, 64, proto, x, y] @ src @ dst"
  let ?v = "\<lparr> ip4_header = 0, ip4_additional_header = 20, ip4_add_header_size = 0 \<rparr>"
  have len: "length (?h x y) = 20" for x y using assms by simp
  have upd: "(?h 0 0)[10 := x, 11 := y] = ?h x y" for x y
    by (simp add: be16_bytes_def)
  have zero: "(?h 0 0)[10 := 0, 11 := 0] = ?h 0 0" by (rule upd)
  have view: "Ipv4PacketView_of_range (?h 0 0) 0 20 = Some ?v"
    by (simp add: Ipv4PacketView_of_range_def Ipv4PacketView_parse_packet_def
        Ipv4PacketView_get_ip_header_length_def rd_def
        lo_nibble_def ip_size_defs)
  define c where "c = checksum_of (of_nat (words_sum (?h 0 0)))"
  have take_all: "take 20 (?h x y) = ?h x y" for x y using len [of x y] by simp
  have re: "Ipv4PacketView_recalculate_ip_checksum ?v (?h 0 0) = Some (?h (byte_of 8 c) (byte_of 0 c))"
    using Ipv4PacketView_recalculate_plain [of ?v "?h 0 0" c] len [of 0 0] upd zero take_all
    by (simp only: c_def Ipv4PacketView.simps add_0 drop0 order_refl simp_thms)
  have val: "checksum_valid (words_sum (?h (byte_of 8 c) (byte_of 0 c)))"
    using words_sum_checksum [of 10 11 "?h 0 0" c 0, unfolded c_def] len [of 0 0] upd zero
    unfolding c_def by simp
  have step: "(if \<not> MF \<and> off = 0 \<and> last_id g \<noteq> 0
      then (last_id g + 1, g\<lparr> last_id := last_id g + 1 \<rparr>) else (last_id g, g)) = (ident, g')"
    using g by simp
  have nums: "push_bit 4 4 OR (of_nat 5 AND 0xF) = (0x45 :: UByte)" "unat (5 :: UByte) + length ([] :: bytes) div 4 = 5"
    "push_bit 6 0 OR (0 AND 3) = (0 :: UByte)" "5 * 4 = (20 :: nat)" by simp_all
  have "Ipv4PacketLE_generate_object_bytes g src dst proto n DF MF off =
      Some (?h (byte_of 8 c) (byte_of 0 c), g')"
    unfolding Ipv4PacketLE_generate_object_bytes_def strategy_defs Let_def NetProtocol_IPv4_def
      step nums prod.case i bind.bind_lunit append_Nil2 len view re ..
  with val g show ?thesis by blast
qed

section \<open>Properties\<close>

text \<open>Recalculating the checksum of an owned IPv4 header succeeds, changes the two checksum bytes
  only, and the words of the resulting header fold to \<open>0xFFFF\<close>, so a receiver accepts it.\<close>

lemma Ipv4PacketLE_checksum_verifies:
  assumes "Ipv4PacketLE_valid h" "length h \<le> 65536"
  shows "\<exists>h'. Ipv4PacketLE_recalculate_ip_checksum h = Some h' \<and> length h' = length h \<and>
    (\<forall>i. i \<noteq> 10 \<longrightarrow> i \<noteq> 11 \<longrightarrow> h' ! i = h ! i) \<and> checksum_valid (words_sum h')"
proof -
  obtain h' where "Ipv4PacketLE_recalculate_ip_checksum h = Some h'" "checksum_valid (words_sum h')"
    using Ipv4PacketLE_recalculate_valid [OF assms] by blast
  then show ?thesis using Ipv4PacketLE_recalculate_eq [OF assms(1) refl] by auto
qed

text \<open>Readdressing a packet in memory, the way the tunnel ends do (new source, new destination, new
  total length, checksum), succeeds on every view whose header lies in memory; the fields read back
  as written and the transport protocol is untouched.\<close>

lemma Ipv4PacketView_readdress:
  assumes "Ipv4PacketView_valid v m" "length a = 4" "length b = 4"
  shows "\<exists>m'. do { m1 \<leftarrow> Ipv4PacketView_set_src_addr v m a; m2 \<leftarrow> Ipv4PacketView_set_dst_addr v m1 b;
      m3 \<leftarrow> Ipv4PacketView_set_ip_total_length v m2 n;
      Ipv4PacketView_recalculate_ip_checksum v m3 } = Some m' \<and>
    Ipv4PacketView_valid v m' \<and> Ipv4PacketView_get_src_addr v m' = Some a \<and>
    Ipv4PacketView_get_dst_addr v m' = Some b \<and> Ipv4PacketView_get_ip_total_length v m' = Some n \<and>
    Ipv4PacketView_get_transport_protocol v m' = Ipv4PacketView_get_transport_protocol v m"
  using assms by (rule ip4_view.readdress)

end
