(* ===== verification/TcpPacket.thy ===== *)
theory TcpPacket
  imports Ipv4Packet
begin

text \<open>The TCP header classes \<open>TcpPacketLittleEndian\<close> (here \<open>TcpPacketLE\<close>, the bytes of its vector
  \<open>header_\<close>) and \<open>TcpPacketView\<close> (a record of pointers into memory) of
  \<open>qvpn_structures.cpp\<close>.  The part of the concept \<open>UnifiedTransportLike\<close> the proxy code
  relies on is the locale \<open>transport_like\<close>, which the UDP classes implement too.\<close>

definition default_tcp_quart_size :: nat where "default_tcp_quart_size = 5"
definition default_tcp_size :: nat where "default_tcp_size = default_tcp_quart_size * bytes_in_quartet"

lemmas tcp_size_defs = default_tcp_quart_size_def default_tcp_size_def bytes_in_quartet_def

text \<open>\<open>(h[12] & 0x1) << 1 | h[13]\<close>\<close>

definition tcp_flags_of :: "UByte \<Rightarrow> UByte \<Rightarrow> TcpFlagsObject" where
  "tcp_flags_of a b = push_bit 1 (ucast (a AND 1)) OR ucast b"

definition TcpPacket_protocol_criteria :: "UByte \<Rightarrow> bool" where
  "TcpPacket_protocol_criteria protocol = (protocol = TransportProtocol_TCP)"

text \<open>A data range \<open>[begin, end)\<close> that a \<open>for (i = begin; i < end; ...)\<close> loop walks.\<close>

definition loop_range :: "mem \<Rightarrow> ptr \<Rightarrow> ptr \<Rightarrow> bytes option" where
  "loop_range m b e = (if b < e then rd_range m b e else Some [])"

section \<open>The owning class\<close>

definition TcpPacketLE_new :: bytes where "TcpPacketLE_new = []"

definition TcpPacketLE_get_tcp_header_length :: "bytes \<Rightarrow> UByte option" where
  "TcpPacketLE_get_tcp_header_length header = map_option hi_nibble (rd header 12)"

definition TcpPacketLE_parse_packet :: "bytes \<Rightarrow> mem \<Rightarrow> ptr \<Rightarrow> ptr \<Rightarrow> bytes option" where
  "TcpPacketLE_parse_packet header m b e = do {
     fixed \<leftarrow> rd_range m b (b + default_tcp_size);
     let header = header @ fixed;
     hl \<leftarrow> TcpPacketLE_get_tcp_header_length header;
     let start = b + default_tcp_size;
     extra \<leftarrow> (if unat hl < default_tcp_quart_size then None
       else rd_range m start (start + (unat hl - default_tcp_quart_size) * bytes_in_quartet));
     Some (header @ extra) }"

definition TcpPacketLE_of_range :: "mem \<Rightarrow> ptr \<Rightarrow> ptr \<Rightarrow> bytes option" where
  "TcpPacketLE_of_range m b e = TcpPacketLE_parse_packet [] m b e"

text \<open>\<open>set_data\<close> does not clear the vector: the new bytes are appended to the old header.\<close>

definition TcpPacketLE_set_data :: "bytes \<Rightarrow> mem \<Rightarrow> ptr \<Rightarrow> ptr \<Rightarrow> bytes option" where
  "TcpPacketLE_set_data header m b e = TcpPacketLE_parse_packet header m b e"

definition TcpPacketLE_get_size :: "bytes \<Rightarrow> UShort" where
  "TcpPacketLE_get_size header = of_nat (length header)"

definition TcpPacketLE_get_tcp_options :: "bytes \<Rightarrow> bytes option" where
  "TcpPacketLE_get_tcp_options header = rd_range header default_tcp_size (length header)"

definition TcpPacketLE_get_tcp_src_port :: "bytes \<Rightarrow> UShort option" where
  "TcpPacketLE_get_tcp_src_port header = rd16 header 0"

definition TcpPacketLE_get_tcp_dst_port :: "bytes \<Rightarrow> UShort option" where
  "TcpPacketLE_get_tcp_dst_port header = rd16 header 2"

definition TcpPacketLE_get_tcp_seq_number :: "bytes \<Rightarrow> UInt option" where
  "TcpPacketLE_get_tcp_seq_number header = rd32 header 4"

definition TcpPacketLE_get_tcp_ack_number :: "bytes \<Rightarrow> UInt option" where
  "TcpPacketLE_get_tcp_ack_number header = rd32 header 8"

definition TcpPacketLE_get_tcp_reserved :: "bytes \<Rightarrow> UByte option" where
  "TcpPacketLE_get_tcp_reserved header = map_option (\<lambda>x. drop_bit 1 x AND 0x7) (rd header 12)"

definition TcpPacketLE_get_tcp_flags :: "bytes \<Rightarrow> TcpFlagsObject option" where
  "TcpPacketLE_get_tcp_flags header = do { a \<leftarrow> rd header 12; b \<leftarrow> rd header 13; Some (tcp_flags_of a b) }"

definition TcpPacketLE_get_tcp_window_size :: "bytes \<Rightarrow> UShort option" where
  "TcpPacketLE_get_tcp_window_size header = rd16 header 14"

definition TcpPacketLE_get_tcp_checksum :: "bytes \<Rightarrow> UShort option" where
  "TcpPacketLE_get_tcp_checksum header = rd16 header 16"

definition TcpPacketLE_get_tcp_urgent_pointer :: "bytes \<Rightarrow> UShort option" where
  "TcpPacketLE_get_tcp_urgent_pointer header = rd16 header 18"

definition TcpPacketLE_get_src_port :: "bytes \<Rightarrow> UShort option" where
  "TcpPacketLE_get_src_port header = TcpPacketLE_get_tcp_src_port header"

definition TcpPacketLE_get_dst_port :: "bytes \<Rightarrow> UShort option" where
  "TcpPacketLE_get_dst_port header = TcpPacketLE_get_tcp_dst_port header"

definition TcpPacketLE_get_transport_length :: "bytes \<Rightarrow> UShort option" where
  "TcpPacketLE_get_transport_length header = map_option (\<lambda>l. ucast l * 4) (TcpPacketLE_get_tcp_header_length header)"

definition TcpPacketLE_get_sender_number :: "bytes \<Rightarrow> UInt option" where
  "TcpPacketLE_get_sender_number header = TcpPacketLE_get_tcp_seq_number header"

definition TcpPacketLE_get_receiver_number :: "bytes \<Rightarrow> UInt option" where
  "TcpPacketLE_get_receiver_number header = TcpPacketLE_get_tcp_ack_number header"

definition TcpPacketLE_get_flags :: "bytes \<Rightarrow> UShort option" where
  "TcpPacketLE_get_flags header = TcpPacketLE_get_tcp_flags header"

definition TcpPacketLE_is_reset_connection_packet :: "bytes \<Rightarrow> bool option" where
  "TcpPacketLE_is_reset_connection_packet header = do { flags \<leftarrow> TcpPacketLE_get_tcp_flags header;
     Some (TcpFlagsObject_get_fin flags = 1 \<or> TcpFlagsObject_get_rst flags = 1) }"

definition TcpPacketLE_set_tcp_checksum :: "bytes \<Rightarrow> UShort \<Rightarrow> bytes option" where
  "TcpPacketLE_set_tcp_checksum header checksum = wr16 header 16 checksum"

definition TcpPacketLE_set_dst_port :: "bytes \<Rightarrow> UShort \<Rightarrow> bytes option" where
  "TcpPacketLE_set_dst_port header port = wr16 header 2 port"

definition TcpPacketLE_set_src_port :: "bytes \<Rightarrow> UShort \<Rightarrow> bytes option" where
  "TcpPacketLE_set_src_port header port = wr16 header 0 port"

definition TcpPacketLE_set_transport_length :: "bytes \<Rightarrow> UShort \<Rightarrow> bytes option" where
  "TcpPacketLE_set_transport_length header bytes_length = do { x \<leftarrow> rd header 12;
     wr header 12 (x OR push_bit 4 (ucast (bytes_length div 4))) }"

definition TcpPacketLE_set_transport_checksum :: "bytes \<Rightarrow> UShort \<Rightarrow> bytes option" where
  "TcpPacketLE_set_transport_checksum header checksum = TcpPacketLE_set_tcp_checksum header checksum"

definition TcpPacketLE_set_tcp_seq_number :: "bytes \<Rightarrow> UInt \<Rightarrow> bytes option" where
  "TcpPacketLE_set_tcp_seq_number header number = wr32 header 4 number"

definition TcpPacketLE_set_tcp_ack_number :: "bytes \<Rightarrow> UInt \<Rightarrow> bytes option" where
  "TcpPacketLE_set_tcp_ack_number header number = wr32 header 8 number"

definition TcpPacketLE_set_tcp_flags :: "bytes \<Rightarrow> TcpFlagsObject \<Rightarrow> bytes option" where
  "TcpPacketLE_set_tcp_flags header flags = do { x \<leftarrow> rd header 12;
     header \<leftarrow> wr header 12 (x OR TcpFlagsObject_get_ns flags);
     wr header 13 (TcpFlagsObject_get_without_ns flags) }"

definition TcpPacketLE_set_tcp_offset :: "bytes \<Rightarrow> UByte \<Rightarrow> bytes option" where
  "TcpPacketLE_set_tcp_offset header offset = do { x \<leftarrow> rd header 12;
     wr header 12 (push_bit 4 offset OR (x AND 0x0F)) }"

definition TcpPacketLE_set_tcp_window :: "bytes \<Rightarrow> UShort \<Rightarrow> bytes option" where
  "TcpPacketLE_set_tcp_window header window = wr16 header 14 window"

definition TcpPacketLE_set_tcp_urgent :: "bytes \<Rightarrow> UShort \<Rightarrow> bytes option" where
  "TcpPacketLE_set_tcp_urgent header urgent = wr16 header 18 urgent"

definition TcpPacketLE_set_tcp_length :: "bytes \<Rightarrow> UByte \<Rightarrow> bytes option" where
  "TcpPacketLE_set_tcp_length header word_length = do { x \<leftarrow> rd header 12;
     wr header 12 (x OR push_bit 4 word_length) }"

definition TcpPacketLE_set_sender_number :: "bytes \<Rightarrow> UInt \<Rightarrow> bytes option" where
  "TcpPacketLE_set_sender_number header number = TcpPacketLE_set_tcp_seq_number header number"

definition TcpPacketLE_set_receiver_number :: "bytes \<Rightarrow> UInt \<Rightarrow> bytes option" where
  "TcpPacketLE_set_receiver_number header number = TcpPacketLE_set_tcp_ack_number header number"

definition TcpPacketLE_set_flags :: "bytes \<Rightarrow> UShort \<Rightarrow> bytes option" where
  "TcpPacketLE_set_flags header flags = TcpPacketLE_set_tcp_flags header flags"

text \<open>\<open>set_tcp_options\<close> overwrites the common prefix and appends what is longer; a shorter list
  leaves the old tail in place.\<close>

definition TcpPacketLE_set_tcp_options :: "bytes \<Rightarrow> bytes \<Rightarrow> bytes option" where
  "TcpPacketLE_set_tcp_options header opts = do {
     old \<leftarrow> TcpPacketLE_get_tcp_options header;
     let sz = min (length opts) (length old);
     header \<leftarrow> wr_range header default_tcp_size (take sz opts);
     Some (if length old < length opts then header @ drop sz opts else header) }"

definition TcpPacketLE_to_bytes :: "bytes \<Rightarrow> bytes" where
  "TcpPacketLE_to_bytes header = header"

definition TcpPacketLE_to_transport_bytes :: "bytes \<Rightarrow> bytes" where
  "TcpPacketLE_to_transport_bytes header = header"

definition TcpPacketLE_to_object :: "bytes \<Rightarrow> bytes option" where
  "TcpPacketLE_to_object header = TcpPacketLE_of_range header 0 (length header)"

definition TcpPacketLE_to_transport_object :: "bytes \<Rightarrow> bytes option" where
  "TcpPacketLE_to_transport_object header = TcpPacketLE_of_range header 0 (length header)"

definition TcpPacketLE_recalculate_transport_checksum :: "bytes \<Rightarrow> bytes \<Rightarrow> bytes \<Rightarrow> bytes option" where
  "TcpPacketLE_recalculate_transport_checksum header pseudo data = do {
     header \<leftarrow> TcpPacketLE_set_tcp_checksum header 0;
     s \<leftarrow> sum_words pseudo 0;
     s \<leftarrow> sum_words header s;
     TcpPacketLE_set_tcp_checksum header (checksum_of (sum_data data s)) }"

text \<open>The layout \<open>generate_object_bytes\<close> pushes, with a zero checksum.\<close>

definition TcpPacketLE_generate_object_bytes ::
    "UShort \<Rightarrow> UShort \<Rightarrow> UInt \<Rightarrow> UInt \<Rightarrow> UByte \<Rightarrow> TcpFlagsObject \<Rightarrow> UShort \<Rightarrow> UShort \<Rightarrow> bytes \<Rightarrow> bytes" where
  "TcpPacketLE_generate_object_bytes src_port dst_port seq ack offset flags window_size urgent opts =
     be16_bytes src_port @ be16_bytes dst_port @ be32_bytes seq @ be32_bytes ack @
     [push_bit 4 offset OR (TcpFlagsObject_get_ns flags AND 1), TcpFlagsObject_get_without_ns flags] @
     be16_bytes window_size @ [0, 0] @ be16_bytes urgent @ opts"

definition TcpPacketLE_generate_object ::
    "UShort \<Rightarrow> UShort \<Rightarrow> UInt \<Rightarrow> UInt \<Rightarrow> UByte \<Rightarrow> TcpFlagsObject \<Rightarrow> UShort \<Rightarrow> UShort \<Rightarrow> bytes \<Rightarrow>
     bytes option" where
  "TcpPacketLE_generate_object src_port dst_port seq ack offset flags window_size urgent opts =
     (let obj = TcpPacketLE_generate_object_bytes src_port dst_port seq ack offset flags window_size
            urgent opts
      in TcpPacketLE_of_range obj 0 (length obj))"

section \<open>The view class\<close>

record TcpPacketView =
  tcp_header :: ptr
  tcp_options :: ptr
  tcp_options_size :: int

definition tcp_header_size :: nat where "tcp_header_size = 20"

definition TcpPacketView_get_tcp_header_length :: "TcpPacketView \<Rightarrow> mem \<Rightarrow> UByte option" where
  "TcpPacketView_get_tcp_header_length v m = map_option hi_nibble (rd m (tcp_header v + 12))"

definition TcpPacketView_parse_packet :: "mem \<Rightarrow> ptr \<Rightarrow> ptr \<Rightarrow> TcpPacketView option" where
  "TcpPacketView_parse_packet m b e = do {
     let start = b + default_tcp_size;
     hl \<leftarrow> TcpPacketView_get_tcp_header_length
       \<lparr> tcp_header = b, tcp_options = start, tcp_options_size = 0 \<rparr> m;
     Some \<lparr> tcp_header = b, tcp_options = start,
            tcp_options_size = (int (unat hl) - int default_tcp_quart_size) * int bytes_in_quartet \<rparr> }"

definition TcpPacketView_of_range :: "mem \<Rightarrow> ptr \<Rightarrow> ptr \<Rightarrow> TcpPacketView option" where
  "TcpPacketView_of_range m b e = TcpPacketView_parse_packet m b e"

definition TcpPacketView_set_data :: "TcpPacketView \<Rightarrow> mem \<Rightarrow> ptr \<Rightarrow> ptr \<Rightarrow> TcpPacketView option" where
  "TcpPacketView_set_data v m b e = TcpPacketView_parse_packet m b e"

definition TcpPacketView_get_size :: "TcpPacketView \<Rightarrow> UShort" where
  "TcpPacketView_get_size v = of_int (int tcp_header_size + tcp_options_size v)"

text \<open>Pointer pairs; the end is computed with the signed option size.\<close>

definition TcpPacketView_get_tcp_options :: "TcpPacketView \<Rightarrow> ptr \<times> ptr" where
  "TcpPacketView_get_tcp_options v = (tcp_options v, nat (int (tcp_options v) + tcp_options_size v))"

definition TcpPacketView_get_tcp_header :: "TcpPacketView \<Rightarrow> ptr \<times> ptr" where
  "TcpPacketView_get_tcp_header v = (tcp_header v, tcp_header v + tcp_header_size)"

definition TcpPacketView_to_bytes :: "TcpPacketView \<Rightarrow> ptr \<times> ptr" where
  "TcpPacketView_to_bytes v = (tcp_header v, nat (int (tcp_options v) + tcp_options_size v))"

definition TcpPacketView_to_transport_bytes :: "TcpPacketView \<Rightarrow> ptr \<times> ptr" where
  "TcpPacketView_to_transport_bytes v = (tcp_header v, nat (int (tcp_options v) + tcp_options_size v))"

definition TcpPacketView_to_object :: "TcpPacketView \<Rightarrow> mem \<Rightarrow> bytes option" where
  "TcpPacketView_to_object v m = (case TcpPacketView_to_bytes v of (b, e) \<Rightarrow> TcpPacketLE_of_range m b e)"

definition TcpPacketView_to_view :: "TcpPacketView \<Rightarrow> mem \<Rightarrow> TcpPacketView option" where
  "TcpPacketView_to_view v m = (case TcpPacketView_to_bytes v of (b, e) \<Rightarrow> TcpPacketView_of_range m b e)"

definition TcpPacketView_to_transport_object :: "TcpPacketView \<Rightarrow> mem \<Rightarrow> bytes option" where
  "TcpPacketView_to_transport_object v m =
     (case TcpPacketView_to_bytes v of (b, e) \<Rightarrow> TcpPacketLE_of_range m b e)"

definition TcpPacketView_to_transport_view :: "TcpPacketView \<Rightarrow> mem \<Rightarrow> TcpPacketView option" where
  "TcpPacketView_to_transport_view v m =
     (case TcpPacketView_to_bytes v of (b, e) \<Rightarrow> TcpPacketView_of_range m b e)"

definition TcpPacketLE_to_view :: "bytes \<Rightarrow> TcpPacketView option" where
  "TcpPacketLE_to_view header = TcpPacketView_of_range header 0 (length header)"

definition TcpPacketLE_to_transport_view :: "bytes \<Rightarrow> TcpPacketView option" where
  "TcpPacketLE_to_transport_view header = TcpPacketView_of_range header 0 (length header)"

definition TcpPacketView_get_tcp_src_port :: "TcpPacketView \<Rightarrow> mem \<Rightarrow> UShort option" where
  "TcpPacketView_get_tcp_src_port v m = rd16 m (tcp_header v + 0)"

definition TcpPacketView_get_tcp_dst_port :: "TcpPacketView \<Rightarrow> mem \<Rightarrow> UShort option" where
  "TcpPacketView_get_tcp_dst_port v m = rd16 m (tcp_header v + 2)"

definition TcpPacketView_get_tcp_seq_number :: "TcpPacketView \<Rightarrow> mem \<Rightarrow> UInt option" where
  "TcpPacketView_get_tcp_seq_number v m = rd32 m (tcp_header v + 4)"

definition TcpPacketView_get_tcp_ack_number :: "TcpPacketView \<Rightarrow> mem \<Rightarrow> UInt option" where
  "TcpPacketView_get_tcp_ack_number v m = rd32 m (tcp_header v + 8)"

definition TcpPacketView_get_tcp_reserved :: "TcpPacketView \<Rightarrow> mem \<Rightarrow> UByte option" where
  "TcpPacketView_get_tcp_reserved v m = map_option (\<lambda>x. x AND 0xF) (rd m (tcp_header v + 12))"

definition TcpPacketView_get_tcp_flags :: "TcpPacketView \<Rightarrow> mem \<Rightarrow> TcpFlagsObject option" where
  "TcpPacketView_get_tcp_flags v m = do { a \<leftarrow> rd m (tcp_header v + 12); b \<leftarrow> rd m (tcp_header v + 13); Some (tcp_flags_of a b) }"

definition TcpPacketView_get_tcp_window_size :: "TcpPacketView \<Rightarrow> mem \<Rightarrow> UShort option" where
  "TcpPacketView_get_tcp_window_size v m = rd16 m (tcp_header v + 14)"

definition TcpPacketView_get_tcp_checksum :: "TcpPacketView \<Rightarrow> mem \<Rightarrow> UShort option" where
  "TcpPacketView_get_tcp_checksum v m = rd16 m (tcp_header v + 16)"

definition TcpPacketView_get_tcp_urgent_pointer :: "TcpPacketView \<Rightarrow> mem \<Rightarrow> UShort option" where
  "TcpPacketView_get_tcp_urgent_pointer v m = rd16 m (tcp_header v + 18)"

definition TcpPacketView_get_src_port :: "TcpPacketView \<Rightarrow> mem \<Rightarrow> UShort option" where
  "TcpPacketView_get_src_port v m = TcpPacketView_get_tcp_src_port v m"

definition TcpPacketView_get_dst_port :: "TcpPacketView \<Rightarrow> mem \<Rightarrow> UShort option" where
  "TcpPacketView_get_dst_port v m = TcpPacketView_get_tcp_dst_port v m"

definition TcpPacketView_get_transport_length :: "TcpPacketView \<Rightarrow> mem \<Rightarrow> UShort option" where
  "TcpPacketView_get_transport_length v m = map_option (\<lambda>l. ucast l * 4) (TcpPacketView_get_tcp_header_length v m)"

definition TcpPacketView_get_sender_number :: "TcpPacketView \<Rightarrow> mem \<Rightarrow> UInt option" where
  "TcpPacketView_get_sender_number v m = TcpPacketView_get_tcp_seq_number v m"

definition TcpPacketView_get_receiver_number :: "TcpPacketView \<Rightarrow> mem \<Rightarrow> UInt option" where
  "TcpPacketView_get_receiver_number v m = TcpPacketView_get_tcp_ack_number v m"

definition TcpPacketView_get_flags :: "TcpPacketView \<Rightarrow> mem \<Rightarrow> UShort option" where
  "TcpPacketView_get_flags v m = TcpPacketView_get_tcp_flags v m"

definition TcpPacketView_is_reset_connection_packet :: "TcpPacketView \<Rightarrow> mem \<Rightarrow> bool option" where
  "TcpPacketView_is_reset_connection_packet v m = do { flags \<leftarrow> TcpPacketView_get_tcp_flags v m;
     Some (TcpFlagsObject_get_fin flags = 1 \<or> TcpFlagsObject_get_rst flags = 1) }"

definition TcpPacketView_set_tcp_checksum :: "TcpPacketView \<Rightarrow> mem \<Rightarrow> UShort \<Rightarrow> mem option" where
  "TcpPacketView_set_tcp_checksum v m checksum = wr16 m (tcp_header v + 16) checksum"

definition TcpPacketView_set_dst_port :: "TcpPacketView \<Rightarrow> mem \<Rightarrow> UShort \<Rightarrow> mem option" where
  "TcpPacketView_set_dst_port v m port = wr16 m (tcp_header v + 2) port"

definition TcpPacketView_set_src_port :: "TcpPacketView \<Rightarrow> mem \<Rightarrow> UShort \<Rightarrow> mem option" where
  "TcpPacketView_set_src_port v m port = wr16 m (tcp_header v + 0) port"

definition TcpPacketView_set_transport_length :: "TcpPacketView \<Rightarrow> mem \<Rightarrow> UShort \<Rightarrow> mem option" where
  "TcpPacketView_set_transport_length v m bytes_length = do { x \<leftarrow> rd m (tcp_header v + 12);
     wr m (tcp_header v + 12) (x OR push_bit 4 (ucast (bytes_length div 4))) }"

definition TcpPacketView_set_transport_checksum :: "TcpPacketView \<Rightarrow> mem \<Rightarrow> UShort \<Rightarrow> mem option" where
  "TcpPacketView_set_transport_checksum v m checksum = TcpPacketView_set_tcp_checksum v m checksum"

definition TcpPacketView_set_tcp_seq_number :: "TcpPacketView \<Rightarrow> mem \<Rightarrow> UInt \<Rightarrow> mem option" where
  "TcpPacketView_set_tcp_seq_number v m number = wr32 m (tcp_header v + 4) number"

definition TcpPacketView_set_tcp_ack_number :: "TcpPacketView \<Rightarrow> mem \<Rightarrow> UInt \<Rightarrow> mem option" where
  "TcpPacketView_set_tcp_ack_number v m number = wr32 m (tcp_header v + 8) number"

definition TcpPacketView_set_tcp_flags :: "TcpPacketView \<Rightarrow> mem \<Rightarrow> TcpFlagsObject \<Rightarrow> mem option" where
  "TcpPacketView_set_tcp_flags v m flags = do { x \<leftarrow> rd m (tcp_header v + 12);
     m \<leftarrow> wr m (tcp_header v + 12) (x OR TcpFlagsObject_get_ns flags);
     wr m (tcp_header v + 13) (TcpFlagsObject_get_without_ns flags) }"

definition TcpPacketView_set_tcp_offset :: "TcpPacketView \<Rightarrow> mem \<Rightarrow> UByte \<Rightarrow> mem option" where
  "TcpPacketView_set_tcp_offset v m offset = do { x \<leftarrow> rd m (tcp_header v + 12);
     wr m (tcp_header v + 12) (push_bit 4 offset OR (x AND 0x0F)) }"

definition TcpPacketView_set_tcp_window :: "TcpPacketView \<Rightarrow> mem \<Rightarrow> UShort \<Rightarrow> mem option" where
  "TcpPacketView_set_tcp_window v m window = wr16 m (tcp_header v + 14) window"

definition TcpPacketView_set_tcp_urgent :: "TcpPacketView \<Rightarrow> mem \<Rightarrow> UShort \<Rightarrow> mem option" where
  "TcpPacketView_set_tcp_urgent v m urgent = wr16 m (tcp_header v + 18) urgent"

definition TcpPacketView_set_tcp_length :: "TcpPacketView \<Rightarrow> mem \<Rightarrow> UByte \<Rightarrow> mem option" where
  "TcpPacketView_set_tcp_length v m word_length = do { x \<leftarrow> rd m (tcp_header v + 12);
     wr m (tcp_header v + 12) (x OR push_bit 4 word_length) }"

definition TcpPacketView_set_sender_number :: "TcpPacketView \<Rightarrow> mem \<Rightarrow> UInt \<Rightarrow> mem option" where
  "TcpPacketView_set_sender_number v m number = TcpPacketView_set_tcp_seq_number v m number"

definition TcpPacketView_set_receiver_number :: "TcpPacketView \<Rightarrow> mem \<Rightarrow> UInt \<Rightarrow> mem option" where
  "TcpPacketView_set_receiver_number v m number = TcpPacketView_set_tcp_ack_number v m number"

definition TcpPacketView_set_flags :: "TcpPacketView \<Rightarrow> mem \<Rightarrow> UShort \<Rightarrow> mem option" where
  "TcpPacketView_set_flags v m flags = TcpPacketView_set_tcp_flags v m flags"

text \<open>Longer options than the current ones are ignored without an error; otherwise the size of the
  view shrinks to the new options.\<close>

definition TcpPacketView_set_tcp_options ::
    "TcpPacketView \<Rightarrow> mem \<Rightarrow> bytes \<Rightarrow> (mem \<times> TcpPacketView) option" where
  "TcpPacketView_set_tcp_options v m opts =
     (if tcp_options_size v < int (length opts) then Some (m, v)
      else do { m \<leftarrow> wr_range m (tcp_options v) opts;
                Some (m, v\<lparr> tcp_options_size := int (length opts) \<rparr>) })"

text \<open>The data \<open>[begin, end)\<close> is read from the same memory, after the checksum field was cleared.
  The option loop steps by two: an odd option size takes in the byte that follows.\<close>

definition TcpPacketView_recalculate_transport_checksum ::
    "TcpPacketView \<Rightarrow> mem \<Rightarrow> bytes \<Rightarrow> ptr \<Rightarrow> ptr \<Rightarrow> mem option" where
  "TcpPacketView_recalculate_transport_checksum v m pseudo b e = do {
     m \<leftarrow> TcpPacketView_set_tcp_checksum v m 0;
     s \<leftarrow> sum_words pseudo 0;
     fixed \<leftarrow> rd_range m (tcp_header v) (tcp_header v + tcp_header_size);
     s \<leftarrow> sum_words fixed s;
     let n = nat (tcp_options_size v);
     opts \<leftarrow> loop_range m (tcp_options v) (tcp_options v + n + n mod 2);
     s \<leftarrow> sum_words opts s;
     data \<leftarrow> loop_range m b e;
     TcpPacketView_set_tcp_checksum v m (checksum_of (sum_data data s)) }"

definition TcpPacketView_generate_object_bytes ::
    "UShort \<Rightarrow> UShort \<Rightarrow> UInt \<Rightarrow> UInt \<Rightarrow> UByte \<Rightarrow> TcpFlagsObject \<Rightarrow> UShort \<Rightarrow> UShort \<Rightarrow> bytes \<Rightarrow> bytes" where
  "TcpPacketView_generate_object_bytes src_port dst_port seq ack offset flags window_size urgent opts =
     TcpPacketLE_generate_object_bytes src_port dst_port seq ack offset flags window_size urgent opts"

definition TcpPacketView_generate_object ::
    "UShort \<Rightarrow> UShort \<Rightarrow> UInt \<Rightarrow> UInt \<Rightarrow> UByte \<Rightarrow> TcpFlagsObject \<Rightarrow> UShort \<Rightarrow> UShort \<Rightarrow> bytes \<Rightarrow>
     bytes option" where
  "TcpPacketView_generate_object src_port dst_port seq ack offset flags window_size urgent opts =
     TcpPacketLE_generate_object src_port dst_port seq ack offset flags window_size urgent opts"

lemmas tcp_le_get_defs = TcpPacketLE_get_tcp_src_port_def
  TcpPacketLE_get_tcp_dst_port_def
  TcpPacketLE_get_tcp_seq_number_def
  TcpPacketLE_get_tcp_ack_number_def
  TcpPacketLE_get_tcp_header_length_def
  TcpPacketLE_get_tcp_reserved_def
  TcpPacketLE_get_tcp_flags_def
  TcpPacketLE_get_tcp_window_size_def
  TcpPacketLE_get_tcp_checksum_def
  TcpPacketLE_get_tcp_urgent_pointer_def
  TcpPacketLE_get_src_port_def
  TcpPacketLE_get_dst_port_def
  TcpPacketLE_get_transport_length_def
  TcpPacketLE_get_sender_number_def
  TcpPacketLE_get_receiver_number_def
  TcpPacketLE_get_flags_def
  TcpPacketLE_is_reset_connection_packet_def

lemmas tcp_le_set_defs = TcpPacketLE_set_tcp_checksum_def
  TcpPacketLE_set_dst_port_def
  TcpPacketLE_set_src_port_def
  TcpPacketLE_set_transport_length_def
  TcpPacketLE_set_transport_checksum_def
  TcpPacketLE_set_tcp_seq_number_def
  TcpPacketLE_set_tcp_ack_number_def
  TcpPacketLE_set_tcp_flags_def
  TcpPacketLE_set_tcp_offset_def
  TcpPacketLE_set_tcp_window_def
  TcpPacketLE_set_tcp_urgent_def
  TcpPacketLE_set_tcp_length_def
  TcpPacketLE_set_sender_number_def
  TcpPacketLE_set_receiver_number_def
  TcpPacketLE_set_flags_def

lemmas tcp_view_get_defs = TcpPacketView_get_tcp_src_port_def
  TcpPacketView_get_tcp_dst_port_def
  TcpPacketView_get_tcp_seq_number_def
  TcpPacketView_get_tcp_ack_number_def
  TcpPacketView_get_tcp_header_length_def
  TcpPacketView_get_tcp_reserved_def
  TcpPacketView_get_tcp_flags_def
  TcpPacketView_get_tcp_window_size_def
  TcpPacketView_get_tcp_checksum_def
  TcpPacketView_get_tcp_urgent_pointer_def
  TcpPacketView_get_src_port_def
  TcpPacketView_get_dst_port_def
  TcpPacketView_get_transport_length_def
  TcpPacketView_get_sender_number_def
  TcpPacketView_get_receiver_number_def
  TcpPacketView_get_flags_def
  TcpPacketView_is_reset_connection_packet_def

lemmas tcp_view_set_defs = TcpPacketView_set_tcp_checksum_def
  TcpPacketView_set_dst_port_def
  TcpPacketView_set_src_port_def
  TcpPacketView_set_transport_length_def
  TcpPacketView_set_transport_checksum_def
  TcpPacketView_set_tcp_seq_number_def
  TcpPacketView_set_tcp_ack_number_def
  TcpPacketView_set_tcp_flags_def
  TcpPacketView_set_tcp_offset_def
  TcpPacketView_set_tcp_window_def
  TcpPacketView_set_tcp_urgent_def
  TcpPacketView_set_tcp_length_def
  TcpPacketView_set_sender_number_def
  TcpPacketView_set_receiver_number_def
  TcpPacketView_set_flags_def

section \<open>The interface of the transport classes\<close>

locale transport_like =
  fixes valid :: "'s \<Rightarrow> bool" and data_ok :: "'s \<Rightarrow> 'd \<Rightarrow> bool"
    and src_port :: "'s \<Rightarrow> UShort option" and dst_port :: "'s \<Rightarrow> UShort option"
    and set_src_port :: "'s \<Rightarrow> UShort \<Rightarrow> 's option" and set_dst_port :: "'s \<Rightarrow> UShort \<Rightarrow> 's option"
    and recalculate :: "'s \<Rightarrow> bytes \<Rightarrow> 'd \<Rightarrow> 's option"
  assumes set_src_port_law: "valid s \<Longrightarrow> \<exists>t. set_src_port s p = Some t \<and> valid t \<and>
      src_port t = Some p \<and> dst_port t = dst_port s \<and> (\<forall>d. data_ok t d = data_ok s d)"
    and set_dst_port_law: "valid s \<Longrightarrow> \<exists>t. set_dst_port s p = Some t \<and> valid t \<and>
      src_port t = src_port s \<and> dst_port t = Some p \<and> (\<forall>d. data_ok t d = data_ok s d)"
    and recalculate_law: "valid s \<Longrightarrow> data_ok s d \<Longrightarrow> even (length pseudo) \<Longrightarrow>
      \<exists>t. recalculate s pseudo d = Some t \<and> valid t \<and> src_port t = src_port s \<and> dst_port t = dst_port s"
begin

lemma redirect:
  assumes "valid s" "data_ok s d" "even (length pseudo)"
  shows "\<exists>t. do { s1 \<leftarrow> set_src_port s p; s2 \<leftarrow> set_dst_port s1 q; recalculate s2 pseudo d } = Some t \<and>
     valid t \<and> src_port t = Some p \<and> dst_port t = Some q"
proof -
  obtain s1 where 1: "set_src_port s p = Some s1" "valid s1" "src_port s1 = Some p"
    "\<forall>d. data_ok s1 d = data_ok s d" using set_src_port_law [of s p] assms by blast
  obtain s2 where 2: "set_dst_port s1 q = Some s2" "valid s2" "src_port s2 = Some p"
    "dst_port s2 = Some q" "\<forall>d. data_ok s2 d = data_ok s1 d"
    using set_dst_port_law [of s1 q] 1 by metis
  show ?thesis using recalculate_law [of s2 d pseudo] 1 2 assms by auto
qed

end

section \<open>Checksums\<close>

definition TcpPacketLE_valid :: "bytes \<Rightarrow> bool" where
  "TcpPacketLE_valid h = (20 \<le> length h \<and> even (length h))"

lemma TcpPacketLE_recalculate_eq:
  assumes "TcpPacketLE_valid h" "even (length pseudo)"
    and "c = checksum_of (of_nat (words_sum (h[16 := 0, 17 := 0]) + (words_sum pseudo + words_sum data)))"
  shows "TcpPacketLE_recalculate_transport_checksum h pseudo data =
    Some (h[16 := byte_of 8 c, 17 := byte_of 0 c])"
  using assms
  by (simp add: TcpPacketLE_recalculate_transport_checksum_def TcpPacketLE_set_tcp_checksum_def
      wr16_Some sum_words_eq sum_data_eq TcpPacketLE_valid_def ac_simps)

lemma TcpPacketLE_recalculate_valid:
  assumes "TcpPacketLE_valid h" "length h \<le> 60" "length pseudo = 12" "length data \<le> 65535"
  shows "\<exists>h'. TcpPacketLE_recalculate_transport_checksum h pseudo data = Some h' \<and>
    length h' = length h \<and> (\<forall>i. i \<noteq> 16 \<longrightarrow> i \<noteq> 17 \<longrightarrow> h' ! i = h ! i) \<and>
    checksum_valid (words_sum h' + (words_sum pseudo + words_sum data))"
  using words_sum_checksum [of 16 17 h _ "words_sum pseudo + words_sum data", OF _ _ _ refl] assms
    words_sum_bound [of pseudo] words_sum_bound [of data]
  by (simp add: TcpPacketLE_recalculate_eq [OF _ _ refl] TcpPacketLE_valid_def)

text \<open>The view: header and options in memory, options right behind the header.\<close>

definition TcpPacketView_valid :: "TcpPacketView \<Rightarrow> mem \<Rightarrow> bool" where
  "TcpPacketView_valid v m =
     (tcp_options v = tcp_header v + 20 \<and> 0 \<le> tcp_options_size v \<and> even (tcp_options_size v) \<and>
      tcp_header v + 20 + nat (tcp_options_size v) \<le> length m)"

text \<open>A data range is usable when it lies in memory and away from the header.\<close>

definition TcpPacketView_data_ok :: "TcpPacketView \<Rightarrow> mem \<Rightarrow> ptr \<times> ptr \<Rightarrow> bool" where
  "TcpPacketView_data_ok v m = (\<lambda>(b, e). b \<le> e \<and> e \<le> length m \<and>
     tcp_header v + 20 + nat (tcp_options_size v) \<le> b)"

lemma loop_range_mslice: "b \<le> e \<Longrightarrow> e \<le> length m \<Longrightarrow> loop_range m b e = Some (mslice m b (e - b))"
  by (simp add: loop_range_def rd_range_Some mslice_def)

lemma TcpPacketView_recalculate_eq:
  fixes c :: UShort
  assumes "TcpPacketView_valid v m" "TcpPacketView_data_ok v m (b, e)" "even (length pseudo)"
    and n: "n = nat (tcp_options_size v)" and p: "p = tcp_header v"
    and c: "c = checksum_of (of_nat (words_sum ((mslice m p 20)[16 := 0, 17 := 0]) +
      (words_sum pseudo + words_sum (mslice m (p + 20) n) + words_sum (mslice m b (e - b)))))"
  shows "TcpPacketView_recalculate_transport_checksum v m pseudo b e =
    Some (m[p + 16 := byte_of 8 c, p + 17 := byte_of 0 c])"
proof -
  let ?m = "m[p + 16 := 0, p + 17 := 0]"
  have v: "tcp_options v = p + 20" "even n" "p + 20 + n \<le> length m" "b \<le> e" "e \<le> length m"
    "p + 20 + n \<le> b"
    using assms by (auto simp: TcpPacketView_valid_def TcpPacketView_data_ok_def even_nat_iff)
  have 1: "TcpPacketView_set_tcp_checksum v m 0 = Some ?m"
    using v p by (simp add: TcpPacketView_set_tcp_checksum_def wr16_Some ac_simps)
  have 2: "rd_range ?m (tcp_header v) (tcp_header v + tcp_header_size) =
      Some ((mslice m p 20)[16 := 0, 17 := 0])"
    using v p by (simp add: rd_range_Some tcp_header_size_def mslice_def mslice_update)
  have 3: "loop_range ?m (tcp_options v) (tcp_options v + n + n mod 2) = Some (mslice m (p + 20) n)"
    using v by (simp add: loop_range_mslice mslice_update_away even_iff_mod_2_eq_zero)
  have 4: "loop_range ?m b e = Some (mslice m b (e - b))"
    using v by (simp add: loop_range_mslice mslice_update_away)
  show ?thesis
    unfolding TcpPacketView_recalculate_transport_checksum_def 1 bind.bind_lunit 2 Let_def
      n [symmetric] 3 4
    using v p assms(3) by (simp add: sum_words_eq sum_data_eq TcpPacketView_set_tcp_checksum_def
        wr16_Some c ac_simps)
qed

lemma TcpPacketView_recalculate_valid:
  assumes v: "TcpPacketView_valid v m" "TcpPacketView_data_ok v m (b, e)" "length pseudo = 12"
    and p: "p = tcp_header v" and n: "n = nat (tcp_options_size v)" "n \<le> 40" "e - b \<le> 65535"
  shows "\<exists>m'. TcpPacketView_recalculate_transport_checksum v m pseudo b e = Some m' \<and>
    length m' = length m \<and> (\<forall>i. i \<noteq> p + 16 \<longrightarrow> i \<noteq> p + 17 \<longrightarrow> m' ! i = m ! i) \<and>
    checksum_valid (words_sum (mslice m' p (20 + n)) +
      (words_sum pseudo + words_sum (mslice m' b (e - b))))"
proof -
  let ?r = "words_sum pseudo + words_sum (mslice m (p + 20) n) + words_sum (mslice m b (e - b))"
  let ?h = "mslice m p 20"
  define c where "c = checksum_of (of_nat (words_sum (?h[16 := 0, 17 := 0]) + ?r))"
  let ?m = "m[p + 16 := byte_of 8 c, p + 17 := byte_of 0 c]"
  have len: "p + 20 + n \<le> length m" "p + 20 + n \<le> b" "b \<le> e" "e \<le> length m"
    using v n p by (auto simp: TcpPacketView_valid_def TcpPacketView_data_ok_def)
  have eq: "TcpPacketView_recalculate_transport_checksum v m pseudo b e = Some ?m"
    by (rule TcpPacketView_recalculate_eq) (use v n p c_def in simp_all)
  have s1: "mslice ?m p 20 = ?h[16 := byte_of 8 c, 17 := byte_of 0 c]"
    by (simp add: mslice_update_in)
  have s2: "mslice ?m (p + 20) n = mslice m (p + 20) n" "mslice ?m b (e - b) = mslice m b (e - b)"
    using len by (simp_all add: mslice_update_away)
  have "checksum_valid (words_sum (?h[16 := byte_of 8 c, 17 := byte_of 0 c]) + ?r)"
  proof (rule words_sum_checksum [OF _ _ _ c_def])
    have "length ?h = 20" using len by simp
    then show "65535 * ((length ?h + 1) div 2) + ?r < 4294901760"
      using n v(3) words_sum_bound_le [of pseudo 12] words_sum_bound_le [of "mslice m (p + 20) n" 40]
        words_sum_bound_le [of "mslice m b (e - b)" 65535] by (simp add: min_le_iff_disj)
  qed (use len in simp_all)
  moreover have "words_sum (mslice ?m p (20 + n)) = words_sum (mslice ?m p 20) + words_sum (mslice m (p + 20) n)"
    using len by (simp add: mslice_append words_sum_append s2)
  ultimately have "checksum_valid (words_sum (mslice ?m p (20 + n)) +
      (words_sum pseudo + words_sum (mslice ?m b (e - b))))"
    by (simp only: s1 s2 ac_simps)
  with eq show ?thesis by (intro exI [of _ ?m]) simp
qed

interpretation tcp_le: transport_like TcpPacketLE_valid "\<lambda>_ _. True" TcpPacketLE_get_src_port
  TcpPacketLE_get_dst_port TcpPacketLE_set_src_port TcpPacketLE_set_dst_port
  TcpPacketLE_recalculate_transport_checksum
proof unfold_locales
  fix s and pseudo d :: bytes
  assume "TcpPacketLE_valid s" "even (length pseudo)"
  then show "\<exists>t. TcpPacketLE_recalculate_transport_checksum s pseudo d = Some t \<and> TcpPacketLE_valid t \<and>
      TcpPacketLE_get_src_port t = TcpPacketLE_get_src_port s \<and>
      TcpPacketLE_get_dst_port t = TcpPacketLE_get_dst_port s"
    by (simp add: TcpPacketLE_recalculate_eq [OF _ _ refl])
      (simp add: TcpPacketLE_valid_def tcp_le_get_defs bytes_simps)
qed (simp_all add: TcpPacketLE_valid_def tcp_le_get_defs tcp_le_set_defs bytes_simps
    del: length_greater_0_conv)

interpretation tcp_view: transport_like "TcpPacketView_valid v" "TcpPacketView_data_ok v"
  "TcpPacketView_get_src_port v" "TcpPacketView_get_dst_port v" "TcpPacketView_set_src_port v"
  "TcpPacketView_set_dst_port v"
  "\<lambda>m pseudo (b, e). TcpPacketView_recalculate_transport_checksum v m pseudo b e" for v
proof unfold_locales
  fix s and pseudo :: bytes and d :: "ptr \<times> ptr"
  assume v: "TcpPacketView_valid v s" "TcpPacketView_data_ok v s d" "even (length pseudo)"
  obtain b e where d: "d = (b, e)" by (cases d)
  have "\<exists>c :: UShort. TcpPacketView_recalculate_transport_checksum v s pseudo b e =
      Some (s[tcp_header v + 16 := byte_of 8 c, tcp_header v + 17 := byte_of 0 c])"
    using TcpPacketView_recalculate_eq [OF v(1) v(2) [unfolded d] v(3) refl refl refl] by blast
  then show "\<exists>t. (case d of (b, e) \<Rightarrow> TcpPacketView_recalculate_transport_checksum v s pseudo b e) = Some t \<and>
      TcpPacketView_valid v t \<and> TcpPacketView_get_src_port v t = TcpPacketView_get_src_port v s \<and>
      TcpPacketView_get_dst_port v t = TcpPacketView_get_dst_port v s"
    using v(1) by (auto simp: d TcpPacketView_valid_def tcp_view_get_defs bytes_simps)
qed (auto simp: TcpPacketView_valid_def TcpPacketView_data_ok_def tcp_view_get_defs tcp_view_set_defs
    bytes_simps)

section \<open>The generated segment\<close>

lemma TcpPacketLE_generate_fields:
  assumes "h = TcpPacketLE_generate_object_bytes sp dp seq ack offset flags window urgent opts"
  shows "TcpPacketLE_get_src_port h = Some sp" "TcpPacketLE_get_dst_port h = Some dp"
    "TcpPacketLE_get_sender_number h = Some seq" "TcpPacketLE_get_receiver_number h = Some ack"
    "TcpPacketLE_get_tcp_window_size h = Some window" "TcpPacketLE_get_tcp_urgent_pointer h = Some urgent"
    "TcpPacketLE_get_tcp_options h = Some opts" "TcpPacketLE_get_tcp_checksum h = Some 0"
    "length h = 20 + length opts"
  by (simp_all add: assms TcpPacketLE_generate_object_bytes_def tcp_le_get_defs bytes_simps
      be16_bytes_def be32_bytes_def TcpPacketLE_get_tcp_options_def tcp_size_defs rd_range_def)

section \<open>Properties\<close>

text \<open>Redirecting a segment in memory (both ports, then the checksum) succeeds whenever header,
  options and payload lie in memory, and both ports read back.\<close>

lemma TcpPacketView_redirect:
  assumes "TcpPacketView_valid v m" "TcpPacketView_data_ok v m (b, e)" "even (length pseudo)"
  shows "\<exists>m'. do { m1 \<leftarrow> TcpPacketView_set_src_port v m p; m2 \<leftarrow> TcpPacketView_set_dst_port v m1 q;
      TcpPacketView_recalculate_transport_checksum v m2 pseudo b e } = Some m' \<and>
    TcpPacketView_valid v m' \<and> TcpPacketView_get_src_port v m' = Some p \<and>
    TcpPacketView_get_dst_port v m' = Some q"
  using tcp_view.redirect [of v m "(b, e)" pseudo p q] assms by simp

end
