(* ===== verification/UdpPacket.thy ===== *)
theory UdpPacket
  imports TcpPacket
begin

text \<open>The UDP header classes (\<open>UdpPacketLittleEndian\<close> is \<open>UdpPacketLE\<close>, its vector; \<open>UdpPacketView\<close>
  a pointer) and the payload classes \<open>DataPacketLittleEndian\<close> and \<open>DataPacketView\<close> of
  \<open>qvpn_structures.cpp\<close>.  The UDP classes are a second pair of providers of the interface
  \<open>transport_like\<close>.\<close>

definition default_udp_size :: nat where "default_udp_size = 8"

definition UdpPacket_protocol_criteria :: "UByte \<Rightarrow> bool" where
  "UdpPacket_protocol_criteria protocol = (protocol = TransportProtocol_UDP)"

section \<open>The owning UDP class\<close>

definition UdpPacketLE_new :: bytes where "UdpPacketLE_new = []"

text \<open>The parser copies the whole range, the payload behind the eight header bytes included.\<close>

definition UdpPacketLE_parse_packet :: "bytes \<Rightarrow> mem \<Rightarrow> ptr \<Rightarrow> ptr \<Rightarrow> bytes option" where
  "UdpPacketLE_parse_packet header m b e = map_option (\<lambda>r. header @ r) (rd_range m b e)"

definition UdpPacketLE_of_range :: "mem \<Rightarrow> ptr \<Rightarrow> ptr \<Rightarrow> bytes option" where
  "UdpPacketLE_of_range m b e = UdpPacketLE_parse_packet [] m b e"

definition UdpPacketLE_set_data :: "bytes \<Rightarrow> mem \<Rightarrow> ptr \<Rightarrow> ptr \<Rightarrow> bytes option" where
  "UdpPacketLE_set_data header m b e = UdpPacketLE_parse_packet header m b e"

definition UdpPacketLE_get_size :: "bytes \<Rightarrow> UShort" where
  "UdpPacketLE_get_size header = of_nat (length header)"

definition UdpPacketLE_get_udp_src_port :: "bytes \<Rightarrow> UShort option" where
  "UdpPacketLE_get_udp_src_port header = rd16 header 0"

definition UdpPacketLE_get_udp_dst_port :: "bytes \<Rightarrow> UShort option" where
  "UdpPacketLE_get_udp_dst_port header = rd16 header 2"

definition UdpPacketLE_get_udp_length :: "bytes \<Rightarrow> UShort option" where
  "UdpPacketLE_get_udp_length header = rd16 header 4"

definition UdpPacketLE_get_udp_checksum :: "bytes \<Rightarrow> UShort option" where
  "UdpPacketLE_get_udp_checksum header = rd16 header 6"

definition UdpPacketLE_get_src_port :: "bytes \<Rightarrow> UShort option" where
  "UdpPacketLE_get_src_port header = UdpPacketLE_get_udp_src_port header"

definition UdpPacketLE_get_dst_port :: "bytes \<Rightarrow> UShort option" where
  "UdpPacketLE_get_dst_port header = UdpPacketLE_get_udp_dst_port header"

definition UdpPacketLE_get_transport_length :: "bytes \<Rightarrow> UShort option" where
  "UdpPacketLE_get_transport_length header = map_option (\<lambda>l. l * 4) (UdpPacketLE_get_udp_length header)"

definition UdpPacketLE_set_udp_checksum :: "bytes \<Rightarrow> UShort \<Rightarrow> bytes option" where
  "UdpPacketLE_set_udp_checksum header checksum = wr16 header 6 checksum"

definition UdpPacketLE_set_transport_checksum :: "bytes \<Rightarrow> UShort \<Rightarrow> bytes option" where
  "UdpPacketLE_set_transport_checksum header checksum = UdpPacketLE_set_udp_checksum header checksum"

definition UdpPacketLE_set_dst_port :: "bytes \<Rightarrow> UShort \<Rightarrow> bytes option" where
  "UdpPacketLE_set_dst_port header port = wr16 header 2 port"

definition UdpPacketLE_set_src_port :: "bytes \<Rightarrow> UShort \<Rightarrow> bytes option" where
  "UdpPacketLE_set_src_port header port = wr16 header 0 port"

definition UdpPacketLE_set_transport_length :: "bytes \<Rightarrow> UShort \<Rightarrow> bytes option" where
  "UdpPacketLE_set_transport_length header len = wr16 header 4 len"

text \<open>UDP has no sequence numbers, acknowledgements or flags: constants and empty setters.\<close>

definition UdpPacketLE_get_sender_number :: "bytes \<Rightarrow> UInt" where
  "UdpPacketLE_get_sender_number header = 0"

definition UdpPacketLE_get_receiver_number :: "bytes \<Rightarrow> UInt" where
  "UdpPacketLE_get_receiver_number header = 0"

definition UdpPacketLE_get_flags :: "bytes \<Rightarrow> UShort" where
  "UdpPacketLE_get_flags header = 0"

definition UdpPacketLE_is_reset_connection_packet :: "bytes \<Rightarrow> bool" where
  "UdpPacketLE_is_reset_connection_packet header = False"

definition UdpPacketLE_set_sender_number :: "bytes \<Rightarrow> UInt \<Rightarrow> bytes" where
  "UdpPacketLE_set_sender_number header x = header"

definition UdpPacketLE_set_receiver_number :: "bytes \<Rightarrow> UInt \<Rightarrow> bytes" where
  "UdpPacketLE_set_receiver_number header x = header"

definition UdpPacketLE_set_flags :: "bytes \<Rightarrow> UShort \<Rightarrow> bytes" where
  "UdpPacketLE_set_flags header x = header"

definition UdpPacketLE_to_bytes :: "bytes \<Rightarrow> bytes" where
  "UdpPacketLE_to_bytes header = header"

definition UdpPacketLE_to_transport_bytes :: "bytes \<Rightarrow> bytes" where
  "UdpPacketLE_to_transport_bytes header = header"

definition UdpPacketLE_to_object :: "bytes \<Rightarrow> bytes option" where
  "UdpPacketLE_to_object header = UdpPacketLE_of_range header 0 (length header)"

definition UdpPacketLE_to_transport_object :: "bytes \<Rightarrow> bytes option" where
  "UdpPacketLE_to_transport_object header = UdpPacketLE_of_range header 0 (length header)"

definition UdpPacketLE_recalculate_transport_checksum :: "bytes \<Rightarrow> bytes \<Rightarrow> bytes \<Rightarrow> bytes option" where
  "UdpPacketLE_recalculate_transport_checksum header pseudo data = do {
     header \<leftarrow> UdpPacketLE_set_udp_checksum header 0;
     s \<leftarrow> sum_words pseudo 0;
     s \<leftarrow> sum_words header s;
     UdpPacketLE_set_udp_checksum header (checksum_of (sum_data data s)) }"

definition UdpPacketLE_generate_object_bytes :: "UShort \<Rightarrow> UShort \<Rightarrow> UShort \<Rightarrow> bytes" where
  "UdpPacketLE_generate_object_bytes src_port dst_port len =
     be16_bytes src_port @ be16_bytes dst_port @ be16_bytes len @ [0, 0]"

definition UdpPacketLE_generate_object :: "UShort \<Rightarrow> UShort \<Rightarrow> UShort \<Rightarrow> bytes option" where
  "UdpPacketLE_generate_object src_port dst_port len =
     (let obj = UdpPacketLE_generate_object_bytes src_port dst_port len
      in UdpPacketLE_of_range obj 0 (length obj))"

section \<open>The UDP view\<close>

record UdpPacketView =
  udp_header :: ptr

definition udp_header_size :: nat where "udp_header_size = 8"

definition UdpPacketView_parse_packet :: "mem \<Rightarrow> ptr \<Rightarrow> ptr \<Rightarrow> UdpPacketView" where
  "UdpPacketView_parse_packet m b e = \<lparr> udp_header = b \<rparr>"

definition UdpPacketView_of_range :: "mem \<Rightarrow> ptr \<Rightarrow> ptr \<Rightarrow> UdpPacketView" where
  "UdpPacketView_of_range m b e = UdpPacketView_parse_packet m b e"

definition UdpPacketView_set_data :: "UdpPacketView \<Rightarrow> mem \<Rightarrow> ptr \<Rightarrow> ptr \<Rightarrow> UdpPacketView" where
  "UdpPacketView_set_data v m b e = UdpPacketView_parse_packet m b e"

definition UdpPacketView_get_size :: "UdpPacketView \<Rightarrow> UShort" where
  "UdpPacketView_get_size v = of_nat udp_header_size"

definition UdpPacketView_get_udp_src_port :: "UdpPacketView \<Rightarrow> mem \<Rightarrow> UShort option" where
  "UdpPacketView_get_udp_src_port v m = rd16 m (udp_header v + 0)"

definition UdpPacketView_get_udp_dst_port :: "UdpPacketView \<Rightarrow> mem \<Rightarrow> UShort option" where
  "UdpPacketView_get_udp_dst_port v m = rd16 m (udp_header v + 2)"

definition UdpPacketView_get_udp_length :: "UdpPacketView \<Rightarrow> mem \<Rightarrow> UShort option" where
  "UdpPacketView_get_udp_length v m = rd16 m (udp_header v + 4)"

definition UdpPacketView_get_udp_checksum :: "UdpPacketView \<Rightarrow> mem \<Rightarrow> UShort option" where
  "UdpPacketView_get_udp_checksum v m = rd16 m (udp_header v + 6)"

definition UdpPacketView_get_src_port :: "UdpPacketView \<Rightarrow> mem \<Rightarrow> UShort option" where
  "UdpPacketView_get_src_port v m = UdpPacketView_get_udp_src_port v m"

definition UdpPacketView_get_dst_port :: "UdpPacketView \<Rightarrow> mem \<Rightarrow> UShort option" where
  "UdpPacketView_get_dst_port v m = UdpPacketView_get_udp_dst_port v m"

definition UdpPacketView_get_transport_length :: "UdpPacketView \<Rightarrow> mem \<Rightarrow> UShort option" where
  "UdpPacketView_get_transport_length v m = map_option (\<lambda>l. l * 4) (UdpPacketView_get_udp_length v m)"

definition UdpPacketView_set_udp_checksum :: "UdpPacketView \<Rightarrow> mem \<Rightarrow> UShort \<Rightarrow> mem option" where
  "UdpPacketView_set_udp_checksum v m checksum = wr16 m (udp_header v + 6) checksum"

definition UdpPacketView_set_transport_checksum :: "UdpPacketView \<Rightarrow> mem \<Rightarrow> UShort \<Rightarrow> mem option" where
  "UdpPacketView_set_transport_checksum v m checksum = UdpPacketView_set_udp_checksum v m checksum"

definition UdpPacketView_set_dst_port :: "UdpPacketView \<Rightarrow> mem \<Rightarrow> UShort \<Rightarrow> mem option" where
  "UdpPacketView_set_dst_port v m port = wr16 m (udp_header v + 2) port"

definition UdpPacketView_set_src_port :: "UdpPacketView \<Rightarrow> mem \<Rightarrow> UShort \<Rightarrow> mem option" where
  "UdpPacketView_set_src_port v m port = wr16 m (udp_header v + 0) port"

definition UdpPacketView_set_transport_length :: "UdpPacketView \<Rightarrow> mem \<Rightarrow> UShort \<Rightarrow> mem option" where
  "UdpPacketView_set_transport_length v m len = wr16 m (udp_header v + 4) len"

text \<open>UDP has no sequence numbers, acknowledgements or flags: constants and empty setters.\<close>

definition UdpPacketView_get_sender_number :: "UdpPacketView \<Rightarrow> mem \<Rightarrow> UInt" where
  "UdpPacketView_get_sender_number v m = 0"

definition UdpPacketView_get_receiver_number :: "UdpPacketView \<Rightarrow> mem \<Rightarrow> UInt" where
  "UdpPacketView_get_receiver_number v m = 0"

definition UdpPacketView_get_flags :: "UdpPacketView \<Rightarrow> mem \<Rightarrow> UShort" where
  "UdpPacketView_get_flags v m = 0"

definition UdpPacketView_is_reset_connection_packet :: "UdpPacketView \<Rightarrow> mem \<Rightarrow> bool" where
  "UdpPacketView_is_reset_connection_packet v m = False"

definition UdpPacketView_set_sender_number :: "UdpPacketView \<Rightarrow> mem \<Rightarrow> UInt \<Rightarrow> mem" where
  "UdpPacketView_set_sender_number v m x = m"

definition UdpPacketView_set_receiver_number :: "UdpPacketView \<Rightarrow> mem \<Rightarrow> UInt \<Rightarrow> mem" where
  "UdpPacketView_set_receiver_number v m x = m"

definition UdpPacketView_set_flags :: "UdpPacketView \<Rightarrow> mem \<Rightarrow> UShort \<Rightarrow> mem" where
  "UdpPacketView_set_flags v m x = m"

definition UdpPacketView_to_bytes :: "UdpPacketView \<Rightarrow> ptr \<times> ptr" where
  "UdpPacketView_to_bytes v = (udp_header v, udp_header v + udp_header_size)"

definition UdpPacketView_to_transport_bytes :: "UdpPacketView \<Rightarrow> ptr \<times> ptr" where
  "UdpPacketView_to_transport_bytes v = (udp_header v, udp_header v + udp_header_size)"

definition UdpPacketView_to_object :: "UdpPacketView \<Rightarrow> mem \<Rightarrow> bytes option" where
  "UdpPacketView_to_object v m = UdpPacketLE_of_range m (udp_header v) (udp_header v + udp_header_size)"

definition UdpPacketView_to_view :: "UdpPacketView \<Rightarrow> mem \<Rightarrow> UdpPacketView" where
  "UdpPacketView_to_view v m = UdpPacketView_of_range m (udp_header v) (udp_header v + udp_header_size)"

definition UdpPacketView_to_transport_object :: "UdpPacketView \<Rightarrow> mem \<Rightarrow> bytes option" where
  "UdpPacketView_to_transport_object v m =
     UdpPacketLE_of_range m (udp_header v) (udp_header v + udp_header_size)"

definition UdpPacketView_to_transport_view :: "UdpPacketView \<Rightarrow> mem \<Rightarrow> UdpPacketView" where
  "UdpPacketView_to_transport_view v m =
     UdpPacketView_of_range m (udp_header v) (udp_header v + udp_header_size)"

definition UdpPacketLE_to_view :: "bytes \<Rightarrow> UdpPacketView" where
  "UdpPacketLE_to_view header = UdpPacketView_of_range header 0 (length header)"

definition UdpPacketLE_to_transport_view :: "bytes \<Rightarrow> UdpPacketView" where
  "UdpPacketLE_to_transport_view header = UdpPacketView_of_range header 0 (length header)"

definition UdpPacketView_recalculate_transport_checksum ::
    "UdpPacketView \<Rightarrow> mem \<Rightarrow> bytes \<Rightarrow> ptr \<Rightarrow> ptr \<Rightarrow> mem option" where
  "UdpPacketView_recalculate_transport_checksum v m pseudo b e = do {
     m \<leftarrow> UdpPacketView_set_udp_checksum v m 0;
     s \<leftarrow> sum_words pseudo 0;
     fixed \<leftarrow> rd_range m (udp_header v) (udp_header v + udp_header_size);
     s \<leftarrow> sum_words fixed s;
     data \<leftarrow> loop_range m b e;
     UdpPacketView_set_udp_checksum v m (checksum_of (sum_data data s)) }"

definition UdpPacketView_generate_object_bytes :: "UShort \<Rightarrow> UShort \<Rightarrow> UShort \<Rightarrow> bytes" where
  "UdpPacketView_generate_object_bytes src_port dst_port len =
     UdpPacketLE_generate_object_bytes src_port dst_port len"

definition UdpPacketView_generate_object :: "UShort \<Rightarrow> UShort \<Rightarrow> UShort \<Rightarrow> bytes option" where
  "UdpPacketView_generate_object src_port dst_port len = UdpPacketLE_generate_object src_port dst_port len"

section \<open>Payloads\<close>

definition DataPacketLE_new :: bytes where "DataPacketLE_new = []"

definition DataPacketLE_of_range :: "mem \<Rightarrow> ptr \<Rightarrow> ptr \<Rightarrow> bytes option" where
  "DataPacketLE_of_range m b e = rd_range m b e"

definition DataPacketLE_get_payload :: "bytes \<Rightarrow> bytes" where
  "DataPacketLE_get_payload data = data"

definition DataPacketLE_get_size :: "bytes \<Rightarrow> UShort" where
  "DataPacketLE_get_size data = of_nat (length data)"

text \<open>\<open>set_payload\<close> and \<open>set_data\<close> clear the vector and insert the range.\<close>

definition DataPacketLE_set_payload :: "bytes \<Rightarrow> mem \<Rightarrow> ptr \<Rightarrow> ptr \<Rightarrow> bytes option" where
  "DataPacketLE_set_payload data m b e = rd_range m b e"

definition DataPacketLE_set_data :: "bytes \<Rightarrow> mem \<Rightarrow> ptr \<Rightarrow> ptr \<Rightarrow> bytes option" where
  "DataPacketLE_set_data data m b e = rd_range m b e"

definition DataPacketLE_to_data_bytes :: "bytes \<Rightarrow> bytes" where
  "DataPacketLE_to_data_bytes data = data"

definition DataPacketLE_to_bytes :: "bytes \<Rightarrow> bytes" where
  "DataPacketLE_to_bytes data = data"

definition DataPacketLE_to_object :: "bytes \<Rightarrow> bytes option" where
  "DataPacketLE_to_object data = DataPacketLE_of_range data 0 (length data)"

definition DataPacketLE_to_data_object :: "bytes \<Rightarrow> bytes option" where
  "DataPacketLE_to_data_object data = DataPacketLE_of_range data 0 (length data)"

record DataPacketView =
  dp_data :: ptr
  dp_size :: int

definition DataPacketView_of_range :: "ptr \<Rightarrow> ptr \<Rightarrow> DataPacketView" where
  "DataPacketView_of_range b e = \<lparr> dp_data = b, dp_size = int e - int b \<rparr>"

definition DataPacketView_get_payload :: "DataPacketView \<Rightarrow> ptr \<times> ptr" where
  "DataPacketView_get_payload v = (dp_data v, nat (int (dp_data v) + dp_size v))"

text \<open>A payload longer than the current one is ignored; a shorter one shrinks the view.\<close>

definition DataPacketView_set_payload ::
    "DataPacketView \<Rightarrow> mem \<Rightarrow> bytes \<Rightarrow> (mem \<times> DataPacketView) option" where
  "DataPacketView_set_payload v m payload =
     (if dp_size v < int (length payload) then Some (m, v)
      else do { m \<leftarrow> wr_range m (dp_data v) payload;
                Some (m, v\<lparr> dp_size := int (length payload) \<rparr>) })"

definition DataPacketView_set_data :: "DataPacketView \<Rightarrow> ptr \<Rightarrow> ptr \<Rightarrow> DataPacketView" where
  "DataPacketView_set_data v b e = \<lparr> dp_data = b, dp_size = int e - int b \<rparr>"

definition DataPacketView_get_size :: "DataPacketView \<Rightarrow> UShort" where
  "DataPacketView_get_size v = of_int (dp_size v)"

definition DataPacketView_to_data_bytes :: "DataPacketView \<Rightarrow> ptr \<times> ptr" where
  "DataPacketView_to_data_bytes v = (dp_data v, nat (int (dp_data v) + dp_size v))"

definition DataPacketView_to_bytes :: "DataPacketView \<Rightarrow> ptr \<times> ptr" where
  "DataPacketView_to_bytes v = (dp_data v, nat (int (dp_data v) + dp_size v))"

definition DataPacketView_to_object :: "DataPacketView \<Rightarrow> mem \<Rightarrow> bytes option" where
  "DataPacketView_to_object v m = (case DataPacketView_to_bytes v of (b, e) \<Rightarrow> DataPacketLE_of_range m b e)"

definition DataPacketView_to_view :: "DataPacketView \<Rightarrow> DataPacketView" where
  "DataPacketView_to_view v = (case DataPacketView_to_bytes v of (b, e) \<Rightarrow> DataPacketView_of_range b e)"

definition DataPacketView_to_data_object :: "DataPacketView \<Rightarrow> mem \<Rightarrow> bytes option" where
  "DataPacketView_to_data_object v m =
     (case DataPacketView_to_bytes v of (b, e) \<Rightarrow> DataPacketLE_of_range m b e)"

definition DataPacketView_to_data_view :: "DataPacketView \<Rightarrow> DataPacketView" where
  "DataPacketView_to_data_view v =
     (case DataPacketView_to_bytes v of (b, e) \<Rightarrow> DataPacketView_of_range b e)"

definition DataPacketLE_to_view :: "bytes \<Rightarrow> DataPacketView" where
  "DataPacketLE_to_view data = DataPacketView_of_range 0 (length data)"

definition DataPacketLE_to_data_view :: "bytes \<Rightarrow> DataPacketView" where
  "DataPacketLE_to_data_view data = DataPacketView_of_range 0 (length data)"

lemmas udp_le_get_defs = UdpPacketLE_get_udp_src_port_def
  UdpPacketLE_get_udp_dst_port_def
  UdpPacketLE_get_udp_length_def
  UdpPacketLE_get_udp_checksum_def
  UdpPacketLE_get_src_port_def
  UdpPacketLE_get_dst_port_def
  UdpPacketLE_get_transport_length_def

lemmas udp_le_set_defs = UdpPacketLE_set_udp_checksum_def
  UdpPacketLE_set_transport_checksum_def
  UdpPacketLE_set_dst_port_def
  UdpPacketLE_set_src_port_def
  UdpPacketLE_set_transport_length_def

lemmas udp_view_get_defs = UdpPacketView_get_udp_src_port_def
  UdpPacketView_get_udp_dst_port_def
  UdpPacketView_get_udp_length_def
  UdpPacketView_get_udp_checksum_def
  UdpPacketView_get_src_port_def
  UdpPacketView_get_dst_port_def
  UdpPacketView_get_transport_length_def

lemmas udp_view_set_defs = UdpPacketView_set_udp_checksum_def
  UdpPacketView_set_transport_checksum_def
  UdpPacketView_set_dst_port_def
  UdpPacketView_set_src_port_def
  UdpPacketView_set_transport_length_def

section \<open>Checksums\<close>

definition UdpPacketLE_valid :: "bytes \<Rightarrow> bool" where
  "UdpPacketLE_valid h = (8 \<le> length h \<and> even (length h))"

lemma UdpPacketLE_recalculate_eq:
  assumes "UdpPacketLE_valid h" "even (length pseudo)"
    and "c = checksum_of (of_nat (words_sum (h[6 := 0, 7 := 0]) + (words_sum pseudo + words_sum data)))"
  shows "UdpPacketLE_recalculate_transport_checksum h pseudo data =
    Some (h[6 := byte_of 8 c, 7 := byte_of 0 c])"
  using assms
  by (simp add: UdpPacketLE_recalculate_transport_checksum_def UdpPacketLE_set_udp_checksum_def
      wr16_Some sum_words_eq sum_data_eq UdpPacketLE_valid_def ac_simps)

lemma UdpPacketLE_recalculate_valid:
  assumes "UdpPacketLE_valid h" "length h \<le> 60000" "length pseudo = 12" "length data \<le> 60000"
  shows "\<exists>h'. UdpPacketLE_recalculate_transport_checksum h pseudo data = Some h' \<and>
    length h' = length h \<and> (\<forall>i. i \<noteq> 6 \<longrightarrow> i \<noteq> 7 \<longrightarrow> h' ! i = h ! i) \<and>
    checksum_valid (words_sum h' + (words_sum pseudo + words_sum data))"
  using words_sum_checksum [of 6 7 h _ "words_sum pseudo + words_sum data", OF _ _ _ refl] assms
    words_sum_bound [of pseudo] words_sum_bound [of data]
  by (simp add: UdpPacketLE_recalculate_eq [OF _ _ refl] UdpPacketLE_valid_def)

definition UdpPacketView_valid :: "UdpPacketView \<Rightarrow> mem \<Rightarrow> bool" where
  "UdpPacketView_valid v m = (udp_header v + 8 \<le> length m)"

definition UdpPacketView_data_ok :: "UdpPacketView \<Rightarrow> mem \<Rightarrow> ptr \<times> ptr \<Rightarrow> bool" where
  "UdpPacketView_data_ok v m = (\<lambda>(b, e). b \<le> e \<and> e \<le> length m \<and> udp_header v + 8 \<le> b)"

lemma UdpPacketView_recalculate_eq:
  fixes c :: UShort
  assumes "UdpPacketView_data_ok v m (b, e)" "even (length pseudo)" and p: "p = udp_header v"
    and c: "c = checksum_of (of_nat (words_sum ((mslice m p 8)[6 := 0, 7 := 0]) +
      (words_sum pseudo + words_sum (mslice m b (e - b)))))"
  shows "UdpPacketView_recalculate_transport_checksum v m pseudo b e =
    Some (m[p + 6 := byte_of 8 c, p + 7 := byte_of 0 c])"
proof -
  let ?m = "m[p + 6 := 0, p + 7 := 0]"
  have v: "p + 8 \<le> length m" "b \<le> e" "e \<le> length m" "p + 8 \<le> b"
    using assms by (auto simp: UdpPacketView_data_ok_def)
  have 1: "UdpPacketView_set_udp_checksum v m 0 = Some ?m"
    using v p by (simp add: UdpPacketView_set_udp_checksum_def wr16_Some ac_simps)
  have 2: "rd_range ?m (udp_header v) (udp_header v + udp_header_size) =
      Some ((mslice m p 8)[6 := 0, 7 := 0])"
    using v p by (simp add: rd_range_Some udp_header_size_def mslice_def mslice_update)
  have 3: "loop_range ?m b e = Some (mslice m b (e - b))"
    using v by (simp add: loop_range_mslice mslice_update_away)
  show ?thesis
    unfolding UdpPacketView_recalculate_transport_checksum_def 1 bind.bind_lunit 2 3
    using v p assms(2) by (simp add: sum_words_eq sum_data_eq UdpPacketView_set_udp_checksum_def
        wr16_Some c ac_simps)
qed

lemma UdpPacketView_recalculate_valid:
  assumes v: "UdpPacketView_data_ok v m (b, e)" "length pseudo = 12"
    and p: "p = udp_header v" and n: "e - b \<le> 65535"
  shows "\<exists>m'. UdpPacketView_recalculate_transport_checksum v m pseudo b e = Some m' \<and>
    length m' = length m \<and> (\<forall>i. i \<noteq> p + 6 \<longrightarrow> i \<noteq> p + 7 \<longrightarrow> m' ! i = m ! i) \<and>
    checksum_valid (words_sum (mslice m' p 8) + (words_sum pseudo + words_sum (mslice m' b (e - b))))"
proof -
  let ?r = "words_sum pseudo + words_sum (mslice m b (e - b))" and ?h = "mslice m p 8"
  define c where "c = checksum_of (of_nat (words_sum (?h[6 := 0, 7 := 0]) + ?r))"
  let ?m = "m[p + 6 := byte_of 8 c, p + 7 := byte_of 0 c]"
  have len: "p + 8 \<le> length m" "p + 8 \<le> b" "b \<le> e" "e \<le> length m"
    using v p by (auto simp: UdpPacketView_data_ok_def)
  have eq: "UdpPacketView_recalculate_transport_checksum v m pseudo b e = Some ?m"
    by (rule UdpPacketView_recalculate_eq) (use v p c_def in simp_all)
  have s1: "mslice ?m p 8 = ?h[6 := byte_of 8 c, 7 := byte_of 0 c]"
    by (simp add: mslice_update_in)
  have s2: "mslice ?m b (e - b) = mslice m b (e - b)"
    using len by (simp add: mslice_update_away)
  have "checksum_valid (words_sum (?h[6 := byte_of 8 c, 7 := byte_of 0 c]) + ?r)"
  proof (rule words_sum_checksum [OF _ _ _ c_def])
    have "length ?h = 8" using len by simp
    then show "65535 * ((length ?h + 1) div 2) + ?r < 4294901760"
      using n v(2) words_sum_bound_le [of pseudo 12]
        words_sum_bound_le [of "mslice m b (e - b)" 65535] by (simp add: min_le_iff_disj)
  qed (use len in simp_all)
  with eq show ?thesis by (intro exI [of _ ?m]) (simp add: s1 s2)
qed

interpretation udp_le: transport_like UdpPacketLE_valid "\<lambda>_ _. True" UdpPacketLE_get_src_port
  UdpPacketLE_get_dst_port UdpPacketLE_set_src_port UdpPacketLE_set_dst_port
  UdpPacketLE_recalculate_transport_checksum
proof unfold_locales
  fix s and pseudo d :: bytes
  assume "UdpPacketLE_valid s" "even (length pseudo)"
  then show "\<exists>t. UdpPacketLE_recalculate_transport_checksum s pseudo d = Some t \<and> UdpPacketLE_valid t \<and>
      UdpPacketLE_get_src_port t = UdpPacketLE_get_src_port s \<and>
      UdpPacketLE_get_dst_port t = UdpPacketLE_get_dst_port s"
    by (simp add: UdpPacketLE_recalculate_eq [OF _ _ refl])
      (simp add: UdpPacketLE_valid_def udp_le_get_defs bytes_simps)
qed (simp_all add: UdpPacketLE_valid_def udp_le_get_defs udp_le_set_defs bytes_simps
    del: length_greater_0_conv)

interpretation udp_view: transport_like "UdpPacketView_valid v" "UdpPacketView_data_ok v"
  "UdpPacketView_get_src_port v" "UdpPacketView_get_dst_port v" "UdpPacketView_set_src_port v"
  "UdpPacketView_set_dst_port v"
  "\<lambda>m pseudo (b, e). UdpPacketView_recalculate_transport_checksum v m pseudo b e" for v
proof unfold_locales
  fix s and pseudo :: bytes and d :: "ptr \<times> ptr"
  assume v: "UdpPacketView_valid v s" "UdpPacketView_data_ok v s d" "even (length pseudo)"
  obtain b e where d: "d = (b, e)" by (cases d)
  have "\<exists>c :: UShort. UdpPacketView_recalculate_transport_checksum v s pseudo b e =
      Some (s[udp_header v + 6 := byte_of 8 c, udp_header v + 7 := byte_of 0 c])"
    using UdpPacketView_recalculate_eq [OF v(2) [unfolded d] v(3) refl refl] by blast
  then show "\<exists>t. (case d of (b, e) \<Rightarrow> UdpPacketView_recalculate_transport_checksum v s pseudo b e) = Some t \<and>
      UdpPacketView_valid v t \<and> UdpPacketView_get_src_port v t = UdpPacketView_get_src_port v s \<and>
      UdpPacketView_get_dst_port v t = UdpPacketView_get_dst_port v s"
    using v(1) by (auto simp: d UdpPacketView_valid_def udp_view_get_defs bytes_simps)
qed (auto simp: UdpPacketView_valid_def UdpPacketView_data_ok_def udp_view_get_defs udp_view_set_defs
    bytes_simps)

end
