(* ===== verification/QTunnelProto.thy ===== *)
theory QTunnelProto
  imports UdpPacket
begin

text \<open>What the tunnel carries about a packet: \<open>QTunnelProtoData\<close> (the transport header fields),
  \<open>QTunnelProxy\<close> (addresses, ports and proto data), \<open>QTunnelData\<close> (a received proxy block with its
  payload) and the two transport schemes \<open>QTunnelTCPViewScheme\<close>, \<open>QTunnelUDPViewScheme\<close>, with the
  header generators that rebuild a transport header from a proxy block (\<open>qvpn_structures.hpp/.cpp\<close>).
  The address parameter of the templates is \<open>NetAddr\<close>, the one the library instantiates.\<close>

section \<open>Proto data\<close>

text \<open>The member \<open>data\<close>: two length bytes, then the fields.\<close>

type_synonym QTunnelProtoData = bytes

definition QTunnelProtoData_new :: QTunnelProtoData where "QTunnelProtoData_new = [0, 0]"

definition QTunnelProtoData_of_length :: "UShort \<Rightarrow> bytes \<Rightarrow> QTunnelProtoData" where
  "QTunnelProtoData_of_length len body = be16_bytes len @ body"

definition QTunnelProtoData_of_range :: "bytes \<Rightarrow> QTunnelProtoData" where
  "QTunnelProtoData_of_range body = body"

definition QTunnelProtoData_get_length :: "QTunnelProtoData \<Rightarrow> UShort option" where
  "QTunnelProtoData_get_length data = (if length data = 0 then Some 0 else rd16 data 0)"

definition QTunnelProtoData_get_proto_data :: "QTunnelProtoData \<Rightarrow> bytes option" where
  "QTunnelProtoData_get_proto_data data = rd_range data 2 (length data)"

definition QTunnelProtoData_to_bytes :: "QTunnelProtoData \<Rightarrow> bytes" where
  "QTunnelProtoData_to_bytes data = data"

section \<open>Proxy blocks\<close>

record QTunnelProxy =
  net_protocol :: NetProtocol
  transport_protocol :: TransportProtocol
  source_addr :: NetAddr
  source_port :: UShort
  dst_addr :: NetAddr
  dst_port :: UShort
  proto_data :: QTunnelProtoData

definition QTunnelProxy_new :: QTunnelProxy where
  "QTunnelProxy_new = \<lparr> net_protocol = 0, transport_protocol = 0, source_addr = NetAddr_default,
     source_port = 0, dst_addr = NetAddr_default, dst_port = 0, proto_data = QTunnelProtoData_new \<rparr>"

definition QTunnelProxy_of ::
    "NetProtocol \<Rightarrow> TransportProtocol \<Rightarrow> NetAddr \<Rightarrow> UShort \<Rightarrow> NetAddr \<Rightarrow> UShort \<Rightarrow> bytes \<Rightarrow> QTunnelProxy" where
  "QTunnelProxy_of net_p transport_p src src_p dst dst_p body =
     \<lparr> net_protocol = net_p, transport_protocol = transport_p, source_addr = src, source_port = src_p,
       dst_addr = dst, dst_port = dst_p, proto_data = QTunnelProtoData_of_range body \<rparr>"

definition QTunnelProxy_get_net_proto :: "QTunnelProxy \<Rightarrow> NetProtocol" where
  "QTunnelProxy_get_net_proto p = net_protocol p"
definition QTunnelProxy_get_transport_proto :: "QTunnelProxy \<Rightarrow> TransportProtocol" where
  "QTunnelProxy_get_transport_proto p = transport_protocol p"
definition QTunnelProxy_get_src_addr :: "QTunnelProxy \<Rightarrow> NetAddr" where
  "QTunnelProxy_get_src_addr p = source_addr p"
definition QTunnelProxy_get_src_port :: "QTunnelProxy \<Rightarrow> UShort" where
  "QTunnelProxy_get_src_port p = source_port p"
definition QTunnelProxy_get_dst_addr :: "QTunnelProxy \<Rightarrow> NetAddr" where
  "QTunnelProxy_get_dst_addr p = dst_addr p"
definition QTunnelProxy_get_dst_port :: "QTunnelProxy \<Rightarrow> UShort" where
  "QTunnelProxy_get_dst_port p = dst_port p"
definition QTunnelProxy_get_proto_data :: "QTunnelProxy \<Rightarrow> bytes option" where
  "QTunnelProxy_get_proto_data p = QTunnelProtoData_get_proto_data (proto_data p)"
definition QTunnelProxy_get_proto_data_bytes :: "QTunnelProxy \<Rightarrow> bytes" where
  "QTunnelProxy_get_proto_data_bytes p = QTunnelProtoData_to_bytes (proto_data p)"

lemmas proxy_get_defs = QTunnelProxy_get_net_proto_def QTunnelProxy_get_transport_proto_def
  QTunnelProxy_get_src_addr_def QTunnelProxy_get_src_port_def QTunnelProxy_get_dst_addr_def
  QTunnelProxy_get_dst_port_def QTunnelProxy_get_proto_data_bytes_def QTunnelProtoData_to_bytes_def

text \<open>Only IPv4 with TCP or UDP is accepted; IPv6 is still refused.\<close>

definition QTunnelProxy_check_validity :: "QTunnelProxy \<Rightarrow> bool" where
  "QTunnelProxy_check_validity p =
     (if net_protocol p = NetProtocol_IPv4 then
        (if transport_protocol p = TransportProtocol_TCP then True
         else if transport_protocol p = TransportProtocol_UDP then True else False)
      else False)"

definition QTunnelProxy_get_proxy_data_size :: "QTunnelProxy \<Rightarrow> UShort option" where
  "QTunnelProxy_get_proxy_data_size p = do {
     len \<leftarrow> QTunnelProtoData_get_length (proto_data p);
     Some (of_nat (1 + 1 + NetAddr_get_addr_size (source_addr p) + 2 +
       NetAddr_get_addr_size (dst_addr p) + 2 + unat len + 2)) }"

definition QTunnelProxy_create_and_inverse_addrs :: "QTunnelProxy \<Rightarrow> QTunnelProxy" where
  "QTunnelProxy_create_and_inverse_addrs p =
     QTunnelProxy_of (QTunnelProxy_get_net_proto p) (QTunnelProxy_get_transport_proto p)
       (QTunnelProxy_get_dst_addr p) (QTunnelProxy_get_dst_port p) (QTunnelProxy_get_src_addr p)
       (QTunnelProxy_get_src_port p) (QTunnelProxy_get_proto_data_bytes p)"

definition QTunnelProxy_create :: "QTunnelProxy \<Rightarrow> QTunnelProxy" where
  "QTunnelProxy_create p =
     QTunnelProxy_of (QTunnelProxy_get_net_proto p) (QTunnelProxy_get_transport_proto p)
       (QTunnelProxy_get_src_addr p) (QTunnelProxy_get_src_port p) (QTunnelProxy_get_dst_addr p)
       (QTunnelProxy_get_dst_port p) (QTunnelProxy_get_proto_data_bytes p)"

section \<open>Received proxy blocks\<close>

record QTunnelData = QTunnelProxy +
  raw_data :: bytes

text \<open>\<open>vector::erase(begin, begin + n)\<close>; past the end it is undefined.\<close>

definition erase_front :: "nat \<Rightarrow> 'a list \<Rightarrow> 'a list option" where
  "erase_front n xs = (if n \<le> length xs then Some (drop n xs) else None)"

text \<open>The addresses and ports behind the two protocol bytes, by family; an unknown family leaves the
  default addresses of sixteen bytes.\<close>

definition QTunnelData_parse_addrs ::
    "NetProtocol \<Rightarrow> bytes \<Rightarrow> (NetAddr \<times> UShort \<times> NetAddr \<times> UShort) option" where
  "QTunnelData_parse_addrs net data =
     (if net = NetProtocol_IPv4 then do {
        src \<leftarrow> rd_range data 0 4; sp \<leftarrow> rd16 data 4;
        dst \<leftarrow> rd_range data 6 10; dp \<leftarrow> rd16 data 10; Some (src, sp, dst, dp) }
      else if net = NetProtocol_IPv6 then do {
        src \<leftarrow> rd_range data 0 16; sp \<leftarrow> rd16 data 16;
        dst \<leftarrow> rd_range data 18 34; dp \<leftarrow> rd16 data 34; Some (src, sp, dst, dp) }
      else Some (NetAddr_default, 0, NetAddr_default, 0))"

definition QTunnelData_of_bytes :: "bytes \<Rightarrow> QTunnelData option" where
  "QTunnelData_of_bytes data = do {
     net \<leftarrow> rd data 0;
     transport \<leftarrow> rd data 1;
     data \<leftarrow> erase_front 2 data;
     (src, sp, dst, dp) \<leftarrow> QTunnelData_parse_addrs net data;
     data \<leftarrow> erase_front (NetAddr_get_addr_size src * 2 + 4) data;
     sz \<leftarrow> rd16 data 0;
     let full_size = unat sz + 2;
     body \<leftarrow> rd_range data 2 full_size;
     data \<leftarrow> erase_front full_size data;
     Some \<lparr> net_protocol = net, transport_protocol = transport, source_addr = src, source_port = sp,
            dst_addr = dst, dst_port = dp, proto_data = QTunnelProtoData_of_length sz body,
            raw_data = data \<rparr> }"

definition QTunnelData_get_raw_data :: "QTunnelData \<Rightarrow> bytes" where
  "QTunnelData_get_raw_data d = raw_data d"

section \<open>Transport schemes\<close>

text \<open>A scheme is a pointer and a length into proto data that it only reads: the bytes themselves.\<close>

record QTunnelTCPViewScheme =
  tcp_scheme_length :: UShort
  tcp_scheme_data :: bytes

definition QTunnelTCPViewScheme_of_range :: "bytes \<Rightarrow> QTunnelTCPViewScheme" where
  "QTunnelTCPViewScheme_of_range bs =
     \<lparr> tcp_scheme_length = of_nat (length bs), tcp_scheme_data = bs \<rparr>"

definition QTunnelTCPViewScheme_get_seq :: "QTunnelTCPViewScheme \<Rightarrow> UInt option" where
  "QTunnelTCPViewScheme_get_seq s = rd32 (tcp_scheme_data s) 2"
definition QTunnelTCPViewScheme_get_ack :: "QTunnelTCPViewScheme \<Rightarrow> UInt option" where
  "QTunnelTCPViewScheme_get_ack s = rd32 (tcp_scheme_data s) 6"
definition QTunnelTCPViewScheme_get_flags :: "QTunnelTCPViewScheme \<Rightarrow> TcpFlagsObject option" where
  "QTunnelTCPViewScheme_get_flags s = rd16 (tcp_scheme_data s) 10"
definition QTunnelTCPViewScheme_get_offset :: "QTunnelTCPViewScheme \<Rightarrow> UByte option" where
  "QTunnelTCPViewScheme_get_offset s = rd (tcp_scheme_data s) 12"
definition QTunnelTCPViewScheme_get_window :: "QTunnelTCPViewScheme \<Rightarrow> UShort option" where
  "QTunnelTCPViewScheme_get_window s = rd16 (tcp_scheme_data s) 13"
definition QTunnelTCPViewScheme_get_urgent_pointer :: "QTunnelTCPViewScheme \<Rightarrow> UShort option" where
  "QTunnelTCPViewScheme_get_urgent_pointer s = rd16 (tcp_scheme_data s) 15"

definition QTunnelTCPViewScheme_get_options :: "QTunnelTCPViewScheme \<Rightarrow> bytes option" where
  "QTunnelTCPViewScheme_get_options s =
     (let n = unat (tcp_scheme_length s); start = (if 17 < n then 17 else n)
      in rd_range (tcp_scheme_data s) start n)"

text \<open>\<open>data_[0] << 8 & 0xFF | data_[1]\<close>: the mask binds to the shifted high byte.\<close>

definition QTunnelTCPViewScheme_get_scheme_data_length :: "QTunnelTCPViewScheme \<Rightarrow> UShort option" where
  "QTunnelTCPViewScheme_get_scheme_data_length s = do {
     a \<leftarrow> rd (tcp_scheme_data s) 0; b \<leftarrow> rd (tcp_scheme_data s) 1;
     Some ((push_bit 8 (ucast a) AND 0xFF) OR ucast b) }"

definition QTunnelTCPViewScheme_get_scheme_protocol :: "QTunnelTCPViewScheme \<Rightarrow> TransportProtocol" where
  "QTunnelTCPViewScheme_get_scheme_protocol s = TransportProtocol_TCP"

definition QTunnelTCPViewScheme_generate_object_bytes :: "TcpPacketView \<Rightarrow> mem \<Rightarrow> bytes option" where
  "QTunnelTCPViewScheme_generate_object_bytes v m = do {
     seq \<leftarrow> TcpPacketView_get_tcp_seq_number v m;
     ack \<leftarrow> TcpPacketView_get_tcp_ack_number v m;
     flags \<leftarrow> TcpPacketView_get_tcp_flags v m;
     offset \<leftarrow> TcpPacketView_get_tcp_header_length v m;
     window \<leftarrow> TcpPacketView_get_tcp_window_size v m;
     urgent \<leftarrow> TcpPacketView_get_tcp_urgent_pointer v m;
     let (b, e) = TcpPacketView_get_tcp_options v;
     opts \<leftarrow> rd_range m b e;
     let sz = (15 + of_nat (length opts) :: UShort);
     Some (be16_bytes sz @ be32_bytes seq @ be32_bytes ack @
       [TcpFlagsObject_get_ns flags, TcpFlagsObject_get_without_ns flags, offset] @
       be16_bytes window @ be16_bytes urgent @ opts) }"

record QTunnelUDPViewScheme =
  udp_scheme_length :: UShort
  udp_scheme_data :: bytes

definition QTunnelUDPViewScheme_of_range :: "bytes \<Rightarrow> QTunnelUDPViewScheme" where
  "QTunnelUDPViewScheme_of_range bs =
     \<lparr> udp_scheme_length = of_nat (length bs), udp_scheme_data = bs \<rparr>"

definition QTunnelUDPViewScheme_get_length :: "QTunnelUDPViewScheme \<Rightarrow> UShort option" where
  "QTunnelUDPViewScheme_get_length s = rd16 (udp_scheme_data s) 2"

definition QTunnelUDPViewScheme_get_scheme_data_length :: "QTunnelUDPViewScheme \<Rightarrow> UShort option" where
  "QTunnelUDPViewScheme_get_scheme_data_length s = rd16 (udp_scheme_data s) 0"

definition QTunnelUDPViewScheme_get_scheme_protocol :: "QTunnelUDPViewScheme \<Rightarrow> TransportProtocol" where
  "QTunnelUDPViewScheme_get_scheme_protocol s = TransportProtocol_UDP"

definition QTunnelUDPViewScheme_generate_object_bytes :: "UdpPacketView \<Rightarrow> mem \<Rightarrow> bytes option" where
  "QTunnelUDPViewScheme_generate_object_bytes v m = do {
     len \<leftarrow> UdpPacketView_get_udp_length v m;
     Some (be16_bytes 2 @ be16_bytes len) }"

section \<open>Transport headers from a proxy block\<close>

definition TcpPacketLE_generate_proxy_bytes :: "QTunnelProxy \<Rightarrow> bytes option" where
  "TcpPacketLE_generate_proxy_bytes p = do {
     let scheme = QTunnelTCPViewScheme_of_range (QTunnelProxy_get_proto_data_bytes p);
     opts \<leftarrow> QTunnelTCPViewScheme_get_options scheme;
     seq \<leftarrow> QTunnelTCPViewScheme_get_seq scheme;
     ack \<leftarrow> QTunnelTCPViewScheme_get_ack scheme;
     offset \<leftarrow> QTunnelTCPViewScheme_get_offset scheme;
     flags \<leftarrow> QTunnelTCPViewScheme_get_flags scheme;
     window \<leftarrow> QTunnelTCPViewScheme_get_window scheme;
     urgent \<leftarrow> QTunnelTCPViewScheme_get_urgent_pointer scheme;
     Some (TcpPacketLE_generate_object_bytes (QTunnelProxy_get_src_port p) (QTunnelProxy_get_dst_port p)
       seq ack offset flags window urgent opts) }"

definition TcpPacketLE_generate_proxy_object :: "QTunnelProxy \<Rightarrow> bytes option" where
  "TcpPacketLE_generate_proxy_object p = do {
     obj \<leftarrow> TcpPacketLE_generate_proxy_bytes p;
     TcpPacketLE_of_range obj 0 (length obj) }"

definition TcpPacketView_generate_proxy_bytes :: "QTunnelProxy \<Rightarrow> bytes option" where
  "TcpPacketView_generate_proxy_bytes p = do {
     let scheme = QTunnelTCPViewScheme_of_range (QTunnelProxy_get_proto_data_bytes p);
     opts \<leftarrow> QTunnelTCPViewScheme_get_options scheme;
     seq \<leftarrow> QTunnelTCPViewScheme_get_seq scheme;
     ack \<leftarrow> QTunnelTCPViewScheme_get_ack scheme;
     offset \<leftarrow> QTunnelTCPViewScheme_get_offset scheme;
     flags \<leftarrow> QTunnelTCPViewScheme_get_flags scheme;
     window \<leftarrow> QTunnelTCPViewScheme_get_window scheme;
     urgent \<leftarrow> QTunnelTCPViewScheme_get_urgent_pointer scheme;
     Some (TcpPacketView_generate_object_bytes (QTunnelProxy_get_src_port p)
       (QTunnelProxy_get_dst_port p) seq ack offset flags window urgent opts) }"

definition TcpPacketView_generate_proxy_object :: "QTunnelProxy \<Rightarrow> bytes option" where
  "TcpPacketView_generate_proxy_object p = do {
     obj \<leftarrow> TcpPacketView_generate_proxy_bytes p;
     TcpPacketLE_of_range obj 0 (length obj) }"

definition UdpPacketLE_generate_proxy_bytes :: "QTunnelProxy \<Rightarrow> bytes option" where
  "UdpPacketLE_generate_proxy_bytes p = do {
     len \<leftarrow> QTunnelUDPViewScheme_get_length
       (QTunnelUDPViewScheme_of_range (QTunnelProxy_get_proto_data_bytes p));
     Some (UdpPacketLE_generate_object_bytes (QTunnelProxy_get_src_port p)
       (QTunnelProxy_get_dst_port p) len) }"

definition UdpPacketLE_generate_proxy_object :: "QTunnelProxy \<Rightarrow> bytes option" where
  "UdpPacketLE_generate_proxy_object p = do {
     obj \<leftarrow> UdpPacketLE_generate_proxy_bytes p;
     UdpPacketLE_of_range obj 0 (length obj) }"

definition UdpPacketView_generate_proxy_bytes :: "QTunnelProxy \<Rightarrow> bytes option" where
  "UdpPacketView_generate_proxy_bytes p = do {
     len \<leftarrow> QTunnelUDPViewScheme_get_length
       (QTunnelUDPViewScheme_of_range (QTunnelProxy_get_proto_data_bytes p));
     Some (UdpPacketView_generate_object_bytes (QTunnelProxy_get_src_port p)
       (QTunnelProxy_get_dst_port p) len) }"

definition UdpPacketView_generate_proxy_object :: "QTunnelProxy \<Rightarrow> bytes option" where
  "UdpPacketView_generate_proxy_object p = do {
     obj \<leftarrow> UdpPacketView_generate_proxy_bytes p;
     UdpPacketLE_of_range obj 0 (length obj) }"

section \<open>What a proxy block preserves\<close>

lemma be_bytes_of_be [simp]:
  "be16_bytes (be16 a b) = [a, b]" "be32_bytes (be32 a b c d) = [a, b, c, d]"
  by (simp_all add: be16_bytes_def be32_bytes_def)

lemma be16_bytes_of_be16:
  "rd16 (be16_bytes x @ ys) 0 = Some x" "rd16 (a # be16_bytes x @ ys) (Suc 0) = Some x"
  by (simp_all add: rd16_def rd_def be16_bytes_def)

lemma split_20: "20 \<le> length h \<Longrightarrow>
   h = [h ! 0, h ! 1, h ! 2, h ! 3, h ! 4, h ! 5, h ! 6, h ! 7, h ! 8, h ! 9, h ! 10, h ! 11, h ! 12,
        h ! 13, h ! 14, h ! 15, h ! 16, h ! 17, h ! 18, h ! 19] @ drop 20 h"
proof -
  assume "20 \<le> length h"
  then have "take 20 h = [h ! 0, h ! 1, h ! 2, h ! 3, h ! 4, h ! 5, h ! 6, h ! 7, h ! 8, h ! 9, h ! 10,
      h ! 11, h ! 12, h ! 13, h ! 14, h ! 15, h ! 16, h ! 17, h ! 18, h ! 19]"
    by (simp add: numeral_eq_Suc take_Suc_conv_app_nth del: length_greater_0_conv)
  then show ?thesis by (metis append_take_drop_id)
qed

lemma mem_split:
  assumes "p + n \<le> length m"
  shows "\<exists>pre post. m = pre @ mslice m p n @ post \<and> length pre = p"
proof -
  have "m = take p m @ take n (drop p m) @ drop n (drop p m)" by (simp only: append_take_drop_id)
  then show ?thesis
    using assms by (intro exI [of _ "take p m"] exI [of _ "drop n (drop p m)"]) (simp add: mslice_def)
qed

text \<open>The offset byte: with its low half clear it is rebuilt from the header length; the flags then
  carry no NS bit.\<close>

lemma low_nibble_bits: "x AND 0x0F = (0 :: UByte) \<Longrightarrow> n < 4 \<Longrightarrow> \<not> bit x n"
proof -
  assume x: "x AND 0x0F = 0" and n: "n < 4"
  have "bit (x AND 0x0F) n = (bit x n \<and> bit (mask 4 :: UByte) n)"
    by (simp add: bit_and_iff mask_eq_exp_minus_1)
  then show ?thesis using x n by (simp add: bit_mask_iff)
qed

lemma hi_nibble_back: "x AND 0x0F = (0 :: UByte) \<Longrightarrow> push_bit 4 (hi_nibble x) = x"
proof (rule bit_word_eqI)
  fix n assume x: "x AND 0x0F = 0" and "n < LENGTH(8)"
  moreover have "(0xF :: UByte) = mask 4" by (simp add: mask_eq_exp_minus_1)
  ultimately show "bit (push_bit 4 (hi_nibble x)) n = bit x n"
    using low_nibble_bits [OF x, of n]
    by (cases "n < 4") (auto simp: hi_nibble_def bit_push_bit_iff bit_drop_bit_eq)
qed

lemma tcp_flags_no_ns: "x AND 0x0F = (0 :: UByte) \<Longrightarrow> tcp_flags_of x y = ucast y"
proof -
  assume x: "x AND 0x0F = 0"
  have "x AND 1 = 0"
    using low_nibble_bits [OF x, of 0] by (simp add: and_one_eq mod_2_eq_odd bit_0)
  then show ?thesis by (simp add: tcp_flags_of_def)
qed

lemma flags_of_byte [simp]:
  "TcpFlagsObject_get_ns (ucast (y :: UByte)) = 0" "TcpFlagsObject_get_without_ns (ucast (y :: UByte)) = y"
proof -
  show "TcpFlagsObject_get_ns (ucast y) = 0"
    unfolding TcpFlagsObject_get_ns_def and_one_ucast
    by (simp add: bit_drop_bit_eq bit_ucast_iff not_bit_byte)
  show "TcpFlagsObject_get_without_ns (ucast y) = y"
  proof (rule bit_word_eqI)
    fix n assume "n < LENGTH(8)"
    then show "bit (TcpFlagsObject_get_without_ns (ucast y)) n = bit y n"
      unfolding TcpFlagsObject_get_without_ns_def bit_ucast_iff bit_and_iff bit_0xFF by simp
  qed
qed

lemma rd_mslice: "p + n \<le> length m \<Longrightarrow> i < n \<Longrightarrow> rd m (p + i) = Some (mslice m p n ! i)"
  by (simp add: rd_def mslice_def)

lemma rd16_mslice:
  "p + n \<le> length m \<Longrightarrow> i + 1 < n \<Longrightarrow> rd16 m (p + i) = Some (be16 (mslice m p n ! i) (mslice m p n ! (i + 1)))"
  using rd_mslice [of p n m "i + 1"] by (simp add: rd16_def rd_mslice)

lemma rd32_mslice:
  "p + n \<le> length m \<Longrightarrow> i + 3 < n \<Longrightarrow> rd32 m (p + i) = Some (be32 (mslice m p n ! i)
     (mslice m p n ! (i + 1)) (mslice m p n ! (i + 2)) (mslice m p n ! (i + 3)))"
  using rd_mslice [of p n m "i + 1"] rd_mslice [of p n m "i + 2"] rd_mslice [of p n m "i + 3"]
  by (simp add: rd32_def rd_mslice add.assoc)

lemma TcpPacketView_scheme_eq:
  assumes v: "TcpPacketView_valid v m" and n: "n = nat (tcp_options_size v)"
    and h: "h = mslice m (tcp_header v) (20 + n)" and f: "f = tcp_flags_of (h ! 12) (h ! 13)"
  shows "QTunnelTCPViewScheme_generate_object_bytes v m = Some (be16_bytes (15 + of_nat n) @
    [h ! 4, h ! 5, h ! 6, h ! 7, h ! 8, h ! 9, h ! 10, h ! 11, TcpFlagsObject_get_ns f,
     TcpFlagsObject_get_without_ns f, hi_nibble (h ! 12), h ! 14, h ! 15, h ! 18, h ! 19] @ drop 20 h)"
proof -
  let ?p = "tcp_header v"
  have len: "?p + (20 + n) \<le> length m" using v n by (simp add: TcpPacketView_valid_def)
  have "nat (int (tcp_options v) + tcp_options_size v) = ?p + (20 + n)" "tcp_options v = ?p + 20"
    using v n by (auto simp: TcpPacketView_valid_def)
  moreover have "rd_range m (?p + 20) (?p + (20 + n)) = Some (drop 20 h)" "length (drop 20 h) = n"
    using len by (simp_all add: rd_range_def h mslice_def drop_take add.commute)
  ultimately show ?thesis
    unfolding QTunnelTCPViewScheme_generate_object_bytes_def tcp_view_get_defs
      TcpPacketView_get_tcp_header_length_def TcpPacketView_get_tcp_options_def
    using rd_mslice [OF len, of 12] rd_mslice [OF len, of 13] rd32_mslice [OF len, of 4]
      rd32_mslice [OF len, of 8] rd16_mslice [OF len, of 14] rd16_mslice [OF len, of 18]
    by (simp add: h [symmetric] f)
qed

text \<open>Reading a scheme of that layout back.\<close>

lemma TcpPacketLE_generate_proxy_layout:
  assumes "proto_data p = [l0, l1, q0, q1, q2, q3, a0, a1, a2, a3, n, f, off, w0, w1, u0, u1] @ opts"
    "length opts < 65519"
  shows "TcpPacketLE_generate_proxy_bytes p = Some (TcpPacketLE_generate_object_bytes
    (source_port p) (dst_port p) (be32 q0 q1 q2 q3) (be32 a0 a1 a2 a3) off (be16 n f) (be16 w0 w1)
    (be16 u0 u1) opts)"
proof -
  have "unat (of_nat (length (proto_data p)) :: UShort) = 17 + length opts"
    using assms by (simp only: unat_of_nat) (simp add: mod_less)
  moreover have "QTunnelTCPViewScheme_get_options (QTunnelTCPViewScheme_of_range (proto_data p)) =
      Some opts"
    unfolding QTunnelTCPViewScheme_get_options_def QTunnelTCPViewScheme_of_range_def
      QTunnelTCPViewScheme.simps calculation using assms(1)
    by (auto simp: rd_range_def Let_def)
  ultimately show ?thesis
    using assms(1) by (simp add: TcpPacketLE_generate_proxy_bytes_def proxy_get_defs)
      (simp add: QTunnelTCPViewScheme_of_range_def
        QTunnelTCPViewScheme_get_seq_def QTunnelTCPViewScheme_get_ack_def
        QTunnelTCPViewScheme_get_offset_def QTunnelTCPViewScheme_get_flags_def
        QTunnelTCPViewScheme_get_window_def QTunnelTCPViewScheme_get_urgent_pointer_def rd_def
        rd16_def rd32_def)
qed

lemma tcp_header_through_proxy:
  assumes v: "TcpPacketView_valid v m" and n: "n = nat (tcp_options_size v)" "n \<le> 40"
    and h: "h = mslice m (tcp_header v) (20 + n)" and clear: "h ! 12 AND 0x0F = 0"
  shows "do { pd \<leftarrow> QTunnelTCPViewScheme_generate_object_bytes v m;
      TcpPacketLE_generate_proxy_bytes (p\<lparr> proto_data := pd \<rparr>) } =
    Some (be16_bytes (source_port p) @ be16_bytes (dst_port p) @ take 12 (drop 4 h) @ [0, 0] @ drop 18 h)"
proof -
  let ?pd = "[byte_of 8 (15 + of_nat n :: UShort), byte_of 0 (15 + of_nat n :: UShort), h ! 4, h ! 5, h ! 6,
    h ! 7, h ! 8, h ! 9, h ! 10, h ! 11, 0, h ! 13, hi_nibble (h ! 12), h ! 14, h ! 15, h ! 18, h ! 19] @
    drop 20 h"
  have len: "20 \<le> length h" "length (drop 20 h) < 65519"
    using v n h by (auto simp: TcpPacketView_valid_def)
  have "QTunnelTCPViewScheme_generate_object_bytes v m = Some ?pd"
    using TcpPacketView_scheme_eq [OF v n(1) h refl] tcp_flags_no_ns [OF clear, of "h ! 13"]
    by (simp add: be16_bytes_def)
  moreover have "TcpPacketLE_generate_proxy_bytes (p\<lparr> proto_data := ?pd \<rparr>) =
      Some (TcpPacketLE_generate_object_bytes (source_port p) (dst_port p)
        (be32 (h ! 4) (h ! 5) (h ! 6) (h ! 7)) (be32 (h ! 8) (h ! 9) (h ! 10) (h ! 11))
        (hi_nibble (h ! 12)) (ucast (h ! 13)) (be16 (h ! 14) (h ! 15)) (be16 (h ! 18) (h ! 19))
        (drop 20 h))"
    using TcpPacketLE_generate_proxy_layout [of "p\<lparr> proto_data := ?pd \<rparr>"] len(2) by simp
  ultimately show ?thesis
    using hi_nibble_back [OF clear]
    by (subst split_20 [OF len(1)], subst split_20 [OF len(1)])
      (simp add: TcpPacketLE_generate_object_bytes_def)
qed

lemma udp_header_through_proxy:
  assumes "udp_header v + 8 \<le> length m" and h: "h = mslice m (udp_header v) 8"
  shows "do { pd \<leftarrow> QTunnelUDPViewScheme_generate_object_bytes v m;
      UdpPacketLE_generate_proxy_bytes (p\<lparr> proto_data := pd \<rparr>) } =
    Some (be16_bytes (source_port p) @ be16_bytes (dst_port p) @ [h ! 4, h ! 5, 0, 0])"
  using rd16_mslice [OF assms(1), of 4] h
  by (simp add: QTunnelUDPViewScheme_generate_object_bytes_def UdpPacketView_get_udp_length_def
      UdpPacketLE_generate_proxy_bytes_def proxy_get_defs QTunnelUDPViewScheme_get_length_def
      QTunnelUDPViewScheme_of_range_def UdpPacketLE_generate_object_bytes_def be16_bytes_def rd16_def rd_def)

section \<open>Proxy blocks on the wire\<close>

text \<open>The bytes a proxy block has on the wire, with the payload behind it.\<close>

definition proxy_block :: "'a QTunnelProxy_scheme \<Rightarrow> bytes \<Rightarrow> bytes" where
  "proxy_block p payload = [net_protocol p, transport_protocol p] @ source_addr p @
     be16_bytes (source_port p) @ dst_addr p @ be16_bytes (dst_port p) @ proto_data p @ payload"

text \<open>A block the tunnel can carry: IPv4 addresses and proto data that starts with its own length.\<close>

definition proxy_wf :: "'a QTunnelProxy_scheme \<Rightarrow> bool" where
  "proxy_wf p \<longleftrightarrow> net_protocol p = NetProtocol_IPv4 \<and> length (source_addr p) = 4 \<and>
     length (dst_addr p) = 4 \<and> 2 \<le> length (proto_data p) \<and> length (proto_data p) < 65538 \<and>
     take 2 (proto_data p) = be16_bytes (of_nat (length (proto_data p) - 2))"

lemma list_4: "length a = 4 \<Longrightarrow> a = [a ! 0, a ! 1, a ! 2, a ! 3]"
  by (auto simp: list_eq_iff_nth_eq less_Suc_eq numeral_eq_Suc)

lemma proxy_wf_body:
  assumes "proxy_wf p"
  obtains body where "proto_data p = be16_bytes (of_nat (length body)) @ body" "length body < 65536"
proof
  show "proto_data p = be16_bytes (of_nat (length (drop 2 (proto_data p)))) @ drop 2 (proto_data p)"
    using assms by (metis proxy_wf_def append_take_drop_id length_drop)
qed (use assms in \<open>unfold proxy_wf_def length_drop, linarith\<close>)

lemma QTunnelData_of_proxy_block:
  assumes "proxy_wf p"
  shows "QTunnelData_of_bytes (proxy_block p payload) =
    Some (QTunnelProxy.extend (QTunnelProxy.truncate p) \<lparr> raw_data = payload \<rparr>)"
proof -
  obtain body where b: "proto_data p = be16_bytes (of_nat (length body)) @ body" "length body < 65536"
    using assms by (rule proxy_wf_body)
  then have len: "unat (of_nat (length body) :: UShort) = length body"
    by (simp only: unat_of_nat) (simp add: mod_less)
  let ?s = "source_addr p" and ?d = "dst_addr p"
  have a: "length ?s = 4" "length ?d = 4" "net_protocol p = 4" using assms by (simp_all add: proxy_wf_def protocol_defs)
  have addrs: "QTunnelData_parse_addrs 4 (?s @ be16_bytes (source_port p) @ ?d @
      be16_bytes (dst_port p) @ r) = Some (?s, source_port p, ?d, dst_port p)" for r
    by (subst (1 2) list_4 [OF a(1)], subst (1 2) list_4 [OF a(2)])
      (simp add: QTunnelData_parse_addrs_def protocol_defs rd_range_def rd16_def rd_def be16_bytes_def)
  show ?thesis
    using a addrs [of "proto_data p @ payload"] b len
    by (simp add: QTunnelData_of_bytes_def proxy_block_def rd_def erase_front_def
        NetAddr_get_addr_size_def rd16_def rd_range_def QTunnelProtoData_of_length_def
        QTunnelProxy.defs be16_bytes_def)
qed

section \<open>What a proxy block gives back\<close>

text \<open>Receiving a well-formed IPv4 proxy block gives every field of the sender's proxy back, with the
  bytes behind the block as raw data.\<close>

lemma QTunnelData_receives_proxy:
  assumes "proxy_wf p"
  shows "\<exists>d. QTunnelData_of_bytes (proxy_block p payload) = Some d \<and>
    QTunnelProxy.truncate d = QTunnelProxy.truncate p \<and> QTunnelData_get_raw_data d = payload"
  using QTunnelData_of_proxy_block [OF assms, of payload]
  by (simp add: QTunnelData_get_raw_data_def QTunnelProxy.defs)

text \<open>Inverting the addresses for the reply direction swaps both endpoints, keeps protocols and proto
  data, and inverting twice gives the block back.\<close>

lemma inverse_addrs_involution:
  "QTunnelProxy_create_and_inverse_addrs (QTunnelProxy_create_and_inverse_addrs p) = p \<and>
   source_addr (QTunnelProxy_create_and_inverse_addrs p) = dst_addr p \<and>
   source_port (QTunnelProxy_create_and_inverse_addrs p) = dst_port p \<and>
   dst_addr (QTunnelProxy_create_and_inverse_addrs p) = source_addr p \<and>
   dst_port (QTunnelProxy_create_and_inverse_addrs p) = source_port p \<and>
   proto_data (QTunnelProxy_create_and_inverse_addrs p) = proto_data p"
  by (simp add: QTunnelProxy_create_and_inverse_addrs_def QTunnelProxy_of_def proxy_get_defs
      QTunnelProtoData_of_range_def)

end
