(* ===== verification/FullPacket.thy ===== *)
theory FullPacket
  imports QTunnelProto
begin

text \<open>Whole packets (\<open>FullPacket\<close> and \<open>NoNetPacket\<close> of \<open>qvpn_structures.hpp\<close>), for TCP and UDP in
  the three forms the library instantiates: \<open>Fat\<close> (three owning parts), \<open>Object\<close> (views into a
  vector of their own) and \<open>View\<close> (views into foreign memory).  An object is a view together with its
  vector, so its operations are those of the view run on that vector.\<close>

text \<open>The fat form: the parts and the mutable buffer that \<open>bytes\<close> fills.\<close>

record FatPacket =
  fat_net :: bytes
  fat_transport :: bytes
  fat_payload :: bytes
  fat_data :: bytes

record FatNoNetPacket =
  fatn_transport :: bytes
  fatn_payload :: bytes
  fatn_data :: bytes

section \<open>IPv4 with TCP, fat\<close>

definition Ipv4TcpFatPacket_of_range :: "mem \<Rightarrow> ptr \<Rightarrow> ptr \<Rightarrow> FatPacket option" where
  "Ipv4TcpFatPacket_of_range m b e = do {
     net \<leftarrow> Ipv4PacketLE_of_range m b e;
     let t = b + unat (Ipv4PacketLE_get_size net);
     tr \<leftarrow> TcpPacketLE_of_range m t e;
     d \<leftarrow> DataPacketLE_of_range m (t + unat (TcpPacketLE_get_size tr)) e;
     Some \<lparr> fat_net = net, fat_transport = tr, fat_payload = d, fat_data = [] \<rparr> }"

definition Ipv4TcpFatPacket_of_parts :: "bytes \<Rightarrow> bytes \<Rightarrow> bytes \<Rightarrow> FatPacket option" where
  "Ipv4TcpFatPacket_of_parts n t d = do {
     net \<leftarrow> Ipv4PacketLE_of_range n 0 (length n);
     tr \<leftarrow> TcpPacketLE_of_range t 0 (length t);
     d \<leftarrow> DataPacketLE_of_range d 0 (length d);
     Some \<lparr> fat_net = net, fat_transport = tr, fat_payload = d, fat_data = [] \<rparr> }"

definition Ipv4TcpFatPacket_bytes :: "FatPacket \<Rightarrow> bytes \<times> FatPacket" where
  "Ipv4TcpFatPacket_bytes fp =
     (let data = Ipv4PacketLE_to_bytes (fat_net fp) @ TcpPacketLE_to_bytes (fat_transport fp) @
            DataPacketLE_to_bytes (fat_payload fp)
      in (data, fp\<lparr> fat_data := data \<rparr>))"

definition Ipv4TcpFatPacket_get_full_packet_length :: "FatPacket \<Rightarrow> UShort option" where
  "Ipv4TcpFatPacket_get_full_packet_length fp = Ipv4PacketLE_get_ip_total_length (fat_net fp)"

definition Ipv4TcpFatPacket_recalculate_checksums :: "FatPacket \<Rightarrow> FatPacket option" where
  "Ipv4TcpFatPacket_recalculate_checksums fp = do {
     net \<leftarrow> Ipv4PacketLE_recalculate_ip_checksum (fat_net fp);
     tl \<leftarrow> Ipv4PacketLE_get_ip_total_length net;
     hl \<leftarrow> Ipv4PacketLE_get_ip_header_length net;
     let len = tl - ucast hl * 4;
     src \<leftarrow> Ipv4PacketLE_get_ip_source net;
     dst \<leftarrow> Ipv4PacketLE_get_ip_dest net;
     proto \<leftarrow> Ipv4PacketLE_get_ip_protocol net;
     let pseudo = TransportIpv4PseudoHeader_of_addr src dst proto len;
     tr \<leftarrow> TcpPacketLE_recalculate_transport_checksum (fat_transport fp) pseudo
       (DataPacketLE_get_payload (fat_payload fp));
     Some (fp\<lparr> fat_net := net, fat_transport := tr \<rparr>) }"

definition Ipv4TcpFatPacket_recalculate_lengths :: "FatPacket \<Rightarrow> FatPacket option" where
  "Ipv4TcpFatPacket_recalculate_lengths fp = do {
     let n_size = length (Ipv4PacketLE_to_bytes (fat_net fp));
     let t_size = length (TcpPacketLE_to_bytes (fat_transport fp));
     let d_size = length (DataPacketLE_to_bytes (fat_payload fp));
     net \<leftarrow> Ipv4PacketLE_set_ip_total_length (fat_net fp) (of_nat (n_size + t_size + d_size));
     tr \<leftarrow> TcpPacketLE_set_transport_length (fat_transport fp) (of_nat t_size);
     Some (fp\<lparr> fat_net := net, fat_transport := tr \<rparr>) }"

definition Ipv4TcpFatPacket_new_packet_by_payload :: "FatPacket \<Rightarrow> bytes \<Rightarrow> FatPacket option" where
  "Ipv4TcpFatPacket_new_packet_by_payload fp payload = do {
     fp \<leftarrow> Ipv4TcpFatPacket_of_parts (Ipv4PacketLE_to_bytes (fat_net fp))
       (TcpPacketLE_to_bytes (fat_transport fp)) payload;
     tr \<leftarrow> TcpPacketLE_set_transport_length (fat_transport fp) (of_nat (length payload));
     fp \<leftarrow> Ipv4TcpFatPacket_recalculate_lengths (fp\<lparr> fat_transport := tr \<rparr>);
     Ipv4TcpFatPacket_recalculate_checksums fp }"

definition Ipv4TcpFatPacket_new_packet_by_this :: "FatPacket \<Rightarrow> QTunnelProxy \<Rightarrow> bytes \<Rightarrow> FatPacket option" where
  "Ipv4TcpFatPacket_new_packet_by_this fp p payload = do {
     let scheme = QTunnelTCPViewScheme_of_range (QTunnelProxy_get_proto_data_bytes p);
     opts \<leftarrow> QTunnelTCPViewScheme_get_options scheme;
     seq \<leftarrow> QTunnelTCPViewScheme_get_seq scheme;
     ack \<leftarrow> QTunnelTCPViewScheme_get_ack scheme;
     offset \<leftarrow> QTunnelTCPViewScheme_get_offset scheme;
     flags \<leftarrow> QTunnelTCPViewScheme_get_flags scheme;
     window \<leftarrow> QTunnelTCPViewScheme_get_window scheme;
     urgent \<leftarrow> QTunnelTCPViewScheme_get_urgent_pointer scheme;
     t_header \<leftarrow> TcpPacketLE_generate_object (QTunnelProxy_get_src_port p) (QTunnelProxy_get_dst_port p)
       seq ack offset flags window urgent opts;
     let total_size = length (TcpPacketLE_to_bytes t_header) + length payload;
     let old = Ipv4PacketLE_to_bytes (fat_net fp);
     old_header \<leftarrow> Ipv4PacketView_of_range old 0 (length old);
     n_header \<leftarrow> Ipv4PacketLE_generate_object_from_parent old_header old (QTunnelProxy_get_src_addr p)
       (QTunnelProxy_get_dst_addr p) (of_nat total_size);
     fp \<leftarrow> Ipv4TcpFatPacket_of_parts (Ipv4PacketLE_to_bytes n_header) (TcpPacketLE_to_bytes t_header) payload;
     fp \<leftarrow> Ipv4TcpFatPacket_recalculate_lengths fp;
     Ipv4TcpFatPacket_recalculate_checksums fp }"

definition Ipv4TcpFatPacket_new_packet_bytes_by_this :: "FatPacket \<Rightarrow> QTunnelProxy \<Rightarrow> bytes \<Rightarrow> bytes option" where
  "Ipv4TcpFatPacket_new_packet_bytes_by_this fp p payload = do {
     fp \<leftarrow> Ipv4TcpFatPacket_new_packet_by_this fp p payload;
     Some (fst (Ipv4TcpFatPacket_bytes fp)) }"

definition Ipv4TcpFatPacket_collect_proto_data :: "FatPacket \<Rightarrow> QTunnelProtoData option" where
  "Ipv4TcpFatPacket_collect_proto_data fp = do {
     v \<leftarrow> TcpPacketLE_to_view (fat_transport fp);
     bs \<leftarrow> QTunnelTCPViewScheme_generate_object_bytes v (fat_transport fp);
     Some (QTunnelProtoData_of_range bs) }"

definition Ipv4TcpFatPacket_set_qtunnel_proto_data :: "FatPacket \<Rightarrow> bytes \<Rightarrow> FatPacket option" where
  "Ipv4TcpFatPacket_set_qtunnel_proto_data fp data = do {
     let scheme = QTunnelTCPViewScheme_of_range data;
     seq \<leftarrow> QTunnelTCPViewScheme_get_seq scheme;
     tr \<leftarrow> TcpPacketLE_set_tcp_seq_number (fat_transport fp) seq;
     ack \<leftarrow> QTunnelTCPViewScheme_get_ack scheme;
     tr \<leftarrow> TcpPacketLE_set_tcp_ack_number tr ack;
     flags \<leftarrow> QTunnelTCPViewScheme_get_flags scheme;
     tr \<leftarrow> TcpPacketLE_set_tcp_flags tr flags;
     offset \<leftarrow> QTunnelTCPViewScheme_get_offset scheme;
     tr \<leftarrow> TcpPacketLE_set_tcp_offset tr offset;
     window \<leftarrow> QTunnelTCPViewScheme_get_window scheme;
     tr \<leftarrow> TcpPacketLE_set_tcp_window tr window;
     urgent \<leftarrow> QTunnelTCPViewScheme_get_urgent_pointer scheme;
     tr \<leftarrow> TcpPacketLE_set_tcp_urgent tr urgent;
     opts \<leftarrow> QTunnelTCPViewScheme_get_options scheme;
     tr \<leftarrow> TcpPacketLE_set_tcp_options tr opts;
     Some (fp\<lparr> fat_transport := tr \<rparr>) }"

section \<open>IPv4 with TCP, views\<close>

record Ipv4TcpPacket_View =
  tcpv_net :: Ipv4PacketView
  tcpv_transport :: TcpPacketView
  tcpv_payload :: DataPacketView

definition Ipv4TcpPacket_View_of_range :: "mem \<Rightarrow> ptr \<Rightarrow> ptr \<Rightarrow> Ipv4TcpPacket_View option" where
  "Ipv4TcpPacket_View_of_range m b e = do {
     net \<leftarrow> Ipv4PacketView_of_range m b e;
     let t = b + unat (Ipv4PacketView_get_size net);
     tr \<leftarrow> TcpPacketView_of_range m t e;
     Some \<lparr> tcpv_net = net, tcpv_transport = tr,
            tcpv_payload = DataPacketView_of_range (t + unat (TcpPacketView_get_size tr)) e \<rparr> }"

definition Ipv4TcpPacket_View_of_ranges ::
    "mem \<Rightarrow> ptr \<times> ptr \<Rightarrow> ptr \<times> ptr \<Rightarrow> ptr \<times> ptr \<Rightarrow> Ipv4TcpPacket_View option" where
  "Ipv4TcpPacket_View_of_ranges m n t d = do {
     net \<leftarrow> Ipv4PacketView_of_range m (fst n) (snd n);
     tr \<leftarrow> TcpPacketView_of_range m (fst t) (snd t);
     Some \<lparr> tcpv_net = net, tcpv_transport = tr,
            tcpv_payload = DataPacketView_of_range (fst d) (snd d) \<rparr> }"

definition Ipv4TcpPacket_View_bytes :: "Ipv4TcpPacket_View \<Rightarrow> ptr \<times> ptr" where
  "Ipv4TcpPacket_View_bytes v = (fst (Ipv4PacketView_to_bytes (tcpv_net v)), snd (DataPacketView_to_bytes (tcpv_payload v)))"

definition Ipv4TcpPacket_View_get_full_packet_length :: "Ipv4TcpPacket_View \<Rightarrow> mem \<Rightarrow> UShort option" where
  "Ipv4TcpPacket_View_get_full_packet_length v m = Ipv4PacketView_get_ip_total_length (tcpv_net v) m"

definition Ipv4TcpPacket_View_recalculate_checksums :: "Ipv4TcpPacket_View \<Rightarrow> mem \<Rightarrow> mem option" where
  "Ipv4TcpPacket_View_recalculate_checksums v m = do {
     m \<leftarrow> Ipv4PacketView_recalculate_ip_checksum (tcpv_net v) m;
     tl \<leftarrow> Ipv4PacketView_get_ip_total_length (tcpv_net v) m;
     hl \<leftarrow> Ipv4PacketView_get_ip_header_length (tcpv_net v) m;
     let len = tl - ucast hl * 4;
     src \<leftarrow> Ipv4PacketView_get_ip_source (tcpv_net v) m;
     dst \<leftarrow> Ipv4PacketView_get_ip_dest (tcpv_net v) m;
     proto \<leftarrow> Ipv4PacketView_get_ip_protocol (tcpv_net v) m;
     let pseudo = TransportIpv4PseudoHeader_of_addr src dst proto len;
     let (b, e) = DataPacketView_get_payload (tcpv_payload v);
     TcpPacketView_recalculate_transport_checksum (tcpv_transport v) m pseudo b e }"

definition Ipv4TcpPacket_View_recalculate_lengths :: "Ipv4TcpPacket_View \<Rightarrow> mem \<Rightarrow> mem option" where
  "Ipv4TcpPacket_View_recalculate_lengths v m = do {
     let (nb, ne) = Ipv4PacketView_to_bytes (tcpv_net v);
     let (tb, te) = TcpPacketView_to_bytes (tcpv_transport v);
     let (db, de) = DataPacketView_to_bytes (tcpv_payload v);
     let n_size = int ne - int nb;
     let t_size = int te - int tb;
     let d_size = int de - int db;
     m \<leftarrow> Ipv4PacketView_set_ip_total_length (tcpv_net v) m (of_int (n_size + t_size + d_size));
     TcpPacketView_set_transport_length (tcpv_transport v) m (of_int t_size) }"

definition Ipv4TcpPacket_View_collect_proto_data :: "Ipv4TcpPacket_View \<Rightarrow> mem \<Rightarrow> QTunnelProtoData option" where
  "Ipv4TcpPacket_View_collect_proto_data v m = do {
     t \<leftarrow> TcpPacketView_to_view (tcpv_transport v) m;
     bs \<leftarrow> QTunnelTCPViewScheme_generate_object_bytes t m;
     Some (QTunnelProtoData_of_range bs) }"

definition Ipv4TcpPacket_View_set_qtunnel_proto_data ::
    "Ipv4TcpPacket_View \<Rightarrow> mem \<Rightarrow> bytes \<Rightarrow> (mem \<times> Ipv4TcpPacket_View) option" where
  "Ipv4TcpPacket_View_set_qtunnel_proto_data v m data = do {
     let scheme = QTunnelTCPViewScheme_of_range data;
     let t = tcpv_transport v;
     seq \<leftarrow> QTunnelTCPViewScheme_get_seq scheme;
     m \<leftarrow> TcpPacketView_set_tcp_seq_number t m seq;
     ack \<leftarrow> QTunnelTCPViewScheme_get_ack scheme;
     m \<leftarrow> TcpPacketView_set_tcp_ack_number t m ack;
     flags \<leftarrow> QTunnelTCPViewScheme_get_flags scheme;
     m \<leftarrow> TcpPacketView_set_tcp_flags t m flags;
     offset \<leftarrow> QTunnelTCPViewScheme_get_offset scheme;
     m \<leftarrow> TcpPacketView_set_tcp_offset t m offset;
     window \<leftarrow> QTunnelTCPViewScheme_get_window scheme;
     m \<leftarrow> TcpPacketView_set_tcp_window t m window;
     urgent \<leftarrow> QTunnelTCPViewScheme_get_urgent_pointer scheme;
     m \<leftarrow> TcpPacketView_set_tcp_urgent t m urgent;
     opts \<leftarrow> QTunnelTCPViewScheme_get_options scheme;
     (m, t) \<leftarrow> TcpPacketView_set_tcp_options t m opts;
     Some (m, v\<lparr> tcpv_transport := t \<rparr>) }"

section \<open>IPv4 with TCP, objects\<close>

record Ipv4TcpPacket =
  tcpo_views :: Ipv4TcpPacket_View
  tcpo_data :: bytes

definition Ipv4TcpPacket_set_views :: "bytes \<Rightarrow> Ipv4TcpPacket option" where
  "Ipv4TcpPacket_set_views data = do {
     v \<leftarrow> Ipv4TcpPacket_View_of_range data 0 (length data);
     Some \<lparr> tcpo_views = v, tcpo_data = data \<rparr> }"

definition Ipv4TcpPacket_of_range :: "mem \<Rightarrow> ptr \<Rightarrow> ptr \<Rightarrow> Ipv4TcpPacket option" where
  "Ipv4TcpPacket_of_range m b e = do { data \<leftarrow> rd_range m b e; Ipv4TcpPacket_set_views data }"

definition Ipv4TcpPacket_of_parts :: "bytes \<Rightarrow> bytes \<Rightarrow> bytes \<Rightarrow> Ipv4TcpPacket option" where
  "Ipv4TcpPacket_of_parts n t d = do {
     _ \<leftarrow> Ipv4PacketView_of_range n 0 (length n);
     _ \<leftarrow> TcpPacketView_of_range t 0 (length t);
     Ipv4TcpPacket_set_views (n @ t @ d) }"

definition Ipv4TcpPacket_bytes :: "Ipv4TcpPacket \<Rightarrow> bytes option" where
  "Ipv4TcpPacket_bytes fp = (case Ipv4TcpPacket_View_bytes (tcpo_views fp) of (b, e) \<Rightarrow> rd_range (tcpo_data fp) b e)"

definition Ipv4TcpPacket_get_full_packet_length :: "Ipv4TcpPacket \<Rightarrow> UShort option" where
  "Ipv4TcpPacket_get_full_packet_length fp = Ipv4TcpPacket_View_get_full_packet_length (tcpo_views fp) (tcpo_data fp)"

definition Ipv4TcpPacket_recalculate_checksums :: "Ipv4TcpPacket \<Rightarrow> Ipv4TcpPacket option" where
  "Ipv4TcpPacket_recalculate_checksums fp = do {
     m \<leftarrow> Ipv4TcpPacket_View_recalculate_checksums (tcpo_views fp) (tcpo_data fp);
     Some (fp\<lparr> tcpo_data := m \<rparr>) }"

definition Ipv4TcpPacket_recalculate_lengths :: "Ipv4TcpPacket \<Rightarrow> Ipv4TcpPacket option" where
  "Ipv4TcpPacket_recalculate_lengths fp = do {
     m \<leftarrow> Ipv4TcpPacket_View_recalculate_lengths (tcpo_views fp) (tcpo_data fp);
     Some (fp\<lparr> tcpo_data := m \<rparr>) }"

text \<open>The view classes also build objects, so these come after the object class; the object
  class repeats them on its own vector.\<close>

definition Ipv4TcpPacket_View_new_packet_by_payload :: "Ipv4TcpPacket_View \<Rightarrow> mem \<Rightarrow> bytes \<Rightarrow> Ipv4TcpPacket option" where
  "Ipv4TcpPacket_View_new_packet_by_payload v m payload = do {
     let (nb, ne) = Ipv4PacketView_to_bytes (tcpv_net v);
     let (tb, te) = TcpPacketView_to_bytes (tcpv_transport v);
     n \<leftarrow> rd_range m nb ne;
     t \<leftarrow> rd_range m tb te;
     fp \<leftarrow> Ipv4TcpPacket_of_parts n t payload;
     m' \<leftarrow> TcpPacketView_set_transport_length (tcpv_transport (tcpo_views fp)) (tcpo_data fp) (of_nat (length payload));
     fp \<leftarrow> Ipv4TcpPacket_recalculate_lengths (fp\<lparr> tcpo_data := m' \<rparr>);
     Ipv4TcpPacket_recalculate_checksums fp }"

definition Ipv4TcpPacket_View_new_packet_by_this :: "Ipv4TcpPacket_View \<Rightarrow> mem \<Rightarrow> QTunnelProxy \<Rightarrow> bytes \<Rightarrow> Ipv4TcpPacket option" where
  "Ipv4TcpPacket_View_new_packet_by_this v m p payload = do {
     let scheme = QTunnelTCPViewScheme_of_range (QTunnelProxy_get_proto_data_bytes p);
     opts \<leftarrow> QTunnelTCPViewScheme_get_options scheme;
     seq \<leftarrow> QTunnelTCPViewScheme_get_seq scheme;
     ack \<leftarrow> QTunnelTCPViewScheme_get_ack scheme;
     offset \<leftarrow> QTunnelTCPViewScheme_get_offset scheme;
     flags \<leftarrow> QTunnelTCPViewScheme_get_flags scheme;
     window \<leftarrow> QTunnelTCPViewScheme_get_window scheme;
     urgent \<leftarrow> QTunnelTCPViewScheme_get_urgent_pointer scheme;
     t_header \<leftarrow> TcpPacketView_generate_object (QTunnelProxy_get_src_port p) (QTunnelProxy_get_dst_port p)
       seq ack offset flags window urgent opts;
     let total_size = length (TcpPacketLE_to_bytes t_header) + length payload;
     let (ob, oe) = Ipv4PacketView_to_bytes (tcpv_net v);
     old_header \<leftarrow> Ipv4PacketView_of_range m ob oe;
     n_header \<leftarrow> Ipv4PacketView_generate_object_from_parent old_header m (QTunnelProxy_get_src_addr p)
       (QTunnelProxy_get_dst_addr p) (of_nat total_size);
     fp \<leftarrow> Ipv4TcpPacket_of_parts (Ipv4PacketLE_to_bytes n_header) (TcpPacketLE_to_bytes t_header) payload;
     fp \<leftarrow> Ipv4TcpPacket_recalculate_lengths fp;
     Ipv4TcpPacket_recalculate_checksums fp }"

definition Ipv4TcpPacket_View_new_packet_bytes_by_this ::
    "Ipv4TcpPacket_View \<Rightarrow> mem \<Rightarrow> QTunnelProxy \<Rightarrow> bytes \<Rightarrow> bytes option" where
  "Ipv4TcpPacket_View_new_packet_bytes_by_this v m p payload = do {
     fp \<leftarrow> Ipv4TcpPacket_View_new_packet_by_this v m p payload;
     Ipv4TcpPacket_bytes fp }"

definition Ipv4TcpPacket_new_packet_by_payload :: "Ipv4TcpPacket \<Rightarrow> bytes \<Rightarrow> Ipv4TcpPacket option" where
  "Ipv4TcpPacket_new_packet_by_payload fp payload =
     Ipv4TcpPacket_View_new_packet_by_payload (tcpo_views fp) (tcpo_data fp) payload"

definition Ipv4TcpPacket_new_packet_by_this :: "Ipv4TcpPacket \<Rightarrow> QTunnelProxy \<Rightarrow> bytes \<Rightarrow> Ipv4TcpPacket option" where
  "Ipv4TcpPacket_new_packet_by_this fp p payload =
     Ipv4TcpPacket_View_new_packet_by_this (tcpo_views fp) (tcpo_data fp) p payload"

definition Ipv4TcpPacket_new_packet_bytes_by_this :: "Ipv4TcpPacket \<Rightarrow> QTunnelProxy \<Rightarrow> bytes \<Rightarrow> bytes option" where
  "Ipv4TcpPacket_new_packet_bytes_by_this fp p payload = do {
     fp \<leftarrow> Ipv4TcpPacket_new_packet_by_this fp p payload;
     Ipv4TcpPacket_bytes fp }"

definition Ipv4TcpPacket_collect_proto_data :: "Ipv4TcpPacket \<Rightarrow> QTunnelProtoData option" where
  "Ipv4TcpPacket_collect_proto_data fp = Ipv4TcpPacket_View_collect_proto_data (tcpo_views fp) (tcpo_data fp)"

definition Ipv4TcpPacket_set_qtunnel_proto_data :: "Ipv4TcpPacket \<Rightarrow> bytes \<Rightarrow> Ipv4TcpPacket option" where
  "Ipv4TcpPacket_set_qtunnel_proto_data fp data = do {
     (m, v) \<leftarrow> Ipv4TcpPacket_View_set_qtunnel_proto_data (tcpo_views fp) (tcpo_data fp) data;
     Some (fp\<lparr> tcpo_views := v, tcpo_data := m \<rparr>) }"

section \<open>TCP without a network header\<close>

definition NoNetPacketTcpFatObject_of_range :: "mem \<Rightarrow> ptr \<Rightarrow> ptr \<Rightarrow> FatNoNetPacket option" where
  "NoNetPacketTcpFatObject_of_range m b e = do {
     tr \<leftarrow> TcpPacketLE_of_range m b e;
     d \<leftarrow> DataPacketLE_of_range m (b + unat (TcpPacketLE_get_size tr)) e;
     Some \<lparr> fatn_transport = tr, fatn_payload = d, fatn_data = [] \<rparr> }"

definition NoNetPacketTcpFatObject_of_parts :: "bytes \<Rightarrow> bytes \<Rightarrow> FatNoNetPacket option" where
  "NoNetPacketTcpFatObject_of_parts t d = do {
     tr \<leftarrow> TcpPacketLE_of_range t 0 (length t);
     d \<leftarrow> DataPacketLE_of_range d 0 (length d);
     Some \<lparr> fatn_transport = tr, fatn_payload = d, fatn_data = [] \<rparr> }"

text \<open>The buffer is not cleared between calls.\<close>

definition NoNetPacketTcpFatObject_bytes :: "FatNoNetPacket \<Rightarrow> bytes \<times> FatNoNetPacket" where
  "NoNetPacketTcpFatObject_bytes np =
     (let data = fatn_data np @ TcpPacketLE_to_bytes (fatn_transport np) @ DataPacketLE_to_bytes (fatn_payload np)
      in (data, np\<lparr> fatn_data := data \<rparr>))"

definition NoNetPacketTcpFatObject_recalculate_checksums ::
    "FatNoNetPacket \<Rightarrow> NetAddr \<Rightarrow> NetAddr \<Rightarrow> UShort \<Rightarrow> FatNoNetPacket option" where
  "NoNetPacketTcpFatObject_recalculate_checksums np src dst len =
     (if NetAddr_get_addr_family src = NetProtocol_IPv4 then do {
        src4 \<leftarrow> NetAddr_to_ipv4 src;
        dst4 \<leftarrow> NetAddr_to_ipv4 dst;
        let pseudo = TransportIpv4PseudoHeader_of_addr src4 dst4 TransportProtocol_TCP len;
        tr \<leftarrow> TcpPacketLE_recalculate_transport_checksum (fatn_transport np) pseudo
          (DataPacketLE_get_payload (fatn_payload np));
        Some (np\<lparr> fatn_transport := tr \<rparr>) }
      else Some np)"

definition NoNetPacketTcpFatObject_recalculate_lengths :: "FatNoNetPacket \<Rightarrow> FatNoNetPacket option" where
  "NoNetPacketTcpFatObject_recalculate_lengths np = do {
     let t_size = length (TcpPacketLE_to_bytes (fatn_transport np));
     tr \<leftarrow> TcpPacketLE_set_transport_length (fatn_transport np) (of_nat t_size);
     Some (np\<lparr> fatn_transport := tr \<rparr>) }"

definition NoNetPacketTcpFatObject_new_packet_by_payload ::
    "FatNoNetPacket \<Rightarrow> NetAddr \<Rightarrow> NetAddr \<Rightarrow> UShort \<Rightarrow> bytes \<Rightarrow> FatNoNetPacket option" where
  "NoNetPacketTcpFatObject_new_packet_by_payload np src dst len payload = do {
     np \<leftarrow> NoNetPacketTcpFatObject_of_parts (TcpPacketLE_to_bytes (fatn_transport np)) payload;
     tr \<leftarrow> TcpPacketLE_set_transport_length (fatn_transport np) (of_nat (length payload));
     NoNetPacketTcpFatObject_recalculate_checksums (np\<lparr> fatn_transport := tr \<rparr>) src dst len }"

definition NoNetPacketTcpFatObject_new_packet_by_this ::
    "FatNoNetPacket \<Rightarrow> QTunnelProxy \<Rightarrow> bytes \<Rightarrow> FatNoNetPacket option" where
  "NoNetPacketTcpFatObject_new_packet_by_this np p payload = do {
     let scheme = QTunnelTCPViewScheme_of_range (QTunnelProxy_get_proto_data_bytes p);
     opts \<leftarrow> QTunnelTCPViewScheme_get_options scheme;
     seq \<leftarrow> QTunnelTCPViewScheme_get_seq scheme;
     ack \<leftarrow> QTunnelTCPViewScheme_get_ack scheme;
     offset \<leftarrow> QTunnelTCPViewScheme_get_offset scheme;
     flags \<leftarrow> QTunnelTCPViewScheme_get_flags scheme;
     window \<leftarrow> QTunnelTCPViewScheme_get_window scheme;
     urgent \<leftarrow> QTunnelTCPViewScheme_get_urgent_pointer scheme;
     t_header \<leftarrow> TcpPacketLE_generate_object (QTunnelProxy_get_src_port p) (QTunnelProxy_get_dst_port p)
       seq ack offset flags window urgent opts;
     let total_size = length (TcpPacketLE_to_bytes t_header) + length payload;
     np \<leftarrow> NoNetPacketTcpFatObject_of_parts (TcpPacketLE_to_bytes t_header) payload;
     np \<leftarrow> NoNetPacketTcpFatObject_recalculate_lengths np;
     NoNetPacketTcpFatObject_recalculate_checksums np (QTunnelProxy_get_src_addr p) (QTunnelProxy_get_dst_addr p)
       (of_nat total_size) }"

definition NoNetPacketTcpFatObject_new_packet_bytes_by_this :: "FatNoNetPacket \<Rightarrow> QTunnelProxy \<Rightarrow> bytes \<Rightarrow> bytes option" where
  "NoNetPacketTcpFatObject_new_packet_bytes_by_this np p payload = do {
     np \<leftarrow> NoNetPacketTcpFatObject_new_packet_by_this np p payload;
     Some (fst (NoNetPacketTcpFatObject_bytes np)) }"

definition NoNetPacketTcpFatObject_set_seq_ack_flags :: "FatNoNetPacket \<Rightarrow> UInt \<Rightarrow> UInt \<Rightarrow> UByte \<Rightarrow> FatNoNetPacket option" where
  "NoNetPacketTcpFatObject_set_seq_ack_flags np seq ack flags = do {
     tr \<leftarrow> TcpPacketLE_set_tcp_seq_number (fatn_transport np) seq;
     tr \<leftarrow> TcpPacketLE_set_tcp_ack_number tr ack;
     tr \<leftarrow> TcpPacketLE_set_tcp_flags tr (ucast flags);
     Some (np\<lparr> fatn_transport := tr \<rparr>) }"

record NoNetPacketTcpView =
  tcpnv_transport :: TcpPacketView
  tcpnv_payload :: DataPacketView

definition NoNetPacketTcpView_of_range :: "mem \<Rightarrow> ptr \<Rightarrow> ptr \<Rightarrow> NoNetPacketTcpView option" where
  "NoNetPacketTcpView_of_range m b e = do {
     tr \<leftarrow> TcpPacketView_of_range m b e;
     Some \<lparr> tcpnv_transport = tr, tcpnv_payload = DataPacketView_of_range (b + unat (TcpPacketView_get_size tr)) e \<rparr> }"

definition NoNetPacketTcpView_of_ranges :: "mem \<Rightarrow> ptr \<times> ptr \<Rightarrow> ptr \<times> ptr \<Rightarrow> NoNetPacketTcpView option" where
  "NoNetPacketTcpView_of_ranges m t d = do {
     tr \<leftarrow> TcpPacketView_of_range m (fst t) (snd t);
     Some \<lparr> tcpnv_transport = tr, tcpnv_payload = DataPacketView_of_range (fst d) (snd d) \<rparr> }"

definition NoNetPacketTcpView_bytes :: "NoNetPacketTcpView \<Rightarrow> ptr \<times> ptr" where
  "NoNetPacketTcpView_bytes v = (fst (TcpPacketView_to_bytes (tcpnv_transport v)), snd (DataPacketView_to_bytes (tcpnv_payload v)))"

definition NoNetPacketTcpView_recalculate_checksums ::
    "NoNetPacketTcpView \<Rightarrow> mem \<Rightarrow> NetAddr \<Rightarrow> NetAddr \<Rightarrow> UShort \<Rightarrow> mem option" where
  "NoNetPacketTcpView_recalculate_checksums v m src dst len =
     (if NetAddr_get_addr_family src = NetProtocol_IPv4 then do {
        src4 \<leftarrow> NetAddr_to_ipv4 src;
        dst4 \<leftarrow> NetAddr_to_ipv4 dst;
        let pseudo = TransportIpv4PseudoHeader_of_addr src4 dst4 TransportProtocol_TCP len;
        let (b, e) = DataPacketView_get_payload (tcpnv_payload v);
        TcpPacketView_recalculate_transport_checksum (tcpnv_transport v) m pseudo b e }
      else Some m)"

definition NoNetPacketTcpView_recalculate_lengths :: "NoNetPacketTcpView \<Rightarrow> mem \<Rightarrow> mem option" where
  "NoNetPacketTcpView_recalculate_lengths v m = (case TcpPacketView_to_bytes (tcpnv_transport v) of (tb, te) \<Rightarrow>
     TcpPacketView_set_transport_length (tcpnv_transport v) m (of_int (int te - int tb)))"

definition NoNetPacketTcpView_set_seq_ack_flags :: "NoNetPacketTcpView \<Rightarrow> mem \<Rightarrow> UInt \<Rightarrow> UInt \<Rightarrow> UByte \<Rightarrow> mem option" where
  "NoNetPacketTcpView_set_seq_ack_flags v m seq ack flags = do {
     m \<leftarrow> TcpPacketView_set_tcp_seq_number (tcpnv_transport v) m seq;
     m \<leftarrow> TcpPacketView_set_tcp_ack_number (tcpnv_transport v) m ack;
     TcpPacketView_set_tcp_flags (tcpnv_transport v) m (ucast flags) }"

record NoNetPacketTcpObject =
  tcpno_views :: NoNetPacketTcpView
  tcpno_data :: bytes

definition NoNetPacketTcpObject_set_views :: "bytes \<Rightarrow> NoNetPacketTcpObject option" where
  "NoNetPacketTcpObject_set_views data = do {
     v \<leftarrow> NoNetPacketTcpView_of_range data 0 (length data);
     Some \<lparr> tcpno_views = v, tcpno_data = data \<rparr> }"

definition NoNetPacketTcpObject_of_range :: "mem \<Rightarrow> ptr \<Rightarrow> ptr \<Rightarrow> NoNetPacketTcpObject option" where
  "NoNetPacketTcpObject_of_range m b e = do { data \<leftarrow> rd_range m b e; NoNetPacketTcpObject_set_views data }"

definition NoNetPacketTcpObject_of_parts :: "bytes \<Rightarrow> bytes \<Rightarrow> NoNetPacketTcpObject option" where
  "NoNetPacketTcpObject_of_parts t d = NoNetPacketTcpObject_set_views (t @ d)"

definition NoNetPacketTcpObject_bytes :: "NoNetPacketTcpObject \<Rightarrow> bytes option" where
  "NoNetPacketTcpObject_bytes np = (case NoNetPacketTcpView_bytes (tcpno_views np) of (b, e) \<Rightarrow> rd_range (tcpno_data np) b e)"

definition NoNetPacketTcpObject_recalculate_checksums :: "NoNetPacketTcpObject \<Rightarrow> NetAddr \<Rightarrow> NetAddr \<Rightarrow> UShort \<Rightarrow> NoNetPacketTcpObject option" where
  "NoNetPacketTcpObject_recalculate_checksums np src dst len = do {
     m \<leftarrow> NoNetPacketTcpView_recalculate_checksums (tcpno_views np) (tcpno_data np) src dst len;
     Some (np\<lparr> tcpno_data := m \<rparr>) }"

definition NoNetPacketTcpObject_recalculate_lengths :: "NoNetPacketTcpObject \<Rightarrow> NoNetPacketTcpObject option" where
  "NoNetPacketTcpObject_recalculate_lengths np = do {
     m \<leftarrow> NoNetPacketTcpView_recalculate_lengths (tcpno_views np) (tcpno_data np);
     Some (np\<lparr> tcpno_data := m \<rparr>) }"

definition NoNetPacketTcpObject_set_seq_ack_flags :: "NoNetPacketTcpObject \<Rightarrow> UInt \<Rightarrow> UInt \<Rightarrow> UByte \<Rightarrow> NoNetPacketTcpObject option" where
  "NoNetPacketTcpObject_set_seq_ack_flags np seq ack flags = do {
     m \<leftarrow> NoNetPacketTcpView_set_seq_ack_flags (tcpno_views np) (tcpno_data np) seq ack flags;
     Some (np\<lparr> tcpno_data := m \<rparr>) }"

definition NoNetPacketTcpView_new_packet_by_payload ::
    "NoNetPacketTcpView \<Rightarrow> mem \<Rightarrow> NetAddr \<Rightarrow> NetAddr \<Rightarrow> UShort \<Rightarrow> bytes \<Rightarrow> NoNetPacketTcpObject option" where
  "NoNetPacketTcpView_new_packet_by_payload v m src dst len payload = do {
     let (tb, te) = TcpPacketView_to_bytes (tcpnv_transport v);
     t \<leftarrow> rd_range m tb te;
     np \<leftarrow> NoNetPacketTcpObject_of_parts t payload;
     m' \<leftarrow> TcpPacketView_set_transport_length (tcpnv_transport (tcpno_views np)) (tcpno_data np) (of_nat (length payload));
     NoNetPacketTcpObject_recalculate_checksums (np\<lparr> tcpno_data := m' \<rparr>) src dst len }"

definition NoNetPacketTcpView_new_packet_by_this :: "NoNetPacketTcpView \<Rightarrow> mem \<Rightarrow> QTunnelProxy \<Rightarrow> bytes \<Rightarrow> NoNetPacketTcpObject option" where
  "NoNetPacketTcpView_new_packet_by_this v m p payload = do {
     let scheme = QTunnelTCPViewScheme_of_range (QTunnelProxy_get_proto_data_bytes p);
     opts \<leftarrow> QTunnelTCPViewScheme_get_options scheme;
     seq \<leftarrow> QTunnelTCPViewScheme_get_seq scheme;
     ack \<leftarrow> QTunnelTCPViewScheme_get_ack scheme;
     offset \<leftarrow> QTunnelTCPViewScheme_get_offset scheme;
     flags \<leftarrow> QTunnelTCPViewScheme_get_flags scheme;
     window \<leftarrow> QTunnelTCPViewScheme_get_window scheme;
     urgent \<leftarrow> QTunnelTCPViewScheme_get_urgent_pointer scheme;
     t_header \<leftarrow> TcpPacketView_generate_object (QTunnelProxy_get_src_port p) (QTunnelProxy_get_dst_port p)
       seq ack offset flags window urgent opts;
     let total_size = length (TcpPacketLE_to_bytes t_header) + length payload;
     np \<leftarrow> NoNetPacketTcpObject_of_parts (TcpPacketLE_to_bytes t_header) payload;
     np \<leftarrow> NoNetPacketTcpObject_recalculate_lengths np;
     NoNetPacketTcpObject_recalculate_checksums np (QTunnelProxy_get_src_addr p) (QTunnelProxy_get_dst_addr p)
       (of_nat total_size) }"

definition NoNetPacketTcpView_new_packet_bytes_by_this :: "NoNetPacketTcpView \<Rightarrow> mem \<Rightarrow> QTunnelProxy \<Rightarrow> bytes \<Rightarrow> bytes option" where
  "NoNetPacketTcpView_new_packet_bytes_by_this v m p payload = do {
     np \<leftarrow> NoNetPacketTcpView_new_packet_by_this v m p payload;
     NoNetPacketTcpObject_bytes np }"

definition NoNetPacketTcpObject_new_packet_by_payload ::
    "NoNetPacketTcpObject \<Rightarrow> NetAddr \<Rightarrow> NetAddr \<Rightarrow> UShort \<Rightarrow> bytes \<Rightarrow> NoNetPacketTcpObject option" where
  "NoNetPacketTcpObject_new_packet_by_payload np src dst len payload =
     NoNetPacketTcpView_new_packet_by_payload (tcpno_views np) (tcpno_data np) src dst len payload"

definition NoNetPacketTcpObject_new_packet_by_this :: "NoNetPacketTcpObject \<Rightarrow> QTunnelProxy \<Rightarrow> bytes \<Rightarrow> NoNetPacketTcpObject option" where
  "NoNetPacketTcpObject_new_packet_by_this np p payload =
     NoNetPacketTcpView_new_packet_by_this (tcpno_views np) (tcpno_data np) p payload"

definition NoNetPacketTcpObject_new_packet_bytes_by_this :: "NoNetPacketTcpObject \<Rightarrow> QTunnelProxy \<Rightarrow> bytes \<Rightarrow> bytes option" where
  "NoNetPacketTcpObject_new_packet_bytes_by_this np p payload = do {
     np \<leftarrow> NoNetPacketTcpObject_new_packet_by_this np p payload;
     NoNetPacketTcpObject_bytes np }"

section \<open>IPv4 with UDP, fat\<close>

definition Ipv4UdpFatPacket_of_range :: "mem \<Rightarrow> ptr \<Rightarrow> ptr \<Rightarrow> FatPacket option" where
  "Ipv4UdpFatPacket_of_range m b e = do {
     net \<leftarrow> Ipv4PacketLE_of_range m b e;
     let t = b + unat (Ipv4PacketLE_get_size net);
     tr \<leftarrow> UdpPacketLE_of_range m t e;
     d \<leftarrow> DataPacketLE_of_range m (t + unat (UdpPacketLE_get_size tr)) e;
     Some \<lparr> fat_net = net, fat_transport = tr, fat_payload = d, fat_data = [] \<rparr> }"

definition Ipv4UdpFatPacket_of_parts :: "bytes \<Rightarrow> bytes \<Rightarrow> bytes \<Rightarrow> FatPacket option" where
  "Ipv4UdpFatPacket_of_parts n t d = do {
     net \<leftarrow> Ipv4PacketLE_of_range n 0 (length n);
     tr \<leftarrow> UdpPacketLE_of_range t 0 (length t);
     d \<leftarrow> DataPacketLE_of_range d 0 (length d);
     Some \<lparr> fat_net = net, fat_transport = tr, fat_payload = d, fat_data = [] \<rparr> }"

text \<open>Unlike the TCP class, this one does not clear the buffer first: a second call returns the packet
  twice.\<close>

definition Ipv4UdpFatPacket_bytes :: "FatPacket \<Rightarrow> bytes \<times> FatPacket" where
  "Ipv4UdpFatPacket_bytes fp =
     (let data = fat_data fp @ Ipv4PacketLE_to_bytes (fat_net fp) @ UdpPacketLE_to_bytes (fat_transport fp) @
            DataPacketLE_to_bytes (fat_payload fp)
      in (data, fp\<lparr> fat_data := data \<rparr>))"

definition Ipv4UdpFatPacket_get_full_packet_length :: "FatPacket \<Rightarrow> UShort option" where
  "Ipv4UdpFatPacket_get_full_packet_length fp = Ipv4PacketLE_get_ip_total_length (fat_net fp)"

definition Ipv4UdpFatPacket_recalculate_checksums :: "FatPacket \<Rightarrow> FatPacket option" where
  "Ipv4UdpFatPacket_recalculate_checksums fp = do {
     net \<leftarrow> Ipv4PacketLE_recalculate_ip_checksum (fat_net fp);
     tl \<leftarrow> Ipv4PacketLE_get_ip_total_length net;
     hl \<leftarrow> Ipv4PacketLE_get_ip_header_length net;
     let len = tl - ucast hl * 4;
     src \<leftarrow> Ipv4PacketLE_get_ip_source net;
     dst \<leftarrow> Ipv4PacketLE_get_ip_dest net;
     proto \<leftarrow> Ipv4PacketLE_get_ip_protocol net;
     let pseudo = TransportIpv4PseudoHeader_of_addr src dst proto len;
     tr \<leftarrow> UdpPacketLE_recalculate_transport_checksum (fat_transport fp) pseudo
       (DataPacketLE_get_payload (fat_payload fp));
     Some (fp\<lparr> fat_net := net, fat_transport := tr \<rparr>) }"

definition Ipv4UdpFatPacket_recalculate_lengths :: "FatPacket \<Rightarrow> FatPacket option" where
  "Ipv4UdpFatPacket_recalculate_lengths fp = do {
     let n_size = length (Ipv4PacketLE_to_bytes (fat_net fp));
     let t_size = length (UdpPacketLE_to_bytes (fat_transport fp));
     let d_size = length (DataPacketLE_to_bytes (fat_payload fp));
     net \<leftarrow> Ipv4PacketLE_set_ip_total_length (fat_net fp) (of_nat (n_size + t_size + d_size));
     tr \<leftarrow> UdpPacketLE_set_transport_length (fat_transport fp) (of_nat t_size);
     Some (fp\<lparr> fat_net := net, fat_transport := tr \<rparr>) }"

definition Ipv4UdpFatPacket_new_packet_by_payload :: "FatPacket \<Rightarrow> bytes \<Rightarrow> FatPacket option" where
  "Ipv4UdpFatPacket_new_packet_by_payload fp payload = do {
     fp \<leftarrow> Ipv4UdpFatPacket_of_parts (Ipv4PacketLE_to_bytes (fat_net fp))
       (UdpPacketLE_to_bytes (fat_transport fp)) payload;
     tr \<leftarrow> UdpPacketLE_set_transport_length (fat_transport fp) (of_nat (length payload));
     fp \<leftarrow> Ipv4UdpFatPacket_recalculate_lengths (fp\<lparr> fat_transport := tr \<rparr>);
     Ipv4UdpFatPacket_recalculate_checksums fp }"

definition Ipv4UdpFatPacket_new_packet_by_this :: "FatPacket \<Rightarrow> QTunnelProxy \<Rightarrow> bytes \<Rightarrow> FatPacket option" where
  "Ipv4UdpFatPacket_new_packet_by_this fp p payload = do {
     let scheme = QTunnelUDPViewScheme_of_range (QTunnelProxy_get_proto_data_bytes p);
     len \<leftarrow> QTunnelUDPViewScheme_get_length scheme;
     t_header \<leftarrow> UdpPacketLE_generate_object (QTunnelProxy_get_src_port p) (QTunnelProxy_get_dst_port p) len;
     let total_size = length (UdpPacketLE_to_bytes t_header) + length payload;
     let old = Ipv4PacketLE_to_bytes (fat_net fp);
     old_header \<leftarrow> Ipv4PacketView_of_range old 0 (length old);
     n_header \<leftarrow> Ipv4PacketLE_generate_object_from_parent old_header old (QTunnelProxy_get_src_addr p)
       (QTunnelProxy_get_dst_addr p) (of_nat total_size);
     fp \<leftarrow> Ipv4UdpFatPacket_of_parts (Ipv4PacketLE_to_bytes n_header) (UdpPacketLE_to_bytes t_header) payload;
     fp \<leftarrow> Ipv4UdpFatPacket_recalculate_lengths fp;
     Ipv4UdpFatPacket_recalculate_checksums fp }"

definition Ipv4UdpFatPacket_new_packet_bytes_by_this :: "FatPacket \<Rightarrow> QTunnelProxy \<Rightarrow> bytes \<Rightarrow> bytes option" where
  "Ipv4UdpFatPacket_new_packet_bytes_by_this fp p payload = do {
     fp \<leftarrow> Ipv4UdpFatPacket_new_packet_by_this fp p payload;
     Some (fst (Ipv4UdpFatPacket_bytes fp)) }"

definition Ipv4UdpFatPacket_collect_proto_data :: "FatPacket \<Rightarrow> QTunnelProtoData option" where
  "Ipv4UdpFatPacket_collect_proto_data fp = do {
     let v = UdpPacketLE_to_view (fat_transport fp);
     bs \<leftarrow> QTunnelUDPViewScheme_generate_object_bytes v (fat_transport fp);
     Some (QTunnelProtoData_of_range bs) }"

text \<open>The UDP classes build the scheme and drop it.\<close>

definition Ipv4UdpFatPacket_set_qtunnel_proto_data :: "FatPacket \<Rightarrow> bytes \<Rightarrow> FatPacket" where
  "Ipv4UdpFatPacket_set_qtunnel_proto_data fp data = fp"

section \<open>IPv4 with UDP, views\<close>

record Ipv4UdpPacket_View =
  udpv_net :: Ipv4PacketView
  udpv_transport :: UdpPacketView
  udpv_payload :: DataPacketView

definition Ipv4UdpPacket_View_of_range :: "mem \<Rightarrow> ptr \<Rightarrow> ptr \<Rightarrow> Ipv4UdpPacket_View option" where
  "Ipv4UdpPacket_View_of_range m b e = do {
     net \<leftarrow> Ipv4PacketView_of_range m b e;
     let t = b + unat (Ipv4PacketView_get_size net);
     let tr = UdpPacketView_of_range m t e;
     Some \<lparr> udpv_net = net, udpv_transport = tr,
            udpv_payload = DataPacketView_of_range (t + unat (UdpPacketView_get_size tr)) e \<rparr> }"

definition Ipv4UdpPacket_View_of_ranges ::
    "mem \<Rightarrow> ptr \<times> ptr \<Rightarrow> ptr \<times> ptr \<Rightarrow> ptr \<times> ptr \<Rightarrow> Ipv4UdpPacket_View option" where
  "Ipv4UdpPacket_View_of_ranges m n t d = do {
     net \<leftarrow> Ipv4PacketView_of_range m (fst n) (snd n);
     let tr = UdpPacketView_of_range m (fst t) (snd t);
     Some \<lparr> udpv_net = net, udpv_transport = tr,
            udpv_payload = DataPacketView_of_range (fst d) (snd d) \<rparr> }"

definition Ipv4UdpPacket_View_bytes :: "Ipv4UdpPacket_View \<Rightarrow> ptr \<times> ptr" where
  "Ipv4UdpPacket_View_bytes v = (fst (Ipv4PacketView_to_bytes (udpv_net v)), snd (DataPacketView_to_bytes (udpv_payload v)))"

definition Ipv4UdpPacket_View_get_full_packet_length :: "Ipv4UdpPacket_View \<Rightarrow> mem \<Rightarrow> UShort option" where
  "Ipv4UdpPacket_View_get_full_packet_length v m = Ipv4PacketView_get_ip_total_length (udpv_net v) m"

definition Ipv4UdpPacket_View_recalculate_checksums :: "Ipv4UdpPacket_View \<Rightarrow> mem \<Rightarrow> mem option" where
  "Ipv4UdpPacket_View_recalculate_checksums v m = do {
     m \<leftarrow> Ipv4PacketView_recalculate_ip_checksum (udpv_net v) m;
     tl \<leftarrow> Ipv4PacketView_get_ip_total_length (udpv_net v) m;
     hl \<leftarrow> Ipv4PacketView_get_ip_header_length (udpv_net v) m;
     let len = tl - ucast hl * 4;
     src \<leftarrow> Ipv4PacketView_get_ip_source (udpv_net v) m;
     dst \<leftarrow> Ipv4PacketView_get_ip_dest (udpv_net v) m;
     proto \<leftarrow> Ipv4PacketView_get_ip_protocol (udpv_net v) m;
     let pseudo = TransportIpv4PseudoHeader_of_addr src dst proto len;
     let (b, e) = DataPacketView_get_payload (udpv_payload v);
     UdpPacketView_recalculate_transport_checksum (udpv_transport v) m pseudo b e }"

definition Ipv4UdpPacket_View_recalculate_lengths :: "Ipv4UdpPacket_View \<Rightarrow> mem \<Rightarrow> mem option" where
  "Ipv4UdpPacket_View_recalculate_lengths v m = do {
     let (nb, ne) = Ipv4PacketView_to_bytes (udpv_net v);
     let (tb, te) = UdpPacketView_to_bytes (udpv_transport v);
     let (db, de) = DataPacketView_to_bytes (udpv_payload v);
     let n_size = int ne - int nb;
     let t_size = int te - int tb;
     let d_size = int de - int db;
     m \<leftarrow> Ipv4PacketView_set_ip_total_length (udpv_net v) m (of_int (n_size + t_size + d_size));
     UdpPacketView_set_transport_length (udpv_transport v) m (of_int t_size) }"

definition Ipv4UdpPacket_View_collect_proto_data :: "Ipv4UdpPacket_View \<Rightarrow> mem \<Rightarrow> QTunnelProtoData option" where
  "Ipv4UdpPacket_View_collect_proto_data v m = do {
     let t = UdpPacketView_to_view (udpv_transport v) m;
     bs \<leftarrow> QTunnelUDPViewScheme_generate_object_bytes t m;
     Some (QTunnelProtoData_of_range bs) }"

definition Ipv4UdpPacket_View_set_qtunnel_proto_data :: "Ipv4UdpPacket_View \<Rightarrow> mem \<Rightarrow> bytes \<Rightarrow> mem \<times> Ipv4UdpPacket_View" where
  "Ipv4UdpPacket_View_set_qtunnel_proto_data v m data = (m, v)"

section \<open>IPv4 with UDP, objects\<close>

record Ipv4UdpPacket =
  udpo_views :: Ipv4UdpPacket_View
  udpo_data :: bytes

definition Ipv4UdpPacket_set_views :: "bytes \<Rightarrow> Ipv4UdpPacket option" where
  "Ipv4UdpPacket_set_views data = do {
     v \<leftarrow> Ipv4UdpPacket_View_of_range data 0 (length data);
     Some \<lparr> udpo_views = v, udpo_data = data \<rparr> }"

definition Ipv4UdpPacket_of_range :: "mem \<Rightarrow> ptr \<Rightarrow> ptr \<Rightarrow> Ipv4UdpPacket option" where
  "Ipv4UdpPacket_of_range m b e = do { data \<leftarrow> rd_range m b e; Ipv4UdpPacket_set_views data }"

definition Ipv4UdpPacket_of_parts :: "bytes \<Rightarrow> bytes \<Rightarrow> bytes \<Rightarrow> Ipv4UdpPacket option" where
  "Ipv4UdpPacket_of_parts n t d = do {
     Ipv4UdpPacket_set_views (n @ t @ d) }"

definition Ipv4UdpPacket_bytes :: "Ipv4UdpPacket \<Rightarrow> bytes option" where
  "Ipv4UdpPacket_bytes fp = (case Ipv4UdpPacket_View_bytes (udpo_views fp) of (b, e) \<Rightarrow> rd_range (udpo_data fp) b e)"

definition Ipv4UdpPacket_get_full_packet_length :: "Ipv4UdpPacket \<Rightarrow> UShort option" where
  "Ipv4UdpPacket_get_full_packet_length fp = Ipv4UdpPacket_View_get_full_packet_length (udpo_views fp) (udpo_data fp)"

definition Ipv4UdpPacket_recalculate_checksums :: "Ipv4UdpPacket \<Rightarrow> Ipv4UdpPacket option" where
  "Ipv4UdpPacket_recalculate_checksums fp = do {
     m \<leftarrow> Ipv4UdpPacket_View_recalculate_checksums (udpo_views fp) (udpo_data fp);
     Some (fp\<lparr> udpo_data := m \<rparr>) }"

definition Ipv4UdpPacket_recalculate_lengths :: "Ipv4UdpPacket \<Rightarrow> Ipv4UdpPacket option" where
  "Ipv4UdpPacket_recalculate_lengths fp = do {
     m \<leftarrow> Ipv4UdpPacket_View_recalculate_lengths (udpo_views fp) (udpo_data fp);
     Some (fp\<lparr> udpo_data := m \<rparr>) }"

text \<open>The view classes also build objects, so these come after the object class; the object
  class repeats them on its own vector.\<close>

definition Ipv4UdpPacket_View_new_packet_by_payload :: "Ipv4UdpPacket_View \<Rightarrow> mem \<Rightarrow> bytes \<Rightarrow> Ipv4UdpPacket option" where
  "Ipv4UdpPacket_View_new_packet_by_payload v m payload = do {
     let (nb, ne) = Ipv4PacketView_to_bytes (udpv_net v);
     let (tb, te) = UdpPacketView_to_bytes (udpv_transport v);
     n \<leftarrow> rd_range m nb ne;
     t \<leftarrow> rd_range m tb te;
     fp \<leftarrow> Ipv4UdpPacket_of_parts n t payload;
     m' \<leftarrow> UdpPacketView_set_transport_length (udpv_transport (udpo_views fp)) (udpo_data fp) (of_nat (length payload));
     fp \<leftarrow> Ipv4UdpPacket_recalculate_lengths (fp\<lparr> udpo_data := m' \<rparr>);
     Ipv4UdpPacket_recalculate_checksums fp }"

definition Ipv4UdpPacket_View_new_packet_by_this :: "Ipv4UdpPacket_View \<Rightarrow> mem \<Rightarrow> QTunnelProxy \<Rightarrow> bytes \<Rightarrow> Ipv4UdpPacket option" where
  "Ipv4UdpPacket_View_new_packet_by_this v m p payload = do {
     let scheme = QTunnelUDPViewScheme_of_range (QTunnelProxy_get_proto_data_bytes p);
     len \<leftarrow> QTunnelUDPViewScheme_get_length scheme;
     t_header \<leftarrow> UdpPacketView_generate_object (QTunnelProxy_get_src_port p) (QTunnelProxy_get_dst_port p) len;
     let total_size = length (UdpPacketLE_to_bytes t_header) + length payload;
     let (ob, oe) = Ipv4PacketView_to_bytes (udpv_net v);
     old_header \<leftarrow> Ipv4PacketView_of_range m ob oe;
     n_header \<leftarrow> Ipv4PacketView_generate_object_from_parent old_header m (QTunnelProxy_get_src_addr p)
       (QTunnelProxy_get_dst_addr p) (of_nat total_size);
     fp \<leftarrow> Ipv4UdpPacket_of_parts (Ipv4PacketLE_to_bytes n_header) (UdpPacketLE_to_bytes t_header) payload;
     fp \<leftarrow> Ipv4UdpPacket_recalculate_lengths fp;
     Ipv4UdpPacket_recalculate_checksums fp }"

definition Ipv4UdpPacket_View_new_packet_bytes_by_this ::
    "Ipv4UdpPacket_View \<Rightarrow> mem \<Rightarrow> QTunnelProxy \<Rightarrow> bytes \<Rightarrow> bytes option" where
  "Ipv4UdpPacket_View_new_packet_bytes_by_this v m p payload = do {
     fp \<leftarrow> Ipv4UdpPacket_View_new_packet_by_this v m p payload;
     Ipv4UdpPacket_bytes fp }"

definition Ipv4UdpPacket_new_packet_by_payload :: "Ipv4UdpPacket \<Rightarrow> bytes \<Rightarrow> Ipv4UdpPacket option" where
  "Ipv4UdpPacket_new_packet_by_payload fp payload =
     Ipv4UdpPacket_View_new_packet_by_payload (udpo_views fp) (udpo_data fp) payload"

definition Ipv4UdpPacket_new_packet_by_this :: "Ipv4UdpPacket \<Rightarrow> QTunnelProxy \<Rightarrow> bytes \<Rightarrow> Ipv4UdpPacket option" where
  "Ipv4UdpPacket_new_packet_by_this fp p payload =
     Ipv4UdpPacket_View_new_packet_by_this (udpo_views fp) (udpo_data fp) p payload"

definition Ipv4UdpPacket_new_packet_bytes_by_this :: "Ipv4UdpPacket \<Rightarrow> QTunnelProxy \<Rightarrow> bytes \<Rightarrow> bytes option" where
  "Ipv4UdpPacket_new_packet_bytes_by_this fp p payload = do {
     fp \<leftarrow> Ipv4UdpPacket_new_packet_by_this fp p payload;
     Ipv4UdpPacket_bytes fp }"

definition Ipv4UdpPacket_collect_proto_data :: "Ipv4UdpPacket \<Rightarrow> QTunnelProtoData option" where
  "Ipv4UdpPacket_collect_proto_data fp = Ipv4UdpPacket_View_collect_proto_data (udpo_views fp) (udpo_data fp)"

definition Ipv4UdpPacket_set_qtunnel_proto_data :: "Ipv4UdpPacket \<Rightarrow> bytes \<Rightarrow> Ipv4UdpPacket" where
  "Ipv4UdpPacket_set_qtunnel_proto_data fp data = fp"

section \<open>UDP without a network header\<close>

definition NoNetPacketUdpFatObject_of_range :: "mem \<Rightarrow> ptr \<Rightarrow> ptr \<Rightarrow> FatNoNetPacket option" where
  "NoNetPacketUdpFatObject_of_range m b e = do {
     tr \<leftarrow> UdpPacketLE_of_range m b e;
     d \<leftarrow> DataPacketLE_of_range m (b + unat (UdpPacketLE_get_size tr)) e;
     Some \<lparr> fatn_transport = tr, fatn_payload = d, fatn_data = [] \<rparr> }"

definition NoNetPacketUdpFatObject_of_parts :: "bytes \<Rightarrow> bytes \<Rightarrow> FatNoNetPacket option" where
  "NoNetPacketUdpFatObject_of_parts t d = do {
     tr \<leftarrow> UdpPacketLE_of_range t 0 (length t);
     d \<leftarrow> DataPacketLE_of_range d 0 (length d);
     Some \<lparr> fatn_transport = tr, fatn_payload = d, fatn_data = [] \<rparr> }"

text \<open>The buffer is not cleared between calls.\<close>

definition NoNetPacketUdpFatObject_bytes :: "FatNoNetPacket \<Rightarrow> bytes \<times> FatNoNetPacket" where
  "NoNetPacketUdpFatObject_bytes np =
     (let data = fatn_data np @ UdpPacketLE_to_bytes (fatn_transport np) @ DataPacketLE_to_bytes (fatn_payload np)
      in (data, np\<lparr> fatn_data := data \<rparr>))"

definition NoNetPacketUdpFatObject_recalculate_checksums ::
    "FatNoNetPacket \<Rightarrow> NetAddr \<Rightarrow> NetAddr \<Rightarrow> UShort \<Rightarrow> FatNoNetPacket option" where
  "NoNetPacketUdpFatObject_recalculate_checksums np src dst len =
     (if NetAddr_get_addr_family src = NetProtocol_IPv4 then do {
        src4 \<leftarrow> NetAddr_to_ipv4 src;
        dst4 \<leftarrow> NetAddr_to_ipv4 dst;
        let pseudo = TransportIpv4PseudoHeader_of_addr src4 dst4 TransportProtocol_UDP len;
        tr \<leftarrow> UdpPacketLE_recalculate_transport_checksum (fatn_transport np) pseudo
          (DataPacketLE_get_payload (fatn_payload np));
        Some (np\<lparr> fatn_transport := tr \<rparr>) }
      else Some np)"

definition NoNetPacketUdpFatObject_recalculate_lengths :: "FatNoNetPacket \<Rightarrow> FatNoNetPacket option" where
  "NoNetPacketUdpFatObject_recalculate_lengths np = do {
     let t_size = length (UdpPacketLE_to_bytes (fatn_transport np));
     tr \<leftarrow> UdpPacketLE_set_transport_length (fatn_transport np) (of_nat t_size);
     Some (np\<lparr> fatn_transport := tr \<rparr>) }"

definition NoNetPacketUdpFatObject_new_packet_by_payload ::
    "FatNoNetPacket \<Rightarrow> NetAddr \<Rightarrow> NetAddr \<Rightarrow> UShort \<Rightarrow> bytes \<Rightarrow> FatNoNetPacket option" where
  "NoNetPacketUdpFatObject_new_packet_by_payload np src dst len payload = do {
     np \<leftarrow> NoNetPacketUdpFatObject_of_parts (UdpPacketLE_to_bytes (fatn_transport np)) payload;
     tr \<leftarrow> UdpPacketLE_set_transport_length (fatn_transport np) (of_nat (length payload));
     NoNetPacketUdpFatObject_recalculate_checksums (np\<lparr> fatn_transport := tr \<rparr>) src dst len }"

definition NoNetPacketUdpFatObject_new_packet_by_this ::
    "FatNoNetPacket \<Rightarrow> QTunnelProxy \<Rightarrow> bytes \<Rightarrow> FatNoNetPacket option" where
  "NoNetPacketUdpFatObject_new_packet_by_this np p payload = do {
     let scheme = QTunnelUDPViewScheme_of_range (QTunnelProxy_get_proto_data_bytes p);
     len \<leftarrow> QTunnelUDPViewScheme_get_length scheme;
     t_header \<leftarrow> UdpPacketLE_generate_object (QTunnelProxy_get_src_port p) (QTunnelProxy_get_dst_port p) len;
     let total_size = length (UdpPacketLE_to_bytes t_header) + length payload;
     np \<leftarrow> NoNetPacketUdpFatObject_of_parts (UdpPacketLE_to_bytes t_header) payload;
     np \<leftarrow> NoNetPacketUdpFatObject_recalculate_lengths np;
     NoNetPacketUdpFatObject_recalculate_checksums np (QTunnelProxy_get_src_addr p) (QTunnelProxy_get_dst_addr p)
       (of_nat total_size) }"

definition NoNetPacketUdpFatObject_new_packet_bytes_by_this :: "FatNoNetPacket \<Rightarrow> QTunnelProxy \<Rightarrow> bytes \<Rightarrow> bytes option" where
  "NoNetPacketUdpFatObject_new_packet_bytes_by_this np p payload = do {
     np \<leftarrow> NoNetPacketUdpFatObject_new_packet_by_this np p payload;
     Some (fst (NoNetPacketUdpFatObject_bytes np)) }"

definition NoNetPacketUdpFatObject_set_seq_ack_flags :: "FatNoNetPacket \<Rightarrow> UInt \<Rightarrow> UInt \<Rightarrow> UByte \<Rightarrow> FatNoNetPacket" where
  "NoNetPacketUdpFatObject_set_seq_ack_flags np seq ack flags = np"

record NoNetPacketUdpView =
  udpnv_transport :: UdpPacketView
  udpnv_payload :: DataPacketView

definition NoNetPacketUdpView_of_range :: "mem \<Rightarrow> ptr \<Rightarrow> ptr \<Rightarrow> NoNetPacketUdpView option" where
  "NoNetPacketUdpView_of_range m b e = do {
     let tr = UdpPacketView_of_range m b e;
     Some \<lparr> udpnv_transport = tr, udpnv_payload = DataPacketView_of_range (b + unat (UdpPacketView_get_size tr)) e \<rparr> }"

definition NoNetPacketUdpView_of_ranges :: "mem \<Rightarrow> ptr \<times> ptr \<Rightarrow> ptr \<times> ptr \<Rightarrow> NoNetPacketUdpView option" where
  "NoNetPacketUdpView_of_ranges m t d = do {
     let tr = UdpPacketView_of_range m (fst t) (snd t);
     Some \<lparr> udpnv_transport = tr, udpnv_payload = DataPacketView_of_range (fst d) (snd d) \<rparr> }"

definition NoNetPacketUdpView_bytes :: "NoNetPacketUdpView \<Rightarrow> ptr \<times> ptr" where
  "NoNetPacketUdpView_bytes v = (fst (UdpPacketView_to_bytes (udpnv_transport v)), snd (DataPacketView_to_bytes (udpnv_payload v)))"

definition NoNetPacketUdpView_recalculate_checksums ::
    "NoNetPacketUdpView \<Rightarrow> mem \<Rightarrow> NetAddr \<Rightarrow> NetAddr \<Rightarrow> UShort \<Rightarrow> mem option" where
  "NoNetPacketUdpView_recalculate_checksums v m src dst len =
     (if NetAddr_get_addr_family src = NetProtocol_IPv4 then do {
        src4 \<leftarrow> NetAddr_to_ipv4 src;
        dst4 \<leftarrow> NetAddr_to_ipv4 dst;
        let pseudo = TransportIpv4PseudoHeader_of_addr src4 dst4 TransportProtocol_UDP len;
        let (b, e) = DataPacketView_get_payload (udpnv_payload v);
        UdpPacketView_recalculate_transport_checksum (udpnv_transport v) m pseudo b e }
      else Some m)"

definition NoNetPacketUdpView_recalculate_lengths :: "NoNetPacketUdpView \<Rightarrow> mem \<Rightarrow> mem option" where
  "NoNetPacketUdpView_recalculate_lengths v m = (case UdpPacketView_to_bytes (udpnv_transport v) of (tb, te) \<Rightarrow>
     UdpPacketView_set_transport_length (udpnv_transport v) m (of_int (int te - int tb)))"

definition NoNetPacketUdpView_set_seq_ack_flags :: "NoNetPacketUdpView \<Rightarrow> mem \<Rightarrow> UInt \<Rightarrow> UInt \<Rightarrow> UByte \<Rightarrow> mem" where
  "NoNetPacketUdpView_set_seq_ack_flags v m seq ack flags = m"

text \<open>The object form copies the range into its vector but leaves its views on the caller's memory;
  the constructor from two ranges measures the payload from the caller's buffer to the end of its own
  vector, which is undefined.  So is every operation that builds such an object.\<close>

record NoNetPacketUdpObject =
  udpno_views :: NoNetPacketUdpView
  udpno_data :: bytes

definition NoNetPacketUdpObject_of_range :: "mem \<Rightarrow> ptr \<Rightarrow> ptr \<Rightarrow> NoNetPacketUdpObject option" where
  "NoNetPacketUdpObject_of_range m b e = do {
     data \<leftarrow> rd_range m b e;
     v \<leftarrow> NoNetPacketUdpView_of_range m b e;
     Some \<lparr> udpno_views = v, udpno_data = data \<rparr> }"

definition NoNetPacketUdpObject_of_parts :: "bytes \<Rightarrow> bytes \<Rightarrow> NoNetPacketUdpObject option" where
  "NoNetPacketUdpObject_of_parts t d = None"

definition NoNetPacketUdpObject_bytes :: "NoNetPacketUdpObject \<Rightarrow> ptr \<times> ptr" where
  "NoNetPacketUdpObject_bytes np = NoNetPacketUdpView_bytes (udpno_views np)"

definition NoNetPacketUdpObject_recalculate_checksums ::
    "NoNetPacketUdpObject \<Rightarrow> mem \<Rightarrow> NetAddr \<Rightarrow> NetAddr \<Rightarrow> UShort \<Rightarrow> mem option" where
  "NoNetPacketUdpObject_recalculate_checksums np m src dst len = NoNetPacketUdpView_recalculate_checksums (udpno_views np) m src dst len"

definition NoNetPacketUdpObject_recalculate_lengths :: "NoNetPacketUdpObject \<Rightarrow> mem \<Rightarrow> mem option" where
  "NoNetPacketUdpObject_recalculate_lengths np m = NoNetPacketUdpView_recalculate_lengths (udpno_views np) m"

section \<open>Checksums of a whole packet\<close>

text \<open>The twenty bytes of a plain IPv4 header and the pseudo header its fields give.\<close>

definition ip_pseudo_header :: "bytes \<Rightarrow> bytes" where
  "ip_pseudo_header h = take 4 (drop 12 h) @ take 4 (drop 16 h) @ [0, h ! 9] @
     be16_bytes (be16 (h ! 2) (h ! 3) - 20)"

lemma length_ip_pseudo_header [simp]: "20 \<le> length h \<Longrightarrow> length (ip_pseudo_header h) = 12"
  by (simp add: ip_pseudo_header_def)

lemma lo_nibble_5_times4: "lo_nibble x = 5 \<Longrightarrow> ucast (lo_nibble x) * (4 :: UShort) = 20"
  by simp

lemma pseudo_from_view:
  assumes "20 \<le> length m" "lo_nibble (m ! 0) = 5" "ip4_header v = 0"
  shows "Ipv4PacketView_get_ip_total_length v m = Some (be16 (m ! 2) (m ! 3))"
    "Ipv4PacketView_get_ip_header_length v m = Some 5"
    "Ipv4PacketView_get_ip_protocol v m = Some (m ! 9)"
    "Ipv4PacketView_get_ip_source v m = Some (IPv4Address (m ! 12) (m ! 13) (m ! 14) (m ! 15))"
    "Ipv4PacketView_get_ip_dest v m = Some (IPv4Address (m ! 16) (m ! 17) (m ! 18) (m ! 19))"
  using assms by (simp_all add: ip4_view_get_defs Ipv4PacketView_get_ip_header_length_def rd_def rd16_def
      numeral_2_eq_2 numeral_3_eq_3 del: length_greater_0_conv)

lemma take4_drop: "k + 4 \<le> length m \<Longrightarrow> take 4 (drop k m) = [m ! k, m ! (k + 1), m ! (k + 2), m ! (k + 3)]"
  by (rule nth_equalityI) (auto simp: less_Suc_eq numeral_eq_Suc)

lemma ip_pseudo_header_eq:
  assumes "20 \<le> length m"
  shows "TransportIpv4PseudoHeader_of_addr (IPv4Address (m ! 12) (m ! 13) (m ! 14) (m ! 15))
      (IPv4Address (m ! 16) (m ! 17) (m ! 18) (m ! 19)) (m ! 9) (be16 (m ! 2) (m ! 3) - 20) =
    ip_pseudo_header m"
  using assms take4_drop [of 12 m] take4_drop [of 16 m]
  by (simp add: TransportIpv4PseudoHeader_of_addr_def ip_pseudo_header_def)

text \<open>The IPv4 part: the header at the start of the buffer verifies and nothing else moves.\<close>

lemma ip_view_checksum_at_start:
  assumes "20 \<le> length m" "lo_nibble (m ! 0) = 5" "ip4_header v = 0" "ip4_add_header_size v = 0"
  shows "\<exists>m1. Ipv4PacketView_recalculate_ip_checksum v m = Some m1 \<and> length m1 = length m \<and>
    (\<forall>i. i \<noteq> 10 \<longrightarrow> i \<noteq> 11 \<longrightarrow> m1 ! i = m ! i) \<and> checksum_valid (words_sum (take 20 m1))"
proof -
  let ?h = "take 20 m"
  define c where "c = checksum_of (of_nat (words_sum (?h[10 := 0, 11 := 0])))"
  let ?m = "m[10 := byte_of 8 c, 11 := byte_of 0 c]"
  have "Ipv4PacketView_recalculate_ip_checksum v m = Some ?m"
    using Ipv4PacketView_recalculate_plain [of v m c] assms by (simp add: c_def take_update_swap)
  moreover have "checksum_valid (words_sum (take 20 ?m))"
    using words_sum_checksum [of 10 11 ?h c 0, unfolded c_def] assms
    by (simp add: c_def take_update_swap)
  ultimately show ?thesis by (intro exI [of _ ?m]) simp
qed

lemma hi_nibble_less: "unat (hi_nibble x) < 16"
proof -
  have "unat (hi_nibble x) = unat x div 16"
    unfolding hi_nibble_def by (simp only: unat_drop_bit_eq) (simp add: drop_bit_eq_div)
  then show ?thesis using unat_byte_less [of x] by simp
qed

lemma tcp_view_shape:
  assumes "40 \<le> length m" "lo_nibble (m ! 0) = 5" "5 \<le> unat (hi_nibble (m ! 32))"
  shows "Ipv4TcpPacket_View_of_range m 0 (length m) = Some
    \<lparr> tcpv_net = \<lparr> ip4_header = 0, ip4_additional_header = 20, ip4_add_header_size = 0 \<rparr>,
      tcpv_transport = \<lparr> tcp_header = 20, tcp_options = 40,
        tcp_options_size = 4 * (int (unat (hi_nibble (m ! 32))) - 5) \<rparr>,
      tcpv_payload = DataPacketView_of_range (20 + 4 * unat (hi_nibble (m ! 32))) (length m) \<rparr>"
proof -
  let ?k = "unat (hi_nibble (m ! 32))"
  have k: "?k < 256" by (rule unat_byte_less)
  have "unat (of_int (20 + (int ?k - 5) * 4) :: UShort) = 4 * ?k"
  proof -
    have "(of_int (20 + (int ?k - 5) * 4) :: UShort) = of_nat (4 * ?k)"
      by (subst of_int_of_nat_eq [symmetric], rule arg_cong [of _ _ of_int]) simp
    then show ?thesis using k by (simp only: unat_of_nat) (simp add: mod_less)
  qed
  then show ?thesis
    using assms by (simp add: Ipv4TcpPacket_View_of_range_def Ipv4PacketView_of_range_def
        Ipv4PacketView_parse_packet_def Ipv4PacketView_get_ip_header_length_def rd_def ip_size_defs
        Ipv4PacketView_get_size_def ip4_header_size_def TcpPacketView_of_range_def
        TcpPacketView_parse_packet_def TcpPacketView_get_tcp_header_length_def tcp_size_defs
        TcpPacketView_get_size_def tcp_header_size_def mult.commute del: length_greater_0_conv)
qed

lemma tcp_packet_checksums:
  assumes len: "40 \<le> length m" "length m \<le> 65535" and hl: "lo_nibble (m ! 0) = 5"
    and off: "5 \<le> unat (hi_nibble (m ! 32))" "20 + 4 * unat (hi_nibble (m ! 32)) \<le> length m"
    and v: "Ipv4TcpPacket_View_of_range m 0 (length m) = Some v"
  shows "\<exists>m'. Ipv4TcpPacket_View_recalculate_checksums v m = Some m' \<and> length m' = length m \<and>
    (\<forall>i. i \<notin> {10, 11, 36, 37} \<longrightarrow> m' ! i = m ! i) \<and> checksum_valid (words_sum (take 20 m')) \<and>
    checksum_valid (words_sum (drop 20 m') + words_sum (ip_pseudo_header m'))"
proof -
  obtain k where k: "unat (hi_nibble (m ! 32)) = k" "k < 16" using hi_nibble_less by blast
  let ?n = "4 * (k - 5)" and ?d = "20 + 4 * k"
  let ?t = "\<lparr> tcp_header = 20, tcp_options = 40, tcp_options_size = 4 * (int k - 5) \<rparr>"
  note shape = tcp_view_shape [OF len(1) hl off(1), unfolded k(1)] and off = off [unfolded k(1)]
  have n: "nat (tcp_options_size ?t) = ?n" using off(1) by simp
  have nb: "?n \<le> 40" "length m - ?d \<le> 65535" using k(2) len by simp_all
  have v': "tcpv_transport v = ?t" "ip4_header (tcpv_net v) = 0" "ip4_add_header_size (tcpv_net v) = 0"
    "DataPacketView_get_payload (tcpv_payload v) = (?d, length m)"
    using v shape off(2) by (auto simp: DataPacketView_of_range_def DataPacketView_get_payload_def)
  obtain m1 where 1: "Ipv4PacketView_recalculate_ip_checksum (tcpv_net v) m = Some m1" "length m1 = length m"
    "\<forall>i. i \<noteq> 10 \<longrightarrow> i \<noteq> 11 \<longrightarrow> m1 ! i = m ! i" "checksum_valid (words_sum (take 20 m1))"
    using ip_view_checksum_at_start [OF _ hl v'(2,3)] len by auto
  have valid: "TcpPacketView_valid ?t m1" "TcpPacketView_data_ok ?t m1 (?d, length m)"
    using off len 1(2) n by (auto simp: TcpPacketView_valid_def TcpPacketView_data_ok_def)
  have p: "length (ip_pseudo_header m1) = 12" using 1(2) len by simp
  obtain m' where m': "TcpPacketView_recalculate_transport_checksum ?t m1 (ip_pseudo_header m1) ?d (length m) = Some m'"
    "length m' = length m1" "\<forall>i. i \<noteq> 36 \<longrightarrow> i \<noteq> 37 \<longrightarrow> m' ! i = m1 ! i"
    "checksum_valid (words_sum (mslice m' 20 (20 + ?n)) +
      (words_sum (ip_pseudo_header m1) + words_sum (mslice m' ?d (length m - ?d))))"
    using TcpPacketView_recalculate_valid [OF valid p _ n [symmetric] nb, of 20] by auto
  have same: "take 20 m' = take 20 m1" "ip_pseudo_header m' = ip_pseudo_header m1"
    using m'(2,3) 1(2) len by (auto intro!: nth_equalityI simp: ip_pseudo_header_def)
  have "mslice m' 20 (20 + ?n) @ mslice m' ?d (length m - ?d) = drop 20 m'"
    using mslice_append [of 20 "20 + ?n" m' "length m - ?d"] off m'(2) 1(2)
    by (simp add: mslice_def algebra_simps)
  then have "words_sum (drop 20 m') = words_sum (mslice m' 20 (20 + ?n)) + words_sum (mslice m' ?d (length m - ?d))"
    using words_sum_append [of "mslice m' 20 (20 + ?n)" "mslice m' ?d (length m - ?d)"] off m'(2) 1(2)
    by simp
  moreover have "Ipv4TcpPacket_View_recalculate_checksums v m = Some m'"
    using 1 m'(1) v' hl len pseudo_from_view [of m1 "tcpv_net v"] ip_pseudo_header_eq [of m1]
    by (simp add: Ipv4TcpPacket_View_recalculate_checksums_def)
  ultimately show ?thesis
    using m' 1 same by (intro exI [of _ m']) (auto simp: ac_simps)
qed

lemma udp_view_shape:
  assumes "28 \<le> length m" "lo_nibble (m ! 0) = 5"
  shows "Ipv4UdpPacket_View_of_range m 0 (length m) = Some
    \<lparr> udpv_net = \<lparr> ip4_header = 0, ip4_additional_header = 20, ip4_add_header_size = 0 \<rparr>,
      udpv_transport = \<lparr> udp_header = 20 \<rparr>, udpv_payload = DataPacketView_of_range 28 (length m) \<rparr>"
  using assms by (simp add: Ipv4UdpPacket_View_of_range_def Ipv4PacketView_of_range_def
      Ipv4PacketView_parse_packet_def Ipv4PacketView_get_ip_header_length_def rd_def ip_size_defs
      Ipv4PacketView_get_size_def ip4_header_size_def UdpPacketView_of_range_def
      UdpPacketView_parse_packet_def UdpPacketView_get_size_def udp_header_size_def
      del: length_greater_0_conv)

lemma udp_packet_checksums:
  assumes len: "28 \<le> length m" "length m \<le> 65535" and hl: "lo_nibble (m ! 0) = 5"
    and v: "Ipv4UdpPacket_View_of_range m 0 (length m) = Some v"
  shows "\<exists>m'. Ipv4UdpPacket_View_recalculate_checksums v m = Some m' \<and> length m' = length m \<and>
    (\<forall>i. i \<notin> {10, 11, 26, 27} \<longrightarrow> m' ! i = m ! i) \<and> checksum_valid (words_sum (take 20 m')) \<and>
    checksum_valid (words_sum (drop 20 m') + words_sum (ip_pseudo_header m'))"
proof -
  let ?t = "\<lparr> udp_header = 20 \<rparr>"
  have v': "udpv_transport v = ?t" "ip4_header (udpv_net v) = 0" "ip4_add_header_size (udpv_net v) = 0"
    "DataPacketView_get_payload (udpv_payload v) = (28, length m)"
    using v udp_view_shape [OF len(1) hl] len
    by (auto simp: DataPacketView_of_range_def DataPacketView_get_payload_def)
  obtain m1 where 1: "Ipv4PacketView_recalculate_ip_checksum (udpv_net v) m = Some m1" "length m1 = length m"
    "\<forall>i. i \<noteq> 10 \<longrightarrow> i \<noteq> 11 \<longrightarrow> m1 ! i = m ! i" "checksum_valid (words_sum (take 20 m1))"
    using ip_view_checksum_at_start [OF _ hl v'(2,3)] len by auto
  have valid: "UdpPacketView_data_ok ?t m1 (28, length m)"
    using len 1(2) by (auto simp: UdpPacketView_data_ok_def)
  have nb: "length m - 28 \<le> 65535" using len by simp
  have p: "length (ip_pseudo_header m1) = 12" using 1(2) len by simp
  obtain m' where m': "UdpPacketView_recalculate_transport_checksum ?t m1 (ip_pseudo_header m1) 28 (length m) = Some m'"
    "length m' = length m1" "\<forall>i. i \<noteq> 26 \<longrightarrow> i \<noteq> 27 \<longrightarrow> m' ! i = m1 ! i"
    "checksum_valid (words_sum (mslice m' 20 8) +
      (words_sum (ip_pseudo_header m1) + words_sum (mslice m' 28 (length m - 28))))"
    using UdpPacketView_recalculate_valid [OF valid p, of 20, OF _ nb] by auto
  have same: "take 20 m' = take 20 m1" "ip_pseudo_header m' = ip_pseudo_header m1"
    using m'(2,3) 1(2) len by (auto intro!: nth_equalityI simp: ip_pseudo_header_def)
  have "mslice m' 20 8 @ mslice m' 28 (length m - 28) = drop 20 m'"
    using mslice_append [of 20 8 m' "length m - 28"] len m'(2) 1(2) by (simp add: mslice_def)
  then have "words_sum (drop 20 m') = words_sum (mslice m' 20 8) + words_sum (mslice m' 28 (length m - 28))"
    using words_sum_append [of "mslice m' 20 8" "mslice m' 28 (length m - 28)"] len m'(2) 1(2) by simp
  moreover have "Ipv4UdpPacket_View_recalculate_checksums v m = Some m'"
    using 1 m'(1) v' hl len pseudo_from_view [of m1 "udpv_net v"] ip_pseudo_header_eq [of m1]
    by (simp add: Ipv4UdpPacket_View_recalculate_checksums_def)
  ultimately show ?thesis
    using m' 1 same by (intro exI [of _ m']) (auto simp: ac_simps)
qed

section \<open>Packets rebuilt at the far end\<close>

lemma TcpPacketLE_of_own_bytes:
  assumes "20 \<le> length h" "4 * unat (hi_nibble (h ! 12)) = length h"
  shows "TcpPacketLE_of_range h 0 (length h) = Some h"
  using assms by (simp add: TcpPacketLE_of_range_def TcpPacketLE_parse_packet_def rd_range_def
      TcpPacketLE_get_tcp_header_length_def rd_def tcp_size_defs mult.commute diff_mult_distrib
      del: length_greater_0_conv)

lemma Ipv4PacketLE_of_own_bytes:
  assumes "length h = 20" "lo_nibble (h ! 0) = 5"
  shows "Ipv4PacketLE_of_range h 0 20 = Some h"
  using assms by (simp add: Ipv4PacketLE_of_range_def Ipv4PacketLE_parse_packet_def rd_range_def
      Ipv4PacketLE_get_ip_header_length_def rd_def ip_size_defs del: length_greater_0_conv)

lemma plain_view_of_header:
  assumes "length h = 20" "lo_nibble (h ! 0) = 5"
  shows "Ipv4PacketView_of_range h 0 20 =
    Some \<lparr> ip4_header = 0, ip4_additional_header = 20, ip4_add_header_size = 0 \<rparr>"
  using assms by (simp add: Ipv4PacketView_of_range_def Ipv4PacketView_parse_packet_def
      Ipv4PacketView_get_ip_header_length_def rd_def ip_size_defs del: length_greater_0_conv)

lemma header_from_parent:
  assumes old: "length old = 20" "lo_nibble (old ! 0) = 5" and addr: "length src = 4" "length dst = 4"
    and v: "v = \<lparr> ip4_header = 0, ip4_additional_header = 20, ip4_add_header_size = 0 \<rparr>"
  shows "\<exists>n. Ipv4PacketLE_generate_object_from_parent v old src dst len = Some n \<and> length n = 20 \<and>
    n ! 0 = old ! 0 \<and> n ! 9 = old ! 9 \<and> drop 12 n = src @ dst"
proof -
  let ?a = "take 12 old @ src @ dst"
  let ?b = "?a[2 := byte_of 8 len, 3 := byte_of 0 len]"
  obtain c :: UShort where c: "Ipv4PacketView_recalculate_ip_checksum v ?b =
      Some (?b[10 := byte_of 8 c, 11 := byte_of 0 c])"
    using Ipv4PacketView_recalculate_eq [of v ?b] old(1) addr by (auto simp: v Ipv4PacketView_valid_def)
  let ?n = "?b[10 := byte_of 8 c, 11 := byte_of 0 c]"
  have n: "length ?n = 20" "?n ! 0 = old ! 0" "?n ! 9 = old ! 9" "drop 12 ?n = src @ dst"
    using old(1) addr by (simp_all add: nth_append)
  have view: "Ipv4PacketView_of_range old 0 20 = Some v" unfolding v by (rule plain_view_of_header [OF old])
  have w1: "Ipv4PacketView_set_src_addr v old src = Some (take 12 old @ src @ drop 16 old)"
    using old(1) addr by (simp add: v Ipv4PacketView_set_src_addr_def NetAddr_to_bytes_def wr_range_def
        overwrite_def)
  have w2: "Ipv4PacketView_set_dst_addr v (take 12 old @ src @ drop 16 old) dst = Some ?a"
    using old(1) addr by (simp add: v Ipv4PacketView_set_dst_addr_def NetAddr_to_bytes_def wr_range_def
        overwrite_def)
  have w3: "Ipv4PacketView_set_ip_total_length v ?a len = Some ?b"
    using old(1) addr by (simp add: v Ipv4PacketView_set_ip_total_length_def wr16_Some numeral_2_eq_2 numeral_3_eq_3)
  have "Ipv4PacketLE_generate_from_parent v old src dst len = Some ?n"
    using view w1 w2 w3 c old(1) by (simp add: Ipv4PacketLE_generate_from_parent_def
        Ipv4PacketView_to_bytes_def v rd_range_def)
  then have "Ipv4PacketLE_generate_object_from_parent v old src dst len = Some ?n"
    using Ipv4PacketLE_of_own_bytes [OF n(1)] n(2) old(2) n(1)
    by (simp add: Ipv4PacketLE_generate_object_from_parent_def)
  with n show ?thesis by blast
qed

text \<open>The transport header of a rebuilt packet is the one the proxy block describes.\<close>

lemma fat_tcp_by_this:
  "Ipv4TcpFatPacket_new_packet_by_this fp p payload = do {
     t \<leftarrow> TcpPacketLE_generate_proxy_object p;
     v \<leftarrow> Ipv4PacketView_of_range (fat_net fp) 0 (length (fat_net fp));
     n \<leftarrow> Ipv4PacketLE_generate_object_from_parent v (fat_net fp) (source_addr p) (dst_addr p)
       (of_nat (length t + length payload));
     fp \<leftarrow> Ipv4TcpFatPacket_of_parts n t payload;
     fp \<leftarrow> Ipv4TcpFatPacket_recalculate_lengths fp;
     Ipv4TcpFatPacket_recalculate_checksums fp }"
  by (simp add: Ipv4TcpFatPacket_new_packet_by_this_def TcpPacketLE_generate_proxy_object_def
      TcpPacketLE_generate_proxy_bytes_def TcpPacketLE_generate_object_def Let_def bind_assoc
      Ipv4PacketLE_to_bytes_def TcpPacketLE_to_bytes_def QTunnelProxy_get_src_addr_def
      QTunnelProxy_get_dst_addr_def)

lemma hi_nibble_offset:
  assumes "unat off < 16"
  shows "hi_nibble (push_bit 4 off OR (x AND 1)) = off"
proof (rule bit_word_eqI)
  fix n assume "n < LENGTH(8)"
  have "unat (take_bit 4 off) = unat off"
    using assms by (simp only: unsigned_take_bit_eq) (simp add: take_bit_nat_eq_self)
  then have "off = take_bit 4 off" by (simp add: word_eq_iff_unsigned [where 'a = nat])
  then have "4 \<le> n \<Longrightarrow> \<not> bit off n" by (metis bit_take_bit_iff linorder_not_le)
  then show "bit (hi_nibble (push_bit 4 off OR (x AND 1))) n = bit off n"
    using \<open>n < LENGTH(8)\<close>
    by (cases "4 \<le> n") (auto simp: hi_nibble_def bit_drop_bit_eq bit_or_iff bit_and_iff bit_push_bit_iff bit_1_iff)
qed

lemma transport_length_idem:
  assumes "12 < length h" "4 * unat (hi_nibble (h ! 12)) = length h"
  shows "TcpPacketLE_set_transport_length h (of_nat (length h)) = Some h"
proof -
  let ?x = "h ! 12"
  obtain k where k: "unat (hi_nibble ?x) = k" "k < 16" "length h = 4 * k"
    using hi_nibble_less assms(2) by metis
  have "unat (of_nat (length h) :: UShort) = 4 * k" using k(2,3) by (simp only: unat_of_nat) simp
  moreover have "unat (of_nat k :: UShort) = k" using k(2) by (simp only: unat_of_nat) simp
  ultimately have "(of_nat (length h) :: UShort) div 4 = of_nat (unat (hi_nibble ?x))"
    unfolding k(1) by (simp only: word_eq_iff_unsigned [where 'a = nat] unat_div) simp
  moreover have "ucast (of_nat (unat y) :: UShort) = y" for y :: UByte
    by (simp, rule bit_word_eqI, simp add: bit_ucast_iff)
  ultimately have "ucast ((of_nat (length h) :: UShort) div 4) = hi_nibble ?x" by metis
  moreover have "?x OR push_bit 4 (hi_nibble ?x) = ?x"
    by (rule bit_word_eqI) (auto simp: hi_nibble_def bit_or_iff bit_push_bit_iff bit_drop_bit_eq)
  ultimately show ?thesis
    using assms(1) by (simp add: TcpPacketLE_set_transport_length_def rd_def wr_def)
qed

lemma fat_tcp_checksums:
  assumes n: "length (fat_net fp) = 20" "lo_nibble (fat_net fp ! 0) = 5"
    and t: "20 \<le> length (fat_transport fp)" "length (fat_transport fp) \<le> 60" "even (length (fat_transport fp))"
    and d: "length (fat_payload fp) \<le> 65535"
  shows "\<exists>fp'. Ipv4TcpFatPacket_recalculate_checksums fp = Some fp' \<and> fat_payload fp' = fat_payload fp \<and>
    length (fat_net fp') = 20 \<and> (\<forall>i. i \<noteq> 10 \<longrightarrow> i \<noteq> 11 \<longrightarrow> fat_net fp' ! i = fat_net fp ! i) \<and>
    length (fat_transport fp') = length (fat_transport fp) \<and>
    (\<forall>i. i \<noteq> 16 \<longrightarrow> i \<noteq> 17 \<longrightarrow> fat_transport fp' ! i = fat_transport fp ! i) \<and>
    checksum_valid (words_sum (fat_net fp')) \<and>
    checksum_valid (words_sum (fat_transport fp') +
      (words_sum (ip_pseudo_header (fat_net fp')) + words_sum (fat_payload fp')))"
proof -
  let ?n = "fat_net fp"
  have vn: "Ipv4PacketLE_valid ?n" using n by (simp add: Ipv4PacketLE_valid_def)
  define c where "c = checksum_of (of_nat (words_sum (?n[10 := 0, 11 := 0])))"
  let ?h = "?n[10 := byte_of 8 c, 11 := byte_of 0 c]"
  have h: "Ipv4PacketLE_recalculate_ip_checksum ?n = Some ?h"
    by (rule Ipv4PacketLE_recalculate_eq [OF vn c_def])
  then have hv: "checksum_valid (words_sum ?h)"
    using Ipv4PacketLE_recalculate_valid [OF vn] n by auto
  have get: "Ipv4PacketLE_get_ip_total_length ?h = Some (be16 (?h ! 2) (?h ! 3))"
    "Ipv4PacketLE_get_ip_header_length ?h = Some 5" "Ipv4PacketLE_get_ip_protocol ?h = Some (?h ! 9)"
    "Ipv4PacketLE_get_ip_source ?h = Some (IPv4Address (?h ! 12) (?h ! 13) (?h ! 14) (?h ! 15))"
    "Ipv4PacketLE_get_ip_dest ?h = Some (IPv4Address (?h ! 16) (?h ! 17) (?h ! 18) (?h ! 19))"
    using n by (simp_all add: ip4_le_get_defs Ipv4PacketLE_get_ip_header_length_def rd_def rd16_def
      numeral_2_eq_2 numeral_3_eq_3 del: length_greater_0_conv)
  have "TcpPacketLE_valid (fat_transport fp)" using t by (simp add: TcpPacketLE_valid_def)
  then obtain t' where t': "TcpPacketLE_recalculate_transport_checksum (fat_transport fp)
      (ip_pseudo_header ?h) (fat_payload fp) = Some t'" "length t' = length (fat_transport fp)"
      "\<forall>i. i \<noteq> 16 \<longrightarrow> i \<noteq> 17 \<longrightarrow> t' ! i = fat_transport fp ! i"
      "checksum_valid (words_sum t' + (words_sum (ip_pseudo_header ?h) + words_sum (fat_payload fp)))"
    using TcpPacketLE_recalculate_valid [of "fat_transport fp" "ip_pseudo_header ?h" "fat_payload fp"] t d n
    by auto
  have "Ipv4TcpFatPacket_recalculate_checksums fp = Some (fp\<lparr> fat_net := ?h, fat_transport := t' \<rparr>)"
    unfolding Ipv4TcpFatPacket_recalculate_checksums_def h bind.bind_lunit get Let_def
    using ip_pseudo_header_eq [of ?h] t'(1) n by (simp add: DataPacketLE_get_payload_def)
  with hv t' n show ?thesis by simp
qed

lemma fat_tcp_lengths:
  assumes "length (fat_net fp) = 20" "12 < length (fat_transport fp)"
    "4 * unat (hi_nibble (fat_transport fp ! 12)) = length (fat_transport fp)"
  shows "Ipv4TcpFatPacket_recalculate_lengths fp = Some (fp\<lparr> fat_net := (fat_net fp)
    [2 := byte_of 8 (of_nat (20 + length (fat_transport fp) + length (fat_payload fp)) :: UShort),
     3 := byte_of 0 (of_nat (20 + length (fat_transport fp) + length (fat_payload fp)) :: UShort)] \<rparr>)"
  using assms transport_length_idem [OF assms(2,3)]
  by (simp add: Ipv4TcpFatPacket_recalculate_lengths_def Ipv4PacketLE_to_bytes_def TcpPacketLE_to_bytes_def
      DataPacketLE_to_bytes_def Ipv4PacketLE_set_ip_total_length_def wr16_Some numeral_2_eq_2 numeral_3_eq_3
      Let_def)

lemma fat_tcp_packet_from_proxy:
  assumes net: "length (fat_net fp) = 20" "lo_nibble (fat_net fp ! 0) = 5"
    and addr: "length (source_addr p) = 4" "length (dst_addr p) = 4"
    and t: "TcpPacketLE_generate_proxy_bytes p = Some t" "20 \<le> length t"
      "4 * unat (hi_nibble (t ! 12)) = length t"
    and len: "20 + length t + length payload \<le> 65535"
  shows "\<exists>fp'. Ipv4TcpFatPacket_new_packet_by_this fp p payload = Some fp' \<and> fat_payload fp' = payload \<and>
    Ipv4PacketLE_get_src_addr (fat_net fp') = Some (source_addr p) \<and>
    Ipv4PacketLE_get_dst_addr (fat_net fp') = Some (dst_addr p) \<and>
    Ipv4PacketLE_get_ip_total_length (fat_net fp') = Some (of_nat (20 + length t + length payload)) \<and>
    length (fat_transport fp') = length t \<and>
    (\<forall>i. i \<noteq> 16 \<longrightarrow> i \<noteq> 17 \<longrightarrow> fat_transport fp' ! i = t ! i) \<and>
    checksum_valid (words_sum (fat_net fp')) \<and>
    checksum_valid (words_sum (fat_transport fp') +
      (words_sum (ip_pseudo_header (fat_net fp')) + words_sum (fat_payload fp')))"
proof -
  let ?v = "\<lparr> ip4_header = 0, ip4_additional_header = 20, ip4_add_header_size = 0 \<rparr>"
  obtain n where n: "Ipv4PacketLE_generate_object_from_parent ?v (fat_net fp) (source_addr p) (dst_addr p)
      (of_nat (length t + length payload)) = Some n" "length n = 20" "n ! 0 = fat_net fp ! 0"
      "drop 12 n = source_addr p @ dst_addr p"
    using header_from_parent [OF net addr refl] by metis
  let ?l = "of_nat (20 + length t + length payload) :: UShort"
  let ?n = "n[2 := byte_of 8 ?l, 3 := byte_of 0 ?l]"
  let ?fp = "\<lparr> fat_net = n, fat_transport = t, fat_payload = payload, fat_data = [] \<rparr>"
  let ?fp2 = "?fp\<lparr> fat_net := ?n \<rparr>"
  have parts: "Ipv4TcpFatPacket_of_parts n t payload = Some ?fp"
    using Ipv4PacketLE_of_own_bytes [of n] TcpPacketLE_of_own_bytes [OF t(2,3)] n net(2)
    by (simp add: Ipv4TcpFatPacket_of_parts_def DataPacketLE_of_range_def)
  have lens: "Ipv4TcpFatPacket_recalculate_lengths ?fp = Some ?fp2"
    using fat_tcp_lengths [of ?fp] n t by simp
  have "length t \<le> 60" "even (length t)" using t(3) hi_nibble_less [of "t ! 12"] by (linarith, presburger)
  then obtain fp' where fp': "Ipv4TcpFatPacket_recalculate_checksums ?fp2 = Some fp'" "fat_payload fp' = payload"
      "length (fat_net fp') = 20" "\<forall>i. i \<noteq> 10 \<longrightarrow> i \<noteq> 11 \<longrightarrow> fat_net fp' ! i = ?n ! i"
      "length (fat_transport fp') = length t"
      "\<forall>i. i \<noteq> 16 \<longrightarrow> i \<noteq> 17 \<longrightarrow> fat_transport fp' ! i = t ! i" "checksum_valid (words_sum (fat_net fp'))"
      "checksum_valid (words_sum (fat_transport fp') +
        (words_sum (ip_pseudo_header (fat_net fp')) + words_sum payload))"
    using fat_tcp_checksums [of ?fp2] n net(2) t(2) len by auto
  have "Ipv4TcpFatPacket_new_packet_by_this fp p payload = Some fp'"
    using t TcpPacketLE_of_own_bytes [OF t(2,3)] net plain_view_of_header [OF net] n(1) parts lens fp'(1)
    by (simp add: fat_tcp_by_this TcpPacketLE_generate_proxy_object_def)
  moreover have "drop 12 (fat_net fp') = source_addr p @ dst_addr p"
    unfolding n(4) [symmetric] by (rule nth_equalityI) (use fp'(3,4) n(2) in simp_all)
  then have "take 4 (drop 12 (fat_net fp')) = source_addr p" "take 4 (drop 16 (fat_net fp')) = dst_addr p"
    using addr drop_drop [of 4 12 "fat_net fp'"] by simp_all
  moreover have "be16 (fat_net fp' ! 2) (fat_net fp' ! 3) = ?l"
    using fp'(4) n(2) by simp
  ultimately show ?thesis
    using fp' addr by (simp add: ip4_le_get_defs rd_range_def rd16_def rd_def numeral_2_eq_2 numeral_3_eq_3)
qed

section \<open>Packets with IPv4 options\<close>

lemma take_four_more: "n + 4 \<le> length m \<Longrightarrow> take (n + 4) m = take n m @ [m ! n, m ! (n + 1), m ! (n + 2), m ! (n + 3)]"
  using take_Suc_conv_app_nth [of n m] take_Suc_conv_app_nth [of "n + 1" m] take_Suc_conv_app_nth [of "n + 2" m]
    take_Suc_conv_app_nth [of "n + 3" m] by (simp add: numeral_eq_Suc)

lemma checksum_valid_iff: "n < 2 ^ 32 \<Longrightarrow> checksum_valid n \<longleftrightarrow> n \<noteq> 0 \<and> n mod 65535 = 0"
  using word_unat_eq_iff [of "of_nat n" "0 :: UInt"] by (simp add: checksum_valid_def fold_carry_eq_FFFF unat_of_nat)

lemma checksum_valid_add:
  assumes "checksum_valid n" "n < 2 ^ 31" "w < 65536"
  shows "checksum_valid (n + w) \<longleftrightarrow> w = 0 \<or> w = 65535"
proof -
  have n: "n \<noteq> 0" "n mod 65535 = 0" using checksum_valid_iff [of n] assms(1,2) by auto
  have "n + w < 2 ^ 32" using assms(2,3) by simp
  then have "checksum_valid (n + w) \<longleftrightarrow> (n + w) mod 65535 = 0" using n(1) by (simp add: checksum_valid_iff)
  also have "(n + w) mod 65535 = w mod 65535" using n(2) mod_add_left_eq [of n 65535 w] by simp
  also have "w mod 65535 = 0 \<longleftrightarrow> w = 0 \<or> w = 65535" using assms(3) by (cases "w = 65535") auto
  finally show ?thesis .
qed

text \<open>Of a header with one word of options the view sums the first two bytes of the options only, and it takes the header to be
  21 bytes long, so that the views of the packet look for the transport header, and write its checksum, three bytes too early.
  The checksum of the IPv4 header verifies exactly when the two bytes that were left out add nothing.\<close>

lemma ip_option_word_not_summed:
  assumes "24 \<le> length m" "lo_nibble (m ! 0) = 6"
  shows "\<exists>v m'. Ipv4PacketView_of_range m 0 (length m) = Some v \<and> Ipv4PacketView_get_size v = 21 \<and>
    Ipv4PacketView_recalculate_ip_checksum v m = Some m' \<and>
    (checksum_valid (words_sum (take 24 m')) \<longleftrightarrow> be16 (m ! 22) (m ! 23) = 0 \<or> be16 (m ! 22) (m ! 23) = 0xFFFF)"
proof -
  let ?v = "\<lparr> ip4_header = 0, ip4_additional_header = 20, ip4_add_header_size = 1 \<rparr>"
  let ?r = "unat (be16 (m ! 20) (m ! 21))" and ?w = "unat (be16 (m ! 22) (m ! 23))" and ?h = "take 20 m"
  define c where "c = checksum_of (of_nat (words_sum (?h[10 := 0, 11 := 0]) + ?r))"
  let ?m = "m[10 := byte_of 8 c, 11 := byte_of 0 c]" and ?n = "words_sum (?h[10 := byte_of 8 c, 11 := byte_of 0 c]) + ?r"
  have view: "Ipv4PacketView_of_range m 0 (length m) = Some ?v"
    using assms by (simp add: Ipv4PacketView_of_range_def Ipv4PacketView_parse_packet_def
        Ipv4PacketView_get_ip_header_length_def rd_def ip_size_defs del: length_greater_0_conv)
  let ?z = "m[10 := 0, 11 := 0]"
  have z: "take 20 ?z = ?h[10 := 0, 11 := 0]" "rd_range ?z 0 20 = Some (take 20 ?z)" "?z ! 20 = m ! 20" "?z ! 21 = m ! 21"
    "22 \<le> length ?z" using assms(1) by (simp_all add: take_update_swap rd_range_def)
  have "sum_words (take 20 ?z) 0 = Some (of_nat (words_sum (?h[10 := 0, 11 := 0])))"
    using sum_words_eq [of "take 20 ?z" 0] z(1) assms(1) by simp
  moreover have "rd16 ?z 20 = Some (be16 (m ! 20) (m ! 21))" using z(3-5) by (simp add: rd16_Some)
  ultimately have re: "Ipv4PacketView_recalculate_ip_checksum ?v m = Some ?m"
    using assms(1) z(2) by (simp add: Ipv4PacketView_recalculate_ip_checksum_def wr16_Some c_def
        Ipv4PacketView_set_ip_checksum_def ip4_header_size_def)
  have valid: "checksum_valid ?n"
    using words_sum_checksum [of 10 11 ?h c ?r] assms(1) unat_ushort_less [of "be16 (m ! 20) (m ! 21)"]
    by (simp add: c_def min_def)
  have n: "?n < 2 ^ 31" "?w < 65536"
    using words_sum_bound_le [of "?h[10 := byte_of 8 c, 11 := byte_of 0 c]" 20] unat_ushort_less [of "be16 (m ! 20) (m ! 21)"]
      unat_ushort_less [of "be16 (m ! 22) (m ! 23)"] by simp_all
  have "take 24 ?m = ?h[10 := byte_of 8 c, 11 := byte_of 0 c] @ [m ! 20, m ! 21, m ! 22, m ! 23]"
    using assms(1) take_four_more [of 20 ?m] by (simp add: take_update_swap)
  then have "words_sum (take 24 ?m) = ?n + ?w"
    using assms(1) by (simp add: words_sum_append)
  moreover note checksum_valid_add [OF valid n]
  ultimately show ?thesis
    using view re word_unat_eq_iff [of "be16 (m ! 22) (m ! 23)" "0xFFFF"]
    by (intro exI [of _ ?v] exI [of _ ?m]) (simp add: Ipv4PacketView_get_size_def ip4_header_size_def unat_eq_0)
qed

section \<open>Properties\<close>

text \<open>C17: For a TCP packet in memory with a plain IPv4 header of twenty bytes, a data offset of at least five and its
  options inside the buffer, recalculating the checksums changes nothing but the four checksum bytes,
  and both the IPv4 header and the segment with its pseudo header verify. IPv4 options are not
  summed right: with one word of them the header verifies only when the last two bytes of the word add nothing (lemma
  \<open>ip_option_word_not_summed\<close>).\<close>

theorem tcp_packet_checksums_verify:
  assumes "40 \<le> length m" "length m \<le> 65535" "lo_nibble (m ! 0) = 5"
    and "5 \<le> unat (hi_nibble (m ! 32))" "20 + 4 * unat (hi_nibble (m ! 32)) \<le> length m"
  shows "\<exists>v m'. Ipv4TcpPacket_View_of_range m 0 (length m) = Some v \<and>
    Ipv4TcpPacket_View_recalculate_checksums v m = Some m' \<and> length m' = length m \<and>
    (\<forall>i. i \<notin> {10, 11, 36, 37} \<longrightarrow> m' ! i = m ! i) \<and> checksum_valid (words_sum (take 20 m')) \<and>
    checksum_valid (words_sum (drop 20 m') + words_sum (ip_pseudo_header m'))"
proof -
  obtain v where "Ipv4TcpPacket_View_of_range m 0 (length m) = Some v"
    using tcp_view_shape [OF assms(1,3,4)] by blast
  then show ?thesis using tcp_packet_checksums [OF assms] by blast
qed

theorem tcp_packet_checksums_verify_witness:
  "\<exists>v m'. Ipv4TcpPacket_View_recalculate_checksums v (0x45 # replicate 31 0 @ 0x60 # replicate 15 7) = Some m' \<and>
     checksum_valid (words_sum (drop 20 m') + words_sum (ip_pseudo_header m'))"
proof -
  let ?m = "0x45 # replicate 31 0 @ 0x60 # replicate 15 7 :: mem"
  have m: "lo_nibble (?m ! 0) = 5" "?m ! 32 = 0x60" "length ?m = 48" "unat (hi_nibble 0x60) = 6"
    by (simp_all add: lo_nibble_def nth_append hi_nibble_def)
  then show ?thesis using tcp_packet_checksums_verify [of ?m] by (simp only: m) auto
qed

text \<open>C18: For a UDP packet in memory with a plain IPv4 header of twenty bytes, recalculating the checksums changes nothing but
  the four checksum bytes, and both the IPv4 header and the datagram with its pseudo header verify. What IPv4
  options do to the header is said for TCP.\<close>

theorem udp_packet_checksums_verify:
  assumes "28 \<le> length m" "length m \<le> 65535" "lo_nibble (m ! 0) = 5"
  shows "\<exists>v m'. Ipv4UdpPacket_View_of_range m 0 (length m) = Some v \<and>
    Ipv4UdpPacket_View_recalculate_checksums v m = Some m' \<and> length m' = length m \<and>
    (\<forall>i. i \<notin> {10, 11, 26, 27} \<longrightarrow> m' ! i = m ! i) \<and> checksum_valid (words_sum (take 20 m')) \<and>
    checksum_valid (words_sum (drop 20 m') + words_sum (ip_pseudo_header m'))"
proof -
  obtain v where "Ipv4UdpPacket_View_of_range m 0 (length m) = Some v"
    using udp_view_shape [OF assms(1,3)] by blast
  then show ?thesis using udp_packet_checksums [OF assms] by blast
qed

theorem udp_packet_checksums_verify_witness:
  "\<exists>v m'. Ipv4UdpPacket_View_recalculate_checksums v (0x45 # replicate 30 3) = Some m' \<and>
     checksum_valid (words_sum (take 20 m'))"
proof -
  have "lo_nibble ((0x45 # replicate 30 3 :: mem) ! 0) = 5" by (simp add: lo_nibble_def)
  then show ?thesis using udp_packet_checksums_verify [of "0x45 # replicate 30 3"] by auto
qed

text \<open>C11: A TCP segment carried through the tunnel and rebuilt at the far end from a template packet whose IPv4 header has
  twenty bytes: the proto data collected from the original segment, whose four reserved bits are zero, put into the proxy
  block, makes \<open>new_packet_by_this\<close> produce a packet with
  the proxy's addresses and ports, the given payload, the original sequence and acknowledgement
  numbers, offset, flags, window, urgent pointer and options, the right total length, and two
  checksums that verify.\<close>

theorem tcp_packet_through_tunnel:
  assumes "TcpPacketView_valid v m" "n = nat (tcp_options_size v)"
    and h: "h = mslice m (tcp_header v) (20 + n)" "h ! 12 AND 0x0F = 0"
      "4 * unat (hi_nibble (h ! 12)) = 20 + n"
    and fp: "length (fat_net fp) = 20" "lo_nibble (fat_net fp ! 0) = 5"
    and p: "length (source_addr p) = 4" "length (dst_addr p) = 4"
    and len: "40 + n + length payload \<le> 65535"
  shows "\<exists>pd fp'. QTunnelTCPViewScheme_generate_object_bytes v m = Some pd \<and>
    Ipv4TcpFatPacket_new_packet_by_this fp (p\<lparr> proto_data := pd \<rparr>) payload = Some fp' \<and>
    fat_payload fp' = payload \<and>
    Ipv4PacketLE_get_src_addr (fat_net fp') = Some (source_addr p) \<and>
    Ipv4PacketLE_get_dst_addr (fat_net fp') = Some (dst_addr p) \<and>
    Ipv4PacketLE_get_ip_total_length (fat_net fp') = Some (of_nat (40 + n + length payload)) \<and>
    take 4 (fat_transport fp') = be16_bytes (source_port p) @ be16_bytes (dst_port p) \<and>
    length (fat_transport fp') = 20 + n \<and>
    (\<forall>i \<ge> 4. i < 20 + n \<longrightarrow> i \<noteq> 16 \<longrightarrow> i \<noteq> 17 \<longrightarrow> fat_transport fp' ! i = h ! i) \<and>
    checksum_valid (words_sum (fat_net fp')) \<and>
    checksum_valid (words_sum (fat_transport fp') +
      (words_sum (ip_pseudo_header (fat_net fp')) + words_sum payload))"
proof -
  have n: "n \<le> 40" using h(3) hi_nibble_less [of "h ! 12"] by linarith
  have lh: "length h = 20 + n" using assms(1,2) h(1) by (auto simp: TcpPacketView_valid_def)
  define t where "t = be16_bytes (source_port p) @ be16_bytes (dst_port p) @ take 12 (drop 4 h) @ [0, 0] @ drop 18 h"
  obtain pd where pd: "QTunnelTCPViewScheme_generate_object_bytes v m = Some pd"
    "TcpPacketLE_generate_proxy_bytes (p\<lparr> proto_data := pd \<rparr>) = Some t"
    using tcp_header_through_proxy [OF assms(1,2) n h(1,2), of p] by (auto simp: t_def bind_eq_Some_conv)
  have lt: "length t = 20 + n" "take 4 t = be16_bytes (source_port p) @ be16_bytes (dst_port p)"
    using lh by (simp_all add: t_def)
  have nth: "t ! i = h ! i" if "4 \<le> i" "i < 20 + n" "i \<noteq> 16" "i \<noteq> 17" for i
    using that lh by (auto simp: t_def nth_append)
  have "20 \<le> length t" "4 * unat (hi_nibble (t ! 12)) = length t" "20 + length t + length payload \<le> 65535"
    using nth [of 12] h(3) lt(1) len by simp_all
  then obtain fp' where fp': "Ipv4TcpFatPacket_new_packet_by_this fp (p\<lparr> proto_data := pd \<rparr>) payload = Some fp'"
    "fat_payload fp' = payload" "Ipv4PacketLE_get_src_addr (fat_net fp') = Some (source_addr p)"
    "Ipv4PacketLE_get_dst_addr (fat_net fp') = Some (dst_addr p)"
    "Ipv4PacketLE_get_ip_total_length (fat_net fp') = Some (of_nat (20 + length t + length payload))"
    "length (fat_transport fp') = length t" "\<forall>i. i \<noteq> 16 \<longrightarrow> i \<noteq> 17 \<longrightarrow> fat_transport fp' ! i = t ! i"
    "checksum_valid (words_sum (fat_net fp'))" "checksum_valid (words_sum (fat_transport fp') +
      (words_sum (ip_pseudo_header (fat_net fp')) + words_sum (fat_payload fp')))"
    using fat_tcp_packet_from_proxy [OF fp, of "p\<lparr> proto_data := pd \<rparr>", OF _ _ pd(2)] p by auto
  have "take 4 (fat_transport fp') = take 4 t"
    using fp'(6,7) lt(1) by (intro nth_equalityI) simp_all
  moreover have "20 + length t + length payload = 40 + n + length payload" using lt(1) by simp
  ultimately show ?thesis
    using fp' pd(1) lt nth by (intro exI [of _ pd] exI [of _ fp']) simp
qed

theorem tcp_packet_through_tunnel_witness:
  "\<exists>pd fp'. QTunnelTCPViewScheme_generate_object_bytes
      \<lparr> tcp_header = 0, tcp_options = 20, tcp_options_size = 4 \<rparr> (replicate 12 9 @ [0x60] @ replicate 11 7) =
      Some pd \<and>
    Ipv4TcpFatPacket_new_packet_by_this
      \<lparr> fat_net = 0x45 # replicate 19 0, fat_transport = [], fat_payload = [], fat_data = [] \<rparr>
      (QTunnelProxy_new\<lparr> source_addr := [10, 0, 0, 1], dst_addr := [10, 0, 0, 2], proto_data := pd \<rparr>)
      [1, 2, 3] = Some fp' \<and> fat_payload fp' = [1, 2, 3] \<and> checksum_valid (words_sum (fat_net fp'))"
proof -
  let ?v = "\<lparr> tcp_header = 0, tcp_options = 20, tcp_options_size = 4 \<rparr>"
  let ?m = "replicate 12 9 @ [0x60] @ replicate 11 7 :: mem"
  let ?fp = "\<lparr> fat_net = 0x45 # replicate 19 0, fat_transport = [], fat_payload = [], fat_data = [] \<rparr>"
  let ?p = "QTunnelProxy_new\<lparr> source_addr := [10, 0, 0, 1], dst_addr := [10, 0, 0, 2] \<rparr>"
  have "TcpPacketView_valid ?v ?m" by (simp add: TcpPacketView_valid_def)
  moreover have "4 = nat (tcp_options_size ?v)" by simp
  moreover have "?m = mslice ?m (tcp_header ?v) (20 + 4)" by (simp add: mslice_def)
  moreover have "?m ! 12 AND 0x0F = 0" "4 * unat (hi_nibble (?m ! 12)) = 20 + 4"
    by (simp_all add: nth_append hi_nibble_def)
  moreover have "length (fat_net ?fp) = 20" "lo_nibble (fat_net ?fp ! 0) = 5" by (simp_all add: lo_nibble_def)
  moreover have "length (source_addr ?p) = 4" "length (dst_addr ?p) = 4" by simp_all
  moreover have "40 + 4 + length [1, 2, 3 :: UByte] \<le> 65535" by simp
  ultimately show ?thesis using tcp_packet_through_tunnel [of ?v ?m 4 ?m ?fp ?p "[1, 2, 3]"] by auto
qed

text \<open>What \<open>set_transport_length\<close> does to the data offset: the new offset is combined with the old one
  by a bitwise or.  It is kept only when it already was the right one, and a caller that passes the
  payload size, as \<open>new_packet_by_payload\<close> does, damages it.\<close>

lemma transport_length_ors_offset:
  assumes "12 < length h"
  shows "\<exists>h'. TcpPacketLE_set_transport_length h len = Some h' \<and>
    hi_nibble (h' ! 12) = hi_nibble (h ! 12) OR (ucast (len div 4) AND 0x0F)"
proof -
  have "hi_nibble (x OR push_bit 4 y) = hi_nibble x OR (y AND 0x0F)" for x y :: UByte
  proof -
    have m: "(0x0F :: UByte) = mask 4" by (simp add: mask_eq_exp_minus_1)
    show ?thesis
      unfolding hi_nibble_def m
      by (intro bit_word_eqI) (auto simp: bit_drop_bit_eq bit_or_iff bit_and_iff bit_push_bit_iff bit_mask_iff)
  qed
  then show ?thesis using assms by (simp add: TcpPacketLE_set_transport_length_def rd_def wr_def)
qed

end
