(* ===== verification/SocketFilter.thy ===== *)
theory SocketFilter
  imports QTunnelProto
begin

text \<open>The kernel socket filter \<open>bpf_filter.c\<close> and the class \<open>QVPN_SocketFilter\<close>
  (\<open>Linux/qvpn_socket_filters.cpp\<close>) that fills its map.  The two helpers of the kernel that the filter
  calls, \<open>bpf_skb_load_bytes\<close> and \<open>bpf_map_lookup_elem\<close>, are parameters; what their documentation says
  of them is \<open>load_bytes_spec\<close> and \<open>map_spec\<close>.\<close>

section \<open>The key\<close>

record filter_key =
  fk_net_proto :: UByte
  fk_transport_proto :: UByte
  fk_src_ip :: UInt
  fk_src_port :: UShort
  fk_dst_ip :: UInt
  fk_dst_port :: UShort

text \<open>Loads of multi-byte fields from the packet on a little-endian host, and the conversions of
  \<open>netinet/in.h\<close> there.\<close>

definition le16 :: "UByte \<Rightarrow> UByte \<Rightarrow> UShort" where "le16 a b = be16 b a"
definition le32 :: "UByte \<Rightarrow> UByte \<Rightarrow> UByte \<Rightarrow> UByte \<Rightarrow> UInt" where "le32 a b c d = be32 d c b a"
definition htons :: "UShort \<Rightarrow> UShort" where "htons x = le16 (byte_of 8 x) (byte_of 0 x)"
definition htonl :: "UInt \<Rightarrow> UInt" where
  "htonl x = le32 (byte_of 24 x) (byte_of 16 x) (byte_of 8 x) (byte_of 0 x)"

section \<open>The filter program\<close>

text \<open>The fields the program reads of \<open>struct iphdr\<close>, \<open>struct tcphdr\<close> and \<open>struct udphdr\<close>.\<close>

definition iphdr_version :: "bytes \<Rightarrow> UByte" where "iphdr_version ip = drop_bit 4 (ip ! 0)"
definition iphdr_protocol :: "bytes \<Rightarrow> UByte" where "iphdr_protocol ip = ip ! 9"
definition iphdr_saddr :: "bytes \<Rightarrow> UInt" where
  "iphdr_saddr ip = le32 (ip ! 12) (ip ! 13) (ip ! 14) (ip ! 15)"
definition iphdr_daddr :: "bytes \<Rightarrow> UInt" where
  "iphdr_daddr ip = le32 (ip ! 16) (ip ! 17) (ip ! 18) (ip ! 19)"
definition hdr_source :: "bytes \<Rightarrow> UShort" where "hdr_source h = le16 (h ! 0) (h ! 1)"
definition hdr_dest :: "bytes \<Rightarrow> UShort" where "hdr_dest h = le16 (h ! 2) (h ! 3)"

type_synonym skb = bytes
type_synonym load_bytes = "skb \<Rightarrow> nat \<Rightarrow> nat \<Rightarrow> bytes option"
type_synonym map_lookup = "filter_key \<Rightarrow> UByte option"

text \<open>The result is the number of bytes to keep: \<open>-1\<close> keeps the packet, \<open>0\<close> drops it.\<close>

definition filter_by_addr_port_ipv4 :: "load_bytes \<Rightarrow> map_lookup \<Rightarrow> skb \<Rightarrow> int" where
  "filter_by_addr_port_ipv4 load lookup skb = (case load skb 0 20 of None \<Rightarrow> 0 | Some ip \<Rightarrow>
     (let transport = iphdr_protocol ip;
          ports = (if transport = TransportProtocol_TCP then
                     (case load skb 20 20 of None \<Rightarrow> None | Some tcp \<Rightarrow> Some (hdr_source tcp, hdr_dest tcp))
                   else if transport = TransportProtocol_UDP then
                     (case load skb 20 8 of None \<Rightarrow> None | Some udp \<Rightarrow> Some (hdr_source udp, hdr_dest udp))
                   else Some (0, 0))
      in case ports of None \<Rightarrow> 0 | Some (sp, dp) \<Rightarrow>
        (case lookup \<lparr> fk_net_proto = iphdr_version ip, fk_transport_proto = transport,
                fk_src_ip = iphdr_saddr ip, fk_src_port = sp, fk_dst_ip = iphdr_daddr ip, fk_dst_port = dp \<rparr> of
           None \<Rightarrow> 0
         | Some valid \<Rightarrow> if valid \<noteq> 0 then -1 else 0)))"

definition filter_by_addr_port_ipv6 :: "skb \<Rightarrow> int" where
  "filter_by_addr_port_ipv6 skb = 0"

definition filter_by_addr_port :: "load_bytes \<Rightarrow> map_lookup \<Rightarrow> skb \<Rightarrow> int" where
  "filter_by_addr_port load lookup skb = (case load skb 0 20 of None \<Rightarrow> 0 | Some ip \<Rightarrow>
     if iphdr_version ip = 4 then filter_by_addr_port_ipv4 load lookup skb
     else if iphdr_version ip = 6 then filter_by_addr_port_ipv6 skb
     else 0)"

text \<open>The documented behaviour of the two helpers: a load copies \<open>len\<close> bytes from \<open>offset\<close> or fails when
  the packet is shorter; a lookup in the one-entry map finds the stored value under the stored key.\<close>

definition load_bytes_spec :: "load_bytes \<Rightarrow> bool" where
  "load_bytes_spec load \<longleftrightarrow> (\<forall>skb off len. load skb off len =
     (if off + len \<le> length skb then Some (mslice skb off len) else None))"

definition map_spec :: "filter_key \<Rightarrow> UByte \<Rightarrow> map_lookup \<Rightarrow> bool" where
  "map_spec key v lookup \<longleftrightarrow> (\<forall>k. lookup k = (if k = key then Some v else None))"

section \<open>The class that builds the key\<close>

record QVPNSocketData =
  sd_net_proto :: NetProtocol
  sd_transport_proto :: TransportProtocol
  local_addr :: NetAddr
  local_port :: UShort
  remote_addr :: NetAddr
  remote_port :: UShort

record QVPNServerSocketData =
  ssd_net_proto :: NetProtocol
  ssd_transport_proto :: TransportProtocol
  client_local_addr :: NetAddr
  server_local_addr :: NetAddr
  ssd_local_port :: UShort
  ssd_remote_addr :: NetAddr
  ssd_remote_port :: UShort

text \<open>\<open>filter_\<close> is not initialised: \<open>init\<close> is what the memory held before.\<close>

definition QVPN_SocketFilter_of_socket_data :: "filter_key \<Rightarrow> QVPNSocketData \<Rightarrow> filter_key option" where
  "QVPN_SocketFilter_of_socket_data init s = do {
     let f = init\<lparr> fk_net_proto := sd_net_proto s, fk_transport_proto := sd_transport_proto s \<rparr>;
     f \<leftarrow> (if sd_net_proto s = NetProtocol_IPv4 then do {
             d \<leftarrow> NetAddr_to_uint (local_addr s);
             r \<leftarrow> NetAddr_to_uint (remote_addr s);
             Some (f\<lparr> fk_dst_ip := htonl d, fk_src_ip := htonl r \<rparr>) }
           else Some f);
     Some (f\<lparr> fk_dst_port := htons (local_port s), fk_src_port := htons (remote_port s) \<rparr>) }"

definition QVPN_SocketFilter_of_server_data ::
    "filter_key \<Rightarrow> QVPNServerSocketData \<Rightarrow> filter_key option" where
  "QVPN_SocketFilter_of_server_data init s = do {
     let f = init\<lparr> fk_net_proto := ssd_net_proto s, fk_transport_proto := ssd_transport_proto s \<rparr>;
     f \<leftarrow> (if ssd_net_proto s = NetProtocol_IPv4 then do {
             d \<leftarrow> NetAddr_to_uint (server_local_addr s);
             r \<leftarrow> NetAddr_to_uint (ssd_remote_addr s);
             Some (f\<lparr> fk_dst_ip := htonl d, fk_src_ip := htonl r \<rparr>) }
           else Some f);
     Some (f\<lparr> fk_dst_port := htons (ssd_local_port s), fk_src_port := htons (ssd_remote_port s) \<rparr>) }"

definition QVPN_SocketFilter_ipv4 :: "filter_key \<Rightarrow> filter_key" where
  "QVPN_SocketFilter_ipv4 f = f\<lparr> fk_net_proto := NetProtocol_IPv4 \<rparr>"
definition QVPN_SocketFilter_ipv6 :: "filter_key \<Rightarrow> filter_key" where
  "QVPN_SocketFilter_ipv6 f = f\<lparr> fk_net_proto := NetProtocol_IPv6 \<rparr>"
definition QVPN_SocketFilter_net_ver :: "filter_key \<Rightarrow> UByte \<Rightarrow> filter_key" where
  "QVPN_SocketFilter_net_ver f net = f\<lparr> fk_net_proto := net \<rparr>"

definition QVPN_SocketFilter_src :: "filter_key \<Rightarrow> NetAddr \<Rightarrow> filter_key option" where
  "QVPN_SocketFilter_src f addr =
     (if NetAddr_get_addr_family addr = NetProtocol_IPv4
      then do { a \<leftarrow> NetAddr_to_uint addr; Some (f\<lparr> fk_src_ip := htonl a \<rparr>) } else Some f)"
definition QVPN_SocketFilter_dst :: "filter_key \<Rightarrow> NetAddr \<Rightarrow> filter_key option" where
  "QVPN_SocketFilter_dst f addr =
     (if NetAddr_get_addr_family addr = NetProtocol_IPv4
      then do { a \<leftarrow> NetAddr_to_uint addr; Some (f\<lparr> fk_dst_ip := htonl a \<rparr>) } else Some f)"

definition QVPN_SocketFilter_src_port :: "filter_key \<Rightarrow> UShort \<Rightarrow> filter_key" where
  "QVPN_SocketFilter_src_port f port = f\<lparr> fk_src_port := htons port \<rparr>"
definition QVPN_SocketFilter_dst_port :: "filter_key \<Rightarrow> UShort \<Rightarrow> filter_key" where
  "QVPN_SocketFilter_dst_port f port = f\<lparr> fk_dst_port := htons port \<rparr>"
definition QVPN_SocketFilter_tcp :: "filter_key \<Rightarrow> filter_key" where
  "QVPN_SocketFilter_tcp f = f\<lparr> fk_transport_proto := TransportProtocol_TCP \<rparr>"
definition QVPN_SocketFilter_udp :: "filter_key \<Rightarrow> filter_key" where
  "QVPN_SocketFilter_udp f = f\<lparr> fk_transport_proto := TransportProtocol_UDP \<rparr>"
definition QVPN_SocketFilter_custom_protocol :: "filter_key \<Rightarrow> UByte \<Rightarrow> filter_key" where
  "QVPN_SocketFilter_custom_protocol f proto = f\<lparr> fk_transport_proto := proto \<rparr>"
definition QVPN_SocketFilter_get_filters :: "filter_key \<Rightarrow> filter_key" where
  "QVPN_SocketFilter_get_filters f = f"

section \<open>Which packets pass\<close>

lemma le16_htons: "le16 a b = htons x \<longleftrightarrow> be16 a b = x"
  unfolding le16_def htons_def be16_eq_iff by (metis be16_of_bytes byte_of_be16)

lemma be32_eq_iff: "be32 a b c d = be32 a' b' c' d' \<longleftrightarrow> a = a' \<and> b = b' \<and> c = c' \<and> d = d'"
  by (metis byte_of_be32)

lemma le32_htonl: "le32 a b c d = htonl x \<longleftrightarrow> be32 a b c d = x"
  unfolding le32_def htonl_def be32_eq_iff by (metis be32_of_bytes byte_of_be32)

lemma NetAddr_to_uint_ipv4:
  "length a = 4 \<Longrightarrow> NetAddr_to_uint a = Some (be32 (a ! 0) (a ! 1) (a ! 2) (a ! 3))"
  by (simp add: NetAddr_to_uint_def NetAddr_get_addr_family_def rd32_def rd_def numeral_2_eq_2 numeral_3_eq_3
      del: length_greater_0_conv)

lemma be32_addr_eq:
  assumes "length a = 4" "k + 4 \<le> length m"
  shows "be32 (m ! k) (m ! (k + 1)) (m ! (k + 2)) (m ! (k + 3)) = be32 (a ! 0) (a ! 1) (a ! 2) (a ! 3) \<longleftrightarrow>
    take 4 (drop k m) = a"
proof -
  have "take 4 (drop k m) = [m ! k, m ! (k + 1), m ! (k + 2), m ! (k + 3)]"
    using assms(2) by (intro nth_equalityI) (auto simp: less_Suc_eq numeral_eq_Suc)
  then show ?thesis unfolding be32_eq_iff by (subst (4) list_4 [OF assms(1)]) simp
qed

lemma server_filter_key:
  assumes "QVPN_SocketFilter_of_server_data init s = Some key" "ssd_net_proto s = NetProtocol_IPv4"
    and "length (server_local_addr s) = 4" "length (ssd_remote_addr s) = 4"
  shows "\<lparr> fk_net_proto = v, fk_transport_proto = t, fk_src_ip = le32 a b c d, fk_src_port = le16 x y,
      fk_dst_ip = le32 e f g h, fk_dst_port = le16 z w \<rparr> = key \<longleftrightarrow>
    v = NetProtocol_IPv4 \<and> t = ssd_transport_proto s \<and>
    Some (be32 a b c d) = NetAddr_to_uint (ssd_remote_addr s) \<and> be16 x y = ssd_remote_port s \<and>
    Some (be32 e f g h) = NetAddr_to_uint (server_local_addr s) \<and> be16 z w = ssd_local_port s"
proof -
  obtain d' r where dr: "NetAddr_to_uint (server_local_addr s) = Some d'" "NetAddr_to_uint (ssd_remote_addr s) = Some r"
    using assms(3,4) NetAddr_to_uint_ipv4 by metis
  then have "key = \<lparr> fk_net_proto = NetProtocol_IPv4, fk_transport_proto = ssd_transport_proto s,
      fk_src_ip = htonl r, fk_src_port = htons (ssd_remote_port s),
      fk_dst_ip = htonl d', fk_dst_port = htons (ssd_local_port s) \<rparr>"
    using assms(1,2) by (auto simp: QVPN_SocketFilter_of_server_data_def)
  then show ?thesis by (auto simp: le16_htons le32_htonl dr)
qed

lemma server_key_protocol:
  "QVPN_SocketFilter_of_server_data init s = Some key \<Longrightarrow> ssd_net_proto s = NetProtocol_IPv4 \<Longrightarrow>
   fk_transport_proto key = ssd_transport_proto s"
  by (auto simp: QVPN_SocketFilter_of_server_data_def bind_eq_Some_conv)

lemma mslice_nth: "i < n \<Longrightarrow> p + n \<le> length m \<Longrightarrow> mslice m p n ! i = m ! (p + i)"
  by (simp add: mslice_def)

lemmas hdr_read = iphdr_version_def iphdr_protocol_def iphdr_saddr_def iphdr_daddr_def hdr_source_def hdr_dest_def

text \<open>The packets a server connection waits for.  The transport header begins behind the IPv4 header, whose length in words is
  its lower first nibble.  The program reads the ports twenty bytes into the packet: \<open>reply_at\<close> has that place as its argument.\<close>

definition reply_at :: "nat \<Rightarrow> QVPNServerSocketData \<Rightarrow> skb \<Rightarrow> bool" where
  "reply_at t s m \<longleftrightarrow> t + (if ssd_transport_proto s = TransportProtocol_TCP then 20 else 8) \<le> length m \<and>
     hi_nibble (m ! 0) = NetProtocol_IPv4 \<and> m ! 9 = ssd_transport_proto s \<and>
     take 4 (drop 12 m) = ssd_remote_addr s \<and> take 4 (drop 16 m) = server_local_addr s \<and>
     be16 (m ! t) (m ! (t + 1)) = ssd_remote_port s \<and> be16 (m ! (t + 2)) (m ! (t + 3)) = ssd_local_port s"

definition reply_packet :: "QVPNServerSocketData \<Rightarrow> skb \<Rightarrow> bool" where
  "reply_packet s m \<longleftrightarrow> 5 \<le> unat (lo_nibble (m ! 0)) \<and> reply_at (4 * unat (lo_nibble (m ! 0))) s m"

lemma filter_accepts:
  assumes load: "load_bytes_spec load" and map: "map_spec key 1 lookup"
    and key: "QVPN_SocketFilter_of_server_data init s = Some key" "ssd_net_proto s = NetProtocol_IPv4"
      "length (server_local_addr s) = 4" "length (ssd_remote_addr s) = 4"
    and t: "ssd_transport_proto s = TransportProtocol_TCP \<or> ssd_transport_proto s = TransportProtocol_UDP"
  shows "filter_by_addr_port load lookup m = (if reply_at 20 s m then -1 else 0)"
proof -
  let ?k = "\<lparr> fk_net_proto = hi_nibble (m ! 0), fk_transport_proto = m ! 9,
      fk_src_ip = le32 (m ! 12) (m ! 13) (m ! 14) (m ! 15), fk_src_port = le16 (m ! 20) (m ! 21),
      fk_dst_ip = le32 (m ! 16) (m ! 17) (m ! 18) (m ! 19), fk_dst_port = le16 (m ! 22) (m ! 23) \<rparr>"
  let ?l = "if m ! 9 = TransportProtocol_TCP then 40 else 28"
  have k: "?k = key \<longleftrightarrow> hi_nibble (m ! 0) = NetProtocol_IPv4 \<and> m ! 9 = ssd_transport_proto s \<and>
     take 4 (drop 12 m) = ssd_remote_addr s \<and> take 4 (drop 16 m) = server_local_addr s \<and>
     be16 (m ! 20) (m ! 21) = ssd_remote_port s \<and> be16 (m ! 22) (m ! 23) = ssd_local_port s"
    if "20 \<le> length m"
    using that key(3,4) be32_addr_eq [of "ssd_remote_addr s" 12 m] be32_addr_eq [of "server_local_addr s" 16 m]
    by (simp add: server_filter_key [OF key] NetAddr_to_uint_ipv4 conj_ac)
  have other: "m ! 9 \<noteq> TransportProtocol_TCP \<Longrightarrow> m ! 9 \<noteq> TransportProtocol_UDP \<Longrightarrow>
      lookup (?k\<lparr> fk_src_port := 0, fk_dst_port := 0 \<rparr>) = None"
    using map t server_key_protocol [OF key(1,2)] by (auto simp: map_spec_def)
  have *: "filter_by_addr_port load lookup m =
      (if 20 \<le> length m \<and> hi_nibble (m ! 0) = 4 \<and> (m ! 9 = TransportProtocol_TCP \<or> m ! 9 = TransportProtocol_UDP) \<and>
        ?l \<le> length m \<and> ?k = key then -1 else 0)"
    using load map other
    by (auto simp: filter_by_addr_port_def filter_by_addr_port_ipv4_def filter_by_addr_port_ipv6_def
        load_bytes_spec_def map_spec_def mslice_nth hdr_read hi_nibble_def Let_def protocol_defs)
  show ?thesis
    using k t unfolding * reply_at_def by (auto simp: protocol_defs)
qed

lemma reply_packet_plain: "lo_nibble (m ! 0) = 5 \<Longrightarrow> reply_packet s m = reply_at 20 s m"
  by (simp add: reply_packet_def)

text \<open>With IPv4 options the decision is about the wrong bytes: of these two DNS packets with one word of options the first is
  a reply, and dropped, and the second comes from another port, and passes.\<close>

definition sample_dns :: QVPNServerSocketData where
  "sample_dns = \<lparr> ssd_net_proto = 4, ssd_transport_proto = 17, client_local_addr = [], server_local_addr = [10, 0, 0, 1],
     ssd_local_port = 1024, ssd_remote_addr = [8, 8, 8, 8], ssd_remote_port = 53 \<rparr>"

lemma filter_decides_by_options:
  defines "m \<equiv> \<lambda>opts ports. [0x46, 0, 0, 32, 0, 0, 0, 0, 64, 17, 0, 0, 8, 8, 8, 8, 10, 0, 0, 1] @ opts @ ports @ replicate 4 0"
  assumes "load_bytes_spec load" "map_spec key 1 lookup" "QVPN_SocketFilter_of_server_data init sample_dns = Some key"
  shows "reply_packet sample_dns (m [1, 1, 1, 0] [0, 53, 4, 0]) \<and> filter_by_addr_port load lookup (m [1, 1, 1, 0] [0, 53, 4, 0]) = 0 \<and>
    \<not> reply_packet sample_dns (m [0, 53, 4, 0] [0, 54, 4, 0]) \<and> filter_by_addr_port load lookup (m [0, 53, 4, 0] [0, 54, 4, 0]) = -1"
proof -
  have f: "filter_by_addr_port load lookup m = (if reply_at 20 sample_dns m then -1 else 0)" for m
    by (rule filter_accepts [OF assms(2-4)]) (simp_all add: sample_dns_def protocol_defs)
  have "unat (lo_nibble (0x46 :: UByte)) = 6" by (simp add: lo_nibble_def)
  then show ?thesis
    unfolding f by (simp add: m_def reply_packet_def reply_at_def sample_dns_def protocol_defs hi_nibble_def be16_def)
qed

section \<open>Properties\<close>

text \<open>C16: With the map filled by \<open>QVPN_SocketFilter\<close> from the data of an IPv4 TCP or UDP server connection, the filter keeps of
  the packets with a plain IPv4 header exactly those of the reply direction: long enough, IPv4, the connection's transport,
  from its remote address and port to its local address and port. Every other such packet is dropped. In general the filter
  takes the ports from bytes 20 to 23, wherever the transport header begins: of packets with IPv4 options it keeps those
  whose options begin with the two ports. The helpers of the kernel behave as documented.\<close>

theorem socket_filter_keeps_replies:
  assumes "load_bytes_spec load" "map_spec key 1 lookup"
    and "QVPN_SocketFilter_of_server_data init s = Some key" "ssd_net_proto s = NetProtocol_IPv4"
    and "length (server_local_addr s) = 4" "length (ssd_remote_addr s) = 4"
    and "ssd_transport_proto s = TransportProtocol_TCP \<or> ssd_transport_proto s = TransportProtocol_UDP"
  shows "(lo_nibble (m ! 0) = 5 \<longrightarrow> filter_by_addr_port load lookup m = (if reply_packet s m then -1 else 0)) \<and>
    filter_by_addr_port load lookup m = (if reply_at 20 s m then -1 else 0)"
  using filter_accepts [OF assms] reply_packet_plain by simp

theorem socket_filter_keeps_replies_witness:
  "\<exists>load lookup. filter_by_addr_port load lookup
      ([0x45, 0, 0, 28, 0, 0, 0, 0, 64, 17, 0, 0, 8, 8, 8, 8, 10, 0, 0, 1, 0, 53, 4, 0] @ replicate 4 0) = -1 \<and>
    filter_by_addr_port load lookup
      ([0x45, 0, 0, 28, 0, 0, 0, 0, 64, 17, 0, 0, 8, 8, 4, 4, 10, 0, 0, 1, 0, 53, 4, 0] @ replicate 4 0) = 0"
proof -
  let ?load = "\<lambda>skb off len. if off + len \<le> length skb then Some (mslice skb off len) else None"
  let ?s = "\<lparr> ssd_net_proto = 4, ssd_transport_proto = 17, client_local_addr = [], server_local_addr = [10, 0, 0, 1],
    ssd_local_port = 1024, ssd_remote_addr = [8, 8, 8, 8], ssd_remote_port = 53 \<rparr>"
  let ?init = "\<lparr> fk_net_proto = 0, fk_transport_proto = 0, fk_src_ip = 0, fk_src_port = 0, fk_dst_ip = 0,
    fk_dst_port = 0 \<rparr>"
  obtain key where key: "QVPN_SocketFilter_of_server_data ?init ?s = Some key"
    by (auto simp: QVPN_SocketFilter_of_server_data_def protocol_defs NetAddr_to_uint_ipv4)
  let ?lookup = "\<lambda>k. if k = key then Some 1 else None"
  have f: "lo_nibble (m ! 0) = 5 \<Longrightarrow> filter_by_addr_port ?load ?lookup m = (if reply_packet ?s m then -1 else 0)" for m
    by (rule socket_filter_keeps_replies [OF _ _ key, THEN conjunct1, THEN mp])
      (simp_all add: load_bytes_spec_def map_spec_def protocol_defs)
  have "reply_packet ?s ([0x45, 0, 0, 28, 0, 0, 0, 0, 64, 17, 0, 0, 8, 8, 8, 8, 10, 0, 0, 1, 0, 53, 4, 0] @ replicate 4 0)"
    "\<not> reply_packet ?s ([0x45, 0, 0, 28, 0, 0, 0, 0, 64, 17, 0, 0, 8, 8, 4, 4, 10, 0, 0, 1, 0, 53, 4, 0] @ replicate 4 0)"
    by (simp_all add: reply_packet_def protocol_defs hi_nibble_def nth_append be16_def reply_at_def lo_nibble_def)
  then show ?thesis
    using f by (intro exI [of _ ?load] exI [of _ ?lookup]) (simp add: lo_nibble_def nth_append)
qed

text \<open>Without the entry in the map, or for anything that is not IPv4, nothing passes, whatever the
  kernel's load helper returns.\<close>

lemma socket_filter_default_drop:
  "filter_by_addr_port load (\<lambda>_. None) m = 0 \<and>
   (\<forall>ip. load m 0 20 = Some ip \<and> iphdr_version ip \<noteq> 4 \<longrightarrow> filter_by_addr_port load lookup m = 0) \<and>
   (load m 0 20 = None \<longrightarrow> filter_by_addr_port load lookup m = 0)"
  by (auto simp: filter_by_addr_port_def filter_by_addr_port_ipv4_def filter_by_addr_port_ipv6_def Let_def
      split: option.splits)

end
