(* ===== verification/PacketManager.thy ===== *)
theory PacketManager
  imports QTunnelProto
begin

text \<open>Splitting packets into parts and building them again (\<open>PacketBuilderData\<close>, \<open>SplittedPacket\<close>,
  \<open>SplittedPacketView\<close>, \<open>PacketBuilder\<close> and \<open>QVPNPacketManager\<close> of \<open>qvpn_driver.hpp/.cpp\<close>).\<close>

section \<open>Builder data\<close>

record PacketBuilderData =
  packet_id :: UByte
  pb_offset :: UShort
  original_size :: UShort

definition packet_builder_data_size :: nat where "packet_builder_data_size = 5"

definition PacketBuilderData_new :: PacketBuilderData where
  "PacketBuilderData_new = \<lparr> packet_id = 0, pb_offset = 0, original_size = 0 \<rparr>"

definition PacketBuilderData_of :: "UByte \<Rightarrow> UShort \<Rightarrow> UShort \<Rightarrow> PacketBuilderData" where
  "PacketBuilderData_of i off sz = \<lparr> packet_id = i, pb_offset = off, original_size = sz \<rparr>"

definition PacketBuilderData_set_packet_id :: "PacketBuilderData \<Rightarrow> UByte \<Rightarrow> PacketBuilderData" where
  "PacketBuilderData_set_packet_id d i = d\<lparr> packet_id := i \<rparr>"
definition PacketBuilderData_set_offset :: "PacketBuilderData \<Rightarrow> UShort \<Rightarrow> PacketBuilderData" where
  "PacketBuilderData_set_offset d off = d\<lparr> pb_offset := off \<rparr>"
definition PacketBuilderData_set_original_size :: "PacketBuilderData \<Rightarrow> UShort \<Rightarrow> PacketBuilderData" where
  "PacketBuilderData_set_original_size d sz = d\<lparr> original_size := sz \<rparr>"
definition PacketBuilderData_get_packet_id :: "PacketBuilderData \<Rightarrow> UByte" where
  "PacketBuilderData_get_packet_id d = packet_id d"
definition PacketBuilderData_get_offset :: "PacketBuilderData \<Rightarrow> UShort" where
  "PacketBuilderData_get_offset d = pb_offset d"
definition PacketBuilderData_get_original_size :: "PacketBuilderData \<Rightarrow> UShort" where
  "PacketBuilderData_get_original_size d = original_size d"

definition PacketBuilderData_to_bytes :: "PacketBuilderData \<Rightarrow> bytes" where
  "PacketBuilderData_to_bytes d = [packet_id d] @ be16_bytes (pb_offset d) @ be16_bytes (original_size d)"

lemmas pb_data_defs = PacketBuilderData_of_def PacketBuilderData_get_packet_id_def
  PacketBuilderData_get_offset_def PacketBuilderData_get_original_size_def

section \<open>A split packet\<close>

text \<open>The separators of the owning class are pairs of sixteen bit numbers.\<close>

record SplittedPacket =
  sp_packet_id :: UByte
  sp_data :: bytes
  sp_separators :: "(UShort \<times> UShort) list"

definition SplittedPacket_set_packet_id :: "SplittedPacket \<Rightarrow> UByte \<Rightarrow> SplittedPacket" where
  "SplittedPacket_set_packet_id s i = s\<lparr> sp_packet_id := i \<rparr>"

definition SplittedPacket_next_id :: "SplittedPacket \<Rightarrow> SplittedPacket" where
  "SplittedPacket_next_id s = s\<lparr> sp_packet_id := sp_packet_id s + 1 \<rparr>"

definition SplittedPacket_add_data :: "SplittedPacket \<Rightarrow> bytes \<Rightarrow> SplittedPacket" where
  "SplittedPacket_add_data s part =
     (let data_start = length (sp_data s); data_end = data_start + length part
      in s\<lparr> sp_data := sp_data s @ part,
            sp_separators := sp_separators s @ [(of_nat data_start, of_nat data_end)] \<rparr>)"

definition SplittedPacket_get :: "SplittedPacket \<Rightarrow> nat \<Rightarrow> bytes option" where
  "SplittedPacket_get s k = do {
     (b, e) \<leftarrow> rd (sp_separators s) k;
     let full_size = (of_nat (length (sp_data s)) :: UShort);
     part \<leftarrow> rd_range (sp_data s) (unat b) (unat e);
     Some ([sp_packet_id s] @ be16_bytes b @ be16_bytes full_size @ part) }"

definition SplittedPacket_index :: "SplittedPacket \<Rightarrow> nat \<Rightarrow> bytes option" where
  "SplittedPacket_index s k = do {
     (b, e) \<leftarrow> rd (sp_separators s) k;
     let full_size = (of_nat (length (sp_data s)) :: UShort);
     part \<leftarrow> rd_range (sp_data s) (unat b) (unat e);
     Some ([sp_packet_id s] @ be16_bytes b @ be16_bytes full_size @ part) }"

definition SplittedPacket_get_with_pb_data :: "SplittedPacket \<Rightarrow> nat \<Rightarrow> (PacketBuilderData \<times> bytes) option" where
  "SplittedPacket_get_with_pb_data s k = do {
     (b, e) \<leftarrow> rd (sp_separators s) k;
     part \<leftarrow> rd_range (sp_data s) (unat b) (unat e);
     Some (PacketBuilderData_of (sp_packet_id s) b (of_nat (length (sp_data s))), part) }"

definition SplittedPacket_get_raw_with_pb_data ::
    "SplittedPacket \<Rightarrow> nat \<Rightarrow> (PacketBuilderData \<times> ptr \<times> ptr) option" where
  "SplittedPacket_get_raw_with_pb_data s k = do {
     (b, e) \<leftarrow> rd (sp_separators s) k;
     Some (PacketBuilderData_of (sp_packet_id s) b (of_nat (length (sp_data s))), unat b, unat e) }"

definition SplittedPacket_get_raw_packet :: "SplittedPacket \<Rightarrow> nat \<Rightarrow> (ptr \<times> ptr) option" where
  "SplittedPacket_get_raw_packet s k = do {
     (b, e) \<leftarrow> rd (sp_separators s) k; Some (unat b, unat e) }"

definition SplittedPacket_get_packet_builder_data :: "SplittedPacket \<Rightarrow> nat \<Rightarrow> PacketBuilderData option" where
  "SplittedPacket_get_packet_builder_data s k = do {
     (b, e) \<leftarrow> rd (sp_separators s) k;
     Some (PacketBuilderData_of (sp_packet_id s) b (of_nat (length (sp_data s)))) }"

definition SplittedPacket_size :: "SplittedPacket \<Rightarrow> nat" where
  "SplittedPacket_size s = length (sp_separators s)"

definition SplittedPacket_to_bytes :: "SplittedPacket \<Rightarrow> bytes" where
  "SplittedPacket_to_bytes s = sp_data s"

text \<open>The view: a pointer to the first part added and separators relative to it.  The running size is
  sixteen bits wide; a part whose end lies before its begin counts negatively.\<close>

record SplittedPacketView =
  spv_packet_id :: UByte
  spv_data :: "ptr option"
  spv_data_size :: UShort
  spv_separators :: "(nat \<times> int) list"

definition SplittedPacketView_new :: SplittedPacketView where
  "SplittedPacketView_new = \<lparr> spv_packet_id = 0, spv_data = None, spv_data_size = 0, spv_separators = [] \<rparr>"

definition SplittedPacketView_set_packet_id :: "SplittedPacketView \<Rightarrow> UByte \<Rightarrow> SplittedPacketView" where
  "SplittedPacketView_set_packet_id s i = s\<lparr> spv_packet_id := i \<rparr>"

definition SplittedPacketView_next_id :: "SplittedPacketView \<Rightarrow> SplittedPacketView" where
  "SplittedPacketView_next_id s = s\<lparr> spv_packet_id := spv_packet_id s + 1 \<rparr>"

definition SplittedPacketView_add_data :: "SplittedPacketView \<Rightarrow> ptr \<Rightarrow> ptr \<Rightarrow> SplittedPacketView" where
  "SplittedPacketView_add_data s b e =
     (let sz = int e - int b; data_start = unat (spv_data_size s)
      in s\<lparr> spv_data := (case spv_data s of None \<Rightarrow> Some b | Some p \<Rightarrow> Some p),
            spv_separators := spv_separators s @ [(data_start, int data_start + sz)],
            spv_data_size := spv_data_size s + of_int sz \<rparr>)"

definition SplittedPacketView_get :: "SplittedPacketView \<Rightarrow> mem \<Rightarrow> nat \<Rightarrow> bytes option" where
  "SplittedPacketView_get s m k = do {
     (b, e) \<leftarrow> rd (spv_separators s) k;
     p \<leftarrow> spv_data s;
     part \<leftarrow> rd_range m (p + b) (nat (int p + e));
     Some ([spv_packet_id s] @ be16_bytes (of_nat b) @ be16_bytes (spv_data_size s) @ part) }"

definition SplittedPacketView_index :: "SplittedPacketView \<Rightarrow> mem \<Rightarrow> nat \<Rightarrow> bytes option" where
  "SplittedPacketView_index s m k = do {
     (b, e) \<leftarrow> rd (spv_separators s) k;
     p \<leftarrow> spv_data s;
     part \<leftarrow> rd_range m (p + b) (nat (int p + e));
     Some ([spv_packet_id s] @ be16_bytes (of_nat b) @ be16_bytes (spv_data_size s) @ part) }"

definition SplittedPacketView_get_with_pb_data ::
    "SplittedPacketView \<Rightarrow> mem \<Rightarrow> nat \<Rightarrow> (PacketBuilderData \<times> bytes) option" where
  "SplittedPacketView_get_with_pb_data s m k = do {
     (b, e) \<leftarrow> rd (spv_separators s) k;
     p \<leftarrow> spv_data s;
     part \<leftarrow> rd_range m (p + b) (nat (int p + e));
     Some (PacketBuilderData_of (spv_packet_id s) (of_nat b) (spv_data_size s), part) }"

definition SplittedPacketView_get_raw_with_pb_data ::
    "SplittedPacketView \<Rightarrow> nat \<Rightarrow> (PacketBuilderData \<times> ptr \<times> ptr) option" where
  "SplittedPacketView_get_raw_with_pb_data s k = do {
     (b, e) \<leftarrow> rd (spv_separators s) k;
     p \<leftarrow> spv_data s;
     Some (PacketBuilderData_of (spv_packet_id s) (of_nat b) (spv_data_size s), p + b, nat (int p + e)) }"

definition SplittedPacketView_get_raw_packet :: "SplittedPacketView \<Rightarrow> nat \<Rightarrow> (ptr \<times> ptr) option" where
  "SplittedPacketView_get_raw_packet s k = do {
     (b, e) \<leftarrow> rd (spv_separators s) k; p \<leftarrow> spv_data s; Some (p + b, nat (int p + e)) }"

definition SplittedPacketView_get_packet_builder_data ::
    "SplittedPacketView \<Rightarrow> nat \<Rightarrow> PacketBuilderData option" where
  "SplittedPacketView_get_packet_builder_data s k = do {
     (b, e) \<leftarrow> rd (spv_separators s) k;
     Some (PacketBuilderData_of (spv_packet_id s) (of_nat b) (spv_data_size s)) }"

definition SplittedPacketView_size :: "SplittedPacketView \<Rightarrow> nat" where
  "SplittedPacketView_size s = length (spv_separators s)"

definition SplittedPacketView_to_bytes :: "SplittedPacketView \<Rightarrow> (ptr \<times> ptr) option" where
  "SplittedPacketView_to_bytes s = map_option (\<lambda>p. (p, p + unat (spv_data_size s))) (spv_data s)"

section \<open>The builder of one packet\<close>

record PacketBuilder =
  pbr_original_size :: UShort
  pbr_data :: bytes
  pbr_is_full :: bool

definition PacketBuilder_new :: PacketBuilder where
  "PacketBuilder_new = \<lparr> pbr_original_size = 0, pbr_data = [], pbr_is_full = False \<rparr>"

text \<open>\<open>std::find(data_.begin(), data_.end(), offset)\<close>: the position of the first byte whose value is the
  offset, the end when there is none.\<close>

fun find_byte :: "bytes \<Rightarrow> UShort \<Rightarrow> nat" where
  "find_byte [] v = 0"
| "find_byte (x # xs) v = (if ucast x = v then 0 else Suc (find_byte xs v))"

definition PacketBuilder_add_data :: "PacketBuilder \<Rightarrow> bytes \<Rightarrow> PacketBuilder option" where
  "PacketBuilder_add_data pb part = do {
     offset \<leftarrow> rd16 part 0;
     orig_size \<leftarrow> rd16 part 2;
     let it = find_byte (pbr_data pb) offset;
     let data = take it (pbr_data pb) @ drop 4 part @ drop it (pbr_data pb);
     Some (pb\<lparr> pbr_data := data,
               pbr_is_full := (if length data = unat (pbr_original_size pb) then True else pbr_is_full pb) \<rparr>) }"

definition PacketBuilder_of_range :: "bytes \<Rightarrow> PacketBuilder option" where
  "PacketBuilder_of_range part = do {
     offset \<leftarrow> rd16 part 0;
     orig_size \<leftarrow> rd16 part 2;
     PacketBuilder_add_data (PacketBuilder_new\<lparr> pbr_original_size := orig_size \<rparr>) part }"

text \<open>\<open>operator==\<close> assigns three comparisons to one variable: the last, of the data, wins.  The assignment
  operators do nothing between equal builders.\<close>

definition PacketBuilder_eq :: "PacketBuilder \<Rightarrow> PacketBuilder \<Rightarrow> bool" where
  "PacketBuilder_eq a b = (pbr_data a = pbr_data b)"

definition PacketBuilder_assign :: "PacketBuilder \<Rightarrow> PacketBuilder \<Rightarrow> PacketBuilder" where
  "PacketBuilder_assign this pb = (if PacketBuilder_eq this pb then this else pb)"

definition PacketBuilder_copy :: "PacketBuilder \<Rightarrow> PacketBuilder" where
  "PacketBuilder_copy pb = (if PacketBuilder_eq PacketBuilder_new pb then PacketBuilder_new else pb)"

definition PacketBuilder_is_full :: "PacketBuilder \<Rightarrow> bool" where
  "PacketBuilder_is_full pb = pbr_is_full pb"

definition PacketBuilder_get_data :: "PacketBuilder \<Rightarrow> bytes" where
  "PacketBuilder_get_data pb = pbr_data pb"

definition PacketBuilder_get_raw_data :: "PacketBuilder \<Rightarrow> bytes" where
  "PacketBuilder_get_raw_data pb = pbr_data pb"

section \<open>The packet manager\<close>

datatype PacketBuilderSignal = PACKET_FULL_BUILD | PACKET_PART_RECEIVED | PACKET_NO_BUILDER_DATA

definition packet_manager_data_size :: nat where "packet_manager_data_size = packet_builder_data_size"
definition data_meta_qvpn_size :: nat where
  "data_meta_qvpn_size = packet_manager_data_size + 5 + 40 + 256"

text \<open>\<open>cache\<close> is the key of the element the cached pointer refers to, when \<open>cached\<close> is set.\<close>

record QVPNPacketManager =
  packets :: "UByte \<rightharpoonup> PacketBuilder"
  last_packet_id :: UByte
  cache :: "UByte option"
  data_max_size :: UInt
  data_split_size :: UShort

definition QVPNPacketManager_new :: QVPNPacketManager where
  "QVPNPacketManager_new = \<lparr> packets = Map.empty, last_packet_id = 0, cache = None,
     data_max_size = of_nat (65535 - data_meta_qvpn_size),
     data_split_size = ucast ((of_nat (65535 - data_meta_qvpn_size) :: UInt) div 2 + 1) \<rparr>"

definition QVPNPacketManager_set_data_max_size :: "QVPNPacketManager \<Rightarrow> UInt \<Rightarrow> QVPNPacketManager" where
  "QVPNPacketManager_set_data_max_size pm sz =
     (if sz > of_nat (65535 - data_meta_qvpn_size) then pm
      else pm\<lparr> data_max_size := sz - of_nat data_meta_qvpn_size \<rparr>)"

definition QVPNPacketManager_set_data_split_size :: "QVPNPacketManager \<Rightarrow> UShort \<Rightarrow> QVPNPacketManager" where
  "QVPNPacketManager_set_data_split_size pm sz =
     (if ucast sz > data_max_size pm then pm else pm\<lparr> data_split_size := sz \<rparr>)"

text \<open>The loop of both splitting functions: the bounds of the parts, with \<open>i\<close> counting up and the start
  advancing by \<open>i\<close> split sizes each time.\<close>

fun split_loop :: "nat \<Rightarrow> nat \<Rightarrow> nat \<Rightarrow> nat \<Rightarrow> nat \<Rightarrow> nat \<Rightarrow> (nat \<times> nat) list" where
  "split_loop 0 i spl start fin e = []"
| "split_loop (Suc n) i spl start fin e =
     (let start = start + i * spl;
          fin = (if e < fin then e else start + spl)
      in (start, fin) # split_loop n (Suc i) spl start fin e)"

text \<open>The bounds relative to the begin of the data, or one part for a packet that is small enough.  A
  split size of zero divides by zero.\<close>

definition split_bounds :: "QVPNPacketManager \<Rightarrow> nat \<Rightarrow> (nat \<times> nat) list option" where
  "split_bounds pm sz =
     (if unat (data_max_size pm) \<le> sz then
        (let spl = unat (data_split_size pm) in
         if spl = 0 then None
         else Some (split_loop (unat (of_nat (sz div spl) :: UByte)) 0 spl 0 spl sz))
      else Some [(0, sz)])"

fun add_parts :: "SplittedPacket \<Rightarrow> bytes \<Rightarrow> (nat \<times> nat) list \<Rightarrow> SplittedPacket option" where
  "add_parts s data [] = Some s"
| "add_parts s data ((b, e) # ps) = do {
     part \<leftarrow> rd_range data b e;
     add_parts (SplittedPacket_add_data s part) data ps }"

definition QVPNPacketManager_split_packet ::
    "QVPNPacketManager \<Rightarrow> bytes \<Rightarrow> (SplittedPacket \<times> QVPNPacketManager) option" where
  "QVPNPacketManager_split_packet pm data = do {
     let s = \<lparr> sp_packet_id = last_packet_id pm, sp_data = [], sp_separators = [] \<rparr>;
     let pm' = pm\<lparr> last_packet_id := last_packet_id pm + 1 \<rparr>;
     ps \<leftarrow> split_bounds pm (length data);
     s \<leftarrow> add_parts s data ps;
     Some (s, pm') }"

definition QVPNPacketManager_split_packet_view ::
    "QVPNPacketManager \<Rightarrow> ptr \<Rightarrow> ptr \<Rightarrow> (SplittedPacketView \<times> QVPNPacketManager) option" where
  "QVPNPacketManager_split_packet_view pm b e = do {
     let s = SplittedPacketView_set_packet_id SplittedPacketView_new (last_packet_id pm);
     let pm' = pm\<lparr> last_packet_id := last_packet_id pm + 1 \<rparr>;
     ps \<leftarrow> split_bounds pm (e - b);
     Some (fold (\<lambda>(x, y) s. SplittedPacketView_add_data s (b + x) (b + y)) ps s, pm') }"

definition QVPNPacketManager_build_packet ::
    "QVPNPacketManager \<Rightarrow> bytes \<Rightarrow> (PacketBuilderSignal \<times> QVPNPacketManager) option" where
  "QVPNPacketManager_build_packet pm data = do {
     let sz = length data;
     if sz \<le> packet_manager_data_size then Some (PACKET_NO_BUILDER_DATA, pm)
     else do {
       let no_pb_header_size = sz - packet_manager_data_size;
       offset \<leftarrow> rd16 data 1;
       orig \<leftarrow> rd16 data 3;
       if unat orig \<le> unat offset \<or> unat orig < no_pb_header_size + unat offset
       then Some (PACKET_NO_BUILDER_DATA, pm)
       else do {
         p_id \<leftarrow> rd data 0;
         case packets pm p_id of
           Some pb \<Rightarrow> do {
             pb \<leftarrow> PacketBuilder_add_data pb (drop 1 data);
             Some (PACKET_PART_RECEIVED, pm\<lparr> packets := (packets pm)(p_id \<mapsto> pb) \<rparr>) }
         | None \<Rightarrow> do {
             pb \<leftarrow> PacketBuilder_of_range (drop 1 data);
             Some (if no_pb_header_size = unat orig then PACKET_FULL_BUILD else PACKET_PART_RECEIVED,
                   pm\<lparr> packets := (packets pm)(p_id \<mapsto> pb) \<rparr>) } } } }"

text \<open>The iteration order of the unordered map is the argument \<open>order\<close>: the keys of the map, each once.\<close>

definition is_full_at :: "QVPNPacketManager \<Rightarrow> UByte \<Rightarrow> bool" where
  "is_full_at pm i = (case packets pm i of Some pb \<Rightarrow> PacketBuilder_is_full pb | None \<Rightarrow> False)"

definition QVPNPacketManager_have_full_packets ::
    "UByte list \<Rightarrow> QVPNPacketManager \<Rightarrow> bool \<times> QVPNPacketManager" where
  "QVPNPacketManager_have_full_packets order pm =
     (case find (is_full_at pm) order of
        Some i \<Rightarrow> (True, pm\<lparr> cache := Some i \<rparr>)
      | None \<Rightarrow> (False, pm))"

definition QVPNPacketManager_pop_last_packet :: "QVPNPacketManager \<Rightarrow> QVPNPacketManager" where
  "QVPNPacketManager_pop_last_packet pm = (case cache pm of
     None \<Rightarrow> pm
   | Some i \<Rightarrow> pm\<lparr> packets := (packets pm)(i := None), cache := None \<rparr>)"

text \<open>Without a cached element the loop erases the element it stands on and goes on from it, which is
  undefined; it is harmless only when no packet is full.\<close>

definition QVPNPacketManager_get_and_pop_packet ::
    "UByte list \<Rightarrow> QVPNPacketManager \<Rightarrow> (PacketBuilder \<times> QVPNPacketManager) option" where
  "QVPNPacketManager_get_and_pop_packet order pm = (case cache pm of
     Some i \<Rightarrow> do {
       pb \<leftarrow> packets pm i;
       Some (PacketBuilder_assign PacketBuilder_new pb, QVPNPacketManager_pop_last_packet pm) }
   | None \<Rightarrow> (if list_ex (is_full_at pm) order then None else Some (PacketBuilder_new, pm)))"

definition QVPNPacketManager_get_raw_packet :: "UByte list \<Rightarrow> QVPNPacketManager \<Rightarrow> bytes option" where
  "QVPNPacketManager_get_raw_packet order pm = (case cache pm of
     Some i \<Rightarrow> map_option PacketBuilder_get_raw_data (packets pm i)
   | None \<Rightarrow> (case find (is_full_at pm) (rev order) of
        Some i \<Rightarrow> map_option PacketBuilder_get_raw_data (packets pm i)
      | None \<Rightarrow> None))"

section \<open>Building from parts\<close>

text \<open>A frame on the wire: builder data, then a part of the packet.\<close>

definition pb_frame :: "UByte \<Rightarrow> nat \<Rightarrow> nat \<Rightarrow> bytes \<Rightarrow> bytes" where
  "pb_frame i off orig part =
     PacketBuilderData_to_bytes (PacketBuilderData_of i (of_nat off) (of_nat orig)) @ part"

lemma unat_ucast_UShort: "unat (ucast (x :: UByte) :: UShort) = unat x"
  using unat_byte_less [of x] by (simp add: unsigned_ucast_eq take_bit_nat_eq_self)

lemma find_byte_large: "256 \<le> unat v \<Longrightarrow> find_byte xs v = length xs"
proof (induction xs)
  case (Cons x xs)
  have "ucast x \<noteq> v"
  proof
    assume "ucast x = v"
    then have "unat v = unat x" by (metis unat_ucast_UShort)
    then show False using Cons.prems unat_byte_less [of x] by simp
  qed
  then show ?case using Cons by simp
qed simp

lemma pb_frame_reads:
  assumes "off < 65536" "orig < 65536"
  shows "rd (pb_frame i off orig part) 0 = Some i"
    "rd16 (pb_frame i off orig part) 1 = Some (of_nat off)"
    "rd16 (pb_frame i off orig part) 3 = Some (of_nat orig)"
    "length (pb_frame i off orig part) = 5 + length part"
    "rd16 (drop 1 (pb_frame i off orig part)) 0 = Some (of_nat off)"
    "rd16 (drop 1 (pb_frame i off orig part)) 2 = Some (of_nat orig)"
    "drop 4 (drop 1 (pb_frame i off orig part)) = part"
  by (simp_all add: pb_frame_def PacketBuilderData_to_bytes_def pb_data_defs rd_def rd16_def be16_bytes_def)

lemma unat_of_nat16: "n < 65536 \<Longrightarrow> unat (of_nat n :: UShort) = n"
  by (simp only: unat_of_nat) (simp add: mod_less)

lemma build_first_part:
  assumes "packets pm i = None" "part \<noteq> []" "length part \<le> orig" "orig < 65536"
  shows "QVPNPacketManager_build_packet pm (pb_frame i 0 orig part) =
    Some (if length part = orig then PACKET_FULL_BUILD else PACKET_PART_RECEIVED,
      pm\<lparr> packets := (packets pm)(i \<mapsto> \<lparr> pbr_original_size = of_nat orig, pbr_data = part,
        pbr_is_full = (length part = orig) \<rparr>) \<rparr>)"
proof -
  have "0 < orig" using assms by (cases part) auto
  then show ?thesis
    using assms pb_frame_reads [of 0 orig i part] unat_of_nat16 [of orig]
    by (simp add: QVPNPacketManager_build_packet_def packet_manager_data_size_def
        packet_builder_data_size_def PacketBuilder_of_range_def PacketBuilder_add_data_def
        PacketBuilder_new_def)
qed

lemma build_append_part:
  assumes "packets pm i = Some pb" "part \<noteq> []" "off + length part \<le> orig" "orig < 65536" "256 \<le> off"
  shows "QVPNPacketManager_build_packet pm (pb_frame i off orig part) =
    Some (PACKET_PART_RECEIVED, pm\<lparr> packets := (packets pm)(i \<mapsto> pb\<lparr> pbr_data := pbr_data pb @ part,
        pbr_is_full := (length (pbr_data pb) + length part = unat (pbr_original_size pb) \<or> pbr_is_full pb) \<rparr>) \<rparr>)"
proof -
  have "off < orig" using assms(2,3) by (cases part) auto
  then show ?thesis
    using assms pb_frame_reads [of off orig i part] unat_of_nat16 [of orig] unat_of_nat16 [of off]
      find_byte_large [of "of_nat off" "pbr_data pb"]
    by (simp add: QVPNPacketManager_build_packet_def packet_manager_data_size_def
        packet_builder_data_size_def PacketBuilder_add_data_def)
qed

lemma build_next_part:
  assumes "packets pm i = Some pb" "pbr_original_size pb = of_nat orig" "length (pbr_data pb) = off"
    and "part \<noteq> []" "off + length part \<le> orig" "orig < 65536" "256 \<le> off"
  shows "QVPNPacketManager_build_packet pm (pb_frame i off orig part) =
    Some (PACKET_PART_RECEIVED, pm\<lparr> packets := (packets pm)(i \<mapsto> pb\<lparr> pbr_data := pbr_data pb @ part,
        pbr_is_full := (off + length part = orig \<or> pbr_is_full pb) \<rparr>) \<rparr>)"
  using build_append_part [of pm i pb part off orig] assms unat_of_nat16 [of orig] by simp

text \<open>The position is the end exactly when no byte has the value.\<close>

lemma find_byte_le: "find_byte xs v \<le> length xs"
  by (induction xs) auto

lemma find_byte_end: "find_byte xs v = length xs \<longleftrightarrow> v \<notin> ucast ` set xs"
  by (induction xs) auto

lemma build_second_part:
  assumes "packets pm i = Some pb" "pbr_original_size pb = of_nat (length a + length b)" "pbr_data pb = a" "b \<noteq> []"
    and "length a + length b < 65536" "k = find_byte a (of_nat (length a))"
  shows "QVPNPacketManager_build_packet pm (pb_frame i (length a) (length a + length b) b) =
    Some (PACKET_PART_RECEIVED, pm\<lparr> packets := (packets pm)(i \<mapsto> pb\<lparr> pbr_data := take k a @ b @ drop k a,
      pbr_is_full := True \<rparr>) \<rparr>)"
proof -
  have "length (take k a @ b @ drop k a) = length a + length b" using find_byte_le [of a "of_nat (length a)"] assms(6) by simp
  then show ?thesis
    using assms pb_frame_reads [of "length a" "length a + length b" i b] unat_of_nat16 [of "length a + length b"]
      unat_of_nat16 [of "length a"]
    by (simp add: QVPNPacketManager_build_packet_def packet_manager_data_size_def packet_builder_data_size_def
        PacketBuilder_add_data_def Let_def del: length_append)
qed

text \<open>The frames of a packet cut into parts, each with the offset it starts at, fed in order.\<close>

fun part_frames :: "UByte \<Rightarrow> nat \<Rightarrow> nat \<Rightarrow> bytes list \<Rightarrow> bytes list" where
  "part_frames i off orig [] = []"
| "part_frames i off orig (p # ps) = pb_frame i off orig p # part_frames i (off + length p) orig ps"

fun build_packets :: "QVPNPacketManager \<Rightarrow> bytes list \<Rightarrow> QVPNPacketManager option" where
  "build_packets pm [] = Some pm"
| "build_packets pm (f # fs) = do { (_, pm) \<leftarrow> QVPNPacketManager_build_packet pm f; build_packets pm fs }"

lemma build_rest:
  assumes "packets pm i = Some pb" "pbr_original_size pb = of_nat orig" "length (pbr_data pb) = off"
    and "256 \<le> off" "off + length (concat ps) = orig" "orig < 65536" "[] \<notin> set ps" "ps \<noteq> []"
  shows "build_packets pm (part_frames i off orig ps) =
    Some (pm\<lparr> packets := (packets pm)(i \<mapsto> \<lparr> pbr_original_size = of_nat orig,
      pbr_data = pbr_data pb @ concat ps, pbr_is_full = True \<rparr>) \<rparr>)"
  using assms
proof (induction ps arbitrary: pm pb off)
  case (Cons p ps)
  let ?pb = "pb\<lparr> pbr_data := pbr_data pb @ p, pbr_is_full := (off + length p = orig \<or> pbr_is_full pb) \<rparr>"
  let ?pm = "pm\<lparr> packets := (packets pm)(i \<mapsto> ?pb) \<rparr>"
  have step: "QVPNPacketManager_build_packet pm (pb_frame i off orig p) = Some (PACKET_PART_RECEIVED, ?pm)"
    using Cons.prems by (intro build_next_part) auto
  show ?case
  proof (cases ps)
    case Nil
    moreover have "?pb = \<lparr> pbr_original_size = of_nat orig, pbr_data = pbr_data pb @ p, pbr_is_full = True \<rparr>"
      using Cons.prems Nil by (cases pb) simp
    ultimately show ?thesis using step by (simp add: fun_upd_def)
  next
    case (Cons q qs)
    then have "build_packets ?pm (part_frames i (off + length p) orig ps) =
        Some (?pm\<lparr> packets := (packets ?pm)(i \<mapsto> \<lparr> pbr_original_size = of_nat orig,
          pbr_data = pbr_data ?pb @ concat ps, pbr_is_full = True \<rparr>) \<rparr>)"
      using Cons.IH [of ?pm ?pb "off + length p"] Cons.prems by (simp add: fun_upd_def cong: if_cong)
    then show ?thesis using step by (simp add: fun_upd_def cong: if_cong)
  qed
qed simp

lemma build_in_order:
  assumes "packets pm i = None" "length (concat (p # ps)) = orig" "orig < 65536" "[] \<notin> set (p # ps)"
    and "ps \<noteq> [] \<longrightarrow> 256 \<le> length p"
  shows "build_packets pm (part_frames i 0 orig (p # ps)) =
    Some (pm\<lparr> packets := (packets pm)(i \<mapsto> \<lparr> pbr_original_size = of_nat orig,
      pbr_data = concat (p # ps), pbr_is_full = True \<rparr>) \<rparr>)"
proof -
  let ?pb = "\<lparr> pbr_original_size = of_nat orig, pbr_data = p, pbr_is_full = (length p = orig) \<rparr>"
  let ?pm = "pm\<lparr> packets := (packets pm)(i \<mapsto> ?pb) \<rparr>"
  have step: "\<exists>sig. QVPNPacketManager_build_packet pm (pb_frame i 0 orig p) = Some (sig, ?pm)"
    using build_first_part [of pm i p orig] assms by auto
  show ?thesis
  proof (cases "ps = []")
    case False
    then show ?thesis
      using step build_rest [of ?pm i ?pb orig "length p" ps] assms by auto
  qed (use step assms in auto)
qed

section \<open>Splitting\<close>

lemma split_bounds_small: "sz < unat (data_max_size pm) \<Longrightarrow> split_bounds pm sz = Some [(0, sz)]"
  by (simp add: split_bounds_def)

lemma split_loop_upto_2:
  assumes "k \<le> 2" "k * spl \<le> sz"
  shows "split_loop k 0 spl 0 spl sz = take k [(0, spl), (spl, 2 * spl)]"
  using assms by (cases k; cases "k - 1") (auto simp: Let_def)

lemma split_bounds_large:
  assumes "unat (data_max_size pm) \<le> sz" "unat (data_split_size pm) = spl" "0 < spl" "sz < 3 * spl"
  shows "split_bounds pm sz = Some (take (sz div spl) [(0, spl), (spl, 2 * spl)])"
proof -
  let ?k = "sz div spl"
  have k: "?k \<le> 2" using assms(3,4) by (metis div_less_iff_less_mult less_Suc_eq_le numeral_2_eq_2 numeral_3_eq_3)
  have "unat (of_nat ?k :: UByte) = ?k" using k by (simp add: unat_of_nat)
  then show ?thesis
    using assms split_loop_upto_2 [OF k, of spl sz] by (simp add: split_bounds_def)
qed

text \<open>The frames of a split packet, in order.\<close>

definition sp_frames :: "SplittedPacket \<Rightarrow> bytes list option" where
  "sp_frames s = those (map (SplittedPacket_get s) [0..<SplittedPacket_size s])"

definition spv_frames :: "SplittedPacketView \<Rightarrow> mem \<Rightarrow> bytes list option" where
  "spv_frames s m = those (map (SplittedPacketView_get s m) [0..<SplittedPacketView_size s])"

lemma pb_frame_eq: "pb_frame i off orig part = [i] @ be16_bytes (of_nat off) @ be16_bytes (of_nat orig) @ part"
  by (simp add: pb_frame_def PacketBuilderData_to_bytes_def pb_data_defs)

lemmas sp_defs = sp_frames_def SplittedPacket_size_def SplittedPacket_get_def SplittedPacket_add_data_def
  QVPNPacketManager_split_packet_def pb_frame_eq
lemmas spv_defs = spv_frames_def SplittedPacketView_size_def SplittedPacketView_get_def
  SplittedPacketView_add_data_def QVPNPacketManager_split_packet_view_def pb_frame_eq
  SplittedPacketView_set_packet_id_def SplittedPacketView_new_def

text \<open>What a split sends: one frame with the whole packet, or at most two frames of the split size.\<close>

definition split_parts :: "QVPNPacketManager \<Rightarrow> bytes \<Rightarrow> bytes list" where
  "split_parts pm data =
     (let spl = unat (data_split_size pm) in
      if length data < unat (data_max_size pm) then [data]
      else take (length data div spl) [take spl data, take spl (drop spl data)])"

definition frames_of :: "UByte \<Rightarrow> bytes list \<Rightarrow> bytes list" where
  "frames_of i ps = part_frames i 0 (length (concat ps)) ps"

lemma upt_numeral: "[0..<1] = [0::nat]" "[0..<2] = [0::nat, 1]" "[0..<Suc (Suc 0)] = [0::nat, 1]"
  by (simp_all add: upt_conv_Cons numeral_2_eq_2)

lemma rd_pair: "rd [x, y] 0 = Some x" "rd [x, y] (Suc 0) = Some y" "rd [x] 0 = Some x"
  by (simp_all add: rd_def)

lemma unat_double16: "2 * n < 65536 \<Longrightarrow> unat (2 * of_nat n :: UShort) = 2 * n"
  using unat_of_nat16 [of "2 * n"] by simp

lemma split_count:
  assumes "0 < spl" "(sz::nat) < 3 * spl"
  obtains "sz div spl = 0" "sz < spl" | "sz div spl = 1" "spl \<le> sz" "sz < 2 * spl" | "sz div spl = 2" "2 * spl \<le> sz"
proof -
  consider "sz < spl" | "spl \<le> sz" "sz < 2 * spl" | "2 * spl \<le> sz" by linarith
  then show thesis
  proof cases
    case 2 then show thesis using that(2) assms by (simp add: div_nat_eqI)
  next
    case 3 then show thesis using that(3) assms by (simp add: div_nat_eqI)
  qed (use that(1) in simp)
qed

text \<open>The packets the manager can split: small ones, and those of less than three split sizes.\<close>

definition splittable :: "QVPNPacketManager \<Rightarrow> nat \<Rightarrow> bool" where
  "splittable pm sz \<longleftrightarrow> sz < 65536 \<and> (sz < unat (data_max_size pm) \<or> sz < 3 * unat (data_split_size pm))"

lemma split_frames:
  assumes "splittable pm (length data)"
  shows "do { (s, pm') \<leftarrow> QVPNPacketManager_split_packet pm data; fs \<leftarrow> sp_frames s; Some (fs, pm') } =
    Some (frames_of (last_packet_id pm) (split_parts pm data), pm\<lparr> last_packet_id := last_packet_id pm + 1 \<rparr>)"
proof (cases "length data < unat (data_max_size pm)")
  case True
  then show ?thesis
    using assms by (simp add: sp_defs split_bounds_small split_parts_def frames_of_def splittable_def
        upt_numeral rd_pair unat_of_nat16)
next
  case False
  obtain spl where spl: "unat (data_split_size pm) = spl" by blast
  from assms False have *: "unat (data_max_size pm) \<le> length data" "0 < spl" "length data < 3 * spl"
      "length data < 65536"
    by (auto simp: splittable_def spl)
  from *(2,3) show ?thesis
  proof (cases rule: split_count)
    case 1
    then show ?thesis using * False split_bounds_large [OF *(1) spl *(2,3)]
      by (simp add: sp_defs split_parts_def frames_of_def spl Let_def)
  next
    case 2
    then show ?thesis using * False split_bounds_large [OF *(1) spl *(2,3)]
      by (simp add: sp_defs split_parts_def frames_of_def rd_range_Some rd_pair unat_of_nat16 spl Let_def)
  next
    case 3
    then show ?thesis using * False split_bounds_large [OF *(1) spl *(2,3)]
      by (simp add: sp_defs split_parts_def frames_of_def rd_range_Some rd_pair unat_of_nat16 spl
          Let_def upt_numeral unat_double16)
  qed
qed

lemma split_view_frames:
  assumes "splittable pm n" "b + n \<le> length m"
  shows "do { (s, pm') \<leftarrow> QVPNPacketManager_split_packet_view pm b (b + n); fs \<leftarrow> spv_frames s m; Some (fs, pm') } =
    Some (frames_of (last_packet_id pm) (split_parts pm (mslice m b n)), pm\<lparr> last_packet_id := last_packet_id pm + 1 \<rparr>)"
proof (cases "n < unat (data_max_size pm)")
  case True
  then show ?thesis
    using assms by (simp add: spv_defs split_bounds_small split_parts_def frames_of_def splittable_def
        upt_numeral rd_pair rd_range_Some mslice_def nat_add_distrib)
next
  case False
  obtain spl where spl: "unat (data_split_size pm) = spl" by blast
  from assms False have *: "unat (data_max_size pm) \<le> n" "0 < spl" "n < 3 * spl" "n < 65536"
    by (auto simp: splittable_def spl)
  from *(2,3) show ?thesis
  proof (cases rule: split_count)
    case 1
    then show ?thesis using * False assms(2) split_bounds_large [OF *(1) spl *(2,3)]
      by (simp add: spv_defs split_parts_def frames_of_def spl Let_def)
  next
    case 2
    then show ?thesis using * False assms(2) split_bounds_large [OF *(1) spl *(2,3)]
      by (simp add: spv_defs split_parts_def frames_of_def rd_range_Some mslice_def rd_pair spl Let_def nat_add_distrib)
  next
    case 3
    then show ?thesis using * False assms(2) split_bounds_large [OF *(1) spl *(2,3)]
      by (simp add: spv_defs split_parts_def frames_of_def rd_range_Some mslice_def rd_pair spl Let_def nat_add_distrib
          upt_numeral take_drop unat_of_nat16 unat_double16 add.commute)
  qed
qed

lemma build_frames_of:
  assumes "packets pm i = None" "[] \<notin> set ps" "ps \<noteq> []" "length (concat ps) < 65536"
    and "\<forall>p q qs. ps = p # q # qs \<longrightarrow> 256 \<le> length p"
  shows "build_packets pm (frames_of i ps) =
    Some (pm\<lparr> packets := (packets pm)(i \<mapsto> \<lparr> pbr_original_size = of_nat (length (concat ps)),
      pbr_data = concat ps, pbr_is_full = True \<rparr>) \<rparr>)"
proof -
  obtain p qs where ps: "ps = p # qs" using assms(3) by (cases ps) auto
  show ?thesis unfolding frames_of_def ps
    by (rule build_in_order) (use assms ps in \<open>auto simp: neq_Nil_conv\<close>)
qed

text \<open>What arrives of a packet: all of it, or the whole split sizes in it.\<close>

definition carried :: "QVPNPacketManager \<Rightarrow> nat \<Rightarrow> nat" where
  "carried pm sz = (if sz < unat (data_max_size pm) then sz
     else sz div unat (data_split_size pm) * unat (data_split_size pm))"

lemma split_parts_cases:
  assumes "splittable pm (length data)" "data \<noteq> []"
    and "length data < unat (data_max_size pm) \<or> unat (data_split_size pm) \<le> length data"
  shows "concat (split_parts pm data) = take (carried pm (length data)) data"
    and "[] \<notin> set (split_parts pm data)" "split_parts pm data \<noteq> []"
    and "split_parts pm data = p # q # qs \<Longrightarrow> length p = unat (data_split_size pm)"
proof -
  obtain spl where spl: "unat (data_split_size pm) = spl" by blast
  have "concat (split_parts pm data) = take (carried pm (length data)) data
    \<and> [] \<notin> set (split_parts pm data) \<and> split_parts pm data \<noteq> []
    \<and> (\<forall>p q qs. split_parts pm data = p # q # qs \<longrightarrow> length p = spl)"
  proof (cases "length data < unat (data_max_size pm)")
    case True
    then show ?thesis using assms by (simp add: split_parts_def carried_def)
  next
    case False
    with assms have *: "0 < spl" "length data < 3 * spl" "spl \<le> length data" by (auto simp: splittable_def spl)
    from *(1,2) show ?thesis
      by (cases rule: split_count)
        (use False * in \<open>auto simp: split_parts_def carried_def spl Let_def mult_2 take_add\<close>)
  qed
  then show "concat (split_parts pm data) = take (carried pm (length data)) data"
    "[] \<notin> set (split_parts pm data)" "split_parts pm data \<noteq> []"
    "split_parts pm data = p # q # qs \<Longrightarrow> length p = unat (data_split_size pm)" using spl by auto
qed

section \<open>The table of builders\<close>

text \<open>A builder in the table holds at least one byte, and it is marked full as soon as its size is the
  announced one.\<close>

definition builder_ok :: "PacketBuilder \<Rightarrow> bool" where
  "builder_ok pb \<longleftrightarrow> pbr_data pb \<noteq> [] \<and> (length (pbr_data pb) = unat (pbr_original_size pb) \<longrightarrow> pbr_is_full pb)"

definition pm_ok :: "QVPNPacketManager \<Rightarrow> bool" where
  "pm_ok pm \<longleftrightarrow> (\<forall>i pb. packets pm i = Some pb \<longrightarrow> builder_ok pb)"

text \<open>A frame the manager takes: more than the builder data, and within the packet it announces.\<close>

definition frame_ok :: "bytes \<Rightarrow> bool" where
  "frame_ok f \<longleftrightarrow> 5 < length f \<and> unat (be16 (f ! 1) (f ! 2)) < unat (be16 (f ! 3) (f ! 4))
     \<and> length f - 5 + unat (be16 (f ! 1) (f ! 2)) \<le> unat (be16 (f ! 3) (f ! 4))"

lemma add_data_ok:
  assumes "4 < length part"
  obtains pb' where "PacketBuilder_add_data pb part = Some pb'" "builder_ok pb'"
    "length (pbr_data pb') = length (pbr_data pb) + length part - 4"
    "pbr_original_size pb' = pbr_original_size pb"
    "pbr_is_full pb' \<longleftrightarrow> pbr_is_full pb \<or> length (pbr_data pb') = unat (pbr_original_size pb)"
proof -
  let ?it = "find_byte (pbr_data pb) (be16 (part ! 0) (part ! 1))"
  let ?d = "take ?it (pbr_data pb) @ drop 4 part @ drop ?it (pbr_data pb)"
  let ?pb = "pb\<lparr> pbr_data := ?d, pbr_is_full := (if length ?d = unat (pbr_original_size pb) then True else pbr_is_full pb) \<rparr>"
  have "PacketBuilder_add_data pb part = Some ?pb"
    using assms by (simp add: PacketBuilder_add_data_def rd16_Some Let_def)
  moreover have "length ?d = length (pbr_data pb) + length part - 4" using assms by simp
  ultimately show thesis using that [of ?pb] assms by (simp add: builder_ok_def)
qed

lemma build_packet_bad: "\<not> frame_ok f \<Longrightarrow> QVPNPacketManager_build_packet pm f = Some (PACKET_NO_BUILDER_DATA, pm)"
  unfolding QVPNPacketManager_build_packet_def frame_ok_def packet_manager_data_size_def packet_builder_data_size_def
  by (cases "5 < length f") (simp_all add: rd16_Some not_less not_le Let_def numeral_2_eq_2)

lemma build_packet_good:
  assumes "frame_ok f"
  obtains pb sig where "QVPNPacketManager_build_packet pm f = Some (sig, pm\<lparr> packets := (packets pm)(f ! 0 \<mapsto> pb) \<rparr>)"
    "sig \<noteq> PACKET_NO_BUILDER_DATA" "builder_ok pb"
    "length (pbr_data pb) = (case packets pm (f ! 0) of None \<Rightarrow> 0 | Some q \<Rightarrow> length (pbr_data q)) + (length f - 5)"
proof -
  have f: "5 < length f" using assms by (simp add: frame_ok_def)
  let ?o = "case packets pm (f ! 0) of None \<Rightarrow> PacketBuilder_new\<lparr> pbr_original_size := be16 (f ! 3) (f ! 4) \<rparr>
    | Some q \<Rightarrow> q"
  obtain pb' where pb: "PacketBuilder_add_data ?o (drop 1 f) = Some pb'" "builder_ok pb'"
    "length (pbr_data pb') = length (pbr_data ?o) + length (drop 1 f) - 4"
    by (rule add_data_ok [of "drop 1 f" ?o]) (use f in auto)
  have r: "rd f 0 = Some (f ! 0)" "rd16 f 1 = Some (be16 (f ! 1) (f ! 2))" "rd16 f 3 = Some (be16 (f ! 3) (f ! 4))"
    "rd16 (drop 1 f) 0 = Some (be16 (f ! 1) (f ! 2))" "rd16 (drop 1 f) 2 = Some (be16 (f ! 3) (f ! 4))"
    using f by (auto simp: rd_def rd16_def eval_nat_numeral)
  have "\<exists>sig. QVPNPacketManager_build_packet pm f = Some (sig, pm\<lparr> packets := (packets pm)(f ! 0 \<mapsto> pb') \<rparr>)
      \<and> sig \<noteq> PACKET_NO_BUILDER_DATA"
    using assms f pb(1) unfolding QVPNPacketManager_build_packet_def frame_ok_def packet_manager_data_size_def
        packet_builder_data_size_def PacketBuilder_of_range_def r
    by (simp add: Let_def split: option.splits)
  then show thesis
    using that pb(2,3) f by (auto simp: PacketBuilder_new_def split: option.splits)
qed

section \<open>Properties\<close>

text \<open>C12: splitting and building again, for packets that are carried in one or two parts and split sizes of at least 256. The
  frames of such a packet, fed in order to a manager with no packet of that id, leave there a full packet whose data is the
  beginning of what was sent: all of it below the size limit, and otherwise the whole split sizes in it. So nothing is lost
  exactly when the packet is below the limit or a multiple of the split size long; the rest of any other packet is never
  sent, and the receiver takes what it has for the whole. (With split sizes below 256 the second part can come into the
  wrong place.)\<close>

theorem split_packet_reassembles:
  assumes "splittable pm (length data)" "data \<noteq> []" "packets rcv (last_packet_id pm) = None"
    and "length data < unat (data_max_size pm) \<or>
      256 \<le> unat (data_split_size pm) \<and> unat (data_split_size pm) \<le> length data"
  shows "do { (s, pm') \<leftarrow> QVPNPacketManager_split_packet pm data; fs \<leftarrow> sp_frames s; build_packets rcv fs } =
    Some (rcv\<lparr> packets := (packets rcv)(last_packet_id pm \<mapsto>
      \<lparr> pbr_original_size = of_nat (carried pm (length data)), pbr_data = take (carried pm (length data)) data,
        pbr_is_full = True \<rparr>) \<rparr>) \<and>
    (take (carried pm (length data)) data = data \<longleftrightarrow>
      length data < unat (data_max_size pm) \<or> unat (data_split_size pm) dvd length data)"
proof
  let ?ps = "split_parts pm data"
  have "length data < unat (data_max_size pm) \<or> unat (data_split_size pm) \<le> length data"
    using assms(4) by blast
  note ps = split_parts_cases [OF assms(1,2) this]
  have c: "concat ?ps = take (carried pm (length data)) data" "carried pm (length data) \<le> length data"
    using ps(1) assms(4) by (auto simp: carried_def)
  have "do { (s, pm') \<leftarrow> QVPNPacketManager_split_packet pm data; fs \<leftarrow> sp_frames s; build_packets rcv fs } =
      do { (fs, pm') \<leftarrow> do { (s, pm') \<leftarrow> QVPNPacketManager_split_packet pm data; fs \<leftarrow> sp_frames s; Some (fs, pm') };
           build_packets rcv fs }"
    by (simp add: case_prod_unfold split: Option.bind_splits)
  also have "\<dots> = build_packets rcv (frames_of (last_packet_id pm) ?ps)"
    unfolding split_frames [OF assms(1)] by simp
  also have "\<dots> = Some (rcv\<lparr> packets := (packets rcv)(last_packet_id pm \<mapsto>
      \<lparr> pbr_original_size = of_nat (length (concat ?ps)), pbr_data = concat ?ps, pbr_is_full = True \<rparr>) \<rparr>)"
  proof (rule build_frames_of [OF assms(3)])
    show "\<forall>p q qs. ?ps = p # q # qs \<longrightarrow> 256 \<le> length p"
    proof (cases "length data < unat (data_max_size pm)")
      case False then show ?thesis using ps(4) assms(4) by auto
    qed (simp add: split_parts_def)
  next
    show "length (concat ?ps) < 65536" using c assms(1) by (simp add: splittable_def min_def)
  qed (fact ps(2), fact ps(3))
  finally show "do { (s, pm') \<leftarrow> QVPNPacketManager_split_packet pm data; fs \<leftarrow> sp_frames s; build_packets rcv fs } =
    Some (rcv\<lparr> packets := (packets rcv)(last_packet_id pm \<mapsto>
      \<lparr> pbr_original_size = of_nat (carried pm (length data)), pbr_data = take (carried pm (length data)) data,
        pbr_is_full = True \<rparr>) \<rparr>)" using c by simp
  have "take (carried pm (length data)) data = data \<longleftrightarrow> carried pm (length data) = length data"
    using c(2) arg_cong [of "take (carried pm (length data)) data" data length] by auto
  then show "take (carried pm (length data)) data = data \<longleftrightarrow>
      length data < unat (data_max_size pm) \<or> unat (data_split_size pm) dvd length data"
    by (auto simp: carried_def dvd_div_mult_self) (metis dvd_triv_right)
qed

theorem split_packet_reassembles_witness:
  "let pm = QVPNPacketManager_new\<lparr> data_max_size := 600, data_split_size := 300 \<rparr> in
   do { (s, pm') \<leftarrow> QVPNPacketManager_split_packet pm (replicate 700 7); fs \<leftarrow> sp_frames s;
        build_packets QVPNPacketManager_new fs } =
    Some (QVPNPacketManager_new\<lparr> packets := [0 \<mapsto>
      \<lparr> pbr_original_size = 600, pbr_data = replicate 600 7, pbr_is_full = True \<rparr>] \<rparr>)"
  using split_packet_reassembles [of "QVPNPacketManager_new\<lparr> data_max_size := 600, data_split_size := 300 \<rparr>"
      "replicate 700 7" QVPNPacketManager_new]
  by (simp add: splittable_def QVPNPacketManager_new_def carried_def min_def)

text \<open>C26: the view and the owning split agree. On every range of memory that is split into at most two parts,
  the frames that \<open>split_packet_view\<close> points at are those of the packet that \<open>split_packet\<close> copies, and both
  advance the packet id alike.\<close>

theorem split_view_agrees:
  assumes "splittable pm n" "b + n \<le> length m"
  shows "do { (s, pm') \<leftarrow> QVPNPacketManager_split_packet_view pm b (b + n); fs \<leftarrow> spv_frames s m; Some (fs, pm') } =
    do { (s, pm') \<leftarrow> QVPNPacketManager_split_packet pm (mslice m b n); fs \<leftarrow> sp_frames s; Some (fs, pm') }"
proof -
  have "length (mslice m b n) = n" using assms(2) by simp
  then have "splittable pm (length (mslice m b n))" using assms(1) by simp
  then show ?thesis using split_view_frames [OF assms] split_frames by simp
qed

theorem split_view_agrees_witness:
  "do { (s, pm') \<leftarrow> QVPNPacketManager_split_packet_view QVPNPacketManager_new 3 (3 + 65300);
        fs \<leftarrow> spv_frames s (replicate 70000 1); Some (fs, pm') } =
   do { (s, pm') \<leftarrow> QVPNPacketManager_split_packet QVPNPacketManager_new (mslice (replicate 70000 1) 3 65300);
        fs \<leftarrow> sp_frames s; Some (fs, pm') }"
  by (rule split_view_agrees) (simp_all add: splittable_def QVPNPacketManager_new_def data_meta_qvpn_size_def
      packet_manager_data_size_def packet_builder_data_size_def)

text \<open>C22: building never fails, and it keeps the table well-formed. Whatever bytes arrive, \<open>build_packet\<close>
  reads only inside them and returns; it refuses, and leaves the manager as it was, exactly the frames that
  are too short or reach outside the packet they announce; it changes no packet but the one the frame names,
  and every builder in the table has data and is marked full when its size is the announced one.\<close>

theorem build_packet_total:
  "\<exists>sig pm'. QVPNPacketManager_build_packet pm f = Some (sig, pm')
     \<and> (sig = PACKET_NO_BUILDER_DATA \<longleftrightarrow> \<not> frame_ok f)
     \<and> (\<not> frame_ok f \<longrightarrow> pm' = pm)
     \<and> (\<forall>i. i \<noteq> f ! 0 \<longrightarrow> packets pm' i = packets pm i)
     \<and> (pm_ok pm \<longrightarrow> pm_ok pm')"
proof (cases "frame_ok f")
  case True
  then obtain pb sig where "QVPNPacketManager_build_packet pm f =
      Some (sig, pm\<lparr> packets := (packets pm)(f ! 0 \<mapsto> pb) \<rparr>)" "sig \<noteq> PACKET_NO_BUILDER_DATA" "builder_ok pb"
    by (rule build_packet_good)
  then show ?thesis using True by (auto simp: pm_ok_def)
qed (simp add: build_packet_bad)

theorem build_packet_total_witness:
  "\<exists>sig pm'. QVPNPacketManager_build_packet QVPNPacketManager_new [7, 0, 0, 0, 2, 5] = Some (sig, pm')
     \<and> sig \<noteq> PACKET_NO_BUILDER_DATA \<and> pm_ok pm'"
proof -
  have "frame_ok [7, 0, 0, 0, 2, 5]" by (simp add: frame_ok_def be16_0)
  moreover have "pm_ok QVPNPacketManager_new" by (simp add: pm_ok_def QVPNPacketManager_new_def)
  ultimately show ?thesis
    using build_packet_total [of QVPNPacketManager_new "[7, 0, 0, 0, 2, 5]"] by auto
qed

text \<open>C13: what two parts received in order build. The second part is inserted at the first byte of the first part whose
  value is the offset, at the end only when there is no such byte, because the position is looked up as a value and not
  taken as an index. The packet counts as full either way. An offset of 256 or more is no byte, so that such parts are put
  together right; below it the packet is right when no byte of the first part has the value of its length, and otherwise
  it is right only if the bytes it has behind that place and the second part happen to commute.\<close>

theorem two_parts_in_order:
  assumes "a \<noteq> []" "b \<noteq> []" "length a + length b < 65536" "packets pm i = None"
    and "k = find_byte a (of_nat (length a))"
  shows "build_packets pm (frames_of i [a, b]) = Some (pm\<lparr> packets := (packets pm)(i \<mapsto>
      \<lparr> pbr_original_size = of_nat (length a + length b), pbr_data = take k a @ b @ drop k a, pbr_is_full = True \<rparr>) \<rparr>) \<and>
    (k = length a \<longleftrightarrow> (of_nat (length a) :: UShort) \<notin> ucast ` set a) \<and> (256 \<le> length a \<longrightarrow> k = length a) \<and>
    (take k a @ b @ drop k a = a @ b \<longleftrightarrow> b @ drop k a = drop k a @ b)"
proof -
  let ?orig = "length a + length b"
  have 1: "QVPNPacketManager_build_packet pm (pb_frame i 0 ?orig a) = Some (PACKET_PART_RECEIVED,
      pm\<lparr> packets := (packets pm)(i \<mapsto> \<lparr> pbr_original_size = of_nat ?orig, pbr_data = a, pbr_is_full = False \<rparr>) \<rparr>)"
    using build_first_part [OF assms(4,1), of ?orig] assms(2,3) by simp
  have "take k a @ b @ drop k a = a @ b \<longleftrightarrow> b @ drop k a = drop k a @ b"
    by (metis append.assoc append_take_drop_id same_append_eq)
  moreover have "k = length a \<longleftrightarrow> (of_nat (length a) :: UShort) \<notin> ucast ` set a" "256 \<le> length a \<longrightarrow> k = length a"
    using find_byte_end [of a "of_nat (length a)"] find_byte_large [of "of_nat (length a)" a] unat_of_nat16 [of "length a"]
      assms(3,5) by auto
  ultimately show ?thesis
    using 1 build_second_part [of "pm\<lparr> packets := (packets pm)(i \<mapsto> \<lparr> pbr_original_size = of_nat ?orig, pbr_data = a,
        pbr_is_full = False \<rparr>) \<rparr>" i _ a b] assms by (simp add: frames_of_def)
qed

theorem two_parts_in_order_witness:
  "build_packets QVPNPacketManager_new (frames_of 9 [[1, 2], [3]]) = Some (QVPNPacketManager_new\<lparr> packets := [9 \<mapsto>
    \<lparr> pbr_original_size = 3, pbr_data = [1, 3, 2], pbr_is_full = True \<rparr>] \<rparr>)"
  using two_parts_in_order [of "[1, 2]" "[3]" QVPNPacketManager_new 9 1] by (simp add: QVPNPacketManager_new_def)

end
