(* ===== verification/TlsRecord.thy ===== *)
theory TlsRecord
  imports PacketManager
begin

text \<open>TLS records and application data (\<open>TLS13_RecordLittleEndian\<close>, \<open>TLS13_RecordView\<close>,
  \<open>TLS13_ApplicationDataLittleEndian\<close>, \<open>TLS13_ApplicationDataView\<close> of \<open>qvpn_structures.hpp/.cpp\<close>): the outer
  form of everything the tunnel sends.  An owning object is its byte vector, a view is a pointer and a
  sixteen bit size.\<close>

section \<open>Constants\<close>

type_synonym TLSRecordType = UByte
type_synonym TLSProtocolVersion = UShort

definition TLSRecordType_CHANGE_CIPHER_SPEC :: TLSRecordType where "TLSRecordType_CHANGE_CIPHER_SPEC = 20"
definition TLSRecordType_ALERT :: TLSRecordType where "TLSRecordType_ALERT = 21"
definition TLSRecordType_HANDSHAKE :: TLSRecordType where "TLSRecordType_HANDSHAKE = 22"
definition TLSRecordType_APPLICATION_DATA :: TLSRecordType where "TLSRecordType_APPLICATION_DATA = 23"

definition TLSProtocolVersion_TLS12 :: TLSProtocolVersion where "TLSProtocolVersion_TLS12 = 0x0303"
definition TLSProtocolVersion_TLS13 :: TLSProtocolVersion where "TLSProtocolVersion_TLS13 = 0x0304"

datatype BytesParseSignal = BP_FULL_OBJECT | BP_NOT_FULL_OBJECT | BP_FULL_OBJECT_AND_TAIL | BP_NO_DATA | BP_ERROR

record ProtoTemplateParseResult =
  pt_begin :: ptr
  pt_end :: ptr
  bp_signal :: BytesParseSignal
  pt_real_end :: ptr

definition TLS13_DefaultRecordGenerationStrategy_get_legacy_version :: TLSProtocolVersion where
  "TLS13_DefaultRecordGenerationStrategy_get_legacy_version = TLSProtocolVersion_TLS12"

section \<open>Records\<close>

definition TLS13_RecordLE_of_range :: "mem \<Rightarrow> ptr \<Rightarrow> ptr \<Rightarrow> bytes option" where
  "TLS13_RecordLE_of_range m b e = rd_range m b e"

text \<open>The generator puts type, version and length in front of the bytes of the message it is given.\<close>

definition TLS13_RecordLE_generate_object_bytes ::
    "TLSProtocolVersion \<Rightarrow> TLSRecordType \<Rightarrow> bytes \<Rightarrow> bytes" where
  "TLS13_RecordLE_generate_object_bytes legacy_version msg_type obj_bytes =
     (let size = (of_nat (length obj_bytes) :: UShort)
      in [msg_type] @ be16_bytes legacy_version @ be16_bytes size @ obj_bytes)"

definition TLS13_RecordLE_generate_object ::
    "TLSProtocolVersion \<Rightarrow> TLSRecordType \<Rightarrow> bytes \<Rightarrow> bytes option" where
  "TLS13_RecordLE_generate_object legacy_version msg_type obj_bytes =
     (let b = TLS13_RecordLE_generate_object_bytes legacy_version msg_type obj_bytes
      in TLS13_RecordLE_of_range b 0 (length b))"

definition TLS13_RecordLE_get_tls_record_type :: "bytes \<Rightarrow> TLSRecordType option" where
  "TLS13_RecordLE_get_tls_record_type d = rd d 0"

definition TLS13_RecordLE_get_tls_protocol_version :: "bytes \<Rightarrow> TLSProtocolVersion option" where
  "TLS13_RecordLE_get_tls_protocol_version d = rd16 d 1"

definition TLS13_RecordLE_get_tls_record_length :: "bytes \<Rightarrow> UShort option" where
  "TLS13_RecordLE_get_tls_record_length d = rd16 d 3"

definition TLS13_RecordLE_get_tls_record_full_length :: "bytes \<Rightarrow> UShort option" where
  "TLS13_RecordLE_get_tls_record_full_length d =
     map_option (\<lambda>n. n + 5) (TLS13_RecordLE_get_tls_record_length d)"

definition TLS13_RecordLE_get_tls_record_data :: "bytes \<Rightarrow> bytes option" where
  "TLS13_RecordLE_get_tls_record_data d = rd_range d 5 (length d)"

definition TLS13_RecordLE_to_bytes :: "bytes \<Rightarrow> bytes" where
  "TLS13_RecordLE_to_bytes d = d"

record TLS13_RecordView =
  rv_data :: ptr
  rv_size :: UShort

definition TLS13_RecordView_of_range :: "ptr \<Rightarrow> ptr \<Rightarrow> TLS13_RecordView" where
  "TLS13_RecordView_of_range b e = \<lparr> rv_data = b, rv_size = of_int (int e - int b) \<rparr>"

definition TLS13_RecordView_generate_object_bytes ::
    "TLSProtocolVersion \<Rightarrow> TLSRecordType \<Rightarrow> bytes \<Rightarrow> bytes" where
  "TLS13_RecordView_generate_object_bytes = TLS13_RecordLE_generate_object_bytes"

definition TLS13_RecordView_generate_object ::
    "TLSProtocolVersion \<Rightarrow> TLSRecordType \<Rightarrow> bytes \<Rightarrow> bytes option" where
  "TLS13_RecordView_generate_object = TLS13_RecordLE_generate_object"

definition TLS13_RecordView_get_tls_record_type :: "TLS13_RecordView \<Rightarrow> mem \<Rightarrow> TLSRecordType option" where
  "TLS13_RecordView_get_tls_record_type v m = rd m (rv_data v)"

definition TLS13_RecordView_get_tls_protocol_version ::
    "TLS13_RecordView \<Rightarrow> mem \<Rightarrow> TLSProtocolVersion option" where
  "TLS13_RecordView_get_tls_protocol_version v m = rd16 m (rv_data v + 1)"

definition TLS13_RecordView_get_tls_record_length :: "TLS13_RecordView \<Rightarrow> mem \<Rightarrow> UShort option" where
  "TLS13_RecordView_get_tls_record_length v m = rd16 m (rv_data v + 3)"

definition TLS13_RecordView_get_tls_record_full_length :: "TLS13_RecordView \<Rightarrow> mem \<Rightarrow> UShort option" where
  "TLS13_RecordView_get_tls_record_full_length v m =
     map_option (\<lambda>n. n + 5) (TLS13_RecordView_get_tls_record_length v m)"

definition TLS13_RecordView_get_tls_record_data :: "TLS13_RecordView \<Rightarrow> ptr \<times> ptr" where
  "TLS13_RecordView_get_tls_record_data v = (rv_data v + 5, rv_data v + unat (rv_size v))"

definition TLS13_RecordView_to_bytes :: "TLS13_RecordView \<Rightarrow> ptr \<times> ptr" where
  "TLS13_RecordView_to_bytes v = (rv_data v, rv_data v + unat (rv_size v))"

text \<open>Where a record ends in received bytes.  The length is compared as a sixteen bit number with the size
  of the range.\<close>

definition TLS13_RecordLE_bytes_parse :: "mem \<Rightarrow> ptr \<Rightarrow> ptr \<Rightarrow> ProtoTemplateParseResult option" where
  "TLS13_RecordLE_bytes_parse m b e =
     (let real_size = int e - int b in
      if real_size < 5 then
        Some \<lparr> pt_begin = b, pt_end = e, bp_signal = BP_NOT_FULL_OBJECT, pt_real_end = e \<rparr>
      else do {
        len \<leftarrow> TLS13_RecordView_get_tls_record_full_length (TLS13_RecordView_of_range b e) m;
        let sig = (if int (unat len) = real_size then BP_FULL_OBJECT
                   else if int (unat len) > real_size then BP_NOT_FULL_OBJECT else BP_FULL_OBJECT_AND_TAIL);
        Some \<lparr> pt_begin = b, pt_end = b + unat len, bp_signal = sig, pt_real_end = nat (int b + real_size) \<rparr> })"

definition TLS13_RecordView_bytes_parse :: "mem \<Rightarrow> ptr \<Rightarrow> ptr \<Rightarrow> ProtoTemplateParseResult option" where
  "TLS13_RecordView_bytes_parse m b e =
     (let real_size = int e - int b in
      if real_size < 5 then
        Some \<lparr> pt_begin = b, pt_end = e, bp_signal = BP_NOT_FULL_OBJECT, pt_real_end = e \<rparr>
      else do {
        len \<leftarrow> TLS13_RecordView_get_tls_record_full_length (TLS13_RecordView_of_range b e) m;
        let sig = (if int (unat len) = real_size then BP_FULL_OBJECT
                   else if int (unat len) > real_size then BP_NOT_FULL_OBJECT else BP_FULL_OBJECT_AND_TAIL);
        Some \<lparr> pt_begin = b, pt_end = b + unat len, bp_signal = sig, pt_real_end = nat (int b + real_size) \<rparr> })"

section \<open>Application data\<close>

definition TLS13_ApplicationDataLE_of_range :: "mem \<Rightarrow> ptr \<Rightarrow> ptr \<Rightarrow> bytes option" where
  "TLS13_ApplicationDataLE_of_range m b e = rd_range m b e"

definition TLS13_ApplicationDataLE_get_overlay_protocol_type :: TLSRecordType where
  "TLS13_ApplicationDataLE_get_overlay_protocol_type = TLSRecordType_APPLICATION_DATA"

text \<open>Builder data, proxy block and payload.  The announced size grows by the size of the proxy block.\<close>

definition TLS13_ApplicationDataLE_generate_pb_proxy_bytes ::
    "PacketBuilderData \<Rightarrow> QTunnelProxy \<Rightarrow> bytes \<Rightarrow> bytes option" where
  "TLS13_ApplicationDataLE_generate_pb_proxy_bytes pb_data proxy_data data = do {
     proxy_size \<leftarrow> QTunnelProxy_get_proxy_data_size proxy_data;
     let orig_size = PacketBuilderData_get_original_size pb_data + proxy_size;
     Some ([PacketBuilderData_get_packet_id pb_data] @ be16_bytes (PacketBuilderData_get_offset pb_data) @
       be16_bytes orig_size @
       [QTunnelProxy_get_net_proto proxy_data, QTunnelProxy_get_transport_proto proxy_data] @
       NetAddr_to_bytes (QTunnelProxy_get_src_addr proxy_data) @ be16_bytes (QTunnelProxy_get_src_port proxy_data) @
       NetAddr_to_bytes (QTunnelProxy_get_dst_addr proxy_data) @ be16_bytes (QTunnelProxy_get_dst_port proxy_data) @
       QTunnelProxy_get_proto_data_bytes proxy_data @ data) }"

definition TLS13_ApplicationDataLE_generate_pb_bytes :: "PacketBuilderData \<Rightarrow> bytes \<Rightarrow> bytes" where
  "TLS13_ApplicationDataLE_generate_pb_bytes pb_data data =
     [PacketBuilderData_get_packet_id pb_data] @ be16_bytes (PacketBuilderData_get_offset pb_data) @
       be16_bytes (PacketBuilderData_get_original_size pb_data) @ data"

text \<open>The generator for a proxy alone copies the proto data without its length.\<close>

definition TLS13_ApplicationDataLE_generate_proxy_bytes :: "QTunnelProxy \<Rightarrow> bytes \<Rightarrow> bytes option" where
  "TLS13_ApplicationDataLE_generate_proxy_bytes proxy_data data = do {
     pd \<leftarrow> QTunnelProxy_get_proto_data proxy_data;
     Some ([QTunnelProxy_get_net_proto proxy_data, QTunnelProxy_get_transport_proto proxy_data] @
       NetAddr_to_bytes (QTunnelProxy_get_src_addr proxy_data) @ be16_bytes (QTunnelProxy_get_src_port proxy_data) @
       NetAddr_to_bytes (QTunnelProxy_get_dst_addr proxy_data) @ be16_bytes (QTunnelProxy_get_dst_port proxy_data) @
       pd @ data) }"

definition TLS13_ApplicationDataLE_generate_bytes :: "bytes \<Rightarrow> bytes" where
  "TLS13_ApplicationDataLE_generate_bytes data = data"

definition TLS13_ApplicationDataLE_get_app_data :: "bytes \<Rightarrow> bytes" where
  "TLS13_ApplicationDataLE_get_app_data d = d"

definition TLS13_ApplicationDataLE_to_bytes :: "bytes \<Rightarrow> bytes" where
  "TLS13_ApplicationDataLE_to_bytes d = d"

record TLS13_ApplicationDataView =
  ad_data :: ptr
  ad_size :: UShort

definition TLS13_ApplicationDataView_of_range :: "ptr \<Rightarrow> ptr \<Rightarrow> TLS13_ApplicationDataView" where
  "TLS13_ApplicationDataView_of_range b e = \<lparr> ad_data = b, ad_size = of_int (int e - int b) \<rparr>"

definition TLS13_ApplicationDataView_get_overlay_protocol_type :: TLSRecordType where
  "TLS13_ApplicationDataView_get_overlay_protocol_type = TLSRecordType_APPLICATION_DATA"

definition TLS13_ApplicationDataView_generate_proxy_bytes :: "QTunnelProxy \<Rightarrow> bytes \<Rightarrow> bytes option" where
  "TLS13_ApplicationDataView_generate_proxy_bytes = TLS13_ApplicationDataLE_generate_proxy_bytes"

definition TLS13_ApplicationDataView_generate_bytes :: "bytes \<Rightarrow> bytes" where
  "TLS13_ApplicationDataView_generate_bytes = TLS13_ApplicationDataLE_generate_bytes"

definition TLS13_ApplicationDataView_get_app_data :: "TLS13_ApplicationDataView \<Rightarrow> ptr \<times> ptr" where
  "TLS13_ApplicationDataView_get_app_data v = (ad_data v, ad_data v + unat (ad_size v))"

definition TLS13_ApplicationDataView_to_bytes :: "TLS13_ApplicationDataView \<Rightarrow> ptr \<times> ptr" where
  "TLS13_ApplicationDataView_to_bytes v = (ad_data v, ad_data v + unat (ad_size v))"

section \<open>Lemmas\<close>

lemmas record_view_defs = TLS13_RecordView_of_range_def TLS13_RecordView_get_tls_record_data_def
  TLS13_RecordView_get_tls_record_full_length_def TLS13_RecordView_get_tls_record_length_def
  TLS13_ApplicationDataView_of_range_def TLS13_ApplicationDataView_get_app_data_def

text \<open>The record of a message, as the default strategy makes it.\<close>

definition app_record :: "bytes \<Rightarrow> bytes" where
  "app_record obj = TLS13_RecordLE_generate_object_bytes TLS13_DefaultRecordGenerationStrategy_get_legacy_version
     TLS13_ApplicationDataLE_get_overlay_protocol_type obj"

lemma app_record_eq: "app_record obj = [23, 3, 3] @ be16_bytes (of_nat (length obj)) @ obj"
  by (simp add: app_record_def Let_def TLS13_RecordLE_generate_object_bytes_def be16_bytes_def byte_of_def
      TLS13_DefaultRecordGenerationStrategy_get_legacy_version_def TLSProtocolVersion_TLS12_def
      TLS13_ApplicationDataLE_get_overlay_protocol_type_def TLSRecordType_APPLICATION_DATA_def)

lemma length_app_record [simp]: "length (app_record obj) = length obj + 5"
  by (simp add: app_record_eq)

lemma rd16_app_record: "rd16 (app_record obj @ rest) 3 = Some (of_nat (length obj))"
  by (simp add: app_record_eq rd16_def rd_def be16_bytes_def nth_append)

lemma full_length_16: "n \<le> 65530 \<Longrightarrow> unat (of_nat n + 5 :: UShort) = n + 5"
  using unat_of_nat16 [of "n + 5"] by simp

lemma uint_int_iff:
  fixes w :: UShort
  shows "uint w = int n \<longleftrightarrow> unat w = n" "int n < uint w \<longleftrightarrow> n < unat w"
  unfolding uint_nat of_nat_eq_iff of_nat_less_iff by (rule refl)+

text \<open>Parsing depends only on the bytes of the range.\<close>

lemma bytes_parse_at:
  assumes "b + n \<le> length m"
  shows "TLS13_RecordView_bytes_parse m b (b + n) =
    (if n < 5 then Some \<lparr> pt_begin = b, pt_end = b + n, bp_signal = BP_NOT_FULL_OBJECT, pt_real_end = b + n \<rparr>
     else let len = unat (be16 (m ! (b + 3)) (m ! (b + 4)) + 5) in
       Some \<lparr> pt_begin = b, pt_end = b + len,
         bp_signal = (if len = n then BP_FULL_OBJECT else if len > n then BP_NOT_FULL_OBJECT
           else BP_FULL_OBJECT_AND_TAIL), pt_real_end = b + n \<rparr>)"
  using assms by (simp add: TLS13_RecordView_bytes_parse_def record_view_defs rd16_Some Let_def nat_add_distrib
      uint_int_iff add.commute [of 4])

lemma bytes_parse_LE: "TLS13_RecordLE_bytes_parse = TLS13_RecordView_bytes_parse"
  by (simp add: fun_eq_iff TLS13_RecordLE_bytes_parse_def TLS13_RecordView_bytes_parse_def)

lemma record_parse:
  assumes "n \<le> length (app_record obj @ rest)"
  shows "TLS13_RecordView_bytes_parse (pre @ app_record obj @ rest) (length pre) (length pre + n) =
    (if n < 5 then Some \<lparr> pt_begin = length pre, pt_end = length pre + n, bp_signal = BP_NOT_FULL_OBJECT,
       pt_real_end = length pre + n \<rparr>
     else let len = unat (of_nat (length obj) + 5 :: UShort) in
       Some \<lparr> pt_begin = length pre, pt_end = length pre + len,
         bp_signal = (if len = n then BP_FULL_OBJECT else if len > n then BP_NOT_FULL_OBJECT
           else BP_FULL_OBJECT_AND_TAIL), pt_real_end = length pre + n \<rparr>)"
proof -
  let ?m = "pre @ app_record obj @ rest"
  have "be16 (?m ! (length pre + 3)) (?m ! (length pre + 4)) = of_nat (length obj)"
    by (simp add: app_record_eq nth_append be16_bytes_def)
  moreover have "length pre + n \<le> length ?m" using assms by simp
  ultimately show ?thesis using bytes_parse_at by simp
qed

lemma unat_of_nat_mod16: "unat (of_nat n :: UShort) = n mod 65536"
  by (simp add: unat_of_nat)

section \<open>Properties\<close>

text \<open>C24: record framing. In received bytes that hold an application record of at most 65530 message bytes,
  \<open>bytes_parse\<close> finds exactly where the record ends: with fewer bytes it reports an object that is not full,
  with exactly the record a full object, with more a full object and a tail.\<close>

theorem record_framing:
  assumes "length obj \<le> 65530" "n \<le> length (app_record obj @ rest)"
  shows "\<exists>r. TLS13_RecordView_bytes_parse (pre @ app_record obj @ rest) (length pre) (length pre + n) = Some r \<and>
    pt_begin r = length pre \<and> pt_real_end r = length pre + n \<and>
    bp_signal r = (if n < length obj + 5 then BP_NOT_FULL_OBJECT
      else if n = length obj + 5 then BP_FULL_OBJECT else BP_FULL_OBJECT_AND_TAIL) \<and>
    (5 \<le> n \<longrightarrow> pt_end r = length pre + (length obj + 5))"
  using record_parse [OF assms(2), of pre] assms(1) by (auto simp: Let_def full_length_16)

theorem record_framing_witness:
  "\<exists>r. TLS13_RecordView_bytes_parse ([9] @ app_record [1, 2, 3] @ [23]) (length [9 :: UByte]) (length [9 :: UByte] + 9) = Some r
     \<and> bp_signal r = BP_FULL_OBJECT_AND_TAIL \<and> pt_end r = 9"
  using record_framing [of "[1, 2, 3]" 9 "[23]" "[9]"] by auto

text \<open>C40: the length of a record is computed in sixteen bits. For a message of 65531 to 65535 bytes the full
  length wraps below five, and a complete record is taken for an object of zero to four bytes and a tail.\<close>

theorem record_length_wraps:
  assumes "65531 \<le> length obj" "length obj \<le> 65535"
  shows "TLS13_RecordView_bytes_parse (app_record obj) 0 (length (app_record obj)) =
    Some \<lparr> pt_begin = 0, pt_end = length obj - 65531, bp_signal = BP_FULL_OBJECT_AND_TAIL,
      pt_real_end = length (app_record obj) \<rparr>"
proof -
  have "unat (of_nat (length obj) + 5 :: UShort) = (length obj + 5) mod 65536"
    by (metis of_nat_add of_nat_numeral unat_of_nat_mod16)
  also have "\<dots> = length obj - 65531" using assms by (simp add: mod_if)
  finally show ?thesis
    using record_parse [of "length (app_record obj)" obj "[]" "[]"] assms by (auto simp: Let_def)
qed

theorem record_length_wraps_witness:
  "TLS13_RecordView_bytes_parse (app_record (replicate 65532 7)) 0 (length (app_record (replicate 65532 7))) =
    Some \<lparr> pt_begin = 0, pt_end = 1, bp_signal = BP_FULL_OBJECT_AND_TAIL, pt_real_end = 65537 \<rparr>"
  using record_length_wraps [of "replicate 65532 7"] by simp

end
