(* ===== verification/Layers.thy ===== *)
theory Layers
  imports TlsRecord
begin

text \<open>Protocol layers and the data path of the drivers (\<open>BaseLayer\<close>, \<open>LayerWrapper\<close>, \<open>QLayer\<close>,
  \<open>DefaultLayersStrategy\<close>, \<open>QVPNLayersSettings\<close>, and \<open>encode_data\<close>/\<open>decode_data\<close> of \<open>QVPNClientDriver\<close> and
  \<open>QVPNServerDriver\<close> in \<open>qvpn_driver.hpp\<close>).\<close>

section \<open>Layers\<close>

datatype LayerTypes = BASE_LAYER | QUIET_LAYER | OPTIMIZATION_LAYER | DEFENCE_LAYER

text \<open>The abstract class: its virtual functions.\<close>

record BaseLayer =
  bl_get_layer_type :: LayerTypes
  bl_get_layer_name :: string
  bl_get_layer_desc :: string
  bl_encode_pb_proxy :: "PacketBuilderData \<Rightarrow> QTunnelProxy \<Rightarrow> bytes \<Rightarrow> bytes option"
  bl_encode_proxy :: "QTunnelProxy \<Rightarrow> bytes \<Rightarrow> bytes option"
  bl_encode_pb :: "PacketBuilderData \<Rightarrow> bytes \<Rightarrow> bytes option"
  bl_encode :: "bytes \<Rightarrow> bytes option"
  bl_decode :: "bytes \<Rightarrow> bytes option"

record LayerWrapper =
  lw_layer :: BaseLayer
  lw_active :: bool

definition LayerWrapper_of :: "BaseLayer \<Rightarrow> bool \<Rightarrow> LayerWrapper" where
  "LayerWrapper_of l act = \<lparr> lw_layer = l, lw_active = act \<rparr>"
definition LayerWrapper_is_active :: "LayerWrapper \<Rightarrow> bool" where
  "LayerWrapper_is_active w = lw_active w"
definition LayerWrapper_set_layer :: "LayerWrapper \<Rightarrow> BaseLayer \<Rightarrow> LayerWrapper" where
  "LayerWrapper_set_layer w l = w\<lparr> lw_layer := l \<rparr>"
definition LayerWrapper_set_activity :: "LayerWrapper \<Rightarrow> bool \<Rightarrow> LayerWrapper" where
  "LayerWrapper_set_activity w st = w\<lparr> lw_active := st \<rparr>"
definition LayerWrapper_get_layer_type :: "LayerWrapper \<Rightarrow> LayerTypes" where
  "LayerWrapper_get_layer_type w = bl_get_layer_type (lw_layer w)"
definition LayerWrapper_get_layer_name :: "LayerWrapper \<Rightarrow> string" where
  "LayerWrapper_get_layer_name w = bl_get_layer_name (lw_layer w)"
definition LayerWrapper_get_layer_desc :: "LayerWrapper \<Rightarrow> string" where
  "LayerWrapper_get_layer_desc w = bl_get_layer_desc (lw_layer w)"
definition LayerWrapper_layer_encode_pb_proxy ::
    "LayerWrapper \<Rightarrow> PacketBuilderData \<Rightarrow> QTunnelProxy \<Rightarrow> bytes \<Rightarrow> bytes option" where
  "LayerWrapper_layer_encode_pb_proxy w pb px data = bl_encode_pb_proxy (lw_layer w) pb px data"
definition LayerWrapper_layer_encode_proxy :: "LayerWrapper \<Rightarrow> QTunnelProxy \<Rightarrow> bytes \<Rightarrow> bytes option" where
  "LayerWrapper_layer_encode_proxy w px data = bl_encode_proxy (lw_layer w) px data"
definition LayerWrapper_layer_encode_pb :: "LayerWrapper \<Rightarrow> PacketBuilderData \<Rightarrow> bytes \<Rightarrow> bytes option" where
  "LayerWrapper_layer_encode_pb w pb data = bl_encode_pb (lw_layer w) pb data"
definition LayerWrapper_layer_encode :: "LayerWrapper \<Rightarrow> bytes \<Rightarrow> bytes option" where
  "LayerWrapper_layer_encode w data = bl_encode (lw_layer w) data"
definition LayerWrapper_layer_decode :: "LayerWrapper \<Rightarrow> bytes \<Rightarrow> bytes option" where
  "LayerWrapper_layer_decode w data = bl_decode (lw_layer w) data"

lemmas wrapper_defs = LayerWrapper_is_active_def LayerWrapper_layer_encode_pb_proxy_def
  LayerWrapper_layer_encode_proxy_def LayerWrapper_layer_encode_pb_def LayerWrapper_layer_encode_def
  LayerWrapper_layer_decode_def

subsection \<open>The quiet layer\<close>

definition QLayer_get_layer_type :: LayerTypes where "QLayer_get_layer_type = QUIET_LAYER"
definition QLayer_get_layer_name :: string where "QLayer_get_layer_name = ''Quiet layer''"
definition QLayer_get_layer_desc :: string where
  "QLayer_get_layer_desc = ''Layer must transform traffic to default TLS Record.''"

definition QLayer_layer_encode_pb_proxy ::
    "PacketBuilderData \<Rightarrow> QTunnelProxy \<Rightarrow> bytes \<Rightarrow> bytes option" where
  "QLayer_layer_encode_pb_proxy pb px data = do {
     obj \<leftarrow> TLS13_ApplicationDataLE_generate_pb_proxy_bytes pb px data;
     Some (TLS13_RecordLE_generate_object_bytes TLS13_DefaultRecordGenerationStrategy_get_legacy_version
       TLS13_ApplicationDataLE_get_overlay_protocol_type obj) }"

definition QLayer_layer_encode_proxy :: "QTunnelProxy \<Rightarrow> bytes \<Rightarrow> bytes option" where
  "QLayer_layer_encode_proxy px data = do {
     obj \<leftarrow> TLS13_ApplicationDataLE_generate_proxy_bytes px data;
     Some (TLS13_RecordLE_generate_object_bytes TLS13_DefaultRecordGenerationStrategy_get_legacy_version
       TLS13_ApplicationDataLE_get_overlay_protocol_type obj) }"

definition QLayer_layer_encode_pb :: "PacketBuilderData \<Rightarrow> bytes \<Rightarrow> bytes option" where
  "QLayer_layer_encode_pb pb data =
     Some (TLS13_RecordLE_generate_object_bytes TLS13_DefaultRecordGenerationStrategy_get_legacy_version
       TLS13_ApplicationDataLE_get_overlay_protocol_type (TLS13_ApplicationDataLE_generate_pb_bytes pb data))"

definition QLayer_layer_encode :: "bytes \<Rightarrow> bytes option" where
  "QLayer_layer_encode data =
     Some (TLS13_RecordLE_generate_object_bytes TLS13_DefaultRecordGenerationStrategy_get_legacy_version
       TLS13_ApplicationDataLE_get_overlay_protocol_type (TLS13_ApplicationDataLE_generate_bytes data))"

definition QLayer_layer_decode :: "bytes \<Rightarrow> bytes option" where
  "QLayer_layer_decode data =
     (let record = TLS13_RecordView_of_range 0 (length data);
          (b, e) = TLS13_RecordView_get_tls_record_data record;
          app_data = TLS13_ApplicationDataView_of_range b e;
          (b1, e1) = TLS13_ApplicationDataView_get_app_data app_data
      in rd_range data b1 e1)"

definition QLayer :: BaseLayer where
  "QLayer = \<lparr> bl_get_layer_type = QLayer_get_layer_type, bl_get_layer_name = QLayer_get_layer_name,
     bl_get_layer_desc = QLayer_get_layer_desc, bl_encode_pb_proxy = QLayer_layer_encode_pb_proxy,
     bl_encode_proxy = QLayer_layer_encode_proxy, bl_encode_pb = QLayer_layer_encode_pb,
     bl_encode = QLayer_layer_encode, bl_decode = QLayer_layer_decode \<rparr>"

subsection \<open>Layer settings\<close>

type_synonym QVPNLayersSettings = "LayerWrapper list"

definition DefaultLayersStrategy_get_layers :: "LayerWrapper list" where
  "DefaultLayersStrategy_get_layers = [LayerWrapper_of QLayer True]"

definition QVPNLayersSettings_add_layer :: "QVPNLayersSettings \<Rightarrow> BaseLayer \<Rightarrow> bool \<Rightarrow> QVPNLayersSettings" where
  "QVPNLayersSettings_add_layer ls l st = ls @ [LayerWrapper_of l st]"

definition QVPNLayersSettings_apply_strategy ::
    "QVPNLayersSettings \<Rightarrow> LayerWrapper list \<Rightarrow> QVPNLayersSettings" where
  "QVPNLayersSettings_apply_strategy ls strategy_layers = ls @ strategy_layers"

text \<open>The loop of the encoders and of the decoder: every active layer transforms the bytes.\<close>

fun run_layers :: "(LayerWrapper \<Rightarrow> bytes \<Rightarrow> bytes option) \<Rightarrow> LayerWrapper list \<Rightarrow> bytes \<Rightarrow> bytes option" where
  "run_layers f [] res_data = Some res_data"
| "run_layers f (l # ls) res_data =
     (if LayerWrapper_is_active l then do { res_data \<leftarrow> f l res_data; run_layers f ls res_data }
      else run_layers f ls res_data)"

definition QVPNLayersSettings_layers_encode_pb_proxy ::
    "QVPNLayersSettings \<Rightarrow> PacketBuilderData \<Rightarrow> QTunnelProxy \<Rightarrow> bytes \<Rightarrow> bytes option" where
  "QVPNLayersSettings_layers_encode_pb_proxy ls pb px data =
     run_layers (\<lambda>l. LayerWrapper_layer_encode_pb_proxy l pb px) ls data"

definition QVPNLayersSettings_layers_encode_proxy ::
    "QVPNLayersSettings \<Rightarrow> QTunnelProxy \<Rightarrow> bytes \<Rightarrow> bytes option" where
  "QVPNLayersSettings_layers_encode_proxy ls px data =
     run_layers (\<lambda>l. LayerWrapper_layer_encode_proxy l px) ls data"

definition QVPNLayersSettings_layers_encode_pb ::
    "QVPNLayersSettings \<Rightarrow> PacketBuilderData \<Rightarrow> bytes \<Rightarrow> bytes option" where
  "QVPNLayersSettings_layers_encode_pb ls pb data =
     run_layers (\<lambda>l. LayerWrapper_layer_encode_pb l pb) ls data"

definition QVPNLayersSettings_layers_encode :: "QVPNLayersSettings \<Rightarrow> bytes \<Rightarrow> bytes option" where
  "QVPNLayersSettings_layers_encode ls data = run_layers LayerWrapper_layer_encode ls data"

definition QVPNLayersSettings_layers_decode :: "QVPNLayersSettings \<Rightarrow> bytes \<Rightarrow> bytes option" where
  "QVPNLayersSettings_layers_decode ls data = run_layers LayerWrapper_layer_decode (rev ls) data"

section \<open>The data path of the drivers\<close>

text \<open>The order in which the hash table of packets is walked is a parameter: a list of the keys of a table.\<close>

type_synonym key_order = "(UByte \<rightharpoonup> PacketBuilder) \<Rightarrow> UByte list"

record QVPNDriver =
  packet_manager :: QVPNPacketManager
  drv_layers :: QVPNLayersSettings

definition SplittedPacket_new :: SplittedPacket where
  "SplittedPacket_new = \<lparr> sp_packet_id = 0, sp_data = [], sp_separators = [] \<rparr>"

fun encode_rest ::
    "QVPNLayersSettings \<Rightarrow> SplittedPacketView \<Rightarrow> mem \<Rightarrow> nat list \<Rightarrow> SplittedPacket \<Rightarrow> SplittedPacket option" where
  "encode_rest ls v m [] sp = Some sp"
| "encode_rest ls v m (i # is) sp = do {
     (pb_data_i, bi, ei) \<leftarrow> SplittedPacketView_get_raw_with_pb_data v i;
     part \<leftarrow> rd_range m bi ei;
     encoded_part \<leftarrow> QVPNLayersSettings_layers_encode_pb ls pb_data_i part;
     encode_rest ls v m is (SplittedPacket_add_data sp encoded_part) }"

definition QVPNClientDriver_encode_data ::
    "QVPNDriver \<Rightarrow> QTunnelProxy \<Rightarrow> mem \<Rightarrow> ptr \<Rightarrow> ptr \<Rightarrow> (SplittedPacket \<times> QVPNDriver) option" where
  "QVPNClientDriver_encode_data d px m b e = do {
     (v, pm) \<leftarrow> QVPNPacketManager_split_packet_view (packet_manager d) b e;
     (pb_data, pb, pe) \<leftarrow> SplittedPacketView_get_raw_with_pb_data v 0;
     part \<leftarrow> rd_range m pb pe;
     first_encoded_data \<leftarrow> QVPNLayersSettings_layers_encode_pb_proxy (drv_layers d) pb_data px part;
     sp \<leftarrow> encode_rest (drv_layers d) v m [1..<SplittedPacketView_size v]
       (SplittedPacket_add_data SplittedPacket_new first_encoded_data);
     Some (sp, d\<lparr> packet_manager := pm \<rparr>) }"

definition QVPNClientDriver_decode_data ::
    "key_order \<Rightarrow> QVPNDriver \<Rightarrow> mem \<Rightarrow> ptr \<Rightarrow> ptr \<Rightarrow> (QTunnelData option \<times> QVPNDriver) option" where
  "QVPNClientDriver_decode_data order d m b e = do {
     data \<leftarrow> rd_range m b e;
     res \<leftarrow> QVPNLayersSettings_layers_decode (drv_layers d) data;
     (signal, pm) \<leftarrow> QVPNPacketManager_build_packet (packet_manager d) res;
     let (full, pm) = QVPNPacketManager_have_full_packets (order (packets pm)) pm;
     if full then do {
       (packet, pm) \<leftarrow> QVPNPacketManager_get_and_pop_packet (order (packets pm)) pm;
       data \<leftarrow> QTunnelData_of_bytes (PacketBuilder_get_data packet);
       Some (Some data, d\<lparr> packet_manager := pm \<rparr>) }
     else Some (None, d\<lparr> packet_manager := pm \<rparr>) }"

definition QVPNServerDriver_encode_data ::
    "QVPNDriver \<Rightarrow> QTunnelProxy \<Rightarrow> mem \<Rightarrow> ptr \<Rightarrow> ptr \<Rightarrow> (SplittedPacket \<times> QVPNDriver) option" where
  "QVPNServerDriver_encode_data d px m b e = do {
     (v, pm) \<leftarrow> QVPNPacketManager_split_packet_view (packet_manager d) b e;
     (pb_data, pb, pe) \<leftarrow> SplittedPacketView_get_raw_with_pb_data v 0;
     part \<leftarrow> rd_range m pb pe;
     first_encoded_data \<leftarrow> QVPNLayersSettings_layers_encode_pb_proxy (drv_layers d) pb_data px part;
     sp \<leftarrow> encode_rest (drv_layers d) v m [1..<SplittedPacketView_size v]
       (SplittedPacket_add_data SplittedPacket_new first_encoded_data);
     Some (sp, d\<lparr> packet_manager := pm \<rparr>) }"

definition QVPNServerDriver_decode_data ::
    "key_order \<Rightarrow> QVPNDriver \<Rightarrow> mem \<Rightarrow> ptr \<Rightarrow> ptr \<Rightarrow> (QTunnelData option \<times> QVPNDriver) option" where
  "QVPNServerDriver_decode_data order d m b e = do {
     data \<leftarrow> rd_range m b e;
     res \<leftarrow> QVPNLayersSettings_layers_decode (drv_layers d) data;
     (signal, pm) \<leftarrow> QVPNPacketManager_build_packet (packet_manager d) res;
     let (full, pm) = QVPNPacketManager_have_full_packets (order (packets pm)) pm;
     if full then do {
       (packet, pm) \<leftarrow> QVPNPacketManager_get_and_pop_packet (order (packets pm)) pm;
       data \<leftarrow> QTunnelData_of_bytes (PacketBuilder_get_data packet);
       Some (Some data, d\<lparr> packet_manager := pm \<rparr>) }
     else Some (None, d\<lparr> packet_manager := pm \<rparr>) }"

section \<open>Layers as codecs\<close>

text \<open>The contract of a layer, for bytes that stay within the sixteen bit sizes of the views: decoding what
  it encoded gives the bytes back, at a fixed cost in size.\<close>

locale layer_codec =
  fixes enc dec :: "bytes \<Rightarrow> bytes option" and cost :: nat
  assumes codec: "length d + cost \<le> 65535 \<Longrightarrow> \<exists>r. enc d = Some r \<and> length r = length d + cost \<and> dec r = Some d"
begin

lemma roundtrip: "length d + cost \<le> 65535 \<Longrightarrow> do { r \<leftarrow> enc d; dec r } = Some d"
  using codec [of d] by auto

lemma encodes: "length d + cost \<le> 65535 \<Longrightarrow> \<exists>r. enc d = Some r"
  using codec [of d] by blast

end

lemma layer_codec_id: "layer_codec Some Some 0"
  by unfold_locales simp

lemma layer_codec_comp:
  assumes "layer_codec e1 d1 c1" "layer_codec e2 d2 c2"
  shows "layer_codec (\<lambda>x. do { y \<leftarrow> e1 x; e2 y }) (\<lambda>x. do { y \<leftarrow> d2 x; d1 y }) (c1 + c2)"
proof
  fix d :: bytes
  assume len: "length d + (c1 + c2) \<le> 65535"
  then obtain r where r: "e1 d = Some r" "length r = length d + c1" "d1 r = Some d"
    using layer_codec.codec [OF assms(1), of d] by auto
  then obtain s where "e2 r = Some s" "length s = length r + c2" "d2 s = Some r"
    using layer_codec.codec [OF assms(2), of r] len by auto
  then show "\<exists>s. do { y \<leftarrow> e1 d; e2 y } = Some s \<and> length s = length d + (c1 + c2)
      \<and> do { y \<leftarrow> d2 s; d1 y } = Some d"
    using r by simp
qed

lemma run_layers_Nil [simp]: "run_layers f [] = Some"
  by (simp add: fun_eq_iff)

lemma run_layers_append:
  "run_layers f (xs @ ys) d = do { r \<leftarrow> run_layers f xs d; run_layers f ys r }"
  by (induction f xs d rule: run_layers.induct) (auto split: Option.bind_splits)

text \<open>A stack of layers that keep the contract keeps it: the decoder runs them in reverse.\<close>

lemma layers_stack_codec:
  assumes "\<And>l. l \<in> set ls \<Longrightarrow> lw_active l \<Longrightarrow> layer_codec (bl_encode (lw_layer l)) (bl_decode (lw_layer l)) c"
  shows "layer_codec (QVPNLayersSettings_layers_encode ls) (QVPNLayersSettings_layers_decode ls)
    (c * length (filter lw_active ls))"
  using assms
proof (induction ls)
  case Nil
  have "QVPNLayersSettings_layers_encode [] = Some" "QVPNLayersSettings_layers_decode [] = Some"
    by (auto simp: fun_eq_iff QVPNLayersSettings_layers_encode_def QVPNLayersSettings_layers_decode_def)
  then show ?case using layer_codec_id by simp
next
  case (Cons l ls)
  note IH = Cons.IH [OF Cons.prems]
  show ?case
  proof (cases "lw_active l")
    case True
    have "QVPNLayersSettings_layers_encode (l # ls) =
        (\<lambda>x. do { y \<leftarrow> bl_encode (lw_layer l) x; QVPNLayersSettings_layers_encode ls y })"
      "QVPNLayersSettings_layers_decode (l # ls) =
        (\<lambda>x. do { y \<leftarrow> QVPNLayersSettings_layers_decode ls x; bl_decode (lw_layer l) y })"
      using True by (auto simp: fun_eq_iff QVPNLayersSettings_layers_encode_def
          QVPNLayersSettings_layers_decode_def run_layers_append wrapper_defs)
    then show ?thesis
      using layer_codec_comp [OF Cons.prems [of l] IH] True by (simp add: add.commute)
  next
    case False
    then have "QVPNLayersSettings_layers_encode (l # ls) = QVPNLayersSettings_layers_encode ls"
      "QVPNLayersSettings_layers_decode (l # ls) = QVPNLayersSettings_layers_decode ls"
      by (auto simp: fun_eq_iff QVPNLayersSettings_layers_encode_def
          QVPNLayersSettings_layers_decode_def run_layers_append wrapper_defs)
    then show ?thesis using IH False by simp
  qed
qed

lemma QLayer_decode_record:
  assumes "length obj \<le> 65530"
  shows "QLayer_layer_decode (app_record obj) = Some obj"
proof -
  have "unat (of_int (int (length obj + 5)) :: UShort) = length obj + 5"
    "unat (of_int (int (length obj + 5) - 5) :: UShort) = length obj"
    using assms unat_of_nat16 [of "length obj + 5"] unat_of_nat16 [of "length obj"] by simp_all
  moreover have "rd_range (app_record obj) 5 (5 + length obj) = Some obj"
    by (simp add: app_record_eq rd_range_def be16_bytes_def)
  ultimately show ?thesis by (simp add: QLayer_layer_decode_def record_view_defs)
qed

lemma map_option_bind_Some: "map_option f x = do { y \<leftarrow> x; Some (f y) }"
  by (cases x) simp_all

lemma QLayer_encoders:
  "QLayer_layer_encode_pb_proxy pb px data =
     map_option app_record (TLS13_ApplicationDataLE_generate_pb_proxy_bytes pb px data)"
  "QLayer_layer_encode_pb pb data = Some (app_record (TLS13_ApplicationDataLE_generate_pb_bytes pb data))"
  "QLayer_layer_encode data = Some (app_record data)"
  by (simp_all add: QLayer_layer_encode_pb_proxy_def QLayer_layer_encode_pb_def QLayer_layer_encode_def
      app_record_def TLS13_ApplicationDataLE_generate_bytes_def map_option_bind_Some)

lemma QLayer_fields [simp]:
  "bl_encode_pb_proxy QLayer = QLayer_layer_encode_pb_proxy" "bl_encode_pb QLayer = QLayer_layer_encode_pb"
  "bl_encode QLayer = QLayer_layer_encode" "bl_decode QLayer = QLayer_layer_decode"
  by (simp_all add: QLayer_def)

interpretation quiet: layer_codec QLayer_layer_encode QLayer_layer_decode 5
  by unfold_locales (auto simp: QLayer_encoders QLayer_decode_record)

interpretation default_layers: layer_codec
  "QVPNLayersSettings_layers_encode DefaultLayersStrategy_get_layers"
  "QVPNLayersSettings_layers_decode DefaultLayersStrategy_get_layers" 5
  using layers_stack_codec [of DefaultLayersStrategy_get_layers 5] quiet.layer_codec_axioms
  by (simp add: DefaultLayersStrategy_get_layers_def LayerWrapper_of_def)

text \<open>The settings with one active layer, the quiet one.\<close>

definition quiet_only :: "QVPNLayersSettings \<Rightarrow> bool" where
  "quiet_only ls \<longleftrightarrow> map lw_layer (filter lw_active ls) = [QLayer]"

lemma run_layers_filter: "run_layers f ls d = run_layers f (filter lw_active ls) d"
  by (induction f ls d rule: run_layers.induct) (auto simp: wrapper_defs split: Option.bind_splits)

lemma quiet_only_run:
  assumes "quiet_only ls"
  shows "QVPNLayersSettings_layers_encode_pb_proxy ls pb px data = QLayer_layer_encode_pb_proxy pb px data"
    "QVPNLayersSettings_layers_encode_pb ls pb data = QLayer_layer_encode_pb pb data"
    "QVPNLayersSettings_layers_decode ls data = QLayer_layer_decode data"
proof -
  obtain w where w: "filter lw_active ls = [w]" "lw_layer w = QLayer"
    using assms by (auto simp: quiet_only_def map_eq_Cons_conv)
  then have "w \<in> set (filter lw_active ls)" by simp
  then have "lw_active w" by simp
  moreover have "filter lw_active (rev ls) = [w]" using w by (simp flip: rev_filter)
  ultimately show "QVPNLayersSettings_layers_encode_pb_proxy ls pb px data = QLayer_layer_encode_pb_proxy pb px data"
    "QVPNLayersSettings_layers_encode_pb ls pb data = QLayer_layer_encode_pb pb data"
    "QVPNLayersSettings_layers_decode ls data = QLayer_layer_decode data"
    unfolding QVPNLayersSettings_layers_encode_pb_proxy_def QVPNLayersSettings_layers_encode_pb_def
      QVPNLayersSettings_layers_decode_def
    by (subst run_layers_filter, simp add: w wrapper_defs)+
qed

lemma QLayer_decode_any:
  assumes "length x = length y + 5" "drop 5 x = y" "length x \<le> 65535"
  shows "QLayer_layer_decode x = Some y"
proof -
  have "unat (of_nat (length y + 5) :: UShort) = length y + 5" "unat (of_nat (length y) :: UShort) = length y"
    using assms(1,3) by (simp_all only: unat_of_nat16)
  then show ?thesis using assms
    by (simp add: QLayer_layer_decode_def record_view_defs rd_range_def)
qed

section \<open>Receiving\<close>

definition order_spec :: "key_order \<Rightarrow> bool" where
  "order_spec order \<longleftrightarrow> (\<forall>t. set (order t) = dom t)"

text \<open>Between two frames no packet is full and nothing is cached.\<close>

definition pm_quiet :: "QVPNPacketManager \<Rightarrow> bool" where
  "pm_quiet pm \<longleftrightarrow> cache pm = None \<and> (\<forall>i pb. packets pm i = Some pb \<longrightarrow> \<not> pbr_is_full pb)"

lemma find_unique:
  assumes "i \<in> set xs" "P i" "\<And>j. j \<in> set xs \<Longrightarrow> P j \<Longrightarrow> j = i"
  shows "find P xs = Some i"
proof (cases "find P xs")
  case None then show ?thesis using assms(1,2) by (auto simp: find_None_iff)
next
  case (Some j)
  then obtain k where k: "k < length xs" "P (xs ! k)" "j = xs ! k" unfolding find_Some_iff by blast
  then have "j = i" using assms(3) [of j] by simp
  then show ?thesis using Some by simp
qed

lemma have_full_after:
  assumes "pm_quiet pm" "order_spec order" "p' = (packets pm)(i \<mapsto> pb)"
  shows "QVPNPacketManager_have_full_packets (order p') (pm\<lparr> packets := p' \<rparr>) =
    (if pbr_is_full pb then (True, pm\<lparr> packets := p', cache := Some i \<rparr>) else (False, pm\<lparr> packets := p' \<rparr>))"
proof (cases "pbr_is_full pb")
  case True
  have "find (is_full_at (pm\<lparr> packets := p' \<rparr>)) (order p') = Some i"
    by (rule find_unique) (use assms True in \<open>auto simp: order_spec_def is_full_at_def PacketBuilder_is_full_def
        pm_quiet_def split: option.splits if_splits\<close>)
  then show ?thesis using True by (simp add: QVPNPacketManager_have_full_packets_def)
next
  case False
  have "find (is_full_at (pm\<lparr> packets := p' \<rparr>)) (order p') = None"
    using assms False by (auto simp: find_None_iff is_full_at_def PacketBuilder_is_full_def pm_quiet_def
        split: option.splits if_splits)
  then show ?thesis using False by (simp add: QVPNPacketManager_have_full_packets_def)
qed

lemma no_full_quiet:
  assumes "pm_quiet pm"
  shows "QVPNPacketManager_have_full_packets xs pm = (False, pm)"
proof -
  have "find (is_full_at pm) xs = None"
    using assms by (auto simp: find_None_iff is_full_at_def PacketBuilder_is_full_def pm_quiet_def split: option.splits)
  then show ?thesis by (simp add: QVPNPacketManager_have_full_packets_def)
qed

lemma pop_cached:
  assumes "cache pm = Some i" "packets pm i = Some pb" "pbr_data pb \<noteq> []"
  shows "QVPNPacketManager_get_and_pop_packet xs pm =
    Some (pb, pm\<lparr> packets := (packets pm)(i := None), cache := None \<rparr>)"
  using assms by (simp add: QVPNPacketManager_get_and_pop_packet_def QVPNPacketManager_pop_last_packet_def
      PacketBuilder_assign_def PacketBuilder_eq_def PacketBuilder_new_def)

lemma server_driver_eq:
  "QVPNServerDriver_encode_data = QVPNClientDriver_encode_data"
  "QVPNServerDriver_decode_data = QVPNClientDriver_decode_data"
  unfolding QVPNServerDriver_encode_data_def QVPNClientDriver_encode_data_def
    QVPNServerDriver_decode_data_def QVPNClientDriver_decode_data_def by (rule refl)+

text \<open>One frame at a quiet manager: the packet it completes is handed on, any other is kept.\<close>

lemma decode_frame:
  assumes "pm_quiet pm" "packet_manager d = pm" "order_spec order" "rd_range m b e = Some x"
    and "QVPNLayersSettings_layers_decode (drv_layers d) x = Some f"
    and "QVPNPacketManager_build_packet pm f = Some (sig, pm\<lparr> packets := (packets pm)(i \<mapsto> pb) \<rparr>)"
    and "pbr_data pb \<noteq> []"
  shows "QVPNClientDriver_decode_data order d m b e =
    (if pbr_is_full pb then do {
       q \<leftarrow> QTunnelData_of_bytes (pbr_data pb);
       Some (Some q, d\<lparr> packet_manager := pm\<lparr> packets := (packets pm)(i := None) \<rparr> \<rparr>) }
     else Some (None, d\<lparr> packet_manager := pm\<lparr> packets := (packets pm)(i \<mapsto> pb) \<rparr> \<rparr>))"
proof -
  have c: "cache pm = None" using assms(1) by (simp add: pm_quiet_def)
  then have pm: "pm\<lparr> packets := t, cache := None \<rparr> = pm\<lparr> packets := t \<rparr>" for t by (cases pm) simp
  show ?thesis
    using assms(2,4-7) have_full_after [OF assms(1,3) refl, of i pb]
    by (simp add: QVPNClientDriver_decode_data_def pop_cached PacketBuilder_get_data_def pm)
qed

lemma decode_refused:
  assumes "pm_quiet pm" "packet_manager d = pm" "rd_range m b e = Some x"
    and "QVPNLayersSettings_layers_decode (drv_layers d) x = Some f" "\<not> frame_ok f"
  shows "QVPNClientDriver_decode_data order d m b e = Some (None, d)"
  using assms build_packet_bad [of f pm] no_full_quiet [OF assms(1)]
  by (simp add: QVPNClientDriver_decode_data_def)

section \<open>Sending\<close>

definition proxy_len :: "QTunnelProxy \<Rightarrow> nat" where
  "proxy_len px = 14 + length (proto_data px)"

lemma length_proxy_block: "proxy_wf px \<Longrightarrow> length (proxy_block px data) = proxy_len px + length data"
  by (simp add: proxy_block_def proxy_wf_def proxy_len_def)

lemma proxy_data_size:
  assumes "proxy_wf px"
  shows "QTunnelProxy_get_proxy_data_size px = Some (of_nat (proxy_len px))"
proof -
  obtain body where b: "proto_data px = be16_bytes (of_nat (length body)) @ body" "length body < 65536"
    using assms by (rule proxy_wf_body)
  then have "QTunnelProtoData_get_length (proto_data px) = Some (of_nat (length body))"
    by (simp add: QTunnelProtoData_get_length_def rd16_def rd_def be16_bytes_def)
  moreover have "unat (of_nat (length body) :: UShort) = length body" using b(2) by (rule unat_of_nat16)
  ultimately show ?thesis
    using assms b(1) by (simp add: QTunnelProxy_get_proxy_data_size_def proxy_len_def proxy_wf_def
        NetAddr_get_addr_size_def)
qed

lemma generate_frames:
  "proxy_wf px \<Longrightarrow> TLS13_ApplicationDataLE_generate_pb_proxy_bytes
      (PacketBuilderData_of i (of_nat off) (of_nat n)) px data =
    Some (pb_frame i off (n + proxy_len px) (proxy_block px data))"
  "TLS13_ApplicationDataLE_generate_pb_bytes (PacketBuilderData_of i (of_nat off) (of_nat n)) data =
    pb_frame i off n data"
  by (simp_all add: TLS13_ApplicationDataLE_generate_pb_proxy_bytes_def TLS13_ApplicationDataLE_generate_pb_bytes_def
      proxy_data_size pb_data_defs pb_frame_eq proxy_block_def proxy_get_defs NetAddr_to_bytes_def)

text \<open>The parts a driver sends: the ranges of the encoded packet.\<close>

definition sp_parts :: "SplittedPacket \<Rightarrow> bytes list option" where
  "sp_parts s = those (map (\<lambda>k. do { (b, e) \<leftarrow> SplittedPacket_get_raw_packet s k; rd_range (sp_data s) b e })
     [0..<SplittedPacket_size s])"

lemma sp_parts_one:
  assumes "length x < 65536"
  shows "sp_parts (SplittedPacket_add_data SplittedPacket_new x) = Some [x]"
  using assms by (simp add: sp_parts_def SplittedPacket_add_data_def SplittedPacket_new_def SplittedPacket_size_def
      SplittedPacket_get_raw_packet_def upt_numeral rd_pair unat_of_nat16 Let_def)

lemma sp_parts_two:
  assumes "length x + length y < 65536"
  shows "sp_parts (SplittedPacket_add_data (SplittedPacket_add_data SplittedPacket_new x) y) = Some [x, y]"
proof -
  have "unat (of_nat (length x) + of_nat (length y) :: UShort) = length x + length y"
    using unat_of_nat16 [of "length x + length y"] assms by simp
  then show ?thesis
    using assms rd_range_to_end [of x y] by (simp add: sp_parts_def SplittedPacket_add_data_def
        SplittedPacket_new_def SplittedPacket_size_def SplittedPacket_get_raw_packet_def upt_numeral
        rd_pair unat_of_nat16 Let_def rd_range_Some)
qed

lemma encode_whole:
  assumes "quiet_only (drv_layers d)" "proxy_wf px" "packet_manager d = pm"
    and "n < unat (data_max_size pm)" "b + n \<le> length m"
  shows "QVPNClientDriver_encode_data d px m b (b + n) =
    Some (SplittedPacket_add_data SplittedPacket_new (app_record (pb_frame (last_packet_id pm) 0
        (n + proxy_len px) (proxy_block px (mslice m b n)))),
      d\<lparr> packet_manager := pm\<lparr> last_packet_id := last_packet_id pm + 1 \<rparr> \<rparr>)"
  using assms generate_frames(1) [OF assms(2), of "last_packet_id pm" 0 n "mslice m b n"]
  by (simp add: QVPNClientDriver_encode_data_def split_bounds_small spv_defs SplittedPacketView_get_raw_with_pb_data_def
      rd_pair nat_add_distrib rd_range_Some quiet_only_run QLayer_encoders mslice_def)

lemma encode_two:
  assumes "quiet_only (drv_layers d)" "proxy_wf px" "packet_manager d = pm"
    and "unat (data_max_size pm) \<le> n" "unat (data_split_size pm) = spl" "2 * spl \<le> n" "n < 3 * spl"
      "b + n \<le> length m"
  shows "QVPNClientDriver_encode_data d px m b (b + n) =
    Some (SplittedPacket_add_data (SplittedPacket_add_data SplittedPacket_new
        (app_record (pb_frame (last_packet_id pm) 0 (2 * spl + proxy_len px) (proxy_block px (mslice m b spl)))))
        (app_record (pb_frame (last_packet_id pm) spl (2 * spl) (mslice m (b + spl) spl))),
      d\<lparr> packet_manager := pm\<lparr> last_packet_id := last_packet_id pm + 1 \<rparr> \<rparr>)"
proof -
  have spl: "0 < spl" "n div spl = 2" using assms(6,7) by (auto simp: div_nat_eqI)
  have "split_bounds pm n = Some [(0, spl), (spl, 2 * spl)]"
    using split_bounds_large [OF assms(4,5) spl(1) assms(7)] spl(2) by simp
  moreover have "unat (of_nat spl :: UShort) = spl"
    unfolding assms(5) [symmetric] by simp
  moreover have "of_nat spl + of_nat spl = (of_nat (2 * spl) :: UShort)" by simp
  moreover have "b + spl \<le> length m" "b + (spl + spl) \<le> length m" using assms(6,8) by auto
  ultimately show ?thesis
    using assms(1-3,8) generate_frames(1) [OF assms(2), of "last_packet_id pm" 0 "2 * spl" "mslice m b spl"]
      generate_frames(2) [of "last_packet_id pm" spl "2 * spl" "mslice m (b + spl) spl"]
    by (simp add: QVPNClientDriver_encode_data_def spv_defs SplittedPacketView_get_raw_with_pb_data_def
        rd_pair nat_add_distrib rd_range_Some quiet_only_run QLayer_encoders mslice_def unat_of_nat16)
qed

section \<open>From one driver to the other\<close>

fun receive_all :: "key_order \<Rightarrow> QVPNDriver \<Rightarrow> bytes list \<Rightarrow> (QTunnelData option list \<times> QVPNDriver) option" where
  "receive_all order d [] = Some ([], d)"
| "receive_all order d (x # xs) = do {
     (r, d) \<leftarrow> QVPNServerDriver_decode_data order d x 0 (length x);
     (rs, d) \<leftarrow> receive_all order d xs;
     Some (r # rs, d) }"

text \<open>What the far end should hold: the sender's proxy block with the payload as raw data.\<close>

definition delivered :: "QTunnelProxy \<Rightarrow> bytes \<Rightarrow> QTunnelData" where
  "delivered px payload = QTunnelProxy.extend px \<lparr> raw_data = payload \<rparr>"

lemma of_proxy_block: "proxy_wf px \<Longrightarrow> QTunnelData_of_bytes (proxy_block px payload) = Some (delivered px payload)"
  using QTunnelData_of_proxy_block [of px payload] by (simp add: delivered_def QTunnelProxy.defs)

lemma manager_restore:
  assumes "packet_manager d = pm" "packets pm i = None"
  shows "d\<lparr> packet_manager := pm\<lparr> packets := (packets pm)(i := None) \<rparr> \<rparr> = d"
  using assms by (cases d, cases pm) (auto simp: fun_upd_idem)

lemma receive_whole:
  assumes d: "quiet_only (drv_layers d)" "packet_manager d = pm" "pm_quiet pm" "packets pm i = None" "order_spec order"
    and "proxy_wf px" "n = proxy_len px + length data" "n \<le> 65525"
  shows "receive_all order d [app_record (pb_frame i 0 n (proxy_block px data))] = Some ([Some (delivered px data)], d)"
proof -
  let ?f = "pb_frame i 0 n (proxy_block px data)"
  have f: "length (proxy_block px data) = n" "length ?f \<le> 65530" "proxy_block px data \<noteq> []"
    using assms(6-8) length_proxy_block [OF assms(6), of data] pb_frame_reads(4) [of 0 n i]
    by (auto simp: proxy_block_def)
  have "QVPNPacketManager_build_packet pm ?f = Some (PACKET_FULL_BUILD, pm\<lparr> packets := (packets pm)(i \<mapsto>
      \<lparr> pbr_original_size = of_nat n, pbr_data = proxy_block px data, pbr_is_full = True \<rparr>) \<rparr>)"
    using build_first_part [OF assms(4) f(3), of n] f assms(8) by simp
  then have "QVPNClientDriver_decode_data order d (app_record ?f) 0 (length (app_record ?f)) =
      Some (Some (delivered px data), d)"
    using decode_frame [OF d(3,2,5) rd_range_all, of "app_record ?f" ?f] d f
      manager_restore [OF d(2,4)] of_proxy_block [OF assms(6)]
    by (simp add: quiet_only_run QLayer_decode_record)
  then show ?thesis by (simp add: server_driver_eq)
qed

lemma receive_two:
  assumes d: "quiet_only (drv_layers d)" "packet_manager d = pm" "pm_quiet pm" "packets pm i = None" "order_spec order"
    and px: "proxy_wf px" and len: "length x = spl" "length y = spl" "256 \<le> spl" "2 * spl + proxy_len px \<le> 65520"
  shows "receive_all order d [app_record (pb_frame i 0 (2 * spl + proxy_len px) (proxy_block px x)),
      app_record (pb_frame i spl (2 * spl) y)] = Some ([None, Some (delivered px (x @ y))], d)"
proof -
  let ?n = "2 * spl + proxy_len px"
  let ?f = "pb_frame i 0 ?n (proxy_block px x)" and ?g = "pb_frame i spl (2 * spl) y"
  let ?pb = "\<lparr> pbr_original_size = of_nat ?n, pbr_data = proxy_block px x, pbr_is_full = False \<rparr>"
  let ?pm = "pm\<lparr> packets := (packets pm)(i \<mapsto> ?pb) \<rparr>"
  let ?d = "d\<lparr> packet_manager := ?pm \<rparr>"
  have f: "length (proxy_block px x) = proxy_len px + spl" "proxy_block px x \<noteq> []" "length ?f \<le> 65530"
    "length ?g \<le> 65530" "y \<noteq> []"
    using length_proxy_block [OF px, of x] len pb_frame_reads(4) [of 0 ?n i "proxy_block px x"]
      pb_frame_reads(4) [of spl "2 * spl" i y]
    by (auto simp: proxy_block_def)
  have "QVPNPacketManager_build_packet pm ?f = Some (PACKET_PART_RECEIVED, ?pm)"
    using build_first_part [OF d(4) f(2), of ?n] f(1) len by simp
  then have first: "QVPNClientDriver_decode_data order d (app_record ?f) 0 (length (app_record ?f)) = Some (None, ?d)"
    using decode_frame [OF d(3,2,5) rd_range_all, of "app_record ?f" ?f] d f(2,3)
    by (simp add: quiet_only_run QLayer_decode_record)
  have u: "unat (of_nat ?n :: UShort) = ?n" using len by (intro unat_of_nat16) simp
  let ?pb' = "?pb\<lparr> pbr_data := proxy_block px x @ y, pbr_is_full := True \<rparr>"
  have build: "QVPNPacketManager_build_packet ?pm ?g =
      Some (PACKET_PART_RECEIVED, ?pm\<lparr> packets := (packets ?pm)(i \<mapsto> ?pb') \<rparr>)"
    by (subst build_append_part [of _ _ ?pb]) (use f len u in auto)
  have quiet: "pm_quiet ?pm" using d(3) by (auto simp: pm_quiet_def)
  have data: "pbr_data ?pb' = proxy_block px (x @ y)" by (simp add: proxy_block_def)
  have "QVPNClientDriver_decode_data order ?d (app_record ?g) 0 (length (app_record ?g)) =
      (if pbr_is_full ?pb' then do {
         q \<leftarrow> QTunnelData_of_bytes (pbr_data ?pb');
         Some (Some q, ?d\<lparr> packet_manager := ?pm\<lparr> packets := (packets ?pm)(i := None) \<rparr> \<rparr>) }
       else Some (None, ?d\<lparr> packet_manager := ?pm\<lparr> packets := (packets ?pm)(i \<mapsto> ?pb') \<rparr> \<rparr>))"
    by (rule decode_frame [OF quiet _ d(5) rd_range_all _ build])
      (use f(2,4) d(1) in \<open>simp_all add: quiet_only_run QLayer_decode_record\<close>)
  also have "\<dots> = Some (Some (delivered px (x @ y)), d)"
    unfolding data using of_proxy_block [OF px] manager_restore [OF d(2,4)] by simp
  finally have "QVPNClientDriver_decode_data order ?d (app_record ?g) 0 (length (app_record ?g)) =
      Some (Some (delivered px (x @ y)), d)" .
  then show ?thesis using first by (simp add: server_driver_eq)
qed

lemma quiet_manager_preserved:
  assumes "pm_quiet (packet_manager d)" "pm_ok (packet_manager d)" "order_spec order"
    and "QVPNClientDriver_decode_data order d m b e = Some (r, d')"
  shows "pm_quiet (packet_manager d') \<and> pm_ok (packet_manager d')"
proof -
  let ?pm = "packet_manager d"
  obtain x f where x: "rd_range m b e = Some x" "QVPNLayersSettings_layers_decode (drv_layers d) x = Some f"
    using assms(4) by (auto simp: QVPNClientDriver_decode_data_def bind_eq_Some_conv)
  show ?thesis
  proof (cases "frame_ok f")
    case True
    then obtain pb sig where pb: "QVPNPacketManager_build_packet ?pm f =
        Some (sig, ?pm\<lparr> packets := (packets ?pm)(f ! 0 \<mapsto> pb) \<rparr>)" "builder_ok pb"
      by (rule build_packet_good)
    then have "pbr_data pb \<noteq> []" by (simp add: builder_ok_def)
    then consider "packet_manager d' = ?pm\<lparr> packets := (packets ?pm)(f ! 0 := None) \<rparr>"
      | "\<not> pbr_is_full pb" "packet_manager d' = ?pm\<lparr> packets := (packets ?pm)(f ! 0 \<mapsto> pb) \<rparr>"
      using decode_frame [OF assms(1) refl assms(3) x pb(1)] assms(4)
      by (cases "pbr_is_full pb"; cases "QTunnelData_of_bytes (pbr_data pb)") auto
    then show ?thesis by cases (use assms(1,2) pb(2) in \<open>auto simp: pm_quiet_def pm_ok_def\<close>)
  next
    case False
    then show ?thesis using decode_refused [OF assms(1) refl x] assms by simp
  qed
qed

text \<open>A walk of the table in the order of the keys.\<close>

definition ascending :: key_order where
  "ascending t = filter (\<lambda>i. t i \<noteq> None) (map of_nat [0..<256])"

lemma ascending_order_spec: "order_spec ascending"
proof -
  have "x \<in> of_nat ` {0..<256}" for x :: UByte
    using unat_byte_less [of x] by (intro image_eqI [of _ _ "unat x"]) simp_all
  then show ?thesis by (auto simp: order_spec_def ascending_def dom_def)
qed

definition fresh_driver :: QVPNDriver where
  "fresh_driver = \<lparr> packet_manager = QVPNPacketManager_new,
     drv_layers = QVPNLayersSettings_apply_strategy [] DefaultLayersStrategy_get_layers \<rparr>"

lemma fresh_driver_ok:
  "quiet_only (drv_layers fresh_driver)" "pm_quiet (packet_manager fresh_driver)" "pm_ok (packet_manager fresh_driver)"
  "packets (packet_manager fresh_driver) i = None" "last_packet_id (packet_manager fresh_driver) = 0"
  "unat (data_max_size (packet_manager fresh_driver)) = 65229"
  "unat (data_split_size (packet_manager fresh_driver)) = 32615"
  by (simp_all add: fresh_driver_def quiet_only_def QVPNLayersSettings_apply_strategy_def
      DefaultLayersStrategy_get_layers_def LayerWrapper_of_def pm_quiet_def pm_ok_def QVPNPacketManager_new_def
      data_meta_qvpn_size_def packet_manager_data_size_def packet_builder_data_size_def)

definition sample_proxy :: QTunnelProxy where
  "sample_proxy = \<lparr> net_protocol = 4, transport_protocol = 17, source_addr = [10, 0, 0, 1], source_port = 80,
     dst_addr = [10, 0, 0, 2], dst_port = 53, proto_data = [0, 2, 0, 8] \<rparr>"

lemma sample_proxy_ok: "proxy_wf sample_proxy" "proxy_len sample_proxy = 18"
  by (simp_all add: sample_proxy_def proxy_wf_def protocol_defs be16_bytes_def byte_of_def proxy_len_def)

text \<open>A payload below the size limit arrives, in both directions.\<close>

lemma whole_delivery:
  assumes "quiet_only (drv_layers sdr)" "quiet_only (drv_layers rcv)" "proxy_wf px" "order_spec order"
    and "n < unat (data_max_size (packet_manager sdr))" "proxy_len px + n \<le> 65525" "b + n \<le> length m"
    and "pm_quiet (packet_manager rcv)"
      "packets (packet_manager rcv) (last_packet_id (packet_manager sdr)) = None"
  shows "\<exists>sp x. QVPNClientDriver_encode_data sdr px m b (b + n) = Some (sp, sdr\<lparr> packet_manager :=
        (packet_manager sdr)\<lparr> last_packet_id := last_packet_id (packet_manager sdr) + 1 \<rparr> \<rparr>) \<and>
      QVPNServerDriver_encode_data sdr px m b (b + n) = QVPNClientDriver_encode_data sdr px m b (b + n) \<and>
      sp_parts sp = Some [x] \<and>
      QVPNServerDriver_decode_data order rcv x 0 (length x) = Some (Some (delivered px (mslice m b n)), rcv) \<and>
      QVPNClientDriver_decode_data order rcv x 0 (length x) = Some (Some (delivered px (mslice m b n)), rcv)"
proof -
  let ?i = "last_packet_id (packet_manager sdr)"
  let ?f = "pb_frame ?i 0 (n + proxy_len px) (proxy_block px (mslice m b n))"
  have len: "length ?f = 5 + (n + proxy_len px)"
    using assms(7) length_proxy_block [OF assms(3), of "mslice m b n"] pb_frame_reads(4) [of 0 "n + proxy_len px"] assms(6)
    by simp
  have parts: "sp_parts (SplittedPacket_add_data SplittedPacket_new (app_record ?f)) = Some [app_record ?f]"
    by (rule sp_parts_one) (use len assms(6) in simp)
  have "receive_all order rcv [app_record ?f] = Some ([Some (delivered px (mslice m b n))], rcv)"
    by (rule receive_whole [OF assms(2) refl assms(8,9,4,3)]) (use assms(6,7) in simp_all)
  then have "QVPNServerDriver_decode_data order rcv (app_record ?f) 0 (length (app_record ?f)) =
      Some (Some (delivered px (mslice m b n)), rcv)"
    by (auto simp: bind_eq_Some_conv)
  then show ?thesis
    using encode_whole [OF assms(1,3) refl assms(5,7)] parts by (auto simp: server_driver_eq)
qed

section \<open>Properties\<close>

text \<open>C5: the tunnel delivers. A payload below the size limit, encoded by one driver and sent to a driver whose
  manager is quiet and has no packet of that id, arrives as one part; decoding gives the sender's proxy
  block and exactly the payload, the receiver is back in the state it was in, and the sender's packet id
  has advanced. It holds from client to server and from server to client.\<close>

theorem tunnel_delivers_whole:
  assumes "quiet_only (drv_layers sdr)" "quiet_only (drv_layers rcv)" "proxy_wf px" "order_spec order"
    and "n < unat (data_max_size (packet_manager sdr))" "proxy_len px + n \<le> 65525" "b + n \<le> length m"
    and "pm_quiet (packet_manager rcv)"
      "packets (packet_manager rcv) (last_packet_id (packet_manager sdr)) = None"
  shows "\<exists>sp x. QVPNClientDriver_encode_data sdr px m b (b + n) = Some (sp, sdr\<lparr> packet_manager :=
        (packet_manager sdr)\<lparr> last_packet_id := last_packet_id (packet_manager sdr) + 1 \<rparr> \<rparr>) \<and>
      QVPNServerDriver_encode_data sdr px m b (b + n) = QVPNClientDriver_encode_data sdr px m b (b + n) \<and>
      sp_parts sp = Some [x] \<and>
      QVPNServerDriver_decode_data order rcv x 0 (length x) = Some (Some (delivered px (mslice m b n)), rcv) \<and>
      QVPNClientDriver_decode_data order rcv x 0 (length x) = Some (Some (delivered px (mslice m b n)), rcv)"
  by (rule whole_delivery [OF assms])

theorem tunnel_delivers_whole_witness:
  "\<exists>sp x. QVPNClientDriver_encode_data fresh_driver sample_proxy [9, 1, 2, 3, 9] 1 4 =
      Some (sp, fresh_driver\<lparr> packet_manager := QVPNPacketManager_new\<lparr> last_packet_id := 1 \<rparr> \<rparr>) \<and>
    sp_parts sp = Some [x] \<and>
    QVPNServerDriver_decode_data ascending fresh_driver x 0 (length x) =
      Some (Some (delivered sample_proxy [1, 2, 3]), fresh_driver)"
  using tunnel_delivers_whole [of fresh_driver fresh_driver sample_proxy ascending 3 1 "[9, 1, 2, 3, 9]"]
    fresh_driver_ok sample_proxy_ok ascending_order_spec
  by (auto simp: mslice_def fresh_driver_def)

text \<open>C9: the tunnel delivers split payloads. With a split size of at least 256, as the default is, a payload of two to three
  split sizes is sent in two parts; the
  receiver keeps the first, and with the second it hands on the proxy block and the first two split sizes
  of the payload. The rest of the payload, if any, is never sent.\<close>

theorem tunnel_delivers_split:
  assumes "quiet_only (drv_layers sdr)" "quiet_only (drv_layers rcv)" "proxy_wf px" "order_spec order"
    and "unat (data_max_size (packet_manager sdr)) \<le> n" "unat (data_split_size (packet_manager sdr)) = spl"
      "2 * spl \<le> n" "n < 3 * spl" "b + n \<le> length m" "256 \<le> spl" "2 * spl + proxy_len px \<le> 65500"
    and "pm_quiet (packet_manager rcv)"
      "packets (packet_manager rcv) (last_packet_id (packet_manager sdr)) = None"
  shows "do { (sp, sdr') \<leftarrow> QVPNClientDriver_encode_data sdr px m b (b + n);
      xs \<leftarrow> sp_parts sp; receive_all order rcv xs } =
    Some ([None, Some (delivered px (take (2 * spl) (mslice m b n)))], rcv)"
proof -
  let ?i = "last_packet_id (packet_manager sdr)"
  let ?x = "mslice m b spl" and ?y = "mslice m (b + spl) spl"
  have xy: "length ?x = spl" "length ?y = spl" "?x @ ?y = take (2 * spl) (mslice m b n)"
    using assms(7,9) mslice_append [of b spl m spl] by (simp_all add: mslice_def mult_2)
  let ?f = "pb_frame ?i 0 (2 * spl + proxy_len px) (proxy_block px ?x)" and ?g = "pb_frame ?i spl (2 * spl) ?y"
  have "length (app_record ?f) + length (app_record ?g) < 65536"
    using xy(1,2) assms(11) length_proxy_block [OF assms(3), of ?x]
      pb_frame_reads(4) [of 0 "2 * spl + proxy_len px" ?i] pb_frame_reads(4) [of spl "2 * spl" ?i] by simp
  then have "sp_parts (SplittedPacket_add_data (SplittedPacket_add_data SplittedPacket_new (app_record ?f))
      (app_record ?g)) = Some [app_record ?f, app_record ?g]"
    by (rule sp_parts_two)
  moreover have "receive_all order rcv [app_record ?f, app_record ?g] =
      Some ([None, Some (delivered px (?x @ ?y))], rcv)"
    by (rule receive_two [OF assms(2) refl assms(12,13,4,3) xy(1,2) assms(10)]) (use assms(11) in simp)
  ultimately show ?thesis
    using encode_two [OF assms(1,3) refl assms(5-9)] xy(3) by simp
qed

theorem tunnel_delivers_split_witness:
  "do { (sp, sdr') \<leftarrow> QVPNClientDriver_encode_data fresh_driver sample_proxy (replicate 65300 7) 0 (0 + 65300);
      xs \<leftarrow> sp_parts sp; receive_all ascending fresh_driver xs } =
    Some ([None, Some (delivered sample_proxy (replicate 65230 7))], fresh_driver)"
  using tunnel_delivers_split [of fresh_driver fresh_driver sample_proxy ascending 65300 32615 0 "replicate 65300 7"]
    fresh_driver_ok sample_proxy_ok ascending_order_spec
  by (simp add: mslice_def min_def)

text \<open>C21: layers decode what they encode. For any list of quiet layers, active or not, decoding the encoded
  bytes gives the bytes back, as long as the records stay within 65535 bytes.\<close>

theorem layers_decode_inverts_encode:
  assumes "\<forall>l \<in> set ls. lw_active l \<longrightarrow> lw_layer l = QLayer"
    and "length data + 5 * length (filter lw_active ls) \<le> 65535"
  shows "do { r \<leftarrow> QVPNLayersSettings_layers_encode ls data; QVPNLayersSettings_layers_decode ls r } = Some data"
proof -
  have "layer_codec (QVPNLayersSettings_layers_encode ls) (QVPNLayersSettings_layers_decode ls)
      (5 * length (filter lw_active ls))"
    by (rule layers_stack_codec) (use assms(1) quiet.layer_codec_axioms in simp)
  from layer_codec.roundtrip [OF this assms(2)] show ?thesis .
qed

theorem layers_decode_inverts_encode_witness:
  "do { r \<leftarrow> QVPNLayersSettings_layers_encode
          [LayerWrapper_of QLayer True, LayerWrapper_of QLayer False, LayerWrapper_of QLayer True] [1, 2, 3];
        QVPNLayersSettings_layers_decode
          [LayerWrapper_of QLayer True, LayerWrapper_of QLayer False, LayerWrapper_of QLayer True] r } = Some [1, 2, 3]"
  by (rule layers_decode_inverts_encode) (simp_all add: LayerWrapper_of_def)

text \<open>C39: two active layers do not compose with builder and proxy data. Every layer prepends them again and the
  decoder strips records only: with two active quiet layers the decoded bytes start with the proxy block,
  the builder data of the outer frame having been taken for a record header.\<close>

theorem two_layers_lose_builder_data:
  assumes "proxy_wf px" "proxy_len px + length data \<le> 32000"
    and "ls = [LayerWrapper_of QLayer True, LayerWrapper_of QLayer True]"
    and "f = pb_frame i off (n + proxy_len px) (proxy_block px data)" "off < 65536" "n + proxy_len px < 65536"
  shows "do { r \<leftarrow> QVPNLayersSettings_layers_encode_pb_proxy ls (PacketBuilderData_of i (of_nat off) (of_nat n)) px data;
      QVPNLayersSettings_layers_decode ls r } = Some (proxy_block px (app_record f))"
proof -
  let ?g = "pb_frame i off (n + proxy_len px) (proxy_block px (app_record f))"
  have len: "length f = 5 + (proxy_len px + length data)" "length ?g = 5 + (proxy_len px + (length f + 5))"
    using assms(4-6) length_proxy_block [OF assms(1)] pb_frame_reads(4) [OF assms(5,6)] by simp_all
  have small: "length ?g \<le> 65530" using len assms(2) by linarith
  have "QLayer_layer_decode ?g = Some (proxy_block px (app_record f))"
    using len(2) small by (intro QLayer_decode_any) (simp_all add: pb_frame_eq)
  then show ?thesis
    using assms(3,4) generate_frames(1) [OF assms(1), of i off n] QLayer_decode_record [OF small]
    by (simp add: QVPNLayersSettings_layers_encode_pb_proxy_def QVPNLayersSettings_layers_decode_def wrapper_defs
        LayerWrapper_of_def QLayer_encoders)
qed

theorem two_layers_lose_builder_data_witness:
  "do { r \<leftarrow> QVPNLayersSettings_layers_encode_pb_proxy
          [LayerWrapper_of QLayer True, LayerWrapper_of QLayer True]
          (PacketBuilderData_of 3 (of_nat 0) (of_nat 2)) sample_proxy [8, 9];
        QVPNLayersSettings_layers_decode [LayerWrapper_of QLayer True, LayerWrapper_of QLayer True] r } =
    Some (proxy_block sample_proxy (app_record (pb_frame 3 0 (2 + 18) (proxy_block sample_proxy [8, 9]))))"
  by (rule two_layers_lose_builder_data [OF _ _ refl, unfolded sample_proxy_ok(2)])
    (simp_all add: sample_proxy_ok)

text \<open>C23: receiving keeps the manager quiet. Whatever bytes a driver decodes, when it returns, no full packet
  and no cached entry is left behind and every builder in the table is well-formed.\<close>

theorem decode_keeps_manager_quiet:
  assumes "pm_quiet (packet_manager d)" "pm_ok (packet_manager d)" "order_spec order"
    and "QVPNServerDriver_decode_data order d m b e = Some (r, d')"
  shows "pm_quiet (packet_manager d') \<and> pm_ok (packet_manager d')"
  using quiet_manager_preserved [OF assms(1-3)] assms(4) by (simp add: server_driver_eq)

theorem decode_keeps_manager_quiet_witness:
  "\<exists>r d'. QVPNServerDriver_decode_data ascending fresh_driver (app_record [1, 2]) 0 (length (app_record [1, 2])) =
      Some (r, d') \<and> pm_quiet (packet_manager d')"
proof -
  have "QVPNServerDriver_decode_data ascending fresh_driver (app_record [1, 2]) 0 (length (app_record [1, 2])) =
      Some (None, fresh_driver)"
    unfolding server_driver_eq
    by (rule decode_refused [OF fresh_driver_ok(2) refl rd_range_all, of _ "[1, 2]"])
      (simp_all add: quiet_only_run fresh_driver_ok QLayer_decode_record frame_ok_def)
  then show ?thesis
    using decode_keeps_manager_quiet [OF fresh_driver_ok(2,3) ascending_order_spec] by blast
qed

end
