(* ===== verification/SafeReceive.thy ===== *)
theory SafeReceive
  imports TlsRecord
begin

text \<open>Receiving whole objects from a stream (\<open>SafeReceiveData\<close> of \<open>qvpn_lib.hpp\<close>, \<open>receive\<close> and \<open>safe_recv\<close> of
  \<open>QVPN_Socket\<close> in the Linux network tools).  The object template is a parameter: its static function
  \<open>bytes_parse\<close>.  The system call \<open>recv\<close> is a parameter too: what its successive calls return.\<close>

section \<open>Data\<close>

record NetStatus =
  ns_success :: bool
  ns_status :: int

record ReceiveData =
  rcv_status :: NetStatus
  rcv_size :: int
  rcv_data :: bytes

datatype SafeReceiveSignal = SFR_FULL_DATA | SFR_WAIT_DATA | SFR_NO_DATA | SFR_ERROR

type_synonym bytes_parser = "mem \<Rightarrow> ptr \<Rightarrow> ptr \<Rightarrow> ProtoTemplateParseResult option"

record SafeReceiveData =
  sr_status :: NetStatus
  sr_separators :: "(nat \<times> nat) list"
  sr_data :: bytes

definition SafeReceiveData_new :: SafeReceiveData where
  "SafeReceiveData_new = \<lparr> sr_status = \<lparr> ns_success = False, ns_status = 0 \<rparr>, sr_separators = [], sr_data = [] \<rparr>"

section \<open>Operations\<close>

definition SafeReceiveData_parse_object :: "bytes_parser \<Rightarrow> bytes_parser" where
  "SafeReceiveData_parse_object parse m b e = parse m b e"

definition SafeReceiveData_get_last_object :: "SafeReceiveData \<Rightarrow> nat \<times> SafeReceiveData" where
  "SafeReceiveData_get_last_object sr =
     (let sr = (if length (sr_separators sr) = 0 then sr\<lparr> sr_separators := sr_separators sr @ [(0, 0)] \<rparr> else sr)
      in (length (sr_separators sr) - 1, sr))"

definition SafeReceiveData_add_object :: "SafeReceiveData \<Rightarrow> mem \<Rightarrow> ptr \<Rightarrow> ptr \<Rightarrow> SafeReceiveData option" where
  "SafeReceiveData_add_object sr m b e = do {
     bs \<leftarrow> rd_range m b e;
     let data = sr_data sr @ bs;
     let start = length data - length bs;
     let fin = length data;
     Some (sr\<lparr> sr_data := data, sr_separators := sr_separators sr @ [(start, fin)] \<rparr>) }"

definition SafeReceiveData_add_data_to_object ::
    "SafeReceiveData \<Rightarrow> mem \<Rightarrow> ptr \<Rightarrow> ptr \<Rightarrow> SafeReceiveData option" where
  "SafeReceiveData_add_data_to_object sr m b e = do {
     let (last_obj, sr) = SafeReceiveData_get_last_object sr;
     (start, old) \<leftarrow> rd (sr_separators sr) last_obj;
     bs \<leftarrow> rd_range m b e;
     let data = sr_data sr @ bs;
     Some (sr\<lparr> sr_data := data, sr_separators := (sr_separators sr)[last_obj := (start, length data)] \<rparr>) }"

definition SafeReceiveData_parse_data ::
    "bytes_parser \<Rightarrow> SafeReceiveData \<Rightarrow> mem \<Rightarrow> ptr \<Rightarrow> ptr \<Rightarrow> (SafeReceiveSignal \<times> SafeReceiveData) option" where
  "SafeReceiveData_parse_data parse sr m b e = do {
     parse_res \<leftarrow> SafeReceiveData_parse_object parse m b e;
     case bp_signal parse_res of
       BP_FULL_OBJECT \<Rightarrow> do {
         sr \<leftarrow> SafeReceiveData_add_object sr m (pt_begin parse_res) (pt_end parse_res);
         Some (SFR_FULL_DATA, sr) }
     | BP_NOT_FULL_OBJECT \<Rightarrow> do {
         sr \<leftarrow> SafeReceiveData_add_object sr m (pt_begin parse_res) (pt_real_end parse_res);
         Some (SFR_WAIT_DATA, sr) }
     | BP_FULL_OBJECT_AND_TAIL \<Rightarrow> do {
         sr \<leftarrow> SafeReceiveData_add_object sr m (pt_begin parse_res) (pt_end parse_res);
         sr \<leftarrow> SafeReceiveData_add_object sr m (pt_end parse_res) (pt_real_end parse_res);
         Some (SFR_WAIT_DATA, sr) }
     | _ \<Rightarrow> Some (SFR_ERROR, sr) }"

text \<open>The loop of \<open>_add_data_and_parse\<close>: it leaves by a return statement only.\<close>

partial_function (option) add_data_loop ::
    "bytes_parser \<Rightarrow> nat \<Rightarrow> SafeReceiveData \<Rightarrow> nat \<Rightarrow> nat \<Rightarrow> (SafeReceiveSignal \<times> SafeReceiveData) option" where
  "add_data_loop parse last_obj sr start fin = do {
     parse_res \<leftarrow> SafeReceiveData_parse_object parse (sr_data sr) start fin;
     case bp_signal parse_res of
       BP_FULL_OBJECT \<Rightarrow> Some (SFR_FULL_DATA, sr)
     | BP_NOT_FULL_OBJECT \<Rightarrow> Some (SFR_WAIT_DATA, sr)
     | BP_FULL_OBJECT_AND_TAIL \<Rightarrow> do {
         (first, second) \<leftarrow> rd (sr_separators sr) last_obj;
         let size = pt_end parse_res - pt_begin parse_res;
         let tail_size = pt_real_end parse_res - pt_end parse_res;
         let tail_start = second;
         let seps = (sr_separators sr)[last_obj := (first, first + size)] @ [(tail_start, tail_start + tail_size)];
         add_data_loop parse last_obj (sr\<lparr> sr_separators := seps \<rparr>) tail_start (tail_start + tail_size) }
     | _ \<Rightarrow> Some (SFR_ERROR, sr) }"

definition SafeReceiveData_add_data_and_parse ::
    "bytes_parser \<Rightarrow> SafeReceiveData \<Rightarrow> mem \<Rightarrow> ptr \<Rightarrow> ptr \<Rightarrow> (SafeReceiveSignal \<times> SafeReceiveData) option" where
  "SafeReceiveData_add_data_and_parse parse sr m b e = do {
     let (last_obj, sr) = SafeReceiveData_get_last_object sr;
     (start, old) \<leftarrow> rd (sr_separators sr) last_obj;
     bs \<leftarrow> rd_range m b e;
     let data = sr_data sr @ bs;
     let fin = length data;
     add_data_loop parse last_obj
       (sr\<lparr> sr_data := data, sr_separators := (sr_separators sr)[last_obj := (start, fin)] \<rparr>) start fin }"

definition SafeReceiveData_add_objects_and_validate ::
    "bytes_parser \<Rightarrow> SafeReceiveData \<Rightarrow> SafeReceiveSignal \<Rightarrow> mem \<Rightarrow> ptr \<Rightarrow> ptr \<Rightarrow>
     (SafeReceiveSignal \<times> SafeReceiveData) option" where
  "SafeReceiveData_add_objects_and_validate parse sr prev_signal m b e =
     (if prev_signal = SFR_WAIT_DATA then SafeReceiveData_add_data_and_parse parse sr m b e
      else SafeReceiveData_parse_data parse sr m b e)"

definition SafeReceiveData_get_status :: "SafeReceiveData \<Rightarrow> NetStatus" where
  "SafeReceiveData_get_status sr = sr_status sr"

definition SafeReceiveData_set_status :: "SafeReceiveData \<Rightarrow> NetStatus \<Rightarrow> SafeReceiveData" where
  "SafeReceiveData_set_status sr st =
     sr\<lparr> sr_status := \<lparr> ns_success = ns_success st, ns_status = ns_status st \<rparr> \<rparr>"

definition SafeReceiveData_get_object_bytes :: "SafeReceiveData \<Rightarrow> nat \<Rightarrow> (ptr \<times> ptr) option" where
  "SafeReceiveData_get_object_bytes sr i = rd (sr_separators sr) i"

definition SafeReceiveData_get_objects_num :: "SafeReceiveData \<Rightarrow> UInt" where
  "SafeReceiveData_get_objects_num sr = of_nat (length (sr_separators sr))"

definition SafeReceiveData_to_bytes :: "SafeReceiveData \<Rightarrow> ptr \<times> ptr" where
  "SafeReceiveData_to_bytes sr = (0, length (sr_data sr))"

section \<open>Sockets\<close>

text \<open>\<open>recv\<close> gives its result, the error number and the buffer it filled.\<close>

definition QVPN_Socket_receive :: "int \<times> int \<times> bytes \<Rightarrow> ReceiveData" where
  "QVPN_Socket_receive r =
     (let (res, errno, buff) = r; success = 0 < res
      in \<lparr> rcv_status = \<lparr> ns_success = success, ns_status = (if success then 0 else errno) \<rparr>,
           rcv_size = res, rcv_data = buff \<rparr>)"

partial_function (option) safe_recv_loop ::
    "bytes_parser \<Rightarrow> (nat \<Rightarrow> int \<times> int \<times> bytes) \<Rightarrow> nat \<Rightarrow> int \<Rightarrow> SafeReceiveSignal \<Rightarrow> SafeReceiveData \<Rightarrow>
     (SafeReceiveData \<times> nat) option" where
  "safe_recv_loop parse recv num_calls num_tries signal sf_data =
     (if signal \<noteq> SFR_FULL_DATA \<or> signal = SFR_ERROR \<or> num_tries \<le> 0 then
        let data = QVPN_Socket_receive (recv num_calls);
            sf_data = SafeReceiveData_set_status sf_data (rcv_status data)
        in if \<not> ns_success (rcv_status data)
           then safe_recv_loop parse recv (Suc num_calls) (num_tries - 1) signal sf_data
           else do {
             (signal, sf_data) \<leftarrow> SafeReceiveData_add_objects_and_validate parse sf_data signal
               (rcv_data data) 0 (nat (rcv_size data));
             safe_recv_loop parse recv (Suc num_calls) num_tries signal sf_data }
      else Some (sf_data, num_calls))"

definition QVPN_Socket_safe_recv ::
    "bytes_parser \<Rightarrow> (nat \<Rightarrow> int \<times> int \<times> bytes) \<Rightarrow> (SafeReceiveData \<times> nat) option" where
  "QVPN_Socket_safe_recv parse recv = safe_recv_loop parse recv 0 20 SFR_NO_DATA SafeReceiveData_new"

text \<open>The loop sees its calls only through what \<open>receive\<close> makes of them.\<close>

lemma safe_recv_loop_mono:
  assumes "safe_recv_loop parse f n t s d = Some r" "\<And>k. QVPN_Socket_receive (f k) = QVPN_Socket_receive (g k)"
  shows "safe_recv_loop parse g n t s d = Some r"
proof -
  have "(\<forall>k. QVPN_Socket_receive (f k) = QVPN_Socket_receive (g k)) \<longrightarrow> safe_recv_loop parse g n t s d = Some r"
  proof (rule safe_recv_loop.raw_induct [where P = "\<lambda>parse f n t s d r.
      (\<forall>k. QVPN_Socket_receive (f k) = QVPN_Socket_receive (g k)) \<longrightarrow> safe_recv_loop parse g n t s d = Some r", OF _ assms(1)],
      intro impI, goal_cases)
    case (1 loop parse f n t s d r)
    then show ?case
      by (cases r, subst safe_recv_loop.simps) (auto simp: Let_def bind_eq_Some_conv split: if_splits)
  qed
  thus ?thesis using assms(2) by blast
qed

lemma safe_recv_loop_cong:
  "(\<And>k. QVPN_Socket_receive (f k) = QVPN_Socket_receive (g k)) \<Longrightarrow> safe_recv_loop parse f n t s d = safe_recv_loop parse g n t s d"
  using safe_recv_loop_mono [of parse f n t s d _ g] safe_recv_loop_mono [of parse g n t s d _ f]
  by (metis not_Some_eq)

section \<open>Objects in pieces\<close>

text \<open>The contract of a template: on memory that holds the first \<open>n\<close> bytes of an object followed by anything,
  \<open>bytes_parse\<close> tells whether the object is complete and where it ends.\<close>

locale proto_template =
  fixes parse :: bytes_parser and obj :: "bytes \<Rightarrow> bool"
  assumes framing: "obj x \<Longrightarrow> b + n \<le> length m \<Longrightarrow> n \<le> length (x @ rest) \<Longrightarrow> mslice m b n = take n (x @ rest) \<Longrightarrow>
    \<exists>r. parse m b (b + n) = Some r \<and> pt_begin r = b \<and> pt_real_end r = b + n \<and>
      bp_signal r = (if n < length x then BP_NOT_FULL_OBJECT
        else if n = length x then BP_FULL_OBJECT else BP_FULL_OBJECT_AND_TAIL) \<and>
      (length x \<le> n \<longrightarrow> pt_end r = b + length x)"
begin

lemma parse_prefix:
  assumes "obj (p @ q)" "q \<noteq> []" "b + length p \<le> length m" "mslice m b (length p) = p"
  shows "\<exists>r. parse m b (b + length p) = Some r \<and> pt_begin r = b \<and> pt_real_end r = b + length p \<and>
    bp_signal r = BP_NOT_FULL_OBJECT"
  using framing [OF assms(1,3), of "[]"] assms(2,4) by auto

lemma parse_exact:
  assumes "obj p" "b + length p \<le> length m" "mslice m b (length p) = p"
  shows "\<exists>r. parse m b (b + length p) = Some r \<and> pt_begin r = b \<and> pt_end r = b + length p \<and> bp_signal r = BP_FULL_OBJECT"
  using framing [OF assms(1,2), of "[]"] assms(3) by auto

lemma first_piece:
  assumes "obj (p @ q)" "take (length p) m = p"
  shows "SafeReceiveData_parse_data parse \<lparr> sr_status = s, sr_separators = [], sr_data = [] \<rparr> m 0 (length p) =
    Some (if q = [] then SFR_FULL_DATA else SFR_WAIT_DATA,
      \<lparr> sr_status = s, sr_separators = [(0, length p)], sr_data = p \<rparr>)"
proof -
  have len: "length p \<le> length m" using assms(2) by (metis length_take min.cobounded1)
  then have rd: "rd_range m 0 (length p) = Some p" using assms(2) by (simp add: rd_range_Some)
  have "mslice m 0 (length p) = p" using assms(2) by (simp add: mslice_def)
  then show ?thesis
    using parse_prefix [OF assms(1), of 0 m] parse_exact [of p 0 m] assms(1) len rd
    by (cases "q = []") (auto simp: SafeReceiveData_parse_data_def SafeReceiveData_parse_object_def
        SafeReceiveData_add_object_def)
qed

lemma next_piece:
  assumes "obj (p @ c @ q)" "take (length c) m = c"
  shows "SafeReceiveData_add_data_and_parse parse \<lparr> sr_status = s, sr_separators = [(0, length p)], sr_data = p \<rparr>
      m 0 (length c) =
    Some (if q = [] then SFR_FULL_DATA else SFR_WAIT_DATA,
      \<lparr> sr_status = s, sr_separators = [(0, length (p @ c))], sr_data = p @ c \<rparr>)"
proof -
  have len: "length c \<le> length m" using assms(2) by (metis length_take min.cobounded1)
  then have rd: "rd_range m 0 (length c) = Some c" using assms(2) by (simp add: rd_range_Some)
  have "mslice (p @ c) 0 (length (p @ c)) = p @ c" by (simp add: mslice_def)
  then show ?thesis
    using parse_prefix [of "p @ c" q 0 "p @ c"] parse_exact [of "p @ c" 0 "p @ c"] assms(1) rd
    by (cases "q = []") (auto simp: SafeReceiveData_add_data_and_parse_def SafeReceiveData_get_last_object_def
        add_data_loop.simps SafeReceiveData_parse_object_def rd_def)
qed

end

lemma record_parser_framing:
  assumes "length msg \<le> 65530" "b + n \<le> length m" "n \<le> length (app_record msg @ rest)"
    and "mslice m b n = take n (app_record msg @ rest)"
  shows "\<exists>r. TLS13_RecordView_bytes_parse m b (b + n) = Some r \<and> pt_begin r = b \<and> pt_real_end r = b + n \<and>
      bp_signal r = (if n < length (app_record msg) then BP_NOT_FULL_OBJECT
        else if n = length (app_record msg) then BP_FULL_OBJECT else BP_FULL_OBJECT_AND_TAIL) \<and>
      (length (app_record msg) \<le> n \<longrightarrow> pt_end r = b + length (app_record msg))"
proof (cases "n < 5")
  case True
  then show ?thesis using bytes_parse_at [OF assms(2)] by simp
next
  case False
  have nth: "m ! (b + k) = (app_record msg @ rest) ! k" if "k < n" for k
    using that assms(2) arg_cong [OF assms(4), of "\<lambda>xs. xs ! k"]
    by (simp add: mslice_def del: take_append)
  have "be16 (m ! (b + 3)) (m ! (b + 4)) = of_nat (length msg)"
    using False nth [of 3] nth [of 4] by (simp add: app_record_eq nth_append be16_bytes_def)
  then show ?thesis
    using False bytes_parse_at [OF assms(2)] full_length_16 [OF assms(1)] by (auto simp: Let_def)
qed

text \<open>Application records of at most 65530 message bytes are objects of both record templates.\<close>

definition is_app_record :: "bytes \<Rightarrow> bool" where
  "is_app_record x \<longleftrightarrow> 5 \<le> length x \<and> length x \<le> 65535 \<and> x = app_record (drop 5 x)"

lemma is_app_record_iff: "is_app_record x \<longleftrightarrow> (\<exists>msg. length msg \<le> 65530 \<and> x = app_record msg)"
proof
  assume "is_app_record x"
  then show "\<exists>msg. length msg \<le> 65530 \<and> x = app_record msg"
    unfolding is_app_record_def by (intro exI [of _ "drop 5 x"]) auto
next
  assume "\<exists>msg. length msg \<le> 65530 \<and> x = app_record msg"
  then show "is_app_record x" by (auto simp: is_app_record_def app_record_eq)
qed

interpretation record_view: proto_template TLS13_RecordView_bytes_parse is_app_record
proof
  fix x b n m rest
  assume "is_app_record x" and m: "b + n \<le> length m" "n \<le> length (x @ rest)" "mslice m b n = take n (x @ rest)"
  then obtain msg where "length msg \<le> 65530" "x = app_record msg" by (auto simp: is_app_record_iff)
  then show "\<exists>r. TLS13_RecordView_bytes_parse m b (b + n) = Some r \<and> pt_begin r = b \<and> pt_real_end r = b + n \<and>
      bp_signal r = (if n < length x then BP_NOT_FULL_OBJECT
        else if n = length x then BP_FULL_OBJECT else BP_FULL_OBJECT_AND_TAIL) \<and>
      (length x \<le> n \<longrightarrow> pt_end r = b + length x)"
    using record_parser_framing m by blast
qed

interpretation record_object: proto_template TLS13_RecordLE_bytes_parse is_app_record
  unfolding bytes_parse_LE by (rule record_view.proto_template_axioms)

section \<open>The receive loop\<close>

text \<open>The system delivers these pieces, from call \<open>k\<close> on: each call succeeds and fills the front of the buffer.\<close>

fun pieces_arrive :: "(nat \<Rightarrow> int \<times> int \<times> bytes) \<Rightarrow> nat \<Rightarrow> bytes list \<Rightarrow> bool" where
  "pieces_arrive recv k [] = True"
| "pieces_arrive recv k (c # cs) = ((case recv k of (res, errno, buff) \<Rightarrow>
     res = int (length c) \<and> take (length c) buff = c \<and> c \<noteq> []) \<and> pieces_arrive recv (Suc k) cs)"

definition ok_status :: NetStatus where
  "ok_status = \<lparr> ns_success = True, ns_status = 0 \<rparr>"

lemma receive_piece:
  assumes "pieces_arrive recv k (c # cs)" "num_tries > 0" "signal \<noteq> SFR_FULL_DATA"
  obtains buff where "take (length c) buff = c"
    "safe_recv_loop parse recv k num_tries signal sr = do {
       (signal, sr) \<leftarrow> SafeReceiveData_add_objects_and_validate parse (sr\<lparr> sr_status := ok_status \<rparr>) signal buff 0 (length c);
       safe_recv_loop parse recv (Suc k) num_tries signal sr }"
proof -
  obtain errno buff where r: "recv k = (int (length c), errno, buff)" "take (length c) buff = c" "c \<noteq> []"
    using assms(1) by (auto split: prod.splits)
  then show thesis using assms(2,3)
    by (intro that [of buff]) (simp_all add: safe_recv_loop.simps [of parse recv k] QVPN_Socket_receive_def
        SafeReceiveData_set_status_def ok_status_def)
qed

context proto_template begin

lemma remaining_pieces:
  assumes "obj (p @ concat cs)" "cs \<noteq> []" "pieces_arrive recv k cs" "num_tries > 0"
  shows "safe_recv_loop parse recv k num_tries SFR_WAIT_DATA
      \<lparr> sr_status = ok_status, sr_separators = [(0, length p)], sr_data = p \<rparr> =
    Some (\<lparr> sr_status = ok_status, sr_separators = [(0, length (p @ concat cs))], sr_data = p @ concat cs \<rparr>, k + length cs)"
  using assms
proof (induction cs arbitrary: p k)
  case (Cons c cs)
  obtain buff where buff: "take (length c) buff = c"
    "safe_recv_loop parse recv k num_tries SFR_WAIT_DATA
       \<lparr> sr_status = ok_status, sr_separators = [(0, length p)], sr_data = p \<rparr> = do {
     (signal, sr) \<leftarrow> SafeReceiveData_add_objects_and_validate parse
       (\<lparr> sr_status = ok_status, sr_separators = [(0, length p)], sr_data = p \<rparr>\<lparr> sr_status := ok_status \<rparr>)
       SFR_WAIT_DATA buff 0 (length c);
     safe_recv_loop parse recv (Suc k) num_tries signal sr }"
    using receive_piece [OF Cons.prems(3,4), of SFR_WAIT_DATA] by blast
  have step: "SafeReceiveData_add_objects_and_validate parse
      (\<lparr> sr_status = ok_status, sr_separators = [(0, length p)], sr_data = p \<rparr>\<lparr> sr_status := ok_status \<rparr>)
      SFR_WAIT_DATA buff 0 (length c) = Some (if concat cs = [] then SFR_FULL_DATA else SFR_WAIT_DATA,
        \<lparr> sr_status = ok_status, sr_separators = [(0, length (p @ c))], sr_data = p @ c \<rparr>)"
    using next_piece [OF _ buff(1), of p "concat cs"] Cons.prems(1)
    by (simp add: SafeReceiveData_add_objects_and_validate_def)
  show ?case
  proof (cases "cs = []")
    case True
    then show ?thesis using buff(2) step Cons.prems(4) by (simp add: safe_recv_loop.simps [of parse recv "Suc k"])
  next
    case False
    then have ne: "concat cs \<noteq> []" using Cons.prems(3) by (cases cs) (auto split: prod.splits)
    note step' = step [unfolded if_not_P [OF this]]
    show ?thesis
      unfolding buff(2) step' using Cons.IH [of "p @ c" "Suc k"] False Cons.prems by simp
  qed
qed simp

lemma object_in_pieces:
  assumes "obj (concat cs)" "cs \<noteq> []" "pieces_arrive recv 0 cs"
  shows "QVPN_Socket_safe_recv parse recv =
    Some (\<lparr> sr_status = ok_status, sr_separators = [(0, length (concat cs))], sr_data = concat cs \<rparr>, length cs)"
proof -
  obtain c ds where cs: "cs = c # ds" using assms(2) by (cases cs) auto
  obtain buff where buff: "take (length c) buff = c"
    "QVPN_Socket_safe_recv parse recv = do {
     (signal, sr) \<leftarrow> SafeReceiveData_add_objects_and_validate parse (SafeReceiveData_new\<lparr> sr_status := ok_status \<rparr>)
       SFR_NO_DATA buff 0 (length c);
     safe_recv_loop parse recv (Suc 0) 20 signal sr }"
    using receive_piece [of recv 0 c ds 20 SFR_NO_DATA parse SafeReceiveData_new] assms(3) cs
    unfolding QVPN_Socket_safe_recv_def by auto
  have step: "SafeReceiveData_add_objects_and_validate parse (SafeReceiveData_new\<lparr> sr_status := ok_status \<rparr>)
      SFR_NO_DATA buff 0 (length c) = Some (if concat ds = [] then SFR_FULL_DATA else SFR_WAIT_DATA,
        \<lparr> sr_status = ok_status, sr_separators = [(0, length c)], sr_data = c \<rparr>)"
    using first_piece [OF _ buff(1), of "concat ds" ok_status] assms(1) cs
    by (simp add: SafeReceiveData_add_objects_and_validate_def SafeReceiveData_new_def)
  show ?thesis
  proof (cases "ds = []")
    case True
    then show ?thesis using buff(2) step cs by (simp add: safe_recv_loop.simps [of parse recv "Suc 0"])
  next
    case False
    then have "concat ds \<noteq> []" using assms(3) cs by (cases ds) (auto split: prod.splits)
    note step' = step [unfolded if_not_P [OF this]]
    show ?thesis
      using remaining_pieces [of c ds recv "Suc 0" 20] False assms cs by (simp add: buff(2) step')
  qed
qed

text \<open>A piece that completes an object and goes on behind it.\<close>

lemma piece_with_tail:
  assumes "obj (p @ c)" "t \<noteq> []"
  shows "SafeReceiveData_add_data_and_parse parse \<lparr> sr_status = s, sr_separators = [(0, length p)], sr_data = p \<rparr>
      (c @ t) 0 (length (c @ t)) =
    add_data_loop parse 0 \<lparr> sr_status = s, sr_separators = [(0, length (p @ c)),
        (length (p @ c @ t), length (p @ c @ t) + length t)], sr_data = p @ c @ t \<rparr>
      (length (p @ c @ t)) (length (p @ c @ t) + length t)"
proof -
  have "mslice (p @ c @ t) 0 (length (p @ c @ t)) = take (length (p @ c @ t)) ((p @ c) @ t)" by (simp add: mslice_def)
  then obtain r where "parse (p @ c @ t) 0 (0 + length (p @ c @ t)) = Some r" "pt_begin r = 0"
    "pt_real_end r = 0 + length (p @ c @ t)" "bp_signal r = BP_FULL_OBJECT_AND_TAIL" "pt_end r = 0 + length (p @ c)"
    using framing [OF assms(1), of 0 "length (p @ c @ t)" "p @ c @ t" t] assms(2) by auto
  then show ?thesis
    using rd_range_all [of "c @ t"]
    by (simp add: SafeReceiveData_add_data_and_parse_def SafeReceiveData_get_last_object_def rd_def
        SafeReceiveData_parse_object_def Let_def add_data_loop.simps [of parse 0 _ 0])
qed

lemma first_piece_with_tail:
  assumes "obj p" "t \<noteq> []"
  shows "SafeReceiveData_parse_data parse \<lparr> sr_status = s, sr_separators = [], sr_data = [] \<rparr> (p @ t) 0 (length (p @ t)) =
    Some (SFR_WAIT_DATA, \<lparr> sr_status = s, sr_separators = [(0, length p), (length p, length (p @ t))], sr_data = p @ t \<rparr>)"
proof -
  have "mslice (p @ t) 0 (length (p @ t)) = take (length (p @ t)) (p @ t)" by (simp add: mslice_def)
  then obtain r where "parse (p @ t) 0 (0 + length (p @ t)) = Some r" "pt_begin r = 0"
    "pt_real_end r = 0 + length (p @ t)" "bp_signal r = BP_FULL_OBJECT_AND_TAIL" "pt_end r = 0 + length p"
    using framing [OF assms(1), of 0 "length (p @ t)" "p @ t" t] assms(2) by auto
  then show ?thesis
    by (simp add: SafeReceiveData_parse_data_def SafeReceiveData_parse_object_def SafeReceiveData_add_object_def
        rd_range_def)
qed

end

text \<open>The loop leaves only with tries left, and failed calls use them up.\<close>

lemma safe_recv_needs_tries:
  assumes ret: "safe_recv_loop parse recv k num_tries signal sr = Some y"
  shows "num_tries > 0"
proof (rule safe_recv_loop.raw_induct
    [where P = "\<lambda>parse recv k num_tries signal sr y. num_tries > 0", OF _ ret], goal_cases)
  case (1 loop parse recv k num_tries signal sr y)
  show ?case
  proof (rule ccontr)
    assume "\<not> 0 < num_tries"
    then have "\<exists>k signal sr. loop parse recv k num_tries signal sr = Some y \<or>
        loop parse recv k (num_tries - 1) signal sr = Some y"
      using 1(2) by (auto simp: Let_def bind_eq_Some_conv split: if_splits)
    then show False using 1(1) \<open>\<not> 0 < num_tries\<close> by fastforce
  qed
qed

lemma record_parse_outside:
  assumes "length m \<le> b" "5 \<le> n"
  shows "TLS13_RecordView_bytes_parse m b (b + n) = None"
  using assms by (simp add: TLS13_RecordView_bytes_parse_def record_view_defs rd16_def rd_None)

lemma record_parse_short:
  assumes "n < 5"
  shows "TLS13_RecordView_bytes_parse m b (b + n) =
    Some \<lparr> pt_begin = b, pt_end = b + n, bp_signal = BP_NOT_FULL_OBJECT, pt_real_end = b + n \<rparr>"
  using assms by (simp add: TLS13_RecordView_bytes_parse_def)

section \<open>Properties\<close>

text \<open>C10: a record arrives whole, however it is cut. When the system delivers an application record of at
  most 65530 message bytes in any number of non-empty pieces, \<open>safe_recv\<close> returns after exactly as many
  calls with one object, the whole record.\<close>

theorem safe_recv_reassembles_record:
  assumes "concat cs = app_record msg" "length msg \<le> 65530" "pieces_arrive recv 0 cs"
  shows "QVPN_Socket_safe_recv TLS13_RecordView_bytes_parse recv =
    Some (\<lparr> sr_status = ok_status, sr_separators = [(0, length msg + 5)], sr_data = app_record msg \<rparr>, length cs)"
proof -
  have "is_app_record (concat cs)" using assms(1,2) by (auto simp: is_app_record_iff)
  moreover have "cs \<noteq> []" using assms(1) by (auto simp: app_record_eq)
  ultimately show ?thesis using record_view.object_in_pieces [OF _ _ assms(3)] assms(1) by simp
qed

theorem safe_recv_reassembles_record_witness:
  "QVPN_Socket_safe_recv TLS13_RecordView_bytes_parse
      (\<lambda>k. if k = 0 then (3, 0, [23, 3, 3, 0]) else if k = 1 then (4, 0, [0, 2, 8, 9]) else (- 1, 11, [])) =
    Some (\<lparr> sr_status = ok_status, sr_separators = [(0, 7)], sr_data = [23, 3, 3, 0, 2, 8, 9] \<rparr>, 2)"
proof -
  have "app_record [8, 9] = [23, 3, 3, 0, 2, 8, 9]"
    by (simp add: app_record_eq be16_bytes_def byte_of_def)
  then show ?thesis
    using safe_recv_reassembles_record [of "[[23, 3, 3], [0, 2, 8, 9]]" "[8, 9]"
        "\<lambda>k. if k = 0 then (3, 0, [23, 3, 3, 0]) else if k = 1 then (4, 0, [0, 2, 8, 9]) else (- 1, 11, [])"]
    by simp
qed

text \<open>C27: the loop has no way out after failures. Once the tries are used up \<open>safe_recv\<close> never returns,
  whatever the system then delivers; in particular it never returns on a connection whose every receive
  fails. The loop condition continues on exactly the states it should leave on.\<close>

theorem safe_recv_spins_on_failure:
  "(num_tries \<le> 0 \<longrightarrow> safe_recv_loop parse recv k num_tries signal sr = None) \<and>
   ((\<forall>k. \<not> 0 < fst (recv k)) \<longrightarrow> QVPN_Socket_safe_recv parse recv = None)"
proof (intro conjI impI)
  show "safe_recv_loop parse recv k num_tries signal sr = None" if "num_tries \<le> 0"
    using safe_recv_needs_tries [of parse recv k num_tries signal sr] that
    by (cases "safe_recv_loop parse recv k num_tries signal sr") auto
  show "QVPN_Socket_safe_recv parse recv = None" if fails: "\<forall>k. \<not> 0 < fst (recv k)"
  proof -
    have "safe_recv_loop parse recv k (int n) SFR_NO_DATA sr = None" for n k sr
    proof (induction n arbitrary: k sr)
      case 0
      then show ?case
        using safe_recv_needs_tries [of parse recv k 0 SFR_NO_DATA sr]
        by (cases "safe_recv_loop parse recv k 0 SFR_NO_DATA sr") auto
    next
      case (Suc n)
      have "\<not> ns_success (rcv_status (QVPN_Socket_receive (recv k)))"
        using fails by (simp add: QVPN_Socket_receive_def Let_def split: prod.splits) (metis fst_conv)
      then show ?case using Suc.IH by (simp add: safe_recv_loop.simps [of parse recv k] Let_def)
    qed
    from this [where n = 20] show ?thesis by (simp add: QVPN_Socket_safe_recv_def)
  qed
qed

theorem safe_recv_spins_on_failure_witness:
  "QVPN_Socket_safe_recv TLS13_RecordView_bytes_parse (\<lambda>k. (- 1, 11, [])) = None"
  using safe_recv_spins_on_failure [of 0 TLS13_RecordView_bytes_parse "\<lambda>k. (- 1, 11, [])"] by simp

text \<open>Bytes behind a record in the piece that completes it are mishandled. The separator of the tail is
  placed behind the received data: a tail of one to four bytes is skipped when the stream goes on, and
  with a longer tail the parser reads past the end of the data.\<close>

lemma tail_separator_past_data:
  assumes "p @ c = app_record msg" "length msg \<le> 65530" "t \<noteq> []"
    and "n = length (app_record msg)"
  shows "SafeReceiveData_add_data_and_parse TLS13_RecordView_bytes_parse
      \<lparr> sr_status = s, sr_separators = [(0, length p)], sr_data = p \<rparr> (c @ t) 0 (length (c @ t)) =
    (if length t < 5 then Some (SFR_WAIT_DATA, \<lparr> sr_status = s,
       sr_separators = [(0, n), (n + length t, n + length t + length t)], sr_data = app_record msg @ t \<rparr>)
     else None)"
proof -
  have obj: "is_app_record (p @ c)" using assms(1,2) by (auto simp: is_app_record_iff)
  have n: "length (p @ c) = n" "length (p @ c @ t) = n + length t" "p @ c @ t = app_record msg @ t"
    using assms(1,4) by (simp_all flip: append_assoc add: assms(1))
  show ?thesis
    unfolding record_view.piece_with_tail [OF obj assms(3)] n(1,2) unfolding n(3)
    using assms(4) record_parse_outside [of "app_record msg @ t" "n + length t" "length t"]
      record_parse_short [of "length t" "app_record msg @ t" "n + length t"]
    by (subst add_data_loop.simps) (auto simp: SafeReceiveData_parse_object_def)
qed

text \<open>A second record in the first piece is not recognised. When a first piece holds a complete record
  and something behind it, even a second complete record, the signal is to wait for more data.\<close>

lemma second_record_waits:
  assumes "length msg \<le> 65530" "t \<noteq> []"
  shows "SafeReceiveData_add_objects_and_validate TLS13_RecordView_bytes_parse SafeReceiveData_new SFR_NO_DATA
      (app_record msg @ t) 0 (length (app_record msg @ t)) =
    Some (SFR_WAIT_DATA, SafeReceiveData_new\<lparr> sr_separators := [(0, length msg + 5),
      (length msg + 5, length msg + 5 + length t)], sr_data := app_record msg @ t \<rparr>)"
proof -
  have "is_app_record (app_record msg)" using assms(1) by (auto simp: is_app_record_iff)
  from record_view.first_piece_with_tail [OF this assms(2)] show ?thesis
    by (simp add: SafeReceiveData_add_objects_and_validate_def SafeReceiveData_new_def)
qed

end
