(* ===== verification/TlsFields.thy ===== *)
theory TlsFields
  imports TlsRecord
begin

text \<open>The fields of the TLS hello messages (\<open>qvpn_structures.hpp/.cpp\<close>): random, session id, cipher suites,
  compression methods, and the extensions with their entries, each as an owning class and as a view.  An
  owning object is its byte vector; a view is a pointer and a 32 bit size.

  The bytes \<open>TLSTools::bytes_generator\<close> draws from a freshly seeded generator and the value of
  \<open>std::time\<close> are arguments: \<open>rs i\<close> is the \<open>i\<close>-th byte a call draws, and where a generator makes several calls
  \<open>rss k\<close> is the source of the \<open>k\<close>-th one.  The constructors take the end of the range as the code does and,
  as the code, do not look at it.\<close>

section \<open>Constants\<close>

type_synonym TLSExtensionType = UShort
type_synonym TLSKeyTypes = UShort
type_synonym TLSKeyTypesLength = UShort
type_synonym TLSSNIRecordType = UByte
type_synonym byte_source = "nat \<Rightarrow> UByte"

definition TLSExtensionType_SERVER_NAME :: "TLSExtensionType" where
  "TLSExtensionType_SERVER_NAME = 0"

definition TLSExtensionType_SUPPORTED_GROUPS :: "TLSExtensionType" where
  "TLSExtensionType_SUPPORTED_GROUPS = 10"

definition TLSExtensionType_SIGNATURE_ALGORITHMS :: "TLSExtensionType" where
  "TLSExtensionType_SIGNATURE_ALGORITHMS = 13"

definition TLSExtensionType_ALPN :: "TLSExtensionType" where
  "TLSExtensionType_ALPN = 16"

definition TLSExtensionType_KEY_SHARE :: "TLSExtensionType" where
  "TLSExtensionType_KEY_SHARE = 40"

definition TLSExtensionType_SUPPORTED_VERSIONS :: "TLSExtensionType" where
  "TLSExtensionType_SUPPORTED_VERSIONS = 43"

definition TLSProtocolVersion_SSL30 :: "TLSProtocolVersion" where
  "TLSProtocolVersion_SSL30 = 0x0300"

definition TLSProtocolVersion_TLS10 :: "TLSProtocolVersion" where
  "TLSProtocolVersion_TLS10 = 0x0301"

definition TLSProtocolVersion_TLS11 :: "TLSProtocolVersion" where
  "TLSProtocolVersion_TLS11 = 0x0302"

definition TLSKeyTypes_X25519 :: "TLSKeyTypes" where
  "TLSKeyTypes_X25519 = 0x001D"

definition TLSKeyTypesLength_X25519_LENGTH :: "TLSKeyTypesLength" where
  "TLSKeyTypesLength_X25519_LENGTH = 32"

definition TLSSNIRecordType_HOST_NAME :: "TLSSNIRecordType" where
  "TLSSNIRecordType_HOST_NAME = 0"

record tls_view =
  tv_data :: ptr
  tv_size :: UInt

section \<open>Random bytes\<close>

text \<open>The vector is resized, which clears it, and its bytes from \<open>payload_offset\<close> on are drawn.  A payload offset past
  the end is an invalid range.  The array of 32 bytes is not cleared, but its only user writes every byte
  before the payload, so it starts from zeros here.\<close>

definition vector_bytes_generator :: "byte_source \<Rightarrow> nat \<Rightarrow> nat \<Rightarrow> bytes option" where
  "vector_bytes_generator rs len payload_offset = 
     (if payload_offset \<le> len then Some (replicate payload_offset 0 @ map rs [0..<len - payload_offset]) else None)"

definition array32_bytes_generator :: "byte_source \<Rightarrow> nat \<Rightarrow> bytes option" where
  "array32_bytes_generator rs payload_offset = vector_bytes_generator rs 32 payload_offset"

section \<open>Random\<close>

definition TLSRandomLE_of_range :: "mem \<Rightarrow> ptr \<Rightarrow> ptr \<Rightarrow> bytes option" where
  "TLSRandomLE_of_range m first e = rd_range m first (first + 32)"

definition TLSRandomLE_generate_object_bytes :: "byte_source \<Rightarrow> UInt \<Rightarrow> bytes option" where
  "TLSRandomLE_generate_object_bytes rs time = do {
     obj_bytes \<leftarrow> array32_bytes_generator rs 4;
     wr32 obj_bytes 0 time }"

definition TLSRandomLE_generate_object :: "byte_source \<Rightarrow> UInt \<Rightarrow> bytes option" where
  "TLSRandomLE_generate_object rs time = do {
     obj_bytes \<leftarrow> TLSRandomLE_generate_object_bytes rs time;
     TLSRandomLE_of_range obj_bytes 0 (length obj_bytes) }"

definition TLSRandomLE_get_tls_random_full_length :: "UShort" where
  "TLSRandomLE_get_tls_random_full_length = 32"

definition TLSRandomLE_get_tls_unix_time :: "bytes \<Rightarrow> UInt option" where
  "TLSRandomLE_get_tls_unix_time d = rd32 d 0"

definition TLSRandomLE_get_tls_random_bytes :: "bytes \<Rightarrow> bytes option" where
  "TLSRandomLE_get_tls_random_bytes d = rd_range d 4 (length d)"

definition TLSRandomLE_to_bytes :: "bytes \<Rightarrow> bytes" where
  "TLSRandomLE_to_bytes d = d"

definition TLSRandomView_to_bytes :: "tls_view \<Rightarrow> ptr \<times> ptr" where
  "TLSRandomView_to_bytes v = (tv_data v, tv_data v + unat (tv_size v))"

definition TLSRandomView_of_range :: "ptr \<Rightarrow> ptr \<Rightarrow> tls_view" where
  "TLSRandomView_of_range first e = \<lparr> tv_data = first, tv_size = 32 \<rparr>"

definition TLSRandomView_generate_object_bytes :: "byte_source \<Rightarrow> UInt \<Rightarrow> bytes option" where
  "TLSRandomView_generate_object_bytes = TLSRandomLE_generate_object_bytes"

definition TLSRandomView_generate_object :: "byte_source \<Rightarrow> UInt \<Rightarrow> bytes option" where
  "TLSRandomView_generate_object = TLSRandomLE_generate_object"

definition TLSRandomView_get_tls_random_full_length :: "UShort" where
  "TLSRandomView_get_tls_random_full_length = 32"

definition TLSRandomView_get_tls_unix_time :: "tls_view \<Rightarrow> mem \<Rightarrow> UInt option" where
  "TLSRandomView_get_tls_unix_time v m = rd32 m (tv_data v)"

definition TLSRandomView_get_tls_random_bytes :: "tls_view \<Rightarrow> ptr \<times> ptr" where
  "TLSRandomView_get_tls_random_bytes v = (tv_data v + 4, tv_data v + unat (tv_size v))"

section \<open>Session id\<close>

definition TLSSessionIDLE_of_range :: "mem \<Rightarrow> ptr \<Rightarrow> ptr \<Rightarrow> bytes option" where
  "TLSSessionIDLE_of_range m first e = do {
     len \<leftarrow> rd m first;
     rd_range m first (first + unat len + 1) }"

text \<open>Of a range, as the authorisation uses it: the length is stored in a byte.\<close>

definition TLSSessionIDLE_generate_range_bytes :: "bytes \<Rightarrow> bytes" where
  "TLSSessionIDLE_generate_range_bytes data = (let size = (of_nat (length data) :: UByte) in [size] @ data)"

definition TLSSessionIDLE_generate_range_object :: "bytes \<Rightarrow> bytes option" where
  "TLSSessionIDLE_generate_range_object data = (let obj_bytes = TLSSessionIDLE_generate_range_bytes data
     in TLSSessionIDLE_of_range obj_bytes 0 (length obj_bytes))"

text \<open>Of random bytes: the full length passes through a byte.\<close>

definition TLSSessionIDLE_generate_object_bytes :: "byte_source \<Rightarrow> UByte \<Rightarrow> bytes option" where
  "TLSSessionIDLE_generate_object_bytes rs len = do {
     obj_bytes \<leftarrow> vector_bytes_generator rs (unat (of_nat (unat len + 1) :: UByte)) 1;
     wr obj_bytes 0 len }"

definition TLSSessionIDLE_generate_object :: "byte_source \<Rightarrow> UByte \<Rightarrow> bytes option" where
  "TLSSessionIDLE_generate_object rs len = do {
     obj_bytes \<leftarrow> TLSSessionIDLE_generate_object_bytes rs len;
     TLSSessionIDLE_of_range obj_bytes 0 (length obj_bytes) }"

definition TLSSessionIDLE_get_tls_id_length :: "bytes \<Rightarrow> UByte option" where
  "TLSSessionIDLE_get_tls_id_length d = rd d 0"

definition TLSSessionIDLE_get_tls_id_full_length :: "bytes \<Rightarrow> UShort option" where
  "TLSSessionIDLE_get_tls_id_full_length d =
     map_option (\<lambda>n. ucast n + 1) (TLSSessionIDLE_get_tls_id_length d)"

definition TLSSessionIDView_get_tls_id_length :: "tls_view \<Rightarrow> mem \<Rightarrow> UByte option" where
  "TLSSessionIDView_get_tls_id_length v m = rd m (tv_data v)"

definition TLSSessionIDView_get_tls_id_full_length :: "tls_view \<Rightarrow> mem \<Rightarrow> UInt option" where
  "TLSSessionIDView_get_tls_id_full_length v m =
     map_option (\<lambda>n. ucast n + 1) (TLSSessionIDView_get_tls_id_length v m)"

definition TLSSessionIDView_of_range :: "mem \<Rightarrow> ptr \<Rightarrow> ptr \<Rightarrow> tls_view option" where
  "TLSSessionIDView_of_range m first e = do {
     let v = \<lparr> tv_data = first, tv_size = 0 \<rparr>;
     len \<leftarrow> TLSSessionIDView_get_tls_id_full_length v m;
     Some (v \<lparr> tv_size := ucast len \<rparr>) }"

definition TLSSessionIDLE_get_tls_id :: "bytes \<Rightarrow> bytes option" where
  "TLSSessionIDLE_get_tls_id d = rd_range d 1 (length d)"

definition TLSSessionIDView_get_tls_id :: "tls_view \<Rightarrow> ptr \<times> ptr" where
  "TLSSessionIDView_get_tls_id v = (tv_data v + 1, tv_data v + unat (tv_size v))"

definition TLSSessionIDLE_to_bytes :: "bytes \<Rightarrow> bytes" where
  "TLSSessionIDLE_to_bytes d = d"

definition TLSSessionIDView_to_bytes :: "tls_view \<Rightarrow> ptr \<times> ptr" where
  "TLSSessionIDView_to_bytes v = (tv_data v, tv_data v + unat (tv_size v))"

definition TLSSessionIDView_generate_range_bytes :: "bytes \<Rightarrow> bytes" where
  "TLSSessionIDView_generate_range_bytes = TLSSessionIDLE_generate_range_bytes"

definition TLSSessionIDView_generate_object_bytes :: "byte_source \<Rightarrow> UByte \<Rightarrow> bytes option" where
  "TLSSessionIDView_generate_object_bytes = TLSSessionIDLE_generate_object_bytes"

definition TLSSessionIDView_generate_object :: "byte_source \<Rightarrow> UByte \<Rightarrow> bytes option" where
  "TLSSessionIDView_generate_object = TLSSessionIDLE_generate_object"

section \<open>Cipher suites\<close>

definition TLSCipherSuitLE_of_range :: "mem \<Rightarrow> ptr \<Rightarrow> ptr \<Rightarrow> bytes option" where
  "TLSCipherSuitLE_of_range m first e = do {
     len \<leftarrow> rd16 m first;
     rd_range m first (first + unat len + 2) }"

text \<open>The full length, a sixteen bit length plus two, passes through a byte too.\<close>

definition TLSCipherSuitLE_generate_object_bytes :: "byte_source \<Rightarrow> UShort \<Rightarrow> bytes option" where
  "TLSCipherSuitLE_generate_object_bytes rs len = do {
     obj_bytes \<leftarrow> vector_bytes_generator rs (unat (of_nat (unat len + 2) :: UByte)) 2;
     wr16 obj_bytes 0 len }"

definition TLSCipherSuitLE_generate_object :: "byte_source \<Rightarrow> UShort \<Rightarrow> bytes option" where
  "TLSCipherSuitLE_generate_object rs len = do {
     obj_bytes \<leftarrow> TLSCipherSuitLE_generate_object_bytes rs len;
     TLSCipherSuitLE_of_range obj_bytes 0 (length obj_bytes) }"

definition TLSCipherSuitLE_get_tls_ciphers_length :: "bytes \<Rightarrow> UShort option" where
  "TLSCipherSuitLE_get_tls_ciphers_length d = rd16 d 0"

definition TLSCipherSuitLE_get_tls_ciphers_full_length :: "bytes \<Rightarrow> UShort option" where
  "TLSCipherSuitLE_get_tls_ciphers_full_length d =
     map_option (\<lambda>n. n + 2) (TLSCipherSuitLE_get_tls_ciphers_length d)"

definition TLSCipherSuitView_get_tls_ciphers_length :: "tls_view \<Rightarrow> mem \<Rightarrow> UShort option" where
  "TLSCipherSuitView_get_tls_ciphers_length v m = rd16 m (tv_data v)"

definition TLSCipherSuitView_get_tls_ciphers_full_length :: "tls_view \<Rightarrow> mem \<Rightarrow> UShort option" where
  "TLSCipherSuitView_get_tls_ciphers_full_length v m =
     map_option (\<lambda>n. n + 2) (TLSCipherSuitView_get_tls_ciphers_length v m)"

definition TLSCipherSuitView_of_range :: "mem \<Rightarrow> ptr \<Rightarrow> ptr \<Rightarrow> tls_view option" where
  "TLSCipherSuitView_of_range m first e = do {
     let v = \<lparr> tv_data = first, tv_size = 0 \<rparr>;
     len \<leftarrow> TLSCipherSuitView_get_tls_ciphers_full_length v m;
     Some (v \<lparr> tv_size := ucast len \<rparr>) }"

definition TLSCipherSuitLE_get_cipher_suites :: "bytes \<Rightarrow> bytes option" where
  "TLSCipherSuitLE_get_cipher_suites d = rd_range d 2 (length d)"

definition TLSCipherSuitView_get_cipher_suites :: "tls_view \<Rightarrow> ptr \<times> ptr" where
  "TLSCipherSuitView_get_cipher_suites v = (tv_data v + 2, tv_data v + unat (tv_size v))"

definition TLSCipherSuitLE_to_bytes :: "bytes \<Rightarrow> bytes" where
  "TLSCipherSuitLE_to_bytes d = d"

definition TLSCipherSuitView_to_bytes :: "tls_view \<Rightarrow> ptr \<times> ptr" where
  "TLSCipherSuitView_to_bytes v = (tv_data v, tv_data v + unat (tv_size v))"

definition TLSCipherSuitView_generate_object_bytes :: "byte_source \<Rightarrow> UShort \<Rightarrow> bytes option" where
  "TLSCipherSuitView_generate_object_bytes = TLSCipherSuitLE_generate_object_bytes"

definition TLSCipherSuitView_generate_object :: "byte_source \<Rightarrow> UShort \<Rightarrow> bytes option" where
  "TLSCipherSuitView_generate_object = TLSCipherSuitLE_generate_object"

section \<open>Compression methods\<close>

definition TLSCompressionLE_of_range :: "mem \<Rightarrow> ptr \<Rightarrow> ptr \<Rightarrow> bytes option" where
  "TLSCompressionLE_of_range m first e = do {
     len \<leftarrow> rd m first;
     rd_range m first (first + unat len + 1) }"

definition TLSCompressionLE_generate_object_bytes :: "byte_source \<Rightarrow> UByte \<Rightarrow> bytes option" where
  "TLSCompressionLE_generate_object_bytes rs len = do {
     obj_bytes \<leftarrow> vector_bytes_generator rs (unat (of_nat (unat len + 1) :: UByte)) 1;
     wr obj_bytes 0 len }"

definition TLSCompressionLE_generate_object :: "byte_source \<Rightarrow> UByte \<Rightarrow> bytes option" where
  "TLSCompressionLE_generate_object rs len = do {
     obj_bytes \<leftarrow> TLSCompressionLE_generate_object_bytes rs len;
     TLSCompressionLE_of_range obj_bytes 0 (length obj_bytes) }"

definition TLSCompressionLE_get_tls_compressions_length :: "bytes \<Rightarrow> UByte option" where
  "TLSCompressionLE_get_tls_compressions_length d = rd d 0"

definition TLSCompressionLE_get_tls_compressions_full_length :: "bytes \<Rightarrow> UShort option" where
  "TLSCompressionLE_get_tls_compressions_full_length d =
     map_option (\<lambda>n. ucast n + 1) (TLSCompressionLE_get_tls_compressions_length d)"

definition TLSCompressionView_get_tls_compressions_length :: "tls_view \<Rightarrow> mem \<Rightarrow> UByte option" where
  "TLSCompressionView_get_tls_compressions_length v m = rd m (tv_data v)"

definition TLSCompressionView_get_tls_compressions_full_length :: "tls_view \<Rightarrow> mem \<Rightarrow> UShort option" where
  "TLSCompressionView_get_tls_compressions_full_length v m =
     map_option (\<lambda>n. ucast n + 1) (TLSCompressionView_get_tls_compressions_length v m)"

definition TLSCompressionView_of_range :: "mem \<Rightarrow> ptr \<Rightarrow> ptr \<Rightarrow> tls_view option" where
  "TLSCompressionView_of_range m first e = do {
     let v = \<lparr> tv_data = first, tv_size = 0 \<rparr>;
     len \<leftarrow> TLSCompressionView_get_tls_compressions_full_length v m;
     Some (v \<lparr> tv_size := ucast len \<rparr>) }"

definition TLSCompressionLE_get_tls_compressions :: "bytes \<Rightarrow> bytes option" where
  "TLSCompressionLE_get_tls_compressions d = rd_range d 1 (length d)"

definition TLSCompressionView_get_tls_compressions :: "tls_view \<Rightarrow> ptr \<times> ptr" where
  "TLSCompressionView_get_tls_compressions v = (tv_data v + 1, tv_data v + unat (tv_size v))"

definition TLSCompressionLE_to_bytes :: "bytes \<Rightarrow> bytes" where
  "TLSCompressionLE_to_bytes d = d"

definition TLSCompressionView_to_bytes :: "tls_view \<Rightarrow> ptr \<times> ptr" where
  "TLSCompressionView_to_bytes v = (tv_data v, tv_data v + unat (tv_size v))"

definition TLSCompressionView_generate_object_bytes :: "byte_source \<Rightarrow> UByte \<Rightarrow> bytes option" where
  "TLSCompressionView_generate_object_bytes = TLSCompressionLE_generate_object_bytes"

definition TLSCompressionView_generate_object :: "byte_source \<Rightarrow> UByte \<Rightarrow> bytes option" where
  "TLSCompressionView_generate_object = TLSCompressionLE_generate_object"

section \<open>Supported versions\<close>

definition TLSSupportedVersionsEntryLE_of_range :: "mem \<Rightarrow> ptr \<Rightarrow> ptr \<Rightarrow> bytes option" where
  "TLSSupportedVersionsEntryLE_of_range m first e = rd_range m first (first + 2)"

definition TLSSupportedVersionsEntryLE_generate_object_bytes :: "UShort \<Rightarrow> TLSProtocolVersion \<Rightarrow> bytes" where
  "TLSSupportedVersionsEntryLE_generate_object_bytes len version = be16_bytes version"

definition TLSSupportedVersionsEntryLE_generate_object :: "UShort \<Rightarrow> TLSProtocolVersion \<Rightarrow> bytes option" where
  "TLSSupportedVersionsEntryLE_generate_object len version = (let obj_bytes = TLSSupportedVersionsEntryLE_generate_object_bytes len version
     in TLSSupportedVersionsEntryLE_of_range obj_bytes 0 (length obj_bytes))"

definition TLSSupportedVersionsEntryLE_get_tls_versions_full_length :: "UShort" where
  "TLSSupportedVersionsEntryLE_get_tls_versions_full_length = 2"

definition TLSSupportedVersionsEntryLE_get_tls_versions_length :: "UShort" where
  "TLSSupportedVersionsEntryLE_get_tls_versions_length = 2"

definition TLSSupportedVersionsEntryLE_get_tls_supported_version_value :: "bytes \<Rightarrow> TLSProtocolVersion option" where
  "TLSSupportedVersionsEntryLE_get_tls_supported_version_value d = rd16 d 0"

definition TLSSupportedVersionsEntryLE_get_tls_supported_version :: "bytes \<Rightarrow> bytes" where
  "TLSSupportedVersionsEntryLE_get_tls_supported_version d = d"

definition TLSSupportedVersionsEntryLE_to_bytes :: "bytes \<Rightarrow> bytes" where
  "TLSSupportedVersionsEntryLE_to_bytes d = d"

definition TLSSupportedVersionsEntryView_of_range :: "ptr \<Rightarrow> ptr \<Rightarrow> tls_view" where
  "TLSSupportedVersionsEntryView_of_range first e = \<lparr> tv_data = first, tv_size = 2 \<rparr>"

definition TLSSupportedVersionsEntryView_generate_object_bytes :: "UShort \<Rightarrow> TLSProtocolVersion \<Rightarrow> bytes" where
  "TLSSupportedVersionsEntryView_generate_object_bytes = TLSSupportedVersionsEntryLE_generate_object_bytes"

definition TLSSupportedVersionsEntryView_generate_object :: "UShort \<Rightarrow> TLSProtocolVersion \<Rightarrow> bytes option" where
  "TLSSupportedVersionsEntryView_generate_object = TLSSupportedVersionsEntryLE_generate_object"

definition TLSSupportedVersionsEntryView_get_tls_versions_full_length :: "UShort" where
  "TLSSupportedVersionsEntryView_get_tls_versions_full_length = 2"

definition TLSSupportedVersionsEntryView_get_tls_versions_length :: "UShort" where
  "TLSSupportedVersionsEntryView_get_tls_versions_length = 2"

definition TLSSupportedVersionsEntryView_get_tls_supported_version_value :: "tls_view \<Rightarrow> mem \<Rightarrow> TLSProtocolVersion option" where
  "TLSSupportedVersionsEntryView_get_tls_supported_version_value v m = rd16 m (tv_data v)"

definition TLSSupportedVersionsEntryView_get_tls_supported_version :: "tls_view \<Rightarrow> ptr \<times> ptr" where
  "TLSSupportedVersionsEntryView_get_tls_supported_version v = (tv_data v, tv_data v + unat (tv_size v))"

definition TLSSupportedVersionsEntryView_to_bytes :: "tls_view \<Rightarrow> ptr \<times> ptr" where
  "TLSSupportedVersionsEntryView_to_bytes v = (tv_data v, tv_data v + unat (tv_size v))"

definition TLSSupportedVersionsClientHelloExtensionLE_of_range :: "mem \<Rightarrow> ptr \<Rightarrow> ptr \<Rightarrow> bytes option" where
  "TLSSupportedVersionsClientHelloExtensionLE_of_range m first e = do {
     len \<leftarrow> rd m first;
     rd_range m first (first + unat len + 1) }"

definition TLSSupportedVersionsClientHelloExtensionLE_get_extension_type :: "TLSExtensionType" where
  "TLSSupportedVersionsClientHelloExtensionLE_get_extension_type = TLSExtensionType_SUPPORTED_VERSIONS"

text \<open>The loop appends the two bytes of every version and counts them in a byte.\<close>

primrec versions_loop :: "TLSProtocolVersion list \<Rightarrow> bytes \<Rightarrow> UByte \<Rightarrow> bytes \<times> UByte" where
  "versions_loop [] obj_bytes list_length = (obj_bytes, list_length)"
| "versions_loop (i # versions) obj_bytes list_length =
     (let ver = TLSSupportedVersionsEntryLE_generate_object_bytes 2 i
      in versions_loop versions (obj_bytes @ [ver ! 0] @ [ver ! 1]) (list_length + of_nat (length ver)))"

definition TLSSupportedVersionsClientHelloExtensionLE_generate_object_bytes :: "TLSProtocolVersion list \<Rightarrow> bytes" where
  "TLSSupportedVersionsClientHelloExtensionLE_generate_object_bytes versions = 
     (let (obj_bytes, list_length) = versions_loop versions [] 0 in [list_length AND 0xFF] @ obj_bytes)"

definition TLSSupportedVersionsClientHelloExtensionLE_generate_object :: "TLSProtocolVersion list \<Rightarrow> bytes option" where
  "TLSSupportedVersionsClientHelloExtensionLE_generate_object versions = 
     (let obj_bytes = TLSSupportedVersionsClientHelloExtensionLE_generate_object_bytes versions
      in TLSSupportedVersionsClientHelloExtensionLE_of_range obj_bytes 0 (length obj_bytes))"

definition TLSSupportedVersionsClientHelloExtensionLE_get_tls_versions_length :: "bytes \<Rightarrow> UByte option" where
  "TLSSupportedVersionsClientHelloExtensionLE_get_tls_versions_length d = rd d 0"

definition TLSSupportedVersionsClientHelloExtensionLE_get_tls_versions_full_length :: "bytes \<Rightarrow> UShort option" where
  "TLSSupportedVersionsClientHelloExtensionLE_get_tls_versions_full_length d =
     map_option (\<lambda>n. ucast n + 1) (TLSSupportedVersionsClientHelloExtensionLE_get_tls_versions_length d)"

definition TLSSupportedVersionsClientHelloExtensionView_get_tls_versions_length :: "tls_view \<Rightarrow> mem \<Rightarrow> UByte option" where
  "TLSSupportedVersionsClientHelloExtensionView_get_tls_versions_length v m = rd m (tv_data v)"

definition TLSSupportedVersionsClientHelloExtensionView_get_tls_versions_full_length :: "tls_view \<Rightarrow> mem \<Rightarrow> UShort option" where
  "TLSSupportedVersionsClientHelloExtensionView_get_tls_versions_full_length v m =
     map_option (\<lambda>n. ucast n + 1) (TLSSupportedVersionsClientHelloExtensionView_get_tls_versions_length v m)"

definition TLSSupportedVersionsClientHelloExtensionView_of_range :: "mem \<Rightarrow> ptr \<Rightarrow> ptr \<Rightarrow> tls_view option" where
  "TLSSupportedVersionsClientHelloExtensionView_of_range m first e = do {
     let v = \<lparr> tv_data = first, tv_size = 0 \<rparr>;
     len \<leftarrow> TLSSupportedVersionsClientHelloExtensionView_get_tls_versions_full_length v m;
     Some (v \<lparr> tv_size := ucast len \<rparr>) }"

definition TLSSupportedVersionsClientHelloExtensionLE_get_tls_supported_versions :: "bytes \<Rightarrow> bytes option" where
  "TLSSupportedVersionsClientHelloExtensionLE_get_tls_supported_versions d = rd_range d 1 (length d)"

definition TLSSupportedVersionsClientHelloExtensionView_get_tls_supported_versions :: "tls_view \<Rightarrow> ptr \<times> ptr" where
  "TLSSupportedVersionsClientHelloExtensionView_get_tls_supported_versions v =
     (tv_data v + 1, tv_data v + unat (tv_size v))"

definition TLSSupportedVersionsClientHelloExtensionLE_to_bytes :: "bytes \<Rightarrow> bytes" where
  "TLSSupportedVersionsClientHelloExtensionLE_to_bytes d = d"

definition TLSSupportedVersionsClientHelloExtensionView_to_bytes :: "tls_view \<Rightarrow> ptr \<times> ptr" where
  "TLSSupportedVersionsClientHelloExtensionView_to_bytes v = (tv_data v, tv_data v + unat (tv_size v))"

definition TLSSupportedVersionsClientHelloExtensionView_get_extension_type :: "TLSExtensionType" where
  "TLSSupportedVersionsClientHelloExtensionView_get_extension_type = TLSExtensionType_SUPPORTED_VERSIONS"

definition TLSSupportedVersionsClientHelloExtensionView_generate_object_bytes :: "TLSProtocolVersion list \<Rightarrow> bytes" where
  "TLSSupportedVersionsClientHelloExtensionView_generate_object_bytes =
     TLSSupportedVersionsClientHelloExtensionLE_generate_object_bytes"

definition TLSSupportedVersionsClientHelloExtensionView_generate_object :: "TLSProtocolVersion list \<Rightarrow> bytes option" where
  "TLSSupportedVersionsClientHelloExtensionView_generate_object =
     TLSSupportedVersionsClientHelloExtensionLE_generate_object"

definition TLSSupportedVersionsServerHelloExtensionLE_of_range :: "mem \<Rightarrow> ptr \<Rightarrow> ptr \<Rightarrow> bytes option" where
  "TLSSupportedVersionsServerHelloExtensionLE_of_range m first e = rd_range m first (first + 2)"

definition TLSSupportedVersionsServerHelloExtensionLE_get_extension_type :: "TLSExtensionType" where
  "TLSSupportedVersionsServerHelloExtensionLE_get_extension_type = TLSExtensionType_SUPPORTED_VERSIONS"

definition TLSSupportedVersionsServerHelloExtensionLE_generate_object_bytes :: "TLSProtocolVersion \<Rightarrow> bytes" where
  "TLSSupportedVersionsServerHelloExtensionLE_generate_object_bytes version = 
     (let ver = TLSSupportedVersionsEntryLE_generate_object_bytes 2 version in [ver ! 0] @ [ver ! 1])"

definition TLSSupportedVersionsServerHelloExtensionLE_generate_object :: "TLSProtocolVersion \<Rightarrow> bytes option" where
  "TLSSupportedVersionsServerHelloExtensionLE_generate_object version = 
     (let obj_bytes = TLSSupportedVersionsServerHelloExtensionLE_generate_object_bytes version
      in TLSSupportedVersionsServerHelloExtensionLE_of_range obj_bytes 0 (length obj_bytes))"

definition TLSSupportedVersionsServerHelloExtensionLE_get_tls_versions_length :: "UShort" where
  "TLSSupportedVersionsServerHelloExtensionLE_get_tls_versions_length = 2"

definition TLSSupportedVersionsServerHelloExtensionLE_get_tls_versions_full_length :: "UShort" where
  "TLSSupportedVersionsServerHelloExtensionLE_get_tls_versions_full_length =
     TLSSupportedVersionsServerHelloExtensionLE_get_tls_versions_length"

definition TLSSupportedVersionsServerHelloExtensionLE_get_tls_supported_version :: "bytes \<Rightarrow> bytes" where
  "TLSSupportedVersionsServerHelloExtensionLE_get_tls_supported_version d = d"

definition TLSSupportedVersionsServerHelloExtensionLE_to_bytes :: "bytes \<Rightarrow> bytes" where
  "TLSSupportedVersionsServerHelloExtensionLE_to_bytes d = d"

definition TLSSupportedVersionsServerHelloExtensionView_get_tls_versions_length :: "UShort" where
  "TLSSupportedVersionsServerHelloExtensionView_get_tls_versions_length = 2"

definition TLSSupportedVersionsServerHelloExtensionView_get_tls_versions_full_length :: "UShort" where
  "TLSSupportedVersionsServerHelloExtensionView_get_tls_versions_full_length =
     TLSSupportedVersionsServerHelloExtensionView_get_tls_versions_length"

definition TLSSupportedVersionsServerHelloExtensionView_of_range :: "ptr \<Rightarrow> ptr \<Rightarrow> tls_view" where
  "TLSSupportedVersionsServerHelloExtensionView_of_range first e =
     \<lparr> tv_data = first, tv_size = ucast TLSSupportedVersionsServerHelloExtensionView_get_tls_versions_full_length \<rparr>"

definition TLSSupportedVersionsServerHelloExtensionView_get_extension_type :: "TLSExtensionType" where
  "TLSSupportedVersionsServerHelloExtensionView_get_extension_type = TLSExtensionType_SUPPORTED_VERSIONS"

definition TLSSupportedVersionsServerHelloExtensionView_generate_object_bytes :: "TLSProtocolVersion \<Rightarrow> bytes" where
  "TLSSupportedVersionsServerHelloExtensionView_generate_object_bytes =
     TLSSupportedVersionsServerHelloExtensionLE_generate_object_bytes"

definition TLSSupportedVersionsServerHelloExtensionView_generate_object :: "TLSProtocolVersion \<Rightarrow> bytes option" where
  "TLSSupportedVersionsServerHelloExtensionView_generate_object =
     TLSSupportedVersionsServerHelloExtensionLE_generate_object"

definition TLSSupportedVersionsServerHelloExtensionView_get_tls_supported_versions :: "tls_view \<Rightarrow> ptr \<times> ptr" where
  "TLSSupportedVersionsServerHelloExtensionView_get_tls_supported_versions v =
     (tv_data v, tv_data v + unat (tv_size v))"

definition TLSSupportedVersionsServerHelloExtensionView_to_bytes :: "tls_view \<Rightarrow> ptr \<times> ptr" where
  "TLSSupportedVersionsServerHelloExtensionView_to_bytes v = (tv_data v, tv_data v + unat (tv_size v))"

section \<open>Key shares\<close>

definition TLSKeyShareEntryLE_of_range :: "mem \<Rightarrow> ptr \<Rightarrow> ptr \<Rightarrow> bytes option" where
  "TLSKeyShareEntryLE_of_range m first e = do {
     len \<leftarrow> rd16 m (first + 2);
     rd_range m first (first + unat len + 4) }"

definition TLSKeyShareEntryLE_generate_object_bytes :: "byte_source \<Rightarrow> UShort \<Rightarrow> TLSKeyTypes \<Rightarrow> bytes option" where
  "TLSKeyShareEntryLE_generate_object_bytes rs len key_type = do {
     obj_bytes \<leftarrow> vector_bytes_generator rs (unat (of_nat (unat len + 2 + 2) :: UShort)) 4;
     obj_bytes \<leftarrow> wr16 obj_bytes 0 key_type;
     wr16 obj_bytes 2 len }"

definition TLSKeyShareEntryLE_generate_object :: "byte_source \<Rightarrow> UShort \<Rightarrow> TLSKeyTypes \<Rightarrow> bytes option" where
  "TLSKeyShareEntryLE_generate_object rs len key_type = do {
     obj_bytes \<leftarrow> TLSKeyShareEntryLE_generate_object_bytes rs len key_type;
     TLSKeyShareEntryLE_of_range obj_bytes 0 (length obj_bytes) }"

definition TLSKeyShareEntryLE_get_tls_key_share_entry_length :: "bytes \<Rightarrow> UShort option" where
  "TLSKeyShareEntryLE_get_tls_key_share_entry_length d = rd16 d 2"

definition TLSKeyShareEntryLE_get_tls_key_share_entry_full_length :: "bytes \<Rightarrow> UShort option" where
  "TLSKeyShareEntryLE_get_tls_key_share_entry_full_length d =
     map_option (\<lambda>n. n + 4) (TLSKeyShareEntryLE_get_tls_key_share_entry_length d)"

definition TLSKeyShareEntryView_get_tls_key_share_entry_length :: "tls_view \<Rightarrow> mem \<Rightarrow> UShort option" where
  "TLSKeyShareEntryView_get_tls_key_share_entry_length v m = rd16 m (tv_data v + 2)"

definition TLSKeyShareEntryView_get_tls_key_share_entry_full_length :: "tls_view \<Rightarrow> mem \<Rightarrow> UShort option" where
  "TLSKeyShareEntryView_get_tls_key_share_entry_full_length v m =
     map_option (\<lambda>n. n + 4) (TLSKeyShareEntryView_get_tls_key_share_entry_length v m)"

definition TLSKeyShareEntryView_of_range :: "mem \<Rightarrow> ptr \<Rightarrow> ptr \<Rightarrow> tls_view option" where
  "TLSKeyShareEntryView_of_range m first e = do {
     let v = \<lparr> tv_data = first, tv_size = 0 \<rparr>;
     len \<leftarrow> TLSKeyShareEntryView_get_tls_key_share_entry_full_length v m;
     Some (v \<lparr> tv_size := ucast len \<rparr>) }"

definition TLSKeyShareEntryLE_get_tls_key_share_key_type :: "bytes \<Rightarrow> UShort option" where
  "TLSKeyShareEntryLE_get_tls_key_share_key_type d = rd16 d 0"

definition TLSKeyShareEntryView_get_tls_key_share_key_type :: "tls_view \<Rightarrow> mem \<Rightarrow> UShort option" where
  "TLSKeyShareEntryView_get_tls_key_share_key_type v m = rd16 m (tv_data v)"

definition TLSKeyShareEntryLE_get_tls_key_data :: "bytes \<Rightarrow> bytes option" where
  "TLSKeyShareEntryLE_get_tls_key_data d = rd_range d 4 (length d)"

definition TLSKeyShareEntryView_get_tls_key_exchange :: "tls_view \<Rightarrow> ptr \<times> ptr" where
  "TLSKeyShareEntryView_get_tls_key_exchange v = (tv_data v + 4, tv_data v + unat (tv_size v))"

definition TLSKeyShareEntryLE_to_bytes :: "bytes \<Rightarrow> bytes" where
  "TLSKeyShareEntryLE_to_bytes d = d"

definition TLSKeyShareEntryView_to_bytes :: "tls_view \<Rightarrow> ptr \<times> ptr" where
  "TLSKeyShareEntryView_to_bytes v = (tv_data v, tv_data v + unat (tv_size v))"

definition TLSKeyShareEntryView_generate_object_bytes :: "byte_source \<Rightarrow> UShort \<Rightarrow> TLSKeyTypes \<Rightarrow> bytes option" where
  "TLSKeyShareEntryView_generate_object_bytes = TLSKeyShareEntryLE_generate_object_bytes"

definition TLSKeyShareEntryView_generate_object :: "byte_source \<Rightarrow> UShort \<Rightarrow> TLSKeyTypes \<Rightarrow> bytes option" where
  "TLSKeyShareEntryView_generate_object = TLSKeyShareEntryLE_generate_object"

definition TLSKeyShareClientHelloLE_of_range :: "mem \<Rightarrow> ptr \<Rightarrow> ptr \<Rightarrow> bytes option" where
  "TLSKeyShareClientHelloLE_of_range m first e = do {
     len \<leftarrow> rd16 m first;
     rd_range m first (first + unat len + 2) }"

definition TLSKeyShareClientHelloLE_get_extension_type :: "TLSExtensionType" where
  "TLSKeyShareClientHelloLE_get_extension_type = TLSExtensionType_KEY_SHARE"

fun key_shares_loop :: "(nat \<Rightarrow> byte_source) \<Rightarrow> (TLSKeyTypes \<times> TLSKeyTypesLength) list \<Rightarrow> bytes \<Rightarrow> UShort
    \<Rightarrow> (bytes \<times> UShort) option" where
  "key_shares_loop rss [] obj_bytes list_length = Some (obj_bytes, list_length)"
| "key_shares_loop rss ((key, len) # key_shares) obj_bytes list_length = do {
     key_type \<leftarrow> TLSKeyShareEntryLE_generate_object_bytes (rss 0) len key;
     key_shares_loop (\<lambda>k. rss (Suc k)) key_shares (obj_bytes @ key_type) (list_length + of_nat (length key_type)) }"

definition TLSKeyShareClientHelloLE_generate_object_bytes :: "(nat \<Rightarrow> byte_source) \<Rightarrow> (TLSKeyTypes \<times> TLSKeyTypesLength) list \<Rightarrow> bytes option" where
  "TLSKeyShareClientHelloLE_generate_object_bytes rss key_shares = do {
     (obj_bytes, list_length) \<leftarrow> key_shares_loop rss key_shares [] 0;
     Some (be16_bytes list_length @ obj_bytes) }"

text \<open>The object made of these bytes is a single entry, not the extension.\<close>

definition TLSKeyShareClientHelloLE_generate_object :: "(nat \<Rightarrow> byte_source) \<Rightarrow> (TLSKeyTypes \<times> TLSKeyTypesLength) list \<Rightarrow> bytes option" where
  "TLSKeyShareClientHelloLE_generate_object rss key_shares = do {
     obj_bytes \<leftarrow> TLSKeyShareClientHelloLE_generate_object_bytes rss key_shares;
     TLSKeyShareEntryLE_of_range obj_bytes 0 (length obj_bytes) }"

definition TLSKeyShareClientHelloLE_get_tls_key_share_length :: "bytes \<Rightarrow> UShort option" where
  "TLSKeyShareClientHelloLE_get_tls_key_share_length d = rd16 d 0"

definition TLSKeyShareClientHelloLE_get_tls_key_share_full_length :: "bytes \<Rightarrow> UShort option" where
  "TLSKeyShareClientHelloLE_get_tls_key_share_full_length d =
     map_option (\<lambda>n. n + 2) (TLSKeyShareClientHelloLE_get_tls_key_share_length d)"

definition TLSKeyShareClientHelloView_get_tls_key_share_length :: "tls_view \<Rightarrow> mem \<Rightarrow> UShort option" where
  "TLSKeyShareClientHelloView_get_tls_key_share_length v m = rd16 m (tv_data v)"

definition TLSKeyShareClientHelloView_get_tls_key_share_full_length :: "tls_view \<Rightarrow> mem \<Rightarrow> UShort option" where
  "TLSKeyShareClientHelloView_get_tls_key_share_full_length v m =
     map_option (\<lambda>n. n + 2) (TLSKeyShareClientHelloView_get_tls_key_share_length v m)"

definition TLSKeyShareClientHelloView_of_range :: "mem \<Rightarrow> ptr \<Rightarrow> ptr \<Rightarrow> tls_view option" where
  "TLSKeyShareClientHelloView_of_range m first e = do {
     let v = \<lparr> tv_data = first, tv_size = 0 \<rparr>;
     len \<leftarrow> TLSKeyShareClientHelloView_get_tls_key_share_full_length v m;
     Some (v \<lparr> tv_size := ucast len \<rparr>) }"

definition TLSKeyShareClientHelloLE_get_tls_key_share :: "bytes \<Rightarrow> bytes option" where
  "TLSKeyShareClientHelloLE_get_tls_key_share d = rd_range d 2 (length d)"

definition TLSKeyShareClientHelloView_get_tls_key_share :: "tls_view \<Rightarrow> ptr \<times> ptr" where
  "TLSKeyShareClientHelloView_get_tls_key_share v = (tv_data v + 2, tv_data v + unat (tv_size v))"

definition TLSKeyShareClientHelloLE_to_bytes :: "bytes \<Rightarrow> bytes" where
  "TLSKeyShareClientHelloLE_to_bytes d = d"

definition TLSKeyShareClientHelloView_to_bytes :: "tls_view \<Rightarrow> ptr \<times> ptr" where
  "TLSKeyShareClientHelloView_to_bytes v = (tv_data v, tv_data v + unat (tv_size v))"

definition TLSKeyShareClientHelloView_get_extension_type :: "TLSExtensionType" where
  "TLSKeyShareClientHelloView_get_extension_type = TLSExtensionType_KEY_SHARE"

definition TLSKeyShareClientHelloView_generate_object_bytes :: "(nat \<Rightarrow> byte_source) \<Rightarrow> (TLSKeyTypes \<times> TLSKeyTypesLength) list \<Rightarrow> bytes option" where
  "TLSKeyShareClientHelloView_generate_object_bytes = TLSKeyShareClientHelloLE_generate_object_bytes"

definition TLSKeyShareClientHelloView_generate_object :: "(nat \<Rightarrow> byte_source) \<Rightarrow> (TLSKeyTypes \<times> TLSKeyTypesLength) list \<Rightarrow> bytes option" where
  "TLSKeyShareClientHelloView_generate_object = TLSKeyShareClientHelloLE_generate_object"

section \<open>Server names\<close>

definition TLSServerNameIndicationEntryLE_of_range :: "mem \<Rightarrow> ptr \<Rightarrow> ptr \<Rightarrow> bytes option" where
  "TLSServerNameIndicationEntryLE_of_range m first e = do {
     len \<leftarrow> rd16 m (first + 1);
     rd_range m first (first + unat len + 3) }"

definition TLSServerNameIndicationEntryLE_generate_object_bytes :: "UShort \<Rightarrow> string \<Rightarrow> bytes" where
  "TLSServerNameIndicationEntryLE_generate_object_bytes len host =
     [TLSSNIRecordType_HOST_NAME] @ be16_bytes len @ map of_char host"

text \<open>The object is generated with the default host, whatever host is given.\<close>

definition TLSServerNameIndicationEntryLE_generate_object :: "UShort \<Rightarrow> string \<Rightarrow> bytes option" where
  "TLSServerNameIndicationEntryLE_generate_object len host = 
     (let obj_bytes = TLSServerNameIndicationEntryLE_generate_object_bytes len ''vk.com''
      in TLSServerNameIndicationEntryLE_of_range obj_bytes 0 (length obj_bytes))"

definition TLSServerNameIndicationEntryLE_get_tls_sni_length :: "bytes \<Rightarrow> UShort option" where
  "TLSServerNameIndicationEntryLE_get_tls_sni_length d = rd16 d 1"

definition TLSServerNameIndicationEntryLE_get_tls_sni_full_length :: "bytes \<Rightarrow> UShort option" where
  "TLSServerNameIndicationEntryLE_get_tls_sni_full_length d =
     map_option (\<lambda>n. n + 3) (TLSServerNameIndicationEntryLE_get_tls_sni_length d)"

definition TLSServerNameIndicationEntryLE_get_tls_sni_record_type :: "bytes \<Rightarrow> TLSSNIRecordType option" where
  "TLSServerNameIndicationEntryLE_get_tls_sni_record_type d = rd d 0"

definition TLSServerNameIndicationEntryLE_get_tls_sni_entry_data :: "bytes \<Rightarrow> bytes option" where
  "TLSServerNameIndicationEntryLE_get_tls_sni_entry_data d = rd_range d 3 (length d)"

definition TLSServerNameIndicationEntryLE_to_bytes :: "bytes \<Rightarrow> bytes" where
  "TLSServerNameIndicationEntryLE_to_bytes d = d"

definition TLSServerNameIndicationEntryView_to_bytes :: "tls_view \<Rightarrow> ptr \<times> ptr" where
  "TLSServerNameIndicationEntryView_to_bytes v = (tv_data v, tv_data v + unat (tv_size v))"

definition TLSServerNameIndicationEntryView_of_range :: "mem \<Rightarrow> ptr \<Rightarrow> ptr \<Rightarrow> tls_view option" where
  "TLSServerNameIndicationEntryView_of_range m first e = do {
     len \<leftarrow> rd16 m (first + 1);
     Some \<lparr> tv_data = first, tv_size = ucast len + 3 \<rparr> }"

definition TLSServerNameIndicationEntryView_generate_object_bytes :: "UShort \<Rightarrow> string \<Rightarrow> bytes" where
  "TLSServerNameIndicationEntryView_generate_object_bytes =
     TLSServerNameIndicationEntryLE_generate_object_bytes"

definition TLSServerNameIndicationEntryView_generate_object :: "UShort \<Rightarrow> string \<Rightarrow> bytes option" where
  "TLSServerNameIndicationEntryView_generate_object = TLSServerNameIndicationEntryLE_generate_object"

definition TLSServerNameIndicationEntryView_get_tls_sni_length :: "tls_view \<Rightarrow> mem \<Rightarrow> UShort option" where
  "TLSServerNameIndicationEntryView_get_tls_sni_length v m = rd16 m (tv_data v + 1)"

definition TLSServerNameIndicationEntryView_get_tls_sni_full_length :: "tls_view \<Rightarrow> mem \<Rightarrow> UShort option" where
  "TLSServerNameIndicationEntryView_get_tls_sni_full_length v m =
     map_option (\<lambda>n. n + 3) (TLSServerNameIndicationEntryView_get_tls_sni_length v m)"

definition TLSServerNameIndicationEntryView_get_tls_sni_record_type :: "tls_view \<Rightarrow> mem \<Rightarrow> TLSSNIRecordType option" where
  "TLSServerNameIndicationEntryView_get_tls_sni_record_type v m = rd m (tv_data v)"

definition TLSServerNameIndicationEntryView_get_tls_sni_entry_data :: "tls_view \<Rightarrow> ptr \<times> ptr" where
  "TLSServerNameIndicationEntryView_get_tls_sni_entry_data v = (tv_data v + 3, tv_data v + unat (tv_size v))"

definition TLSServerNameIndicationExtensionLE_of_range :: "mem \<Rightarrow> ptr \<Rightarrow> ptr \<Rightarrow> bytes option" where
  "TLSServerNameIndicationExtensionLE_of_range m first e = do {
     len \<leftarrow> rd16 m first;
     rd_range m first (first + unat len + 2) }"

definition TLSServerNameIndicationExtensionLE_get_extension_type :: "TLSExtensionType" where
  "TLSServerNameIndicationExtensionLE_get_extension_type = TLSExtensionType_SERVER_NAME"

text \<open>The number of hosts passes through sixteen bits before the loop.\<close>

primrec sni_loop :: "string list \<Rightarrow> bytes \<Rightarrow> UShort \<Rightarrow> bytes \<times> UShort" where
  "sni_loop [] res list_length = (res, list_length)"
| "sni_loop (elem # hosts) res list_length =
     (let obj_bytes = TLSServerNameIndicationEntryLE_generate_object_bytes (of_nat (length elem)) elem
      in sni_loop hosts (res @ obj_bytes) (list_length + of_nat (length obj_bytes)))"

definition TLSServerNameIndicationExtensionLE_generate_object_bytes :: "string list \<Rightarrow> bytes" where
  "TLSServerNameIndicationExtensionLE_generate_object_bytes hosts = 
     (let size = (of_nat (length hosts) :: UShort);
          (res, list_length) = sni_loop (take (unat size) hosts) [] 0
      in be16_bytes list_length @ res)"

definition TLSServerNameIndicationExtensionLE_generate_object :: "string list \<Rightarrow> bytes option" where
  "TLSServerNameIndicationExtensionLE_generate_object hosts = 
     (let obj_bytes = TLSServerNameIndicationExtensionLE_generate_object_bytes hosts
      in TLSServerNameIndicationExtensionLE_of_range obj_bytes 0 (length obj_bytes))"

definition TLSServerNameIndicationExtensionLE_get_tls_sni_length :: "bytes \<Rightarrow> UShort option" where
  "TLSServerNameIndicationExtensionLE_get_tls_sni_length d = rd16 d 0"

definition TLSServerNameIndicationExtensionLE_get_tls_sni_full_length :: "bytes \<Rightarrow> UShort option" where
  "TLSServerNameIndicationExtensionLE_get_tls_sni_full_length d =
     map_option (\<lambda>n. n + 2) (TLSServerNameIndicationExtensionLE_get_tls_sni_length d)"

definition TLSServerNameIndicationExtensionView_get_tls_sni_length :: "tls_view \<Rightarrow> mem \<Rightarrow> UShort option" where
  "TLSServerNameIndicationExtensionView_get_tls_sni_length v m = rd16 m (tv_data v)"

definition TLSServerNameIndicationExtensionView_get_tls_sni_full_length :: "tls_view \<Rightarrow> mem \<Rightarrow> UShort option" where
  "TLSServerNameIndicationExtensionView_get_tls_sni_full_length v m =
     map_option (\<lambda>n. n + 2) (TLSServerNameIndicationExtensionView_get_tls_sni_length v m)"

definition TLSServerNameIndicationExtensionView_of_range :: "mem \<Rightarrow> ptr \<Rightarrow> ptr \<Rightarrow> tls_view option" where
  "TLSServerNameIndicationExtensionView_of_range m first e = do {
     let v = \<lparr> tv_data = first, tv_size = 0 \<rparr>;
     len \<leftarrow> TLSServerNameIndicationExtensionView_get_tls_sni_full_length v m;
     Some (v \<lparr> tv_size := ucast len \<rparr>) }"

definition TLSServerNameIndicationExtensionLE_get_tls_sni_data :: "bytes \<Rightarrow> bytes option" where
  "TLSServerNameIndicationExtensionLE_get_tls_sni_data d = rd_range d 2 (length d)"

definition TLSServerNameIndicationExtensionView_get_tls_sni_data :: "tls_view \<Rightarrow> ptr \<times> ptr" where
  "TLSServerNameIndicationExtensionView_get_tls_sni_data v = (tv_data v + 2, tv_data v + unat (tv_size v))"

definition TLSServerNameIndicationExtensionLE_to_bytes :: "bytes \<Rightarrow> bytes" where
  "TLSServerNameIndicationExtensionLE_to_bytes d = d"

definition TLSServerNameIndicationExtensionView_to_bytes :: "tls_view \<Rightarrow> ptr \<times> ptr" where
  "TLSServerNameIndicationExtensionView_to_bytes v = (tv_data v, tv_data v + unat (tv_size v))"

definition TLSServerNameIndicationExtensionView_get_extension_type :: "TLSExtensionType" where
  "TLSServerNameIndicationExtensionView_get_extension_type = TLSExtensionType_SERVER_NAME"

definition TLSServerNameIndicationExtensionView_generate_object_bytes :: "string list \<Rightarrow> bytes" where
  "TLSServerNameIndicationExtensionView_generate_object_bytes =
     TLSServerNameIndicationExtensionLE_generate_object_bytes"

definition TLSServerNameIndicationExtensionView_generate_object :: "string list \<Rightarrow> bytes option" where
  "TLSServerNameIndicationExtensionView_generate_object = TLSServerNameIndicationExtensionLE_generate_object"

section \<open>Extensions\<close>

definition TLSExtensionLE_of_range :: "mem \<Rightarrow> ptr \<Rightarrow> ptr \<Rightarrow> bytes option" where
  "TLSExtensionLE_of_range m first e = do {
     len \<leftarrow> rd16 m (first + 2);
     rd_range m first (first + unat len + 4) }"

text \<open>An extension with the data of one of the extension classes, given by its type and its bytes.\<close>

definition TLSExtensionLE_generate_object_bytes :: "TLSExtensionType \<Rightarrow> bytes \<Rightarrow> bytes" where
  "TLSExtensionLE_generate_object_bytes ext_type ext_bytes = 
     (let len = (of_nat (length ext_bytes) :: UShort) in be16_bytes ext_type @ be16_bytes len @ ext_bytes)"

definition TLSExtensionLE_generate_object :: "TLSExtensionType \<Rightarrow> bytes \<Rightarrow> bytes option" where
  "TLSExtensionLE_generate_object ext_type ext_bytes = 
     (let obj_bytes = TLSExtensionLE_generate_object_bytes ext_type ext_bytes
      in TLSExtensionLE_of_range obj_bytes 0 (length obj_bytes))"

definition TLSExtensionLE_get_tls_ext_length :: "bytes \<Rightarrow> UShort option" where
  "TLSExtensionLE_get_tls_ext_length d = rd16 d 2"

definition TLSExtensionLE_get_tls_ext_full_length :: "bytes \<Rightarrow> UShort option" where
  "TLSExtensionLE_get_tls_ext_full_length d =
     map_option (\<lambda>n. n + 4) (TLSExtensionLE_get_tls_ext_length d)"

definition TLSExtensionView_get_tls_ext_length :: "tls_view \<Rightarrow> mem \<Rightarrow> UShort option" where
  "TLSExtensionView_get_tls_ext_length v m = rd16 m (tv_data v + 2)"

definition TLSExtensionView_get_tls_ext_full_length :: "tls_view \<Rightarrow> mem \<Rightarrow> UShort option" where
  "TLSExtensionView_get_tls_ext_full_length v m =
     map_option (\<lambda>n. n + 4) (TLSExtensionView_get_tls_ext_length v m)"

definition TLSExtensionView_of_range :: "mem \<Rightarrow> ptr \<Rightarrow> ptr \<Rightarrow> tls_view option" where
  "TLSExtensionView_of_range m first e = do {
     let v = \<lparr> tv_data = first, tv_size = 0 \<rparr>;
     len \<leftarrow> TLSExtensionView_get_tls_ext_full_length v m;
     Some (v \<lparr> tv_size := ucast len \<rparr>) }"

definition TLSExtensionLE_get_tls_ext_type :: "bytes \<Rightarrow> TLSExtensionType option" where
  "TLSExtensionLE_get_tls_ext_type d = rd16 d 0"

definition TLSExtensionView_get_tls_ext_type :: "tls_view \<Rightarrow> mem \<Rightarrow> TLSExtensionType option" where
  "TLSExtensionView_get_tls_ext_type v m = rd16 m (tv_data v)"

definition TLSExtensionLE_get_tls_ext_data :: "bytes \<Rightarrow> bytes option" where
  "TLSExtensionLE_get_tls_ext_data d = rd_range d 4 (length d)"

definition TLSExtensionView_get_tls_ext_data :: "tls_view \<Rightarrow> ptr \<times> ptr" where
  "TLSExtensionView_get_tls_ext_data v = (tv_data v + 4, tv_data v + unat (tv_size v))"

definition TLSExtensionLE_to_bytes :: "bytes \<Rightarrow> bytes" where
  "TLSExtensionLE_to_bytes d = d"

definition TLSExtensionView_to_bytes :: "tls_view \<Rightarrow> ptr \<times> ptr" where
  "TLSExtensionView_to_bytes v = (tv_data v, tv_data v + unat (tv_size v))"

definition TLSExtensionView_generate_object_bytes :: "TLSExtensionType \<Rightarrow> bytes \<Rightarrow> bytes" where
  "TLSExtensionView_generate_object_bytes = TLSExtensionLE_generate_object_bytes"

definition TLSExtensionView_generate_object :: "TLSExtensionType \<Rightarrow> bytes \<Rightarrow> bytes option" where
  "TLSExtensionView_generate_object = TLSExtensionLE_generate_object"

text \<open>The wrappers the hello generators make: an extension class with the arguments of its generator.\<close>

datatype TLSExtensionWrapper =
    SupportedVersionsClientHello "TLSProtocolVersion list"
  | SupportedVersionsServerHello TLSProtocolVersion
  | KeyShareClientHello "(TLSKeyTypes \<times> TLSKeyTypesLength) list"
  | ServerNameIndication "string list"

fun TLSExtensionWrapper_generate_object_bytes :: "(nat \<Rightarrow> byte_source) \<Rightarrow> TLSExtensionWrapper \<Rightarrow> bytes option" where
  "TLSExtensionWrapper_generate_object_bytes rss (SupportedVersionsClientHello vs) =
     Some (TLSExtensionLE_generate_object_bytes TLSSupportedVersionsClientHelloExtensionLE_get_extension_type
       (TLSSupportedVersionsClientHelloExtensionLE_generate_object_bytes vs))"
| "TLSExtensionWrapper_generate_object_bytes rss (SupportedVersionsServerHello v) =
     Some (TLSExtensionLE_generate_object_bytes TLSSupportedVersionsServerHelloExtensionLE_get_extension_type
       (TLSSupportedVersionsServerHelloExtensionLE_generate_object_bytes v))"
| "TLSExtensionWrapper_generate_object_bytes rss (KeyShareClientHello ks) = do {
     ext_bytes \<leftarrow> TLSKeyShareClientHelloLE_generate_object_bytes rss ks;
     Some (TLSExtensionLE_generate_object_bytes TLSKeyShareClientHelloLE_get_extension_type ext_bytes) }"
| "TLSExtensionWrapper_generate_object_bytes rss (ServerNameIndication hosts) =
     Some (TLSExtensionLE_generate_object_bytes TLSServerNameIndicationExtensionLE_get_extension_type
       (TLSServerNameIndicationExtensionLE_generate_object_bytes hosts))"

definition TLSExtensionsLE_of_range :: "mem \<Rightarrow> ptr \<Rightarrow> ptr \<Rightarrow> bytes option" where
  "TLSExtensionsLE_of_range m first e = do {
     len \<leftarrow> rd16 m first;
     rd_range m first (first + unat len + 2) }"

primrec extensions_bytes :: "(nat \<Rightarrow> byte_source) \<Rightarrow> TLSExtensionWrapper list \<Rightarrow> bytes list option" where
  "extensions_bytes rss [] = Some []"
| "extensions_bytes rss (e # exts) = do {
     b \<leftarrow> TLSExtensionWrapper_generate_object_bytes rss e;
     bs \<leftarrow> extensions_bytes rss exts;
     Some (b # bs) }"

definition TLSExtensionsLE_generate_object_bytes :: "(nat \<Rightarrow> byte_source) \<Rightarrow> TLSExtensionWrapper list \<Rightarrow> bytes option" where
  "TLSExtensionsLE_generate_object_bytes rss exts = do {
     obj_bytes \<leftarrow> extensions_bytes rss exts;
     let size = sum_list (map (\<lambda>b. of_nat (length b) :: UShort) obj_bytes);
     Some (be16_bytes size @ concat obj_bytes) }"

definition TLSExtensionsLE_generate_object :: "(nat \<Rightarrow> byte_source) \<Rightarrow> TLSExtensionWrapper list \<Rightarrow> bytes option" where
  "TLSExtensionsLE_generate_object rss exts = do {
     obj_bytes \<leftarrow> TLSExtensionsLE_generate_object_bytes rss exts;
     TLSExtensionsLE_of_range obj_bytes 0 (length obj_bytes) }"

definition TLSExtensionsLE_get_tls_extensions_length :: "bytes \<Rightarrow> UShort option" where
  "TLSExtensionsLE_get_tls_extensions_length d = rd16 d 0"

definition TLSExtensionsLE_get_tls_extensions_full_length :: "bytes \<Rightarrow> UShort option" where
  "TLSExtensionsLE_get_tls_extensions_full_length d =
     map_option (\<lambda>n. n + 2) (TLSExtensionsLE_get_tls_extensions_length d)"

definition TLSExtensionsView_get_tls_extensions_length :: "tls_view \<Rightarrow> mem \<Rightarrow> UShort option" where
  "TLSExtensionsView_get_tls_extensions_length v m = rd16 m (tv_data v)"

definition TLSExtensionsView_get_tls_extensions_full_length :: "tls_view \<Rightarrow> mem \<Rightarrow> UShort option" where
  "TLSExtensionsView_get_tls_extensions_full_length v m =
     map_option (\<lambda>n. n + 2) (TLSExtensionsView_get_tls_extensions_length v m)"

definition TLSExtensionsView_of_range :: "mem \<Rightarrow> ptr \<Rightarrow> ptr \<Rightarrow> tls_view option" where
  "TLSExtensionsView_of_range m first e = do {
     let v = \<lparr> tv_data = first, tv_size = 0 \<rparr>;
     len \<leftarrow> TLSExtensionsView_get_tls_extensions_full_length v m;
     Some (v \<lparr> tv_size := ucast len \<rparr>) }"

definition TLSExtensionsLE_get_tls_extensions :: "bytes \<Rightarrow> bytes option" where
  "TLSExtensionsLE_get_tls_extensions d = rd_range d 2 (length d)"

definition TLSExtensionsView_get_tls_extensions :: "tls_view \<Rightarrow> ptr \<times> ptr" where
  "TLSExtensionsView_get_tls_extensions v = (tv_data v + 2, tv_data v + unat (tv_size v))"

definition TLSExtensionsLE_to_bytes :: "bytes \<Rightarrow> bytes" where
  "TLSExtensionsLE_to_bytes d = d"

definition TLSExtensionsView_to_bytes :: "tls_view \<Rightarrow> ptr \<times> ptr" where
  "TLSExtensionsView_to_bytes v = (tv_data v, tv_data v + unat (tv_size v))"

definition TLSExtensionsView_generate_object_bytes :: "(nat \<Rightarrow> byte_source) \<Rightarrow> TLSExtensionWrapper list \<Rightarrow> bytes option" where
  "TLSExtensionsView_generate_object_bytes = TLSExtensionsLE_generate_object_bytes"

definition TLSExtensionsView_generate_object :: "(nat \<Rightarrow> byte_source) \<Rightarrow> TLSExtensionWrapper list \<Rightarrow> bytes option" where
  "TLSExtensionsView_generate_object = TLSExtensionsLE_generate_object"

section \<open>What the generators produce\<close>

lemma byte_of_take_bit: "byte_of 0 (w :: UByte) = w"
  by (rule bit_word_eqI) (simp add: bit_byte_of)

lemma and_0xFF [simp]: "(w :: UByte) AND 0xFF = w"
  by (rule bit_word_eqI) (simp only: bit_and_iff bit_0xFF, simp)

lemma vector_bytes_Some:
  "k \<le> n \<Longrightarrow> vector_bytes_generator rs n k = Some (replicate k 0 @ map rs [0..<n - k])"
  by (simp add: vector_bytes_generator_def)

lemma random_bytes_eq:
  "TLSRandomLE_generate_object_bytes rs time = Some (be32_bytes time @ map rs [0..<28])"
  by (simp add: TLSRandomLE_generate_object_bytes_def array32_bytes_generator_def vector_bytes_Some
      be32_bytes_def wr32_def wr_def numeral_eq_Suc)

lemma byte_counted_bytes:
  assumes "unat (len :: UByte) < 255"
  shows "do { b \<leftarrow> vector_bytes_generator rs (unat (of_nat (unat len + 1) :: UByte)) 1; wr b 0 len } =
    Some (len # map rs [0..<unat len])"
proof -
  have "unat (of_nat (unat len + 1) :: UByte) = unat len + 1"
    using assms by (intro unat_of_nat_small) simp
  then show ?thesis by (simp only: vector_bytes_generator_def) (simp add: wr_def)
qed

lemmas session_bytes_eq = byte_counted_bytes [folded TLSSessionIDLE_generate_object_bytes_def]
lemmas compression_bytes_eq = byte_counted_bytes [folded TLSCompressionLE_generate_object_bytes_def]

lemma cipher_bytes_eq:
  assumes "unat len < 254"
  shows "TLSCipherSuitLE_generate_object_bytes rs len = Some (be16_bytes len @ map rs [0..<unat len])"
proof -
  have "unat (of_nat (unat len + 2) :: UByte) = unat len + 2"
    using assms by (intro unat_of_nat_small) simp
  then show ?thesis
    by (simp only: TLSCipherSuitLE_generate_object_bytes_def vector_bytes_generator_def)
      (simp add: wr16_def wr_def be16_bytes_def numeral_2_eq_2)
qed

lemma key_share_entry_bytes_eq:
  assumes "unat len < 65532"
  shows "TLSKeyShareEntryLE_generate_object_bytes rs len key =
    Some (be16_bytes key @ be16_bytes len @ map rs [0..<unat len])"
proof -
  have "unat (of_nat (unat len + 2 + 2) :: UShort) = unat len + 4"
    using assms by (subst unat_of_nat_small) simp_all
  moreover have "replicate 4 0 = [0, 0, 0, 0 :: UByte]" by (simp add: numeral_eq_Suc)
  ultimately show ?thesis
    by (simp only: TLSKeyShareEntryLE_generate_object_bytes_def vector_bytes_generator_def)
      (simp add: wr16_def wr_def be16_bytes_def)
qed

lemma versions_loop_eq:
  "versions_loop vs acc n = (acc @ concat (map be16_bytes vs), n + of_nat (2 * length vs))"
  by (induction vs arbitrary: acc n)
    (simp_all add: TLSSupportedVersionsEntryLE_generate_object_bytes_def be16_bytes_def Let_def algebra_simps)

lemma versions_bytes_eq:
  "TLSSupportedVersionsClientHelloExtensionLE_generate_object_bytes vs =
   of_nat (2 * length vs) # concat (map be16_bytes vs)"
  by (simp add: TLSSupportedVersionsClientHelloExtensionLE_generate_object_bytes_def versions_loop_eq)

lemma sni_loop_eq:
  "sni_loop hs acc n =
   (let bs = map (\<lambda>h. TLSServerNameIndicationEntryLE_generate_object_bytes (of_nat (length h)) h) hs
    in (acc @ concat bs, n + of_nat (length (concat bs))))"
  by (induction hs arbitrary: acc n) (simp_all add: Let_def algebra_simps)

lemma sni_one_host_bytes:
  "TLSServerNameIndicationExtensionLE_generate_object_bytes [host] =
   be16_bytes (of_nat (length host + 3)) @ 0 # be16_bytes (of_nat (length host)) @ map of_char host"
  by (simp add: TLSServerNameIndicationExtensionLE_generate_object_bytes_def sni_loop_eq Let_def
      TLSServerNameIndicationEntryLE_generate_object_bytes_def TLSSNIRecordType_HOST_NAME_def be16_bytes_def add.commute)

lemma length_extension_bytes [simp]:
  "length (TLSExtensionLE_generate_object_bytes t b) = length b + 4"
  by (simp add: TLSExtensionLE_generate_object_bytes_def Let_def)

lemma extensions_bytes_len:
  "sum_list (map (\<lambda>b. of_nat (length b) :: UShort) bs) = of_nat (length (concat bs))"
  by (induction bs) simp_all

lemma extensions_generate_eq:
  "extensions_bytes rss exts = Some bs \<Longrightarrow>
   TLSExtensionsLE_generate_object_bytes rss exts = Some (be16_bytes (of_nat (length (concat bs))) @ concat bs)"
  by (simp add: TLSExtensionsLE_generate_object_bytes_def extensions_bytes_len)

section \<open>Reading a field\<close>

text \<open>A field that announces its own length, in a first byte or in two.\<close>

definition counted8 :: "bytes \<Rightarrow> bool" where
  "counted8 f \<longleftrightarrow> f \<noteq> [] \<and> length f = unat (f ! 0) + 1"

definition counted16 :: "bytes \<Rightarrow> bool" where
  "counted16 f \<longleftrightarrow> 2 \<le> length f \<and> length f < 65536 \<and> length f = unat (be16 (f ! 0) (f ! 1)) + 2"

text \<open>What the scheme parser relies on: the view of a well-formed field, wherever it stands, ends where the field
  ends.\<close>

locale tls_field =
  fixes of_range :: "mem \<Rightarrow> ptr \<Rightarrow> ptr \<Rightarrow> tls_view option"
    and full_length :: "tls_view \<Rightarrow> mem \<Rightarrow> 'n::len word option"
    and wf :: "bytes \<Rightarrow> bool"
  assumes view_at: "wf f \<Longrightarrow> of_range (pre @ f @ rest) (length pre) e =
      Some \<lparr> tv_data = length pre, tv_size = of_nat (length f) \<rparr>"
    and full_length_at: "wf f \<Longrightarrow> tv_data v = length pre \<Longrightarrow>
      full_length v (pre @ f @ rest) = Some (of_nat (length f))"
    and short: "wf f \<Longrightarrow> length f < 2 ^ LENGTH('n)" "wf f \<Longrightarrow> length f < 2 ^ 32"
begin

lemma step:
  assumes "wf f" "m = pre @ f @ rest" "p = length pre"
  shows "\<exists>v n. of_range m p e = Some v \<and> full_length v m = Some n \<and> unat n = length f"
  using assms short [OF assms(1)] by (simp add: view_at full_length_at unat_of_nat_small)

lemma view_range:
  assumes "wf f" "m = pre @ f @ rest" "p = length pre"
  shows "\<exists>v. of_range m p e = Some v \<and> tv_data v = p \<and> tv_data v + unat (tv_size v) = p + length f \<and>
    rd_range m (tv_data v) (tv_data v + unat (tv_size v)) = Some f"
  using assms short [OF assms(1)] by (simp add: view_at unat_of_nat rd_range_append)

end

lemma counted8_len: "counted8 f \<Longrightarrow> f ! 0 = of_nat (length f - 1) \<and> length f \<le> 256"
  using unat_byte_less [of "f ! 0"] by (simp add: counted8_def)

lemma counted8_ucast:
  "counted8 f \<Longrightarrow> 8 < LENGTH('a) \<Longrightarrow> (ucast (f ! 0) + 1 :: 'a::len word) = of_nat (length f)"
  by (simp add: counted8_def)

lemma counted16_len: "counted16 f \<Longrightarrow> be16 (f ! 0) (f ! 1) + 2 = of_nat (length f)"
  by (simp add: counted16_def)

lemma counted_short:
  "counted8 f \<Longrightarrow> f \<noteq> [] \<and> length f < 65536 \<and> length f < 4294967296"
  "counted16 f \<Longrightarrow> 2 \<le> length f \<and> length f < 65536 \<and> length f < 4294967296"
  using counted8_len [of f] by (auto simp: counted8_def counted16_def)

lemma counted_ucast:
  assumes "counted8 f \<or> counted16 f"
  shows "ucast (of_nat (length f) :: UShort) = (of_nat (length f) :: UInt)"
  using assms counted_short [of f] by (intro ucast_of_nat_small) auto

lemma field_first [simp]:
  "f \<noteq> [] \<Longrightarrow> rd (pre @ f @ rest) (length pre) = Some (f ! 0)"
  "2 \<le> length f \<Longrightarrow> rd16 (pre @ f @ rest) (length pre) = Some (be16 (f ! 0) (f ! 1))"
  by (auto simp: rd_def rd16_def nth_append)

lemmas session_view_defs = TLSSessionIDView_of_range_def TLSSessionIDView_get_tls_id_full_length_def
  TLSSessionIDView_get_tls_id_length_def
lemmas cipher_view_defs = TLSCipherSuitView_of_range_def TLSCipherSuitView_get_tls_ciphers_full_length_def
  TLSCipherSuitView_get_tls_ciphers_length_def
lemmas compression_view_defs = TLSCompressionView_of_range_def
  TLSCompressionView_get_tls_compressions_full_length_def TLSCompressionView_get_tls_compressions_length_def
lemmas extensions_view_defs = TLSExtensionsView_of_range_def
  TLSExtensionsView_get_tls_extensions_full_length_def TLSExtensionsView_get_tls_extensions_length_def

interpretation session: tls_field TLSSessionIDView_of_range
    TLSSessionIDView_get_tls_id_full_length counted8
  by unfold_locales (simp_all add: session_view_defs counted_short counted_ucast counted8_ucast)

interpretation cipher: tls_field TLSCipherSuitView_of_range
    TLSCipherSuitView_get_tls_ciphers_full_length counted16
  by unfold_locales (simp_all add: cipher_view_defs counted_short counted_ucast counted16_len [simplified])

interpretation compression: tls_field TLSCompressionView_of_range
    TLSCompressionView_get_tls_compressions_full_length counted8
  by unfold_locales (simp_all add: compression_view_defs counted_short counted_ucast counted8_ucast)

interpretation extensions: tls_field TLSExtensionsView_of_range
    TLSExtensionsView_get_tls_extensions_full_length counted16
  by unfold_locales (simp_all add: extensions_view_defs counted_short counted_ucast counted16_len [simplified])

end
