(* ===== verification/TlsHello.thy ===== *)
theory TlsHello
  imports TlsFields
begin

text \<open>TLS handshake messages and the client and server hello (\<open>TLS13_Message*\<close>, \<open>TLS13_ClientHelloPacket*\<close>,
  \<open>TLS13_ServerHelloPacket*\<close> and the generation strategies of \<open>qvpn_structures.hpp/.cpp\<close>).  A hello object
  keeps its bytes and the scheme of its fields: the range each field has, computed once by the constructor from
  the lengths the fields announce.

  \<open>rss 0\<close> is the byte source of the random field, \<open>rss 1\<close> of a drawn session id, \<open>rss 2\<close> of the cipher suites,
  \<open>rss 3\<close> of the compression methods and \<open>rss 4\<close> on of the key shares.\<close>

section \<open>Constants\<close>

type_synonym TLSMessageType = UByte
type_synonym TLSCipherSuite = UShort
type_synonym TLSCompressionMethod = UByte

definition TLSMessageType_CLIENT_HELLO :: "TLSMessageType" where
  "TLSMessageType_CLIENT_HELLO = 1"

definition TLSMessageType_SERVER_HELLO :: "TLSMessageType" where
  "TLSMessageType_SERVER_HELLO = 2"

definition TLSMessageType_NEW_SESSION_TICKET :: "TLSMessageType" where
  "TLSMessageType_NEW_SESSION_TICKET = 4"

definition TLSMessageType_CERTIFICATE :: "TLSMessageType" where
  "TLSMessageType_CERTIFICATE = 11"

definition TLSMessageType_SERVER_KEY_EXCHANGE :: "TLSMessageType" where
  "TLSMessageType_SERVER_KEY_EXCHANGE = 12"

definition TLSMessageType_CERTIFICATE_REQUEST :: "TLSMessageType" where
  "TLSMessageType_CERTIFICATE_REQUEST = 13"

definition TLSMessageType_SERVER_HELLO_DONE :: "TLSMessageType" where
  "TLSMessageType_SERVER_HELLO_DONE = 14"

definition TLSMessageType_CERTIFICATE_VERIFY :: "TLSMessageType" where
  "TLSMessageType_CERTIFICATE_VERIFY = 15"

definition TLSMessageType_CLIENT_KEY_EXCHANGE :: "TLSMessageType" where
  "TLSMessageType_CLIENT_KEY_EXCHANGE = 16"

definition TLSMessageType_FINISHED :: "TLSMessageType" where
  "TLSMessageType_FINISHED = 20"

definition TLSCipherSuite_TLS_ECDHE_RSA_WITH_AES_128_GCM_SHA256 :: "TLSCipherSuite" where
  "TLSCipherSuite_TLS_ECDHE_RSA_WITH_AES_128_GCM_SHA256 = 0xC02F"

definition TLSCompressionMethod_NULL_COMPRESSION :: "TLSCompressionMethod" where
  "TLSCompressionMethod_NULL_COMPRESSION = 0"

section \<open>Messages\<close>

text \<open>The constructor computes the length from its own vector, which is still empty.\<close>

definition TLS13_MessageLE_of_range :: "mem \<Rightarrow> ptr \<Rightarrow> ptr \<Rightarrow> bytes option" where
  "TLS13_MessageLE_of_range m b e = do {
     let data = ([] :: bytes);
     n1 \<leftarrow> rd data 1;
     n2 \<leftarrow> rd data 2;
     n3 \<leftarrow> rd data 3;
     let len = be32 0 n1 n2 n3 + 4;
     rd_range m b (b + unat len) }"

definition TLS13_MessageLE_get_tls_msg_type :: "bytes \<Rightarrow> TLSMessageType option" where
  "TLS13_MessageLE_get_tls_msg_type d = rd d 0"

definition TLS13_MessageLE_get_tls_msg_length :: "bytes \<Rightarrow> UInt option" where
  "TLS13_MessageLE_get_tls_msg_length d =
     do { n1 \<leftarrow> rd d 1; n2 \<leftarrow> rd d 2; n3 \<leftarrow> rd d 3; Some (be32 0 n1 n2 n3) }"

definition TLS13_MessageLE_get_tls_msg_full_length :: "bytes \<Rightarrow> UInt option" where
  "TLS13_MessageLE_get_tls_msg_full_length d =
     map_option (\<lambda>n. n + 4) (TLS13_MessageLE_get_tls_msg_length d)"

definition TLS13_MessageLE_get_overlay_protocol_type :: "TLSRecordType" where
  "TLS13_MessageLE_get_overlay_protocol_type = TLSRecordType_HANDSHAKE"

definition TLS13_MessageLE_generate_object_bytes :: "TLSMessageType \<Rightarrow> bytes \<Rightarrow> bytes" where
  "TLS13_MessageLE_generate_object_bytes msg_type obj_bytes = 
     (let size = (of_nat (length obj_bytes) :: UInt)
      in [msg_type] @ [byte_of 16 size] @ [byte_of 8 size] @ [byte_of 0 size] @ obj_bytes)"

definition TLS13_MessageLE_get_tls_msg_data :: "bytes \<Rightarrow> bytes option" where
  "TLS13_MessageLE_get_tls_msg_data d = rd_range d 4 (length d)"

definition TLS13_MessageLE_to_bytes :: "bytes \<Rightarrow> bytes" where
  "TLS13_MessageLE_to_bytes d = d"

definition TLS13_MessageView_get_tls_msg_type :: "tls_view \<Rightarrow> mem \<Rightarrow> TLSMessageType option" where
  "TLS13_MessageView_get_tls_msg_type v m = rd m (tv_data v)"

definition TLS13_MessageView_get_tls_msg_length :: "tls_view \<Rightarrow> mem \<Rightarrow> UInt option" where
  "TLS13_MessageView_get_tls_msg_length v m = do {
     n1 \<leftarrow> rd m (tv_data v + 1);
     n2 \<leftarrow> rd m (tv_data v + 2);
     n3 \<leftarrow> rd m (tv_data v + 3);
     Some (be32 0 n1 n2 n3) }"

definition TLS13_MessageView_get_tls_msg_full_length :: "tls_view \<Rightarrow> mem \<Rightarrow> UInt option" where
  "TLS13_MessageView_get_tls_msg_full_length v m =
     map_option (\<lambda>n. n + 4) (TLS13_MessageView_get_tls_msg_length v m)"

definition TLS13_MessageView_of_range :: "mem \<Rightarrow> ptr \<Rightarrow> ptr \<Rightarrow> tls_view option" where
  "TLS13_MessageView_of_range m b e = do {
     let v = \<lparr> tv_data = b, tv_size = 0 \<rparr>;
     len \<leftarrow> TLS13_MessageView_get_tls_msg_full_length v m;
     Some (v \<lparr> tv_size := len \<rparr>) }"

definition TLS13_MessageView_get_overlay_protocol_type :: "TLSRecordType" where
  "TLS13_MessageView_get_overlay_protocol_type = TLSRecordType_HANDSHAKE"

definition TLS13_MessageView_generate_object_bytes :: "TLSMessageType \<Rightarrow> bytes \<Rightarrow> bytes" where
  "TLS13_MessageView_generate_object_bytes = TLS13_MessageLE_generate_object_bytes"

definition TLS13_MessageView_get_tls_msg_data :: "tls_view \<Rightarrow> ptr \<times> ptr" where
  "TLS13_MessageView_get_tls_msg_data v = (tv_data v + 4, tv_data v + unat (tv_size v))"

definition TLS13_MessageView_to_bytes :: "tls_view \<Rightarrow> ptr \<times> ptr" where
  "TLS13_MessageView_to_bytes v = (tv_data v, tv_data v + unat (tv_size v))"

section \<open>Schemes of hello packets\<close>

record TLS13_HelloPacketScheme =
  hs_random :: "nat \<times> nat"
  hs_session :: "nat \<times> nat"
  hs_ciphers :: "nat \<times> nat"
  hs_compressions :: "nat \<times> nat"
  hs_extensions :: "nat \<times> nat"

definition unified_parse_client_scheme :: "mem \<Rightarrow> ptr \<Rightarrow> ptr \<Rightarrow> TLS13_HelloPacketScheme option" where
  "unified_parse_client_scheme m first e = do {
     let r_start = 2;
     let r_end = r_start + unat TLSRandomView_get_tls_random_full_length;
     s \<leftarrow> TLSSessionIDView_of_range m (first + r_end) e;
     s_len \<leftarrow> TLSSessionIDView_get_tls_id_full_length s m;
     let s_end = r_end + unat s_len;
     c \<leftarrow> TLSCipherSuitView_of_range m (first + s_end) e;
     c_len \<leftarrow> TLSCipherSuitView_get_tls_ciphers_full_length c m;
     let c_end = s_end + unat c_len;
     comp \<leftarrow> TLSCompressionView_of_range m (first + c_end) e;
     comp_len \<leftarrow> TLSCompressionView_get_tls_compressions_full_length comp m;
     let comp_end = c_end + unat comp_len;
     ext \<leftarrow> TLSExtensionsView_of_range m (first + comp_end) e;
     ext_len \<leftarrow> TLSExtensionsView_get_tls_extensions_full_length ext m;
     Some \<lparr> hs_random = (r_start, r_end), hs_session = (r_end, s_end), hs_ciphers = (s_end, c_end),
       hs_compressions = (c_end, comp_end), hs_extensions = (comp_end, comp_end + unat ext_len) \<rparr> }"

text \<open>A server hello has one cipher suite of two bytes and one compression method of one byte.\<close>

definition unified_server_parse_scheme :: "mem \<Rightarrow> ptr \<Rightarrow> ptr \<Rightarrow> TLS13_HelloPacketScheme option" where
  "unified_server_parse_scheme m first e = do {
     let r_start = 2;
     let r_end = r_start + unat TLSRandomView_get_tls_random_full_length;
     s \<leftarrow> TLSSessionIDView_of_range m (first + r_end) e;
     s_len \<leftarrow> TLSSessionIDView_get_tls_id_full_length s m;
     let s_end = r_end + unat s_len;
     let c_end = s_end + 2;
     let comp_end = c_end + 1;
     ext \<leftarrow> TLSExtensionsView_of_range m (first + comp_end) e;
     ext_len \<leftarrow> TLSExtensionsView_get_tls_extensions_full_length ext m;
     Some \<lparr> hs_random = (r_start, r_end), hs_session = (r_end, s_end), hs_ciphers = (s_end, c_end),
       hs_compressions = (c_end, comp_end), hs_extensions = (comp_end, comp_end + unat ext_len) \<rparr> }"

section \<open>Generation strategy of the client hello\<close>

text \<open>What a strategy's methods return; they have no state.\<close>

record TLS13_ClientHelloGenStrategy =
  cs_legacy_version :: TLSProtocolVersion
  cs_session_length :: UByte
  cs_cipher_length :: UShort
  cs_compression_length :: UShort
  cs_supported_versions_length :: UShort
  cs_supported_versions :: "TLSProtocolVersion list"
  cs_key_share_length :: UShort
  cs_key_share :: "(TLSKeyTypes \<times> TLSKeyTypesLength) list"
  cs_sni_length :: UShort
  cs_sni_hosts :: "string list"
  cs_sni_hosts_of :: "string \<Rightarrow> string list"

definition TLS13_DefaultClientHelloGenerationStrategy_get_legacy_version :: "TLSProtocolVersion" where
  "TLS13_DefaultClientHelloGenerationStrategy_get_legacy_version = TLSProtocolVersion_TLS12"

definition TLS13_DefaultClientHelloGenerationStrategy_get_session_length :: "UByte" where
  "TLS13_DefaultClientHelloGenerationStrategy_get_session_length = 32"

definition TLS13_DefaultClientHelloGenerationStrategy_get_cipher_length :: "UShort" where
  "TLS13_DefaultClientHelloGenerationStrategy_get_cipher_length = 34"

definition TLS13_DefaultClientHelloGenerationStrategy_get_compression_length :: "UShort" where
  "TLS13_DefaultClientHelloGenerationStrategy_get_compression_length = 1"

definition TLS13_DefaultClientHelloGenerationStrategy_get_supported_versions_length :: "UShort" where
  "TLS13_DefaultClientHelloGenerationStrategy_get_supported_versions_length = 8"

definition TLS13_DefaultClientHelloGenerationStrategy_get_supported_versions :: "TLSProtocolVersion list" where
  "TLS13_DefaultClientHelloGenerationStrategy_get_supported_versions = 
     [TLSProtocolVersion_TLS13, TLSProtocolVersion_TLS12, TLSProtocolVersion_TLS11, TLSProtocolVersion_TLS10]"

definition TLS13_DefaultClientHelloGenerationStrategy_get_key_share_length :: "UShort" where
  "TLS13_DefaultClientHelloGenerationStrategy_get_key_share_length = 32"

definition TLS13_DefaultClientHelloGenerationStrategy_get_key_share :: "(TLSKeyTypes \<times> TLSKeyTypesLength) list" where
  "TLS13_DefaultClientHelloGenerationStrategy_get_key_share = 
     [(TLSKeyTypes_X25519, TLSKeyTypesLength_X25519_LENGTH)]"

definition TLS13_DefaultClientHelloGenerationStrategy_get_sni_length :: "UShort" where
  "TLS13_DefaultClientHelloGenerationStrategy_get_sni_length = 6"

definition TLS13_DefaultClientHelloGenerationStrategy_get_sni_hosts :: "string list" where
  "TLS13_DefaultClientHelloGenerationStrategy_get_sni_hosts = [''vk.com'']"

definition TLS13_DefaultClientHelloGenerationStrategy_get_sni_hosts_of :: "string \<Rightarrow> string list" where
  "TLS13_DefaultClientHelloGenerationStrategy_get_sni_hosts_of host = [host]"

definition TLS13_DefaultClientHelloGenerationStrategy :: TLS13_ClientHelloGenStrategy where
  "TLS13_DefaultClientHelloGenerationStrategy =
     \<lparr> cs_legacy_version = TLS13_DefaultClientHelloGenerationStrategy_get_legacy_version,
       cs_session_length = TLS13_DefaultClientHelloGenerationStrategy_get_session_length,
       cs_cipher_length = TLS13_DefaultClientHelloGenerationStrategy_get_cipher_length,
       cs_compression_length = TLS13_DefaultClientHelloGenerationStrategy_get_compression_length,
       cs_supported_versions_length = TLS13_DefaultClientHelloGenerationStrategy_get_supported_versions_length,
       cs_supported_versions = TLS13_DefaultClientHelloGenerationStrategy_get_supported_versions,
       cs_key_share_length = TLS13_DefaultClientHelloGenerationStrategy_get_key_share_length,
       cs_key_share = TLS13_DefaultClientHelloGenerationStrategy_get_key_share,
       cs_sni_length = TLS13_DefaultClientHelloGenerationStrategy_get_sni_length,
       cs_sni_hosts = TLS13_DefaultClientHelloGenerationStrategy_get_sni_hosts,
       cs_sni_hosts_of = TLS13_DefaultClientHelloGenerationStrategy_get_sni_hosts_of \<rparr>"

section \<open>Client hello\<close>

record TLS13_ClientHelloLE =
  ch_data :: bytes
  ch_scheme :: TLS13_HelloPacketScheme

definition TLS13_ClientHelloLE_parse_scheme :: "bytes \<Rightarrow> TLS13_HelloPacketScheme option" where
  "TLS13_ClientHelloLE_parse_scheme d = unified_parse_client_scheme d 0 (length d)"

definition TLS13_ClientHelloLE_of_range :: "mem \<Rightarrow> ptr \<Rightarrow> ptr \<Rightarrow> TLS13_ClientHelloLE option" where
  "TLS13_ClientHelloLE_of_range m b e = do {
     d \<leftarrow> rd_range m b e;
     s \<leftarrow> TLS13_ClientHelloLE_parse_scheme d;
     Some \<lparr> ch_data = d, ch_scheme = s \<rparr> }"

definition TLS13_ClientHelloLE_get_tls_version :: "TLS13_ClientHelloLE \<Rightarrow> UShort option" where
  "TLS13_ClientHelloLE_get_tls_version h = rd16 (ch_data h) 0"

definition TLS13_ClientHelloLE_is_valid :: "TLS13_ClientHelloLE \<Rightarrow> bool option" where
  "TLS13_ClientHelloLE_is_valid h = do {
     ver \<leftarrow> TLS13_ClientHelloLE_get_tls_version h;
     if ver \<noteq> TLSProtocolVersion_TLS12 then Some False else Some True }"

text \<open>Hidden data, here the method, key and user of the authorisation, travels as the session id.\<close>

definition TLS13_ClientHelloLE_generate_range_bytes :: "(nat \<Rightarrow> byte_source) \<Rightarrow> UInt \<Rightarrow> TLS13_ClientHelloGenStrategy \<Rightarrow> bytes \<Rightarrow> bytes option" where
  "TLS13_ClientHelloLE_generate_range_bytes rss time strategy data = do {
     let legacy_version = cs_legacy_version strategy;
     let obj_bytes = [byte_of 8 legacy_version] @ [byte_of 0 legacy_version];
     random \<leftarrow> TLSRandomLE_generate_object_bytes (rss 0) time;
     let obj_bytes = obj_bytes @ random;
     let session = TLSSessionIDLE_generate_range_bytes data;
     let obj_bytes = obj_bytes @ session;
     cipher \<leftarrow> TLSCipherSuitLE_generate_object_bytes (rss 2) (cs_cipher_length strategy);
     let obj_bytes = obj_bytes @ cipher;
     compres \<leftarrow> TLSCompressionLE_generate_object_bytes (rss 3) (ucast (cs_compression_length strategy));
     let obj_bytes = obj_bytes @ compres;
     let sup_vers = cs_supported_versions strategy;
     let key_shares = cs_key_share strategy;
     let sni_hosts = cs_sni_hosts strategy;
     extensions \<leftarrow> TLSExtensionsLE_generate_object_bytes (\<lambda>k. rss (4 + k))
       [SupportedVersionsClientHello sup_vers, KeyShareClientHello key_shares, ServerNameIndication sni_hosts];
     Some (obj_bytes @ extensions) }"

definition TLS13_ClientHelloLE_generate_host_bytes :: "(nat \<Rightarrow> byte_source) \<Rightarrow> UInt \<Rightarrow> TLS13_ClientHelloGenStrategy \<Rightarrow> string \<Rightarrow> bytes \<Rightarrow> bytes option" where
  "TLS13_ClientHelloLE_generate_host_bytes rss time strategy host data = do {
     let legacy_version = cs_legacy_version strategy;
     let obj_bytes = [byte_of 8 legacy_version] @ [byte_of 0 legacy_version];
     random \<leftarrow> TLSRandomLE_generate_object_bytes (rss 0) time;
     let obj_bytes = obj_bytes @ random;
     let session = TLSSessionIDLE_generate_range_bytes data;
     let obj_bytes = obj_bytes @ session;
     cipher \<leftarrow> TLSCipherSuitLE_generate_object_bytes (rss 2) (cs_cipher_length strategy);
     let obj_bytes = obj_bytes @ cipher;
     compres \<leftarrow> TLSCompressionLE_generate_object_bytes (rss 3) (ucast (cs_compression_length strategy));
     let obj_bytes = obj_bytes @ compres;
     let sup_vers = cs_supported_versions strategy;
     let key_shares = cs_key_share strategy;
     let sni_hosts = cs_sni_hosts_of strategy host;
     extensions \<leftarrow> TLSExtensionsLE_generate_object_bytes (\<lambda>k. rss (4 + k))
       [SupportedVersionsClientHello sup_vers, KeyShareClientHello key_shares, ServerNameIndication sni_hosts];
     Some (obj_bytes @ extensions) }"

definition TLS13_ClientHelloLE_generate_object_bytes :: "(nat \<Rightarrow> byte_source) \<Rightarrow> UInt \<Rightarrow> TLS13_ClientHelloGenStrategy \<Rightarrow>  bytes option" where
  "TLS13_ClientHelloLE_generate_object_bytes rss time strategy = do {
     let legacy_version = cs_legacy_version strategy;
     let obj_bytes = [byte_of 8 legacy_version] @ [byte_of 0 legacy_version];
     random \<leftarrow> TLSRandomLE_generate_object_bytes (rss 0) time;
     let obj_bytes = obj_bytes @ random;
     session \<leftarrow> TLSSessionIDLE_generate_object_bytes (rss 1) (cs_session_length strategy);
     let obj_bytes = obj_bytes @ session;
     cipher \<leftarrow> TLSCipherSuitLE_generate_object_bytes (rss 2) (cs_cipher_length strategy);
     let obj_bytes = obj_bytes @ cipher;
     compres \<leftarrow> TLSCompressionLE_generate_object_bytes (rss 3) (ucast (cs_compression_length strategy));
     let obj_bytes = obj_bytes @ compres;
     let sup_vers = cs_supported_versions strategy;
     let key_shares = cs_key_share strategy;
     let sni_hosts = cs_sni_hosts strategy;
     extensions \<leftarrow> TLSExtensionsLE_generate_object_bytes (\<lambda>k. rss (4 + k))
       [SupportedVersionsClientHello sup_vers, KeyShareClientHello key_shares, ServerNameIndication sni_hosts];
     Some (obj_bytes @ extensions) }"

definition TLS13_ClientHelloLE_generate_range_object :: "(nat \<Rightarrow> byte_source) \<Rightarrow> UInt \<Rightarrow> TLS13_ClientHelloGenStrategy \<Rightarrow> bytes \<Rightarrow> TLS13_ClientHelloLE option" where
  "TLS13_ClientHelloLE_generate_range_object rss time strategy data = do {
     obj_bytes \<leftarrow> TLS13_ClientHelloLE_generate_range_bytes rss time strategy data;
     TLS13_ClientHelloLE_of_range obj_bytes 0 (length obj_bytes) }"

definition TLS13_ClientHelloLE_generate_host_object :: "(nat \<Rightarrow> byte_source) \<Rightarrow> UInt \<Rightarrow> TLS13_ClientHelloGenStrategy \<Rightarrow> string \<Rightarrow> bytes \<Rightarrow> TLS13_ClientHelloLE option" where
  "TLS13_ClientHelloLE_generate_host_object rss time strategy host data = do {
     obj_bytes \<leftarrow> TLS13_ClientHelloLE_generate_host_bytes rss time strategy host data;
     TLS13_ClientHelloLE_of_range obj_bytes 0 (length obj_bytes) }"

definition TLS13_ClientHelloLE_generate_object :: "(nat \<Rightarrow> byte_source) \<Rightarrow> UInt \<Rightarrow> TLS13_ClientHelloGenStrategy \<Rightarrow>  TLS13_ClientHelloLE option" where
  "TLS13_ClientHelloLE_generate_object rss time strategy = do {
     obj_bytes \<leftarrow> TLS13_ClientHelloLE_generate_object_bytes rss time strategy;
     TLS13_ClientHelloLE_of_range obj_bytes 0 (length obj_bytes) }"

definition TLS13_ClientHelloLE_get_overlay_protocol_type :: "TLSMessageType" where
  "TLS13_ClientHelloLE_get_overlay_protocol_type = TLSMessageType_CLIENT_HELLO"

text \<open>The loop both classes have for the server name: it may not end, since a full length may be zero.  What it returns
  for the extension it finds is a view that begins at the header of that extension.\<close>

partial_function (option) sni_search :: "mem \<Rightarrow> ptr \<Rightarrow> ptr \<Rightarrow> ptr \<Rightarrow> tls_view option" where
  "sni_search m b e i =
     (if i < e then do {
        ext \<leftarrow> TLSExtensionView_of_range m i e;
        t \<leftarrow> TLSExtensionView_get_tls_ext_type ext m;
        if t = TLSExtensionType_SERVER_NAME then TLSServerNameIndicationExtensionView_of_range m i e
        else do {
          n \<leftarrow> TLSExtensionView_get_tls_ext_full_length ext m;
          sni_search m b e (i + unat n) } }
      else TLSServerNameIndicationExtensionView_of_range m b b)"

definition TLS13_ClientHelloLE_get_tls_random :: "TLS13_ClientHelloLE \<Rightarrow> tls_view" where
  "TLS13_ClientHelloLE_get_tls_random h = 
     TLSRandomView_of_range (fst (hs_random (ch_scheme h))) (snd (hs_random (ch_scheme h)))"

definition TLS13_ClientHelloLE_get_tls_session :: "TLS13_ClientHelloLE \<Rightarrow> tls_view option" where
  "TLS13_ClientHelloLE_get_tls_session h = 
     TLSSessionIDView_of_range (ch_data h) (fst (hs_session (ch_scheme h))) (snd (hs_session (ch_scheme h)))"

definition TLS13_ClientHelloLE_get_tls_cipher_suites :: "TLS13_ClientHelloLE \<Rightarrow> tls_view option" where
  "TLS13_ClientHelloLE_get_tls_cipher_suites h = 
     TLSCipherSuitView_of_range (ch_data h) (fst (hs_ciphers (ch_scheme h))) (snd (hs_ciphers (ch_scheme h)))"

definition TLS13_ClientHelloLE_get_tls_compression_methods :: "TLS13_ClientHelloLE \<Rightarrow> tls_view option" where
  "TLS13_ClientHelloLE_get_tls_compression_methods h = 
     TLSCompressionView_of_range (ch_data h) (fst (hs_compressions (ch_scheme h))) (snd (hs_compressions (ch_scheme h)))"

definition TLS13_ClientHelloLE_get_tls_extensions_data :: "TLS13_ClientHelloLE \<Rightarrow> tls_view option" where
  "TLS13_ClientHelloLE_get_tls_extensions_data h = 
     TLSExtensionsView_of_range (ch_data h) (fst (hs_extensions (ch_scheme h))) (snd (hs_extensions (ch_scheme h)))"

definition TLS13_ClientHelloLE_get_tls_sni_data :: "TLS13_ClientHelloLE \<Rightarrow> tls_view option" where
  "TLS13_ClientHelloLE_get_tls_sni_data h = do {
     exts \<leftarrow> TLS13_ClientHelloLE_get_tls_extensions_data h;
     let (b, e) = TLSExtensionsView_get_tls_extensions exts;
     sni_search (ch_data h) b e b }"

definition TLS13_ClientHelloLE_to_bytes :: "TLS13_ClientHelloLE \<Rightarrow> bytes" where
  "TLS13_ClientHelloLE_to_bytes h = ch_data h"

record TLS13_ClientHelloView =
  chv_data :: ptr
  chv_size :: UInt
  chv_scheme :: TLS13_HelloPacketScheme

definition TLS13_ClientHelloView_parse_scheme :: "mem \<Rightarrow> ptr \<Rightarrow> UInt \<Rightarrow> TLS13_HelloPacketScheme option" where
  "TLS13_ClientHelloView_parse_scheme m data sz = unified_parse_client_scheme m data (data + unat sz)"

definition TLS13_ClientHelloView_of_range :: "mem \<Rightarrow> ptr \<Rightarrow> ptr \<Rightarrow> TLS13_ClientHelloView option" where
  "TLS13_ClientHelloView_of_range m b e = do {
     let size = of_int (int e - int b);
     s \<leftarrow> TLS13_ClientHelloView_parse_scheme m b size;
     Some \<lparr> chv_data = b, chv_size = size, chv_scheme = s \<rparr> }"

definition TLS13_ClientHelloView_generate_range_bytes :: "(nat \<Rightarrow> byte_source) \<Rightarrow> UInt \<Rightarrow> TLS13_ClientHelloGenStrategy \<Rightarrow> bytes \<Rightarrow> bytes option" where
  "TLS13_ClientHelloView_generate_range_bytes = TLS13_ClientHelloLE_generate_range_bytes"

definition TLS13_ClientHelloView_generate_range_object :: "(nat \<Rightarrow> byte_source) \<Rightarrow> UInt \<Rightarrow> TLS13_ClientHelloGenStrategy \<Rightarrow> bytes \<Rightarrow> TLS13_ClientHelloLE option" where
  "TLS13_ClientHelloView_generate_range_object = TLS13_ClientHelloLE_generate_range_object"

definition TLS13_ClientHelloView_generate_object_bytes :: "(nat \<Rightarrow> byte_source) \<Rightarrow> UInt \<Rightarrow> TLS13_ClientHelloGenStrategy \<Rightarrow>  bytes option" where
  "TLS13_ClientHelloView_generate_object_bytes = TLS13_ClientHelloLE_generate_object_bytes"

definition TLS13_ClientHelloView_generate_object :: "(nat \<Rightarrow> byte_source) \<Rightarrow> UInt \<Rightarrow> TLS13_ClientHelloGenStrategy \<Rightarrow>  TLS13_ClientHelloLE option" where
  "TLS13_ClientHelloView_generate_object = TLS13_ClientHelloLE_generate_object"

definition TLS13_ClientHelloView_get_overlay_protocol_type :: "TLSMessageType" where
  "TLS13_ClientHelloView_get_overlay_protocol_type = TLSMessageType_CLIENT_HELLO"

definition TLS13_ClientHelloView_get_tls_version :: "TLS13_ClientHelloView \<Rightarrow> mem \<Rightarrow> UShort option" where
  "TLS13_ClientHelloView_get_tls_version h m = rd16 m (chv_data h)"

definition TLS13_ClientHelloView_get_tls_random :: "TLS13_ClientHelloView \<Rightarrow> tls_view" where
  "TLS13_ClientHelloView_get_tls_random h = 
     TLSRandomView_of_range (chv_data h + fst (hs_random (chv_scheme h))) (chv_data h + snd (hs_random (chv_scheme h)))"

definition TLS13_ClientHelloView_get_tls_session :: "TLS13_ClientHelloView \<Rightarrow> mem \<Rightarrow> tls_view option" where
  "TLS13_ClientHelloView_get_tls_session h m = 
     TLSSessionIDView_of_range m (chv_data h + fst (hs_session (chv_scheme h))) (chv_data h + snd (hs_session (chv_scheme h)))"

definition TLS13_ClientHelloView_get_tls_cipher_suites :: "TLS13_ClientHelloView \<Rightarrow> mem \<Rightarrow> tls_view option" where
  "TLS13_ClientHelloView_get_tls_cipher_suites h m = 
     TLSCipherSuitView_of_range m (chv_data h + fst (hs_ciphers (chv_scheme h))) (chv_data h + snd (hs_ciphers (chv_scheme h)))"

definition TLS13_ClientHelloView_get_tls_compression_methods :: "TLS13_ClientHelloView \<Rightarrow> mem \<Rightarrow> tls_view option" where
  "TLS13_ClientHelloView_get_tls_compression_methods h m = 
     TLSCompressionView_of_range m (chv_data h + fst (hs_compressions (chv_scheme h))) (chv_data h + snd (hs_compressions (chv_scheme h)))"

definition TLS13_ClientHelloView_get_tls_extensions_data :: "TLS13_ClientHelloView \<Rightarrow> mem \<Rightarrow> tls_view option" where
  "TLS13_ClientHelloView_get_tls_extensions_data h m = 
     TLSExtensionsView_of_range m (chv_data h + fst (hs_extensions (chv_scheme h))) (chv_data h + snd (hs_extensions (chv_scheme h)))"

definition TLS13_ClientHelloView_get_tls_sni_data :: "TLS13_ClientHelloView \<Rightarrow> mem \<Rightarrow> tls_view option" where
  "TLS13_ClientHelloView_get_tls_sni_data h m = do {
     exts \<leftarrow> TLS13_ClientHelloView_get_tls_extensions_data h m;
     let (b, e) = TLSExtensionsView_get_tls_extensions exts;
     sni_search m b e b }"

definition TLS13_ClientHelloView_to_bytes :: "TLS13_ClientHelloView \<Rightarrow> ptr \<times> ptr" where
  "TLS13_ClientHelloView_to_bytes h = (chv_data h, chv_data h + unat (chv_size h))"

section \<open>Server hello\<close>

record TLS13_ServerHelloGenStrategy =
  ss_legacy_version :: TLSProtocolVersion
  ss_session_length :: UByte
  ss_cipher_suite :: TLSCipherSuite
  ss_compression_method :: TLSCompressionMethod
  ss_supported_versions_length :: UShort
  ss_supported_version :: TLSProtocolVersion

definition TLS13_DefaultServerHelloGenerationStrategy_get_legacy_version :: "TLSProtocolVersion" where
  "TLS13_DefaultServerHelloGenerationStrategy_get_legacy_version = TLSProtocolVersion_TLS12"

definition TLS13_DefaultServerHelloGenerationStrategy_get_session_length :: "UByte" where
  "TLS13_DefaultServerHelloGenerationStrategy_get_session_length = 32"

definition TLS13_DefaultServerHelloGenerationStrategy_get_cipher_suite :: "TLSCipherSuite" where
  "TLS13_DefaultServerHelloGenerationStrategy_get_cipher_suite = 
     TLSCipherSuite_TLS_ECDHE_RSA_WITH_AES_128_GCM_SHA256"

definition TLS13_DefaultServerHelloGenerationStrategy_get_compression_method :: "TLSCompressionMethod" where
  "TLS13_DefaultServerHelloGenerationStrategy_get_compression_method = 
     TLSCompressionMethod_NULL_COMPRESSION"

definition TLS13_DefaultServerHelloGenerationStrategy_get_supported_versions_length :: "UShort" where
  "TLS13_DefaultServerHelloGenerationStrategy_get_supported_versions_length = 2"

definition TLS13_DefaultServerHelloGenerationStrategy_get_supported_version :: "TLSProtocolVersion" where
  "TLS13_DefaultServerHelloGenerationStrategy_get_supported_version = TLSProtocolVersion_TLS13"

definition TLS13_DefaultServerHelloGenerationStrategy :: TLS13_ServerHelloGenStrategy where
  "TLS13_DefaultServerHelloGenerationStrategy =
     \<lparr> ss_legacy_version = TLS13_DefaultServerHelloGenerationStrategy_get_legacy_version,
       ss_session_length = TLS13_DefaultServerHelloGenerationStrategy_get_session_length,
       ss_cipher_suite = TLS13_DefaultServerHelloGenerationStrategy_get_cipher_suite,
       ss_compression_method = TLS13_DefaultServerHelloGenerationStrategy_get_compression_method,
       ss_supported_versions_length = TLS13_DefaultServerHelloGenerationStrategy_get_supported_versions_length,
       ss_supported_version = TLS13_DefaultServerHelloGenerationStrategy_get_supported_version \<rparr>"

record TLS13_ServerHelloLE =
  sh_data :: bytes
  sh_scheme :: TLS13_HelloPacketScheme

definition TLS13_ServerHelloLE_parse_scheme :: "bytes \<Rightarrow> TLS13_HelloPacketScheme option" where
  "TLS13_ServerHelloLE_parse_scheme d = unified_server_parse_scheme d 0 (length d)"

definition TLS13_ServerHelloLE_of_range :: "mem \<Rightarrow> ptr \<Rightarrow> ptr \<Rightarrow> TLS13_ServerHelloLE option" where
  "TLS13_ServerHelloLE_of_range m b e = do {
     d \<leftarrow> rd_range m b e;
     s \<leftarrow> TLS13_ServerHelloLE_parse_scheme d;
     Some \<lparr> sh_data = d, sh_scheme = s \<rparr> }"

definition TLS13_ServerHelloLE_get_overlay_protocol_type :: "TLSMessageType" where
  "TLS13_ServerHelloLE_get_overlay_protocol_type = TLSMessageType_SERVER_HELLO"

text \<open>The session id is drawn anew; a comment of the code says that it must be the client's.\<close>

definition TLS13_ServerHelloLE_generate_object_bytes ::
    "(nat \<Rightarrow> byte_source) \<Rightarrow> UInt \<Rightarrow> TLS13_ServerHelloGenStrategy \<Rightarrow> bytes option" where
  "TLS13_ServerHelloLE_generate_object_bytes rss time strategy = do {
     let legacy_version = ss_legacy_version strategy;
     let obj_bytes = [byte_of 8 legacy_version] @ [byte_of 0 legacy_version];
     random \<leftarrow> TLSRandomLE_generate_object_bytes (rss 0) time;
     let obj_bytes = obj_bytes @ random;
     session \<leftarrow> TLSSessionIDLE_generate_object_bytes (rss 1) (ss_session_length strategy);
     let obj_bytes = obj_bytes @ session;
     let cipher_suite = ss_cipher_suite strategy;
     let obj_bytes = obj_bytes @ [byte_of 8 cipher_suite] @ [byte_of 0 cipher_suite];
     let compres_method = ss_compression_method strategy;
     let obj_bytes = obj_bytes @ [compres_method AND 0xFF];
     let sup_ver = ss_supported_version strategy;
     extensions \<leftarrow> TLSExtensionsLE_generate_object_bytes (\<lambda>k. rss (4 + k)) [SupportedVersionsServerHello sup_ver];
     Some (obj_bytes @ extensions) }"

definition TLS13_ServerHelloLE_get_tls_version :: "TLS13_ServerHelloLE \<Rightarrow> UShort option" where
  "TLS13_ServerHelloLE_get_tls_version h = rd16 (sh_data h) 0"

text \<open>The low byte of the cipher suite is read at the end of its range, one byte after it.\<close>

definition TLS13_ServerHelloLE_get_tls_random :: "TLS13_ServerHelloLE \<Rightarrow> tls_view" where
  "TLS13_ServerHelloLE_get_tls_random h = 
     TLSRandomView_of_range (fst (hs_random (sh_scheme h))) (snd (hs_random (sh_scheme h)))"

definition TLS13_ServerHelloLE_get_tls_session :: "TLS13_ServerHelloLE \<Rightarrow> tls_view option" where
  "TLS13_ServerHelloLE_get_tls_session h = 
     TLSSessionIDView_of_range (sh_data h) (fst (hs_session (sh_scheme h))) (snd (hs_session (sh_scheme h)))"

definition TLS13_ServerHelloLE_get_tls_cipher_suite :: "TLS13_ServerHelloLE \<Rightarrow> TLSCipherSuite option" where
  "TLS13_ServerHelloLE_get_tls_cipher_suite h = do {
     hi \<leftarrow> rd (sh_data h) (fst (hs_ciphers (sh_scheme h)));
     lo \<leftarrow> rd (sh_data h) (snd (hs_ciphers (sh_scheme h)));
     Some (be16 hi lo) }"

definition TLS13_ServerHelloLE_get_tls_compression_method :: "TLS13_ServerHelloLE \<Rightarrow> TLSCompressionMethod option" where
  "TLS13_ServerHelloLE_get_tls_compression_method h = 
     rd (sh_data h) (fst (hs_compressions (sh_scheme h)))"

definition TLS13_ServerHelloLE_get_tls_extensions_data :: "TLS13_ServerHelloLE \<Rightarrow> tls_view option" where
  "TLS13_ServerHelloLE_get_tls_extensions_data h = 
     TLSExtensionsView_of_range (sh_data h) (fst (hs_extensions (sh_scheme h))) (snd (hs_extensions (sh_scheme h)))"

definition TLS13_ServerHelloLE_to_bytes :: "TLS13_ServerHelloLE \<Rightarrow> bytes" where
  "TLS13_ServerHelloLE_to_bytes h = sh_data h"

record TLS13_ServerHelloView =
  shv_data :: ptr
  shv_size :: UInt
  shv_scheme :: TLS13_HelloPacketScheme

definition TLS13_ServerHelloView_parse_scheme :: "mem \<Rightarrow> ptr \<Rightarrow> UInt \<Rightarrow> TLS13_HelloPacketScheme option" where
  "TLS13_ServerHelloView_parse_scheme m data sz = unified_server_parse_scheme m data (data + unat sz)"

definition TLS13_ServerHelloView_of_range :: "mem \<Rightarrow> ptr \<Rightarrow> ptr \<Rightarrow> TLS13_ServerHelloView option" where
  "TLS13_ServerHelloView_of_range m b e = do {
     let size = of_int (int e - int b);
     s \<leftarrow> TLS13_ServerHelloView_parse_scheme m b size;
     Some \<lparr> shv_data = b, shv_size = size, shv_scheme = s \<rparr> }"

definition TLS13_ServerHelloView_get_overlay_protocol_type :: "TLSMessageType" where
  "TLS13_ServerHelloView_get_overlay_protocol_type = TLSMessageType_SERVER_HELLO"

text \<open>The view's generator calls itself.\<close>

partial_function (option) TLS13_ServerHelloView_generate_object_bytes ::
    "TLS13_ServerHelloGenStrategy \<Rightarrow> bytes option" where
  "TLS13_ServerHelloView_generate_object_bytes strategy = TLS13_ServerHelloView_generate_object_bytes strategy"

definition TLS13_ServerHelloView_get_tls_version :: "TLS13_ServerHelloView \<Rightarrow> mem \<Rightarrow> UShort option" where
  "TLS13_ServerHelloView_get_tls_version h m = rd16 m (shv_data h)"

definition TLS13_ServerHelloView_get_tls_random :: "TLS13_ServerHelloView \<Rightarrow> tls_view" where
  "TLS13_ServerHelloView_get_tls_random h = 
     TLSRandomView_of_range (shv_data h + fst (hs_random (shv_scheme h))) (shv_data h + snd (hs_random (shv_scheme h)))"

definition TLS13_ServerHelloView_get_tls_session :: "TLS13_ServerHelloView \<Rightarrow> mem \<Rightarrow> tls_view option" where
  "TLS13_ServerHelloView_get_tls_session h m = 
     TLSSessionIDView_of_range m (shv_data h + fst (hs_session (shv_scheme h))) (shv_data h + snd (hs_session (shv_scheme h)))"

definition TLS13_ServerHelloView_get_tls_cipher_suite :: "TLS13_ServerHelloView \<Rightarrow> mem \<Rightarrow> TLSCipherSuite option" where
  "TLS13_ServerHelloView_get_tls_cipher_suite h m = do {
     hi \<leftarrow> rd m (shv_data h + fst (hs_ciphers (shv_scheme h)));
     lo \<leftarrow> rd m (shv_data h + snd (hs_ciphers (shv_scheme h)));
     Some (be16 hi lo) }"

definition TLS13_ServerHelloView_get_tls_compression_method :: "TLS13_ServerHelloView \<Rightarrow> mem \<Rightarrow> TLSCompressionMethod option" where
  "TLS13_ServerHelloView_get_tls_compression_method h m = 
     rd m (shv_data h + fst (hs_compressions (shv_scheme h)))"

definition TLS13_ServerHelloView_get_tls_extensions_data :: "TLS13_ServerHelloView \<Rightarrow> mem \<Rightarrow> tls_view option" where
  "TLS13_ServerHelloView_get_tls_extensions_data h m = 
     TLSExtensionsView_of_range m (shv_data h + fst (hs_extensions (shv_scheme h))) (shv_data h + snd (hs_extensions (shv_scheme h)))"

definition TLS13_ServerHelloView_to_bytes :: "TLS13_ServerHelloView \<Rightarrow> ptr \<times> ptr" where
  "TLS13_ServerHelloView_to_bytes h = (shv_data h, shv_data h + unat (shv_size h))"

section \<open>Well-formed hellos\<close>

text \<open>A hello packet as the sequence of its fields, and its scheme.\<close>

definition hello_bytes :: "UShort \<Rightarrow> bytes list \<Rightarrow> bytes" where
  "hello_bytes version fs = be16_bytes version @ concat fs"

definition scheme_of :: "nat \<Rightarrow> nat \<Rightarrow> nat \<Rightarrow> nat \<Rightarrow> TLS13_HelloPacketScheme" where
  "scheme_of ns nc nk nx = \<lparr> hs_random = (2, 34), hs_session = (34, 34 + ns),
     hs_ciphers = (34 + ns, 34 + ns + nc), hs_compressions = (34 + ns + nc, 34 + ns + nc + nk),
     hs_extensions = (34 + ns + nc + nk, 34 + ns + nc + nk + nx) \<rparr>"

lemma client_scheme_at:
  assumes "length r = 32" "counted8 s" "counted16 c" "counted8 k" "counted16 x"
    and m: "m = pre @ hello_bytes v [r, s, c, k, x] @ rest"
  shows "unified_parse_client_scheme m (length pre) e =
    Some (scheme_of (length s) (length c) (length k) (length x))"
proof -
  let ?p = "length pre + 34"
  have m': "m = (pre @ be16_bytes v @ r) @ s @ c @ k @ x @ rest"
      "m = (pre @ be16_bytes v @ r @ s) @ c @ k @ x @ rest"
      "m = (pre @ be16_bytes v @ r @ s @ c) @ k @ x @ rest"
      "m = (pre @ be16_bytes v @ r @ s @ c @ k) @ x @ rest"
    by (simp_all add: m hello_bytes_def)
  obtain sv sn where "TLSSessionIDView_of_range m ?p e = Some sv"
      "TLSSessionIDView_get_tls_id_full_length sv m = Some sn" "unat sn = length s"
    using session.step [OF assms(2) m'(1) refl, of e] assms(1) by (auto simp: add.assoc)
  moreover obtain cv cn where "TLSCipherSuitView_of_range m (?p + length s) e = Some cv"
      "TLSCipherSuitView_get_tls_ciphers_full_length cv m = Some cn" "unat cn = length c"
    using cipher.step [OF assms(3) m'(2) refl, of e] assms(1) by (auto simp: add.assoc)
  moreover obtain kv kn where "TLSCompressionView_of_range m (?p + length s + length c) e = Some kv"
      "TLSCompressionView_get_tls_compressions_full_length kv m = Some kn" "unat kn = length k"
    using compression.step [OF assms(4) m'(3) refl, of e] assms(1) by (auto simp: add.assoc)
  moreover obtain xv xn where "TLSExtensionsView_of_range m (?p + length s + length c + length k) e = Some xv"
      "TLSExtensionsView_get_tls_extensions_full_length xv m = Some xn" "unat xn = length x"
    using extensions.step [OF assms(5) m'(4) refl, of e] assms(1) by (auto simp: add.assoc)
  ultimately show ?thesis
    by (simp add: unified_parse_client_scheme_def Let_def TLSRandomView_get_tls_random_full_length_def
        scheme_of_def add.assoc)
qed

lemma server_scheme_at:
  assumes "length r = 32" "counted8 s" "length c = 3" "counted16 x"
    and m: "m = pre @ hello_bytes v [r, s, c, x] @ rest"
  shows "unified_server_parse_scheme m (length pre) e = Some (scheme_of (length s) 2 1 (length x))"
proof -
  let ?p = "length pre + 34"
  have m': "m = (pre @ be16_bytes v @ r) @ s @ c @ x @ rest"
      "m = (pre @ be16_bytes v @ r @ s @ c) @ x @ rest"
    by (simp_all add: m hello_bytes_def)
  obtain sv sn where "TLSSessionIDView_of_range m ?p e = Some sv"
      "TLSSessionIDView_get_tls_id_full_length sv m = Some sn" "unat sn = length s"
    using session.step [OF assms(2) m'(1) refl, of e] assms(1) by (auto simp: add.assoc)
  moreover obtain xv xn where "TLSExtensionsView_of_range m (?p + length s + 3) e = Some xv"
      "TLSExtensionsView_get_tls_extensions_full_length xv m = Some xn" "unat xn = length x"
    using extensions.step [OF assms(4) m'(2) refl, of e] assms(1,3) by (auto simp: add.assoc)
  ultimately show ?thesis
    by (simp add: unified_server_parse_scheme_def Let_def TLSRandomView_get_tls_random_full_length_def
        scheme_of_def add.assoc numeral_3_eq_3)
qed

text \<open>The ranges of any scheme the parser returns follow one another from the end of the version on.\<close>

lemma client_scheme_contiguous:
  assumes "unified_parse_client_scheme m p e = Some s"
  shows "hs_random s = (2, 34) \<and> fst (hs_session s) = 34 \<and> snd (hs_session s) = fst (hs_ciphers s) \<and>
    snd (hs_ciphers s) = fst (hs_compressions s) \<and> snd (hs_compressions s) = fst (hs_extensions s)"
  using assms by (auto simp: unified_parse_client_scheme_def Let_def bind_eq_Some_conv
      TLSRandomView_get_tls_random_full_length_def)

section \<open>Generated hellos\<close>

definition default_extension_list :: "(nat \<Rightarrow> byte_source) \<Rightarrow> string \<Rightarrow> bytes list" where
  "default_extension_list rss host =
     [TLSExtensionLE_generate_object_bytes 43 [8, 3, 4, 3, 3, 3, 2, 3, 1],
      TLSExtensionLE_generate_object_bytes 40 ([0, 36, 0, 29, 0, 32] @ map (rss 4) [0..<32]),
      TLSExtensionLE_generate_object_bytes 0 (TLSServerNameIndicationExtensionLE_generate_object_bytes [host])]"

definition default_extensions :: "(nat \<Rightarrow> byte_source) \<Rightarrow> string \<Rightarrow> bytes" where
  "default_extensions rss host =
     (let exts = concat (default_extension_list rss host) in be16_bytes (of_nat (length exts)) @ exts)"

lemmas default_client_defs = TLS13_DefaultClientHelloGenerationStrategy_def
  TLS13_DefaultClientHelloGenerationStrategy_get_legacy_version_def
  TLS13_DefaultClientHelloGenerationStrategy_get_session_length_def
  TLS13_DefaultClientHelloGenerationStrategy_get_cipher_length_def
  TLS13_DefaultClientHelloGenerationStrategy_get_compression_length_def
  TLS13_DefaultClientHelloGenerationStrategy_get_supported_versions_def
  TLS13_DefaultClientHelloGenerationStrategy_get_key_share_def
  TLS13_DefaultClientHelloGenerationStrategy_get_sni_hosts_def
  TLS13_DefaultClientHelloGenerationStrategy_get_sni_hosts_of_def

lemmas tls_const_defs = TLSProtocolVersion_TLS10_def TLSProtocolVersion_TLS11_def TLSProtocolVersion_TLS12_def
  TLSProtocolVersion_TLS13_def TLSKeyTypes_X25519_def TLSKeyTypesLength_X25519_LENGTH_def
  TLSExtensionType_SUPPORTED_VERSIONS_def TLSExtensionType_KEY_SHARE_def TLSExtensionType_SERVER_NAME_def
  TLSSupportedVersionsClientHelloExtensionLE_get_extension_type_def
  TLSSupportedVersionsServerHelloExtensionLE_get_extension_type_def
  TLSKeyShareClientHelloLE_get_extension_type_def TLSServerNameIndicationExtensionLE_get_extension_type_def

lemma default_extensions_generated:
  "TLSExtensionsLE_generate_object_bytes (\<lambda>k. rss (4 + k))
    [SupportedVersionsClientHello (cs_supported_versions TLS13_DefaultClientHelloGenerationStrategy),
     KeyShareClientHello (cs_key_share TLS13_DefaultClientHelloGenerationStrategy), ServerNameIndication [host]] =
   Some (default_extensions rss host)"
proof -
  have "extensions_bytes (\<lambda>k. rss (4 + k))
    [SupportedVersionsClientHello (cs_supported_versions TLS13_DefaultClientHelloGenerationStrategy),
     KeyShareClientHello (cs_key_share TLS13_DefaultClientHelloGenerationStrategy), ServerNameIndication [host]] =
    Some (default_extension_list rss host)"
    by (simp add: default_client_defs versions_bytes_eq TLSKeyShareClientHelloLE_generate_object_bytes_def
        key_share_entry_bytes_eq tls_const_defs be16_bytes_def byte_of_def default_extension_list_def)
  from extensions_generate_eq [OF this] show ?thesis
    by (simp add: default_extensions_def Let_def)
qed

lemma length_default_extensions:
  "length (concat (default_extension_list rss host)) = length host + 64"
  "length (default_extensions rss host) = length host + 66"
  by (simp_all add: default_extensions_def default_extension_list_def Let_def sni_one_host_bytes)

lemma counted16_of: "length xs < 65534 \<Longrightarrow> counted16 (be16_bytes (of_nat (length xs)) @ xs)"
  by (simp add: counted16_def be16_bytes_def unat_of_nat_small)

lemma default_extensions_counted: "length host < 65470 \<Longrightarrow> counted16 (default_extensions rss host)"
  unfolding default_extensions_def Let_def by (rule counted16_of) (simp only: length_default_extensions)

text \<open>The fields of the hellos the default strategy makes: random, session id, cipher suites, compression methods and
  extensions.\<close>

definition default_fields :: "(nat \<Rightarrow> byte_source) \<Rightarrow> UInt \<Rightarrow> bytes \<Rightarrow> string \<Rightarrow> bytes list" where
  "default_fields rss time session host =
     [be32_bytes time @ map (rss 0) [0..<28], session, [0, 34] @ map (rss 2) [0..<34], [1, rss 3 0],
      default_extensions rss host]"

lemma default_host_bytes:
  "TLS13_ClientHelloLE_generate_host_bytes rss time TLS13_DefaultClientHelloGenerationStrategy host data =
   Some (hello_bytes TLSProtocolVersion_TLS12
     (default_fields rss time (TLSSessionIDLE_generate_range_bytes data) host))"
  using default_extensions_generated [of rss host]
  by (simp add: TLS13_ClientHelloLE_generate_host_bytes_def Let_def random_bytes_eq cipher_bytes_eq compression_bytes_eq
      hello_bytes_def default_fields_def default_client_defs be16_bytes_def byte_of_def)

lemma default_range_bytes:
  "TLS13_ClientHelloLE_generate_range_bytes rss time TLS13_DefaultClientHelloGenerationStrategy data =
   TLS13_ClientHelloLE_generate_host_bytes rss time TLS13_DefaultClientHelloGenerationStrategy ''vk.com'' data"
  by (simp add: TLS13_ClientHelloLE_generate_host_bytes_def TLS13_ClientHelloLE_generate_range_bytes_def
      default_client_defs)

lemma default_object_bytes:
  "TLS13_ClientHelloLE_generate_object_bytes rss time TLS13_DefaultClientHelloGenerationStrategy =
   Some (hello_bytes TLSProtocolVersion_TLS12 (default_fields rss time (32 # map (rss 1) [0..<32]) ''vk.com''))"
  using default_extensions_generated [of rss "''vk.com''"]
  by (simp add: TLS13_ClientHelloLE_generate_object_bytes_def Let_def random_bytes_eq cipher_bytes_eq
      compression_bytes_eq session_bytes_eq hello_bytes_def default_fields_def default_client_defs be16_bytes_def
      byte_of_def)

lemma default_fields_ok:
  assumes "counted8 s" "length host < 65470"
  shows "\<exists>r c k x. default_fields rss time s host = [r, s, c, k, x] \<and> length r = 32 \<and> counted16 c \<and> counted8 k \<and>
    counted16 x \<and> length c = 36 \<and> length k = 2 \<and> length x = length host + 66"
  unfolding default_fields_def using default_extensions_counted [OF assms(2), of rss]
  by (simp add: counted16_def counted8_def length_default_extensions)

lemma session_range_counted: "length d < 256 \<Longrightarrow> counted8 (TLSSessionIDLE_generate_range_bytes d)"
  by (simp add: counted8_def TLSSessionIDLE_generate_range_bytes_def unat_of_nat_small)

lemma length_session_range [simp]: "length (TLSSessionIDLE_generate_range_bytes d) = length d + 1"
  by (simp add: TLSSessionIDLE_generate_range_bytes_def)

lemma length_hello_bytes:
  assumes "length host < 65470"
  shows "length (hello_bytes v (default_fields rss time s host)) = length s + length host + 138"
  by (simp add: hello_bytes_def default_fields_def length_default_extensions)

text \<open>The session id of a hello, read through the view's scheme, is the field that was put there.\<close>

lemma client_view_at:
  assumes "length r = 32" "counted8 s" "counted16 c" "counted8 k" "counted16 x"
    and m: "m = pre @ hello_bytes v [r, s, c, k, x] @ rest"
  shows "\<exists>h sv. TLS13_ClientHelloView_of_range m (length pre) e = Some h \<and>
    chv_scheme h = scheme_of (length s) (length c) (length k) (length x) \<and>
    TLS13_ClientHelloView_get_tls_version h m = Some v \<and>
    TLS13_ClientHelloView_get_tls_session h m = Some sv \<and>
    TLSSessionIDView_get_tls_id sv = (length pre + 35, length pre + 34 + length s) \<and>
    rd_range m (length pre + 35) (length pre + 34 + length s) = Some (tl s)"
proof -
  let ?h = "\<lparr> chv_data = length pre, chv_size = of_int (int e - int (length pre)),
    chv_scheme = scheme_of (length s) (length c) (length k) (length x) \<rparr>"
  have h: "TLS13_ClientHelloView_of_range m (length pre) e = Some ?h"
    using client_scheme_at [OF assms]
    by (simp add: TLS13_ClientHelloView_of_range_def TLS13_ClientHelloView_parse_scheme_def Let_def)
  have m': "m = (pre @ be16_bytes v @ r) @ s @ (c @ k @ x @ rest)" by (simp add: m hello_bytes_def)
  obtain sv where sv: "TLSSessionIDView_of_range m (length pre + 34) (length pre + (34 + length s)) = Some sv"
      "tv_data sv = length pre + 34" "tv_data sv + unat (tv_size sv) = length pre + 34 + length s"
    using session.view_range [OF assms(2) m' refl, of "length pre + (34 + length s)"] assms(1) by auto
  have s: "s = hd s # tl s" using assms(2) by (simp add: counted8_def)
  have "m = (pre @ be16_bytes v @ r @ [hd s]) @ tl s @ (c @ k @ x @ rest)"
    using m' s by simp
  then have "rd_range m (length pre + 35) (length pre + 34 + length s) = Some (tl s)"
    using rd_range_mid [of "length pre + 35" "pre @ be16_bytes v @ r @ [hd s]"
        "length pre + 34 + length s" "tl s" "c @ k @ x @ rest"] assms(1,2) by (simp add: counted8_def)
  moreover have "rd16 m (length pre) = Some v"
    by (simp add: m hello_bytes_def be16_bytes_def rd16_def rd_def nth_append)
  ultimately show ?thesis
    using h sv by (simp add: scheme_of_def TLS13_ClientHelloView_get_tls_session_def
        TLS13_ClientHelloView_get_tls_version_def TLSSessionIDView_get_tls_id_def)
qed

section \<open>Searching the server name\<close>

primrec encode_extensions :: "(TLSExtensionType \<times> bytes) list \<Rightarrow> bytes" where
  "encode_extensions [] = []"
| "encode_extensions (x # xs) = TLSExtensionLE_generate_object_bytes (fst x) (snd x) @ encode_extensions xs"

primrec server_name_offset :: "(TLSExtensionType \<times> bytes) list \<Rightarrow> nat option" where
  "server_name_offset [] = None"
| "server_name_offset (x # xs) = (if fst x = TLSExtensionType_SERVER_NAME then Some 0
     else map_option (\<lambda>k. length (snd x) + 4 + k) (server_name_offset xs))"

lemma extension_at:
  assumes "m = pre @ TLSExtensionLE_generate_object_bytes t d @ rest"
  shows "rd16 m (length pre) = Some t" "rd16 m (length pre + 2) = Some (of_nat (length d))"
  by (simp_all add: assms TLSExtensionLE_generate_object_bytes_def Let_def be16_bytes_def rd16_def rd_def nth_append)

lemmas extension_view_defs = TLSExtensionView_of_range_def TLSExtensionView_get_tls_ext_full_length_def
  TLSExtensionView_get_tls_ext_length_def TLSExtensionView_get_tls_ext_type_def
lemmas sni_view_defs = TLSServerNameIndicationExtensionView_of_range_def
  TLSServerNameIndicationExtensionView_get_tls_sni_full_length_def
  TLSServerNameIndicationExtensionView_get_tls_sni_length_def

lemma sni_search_step:
  assumes "m = pre @ TLSExtensionLE_generate_object_bytes t d @ rest" "length d < 65532" "length pre < e"
  shows "sni_search m b e (length pre) =
    (if t = TLSExtensionType_SERVER_NAME then Some \<lparr> tv_data = length pre, tv_size = 2 \<rparr>
     else sni_search m b e (length pre + length d + 4))"
proof -
  have "unat (of_nat (length d) + 4 :: UShort) = length d + 4"
    using unat_of_nat16 [of "length d + 4"] assms(2) by simp
  then show ?thesis
    using assms(3) extension_at [OF assms(1)]
    by (subst sni_search.simps)
      (simp add: extension_view_defs sni_view_defs TLSExtensionType_SERVER_NAME_def add.assoc)
qed

lemma sni_search_extensions:
  assumes "m = pre @ encode_extensions xs @ rest" "e = length pre + length (encode_extensions xs)"
    and "\<forall>x\<in>set xs. length (snd x) < 65532"
  shows "sni_search m b e (length pre) = (case server_name_offset xs of
      Some k \<Rightarrow> Some \<lparr> tv_data = length pre + k, tv_size = 2 \<rparr>
    | None \<Rightarrow> TLSServerNameIndicationExtensionView_of_range m b b)"
  using assms
proof (induction xs arbitrary: pre)
  case Nil
  then show ?case by (subst sni_search.simps) simp
next
  case (Cons x xs)
  let ?x = "TLSExtensionLE_generate_object_bytes (fst x) (snd x)"
  have "sni_search m b e (length pre) =
    (if fst x = TLSExtensionType_SERVER_NAME then Some \<lparr> tv_data = length pre, tv_size = 2 \<rparr>
     else sni_search m b e (length (pre @ ?x)))"
    using sni_search_step [of m pre "fst x" "snd x" "encode_extensions xs @ rest" e b] Cons.prems
    by (simp add: add.assoc)
  moreover have "sni_search m b e (length (pre @ ?x)) = (case server_name_offset xs of
      Some k \<Rightarrow> Some \<lparr> tv_data = length (pre @ ?x) + k, tv_size = 2 \<rparr>
    | None \<Rightarrow> TLSServerNameIndicationExtensionView_of_range m b b)"
    using Cons.prems by (intro Cons.IH) simp_all
  ultimately show ?case by (simp split: option.split)
qed

text \<open>An extension that announces 65532 bytes has a full length of zero, and the search stays on it.\<close>

definition stuck_at :: "mem \<Rightarrow> ptr \<Rightarrow> ptr \<Rightarrow> bool" where
  "stuck_at m e i \<longleftrightarrow> i < e \<and> (\<exists>t. rd16 m i = Some t \<and> t \<noteq> TLSExtensionType_SERVER_NAME) \<and> rd16 m (i + 2) = Some 65532"

lemma sni_search_returns: "sni_search m b e i = Some v \<Longrightarrow> \<not> stuck_at m e i"
proof (rule sni_search.raw_induct [where P = "\<lambda>m b e i v. \<not> stuck_at m e i"], goal_cases)
  case (1 f m b e i v)
  show ?case
  proof
    assume "stuck_at m e i"
    moreover from this have "f m b e i = Some v"
      using 1(3) by (auto simp: extension_view_defs stuck_at_def)
    ultimately show False using 1(2) by blast
  qed
qed simp

lemma sni_search_diverges: "stuck_at m e i \<Longrightarrow> sni_search m b e i = None"
  using sni_search_returns by (cases "sni_search m b e i") blast+

section \<open>Server hello\<close>

definition server_fields :: "(nat \<Rightarrow> byte_source) \<Rightarrow> UInt \<Rightarrow> bytes list" where
  "server_fields rss time = [be32_bytes time @ map (rss 0) [0..<28], 32 # map (rss 1) [0..<32],
     [0xC0, 0x2F, 0], [0, 6, 0, 43, 0, 2, 3, 4]]"

lemmas default_server_defs = TLS13_DefaultServerHelloGenerationStrategy_def
  TLS13_DefaultServerHelloGenerationStrategy_get_legacy_version_def
  TLS13_DefaultServerHelloGenerationStrategy_get_session_length_def
  TLS13_DefaultServerHelloGenerationStrategy_get_cipher_suite_def
  TLS13_DefaultServerHelloGenerationStrategy_get_compression_method_def
  TLS13_DefaultServerHelloGenerationStrategy_get_supported_version_def
  TLSCipherSuite_TLS_ECDHE_RSA_WITH_AES_128_GCM_SHA256_def TLSCompressionMethod_NULL_COMPRESSION_def

lemma default_server_bytes:
  "TLS13_ServerHelloLE_generate_object_bytes rss time TLS13_DefaultServerHelloGenerationStrategy =
   Some (hello_bytes TLSProtocolVersion_TLS12 (server_fields rss time))"
proof -
  have "extensions_bytes (\<lambda>k. rss (4 + k)) [SupportedVersionsServerHello TLSProtocolVersion_TLS13] =
      Some [[0, 43, 0, 2, 3, 4]]"
    by (simp add: tls_const_defs TLSExtensionLE_generate_object_bytes_def Let_def be16_bytes_def byte_of_def
        TLSSupportedVersionsServerHelloExtensionLE_generate_object_bytes_def
        TLSSupportedVersionsEntryLE_generate_object_bytes_def)
  from extensions_generate_eq [OF this] show ?thesis
    by (simp add: TLS13_ServerHelloLE_generate_object_bytes_def Let_def random_bytes_eq session_bytes_eq
        hello_bytes_def server_fields_def default_server_defs be16_bytes_def byte_of_def)
qed

lemma server_fields_ok:
  "\<exists>r s c x. server_fields rss time = [r, s, c, x] \<and> length r = 32 \<and> counted8 s \<and> length c = 3 \<and> counted16 x \<and>
    length s = 33 \<and> length x = 8"
  by (simp add: server_fields_def counted8_def counted16_def be16_def)

lemma server_view_at:
  assumes "m = pre @ hello_bytes v (server_fields rss time) @ rest"
  shows "TLS13_ServerHelloView_of_range m (length pre) e = Some \<lparr> shv_data = length pre,
    shv_size = of_int (int e - int (length pre)), shv_scheme = scheme_of 33 2 1 8 \<rparr>"
proof -
  obtain r s c x where f: "server_fields rss time = [r, s, c, x]" and ok: "length r = 32" "counted8 s" "length c = 3"
      "counted16 x" "length s = 33" "length x = 8"
    using server_fields_ok [of rss time] by blast
  show ?thesis
    using server_scheme_at [OF ok(1-4) assms [unfolded f]] ok(5,6)
    by (simp add: TLS13_ServerHelloView_of_range_def TLS13_ServerHelloView_parse_scheme_def Let_def)
qed

text \<open>The generator of the view never returns.\<close>

lemma server_view_generator_diverges: "TLS13_ServerHelloView_generate_object_bytes strategy = None"
proof (cases "TLS13_ServerHelloView_generate_object_bytes strategy")
  case (Some y)
  have "TLS13_ServerHelloView_generate_object_bytes strategy = Some y \<Longrightarrow> False"
    by (rule TLS13_ServerHelloView_generate_object_bytes.raw_induct [where P = "\<lambda>_ _. False"])
  with Some show ?thesis by blast
qed simp

section \<open>Handshake records\<close>

lemma byte_of_high:
  assumes "unat (x :: UInt) < 2 ^ 24"
  shows "byte_of 24 x = 0"
proof -
  have "unat (drop_bit 24 x) = unat x div 2 ^ 24" by (simp only: unat_drop_bit_eq) (simp only: drop_bit_eq_div)
  then have "unat (drop_bit 24 x) = 0" using assms by (simp only: div_less)
  then have "drop_bit 24 x = 0" by (simp only: unat_eq_0)
  then show ?thesis by (simp add: byte_of_def)
qed

lemma message_at:
  assumes m: "m = pre @ TLS13_MessageLE_generate_object_bytes t obj @ rest" and "length obj < 2 ^ 24"
  shows "\<exists>v. TLS13_MessageView_of_range m (length pre) e = Some v \<and> TLS13_MessageView_get_tls_msg_type v m = Some t \<and>
    TLS13_MessageView_get_tls_msg_data v = (length pre + 4, length pre + 4 + length obj)"
proof -
  let ?n = "of_nat (length obj) :: UInt"
  have n: "unat ?n = length obj" "unat (?n + 4) = length obj + 4"
    using assms(2) unat_of_nat_small [of "length obj", where ?'a = 32] unat_of_nat_small [of "length obj + 4", where ?'a = 32]
    by simp_all
  then have "be32 0 (byte_of 16 ?n) (byte_of 8 ?n) (byte_of 0 ?n) = ?n"
    using byte_of_high [of ?n] be32_of_bytes [of ?n] assms(2) by metis
  then show ?thesis
    using n by (simp add: m TLS13_MessageView_of_range_def TLS13_MessageView_get_tls_msg_full_length_def
        TLS13_MessageView_get_tls_msg_length_def TLS13_MessageView_get_tls_msg_type_def
        TLS13_MessageView_get_tls_msg_data_def TLS13_MessageLE_generate_object_bytes_def Let_def rd_def nth_append)
qed

text \<open>A handshake message in its record, as both ends send it.\<close>

definition handshake_record :: "TLSMessageType \<Rightarrow> bytes \<Rightarrow> bytes" where
  "handshake_record t obj = TLS13_RecordLE_generate_object_bytes
     TLS13_DefaultRecordGenerationStrategy_get_legacy_version TLS13_MessageLE_get_overlay_protocol_type
     (TLS13_MessageLE_generate_object_bytes t obj)"

lemma length_handshake_record [simp]: "length (handshake_record t obj) = length obj + 9"
  by (simp add: handshake_record_def TLS13_RecordLE_generate_object_bytes_def TLS13_MessageLE_generate_object_bytes_def
      Let_def)

lemma handshake_record_split:
  "\<exists>hdr. handshake_record t obj = hdr @ TLS13_MessageLE_generate_object_bytes t obj \<and> length hdr = 5 \<and>
     hdr ! 0 = TLSRecordType_HANDSHAKE"
  by (rule exI [of _ "take 5 (handshake_record t obj)"])
    (simp add: handshake_record_def TLS13_RecordLE_generate_object_bytes_def Let_def be16_bytes_def
      TLS13_MessageLE_get_overlay_protocol_type_def)

lemma handshake_record_at:
  assumes m: "m = handshake_record t obj @ rest" and "length obj < 2 ^ 24"
  shows "rd m 0 = Some TLSRecordType_HANDSHAKE \<and>
    (\<exists>v. TLS13_MessageView_of_range m 5 e = Some v \<and> TLS13_MessageView_get_tls_msg_type v m = Some t \<and>
      TLS13_MessageView_get_tls_msg_data v = (9, 9 + length obj)) \<and>
    (\<exists>hdr. length hdr = 9 \<and> m = hdr @ obj @ rest)"
proof -
  obtain hdr where h: "handshake_record t obj = hdr @ TLS13_MessageLE_generate_object_bytes t obj" "length hdr = 5"
      "hdr ! 0 = TLSRecordType_HANDSHAKE"
    using handshake_record_split by blast
  have "\<exists>v. TLS13_MessageView_of_range m 5 e = Some v \<and> TLS13_MessageView_get_tls_msg_type v m = Some t \<and>
      TLS13_MessageView_get_tls_msg_data v = (9, 9 + length obj)"
    using message_at [of m hdr t obj rest e] assms h by auto
  moreover have "\<exists>hdr. length hdr = 9 \<and> m = hdr @ obj @ rest"
    by (rule exI [of _ "take 9 m"]) (use h in \<open>simp add: m TLS13_MessageLE_generate_object_bytes_def Let_def\<close>)
  moreover have "rd m 0 = Some TLSRecordType_HANDSHAKE"
    using h by (simp add: m rd_def nth_append)
  ultimately show ?thesis by blast
qed

section \<open>What the getters return\<close>

lemma random_time_at:
  assumes "m = pre @ be32_bytes t @ rest"
  shows "TLSRandomView_get_tls_unix_time \<lparr> tv_data = length pre, tv_size = 32 \<rparr> m = Some t"
  by (simp add: assms TLSRandomView_get_tls_unix_time_def rd32_def rd_def be32_bytes_def nth_append)

text \<open>The session id of a client hello object.\<close>

lemma client_object_of_fields:
  assumes "length r = 32" "counted8 s" "counted16 c" "counted8 k" "counted16 x"
    and d: "d = hello_bytes v [r, s, c, k, x]"
  shows "\<exists>h sv. TLS13_ClientHelloLE_of_range d 0 (length d) = Some h \<and> ch_data h = d \<and>
    ch_scheme h = scheme_of (length s) (length c) (length k) (length x) \<and>
    TLS13_ClientHelloLE_get_tls_version h = Some v \<and>
    TLS13_ClientHelloLE_get_tls_session h = Some sv \<and>
    rd_range d (fst (TLSSessionIDView_get_tls_id sv)) (snd (TLSSessionIDView_get_tls_id sv)) = Some (tl s)"
proof -
  have m: "d = [] @ hello_bytes v [r, s, c, k, x] @ []" by (simp add: d)
  obtain hv sv where v: "TLS13_ClientHelloView_of_range d 0 (length d) = Some hv"
      "chv_scheme hv = scheme_of (length s) (length c) (length k) (length x)"
      "TLS13_ClientHelloView_get_tls_version hv d = Some v" "TLS13_ClientHelloView_get_tls_session hv d = Some sv"
      "TLSSessionIDView_get_tls_id sv = (35, 34 + length s)" "rd_range d 35 (34 + length s) = Some (tl s)"
    using client_view_at [OF assms(1-5) m, of "length d"] by auto
  have hv: "chv_data hv = 0" using v(1)
    by (auto simp: TLS13_ClientHelloView_of_range_def bind_eq_Some_conv Let_def)
  show ?thesis
    using client_scheme_at [OF assms(1-5) m, of "length d"] v hv
    by (simp add: TLS13_ClientHelloLE_of_range_def TLS13_ClientHelloLE_parse_scheme_def
        TLS13_ClientHelloLE_get_tls_version_def TLS13_ClientHelloView_get_tls_version_def
        TLS13_ClientHelloLE_get_tls_session_def TLS13_ClientHelloView_get_tls_session_def)
qed

text \<open>The cipher suite of the default server hello is 0xC02F; the getter returns its high byte with the compression
  method as low byte.\<close>

lemma server_cipher_suite_misread:
  assumes "m = pre @ hello_bytes v (server_fields rss time) @ rest"
    and "TLS13_ServerHelloView_of_range m (length pre) e = Some h"
  shows "TLS13_ServerHelloView_get_tls_cipher_suite h m = Some 0xC000"
    "0xC000 \<noteq> TLSCipherSuite_TLS_ECDHE_RSA_WITH_AES_128_GCM_SHA256"
proof -
  have h: "shv_scheme h = scheme_of 33 2 1 8" "shv_data h = length pre"
    using server_view_at [OF assms(1), of e] assms(2) by auto
  have "rd m (length pre + 67) = Some 0xC0" "rd m (length pre + 69) = Some 0"
    by (simp_all add: assms(1) hello_bytes_def server_fields_def rd_def nth_append)
  then show "TLS13_ServerHelloView_get_tls_cipher_suite h m = Some 0xC000"
    using h by (simp add: TLS13_ServerHelloView_get_tls_cipher_suite_def scheme_of_def be16_def)
  show "0xC000 \<noteq> TLSCipherSuite_TLS_ECDHE_RSA_WITH_AES_128_GCM_SHA256"
    by (simp add: TLSCipherSuite_TLS_ECDHE_RSA_WITH_AES_128_GCM_SHA256_def)
qed

text \<open>The view of the server name an extension search returns is empty: it begins at the extension's header and
  takes the type, zero, for its length.\<close>

lemma sni_view_empty:
  "TLSServerNameIndicationExtensionView_get_tls_sni_data \<lparr> tv_data = p, tv_size = 2 \<rparr> = (p + 2, p + 2)"
  by (simp add: TLSServerNameIndicationExtensionView_get_tls_sni_data_def)

text \<open>A cipher suite list of 254 bytes cannot be generated, since its full length passes through a byte.\<close>

lemma cipher_length_wraps: "TLSCipherSuitLE_generate_object_bytes rs 254 = None"
  by (simp add: TLSCipherSuitLE_generate_object_bytes_def vector_bytes_generator_def)

lemma message_object_undefined: "TLS13_MessageLE_of_range m b e = None"
  by (simp add: TLS13_MessageLE_of_range_def rd_def)

section \<open>Properties of the hellos\<close>

text \<open>C20: a client hello made by the default strategy for hidden data of less than 256 bytes and a host name of less
  than 65470 characters is a well-formed object: it is valid, its five fields follow one another from the version to
  the last byte, the random begins with the given time, and the session id is the hidden data.\<close>

theorem generated_hello_wellformed:
  assumes "length data < 256" "length host < 65470"
  shows "\<exists>h sv. TLS13_ClientHelloLE_generate_host_object rss time TLS13_DefaultClientHelloGenerationStrategy host data = Some h \<and>
    TLS13_ClientHelloLE_is_valid h = Some True \<and>
    hs_random (ch_scheme h) = (2, 34) \<and> fst (hs_session (ch_scheme h)) = 34 \<and>
    snd (hs_session (ch_scheme h)) = fst (hs_ciphers (ch_scheme h)) \<and>
    snd (hs_ciphers (ch_scheme h)) = fst (hs_compressions (ch_scheme h)) \<and>
    snd (hs_compressions (ch_scheme h)) = fst (hs_extensions (ch_scheme h)) \<and>
    snd (hs_extensions (ch_scheme h)) = length (ch_data h) \<and>
    TLSRandomView_get_tls_unix_time (TLS13_ClientHelloLE_get_tls_random h) (ch_data h) = Some time \<and>
    TLS13_ClientHelloLE_get_tls_session h = Some sv \<and>
    rd_range (ch_data h) (fst (TLSSessionIDView_get_tls_id sv)) (snd (TLSSessionIDView_get_tls_id sv)) = Some data"
proof -
  let ?s = "TLSSessionIDLE_generate_range_bytes data"
  let ?d = "hello_bytes TLSProtocolVersion_TLS12 (default_fields rss time ?s host)"
  have s: "counted8 ?s" by (rule session_range_counted) (rule assms(1))
  obtain r c k x where f: "default_fields rss time ?s host = [r, ?s, c, k, x]" and ok: "length r = 32" "counted16 c"
      "counted8 k" "counted16 x" "length c = 36" "length k = 2" "length x = length host + 66"
    using default_fields_ok [OF s assms(2), of rss time] by blast
  obtain h sv where h: "TLS13_ClientHelloLE_of_range ?d 0 (length ?d) = Some h" "ch_data h = ?d"
      "ch_scheme h = scheme_of (length ?s) (length c) (length k) (length x)"
      "TLS13_ClientHelloLE_get_tls_version h = Some TLSProtocolVersion_TLS12"
      "TLS13_ClientHelloLE_get_tls_session h = Some sv"
      "rd_range ?d (fst (TLSSessionIDView_get_tls_id sv)) (snd (TLSSessionIDView_get_tls_id sv)) = Some (tl ?s)"
    using client_object_of_fields [OF ok(1) s ok(2-4), of ?d TLSProtocolVersion_TLS12] f by auto
  have "?d = be16_bytes TLSProtocolVersion_TLS12 @ be32_bytes time @ (map (rss 0) [0..<28] @ concat (tl (default_fields rss time ?s host)))"
    by (simp add: hello_bytes_def default_fields_def)
  from random_time_at [OF this]
  have t: "TLSRandomView_get_tls_unix_time \<lparr> tv_data = 2, tv_size = 32 \<rparr> ?d = Some time" by simp
  have "TLS13_ClientHelloLE_get_tls_random h = \<lparr> tv_data = 2, tv_size = 32 \<rparr>"
    using h(3) by (simp add: TLS13_ClientHelloLE_get_tls_random_def scheme_of_def TLSRandomView_of_range_def)
  moreover have "tl ?s = data" by (simp add: TLSSessionIDLE_generate_range_bytes_def)
  ultimately show ?thesis
    using h t ok(5-7) length_hello_bytes [OF assms(2), of TLSProtocolVersion_TLS12 rss time ?s]
    by (simp add: TLS13_ClientHelloLE_generate_host_object_def default_host_bytes TLS13_ClientHelloLE_is_valid_def
        scheme_of_def)
qed

theorem generated_hello_wellformed_witness:
  "\<exists>h. TLS13_ClientHelloLE_generate_host_object (\<lambda>_ _. 7) 1234 TLS13_DefaultClientHelloGenerationStrategy ''vk.com''
      [1, 2, 3] = Some h \<and> TLS13_ClientHelloLE_is_valid h = Some True \<and>
    TLSRandomView_get_tls_unix_time (TLS13_ClientHelloLE_get_tls_random h) (ch_data h) = Some 1234"
  using generated_hello_wellformed [of "[1, 2, 3]" "''vk.com''" "\<lambda>_ _. 7" 1234] by auto

text \<open>C29: the search for the server name of a client hello returns on every list of extensions whose contents are
  shorter than 65532 bytes, at the first extension of type server name, or with the view of the first two bytes when
  there is none; on an extension that announces exactly 65532 bytes it never returns.\<close>

theorem sni_search_outcome:
  assumes "m = pre @ encode_extensions xs @ rest" "e = length pre + length (encode_extensions xs)"
    and "\<forall>x\<in>set xs. length (snd x) < 65532"
  shows "sni_search m b e (length pre) = (case server_name_offset xs of
      Some k \<Rightarrow> Some \<lparr> tv_data = length pre + k, tv_size = 2 \<rparr>
    | None \<Rightarrow> TLSServerNameIndicationExtensionView_of_range m b b) \<and>
    (\<forall>m' e' i. stuck_at m' e' i \<longrightarrow> sni_search m' b e' i = None)"
  using sni_search_extensions [OF assms] sni_search_diverges by simp_all

theorem sni_search_outcome_witness:
  "sni_search ([9] @ encode_extensions [(43, [2, 3, 4]), (0, [5])] @ []) 0 (length [9 :: UByte] +
      length (encode_extensions [(43, [2, 3, 4]), (0, [5])])) (length [9 :: UByte]) = Some \<lparr> tv_data = 8, tv_size = 2 \<rparr> \<and>
   sni_search [0, 43, 0xFF, 0xFC] 0 4 0 = None"
proof -
  have "stuck_at [0, 43, 0xFF, 0xFC] 4 0"
    by (simp add: stuck_at_def rd16_def rd_def be16_def TLSExtensionType_SERVER_NAME_def)
  then show ?thesis
    using sni_search_outcome [of _ "[9]" "[(43, [2, 3, 4]), (0, [5])]" "[]" _ 0, OF refl refl]
    by (simp add: TLSExtensionType_SERVER_NAME_def)
qed

end
