(* ===== verification/Settings.thy ===== *)
theory Settings
  imports SocketFilter
begin

text \<open>Settings of the client and of the server (\<open>QVPNConnectionEntity\<close>, \<open>QVPNClientConnectionSettings\<close>,
  \<open>QVPNClientCryptoSettings\<close>, \<open>QVPNClientAuthSettings\<close>, \<open>QVPNClientSettings_\<close>, \<open>QVPNDatabaseSettings\<close>,
  \<open>QVPNServerConnectionSettings\<close>, \<open>QVPNServerCryptoSettings\<close>, \<open>QVPNServerSettings_\<close> and \<open>UserStatisticData\<close> of
  \<open>qvpn_driver.hpp/.cpp\<close>) and the whitelists of hosts (\<open>qvpn_lib.hpp/.cpp\<close>).  The JSON library is a
  parameter: \<open>parse_settings\<close> takes the values it finds in the file, and \<open>None\<close> for a file that does not open.
  A string that is only transported is a list of bytes.\<close>

section \<open>Connections\<close>

type_synonym QVPNWorkMode = nat
type_synonym QVPN_Crypto = UShort

record QVPNConnectionEntity =
  ce_addr :: NetAddr
  ce_port :: UShort
  ce_t_proto :: TransportProtocol
  ce_mode :: QVPNWorkMode

definition QVPNClientWorkMode_CLIENT_VPN :: "QVPNWorkMode" where
  "QVPNClientWorkMode_CLIENT_VPN = 0"

definition QVPNClientWorkMode_CLIENT_PROXY_NODE :: "QVPNWorkMode" where
  "QVPNClientWorkMode_CLIENT_PROXY_NODE = 1"

definition QVPNClientWorkMode_CLIENT_ANTI_DPI_NODE :: "QVPNWorkMode" where
  "QVPNClientWorkMode_CLIENT_ANTI_DPI_NODE = 2"

definition QVPNClientWorkMode_CLIENT_ANTI_DPI :: "QVPNWorkMode" where
  "QVPNClientWorkMode_CLIENT_ANTI_DPI = 3"

definition QVPNClientWorkMode_CLIENT_DPI_TERROR :: "QVPNWorkMode" where
  "QVPNClientWorkMode_CLIENT_DPI_TERROR = 99"

definition QVPNServerWorkMode_SERVER_VPN :: "QVPNWorkMode" where
  "QVPNServerWorkMode_SERVER_VPN = 0"

definition QVPNServerWorkMode_SERVER_PROXY_NODE :: "QVPNWorkMode" where
  "QVPNServerWorkMode_SERVER_PROXY_NODE = 1"

definition QVPNServerWorkMode_SERVER_ANTI_DPI_NODE :: "QVPNWorkMode" where
  "QVPNServerWorkMode_SERVER_ANTI_DPI_NODE = 2"

definition QVPNServerWorkMode_SERVER_DPI_TERROR :: "QVPNWorkMode" where
  "QVPNServerWorkMode_SERVER_DPI_TERROR = 99"

definition QVPN_Crypto_NO_CRYPTO :: "QVPN_Crypto" where
  "QVPN_Crypto_NO_CRYPTO = 0"

text \<open>The default mode of the constructors.\<close>

definition default_work_mode :: "QVPNWorkMode" where
  "default_work_mode = 99"

definition QVPNConnectionEntity_of_ipv4 :: "IPv4Address \<Rightarrow> UShort \<Rightarrow> TransportProtocol \<Rightarrow> QVPNWorkMode \<Rightarrow> QVPNConnectionEntity" where
  "QVPNConnectionEntity_of_ipv4 address port t_proto mode = 
     \<lparr> ce_addr = NetAddr_of_ipv4 address, ce_port = port, ce_t_proto = t_proto, ce_mode = mode \<rparr>"

definition QVPNConnectionEntity_of_ipv6 :: "IPv6Address \<Rightarrow> UShort \<Rightarrow> TransportProtocol \<Rightarrow> QVPNWorkMode \<Rightarrow> QVPNConnectionEntity" where
  "QVPNConnectionEntity_of_ipv6 address port t_proto mode = 
     \<lparr> ce_addr = NetAddr_of_ipv6 address, ce_port = port, ce_t_proto = t_proto, ce_mode = mode \<rparr>"

definition QVPNConnectionEntity_of_string :: "string \<Rightarrow> UShort \<Rightarrow> TransportProtocol \<Rightarrow> QVPNWorkMode \<Rightarrow> std_exception + QVPNConnectionEntity" where
  "QVPNConnectionEntity_of_string data port t_proto mode = 
     map_sum id (\<lambda>a. \<lparr> ce_addr = a, ce_port = port, ce_t_proto = t_proto, ce_mode = mode \<rparr>) (NetAddr_of_string data)"

definition QVPNConnectionEntity_of_addr :: "NetAddr \<Rightarrow> UShort \<Rightarrow> TransportProtocol \<Rightarrow> QVPNWorkMode \<Rightarrow> QVPNConnectionEntity" where
  "QVPNConnectionEntity_of_addr address port t_proto mode = 
     \<lparr> ce_addr = address, ce_port = port, ce_t_proto = t_proto, ce_mode = mode \<rparr>"

definition QVPNConnectionEntity_set_transport_proto :: "QVPNConnectionEntity \<Rightarrow> TransportProtocol \<Rightarrow> QVPNConnectionEntity" where
  "QVPNConnectionEntity_set_transport_proto c t_proto = c\<lparr> ce_t_proto := t_proto \<rparr>"

definition QVPNConnectionEntity_set_ipv4_address :: "QVPNConnectionEntity \<Rightarrow> IPv4Address \<Rightarrow> QVPNConnectionEntity" where
  "QVPNConnectionEntity_set_ipv4_address c address = c\<lparr> ce_addr := NetAddr_of_ipv4 address \<rparr>"

definition QVPNConnectionEntity_set_ipv6_address :: "QVPNConnectionEntity \<Rightarrow> IPv6Address \<Rightarrow> QVPNConnectionEntity" where
  "QVPNConnectionEntity_set_ipv6_address c address = c\<lparr> ce_addr := NetAddr_of_ipv6 address \<rparr>"

text \<open>By address family; another family leaves the address as it is.  An address text with too few bytes is undefined
  behaviour.\<close>

definition QVPNConnectionEntity_set_typed_address ::
    "QVPNConnectionEntity \<Rightarrow> string \<Rightarrow> NetProtocol \<Rightarrow> (std_exception + QVPNConnectionEntity) option" where
  "QVPNConnectionEntity_set_typed_address c addr addr_type =
     (if addr_type = NetProtocol_IPv4 then
        map_option (map_sum id (QVPNConnectionEntity_set_ipv4_address c)) (IPv4Address_of_string addr)
      else if addr_type = NetProtocol_IPv6 then
        map_option (map_sum id (QVPNConnectionEntity_set_ipv6_address c)) (IPv6Address_of_string addr)
      else Some (Inr c))"

definition QVPNConnectionEntity_set_ip_address ::
    "QVPNConnectionEntity \<Rightarrow> string \<Rightarrow> std_exception + QVPNConnectionEntity" where
  "QVPNConnectionEntity_set_ip_address c addr = map_sum id (\<lambda>a. c\<lparr> ce_addr := a \<rparr>) (parse_net_addr addr)"

definition QVPNConnectionEntity_set_port :: "QVPNConnectionEntity \<Rightarrow> UShort \<Rightarrow> QVPNConnectionEntity" where
  "QVPNConnectionEntity_set_port c port = c\<lparr> ce_port := port \<rparr>"

definition QVPNConnectionEntity_set_mode :: "QVPNConnectionEntity \<Rightarrow> QVPNWorkMode \<Rightarrow> QVPNConnectionEntity" where
  "QVPNConnectionEntity_set_mode c mode = c\<lparr> ce_mode := mode \<rparr>"

definition QVPNConnectionEntity_get_ip_address :: "QVPNConnectionEntity \<Rightarrow> NetAddr" where
  "QVPNConnectionEntity_get_ip_address c = ce_addr c"

definition QVPNConnectionEntity_get_port :: "QVPNConnectionEntity \<Rightarrow> UShort" where
  "QVPNConnectionEntity_get_port c = ce_port c"

definition QVPNConnectionEntity_get_transport_proto :: "QVPNConnectionEntity \<Rightarrow> TransportProtocol" where
  "QVPNConnectionEntity_get_transport_proto c = ce_t_proto c"

definition QVPNConnectionEntity_get_net_proto :: "QVPNConnectionEntity \<Rightarrow> NetProtocol" where
  "QVPNConnectionEntity_get_net_proto c = NetAddr_get_addr_family (ce_addr c)"

definition QVPNConnectionEntity_get_work_mode :: "QVPNConnectionEntity \<Rightarrow> QVPNWorkMode" where
  "QVPNConnectionEntity_get_work_mode c = ce_mode c"

section \<open>Client connection\<close>

type_synonym QVPNClientConnectionSettings = QVPNConnectionEntity

definition QVPNClientConnectionSettings_of_ipv4 :: "IPv4Address \<Rightarrow> UShort \<Rightarrow> TransportProtocol \<Rightarrow> QVPNWorkMode \<Rightarrow> QVPNClientConnectionSettings" where
  "QVPNClientConnectionSettings_of_ipv4 = QVPNConnectionEntity_of_ipv4"

definition QVPNClientConnectionSettings_set_ipv4_address :: "QVPNClientConnectionSettings \<Rightarrow> IPv4Address \<Rightarrow> QVPNClientConnectionSettings" where
  "QVPNClientConnectionSettings_set_ipv4_address = QVPNConnectionEntity_set_ipv4_address"

definition QVPNClientConnectionSettings_of_ipv6 :: "IPv6Address \<Rightarrow> UShort \<Rightarrow> TransportProtocol \<Rightarrow> QVPNWorkMode \<Rightarrow> QVPNClientConnectionSettings" where
  "QVPNClientConnectionSettings_of_ipv6 = QVPNConnectionEntity_of_ipv6"

definition QVPNClientConnectionSettings_set_ipv6_address :: "QVPNClientConnectionSettings \<Rightarrow> IPv6Address \<Rightarrow> QVPNClientConnectionSettings" where
  "QVPNClientConnectionSettings_set_ipv6_address = QVPNConnectionEntity_set_ipv6_address"

definition QVPNClientConnectionSettings_set_typed_address ::
    "QVPNClientConnectionSettings \<Rightarrow> string \<Rightarrow> NetProtocol \<Rightarrow>
     (std_exception + QVPNClientConnectionSettings) option" where
  "QVPNClientConnectionSettings_set_typed_address c addr addr_type =
     (if addr_type = NetProtocol_IPv4 then
        map_option (map_sum id (QVPNConnectionEntity_set_ipv4_address c)) (IPv4Address_of_string addr)
      else if addr_type = NetProtocol_IPv6 then
        map_option (map_sum id (QVPNConnectionEntity_set_ipv6_address c)) (IPv6Address_of_string addr)
      else Some (Inr c))"

definition QVPNClientConnectionSettings_set_ip_address :: "QVPNClientConnectionSettings \<Rightarrow> string \<Rightarrow> std_exception + QVPNClientConnectionSettings" where
  "QVPNClientConnectionSettings_set_ip_address = QVPNConnectionEntity_set_ip_address"

definition QVPNClientConnectionSettings_set_port :: "QVPNClientConnectionSettings \<Rightarrow> UShort \<Rightarrow> QVPNClientConnectionSettings" where
  "QVPNClientConnectionSettings_set_port = QVPNConnectionEntity_set_port"

definition QVPNClientConnectionSettings_set_transport_proto :: "QVPNClientConnectionSettings \<Rightarrow> TransportProtocol \<Rightarrow> QVPNClientConnectionSettings" where
  "QVPNClientConnectionSettings_set_transport_proto = QVPNConnectionEntity_set_transport_proto"

definition QVPNClientConnectionSettings_get_ip_address :: "QVPNClientConnectionSettings \<Rightarrow> NetAddr" where
  "QVPNClientConnectionSettings_get_ip_address = QVPNConnectionEntity_get_ip_address"

definition QVPNClientConnectionSettings_get_port :: "QVPNClientConnectionSettings \<Rightarrow> UShort" where
  "QVPNClientConnectionSettings_get_port = QVPNConnectionEntity_get_port"

definition QVPNClientConnectionSettings_get_transport_proto :: "QVPNClientConnectionSettings \<Rightarrow> TransportProtocol" where
  "QVPNClientConnectionSettings_get_transport_proto = QVPNConnectionEntity_get_transport_proto"

definition QVPNClientConnectionSettings_get_net_proto :: "QVPNClientConnectionSettings \<Rightarrow> NetProtocol" where
  "QVPNClientConnectionSettings_get_net_proto = QVPNConnectionEntity_get_net_proto"

section \<open>Client cryptography and authorisation\<close>

record QVPNClientCryptoSettings =
  ccs_key :: bytes
  ccs_crypto_method :: QVPN_Crypto

definition QVPNClientCryptoSettings_of :: "QVPN_Crypto \<Rightarrow> bytes \<Rightarrow> QVPNClientCryptoSettings" where
  "QVPNClientCryptoSettings_of method key = \<lparr> ccs_key = key, ccs_crypto_method = method \<rparr>"

definition QVPNClientCryptoSettings_set_key :: "QVPNClientCryptoSettings \<Rightarrow> bytes \<Rightarrow> QVPNClientCryptoSettings" where
  "QVPNClientCryptoSettings_set_key c key = c\<lparr> ccs_key := key \<rparr>"

definition QVPNClientCryptoSettings_set_crypto_method :: "QVPNClientCryptoSettings \<Rightarrow> QVPN_Crypto \<Rightarrow> QVPNClientCryptoSettings" where
  "QVPNClientCryptoSettings_set_crypto_method c method = c\<lparr> ccs_crypto_method := method \<rparr>"

definition QVPNClientCryptoSettings_get_key :: "QVPNClientCryptoSettings \<Rightarrow> bytes" where
  "QVPNClientCryptoSettings_get_key c = ccs_key c"

definition QVPNClientCryptoSettings_get_crypto_method :: "QVPNClientCryptoSettings \<Rightarrow> QVPN_Crypto" where
  "QVPNClientCryptoSettings_get_crypto_method c = ccs_crypto_method c"

type_synonym QVPNClientAuthSettings = bytes

text \<open>The constructor assigns the member to itself: what it is given is lost.\<close>

definition QVPNClientAuthSettings_of :: "bytes \<Rightarrow> QVPNClientAuthSettings" where
  "QVPNClientAuthSettings_of auth_data = (let member = [] :: bytes in member)"

definition QVPNClientAuthSettings_set_auth_data :: "QVPNClientAuthSettings \<Rightarrow> bytes \<Rightarrow> QVPNClientAuthSettings" where
  "QVPNClientAuthSettings_set_auth_data a auth_data = auth_data"

definition QVPNClientAuthSettings_get_auth_data :: "QVPNClientAuthSettings \<Rightarrow> bytes" where
  "QVPNClientAuthSettings_get_auth_data a = a"

section \<open>Whitelists\<close>

record QVPNWhitelistElement =
  we_host :: string
  we_priority :: int

definition QVPNWhitelistElement_default_priority :: "int" where
  "QVPNWhitelistElement_default_priority = 1"

definition QVPNWhitelistElement_new :: "QVPNWhitelistElement" where
  "QVPNWhitelistElement_new =
     \<lparr> we_host = [], we_priority = QVPNWhitelistElement_default_priority \<rparr>"

definition QVPNWhitelistElement_of :: "string \<Rightarrow> int \<Rightarrow> QVPNWhitelistElement" where
  "QVPNWhitelistElement_of host priority = \<lparr> we_host = host, we_priority = priority \<rparr>"

definition QVPNWhitelistElement_set_host :: "QVPNWhitelistElement \<Rightarrow> string \<Rightarrow> QVPNWhitelistElement" where
  "QVPNWhitelistElement_set_host w host = w\<lparr> we_host := host \<rparr>"

definition QVPNWhitelistElement_set_priority :: "QVPNWhitelistElement \<Rightarrow> int \<Rightarrow> QVPNWhitelistElement" where
  "QVPNWhitelistElement_set_priority w priority = w\<lparr> we_priority := priority \<rparr>"

definition QVPNWhitelistElement_get_host :: "QVPNWhitelistElement \<Rightarrow> string" where
  "QVPNWhitelistElement_get_host w = we_host w"

definition QVPNWhitelistElement_get_priority :: "QVPNWhitelistElement \<Rightarrow> int" where
  "QVPNWhitelistElement_get_priority w = we_priority w"

type_synonym QVPNWhitelistElementView = QVPNWhitelistElement

definition QVPNWhitelistElementView_of :: "QVPNWhitelistElement \<Rightarrow> QVPNWhitelistElementView" where
  "QVPNWhitelistElementView_of elem = 
     \<lparr> we_host = QVPNWhitelistElement_get_host elem, we_priority = QVPNWhitelistElement_get_priority elem \<rparr>"

definition QVPNWhitelistElementView_get_host :: "QVPNWhitelistElementView \<Rightarrow> string" where
  "QVPNWhitelistElementView_get_host w = we_host w"

definition QVPNWhitelistElementView_get_priority :: "QVPNWhitelistElementView \<Rightarrow> int" where
  "QVPNWhitelistElementView_get_priority w = we_priority w"

text \<open>The strategy looks an address up in its table; \<open>operator[]\<close> inserts an empty element for a new address.\<close>

type_synonym QVPNWhitelistDefaultStrategy = "IPv4Address \<rightharpoonup> QVPNWhitelistElement"

definition QVPNWhitelistDefaultStrategy_new :: "QVPNWhitelistDefaultStrategy" where
  "QVPNWhitelistDefaultStrategy_new = Map.empty"

definition QVPNWhitelistDefaultStrategy_get_host_by_params ::
    "QVPNWhitelistDefaultStrategy \<Rightarrow> IPv4Address \<Rightarrow> QVPNWhitelistElementView \<times> QVPNWhitelistDefaultStrategy" where
  "QVPNWhitelistDefaultStrategy_get_host_by_params t param = (case t param of
       Some w \<Rightarrow> (QVPNWhitelistElementView_of w, t)
     | None \<Rightarrow> (QVPNWhitelistElementView_of QVPNWhitelistElement_new, t(param \<mapsto> QVPNWhitelistElement_new)))"

text \<open>\<open>parse_whitelist\<close> appends what the stream reads; \<open>None\<close> is a file that does not open.  \<open>get_random_host\<close> takes what the
  distribution draws for the size; an empty list has no valid distribution.\<close>

type_synonym QVPNWhitelist = "QVPNWhitelistElement list"

definition QVPNWhitelist_new :: "QVPNWhitelist" where
  "QVPNWhitelist_new = []"

definition QVPNWhitelist_parse_whitelist :: "QVPNWhitelist \<Rightarrow> (string \<times> int) list option \<Rightarrow> QVPNWhitelist" where
  "QVPNWhitelist_parse_whitelist w file = 
     (case file of None \<Rightarrow> w | Some entries \<Rightarrow> w @ map (\<lambda>(host, priority). QVPNWhitelistElement_of host priority) entries)"

definition QVPNWhitelist_of_path :: "(string \<times> int) list option \<Rightarrow> QVPNWhitelist" where
  "QVPNWhitelist_of_path file = QVPNWhitelist_parse_whitelist QVPNWhitelist_new file"

definition QVPNWhitelist_get_host :: "QVPNWhitelist \<Rightarrow> nat \<Rightarrow> string option" where
  "QVPNWhitelist_get_host w i = map_option QVPNWhitelistElement_get_host (rd w i)"

definition QVPNWhitelist_get_random_host :: "(nat \<Rightarrow> nat) \<Rightarrow> QVPNWhitelist \<Rightarrow> string option" where
  "QVPNWhitelist_get_random_host draw w = 
     (if w = [] then None else map_option QVPNWhitelistElement_get_host (rd w (draw (length w))))"

definition QVPNWhitelist_get_size :: "QVPNWhitelist \<Rightarrow> nat" where
  "QVPNWhitelist_get_size w = length w"

definition QVPNWhitelist_get_by_strategy ::
    "QVPNWhitelistDefaultStrategy \<Rightarrow> IPv4Address \<Rightarrow> string \<times> QVPNWhitelistDefaultStrategy" where
  "QVPNWhitelist_get_by_strategy strategy param =
     (let (elem, strategy) = QVPNWhitelistDefaultStrategy_get_host_by_params strategy param
      in (QVPNWhitelistElementView_get_host elem, strategy))"

section \<open>Client settings\<close>

record QVPNClientSettings =
  cset_connection :: QVPNClientConnectionSettings
  cset_crypto :: QVPNClientCryptoSettings
  cset_auth :: QVPNClientAuthSettings
  cset_whitelists :: "QVPNWhitelist list"

text \<open>The values of a client settings file.\<close>

record client_json =
  cj_addr_type :: UInt
  cj_addr :: string
  cj_port :: UShort
  cj_proto :: UByte
  cj_mode :: UByte
  cj_crypto_method :: UInt
  cj_key :: bytes
  cj_auth_data :: bytes
  cj_whitelists :: "(string \<times> int) list option list"

text \<open>The address may not parse; then the exception leaves the function.  Work mode and address type are read
  and not used.\<close>

definition QVPNClientSettings_parse_settings ::
    "QVPNClientSettings \<Rightarrow> client_json option \<Rightarrow> std_exception + QVPNClientSettings" where
  "QVPNClientSettings_parse_settings s file = (case file of
       None \<Rightarrow> Inr s
     | Some j \<Rightarrow> (case QVPNClientConnectionSettings_set_ip_address (cset_connection s) (cj_addr j) of
           Inl ex \<Rightarrow> Inl ex
         | Inr c \<Rightarrow>
             (let c = QVPNClientConnectionSettings_set_port c (cj_port j);
                  c = QVPNClientConnectionSettings_set_transport_proto c (cj_proto j);
                  cr = QVPNClientCryptoSettings_set_crypto_method (cset_crypto s) (ucast (cj_crypto_method j));
                  cr = QVPNClientCryptoSettings_set_key cr (cj_key j);
                  au = QVPNClientAuthSettings_set_auth_data (cset_auth s) (cj_auth_data j);
                  wl = cset_whitelists s @ map QVPNWhitelist_of_path (cj_whitelists j)
              in Inr \<lparr> cset_connection = c, cset_crypto = cr, cset_auth = au, cset_whitelists = wl \<rparr>)))"

definition QVPNClientSettings_get_whitelist_element ::
    "(nat \<Rightarrow> nat) \<Rightarrow> QVPNClientSettings \<Rightarrow> nat \<Rightarrow> string option" where
  "QVPNClientSettings_get_whitelist_element draw s whitelist = do {
     w \<leftarrow> rd (cset_whitelists s) whitelist;
     QVPNWhitelist_get_random_host draw w }"

section \<open>Server settings\<close>

record QVPNDatabaseSettings =
  db_host :: bytes
  db_user :: bytes
  db_password :: bytes
  db_name :: bytes
  db_port :: UShort

definition QVPNDatabaseSettings_set_db_host :: "QVPNDatabaseSettings \<Rightarrow> bytes \<Rightarrow> QVPNDatabaseSettings" where
  "QVPNDatabaseSettings_set_db_host d x = d\<lparr> db_host := x \<rparr>"

definition QVPNDatabaseSettings_get_db_host :: "QVPNDatabaseSettings \<Rightarrow> bytes" where
  "QVPNDatabaseSettings_get_db_host d = db_host d"

definition QVPNDatabaseSettings_set_db_user :: "QVPNDatabaseSettings \<Rightarrow> bytes \<Rightarrow> QVPNDatabaseSettings" where
  "QVPNDatabaseSettings_set_db_user d x = d\<lparr> db_user := x \<rparr>"

definition QVPNDatabaseSettings_get_db_user :: "QVPNDatabaseSettings \<Rightarrow> bytes" where
  "QVPNDatabaseSettings_get_db_user d = db_user d"

definition QVPNDatabaseSettings_set_db_password :: "QVPNDatabaseSettings \<Rightarrow> bytes \<Rightarrow> QVPNDatabaseSettings" where
  "QVPNDatabaseSettings_set_db_password d x = d\<lparr> db_password := x \<rparr>"

definition QVPNDatabaseSettings_get_db_password :: "QVPNDatabaseSettings \<Rightarrow> bytes" where
  "QVPNDatabaseSettings_get_db_password d = db_password d"

definition QVPNDatabaseSettings_set_db_name :: "QVPNDatabaseSettings \<Rightarrow> bytes \<Rightarrow> QVPNDatabaseSettings" where
  "QVPNDatabaseSettings_set_db_name d x = d\<lparr> db_name := x \<rparr>"

definition QVPNDatabaseSettings_get_db_name :: "QVPNDatabaseSettings \<Rightarrow> bytes" where
  "QVPNDatabaseSettings_get_db_name d = db_name d"

definition QVPNDatabaseSettings_set_db_port :: "QVPNDatabaseSettings \<Rightarrow> UShort \<Rightarrow> QVPNDatabaseSettings" where
  "QVPNDatabaseSettings_set_db_port d x = d\<lparr> db_port := x \<rparr>"

definition QVPNDatabaseSettings_get_db_port :: "QVPNDatabaseSettings \<Rightarrow> UShort" where
  "QVPNDatabaseSettings_get_db_port d = db_port d"

type_synonym QVPNServerConnectionSettings = "QVPNConnectionEntity list"

text \<open>The work mode is not passed on: the entity gets the default.\<close>

definition QVPNServerConnectionSettings_add_ipv4_addr :: "QVPNServerConnectionSettings \<Rightarrow> IPv4Address \<Rightarrow> UShort \<Rightarrow> TransportProtocol \<Rightarrow> QVPNWorkMode \<Rightarrow> QVPNServerConnectionSettings" where
  "QVPNServerConnectionSettings_add_ipv4_addr d addr port t_proto mode = 
     d @ [QVPNConnectionEntity_of_ipv4 addr port t_proto default_work_mode]"

definition QVPNServerConnectionSettings_add_ipv6_addr :: "QVPNServerConnectionSettings \<Rightarrow> IPv6Address \<Rightarrow> UShort \<Rightarrow> TransportProtocol \<Rightarrow> QVPNWorkMode \<Rightarrow> QVPNServerConnectionSettings" where
  "QVPNServerConnectionSettings_add_ipv6_addr d addr port t_proto mode = 
     d @ [QVPNConnectionEntity_of_ipv6 addr port t_proto default_work_mode]"

definition QVPNServerConnectionSettings_add_net_addr :: "QVPNServerConnectionSettings \<Rightarrow> NetAddr \<Rightarrow> UShort \<Rightarrow> TransportProtocol \<Rightarrow> QVPNWorkMode \<Rightarrow> QVPNServerConnectionSettings" where
  "QVPNServerConnectionSettings_add_net_addr d addr port t_proto mode = 
     d @ [QVPNConnectionEntity_of_addr addr port t_proto default_work_mode]"

definition QVPNServerConnectionSettings_get_addrs :: "QVPNServerConnectionSettings \<Rightarrow> QVPNConnectionEntity list" where
  "QVPNServerConnectionSettings_get_addrs d = d"

type_synonym QVPNServerCryptoSettings = "QVPN_Crypto list"

definition QVPNServerCryptoSettings_add_crypto_method :: "QVPNServerCryptoSettings \<Rightarrow> QVPN_Crypto \<Rightarrow> QVPNServerCryptoSettings" where
  "QVPNServerCryptoSettings_add_crypto_method d crypto = d @ [crypto]"

definition QVPNServerCryptoSettings_get_supported_crypto :: "QVPNServerCryptoSettings \<Rightarrow> QVPN_Crypto list" where
  "QVPNServerCryptoSettings_get_supported_crypto d = d"

record QVPNServerSettings =
  sset_connection :: QVPNServerConnectionSettings
  sset_crypto :: QVPNServerCryptoSettings
  sset_database :: QVPNDatabaseSettings

record server_addr_json =
  sa_addr_type :: UInt
  sa_addr :: string
  sa_port :: UShort
  sa_proto :: UByte
  sa_mode :: UByte

record server_json =
  sj_addrs :: "server_addr_json list"
  sj_supported_crypto :: "UShort list"
  sj_host :: bytes
  sj_user :: bytes
  sj_pass :: bytes
  sj_name :: bytes
  sj_port :: UShort

primrec add_addrs :: "QVPNServerConnectionSettings \<Rightarrow> server_addr_json list \<Rightarrow>
    std_exception + QVPNServerConnectionSettings" where
  "add_addrs d [] = Inr d"
| "add_addrs d (a # as) = (case NetAddr_of_string (sa_addr a) of
       Inl ex \<Rightarrow> Inl ex
     | Inr net_addr \<Rightarrow> add_addrs (QVPNServerConnectionSettings_add_net_addr d net_addr (sa_port a) (sa_proto a)
         (unat (sa_mode a))) as)"

definition QVPNServerSettings_parse_settings ::
    "QVPNServerSettings \<Rightarrow> server_json option \<Rightarrow> std_exception + QVPNServerSettings" where
  "QVPNServerSettings_parse_settings s file = (case file of
       None \<Rightarrow> Inr s
     | Some j \<Rightarrow> (case add_addrs (sset_connection s) (sj_addrs j) of
           Inl ex \<Rightarrow> Inl ex
         | Inr c \<Rightarrow>
             (let cr = foldl QVPNServerCryptoSettings_add_crypto_method (sset_crypto s) (sj_supported_crypto j);
                  db = QVPNDatabaseSettings_set_db_host (sset_database s) (sj_host j);
                  db = QVPNDatabaseSettings_set_db_user db (sj_user j);
                  db = QVPNDatabaseSettings_set_db_password db (sj_pass j);
                  db = QVPNDatabaseSettings_set_db_name db (sj_name j);
                  db = QVPNDatabaseSettings_set_db_port db (sj_port j)
              in Inr \<lparr> sset_connection = c, sset_crypto = cr, sset_database = db \<rparr>)))"

section \<open>Statistics\<close>

text \<open>A variable of an \<open>enum class\<close> holds any number of its underlying type.\<close>

type_synonym TrafficType = int
definition TRAFFIC_INCOMING :: TrafficType where "TRAFFIC_INCOMING = 0"
definition TRAFFIC_OUTGOING :: TrafficType where "TRAFFIC_OUTGOING = 1"
definition TRAFFIC_ERROR_TYPE :: TrafficType where "TRAFFIC_ERROR_TYPE = 99"

record UserStatisticData =
  us_user :: bytes
  us_socket_data :: QVPNSocketData
  us_traffic_size :: nat
  us_traffic_type :: TrafficType

definition UserStatisticData_of :: "bytes \<Rightarrow> QVPNSocketData \<Rightarrow> nat \<Rightarrow> TrafficType \<Rightarrow> UserStatisticData" where
  "UserStatisticData_of user socket_data traffic_size traffic_type = 
     \<lparr> us_user = user, us_socket_data = socket_data, us_traffic_size = traffic_size, us_traffic_type = traffic_type \<rparr>"

definition UserStatisticData_set_data :: "UserStatisticData \<Rightarrow> bytes \<Rightarrow> QVPNSocketData \<Rightarrow> nat \<Rightarrow> TrafficType \<Rightarrow> UserStatisticData" where
  "UserStatisticData_set_data u user socket_data traffic_size traffic_type = 
     u\<lparr> us_user := user, us_socket_data := socket_data, us_traffic_size := traffic_size,
       us_traffic_type := traffic_type \<rparr>"

definition UserStatisticData_get_user :: "UserStatisticData \<Rightarrow> bytes" where
  "UserStatisticData_get_user u = us_user u"

definition UserStatisticData_get_connection_data :: "UserStatisticData \<Rightarrow> QVPNSocketData" where
  "UserStatisticData_get_connection_data u = us_socket_data u"

definition UserStatisticData_get_net_proto :: "UserStatisticData \<Rightarrow> NetProtocol" where
  "UserStatisticData_get_net_proto u = sd_net_proto (us_socket_data u)"

definition UserStatisticData_get_transport_proto :: "UserStatisticData \<Rightarrow> TransportProtocol" where
  "UserStatisticData_get_transport_proto u = sd_transport_proto (us_socket_data u)"

definition UserStatisticData_get_traffic_size :: "UserStatisticData \<Rightarrow> nat" where
  "UserStatisticData_get_traffic_size u = us_traffic_size u"

definition UserStatisticData_get_traffic_type :: "UserStatisticData \<Rightarrow> TrafficType" where
  "UserStatisticData_get_traffic_type u = us_traffic_type u"

text \<open>The adapters used when there is no database and no statistics.\<close>

definition NoDatabaseAdapter_check_user :: "bytes \<Rightarrow> bool" where
  "NoDatabaseAdapter_check_user data = True"

definition NoStatisticAdapter_get_user_stats :: "bytes \<Rightarrow> UserStatisticData list" where
  "NoStatisticAdapter_get_user_stats user = []"

section \<open>Lemmas\<close>

text \<open>A settings file that parses gives the connection its address, port and protocol, and the authorisation its
  method, key and user.\<close>

lemma client_settings_parsed:
  assumes "parse_net_addr (cj_addr j) = Inr a"
  shows "QVPNClientSettings_parse_settings s (Some j) = Inr \<lparr>
    cset_connection = (cset_connection s)\<lparr> ce_addr := a, ce_port := cj_port j, ce_t_proto := cj_proto j \<rparr>,
    cset_crypto = (cset_crypto s)\<lparr> ccs_key := cj_key j, ccs_crypto_method := ucast (cj_crypto_method j) \<rparr>,
    cset_auth = cj_auth_data j,
    cset_whitelists = cset_whitelists s @ map QVPNWhitelist_of_path (cj_whitelists j) \<rparr>"
  using assms by (simp add: QVPNClientSettings_parse_settings_def Let_def
      QVPNClientConnectionSettings_set_ip_address_def QVPNConnectionEntity_set_ip_address_def
      QVPNClientConnectionSettings_set_port_def QVPNConnectionEntity_set_port_def
      QVPNClientConnectionSettings_set_transport_proto_def QVPNConnectionEntity_set_transport_proto_def
      QVPNClientCryptoSettings_set_crypto_method_def QVPNClientCryptoSettings_set_key_def
      QVPNClientAuthSettings_set_auth_data_def)

text \<open>Every listening address the server adds has the work mode 99, whatever mode was asked for.\<close>

lemma add_addrs_mode:
  "add_addrs d as = Inr d' \<Longrightarrow> \<forall>c\<in>set d. ce_mode c = default_work_mode \<Longrightarrow> \<forall>c\<in>set d'. ce_mode c = default_work_mode"
proof (induction as arbitrary: d)
  case (Cons a as)
  from Cons.prems(1) obtain na where "NetAddr_of_string (sa_addr a) = Inr na" by (auto split: sum.splits)
  with Cons.prems show ?case
    by (intro Cons.IH [of "QVPNServerConnectionSettings_add_net_addr d na (sa_port a) (sa_proto a) (unat (sa_mode a))"])
      (simp_all add: QVPNServerConnectionSettings_add_net_addr_def QVPNConnectionEntity_of_addr_def)
qed simp

lemma server_settings_mode_lost:
  assumes "QVPNServerSettings_parse_settings s (Some j) = Inr s'" "sset_connection s = []"
  shows "\<forall>c\<in>set (sset_connection s'). QVPNConnectionEntity_get_work_mode c = QVPNServerWorkMode_SERVER_DPI_TERROR"
proof -
  obtain c where "add_addrs [] (sj_addrs j) = Inr c" "sset_connection s' = c"
    using assms by (auto simp: QVPNServerSettings_parse_settings_def Let_def split: sum.splits)
  then show ?thesis
    using add_addrs_mode [of "[]" "sj_addrs j" c]
    by (simp add: QVPNConnectionEntity_get_work_mode_def QVPNServerWorkMode_SERVER_DPI_TERROR_def default_work_mode_def)
qed

text \<open>A host the whitelist hands out is one of its hosts.\<close>

lemma random_host_listed:
  "QVPNWhitelist_get_random_host draw w = Some h \<Longrightarrow> h \<in> we_host ` set w"
  by (auto simp: QVPNWhitelist_get_random_host_def rd_def QVPNWhitelistElement_get_host_def split: if_splits)

lemma random_host_exists:
  "w \<noteq> [] \<Longrightarrow> \<forall>n. 0 < n \<longrightarrow> draw n < n \<Longrightarrow> \<exists>h. QVPNWhitelist_get_random_host draw w = Some h"
  by (simp add: QVPNWhitelist_get_random_host_def rd_def)

end
