(* ===== verification/Authorisation.thy ===== *)
theory Authorisation
  imports TlsHello SafeReceive Layers Settings "HOL-Library.Sublist"
begin

text \<open>Connecting and authorising (\<open>init\<close>, \<open>try_reconnect\<close> and \<open>encode_and_send\<close> of \<open>QVPNClientDriver\<close>, one round of
  \<open>listen_and_connect_socket_\<close> of \<open>QVPNServerDriver\<close>, in \<open>qvpn_driver.hpp\<close>).  The socket calls, the database, the
  draws of the random generators and the clock are parameters.  Log output is left out.

  The client hides the method, the key and the user's name in the session id of a TLS client hello; the server
  reads them back, asks the database for the user and answers with a server hello.\<close>

section \<open>Client\<close>

definition QVPNClientDriver_crypto_data :: "QVPNClientSettings \<Rightarrow> bytes" where
  "QVPNClientDriver_crypto_data s =
     (let user = QVPNClientAuthSettings_get_auth_data (cset_auth s);
          m = QVPNClientCryptoSettings_get_crypto_method (cset_crypto s);
          crypto_data = [byte_of 8 m] @ [byte_of 0 m];
          k = QVPNClientCryptoSettings_get_key (cset_crypto s);
          key_length = (of_nat (length k) :: UByte);
          crypto_data = crypto_data @ [key_length] @ k;
          user_length = (of_nat (length user) :: UByte)
      in crypto_data @ [user_length] @ user)"

text \<open>The bytes of the client hello, from the version on, and the record that carries them.\<close>

definition QVPNClientDriver_hello ::
    "(nat \<Rightarrow> byte_source) \<Rightarrow> UInt \<Rightarrow> (nat \<Rightarrow> nat) \<Rightarrow> QVPNClientSettings \<Rightarrow> bytes option" where
  "QVPNClientDriver_hello rss time draw s = do {
     wldata \<leftarrow> QVPNClientSettings_get_whitelist_element draw s 0;
     obj_bytes \<leftarrow> TLS13_ClientHelloLE_generate_host_bytes rss time TLS13_DefaultClientHelloGenerationStrategy wldata
       (QVPNClientDriver_crypto_data s);
     Some (TLS13_RecordLE_generate_object_bytes TLS13_DefaultRecordGenerationStrategy_get_legacy_version
       TLS13_MessageLE_get_overlay_protocol_type
       (TLS13_MessageLE_generate_object_bytes TLS13_ClientHelloLE_get_overlay_protocol_type obj_bytes)) }"

text \<open>What \<open>init\<close> makes of the answer: the checks of the record, the message and the server hello.\<close>

definition QVPNClientDriver_accepts :: "ReceiveData \<Rightarrow> bool option" where
  "QVPNClientDriver_accepts receive_data =
     (let status = rcv_status receive_data; server_hello_data = rcv_data receive_data in
      if \<not> ns_success status then Some False
      else do {
        let rec = TLS13_RecordView_of_range 0 (length server_hello_data);
        rec_type \<leftarrow> TLS13_RecordView_get_tls_record_type rec server_hello_data;
        if rec_type \<noteq> TLSRecordType_HANDSHAKE then Some False
        else do {
          let (m_b, m_e) = TLS13_RecordView_get_tls_record_data rec;
          mes \<leftarrow> TLS13_MessageView_of_range server_hello_data m_b m_e;
          msg_type \<leftarrow> TLS13_MessageView_get_tls_msg_type mes server_hello_data;
          if msg_type \<noteq> TLSMessageType_SERVER_HELLO then Some False
          else do {
            let (b, e) = TLS13_MessageView_get_tls_msg_data mes;
            sh \<leftarrow> TLS13_ServerHelloView_of_range server_hello_data b e;
            Some (ns_success status) } } })"

text \<open>The whole of \<open>init\<close>: the bytes it sends and its result.  \<open>send\<close> and \<open>receive\<close> are the calls of the socket.\<close>

definition QVPNClientDriver_init ::
    "(nat \<Rightarrow> byte_source) \<Rightarrow> UInt \<Rightarrow> (nat \<Rightarrow> nat) \<Rightarrow> (bytes \<Rightarrow> NetStatus) \<Rightarrow> (bytes \<Rightarrow> ReceiveData) \<Rightarrow>
     QVPNClientSettings \<Rightarrow> (bytes \<times> bool) option" where
  "QVPNClientDriver_init rss time draw send receive s = do {
     tls_data \<leftarrow> QVPNClientDriver_hello rss time draw s;
     let res = send tls_data;
     accepted \<leftarrow> QVPNClientDriver_accepts (receive tls_data);
     Some (tls_data, if \<not> accepted then False else ns_success res) }"

text \<open>\<open>reconnect k\<close> is the result of the \<open>k\<close>-th attempt.  The loop returns its result and the number of attempts made.\<close>

function try_reconnect_loop :: "(nat \<Rightarrow> NetStatus) \<Rightarrow> nat \<Rightarrow> int \<Rightarrow> bool \<Rightarrow> bool \<times> nat" where
  "try_reconnect_loop reconnect k reconnect_number success =
     (if \<not> success \<and> reconnect_number > 0
      then try_reconnect_loop reconnect (Suc k) (reconnect_number - 1) (ns_success (reconnect k))
      else (success, k))"
  by pat_completeness auto
termination
  by (relation "measure (\<lambda>(_, _, n, _). nat n)") auto

declare try_reconnect_loop.simps [simp del]

definition QVPNClientDriver_try_reconnect :: "(nat \<Rightarrow> NetStatus) \<Rightarrow> int \<Rightarrow> bool \<times> nat" where
  "QVPNClientDriver_try_reconnect reconnect reconnect_number = try_reconnect_loop reconnect 0 reconnect_number False"

definition default_reconnect_number :: int where
  "default_reconnect_number = 20"

text \<open>The parts of a packet are sent one after the other; the first failure ends the loop.  The result is what was
  sent and whether a send failed; the ranges of all parts are read first.  After a failure the
  client reconnects and, when that succeeds, authorises again.\<close>

fun send_parts :: "(nat \<Rightarrow> bytes \<Rightarrow> NetStatus) \<Rightarrow> nat \<Rightarrow> bytes list \<Rightarrow> bytes list \<times> bool" where
  "send_parts send k [] = ([], False)"
| "send_parts send k (p # ps) =
     (if \<not> ns_success (send k p) then ([], True)
      else let (sent, failed) = send_parts send (Suc k) ps in (p # sent, failed))"

definition QVPNClientDriver_encode_and_send ::
    "(nat \<Rightarrow> byte_source) \<Rightarrow> UInt \<Rightarrow> (nat \<Rightarrow> nat) \<Rightarrow> (nat \<Rightarrow> bytes \<Rightarrow> NetStatus) \<Rightarrow> (bytes \<Rightarrow> ReceiveData) \<Rightarrow>
     (nat \<Rightarrow> NetStatus) \<Rightarrow> QVPNClientSettings \<Rightarrow> QVPNDriver \<Rightarrow> QTunnelProxy \<Rightarrow> mem \<Rightarrow> ptr \<Rightarrow> ptr \<Rightarrow>
     (bytes list \<times> QVPNDriver) option" where
  "QVPNClientDriver_encode_and_send rss time draw send receive reconnect s d px m b e = do {
     (sp, d) \<leftarrow> QVPNClientDriver_encode_data d px m b e;
     parts \<leftarrow> sp_parts sp;
     let (sent, failed) = send_parts send 0 parts;
     if failed \<and> fst (QVPNClientDriver_try_reconnect reconnect default_reconnect_number) then do {
       (tls_data, ok) \<leftarrow> QVPNClientDriver_init rss time draw (send (length sent + 1)) receive s;
       Some (sent @ [tls_data], d) }
     else Some (sent, d) }"

section \<open>Server\<close>

text \<open>What the server does with a connection: nothing came of it, it is closed after a failed authorisation (with
  the bytes sent, if any), or a thread serves it for a user.\<close>

datatype auth_outcome =
    NoConnection
  | AuthFailed "bytes option"
  | Serving bytes bytes

text \<open>Where the user's name lies in the hidden data, which begins at \<open>d_b\<close>.  Method and key are located and not
  used; no length is compared with the session id's.\<close>

definition QVPNServerDriver_read_user :: "mem \<Rightarrow> ptr \<Rightarrow> bytes option" where
  "QVPNServerDriver_read_user m d_b = do {
     crypto_method \<leftarrow> rd16 m d_b;
     key_size \<leftarrow> rd m (d_b + 2);
     let offset = 3 + unat key_size;
     user_size \<leftarrow> rd m (d_b + offset);
     let offset = offset + 1;
     rd_range m (d_b + offset) (d_b + unat user_size + offset) }"

definition QVPNServerDriver_answer :: "(nat \<Rightarrow> byte_source) \<Rightarrow> UInt \<Rightarrow> bytes option" where
  "QVPNServerDriver_answer rss time = do {
     obj_bytes \<leftarrow> TLS13_ServerHelloLE_generate_object_bytes rss time TLS13_DefaultServerHelloGenerationStrategy;
     Some (TLS13_RecordLE_generate_object_bytes TLS13_DefaultRecordGenerationStrategy_get_legacy_version
       TLS13_MessageLE_get_overlay_protocol_type
       (TLS13_MessageLE_generate_object_bytes TLS13_ServerHelloLE_get_overlay_protocol_type obj_bytes)) }"

text \<open>One round of the loop: \<open>listen\<close>, \<open>receive\<close> and \<open>send\<close> are the socket's calls.\<close>

definition QVPNServerDriver_listen_and_connect ::
    "(nat \<Rightarrow> byte_source) \<Rightarrow> UInt \<Rightarrow> (bytes \<Rightarrow> bool) \<Rightarrow> NetStatus \<Rightarrow> ReceiveData \<Rightarrow> (bytes \<Rightarrow> NetStatus) \<Rightarrow>
     auth_outcome option" where
  "QVPNServerDriver_listen_and_connect rss time check_user listen receive_data send =
     (if \<not> ns_success listen then Some NoConnection
      else let data = rcv_data receive_data; len = rcv_size receive_data in
      if \<not> ns_success (rcv_status receive_data) then Some (AuthFailed None)
      else do {
        let rec = TLS13_RecordView_of_range 0 (nat len);
        rec_type \<leftarrow> TLS13_RecordView_get_tls_record_type rec data;
        if rec_type \<noteq> TLSRecordType_HANDSHAKE then Some (AuthFailed None)
        else do {
          let (mb, me) = TLS13_RecordView_get_tls_record_data rec;
          mes \<leftarrow> TLS13_MessageView_of_range data mb me;
          msg_type \<leftarrow> TLS13_MessageView_get_tls_msg_type mes data;
          if msg_type \<noteq> TLSMessageType_CLIENT_HELLO then Some (AuthFailed None)
          else do {
            let (h_b, h_e) = TLS13_MessageView_get_tls_msg_data mes;
            client_hello \<leftarrow> TLS13_ClientHelloView_of_range data h_b h_e;
            crypto_data \<leftarrow> TLS13_ClientHelloView_get_tls_session client_hello data;
            let (d_b, d_e) = TLSSessionIDView_get_tls_id crypto_data;
            user \<leftarrow> QVPNServerDriver_read_user data d_b;
            if \<not> check_user user then Some (AuthFailed None)
            else do {
              tls_data \<leftarrow> QVPNServerDriver_answer rss time;
              if ns_success (send tls_data) then Some (Serving user tls_data)
              else Some (AuthFailed (Some tls_data)) } } } })"

section \<open>The handshake\<close>

lemma length_crypto_data:
  "length (QVPNClientDriver_crypto_data s) = length (ccs_key (cset_crypto s)) + length (cset_auth s) + 4"
  by (simp add: QVPNClientDriver_crypto_data_def Let_def QVPNClientAuthSettings_get_auth_data_def
      QVPNClientCryptoSettings_get_key_def)

lemma client_hello_record:
  assumes "QVPNClientSettings_get_whitelist_element draw s 0 = Some host"
  shows "QVPNClientDriver_hello rss time draw s = Some (handshake_record TLSMessageType_CLIENT_HELLO
    (hello_bytes TLSProtocolVersion_TLS12
      (default_fields rss time (TLSSessionIDLE_generate_range_bytes (QVPNClientDriver_crypto_data s)) host)))"
  using assms by (simp add: QVPNClientDriver_hello_def default_host_bytes handshake_record_def
      TLS13_ClientHelloLE_get_overlay_protocol_type_def)

lemma server_answer:
  "QVPNServerDriver_answer rss time = Some (handshake_record TLSMessageType_SERVER_HELLO
    (hello_bytes TLSProtocolVersion_TLS12 (server_fields rss time)))"
  by (simp add: QVPNServerDriver_answer_def default_server_bytes handshake_record_def
      TLS13_ServerHelloLE_get_overlay_protocol_type_def)

text \<open>The user's name in hidden data of the client's form, whatever follows it.\<close>

lemma read_user_at:
  assumes "length k < 256" "length u < 256"
    and "m = pre @ [m1, m2, of_nat (length k)] @ k @ [of_nat (length u)] @ u @ rest"
  shows "QVPNServerDriver_read_user m (length pre) = Some u"
proof -
  have n: "unat (of_nat (length k) :: UByte) = length k" "unat (of_nat (length u) :: UByte) = length u"
    using assms(1,2) by (simp_all add: unat_of_nat_small)
  have "rd16 m (length pre) = Some (be16 m1 m2)"
    by (simp add: assms(3) rd16_def rd_def nth_append)
  moreover have "rd m (length pre + 2) = Some (of_nat (length k))"
    by (simp add: assms(3) rd_def nth_append)
  moreover have "rd m (length pre + (3 + length k)) = Some (of_nat (length u))"
    by (simp add: assms(3) rd_def nth_append)
  moreover have "rd_range m (length pre + (4 + length k)) (length pre + length u + (4 + length k)) = Some u"
    using rd_range_mid [of "length pre + (4 + length k)"
        "pre @ [m1, m2, of_nat (length k)] @ k @ [of_nat (length u)]"
        "length pre + length u + (4 + length k)" u rest] by (simp add: assms(3))
  ultimately show ?thesis
    using n by (simp add: QVPNServerDriver_read_user_def Let_def ac_simps)
qed

text \<open>A socket that received \<open>bs\<close>: the buffer holds it, followed by what the buffer held before.\<close>

definition received :: "bytes \<Rightarrow> bytes \<Rightarrow> ReceiveData" where
  "received bs rest = \<lparr> rcv_status = ok_status, rcv_size = int (length bs), rcv_data = bs @ rest \<rparr>"

definition closed_connection :: ReceiveData where
  "closed_connection = \<lparr> rcv_status = \<lparr> ns_success = False, ns_status = 0 \<rparr>, rcv_size = 0, rcv_data = [] \<rparr>"

lemma server_on_hello:
  assumes "length k + length u \<le> 251" "length host < 65470"
    and cd: "cd = [m1, m2, of_nat (length k)] @ k @ [of_nat (length u)] @ u"
    and hello: "hello = handshake_record TLSMessageType_CLIENT_HELLO
      (hello_bytes v (default_fields rc tc (TLSSessionIDLE_generate_range_bytes cd) host))"
  shows "QVPNServerDriver_listen_and_connect rss time check_user ok_status (received hello rest) send =
    (if \<not> check_user u then Some (AuthFailed None)
     else do { a \<leftarrow> QVPNServerDriver_answer rss time;
               if ns_success (send a) then Some (Serving u a) else Some (AuthFailed (Some a)) })"
proof -
  let ?s = "TLSSessionIDLE_generate_range_bytes cd" and ?m = "hello @ rest"
  have lcd: "length cd = length k + length u + 4" by (simp add: cd)
  have s: "counted8 ?s" using session_range_counted [of cd] assms(1) lcd by simp
  obtain r c kk x where f: "default_fields rc tc ?s host = [r, ?s, c, kk, x]" and ok: "length r = 32" "counted16 c"
      "counted8 kk" "counted16 x"
    using default_fields_ok [OF s assms(2), of rc tc] by blast
  let ?h = "hello_bytes v [r, ?s, c, kk, x]"
  have "length ?h < 2 ^ 24"
    using length_hello_bytes [OF assms(2), of v rc tc ?s] assms(1,2) lcd by (simp add: f)
  from handshake_record_at [where m = ?m and t = TLSMessageType_CLIENT_HELLO and rest = rest and
      e = "unat (of_int (int (length hello)) :: UShort)", OF _ this] hello f
  obtain mv pre where m: "rd ?m 0 = Some TLSRecordType_HANDSHAKE"
      "TLS13_MessageView_of_range ?m 5 (unat (of_int (int (length hello)) :: UShort)) = Some mv"
      "TLS13_MessageView_get_tls_msg_type mv ?m = Some TLSMessageType_CLIENT_HELLO"
      "TLS13_MessageView_get_tls_msg_data mv = (9, 9 + length ?h)" "length pre = 9" "?m = pre @ ?h @ rest"
    by auto
  obtain hv sv where h: "TLS13_ClientHelloView_of_range ?m 9 (9 + length ?h) = Some hv"
      "TLS13_ClientHelloView_get_tls_session hv ?m = Some sv" "fst (TLSSessionIDView_get_tls_id sv) = 44"
    using client_view_at [OF ok(1) s ok(2-4) m(6), of "9 + length ?h"] m(5) by auto
  have "?m = (pre @ be16_bytes v @ r @ [of_nat (length cd)]) @ [m1, m2, of_nat (length k)] @ k @ [of_nat (length u)] @ u @
      (c @ kk @ x @ rest)"
    using m(6) by (simp add: hello_bytes_def TLSSessionIDLE_generate_range_bytes_def Let_def cd)
  from read_user_at [OF _ _ this] have u: "QVPNServerDriver_read_user ?m 44 = Some u"
    using assms(1) m(5) ok(1) by simp
  show ?thesis
    using m h u by (simp add: QVPNServerDriver_listen_and_connect_def received_def ok_status_def Let_def
        TLS13_RecordView_get_tls_record_type_def TLS13_RecordView_of_range_def
        TLS13_RecordView_get_tls_record_data_def split_beta)
qed

lemma client_on_answer:
  "QVPNServerDriver_answer rss time = Some a \<Longrightarrow> QVPNClientDriver_accepts (received a rest) = Some True"
proof -
  assume "QVPNServerDriver_answer rss time = Some a"
  then have a: "a = handshake_record TLSMessageType_SERVER_HELLO
      (hello_bytes TLSProtocolVersion_TLS12 (server_fields rss time))"
    by (simp add: server_answer)
  let ?h = "hello_bytes TLSProtocolVersion_TLS12 (server_fields rss time)" and ?m = "a @ rest"
  have "length ?h < 2 ^ 24" by (simp add: hello_bytes_def server_fields_def)
  from handshake_record_at [where m = ?m and t = TLSMessageType_SERVER_HELLO and rest = rest and
      e = "unat (of_int (int (length ?m)) :: UShort)", OF _ this] a
  obtain mv pre where m: "rd ?m 0 = Some TLSRecordType_HANDSHAKE"
      "TLS13_MessageView_of_range ?m 5 (unat (of_int (int (length ?m)) :: UShort)) = Some mv"
      "TLS13_MessageView_get_tls_msg_type mv ?m = Some TLSMessageType_SERVER_HELLO"
      "TLS13_MessageView_get_tls_msg_data mv = (9, 9 + length ?h)" "length pre = 9" "?m = pre @ ?h @ rest"
    by auto
  from server_view_at [OF m(6), of "9 + length ?h"] m(5)
  have "\<exists>sh. TLS13_ServerHelloView_of_range ?m 9 (9 + length ?h) = Some sh" by simp
  then show "QVPNClientDriver_accepts (received a rest) = Some True"
    using m by (auto simp: QVPNClientDriver_accepts_def received_def ok_status_def Let_def
        TLS13_RecordView_get_tls_record_type_def TLS13_RecordView_of_range_def
        TLS13_RecordView_get_tls_record_data_def)
qed

text \<open>Both ends together: the server receives what the client sent, the client receives what the server answered,
  or finds the connection closed.\<close>

definition handshake ::
    "(nat \<Rightarrow> byte_source) \<Rightarrow> UInt \<Rightarrow> (nat \<Rightarrow> nat) \<Rightarrow> (nat \<Rightarrow> byte_source) \<Rightarrow> UInt \<Rightarrow> (bytes \<Rightarrow> bool) \<Rightarrow> bytes \<Rightarrow>
     QVPNClientSettings \<Rightarrow> (bytes \<times> bool) option" where
  "handshake rc tc draw rs ts check_user rest s =
     QVPNClientDriver_init rc tc draw (\<lambda>_. ok_status)
       (\<lambda>hello. case QVPNServerDriver_listen_and_connect rs ts check_user ok_status (received hello rest)
                     (\<lambda>_. ok_status) of
           Some (Serving user answer) \<Rightarrow> received answer rest
         | _ \<Rightarrow> closed_connection) s"

lemma client_on_closed: "QVPNClientDriver_accepts closed_connection = Some False"
  by (simp add: QVPNClientDriver_accepts_def closed_connection_def)

lemma server_on_client_hello:
  assumes "QVPNClientSettings_get_whitelist_element draw s 0 = Some host" "length host < 65470"
    and "length (ccs_key (cset_crypto s)) + length (cset_auth s) \<le> 251"
  shows "\<exists>hello. QVPNClientDriver_hello rc tc draw s = Some hello \<and>
    QVPNServerDriver_listen_and_connect rs ts check_user ok_status (received hello rest) send =
    (if \<not> check_user (cset_auth s) then Some (AuthFailed None)
     else do { a \<leftarrow> QVPNServerDriver_answer rs ts;
               if ns_success (send a) then Some (Serving (cset_auth s) a) else Some (AuthFailed (Some a)) })"
proof -
  let ?k = "ccs_key (cset_crypto s)" and ?m = "ccs_crypto_method (cset_crypto s)"
  have "QVPNClientDriver_crypto_data s = [byte_of 8 ?m, byte_of 0 ?m, of_nat (length ?k)] @ ?k @
      [of_nat (length (cset_auth s))] @ cset_auth s"
    by (simp add: QVPNClientDriver_crypto_data_def Let_def QVPNClientAuthSettings_get_auth_data_def
        QVPNClientCryptoSettings_get_key_def QVPNClientCryptoSettings_get_crypto_method_def)
  from server_on_hello [OF assms(3,2) this refl] show ?thesis
    using client_hello_record [OF assms(1)] by simp
qed

lemma handshake_result:
  assumes "QVPNClientSettings_get_whitelist_element draw s 0 = Some host" "length host < 65470"
    and "length (ccs_key (cset_crypto s)) + length (cset_auth s) \<le> 251"
  shows "\<exists>hello. handshake rc tc draw rs ts check_user rest s = Some (hello, check_user (cset_auth s))"
proof -
  obtain hello where h: "QVPNClientDriver_hello rc tc draw s = Some hello"
      "QVPNServerDriver_listen_and_connect rs ts check_user ok_status (received hello rest) (\<lambda>_. ok_status) =
       (if \<not> check_user (cset_auth s) then Some (AuthFailed None)
        else do { a \<leftarrow> QVPNServerDriver_answer rs ts;
                  if ns_success ok_status then Some (Serving (cset_auth s) a) else Some (AuthFailed (Some a)) })"
    using server_on_client_hello [OF assms, of rc tc rs ts check_user rest "\<lambda>_. ok_status"] by blast
  obtain a where a: "QVPNServerDriver_answer rs ts = Some a" by (simp add: server_answer)
  show ?thesis
    using h a client_on_answer [OF a, of rest]
    by (simp add: handshake_def QVPNClientDriver_init_def client_on_closed ok_status_def)
qed

text \<open>A connection is served only for a user the database knows, after a client hello.\<close>

lemma served_inversion:
  assumes "QVPNServerDriver_listen_and_connect rss time check_user listen rd_data send = Some (Serving user answer)"
  shows "check_user user" "ns_success (rcv_status rd_data)" "rd (rcv_data rd_data) 0 = Some TLSRecordType_HANDSHAKE"
    "rd (rcv_data rd_data) 5 = Some TLSMessageType_CLIENT_HELLO" "QVPNServerDriver_answer rss time = Some answer"
    "ns_success (send answer)" "ns_success listen" "\<exists>p. QVPNServerDriver_read_user (rcv_data rd_data) p = Some user"
  using assms unfolding QVPNServerDriver_listen_and_connect_def
  by (auto simp: Let_def bind_eq_Some_conv TLS13_RecordView_get_tls_record_type_def TLS13_RecordView_of_range_def
      TLS13_RecordView_get_tls_record_data_def TLS13_MessageView_of_range_def TLS13_MessageView_get_tls_msg_type_def
      case_prod_beta split: if_splits)

text \<open>The lengths in the hidden data are not compared with the session id: a name whose length lies at the end of
  the id is read from the fields that follow.\<close>

lemma user_read_past_session:
  assumes "length u < 256" "rest = u @ rest'"
  shows "QVPNServerDriver_read_user (pre @ [m1, m2, 0, of_nat (length u)] @ rest) (length pre) = Some u"
  using read_user_at [of "[]" u _ pre m1 m2 rest'] assms by simp

section \<open>Reconnecting and sending\<close>

lemma reconnect_loop:
  "0 \<le> n \<Longrightarrow> try_reconnect_loop r k n False =
     (if \<exists>i<nat n. ns_success (r (k + i)) then (True, k + Suc (LEAST i. ns_success (r (k + i)))) else (False, k + nat n))"
proof (induction "nat n" arbitrary: k n)
  case 0
  then show ?case by (subst try_reconnect_loop.simps) simp
next
  case (Suc j)
  let ?P = "\<lambda>i. ns_success (r (k + i))"
  have j: "nat (n - 1) = j" "nat n = Suc j" "0 < n" using Suc.hyps(2) by simp_all
  have step: "try_reconnect_loop r k n False = try_reconnect_loop r (Suc k) (n - 1) (?P 0)"
    using j(3) by (subst try_reconnect_loop.simps) simp
  show ?case
  proof (cases "?P 0")
    case True
    moreover from this have "try_reconnect_loop r (Suc k) (n - 1) True = (True, Suc k)"
      by (subst try_reconnect_loop.simps) simp
    moreover have "(LEAST i. ?P i) = 0" using True by (intro Least_equality) auto
    ultimately show ?thesis using step j(2) by auto
  next
    case False
    have "(\<exists>i<Suc j. ?P i) \<longleftrightarrow> (\<exists>i<j. ?P (Suc i))"
      using False by (metis Suc_less_eq gr0_conv_Suc neq0_conv)
    moreover have "(LEAST i. ?P i) = Suc (LEAST i. ?P (Suc i))" if "?P (Suc i)" for i
      using Least_Suc [of ?P "Suc i"] False that by simp
    ultimately show ?thesis
      using Suc.hyps(1) [of "n - 1" "Suc k"] step False j by auto
  qed
qed

lemma reconnect_none: "n < 0 \<Longrightarrow> try_reconnect_loop r k n False = (False, k)"
  by (subst try_reconnect_loop.simps) simp

lemma send_parts_prefix:
  "send_parts send k ps = (sent, failed) \<Longrightarrow> prefix sent ps \<and> (failed \<longleftrightarrow> length sent < length ps) \<and>
     (\<forall>i<length sent. ns_success (send (k + i) (ps ! i))) \<and>
     (failed \<longrightarrow> \<not> ns_success (send (k + length sent) (ps ! length sent)))"
proof (induction ps arbitrary: k sent failed)
  case (Cons p ps)
  show ?case
  proof (cases "ns_success (send k p)")
    case True
    then obtain sent' where "send_parts send (Suc k) ps = (sent', failed)" "sent = p # sent'"
      using Cons.prems by (auto split: prod.splits)
    with Cons.IH [of "Suc k" sent' failed] True show ?thesis
      by (auto simp: nth_Cons split: nat.split)
  qed (use Cons.prems in auto)
qed simp

text \<open>Settings with one host in the whitelist, an empty key and a user of two bytes.\<close>

definition sample_settings :: QVPNClientSettings where
  "sample_settings = \<lparr> cset_connection = \<lparr> ce_addr = [127, 0, 0, 1], ce_port = 443, ce_t_proto = 6, ce_mode = 0 \<rparr>,
     cset_crypto = \<lparr> ccs_key = [], ccs_crypto_method = 0 \<rparr>, cset_auth = [97, 98],
     cset_whitelists = [[\<lparr> we_host = ''vk.com'', we_priority = 1 \<rparr>]] \<rparr>"

section \<open>Properties of the authorisation\<close>

text \<open>C6: the handshake. A client whose key and user name together have at most 251 bytes sends a hello from which the
  server reads exactly the user of the client's settings; the client is connected if and only if the database knows
  that user, the server then serves the connection for that user, and otherwise it closes it without an answer.\<close>

theorem handshake_authorises:
  assumes "QVPNClientSettings_get_whitelist_element draw s 0 = Some host" "length host < 65470"
    and "length (ccs_key (cset_crypto s)) + length (cset_auth s) \<le> 251"
  shows "\<exists>hello answer. QVPNClientDriver_hello rc tc draw s = Some hello \<and>
    handshake rc tc draw rs ts check_user rest s = Some (hello, check_user (cset_auth s)) \<and>
    QVPNServerDriver_listen_and_connect rs ts check_user ok_status (received hello rest) (\<lambda>_. ok_status) =
      Some (if check_user (cset_auth s) then Serving (cset_auth s) answer else AuthFailed None)"
proof -
  obtain hello where h: "QVPNClientDriver_hello rc tc draw s = Some hello"
      "QVPNServerDriver_listen_and_connect rs ts check_user ok_status (received hello rest) (\<lambda>_. ok_status) =
       (if \<not> check_user (cset_auth s) then Some (AuthFailed None)
        else do { a \<leftarrow> QVPNServerDriver_answer rs ts;
                  if ns_success ok_status then Some (Serving (cset_auth s) a) else Some (AuthFailed (Some a)) })"
    using server_on_client_hello [OF assms, of rc tc rs ts check_user rest "\<lambda>_. ok_status"] by blast
  moreover obtain a where "QVPNServerDriver_answer rs ts = Some a" by (simp add: server_answer)
  moreover obtain hello' where "handshake rc tc draw rs ts check_user rest s = Some (hello', check_user (cset_auth s))"
    using handshake_result [OF assms] by blast
  moreover from this h(1) have "hello' = hello"
    by (auto simp: handshake_def QVPNClientDriver_init_def bind_eq_Some_conv)
  ultimately show ?thesis by (auto simp: ok_status_def)
qed

theorem handshake_authorises_witness:
  "\<exists>hello. handshake (\<lambda>_ _. 1) 5 (\<lambda>_. 0) (\<lambda>_ _. 2) 6 (\<lambda>u. u = [97, 98]) [] sample_settings = Some (hello, True)"
proof -
  have "QVPNClientSettings_get_whitelist_element (\<lambda>_. 0) sample_settings 0 = Some ''vk.com''"
    by (simp add: sample_settings_def QVPNClientSettings_get_whitelist_element_def QVPNWhitelist_get_random_host_def rd_def
        QVPNWhitelistElement_get_host_def)
  from handshake_authorises [OF this, of "\<lambda>_ _. 1" 5 "\<lambda>_ _. 2" 6 "\<lambda>u. u = [97, 98]" "[]"] show ?thesis
    by (auto simp: sample_settings_def)
qed

text \<open>C7: no service without authorisation. Whatever bytes arrive, the server serves a connection only when they begin
  with a handshake record holding a client hello, the name it read from them is known to the database, and the answer
  was sent.\<close>

theorem served_user_known:
  assumes "QVPNServerDriver_listen_and_connect rss time check_user listen receive_data send = Some (Serving user answer)"
  shows "check_user user \<and> ns_success listen \<and> ns_success (rcv_status receive_data) \<and>
    rd (rcv_data receive_data) 0 = Some TLSRecordType_HANDSHAKE \<and>
    rd (rcv_data receive_data) 5 = Some TLSMessageType_CLIENT_HELLO \<and>
    (\<exists>p. QVPNServerDriver_read_user (rcv_data receive_data) p = Some user) \<and>
    QVPNServerDriver_answer rss time = Some answer \<and> ns_success (send answer)"
  using served_inversion [OF assms] by blast

theorem served_user_known_witness:
  "\<exists>hello answer. QVPNServerDriver_listen_and_connect (\<lambda>_ _. 2) 6 (\<lambda>u. u = [97, 98]) ok_status (received hello []) (\<lambda>_. ok_status) =
      Some (Serving [97, 98] answer) \<and> rd hello 0 = Some TLSRecordType_HANDSHAKE"
proof -
  have "QVPNClientSettings_get_whitelist_element (\<lambda>_. 0) sample_settings 0 = Some ''vk.com''"
    by (simp add: sample_settings_def QVPNClientSettings_get_whitelist_element_def QVPNWhitelist_get_random_host_def rd_def
        QVPNWhitelistElement_get_host_def)
  from server_on_client_hello [OF this, of "\<lambda>_ _. 1" 5 "\<lambda>_ _. 2" 6 "\<lambda>u. u = [97, 98]" "[]" "\<lambda>_. ok_status"]
  obtain hello answer where *: "QVPNServerDriver_listen_and_connect (\<lambda>_ _. 2) 6 (\<lambda>u. u = [97, 98]) ok_status (received hello [])
      (\<lambda>_. ok_status) = Some (Serving [97, 98] answer)"
    by (auto simp: sample_settings_def server_answer ok_status_def)
  from served_user_known [OF *] * show ?thesis by (auto simp: received_def)
qed

text \<open>C28: reconnecting stops at the first success, and after the given number of attempts at the latest; the result says
  whether one of them succeeded. With a number that is not positive no attempt is made.\<close>

theorem reconnect_bounded:
  "QVPNClientDriver_try_reconnect reconnect n =
    (if \<exists>i<nat n. ns_success (reconnect i) then (True, Suc (LEAST i. ns_success (reconnect i))) else (False, nat n))"
  using reconnect_loop [of n reconnect 0] reconnect_none [of n reconnect 0]
  by (cases "0 \<le> n") (simp_all add: QVPNClientDriver_try_reconnect_def)

end
