(* ===== verification/TcpOptions.thy ===== *)
theory TcpOptions
  imports TcpPacket
begin

text \<open>TCP options (\<open>TcpOptionObject\<close>, \<open>TcpOptionView\<close>, \<open>TcpOptionsObject\<close>, \<open>TcpOptionsView\<close> of \<open>qvpn_structures.hpp/.cpp\<close>) and
  the texts of \<open>QVPNVerboser\<close> (\<open>qvpn_lib.hpp/.cpp\<close>) for options and flags.  The text of a packet's options is printed for
  every packet that the client captures, so that the loop over the options runs on whatever the network delivers.\<close>

section \<open>Texts\<close>

text \<open>\<open>operator<<\<close> and \<open>std::to_string\<close> of an unsigned number.\<close>

fun dec_nat :: "nat \<Rightarrow> string" where
  "dec_nat n = (if n < 10 then [digit_char n] else dec_nat (n div 10) @ [digit_char (n mod 10)])"

declare dec_nat.simps [simp del]

text \<open>\<open>QVPNVerboser::tcp_options_\<close>, a table from kinds to names; looking up a kind that it does not have adds it with
  an empty name.\<close>

type_synonym option_names = "UByte \<Rightarrow> string"

definition QVPNVerboser_tcp_option :: "option_names \<Rightarrow> UByte \<Rightarrow> string" where
  "QVPNVerboser_tcp_option names option = names option"

definition QVPNVerboser_register_tcp_option :: "option_names \<Rightarrow> UByte \<Rightarrow> string \<Rightarrow> option_names" where
  "QVPNVerboser_register_tcp_option names option verbose = names(option := verbose)"

definition tcp_flag_names :: "string list" where
  "tcp_flag_names = [''FIN'', ''SYN'', ''RST'', ''PSH'', ''ACK'', ''URG'', ''ECE'', ''CWR'', ''NS'']"

definition ipv4_flag_names :: "string list" where
  "ipv4_flag_names = [''RESERVED'', ''DF'', ''MF'']"

text \<open>\<open>pop_back\<close> and \<open>append("]")\<close> when the text has at least two characters.\<close>

definition close_bracket :: "string \<Rightarrow> string" where
  "close_bracket flags_data = (if 2 \<le> length flags_data then butlast flags_data @ '']'' else flags_data)"

definition QVPNVerboser_tcp_flags :: "TcpFlagsObject \<Rightarrow> string" where
  "QVPNVerboser_tcp_flags flags = close_bracket (foldl (\<lambda>flags_data i.
     if TcpFlagsObject_index flags i \<noteq> Some 0 then flags_data @ tcp_flag_names ! i @ '' '' else flags_data) ''[''
     [0..<length tcp_flag_names])"

definition QVPNVerboser_ipv4_flags :: "UByte \<Rightarrow> string" where
  "QVPNVerboser_ipv4_flags flags = close_bracket (foldl (\<lambda>flags_data i.
     if drop_bit i flags AND 1 \<noteq> 0 then flags_data @ ipv4_flag_names ! i @ '' '' else flags_data) ''[''
     [0..<length ipv4_flag_names])"

section \<open>One option\<close>

type_synonym TCPOptions = UByte

definition TCPOptions_TCP_EOL :: TCPOptions where "TCPOptions_TCP_EOL = 0"
definition TCPOptions_TCP_NOP :: TCPOptions where "TCPOptions_TCP_NOP = 1"

type_synonym TcpOptionObject = bytes

definition TcpOptionObject_new :: TcpOptionObject where "TcpOptionObject_new = []"
definition TcpOptionObject_of_range :: "mem \<Rightarrow> ptr \<Rightarrow> ptr \<Rightarrow> TcpOptionObject option" where
  "TcpOptionObject_of_range m b e = rd_range m b e"
definition TcpOptionObject_set_data :: "TcpOptionObject \<Rightarrow> mem \<Rightarrow> ptr \<Rightarrow> ptr \<Rightarrow> TcpOptionObject option" where
  "TcpOptionObject_set_data opt m b e = rd_range m b e"
definition TcpOptionObject_get_size :: "TcpOptionObject \<Rightarrow> UShort" where
  "TcpOptionObject_get_size opt = of_nat (length opt)"
definition TcpOptionObject_get_option_kind :: "TcpOptionObject \<Rightarrow> TCPOptions option" where
  "TcpOptionObject_get_option_kind opt = rd opt 0"
definition TcpOptionObject_get_option_length :: "TcpOptionObject \<Rightarrow> UByte option" where
  "TcpOptionObject_get_option_length opt = rd opt 1"
definition TcpOptionObject_get_option_data :: "TcpOptionObject \<Rightarrow> (ptr \<times> ptr) option" where
  "TcpOptionObject_get_option_data opt = do {
     kind \<leftarrow> TcpOptionObject_get_option_kind opt;
     let offset = (if kind = TCPOptions_TCP_EOL \<or> kind = TCPOptions_TCP_NOP then 1 else 2);
     Some (offset, length opt) }"
definition TcpOptionObject_to_bytes :: "TcpOptionObject \<Rightarrow> bytes" where
  "TcpOptionObject_to_bytes opt = opt"

text \<open>A byte goes to the stream as a character, not as a number.\<close>

definition TcpOptionObject_to_tcp_option_friendly_view :: "option_names \<Rightarrow> TcpOptionObject \<Rightarrow> string option" where
  "TcpOptionObject_to_tcp_option_friendly_view names opt = do {
     kind \<leftarrow> rd opt 0;
     let ss = ''Kind: '' @ QVPNVerboser_tcp_option names kind;
     if kind = TCPOptions_TCP_EOL \<or> kind = TCPOptions_TCP_NOP then Some (ss @ [CHR 0x0A])
     else do {
       len \<leftarrow> rd opt 1;
       Some (ss @ ''Length: '' @ [char_of (unat len)] @ [CHR 0x0A]) } }"

text \<open>The view keeps the size of its range in one byte.\<close>

record TcpOptionView =
  tov_data :: ptr
  tov_length :: UByte

definition TcpOptionView_new :: TcpOptionView where "TcpOptionView_new = \<lparr> tov_data = 0, tov_length = 0 \<rparr>"
definition TcpOptionView_of_range :: "ptr \<Rightarrow> ptr \<Rightarrow> TcpOptionView" where
  "TcpOptionView_of_range b e = \<lparr> tov_data = b, tov_length = of_int (int e - int b) \<rparr>"
definition TcpOptionView_set_data :: "TcpOptionView \<Rightarrow> ptr \<Rightarrow> ptr \<Rightarrow> TcpOptionView" where
  "TcpOptionView_set_data v b e = v\<lparr> tov_data := b, tov_length := of_int (int e - int b) \<rparr>"
definition TcpOptionView_get_size :: "TcpOptionView \<Rightarrow> UShort" where
  "TcpOptionView_get_size v = ucast (tov_length v)"
definition TcpOptionView_get_option_kind :: "TcpOptionView \<Rightarrow> mem \<Rightarrow> TCPOptions option" where
  "TcpOptionView_get_option_kind v m = rd m (tov_data v)"
definition TcpOptionView_get_option_length :: "TcpOptionView \<Rightarrow> mem \<Rightarrow> UByte option" where
  "TcpOptionView_get_option_length v m = rd m (tov_data v + 1)"
definition TcpOptionView_get_option_data :: "TcpOptionView \<Rightarrow> mem \<Rightarrow> (ptr \<times> ptr) option" where
  "TcpOptionView_get_option_data v m = do {
     kind \<leftarrow> TcpOptionView_get_option_kind v m;
     let offset = (if kind = TCPOptions_TCP_EOL \<or> kind = TCPOptions_TCP_NOP then 1 else 2);
     Some (tov_data v + offset, tov_data v + unat (tov_length v)) }"
definition TcpOptionView_to_bytes :: "TcpOptionView \<Rightarrow> ptr \<times> ptr" where
  "TcpOptionView_to_bytes v = (tov_data v, tov_data v + unat (tov_length v))"
definition TcpOptionView_to_tcp_option_friendly_view :: "option_names \<Rightarrow> TcpOptionView \<Rightarrow> mem \<Rightarrow> string option" where
  "TcpOptionView_to_tcp_option_friendly_view names v m = do {
     kind \<leftarrow> rd m (tov_data v);
     let ss = ''Kind: '' @ QVPNVerboser_tcp_option names kind;
     if kind = TCPOptions_TCP_EOL \<or> kind = TCPOptions_TCP_NOP then Some (ss @ [CHR 0x0A])
     else do {
       len \<leftarrow> rd m (tov_data v + 1);
       Some (ss @ ''Length: '' @ [char_of (unat len)] @ [CHR 0x0A]) } }"

section \<open>All options of a header\<close>

definition TcpOptionsView_get_next_option_offset :: "mem \<Rightarrow> ptr \<Rightarrow> UShort option" where
  "TcpOptionsView_get_next_option_offset m b = do {
     kind \<leftarrow> rd m b;
     if kind = TCPOptions_TCP_NOP \<or> kind = TCPOptions_TCP_EOL then Some 1
     else do {
       len \<leftarrow> rd m (b + 1);
       Some (ucast len) } }"

definition TcpOptionsObject_get_next_option_offset :: "mem \<Rightarrow> ptr \<Rightarrow> UShort option" where
  "TcpOptionsObject_get_next_option_offset m b = do {
     kind \<leftarrow> rd m b;
     if kind = TCPOptions_TCP_NOP \<or> kind = TCPOptions_TCP_EOL then Some 1
     else do {
       len \<leftarrow> rd m (b + 1);
       Some (ucast len) } }"

text \<open>The loop over the options.  The outer option is \<open>None\<close> when it never returns, the inner one when it reads outside
  the memory.  The end of the range is passed to \<open>get_next_option_offset\<close> and not used there.\<close>

partial_function (option) options_text_loop ::
    "option_names \<Rightarrow> mem \<Rightarrow> ptr \<Rightarrow> nat \<Rightarrow> nat \<Rightarrow> string \<Rightarrow> string option option" where
  "options_text_loop names m b sz i ss =
     (if i < sz then
        (case TcpOptionsView_get_next_option_offset m (b + i) of
           None \<Rightarrow> Some None
         | Some opt_len \<Rightarrow>
             (case rd m (b + i) of
                None \<Rightarrow> Some None
              | Some kind \<Rightarrow> options_text_loop names m b sz (i + unat opt_len)
                  (ss @ QVPNVerboser_tcp_option names kind @ '' ('' @ dec_nat (unat opt_len) @ ''), '')))
      else Some (Some ss))"

text \<open>The last two characters, a comma and a space, are taken away.\<close>

definition cut_comma :: "string \<Rightarrow> string" where
  "cut_comma str = (if 2 \<le> length str then butlast (butlast str) else str)"

text \<open>The static functions; a range that ends before it begins has a huge size as \<open>size_t\<close>.\<close>

definition range_size :: "ptr \<Rightarrow> ptr \<Rightarrow> nat" where
  "range_size b e = (if b \<le> e then e - b else 2 ^ 64 - (b - e))"

definition TcpOptionsView_range_friendly_view :: "option_names \<Rightarrow> mem \<Rightarrow> ptr \<Rightarrow> ptr \<Rightarrow> string option option" where
  "TcpOptionsView_range_friendly_view names m b e =
     map_option (map_option cut_comma) (options_text_loop names m b (range_size b e) 0 [])"

definition TcpOptionsObject_range_friendly_view :: "option_names \<Rightarrow> mem \<Rightarrow> ptr \<Rightarrow> ptr \<Rightarrow> string option option" where
  "TcpOptionsObject_range_friendly_view names m b e =
     map_option (map_option cut_comma) (options_text_loop names m b (range_size b e) 0 [])"

type_synonym TcpOptionsObject = bytes

definition TcpOptionsObject_new :: TcpOptionsObject where "TcpOptionsObject_new = []"
definition TcpOptionsObject_of_range :: "mem \<Rightarrow> ptr \<Rightarrow> ptr \<Rightarrow> TcpOptionsObject option" where
  "TcpOptionsObject_of_range m b e = rd_range m b e"
definition TcpOptionsObject_set_data :: "TcpOptionsObject \<Rightarrow> mem \<Rightarrow> ptr \<Rightarrow> ptr \<Rightarrow> TcpOptionsObject option" where
  "TcpOptionsObject_set_data opts m b e = rd_range m b e"
definition TcpOptionsObject_get_size :: "TcpOptionsObject \<Rightarrow> UShort" where
  "TcpOptionsObject_get_size opts = of_nat (length opts)"
definition TcpOptionsObject_to_bytes :: "TcpOptionsObject \<Rightarrow> bytes" where
  "TcpOptionsObject_to_bytes opts = opts"
definition TcpOptionsObject_to_tcp_options_friendly_view :: "option_names \<Rightarrow> TcpOptionsObject \<Rightarrow> string option option" where
  "TcpOptionsObject_to_tcp_options_friendly_view names opts =
     map_option (map_option cut_comma) (options_text_loop names opts 0 (length opts) 0 [])"

record TcpOptionsView =
  tosv_data :: ptr
  tosv_length :: UShort

definition TcpOptionsView_new :: TcpOptionsView where "TcpOptionsView_new = \<lparr> tosv_data = 0, tosv_length = 0 \<rparr>"
definition TcpOptionsView_of_range :: "ptr \<Rightarrow> ptr \<Rightarrow> TcpOptionsView" where
  "TcpOptionsView_of_range b e = \<lparr> tosv_data = b, tosv_length = of_int (int e - int b) \<rparr>"
definition TcpOptionsView_set_data :: "TcpOptionsView \<Rightarrow> ptr \<Rightarrow> ptr \<Rightarrow> TcpOptionsView" where
  "TcpOptionsView_set_data v b e = v\<lparr> tosv_data := b, tosv_length := of_int (int e - int b) \<rparr>"
definition TcpOptionsView_get_size :: "TcpOptionsView \<Rightarrow> UShort" where
  "TcpOptionsView_get_size v = tosv_length v"
definition TcpOptionsView_to_bytes :: "TcpOptionsView \<Rightarrow> ptr \<times> ptr" where
  "TcpOptionsView_to_bytes v = (tosv_data v, tosv_data v + unat (tosv_length v))"
definition TcpOptionsView_to_tcp_options_friendly_view :: "option_names \<Rightarrow> TcpOptionsView \<Rightarrow> mem \<Rightarrow> string option option" where
  "TcpOptionsView_to_tcp_options_friendly_view names v m =
     map_option (map_option cut_comma) (options_text_loop names m (tosv_data v) (unat (tosv_length v)) 0 [])"

text \<open>The line of a captured packet's text that shows its options.\<close>

definition TcpPacketView_options_text :: "option_names \<Rightarrow> TcpPacketView \<Rightarrow> mem \<Rightarrow> string option option" where
  "TcpPacketView_options_text names v m =
     (let (opt_b, opt_e) = TcpPacketView_get_tcp_options v in
      map_option (map_option (\<lambda>t. ''Options: '' @ t)) (TcpOptionsView_range_friendly_view names m opt_b opt_e))"

section \<open>What the loop prints\<close>

text \<open>Options as the protocol defines them: a byte of padding, or a kind, a length that counts itself and the kind, and
  data.\<close>

datatype option_item = Pad UByte | Opt UByte bytes

fun item_kind :: "option_item \<Rightarrow> UByte" where
  "item_kind (Pad k) = k"
| "item_kind (Opt k d) = k"

fun item_bytes :: "option_item \<Rightarrow> bytes" where
  "item_bytes (Pad k) = [k]"
| "item_bytes (Opt k d) = k # of_nat (length d + 2) # d"

fun item_ok :: "option_item \<Rightarrow> bool" where
  "item_ok (Pad k) \<longleftrightarrow> k = 0 \<or> k = 1"
| "item_ok (Opt k d) \<longleftrightarrow> k \<noteq> 0 \<and> k \<noteq> 1 \<and> length d < 254"

definition item_text :: "option_names \<Rightarrow> option_item \<Rightarrow> string" where
  "item_text names x = names (item_kind x) @ '' ('' @ dec_nat (length (item_bytes x)) @ ''), ''"

definition items_bytes :: "option_item list \<Rightarrow> bytes" where
  "items_bytes xs = concat (map item_bytes xs)"

definition items_text :: "option_names \<Rightarrow> option_item list \<Rightarrow> string" where
  "items_text names xs = concat (map (item_text names) xs)"

lemmas option_kind_defs = TCPOptions_TCP_EOL_def TCPOptions_TCP_NOP_def

lemma next_option_item:
  assumes "item_ok x"
  shows "TcpOptionsView_get_next_option_offset (pre @ item_bytes x @ rest) (length pre) = Some (of_nat (length (item_bytes x)))"
    "rd (pre @ item_bytes x @ rest) (length pre) = Some (item_kind x)" "length (item_bytes x) < 256"
proof -
  show "length (item_bytes x) < 256" using assms by (cases x) simp_all
  show "rd (pre @ item_bytes x @ rest) (length pre) = Some (item_kind x)"
    by (cases x) (simp_all add: rd_def nth_append)
  have wide: "ucast (of_nat n :: UByte) = (of_nat n :: UShort)" if "n < 256" for n
    using that by (simp add: ucast_of_nat_small)
  show "TcpOptionsView_get_next_option_offset (pre @ item_bytes x @ rest) (length pre) = Some (of_nat (length (item_bytes x)))"
  proof (cases x)
    case (Pad k)
    then show ?thesis
      using assms by (auto simp: TcpOptionsView_get_next_option_offset_def rd_def nth_append option_kind_defs)
  next
    case (Opt k d)
    then show ?thesis
      using assms wide [of "Suc (Suc (length d))"]
      by (simp add: TcpOptionsView_get_next_option_offset_def rd_def nth_append option_kind_defs
          del: of_nat_Suc of_nat_add)
  qed
qed

text \<open>The loop walks over well-formed options one by one, whatever is in front of them and behind them.\<close>

lemma options_walk:
  assumes "\<forall>x\<in>set xs. item_ok x" "b + i = length pre" "i + length (items_bytes xs) \<le> sz"
  shows "options_text_loop names (pre @ items_bytes xs @ rest) b sz i ss =
    options_text_loop names (pre @ items_bytes xs @ rest) b sz (i + length (items_bytes xs)) (ss @ items_text names xs)"
  using assms
proof (induction xs arbitrary: pre i ss)
  case Nil
  then show ?case by (simp add: items_bytes_def items_text_def)
next
  case (Cons x xs)
  let ?m = "pre @ items_bytes (x # xs) @ rest" and ?n = "length (item_bytes x)"
  have m: "?m = pre @ item_bytes x @ (items_bytes xs @ rest)" "?m = (pre @ item_bytes x) @ items_bytes xs @ rest"
    by (simp_all add: items_bytes_def)
  have n: "0 < ?n" by (cases x) simp_all
  have ok: "item_ok x" using Cons.prems by simp
  note item = next_option_item(1,2) [OF ok, of pre "items_bytes xs @ rest", folded m(1)] next_option_item(3) [OF ok]
  have small: "unat (of_nat ?n :: UShort) = ?n" using item(3) by (simp add: unat_of_nat take_bit_nat_eq_self)
  have "i < sz" using Cons.prems(3) n by (simp add: items_bytes_def del: length_greater_0_conv)
  then have "options_text_loop names ?m b sz i ss = options_text_loop names ?m b sz (i + ?n) (ss @ item_text names x)"
    using item(1,2) small Cons.prems(2)
    by (subst options_text_loop.simps) (simp add: QVPNVerboser_tcp_option_def item_text_def)
  also have "\<dots> = options_text_loop names ?m b sz (i + ?n + length (items_bytes xs)) (ss @ item_text names x @ items_text names xs)"
    unfolding m(2) using Cons.IH [of "i + ?n" "pre @ item_bytes x" "ss @ item_text names x"] Cons.prems
    by (simp add: items_bytes_def)
  finally show ?case by (simp add: items_bytes_def items_text_def add.assoc)
qed

text \<open>Bytes that are well-formed options, decided byte by byte.\<close>

function options_ok :: "bytes \<Rightarrow> bool" where
  "options_ok [] \<longleftrightarrow> True"
| "options_ok (k # bs) \<longleftrightarrow>
     (if k = TCPOptions_TCP_EOL \<or> k = TCPOptions_TCP_NOP then options_ok bs
      else case bs of [] \<Rightarrow> False
        | l # r \<Rightarrow> 2 \<le> unat l \<and> unat l - 2 \<le> length r \<and> options_ok (drop (unat l - 2) r))"
  by pat_completeness auto
termination by (relation "measure length") auto

lemma options_ok_items: "options_ok bs \<longleftrightarrow> (\<exists>xs. (\<forall>x\<in>set xs. item_ok x) \<and> bs = items_bytes xs)"
proof
  show "options_ok bs \<Longrightarrow> \<exists>xs. (\<forall>x\<in>set xs. item_ok x) \<and> bs = items_bytes xs"
  proof (induction bs rule: options_ok.induct)
    case 1
    show ?case by (rule exI [of _ "[]"]) (simp add: items_bytes_def)
  next
    case (2 k bs)
    show ?case
    proof (cases "k = TCPOptions_TCP_EOL \<or> k = TCPOptions_TCP_NOP")
      case True
      with 2 obtain xs where "\<forall>x\<in>set xs. item_ok x" "bs = items_bytes xs" by auto
      then show ?thesis using True by (intro exI [of _ "Pad k # xs"]) (auto simp: items_bytes_def option_kind_defs)
    next
      case False
      with "2.prems" obtain l r where bs: "bs = l # r" "2 \<le> unat l" "unat l - 2 \<le> length r" "options_ok (drop (unat l - 2) r)"
        by (auto split: list.splits)
      then obtain xs where xs: "\<forall>x\<in>set xs. item_ok x" "drop (unat l - 2) r = items_bytes xs"
        using "2.IH"(2) [OF False bs(1) bs(4)] by blast
      have l: "of_nat (length (take (unat l - 2) r) + 2) = l" "length (take (unat l - 2) r) < 254"
        using bs(2,3) unat_byte_less [of l] by simp_all
      have "k # bs = items_bytes (Opt k (take (unat l - 2) r) # xs)"
        using l(1) bs(1) xs(2) append_take_drop_id [of "unat l - 2" r] by (simp add: items_bytes_def del: length_take append_take_drop_id)
      then show ?thesis using False l(2) xs(1) by (intro exI [of _ "Opt k (take (unat l - 2) r) # xs"]) (auto simp: option_kind_defs)
    qed
  qed
next
  have "options_ok (item_bytes x @ rest) = options_ok rest" if "item_ok x" for x rest
    using that by (cases x) (auto simp: option_kind_defs unat_of_nat take_bit_nat_eq_self simp del: of_nat_Suc of_nat_add)
  then have "\<forall>x\<in>set xs. item_ok x \<Longrightarrow> options_ok (items_bytes xs)" for xs
    by (induction xs) (simp_all add: items_bytes_def)
  then show "\<exists>xs. (\<forall>x\<in>set xs. item_ok x) \<and> bs = items_bytes xs \<Longrightarrow> options_ok bs" by blast
qed

text \<open>So the loop returns on well-formed options, wherever they lie.\<close>

lemma options_text_returns:
  assumes "options_ok (mslice m b n)" "b + n \<le> length m"
  shows "\<exists>txt. TcpOptionsView_range_friendly_view names m b (b + n) = Some (Some txt)"
proof -
  obtain xs where xs: "\<forall>x\<in>set xs. item_ok x" "mslice m b n = items_bytes xs"
    using assms(1) by (auto simp: options_ok_items)
  have n: "length (items_bytes xs) = n" using assms(2) by (simp add: xs(2) [symmetric] mslice_def)
  have m: "m = take b m @ items_bytes xs @ drop (b + n) m"
    by (metis append_take_drop_id xs(2) mslice_def drop_drop add.commute)
  have "options_text_loop names m b n 0 [] = options_text_loop names m b n n (items_text names xs)"
    using options_walk [OF xs(1), of b 0 "take b m" n names "drop (b + n) m" "[]"] assms(2) n m by simp
  then show ?thesis
    by (simp add: TcpOptionsView_range_friendly_view_def range_size_def options_text_loop.simps [of _ _ _ n n])
qed

text \<open>Where a length byte is zero the loop stays for ever.\<close>

definition zero_length_at :: "mem \<Rightarrow> nat \<Rightarrow> bool" where
  "zero_length_at m i \<longleftrightarrow> (\<exists>k. rd m i = Some k \<and> k \<noteq> 0 \<and> k \<noteq> 1) \<and> rd m (i + 1) = Some 0"

lemma options_loop_returns: "options_text_loop names m b sz i ss = Some r \<Longrightarrow> \<not> (i < sz \<and> zero_length_at m (b + i))"
proof (rule options_text_loop.raw_induct [where P = "\<lambda>names m b sz i ss r. \<not> (i < sz \<and> zero_length_at m (b + i))"], goal_cases)
  case (1 f names m b sz i ss r)
  show ?case
  proof
    assume z: "i < sz \<and> zero_length_at m (b + i)"
    then have "TcpOptionsView_get_next_option_offset m (b + i) = Some 0"
      by (auto simp: TcpOptionsView_get_next_option_offset_def zero_length_at_def option_kind_defs)
    then obtain ss' where "f names m b sz i ss' = Some r"
      using 1(3) z by (auto simp: zero_length_at_def)
    then show False using 1(2) z by blast
  qed
qed simp

lemma options_loop_diverges: "i < sz \<Longrightarrow> zero_length_at m (b + i) \<Longrightarrow> options_text_loop names m b sz i ss = None"
  using options_loop_returns by (cases "options_text_loop names m b sz i ss") blast+

text \<open>An option without its length byte at the end of the memory is read past the end.\<close>

lemma options_loop_cut_off:
  assumes "i < sz" "rd m (b + i) = Some k" "k \<noteq> 0" "k \<noteq> 1" "length m = b + i + 1"
  shows "options_text_loop names m b sz i ss = Some None"
  using assms by (subst options_text_loop.simps)
    (simp add: TcpOptionsView_get_next_option_offset_def option_kind_defs rd_def)

text \<open>A sample table of names.\<close>

definition sample_names :: option_names where
  "sample_names = (\<lambda>k. if k = 1 then ''No-Operation'' else if k = 2 then ''Maximum Segment Size'' else [])"

section \<open>The text of the options\<close>

text \<open>Over well-formed options, whatever is in memory around them, the loop ends and prints
  each option's name and size in order. An option of another kind whose length byte is zero keeps the loop where it is
  for ever, and an option that is cut off before its length at the end of the memory is read past that end.\<close>

lemma options_text_outcome:
  assumes "\<forall>x\<in>set xs. item_ok x" "k \<noteq> TCPOptions_TCP_EOL" "k \<noteq> TCPOptions_TCP_NOP"
  shows "TcpOptionsView_range_friendly_view names (pre @ items_bytes xs @ rest) (length pre)
      (length pre + length (items_bytes xs)) = Some (Some (cut_comma (items_text names xs))) \<and>
    TcpOptionsView_range_friendly_view names (pre @ items_bytes xs @ [k, 0] @ rest) (length pre)
      (length pre + length (items_bytes xs) + Suc n) = None \<and>
    TcpOptionsView_range_friendly_view names (pre @ items_bytes xs @ [k]) (length pre)
      (length pre + length (items_bytes xs) + Suc n) = Some None"
proof -
  let ?n = "length (items_bytes xs)"
  note walk = options_walk [OF assms(1), of "length pre" 0 pre]
  have k: "k \<noteq> 0" "k \<noteq> 1" using assms(2,3) by (simp_all add: option_kind_defs)
  have "options_text_loop names (pre @ items_bytes xs @ rest) (length pre) ?n 0 [] = Some (Some (items_text names xs))"
    using walk [of ?n names rest "[]"] by (simp add: options_text_loop.simps [of _ _ _ _ ?n])
  moreover have "zero_length_at (pre @ items_bytes xs @ [k, 0] @ rest) (length pre + ?n)"
    using k by (simp add: zero_length_at_def rd_def nth_append)
  then have "options_text_loop names (pre @ items_bytes xs @ [k, 0] @ rest) (length pre) (?n + Suc n) 0 [] = None"
    using walk [of "?n + Suc n" names "[k, 0] @ rest" "[]"] options_loop_diverges [of ?n "?n + Suc n"] by simp
  moreover have "options_text_loop names (pre @ items_bytes xs @ [k]) (length pre) (?n + Suc n) 0 [] = Some None"
    using walk [of "?n + Suc n" names "[k]" "[]"] options_loop_cut_off [of ?n "?n + Suc n"] k
    by (simp add: rd_def nth_append)
  ultimately show ?thesis
    by (simp add: TcpOptionsView_range_friendly_view_def range_size_def)
qed

end
