(* ===== verification/Library.thy ===== *)
theory Library
  imports TcpOptions Settings
begin

text \<open>The parts of \<open>qvpn_lib.hpp/.cpp\<close> that name things for people: the library's version (\<open>QVPNLib\<close>), the work modes
  (\<open>QVPNModeVerbose\<close>), protocols, addresses and modes (\<open>QVPNVerboser\<close>, whose flags and options are in \<open>TcpOptions\<close>), the
  layout of labels (\<open>FriendlyViewPolicy\<close>), the texts of socket data, and the two loggers of \<open>qvpn_tools.hpp\<close>.  The static
  tables are arguments: a program may register names of its own.\<close>

definition endl :: string where "endl = [CHR 0x0A]"

definition dec :: "'a::len word \<Rightarrow> string" where "dec x = dec_nat (unat x)"

section \<open>The version of the library\<close>

definition QVPNLib_lib_name :: string where "QVPNLib_lib_name = ''QVPN Library/Framework''"
definition QVPNLib_short_lib_name :: string where "QVPNLib_short_lib_name = ''QVPN Lib''"
definition QVPNLib_major_ver :: UInt where "QVPNLib_major_ver = 0"
definition QVPNLib_minor_ver :: UInt where "QVPNLib_minor_ver = 5"
definition QVPNLib_patch_ver :: UInt where "QVPNLib_patch_ver = 5"
definition QVPNLib_last_compatible_major_ver :: UInt where "QVPNLib_last_compatible_major_ver = 0"
definition QVPNLib_last_compatible_minor_ver :: UInt where "QVPNLib_last_compatible_minor_ver = 5"
definition QVPNLib_last_compatible_patch_ver :: UInt where "QVPNLib_last_compatible_patch_ver = 0"

text \<open>Each remainder is appended as the character with that code.\<close>

fun u_number_loop :: "nat \<Rightarrow> string \<Rightarrow> string" where
  "u_number_loop temp result = (if temp = 0 then result else u_number_loop (temp div 10) (result @ [char_of (temp mod 10)]))"

declare u_number_loop.simps [simp del]

definition QVPNLib_u_number_to_string :: "UInt \<Rightarrow> string" where
  "QVPNLib_u_number_to_string value = (if value = 0 then ''0'' else u_number_loop (unat value) [])"

definition QVPNLib_get_short_library_name :: string where "QVPNLib_get_short_library_name = QVPNLib_short_lib_name"
definition QVPNLib_get_library_name :: string where "QVPNLib_get_library_name = QVPNLib_lib_name"
definition QVPNLib_get_major_version :: UInt where "QVPNLib_get_major_version = QVPNLib_major_ver"
definition QVPNLib_get_minor_version :: UInt where "QVPNLib_get_minor_version = QVPNLib_minor_ver"
definition QVPNLib_get_patch_version :: UInt where "QVPNLib_get_patch_version = QVPNLib_patch_ver"

definition QVPNLib_get_library_version :: string where
  "QVPNLib_get_library_version = QVPNLib_u_number_to_string QVPNLib_major_ver @ ''.'' @
     QVPNLib_u_number_to_string QVPNLib_minor_ver @ ''.'' @ QVPNLib_u_number_to_string QVPNLib_patch_ver"

definition QVPNLib_get_full_library_name :: string where
  "QVPNLib_get_full_library_name = QVPNLib_lib_name @ '' v'' @ QVPNLib_u_number_to_string QVPNLib_major_ver @ ''.'' @
     QVPNLib_u_number_to_string QVPNLib_minor_ver @ ''.'' @ QVPNLib_u_number_to_string QVPNLib_patch_ver"

definition QVPNLib_is_compatible :: "UInt \<Rightarrow> UInt \<Rightarrow> UInt \<Rightarrow> bool" where
  "QVPNLib_is_compatible major minor patch =
     (if QVPNLib_last_compatible_major_ver > major then False
      else if QVPNLib_last_compatible_minor_ver > minor then False
      else if QVPNLib_last_compatible_patch_ver > patch then False
      else True)"

section \<open>Work modes\<close>

text \<open>Hash maps read with \<open>operator[]\<close>: a missing mode gives an empty text, a missing text gives mode zero.\<close>

definition QVPNModeVerbose_get_client_mode_verbose :: "QVPNWorkMode \<Rightarrow> string" where
  "QVPNModeVerbose_get_client_mode_verbose mode =
     (if mode = QVPNClientWorkMode_CLIENT_VPN then ''QVPN Mode''
      else if mode = QVPNClientWorkMode_CLIENT_PROXY_NODE then ''Proxy Mode''
      else if mode = QVPNClientWorkMode_CLIENT_ANTI_DPI_NODE then ''Anti DPI through server Mode''
      else if mode = QVPNClientWorkMode_CLIENT_ANTI_DPI then ''Anti DPI Mode''
      else if mode = QVPNClientWorkMode_CLIENT_DPI_TERROR then ''DPI Terror Mode'' else [])"

definition QVPNModeVerbose_get_server_mode_verbose :: "QVPNWorkMode \<Rightarrow> string" where
  "QVPNModeVerbose_get_server_mode_verbose mode =
     (if mode = QVPNServerWorkMode_SERVER_VPN then ''QVPN Mode''
      else if mode = QVPNServerWorkMode_SERVER_PROXY_NODE then ''Proxy Mode''
      else if mode = QVPNServerWorkMode_SERVER_ANTI_DPI_NODE then ''Anti DPI server Mode''
      else if mode = QVPNServerWorkMode_SERVER_DPI_TERROR then ''DPI Terror Mode'' else [])"

definition QVPNModeVerbose_get_client_mode_by_verbose :: "string \<Rightarrow> QVPNWorkMode" where
  "QVPNModeVerbose_get_client_mode_by_verbose mode =
     (if mode = ''QVPN Mode'' then QVPNClientWorkMode_CLIENT_VPN
      else if mode = ''Proxy Mode'' then QVPNClientWorkMode_CLIENT_PROXY_NODE
      else if mode = ''Anti DPI through server Mode'' then QVPNClientWorkMode_CLIENT_ANTI_DPI_NODE
      else if mode = ''Anti DPI Mode'' then QVPNClientWorkMode_CLIENT_ANTI_DPI
      else if mode = ''DPI Terror Mode'' then QVPNClientWorkMode_CLIENT_DPI_TERROR else 0)"

definition QVPNModeVerbose_get_server_mode_by_verbose :: "string \<Rightarrow> QVPNWorkMode" where
  "QVPNModeVerbose_get_server_mode_by_verbose mode =
     (if mode = ''QVPN Mode'' then QVPNServerWorkMode_SERVER_VPN
      else if mode = ''Proxy Mode'' then QVPNServerWorkMode_SERVER_PROXY_NODE
      else if mode = ''Anti DPI server Mode'' then QVPNServerWorkMode_SERVER_ANTI_DPI_NODE
      else if mode = ''DPI Terror Mode'' then QVPNServerWorkMode_SERVER_DPI_TERROR else 0)"

section \<open>Names of protocols, modes and addresses\<close>

type_synonym net_names = "NetProtocol \<Rightarrow> string"
type_synonym transport_names = "TransportProtocol \<Rightarrow> string"

definition default_net_names :: net_names where
  "default_net_names p = (if p = NetProtocol_IPv4 then ''IPv4'' else if p = NetProtocol_IPv6 then ''IPv6'' else [])"
definition default_transport_names :: transport_names where
  "default_transport_names p = (if p = TransportProtocol_TCP then ''TCP'' else if p = TransportProtocol_UDP then ''UDP'' else [])"

definition QVPNVerboser_net_verbose :: "net_names \<Rightarrow> NetProtocol \<Rightarrow> string" where
  "QVPNVerboser_net_verbose names net = names net"
definition QVPNVerboser_register_net_verbose :: "net_names \<Rightarrow> NetProtocol \<Rightarrow> string \<Rightarrow> net_names" where
  "QVPNVerboser_register_net_verbose names net verbose = names(net := verbose)"
definition QVPNVerboser_transport_verbose :: "transport_names \<Rightarrow> TransportProtocol \<Rightarrow> string" where
  "QVPNVerboser_transport_verbose names transport = names transport"
definition QVPNVerboser_register_transport_verbose ::
    "transport_names \<Rightarrow> TransportProtocol \<Rightarrow> string \<Rightarrow> transport_names" where
  "QVPNVerboser_register_transport_verbose names transport verbose = names(transport := verbose)"

text \<open>These are arrays: a mode at or behind their end is read outside.\<close>

definition client_work_modes :: "string list" where
  "client_work_modes = [''VPN Client'', ''Proxy client'', ''Anti DPI + server'', ''Anti DPI'', ''DPI Terror'']"
definition server_work_modes :: "string list" where
  "server_work_modes = [''VPN Server'', ''Server Proxy Node'', ''Anti DPI Server'', ''DPI Terror Server'']"
definition crypto_modes :: "string list" where "crypto_modes = [''No crypto'']"

definition QVPNVerboser_client_mode_verbose :: "QVPNWorkMode \<Rightarrow> string option" where
  "QVPNVerboser_client_mode_verbose mode = rd client_work_modes mode"
definition QVPNVerboser_server_mode_verbose :: "QVPNWorkMode \<Rightarrow> string option" where
  "QVPNVerboser_server_mode_verbose mode = rd server_work_modes mode"
definition QVPNVerboser_work_mode_verbose :: "UInt \<Rightarrow> string option" where
  "QVPNVerboser_work_mode_verbose mode = do {
     c \<leftarrow> QVPNVerboser_client_mode_verbose (unat mode);
     s \<leftarrow> QVPNVerboser_server_mode_verbose (unat mode);
     Some (c @ ''/'' @ s) }"
definition QVPNVerboser_crypto_mode_verbose :: "QVPN_Crypto \<Rightarrow> string option" where
  "QVPNVerboser_crypto_mode_verbose crypto = rd crypto_modes (unat crypto)"

text \<open>Escape sequences of the terminal.\<close>

definition color :: "string \<Rightarrow> string" where "color code = [CHR 0x1B] @ ''['' @ code @ ''m''"
definition CmdColorizer_OKBLUE :: string where "CmdColorizer_OKBLUE = color ''94''"
definition CmdColorizer_OKGREEN :: string where "CmdColorizer_OKGREEN = color ''92''"
definition CmdColorizer_WARNING :: string where "CmdColorizer_WARNING = color ''93''"
definition CmdColorizer_FAIL :: string where "CmdColorizer_FAIL = color ''91''"
definition CmdColorizer_ENDC :: string where "CmdColorizer_ENDC = color ''0''"
definition CmdColorizer_BOLD :: string where "CmdColorizer_BOLD = color ''1''"
definition CmdColorizer_DEFAULT :: string where "CmdColorizer_DEFAULT = color ''0''"

record VerbosedNetAddr =
  va_addr :: NetAddr
  va_verbose :: string
  va_color :: string

definition VerbosedNetAddr_new :: VerbosedNetAddr where
  "VerbosedNetAddr_new = \<lparr> va_addr = NetAddr_default, va_verbose = [], va_color = [] \<rparr>"
definition VerbosedNetAddr_of :: "NetAddr \<Rightarrow> string \<Rightarrow> string \<Rightarrow> VerbosedNetAddr" where
  "VerbosedNetAddr_of addr verbose cmd_color = \<lparr> va_addr = addr, va_verbose = verbose, va_color = cmd_color \<rparr>"
definition VerbosedNetAddr_get_verbose :: "VerbosedNetAddr \<Rightarrow> string" where "VerbosedNetAddr_get_verbose v = va_verbose v"
definition VerbosedNetAddr_get_color :: "VerbosedNetAddr \<Rightarrow> string" where "VerbosedNetAddr_get_color v = va_color v"

text \<open>The table is a hash map whose hash is that of the whole text of an address; it is a map here.\<close>

type_synonym addr_names = "NetAddr \<rightharpoonup> VerbosedNetAddr"

definition QVPNVerboser_register_addr_verbose :: "addr_names \<Rightarrow> NetAddr \<Rightarrow> string \<Rightarrow> string \<Rightarrow> addr_names" where
  "QVPNVerboser_register_addr_verbose names addr verbose cmd_color =
     names(addr \<mapsto> VerbosedNetAddr_of addr verbose cmd_color)"

definition QVPNVerboser_addr_verbose :: "addr_names \<Rightarrow> NetAddr \<Rightarrow> string" where
  "QVPNVerboser_addr_verbose names addr = (case names addr of
     None \<Rightarrow> NetAddr_to_string addr
   | Some v_addr \<Rightarrow> VerbosedNetAddr_get_color v_addr @ NetAddr_to_string (va_addr v_addr) @ '' ['' @ CmdColorizer_BOLD @
       VerbosedNetAddr_get_verbose v_addr @ '']'' @ CmdColorizer_ENDC @ CmdColorizer_DEFAULT)"

section \<open>Labels and values\<close>

text \<open>The functions that return a text and those that write it to a stream have the same bodies.\<close>

definition OneLine_label :: "string \<Rightarrow> string \<Rightarrow> string" where
  "OneLine_label l delimiter = l @ '':'' @ delimiter"
definition OneLine_value :: "string \<Rightarrow> string \<Rightarrow> string" where
  "OneLine_value v delimiter = v @ delimiter"
definition OneLine_label_value :: "string \<Rightarrow> string \<Rightarrow> string \<Rightarrow> string \<Rightarrow> string" where
  "OneLine_label_value l v label_delimiter value_delimiter = l @ '':'' @ label_delimiter @ v @ value_delimiter"

definition MultipleLines_label :: "string \<Rightarrow> string \<Rightarrow> string" where
  "MultipleLines_label l delimiter = l @ '':'' @ delimiter"
definition MultipleLines_value :: "string \<Rightarrow> string \<Rightarrow> string" where
  "MultipleLines_value v delimiter = v @ delimiter @ endl"
definition MultipleLines_label_value :: "string \<Rightarrow> string \<Rightarrow> string \<Rightarrow> string \<Rightarrow> string" where
  "MultipleLines_label_value l v label_delimiter value_delimiter =
     l @ '':'' @ label_delimiter @ v @ value_delimiter @ endl"

section \<open>Socket data\<close>

text \<open>\<open>to_string\<close> is also what the hash of the server's tables is computed from.\<close>

definition QVPNServerSocketData_to_string :: "QVPNServerSocketData \<Rightarrow> string" where
  "QVPNServerSocketData_to_string d =
     ''('' @ dec (ssd_net_proto d) @ '','' @ dec (ssd_transport_proto d) @ '') (Client data:'' @
     NetAddr_to_string (client_local_addr d) @ '':'' @ dec (ssd_local_port d) @ ''<=>'' @
     NetAddr_to_string (server_local_addr d) @ '':'' @ dec (ssd_local_port d) @ '')-'' @
     NetAddr_to_string (ssd_remote_addr d) @ '':'' @ dec (ssd_remote_port d)"

text \<open>\<open>p\<close> is \<open>label_value\<close> of the policy with its default delimiters.\<close>

definition QVPNServerSocketData_to_friendly_view :: "(string \<Rightarrow> string \<Rightarrow> string) \<Rightarrow> QVPNServerSocketData \<Rightarrow> string" where
  "QVPNServerSocketData_to_friendly_view p d =
     p ''IP'' (dec (ssd_net_proto d)) @ p ''TProto'' (dec (ssd_transport_proto d)) @
     p ''Client local socket data'' (NetAddr_to_string (client_local_addr d) @ '':'' @ dec (ssd_local_port d)) @
     p ''Server local socket data'' (NetAddr_to_string (server_local_addr d) @ '':'' @ dec (ssd_local_port d)) @
     p ''Remote socket data'' (NetAddr_to_string (ssd_remote_addr d) @ '':'' @ dec (ssd_remote_port d))"

definition QVPNSocketData_to_friendly_view :: "(string \<Rightarrow> string \<Rightarrow> string) \<Rightarrow> QVPNSocketData \<Rightarrow> string" where
  "QVPNSocketData_to_friendly_view p d =
     p ''IP'' (dec (sd_net_proto d)) @ p ''TProto'' (dec (sd_transport_proto d)) @
     p ''Local socket data'' (NetAddr_to_string (local_addr d) @ '':'' @ dec (local_port d)) @
     p ''Remote socket data'' (NetAddr_to_string (remote_addr d) @ '':'' @ dec (remote_port d))"

section \<open>Loggers\<close>

text \<open>What a call writes to the console, nothing when the level is off.  The time is an argument, and so is the formatting
  function of the standard library, which fails on a format that does not fit its arguments.\<close>

definition LOGGER_SILENCE :: UByte where "LOGGER_SILENCE = 0"
definition LOGGER_IMPORTANT :: UByte where "LOGGER_IMPORTANT = 1"
definition LOGGER_WARNING :: UByte where "LOGGER_WARNING = 2"
definition LOGGER_INFO :: UByte where "LOGGER_INFO = 4"
definition LOGGER_IMPORTANT_AND_WARNING :: UByte where "LOGGER_IMPORTANT_AND_WARNING = LOGGER_IMPORTANT OR LOGGER_WARNING"
definition LOGGER_WARNING_AND_INFO :: UByte where "LOGGER_WARNING_AND_INFO = LOGGER_WARNING OR LOGGER_INFO"
definition LOGGER_IMPORTANT_AND_INFO :: UByte where "LOGGER_IMPORTANT_AND_INFO = LOGGER_IMPORTANT OR LOGGER_INFO"
definition LOGGER_ALL :: UByte where "LOGGER_ALL = LOGGER_IMPORTANT OR LOGGER_WARNING OR LOGGER_INFO"

record QVPNLogger =
  lg_prefix :: string
  lg_verbose :: UByte

definition QVPNLogger_new :: QVPNLogger where
  "QVPNLogger_new = \<lparr> lg_prefix = [], lg_verbose = LOGGER_ALL \<rparr>"

definition WinLogger_set_verbosity :: "QVPNLogger \<Rightarrow> UByte \<Rightarrow> QVPNLogger" where
  "WinLogger_set_verbosity lg level = lg\<lparr> lg_verbose := level \<rparr>"
definition WinLogger_set_prefix :: "QVPNLogger \<Rightarrow> string \<Rightarrow> QVPNLogger" where
  "WinLogger_set_prefix lg prefix = lg\<lparr> lg_prefix := ''<'' @ prefix @ ''>'' \<rparr>"
definition WinLogger_clear_prefix :: "QVPNLogger \<Rightarrow> QVPNLogger" where
  "WinLogger_clear_prefix lg = lg\<lparr> lg_prefix := [] \<rparr>"

definition WinLogger_info :: "string \<Rightarrow> QVPNLogger \<Rightarrow> string \<Rightarrow> string" where
  "WinLogger_info time lg data =
     (if lg_verbose lg AND LOGGER_INFO \<noteq> LOGGER_INFO then []
      else CmdColorizer_ENDC @ CmdColorizer_BOLD @ ''['' @ time @ ''] (INFO) '' @ lg_prefix lg @ '' '' @ data @ CmdColorizer_ENDC @ endl)"
definition WinLogger_info_args :: "(string \<Rightarrow> 'a \<Rightarrow> string option) \<Rightarrow> string \<Rightarrow> QVPNLogger \<Rightarrow> string \<Rightarrow> 'a \<Rightarrow> string option" where
  "WinLogger_info_args vformat time lg str args =
     (if lg_verbose lg AND LOGGER_INFO \<noteq> LOGGER_INFO then Some []
      else do { data \<leftarrow> vformat str args;
        Some (CmdColorizer_ENDC @ CmdColorizer_BOLD @ ''['' @ time @ ''] (INFO) '' @ lg_prefix lg @ '' '' @ data @ CmdColorizer_ENDC @ endl) })"

definition WinLogger_success :: "string \<Rightarrow> QVPNLogger \<Rightarrow> string \<Rightarrow> string" where
  "WinLogger_success time lg data =
     (if lg_verbose lg AND LOGGER_IMPORTANT \<noteq> LOGGER_IMPORTANT then []
      else CmdColorizer_OKGREEN @ ''['' @ time @ ''] (SUCCESS) '' @ lg_prefix lg @ '' '' @ data @ CmdColorizer_ENDC @ endl)"
definition WinLogger_success_args :: "(string \<Rightarrow> 'a \<Rightarrow> string option) \<Rightarrow> string \<Rightarrow> QVPNLogger \<Rightarrow> string \<Rightarrow> 'a \<Rightarrow> string option" where
  "WinLogger_success_args vformat time lg str args =
     (if lg_verbose lg AND LOGGER_IMPORTANT \<noteq> LOGGER_IMPORTANT then Some []
      else do { data \<leftarrow> vformat str args;
        Some (CmdColorizer_OKGREEN @ ''['' @ time @ ''] (SUCCESS) '' @ lg_prefix lg @ '' '' @ data @ CmdColorizer_ENDC @ endl) })"

definition WinLogger_fail :: "string \<Rightarrow> QVPNLogger \<Rightarrow> string \<Rightarrow> string" where
  "WinLogger_fail time lg data =
     (if lg_verbose lg AND LOGGER_IMPORTANT \<noteq> LOGGER_IMPORTANT then []
      else CmdColorizer_FAIL @ ''['' @ time @ ''] (FAIL) '' @ lg_prefix lg @ '' '' @ data @ CmdColorizer_ENDC @ endl)"
definition WinLogger_fail_args :: "(string \<Rightarrow> 'a \<Rightarrow> string option) \<Rightarrow> string \<Rightarrow> QVPNLogger \<Rightarrow> string \<Rightarrow> 'a \<Rightarrow> string option" where
  "WinLogger_fail_args vformat time lg str args =
     (if lg_verbose lg AND LOGGER_IMPORTANT \<noteq> LOGGER_IMPORTANT then Some []
      else do { data \<leftarrow> vformat str args;
        Some (CmdColorizer_FAIL @ ''['' @ time @ ''] (FAIL) '' @ lg_prefix lg @ '' '' @ data @ CmdColorizer_ENDC @ endl) })"

definition WinLogger_warning :: "string \<Rightarrow> QVPNLogger \<Rightarrow> string \<Rightarrow> string" where
  "WinLogger_warning time lg data =
     (if lg_verbose lg AND LOGGER_WARNING \<noteq> LOGGER_WARNING then []
      else CmdColorizer_WARNING @ ''['' @ time @ ''] (WARNING) '' @ lg_prefix lg @ '' '' @ data @ CmdColorizer_ENDC @ endl)"
definition WinLogger_warning_args :: "(string \<Rightarrow> 'a \<Rightarrow> string option) \<Rightarrow> string \<Rightarrow> QVPNLogger \<Rightarrow> string \<Rightarrow> 'a \<Rightarrow> string option" where
  "WinLogger_warning_args vformat time lg str args =
     (if lg_verbose lg AND LOGGER_WARNING \<noteq> LOGGER_WARNING then Some []
      else do { data \<leftarrow> vformat str args;
        Some (CmdColorizer_WARNING @ ''['' @ time @ ''] (WARNING) '' @ lg_prefix lg @ '' '' @ data @ CmdColorizer_ENDC @ endl) })"

definition WinLogger_simple_info :: "QVPNLogger \<Rightarrow> string \<Rightarrow> string" where
  "WinLogger_simple_info lg str =
     (if lg_verbose lg AND LOGGER_INFO \<noteq> LOGGER_INFO then [] else CmdColorizer_BOLD @ str @ CmdColorizer_ENDC @ endl)"
definition WinLogger_simple_info_args :: "QVPNLogger \<Rightarrow> string \<Rightarrow> 'a \<Rightarrow> string" where
  "WinLogger_simple_info_args lg str args =
     (if lg_verbose lg AND LOGGER_INFO \<noteq> LOGGER_INFO then [] else CmdColorizer_BOLD @ str @ CmdColorizer_ENDC @ endl)"

definition LinuxLogger_set_verbosity :: "QVPNLogger \<Rightarrow> UByte \<Rightarrow> QVPNLogger" where
  "LinuxLogger_set_verbosity lg level = lg\<lparr> lg_verbose := level \<rparr>"
definition LinuxLogger_set_prefix :: "QVPNLogger \<Rightarrow> string \<Rightarrow> QVPNLogger" where
  "LinuxLogger_set_prefix lg prefix = lg\<lparr> lg_prefix := ''<'' @ prefix @ ''>'' \<rparr>"
definition LinuxLogger_clear_prefix :: "QVPNLogger \<Rightarrow> QVPNLogger" where
  "LinuxLogger_clear_prefix lg = lg\<lparr> lg_prefix := [] \<rparr>"

definition LinuxLogger_info :: "string \<Rightarrow> QVPNLogger \<Rightarrow> string \<Rightarrow> string" where
  "LinuxLogger_info time lg data =
     (if lg_verbose lg AND LOGGER_INFO \<noteq> LOGGER_INFO then []
      else CmdColorizer_ENDC @ CmdColorizer_BOLD @ ''['' @ time @ ''] (INFO) '' @ lg_prefix lg @ '' '' @ data @ CmdColorizer_DEFAULT @ endl)"
definition LinuxLogger_info_args :: "(string \<Rightarrow> 'a \<Rightarrow> string option) \<Rightarrow> string \<Rightarrow> QVPNLogger \<Rightarrow> string \<Rightarrow> 'a \<Rightarrow> string option" where
  "LinuxLogger_info_args vformat time lg str args =
     (if lg_verbose lg AND LOGGER_INFO \<noteq> LOGGER_INFO then Some []
      else do { data \<leftarrow> vformat str args;
        Some (CmdColorizer_ENDC @ CmdColorizer_BOLD @ ''['' @ time @ ''] (INFO) '' @ lg_prefix lg @ '' '' @ data @ CmdColorizer_DEFAULT @ endl) })"

definition LinuxLogger_success :: "string \<Rightarrow> QVPNLogger \<Rightarrow> string \<Rightarrow> string" where
  "LinuxLogger_success time lg data =
     (if lg_verbose lg AND LOGGER_IMPORTANT \<noteq> LOGGER_IMPORTANT then []
      else CmdColorizer_OKGREEN @ ''['' @ time @ ''] (SUCCESS) '' @ lg_prefix lg @ '' '' @ data @ CmdColorizer_DEFAULT @ endl)"
definition LinuxLogger_success_args :: "(string \<Rightarrow> 'a \<Rightarrow> string option) \<Rightarrow> string \<Rightarrow> QVPNLogger \<Rightarrow> string \<Rightarrow> 'a \<Rightarrow> string option" where
  "LinuxLogger_success_args vformat time lg str args =
     (if lg_verbose lg AND LOGGER_IMPORTANT \<noteq> LOGGER_IMPORTANT then Some []
      else do { data \<leftarrow> vformat str args;
        Some (CmdColorizer_OKGREEN @ ''['' @ time @ ''] (SUCCESS) '' @ lg_prefix lg @ '' '' @ data @ CmdColorizer_DEFAULT @ endl) })"

definition LinuxLogger_fail :: "string \<Rightarrow> QVPNLogger \<Rightarrow> string \<Rightarrow> string" where
  "LinuxLogger_fail time lg data =
     (if lg_verbose lg AND LOGGER_IMPORTANT \<noteq> LOGGER_IMPORTANT then []
      else CmdColorizer_FAIL @ ''['' @ time @ ''] (FAIL) '' @ lg_prefix lg @ '' '' @ data @ CmdColorizer_DEFAULT @ endl)"
definition LinuxLogger_fail_args :: "(string \<Rightarrow> 'a \<Rightarrow> string option) \<Rightarrow> string \<Rightarrow> QVPNLogger \<Rightarrow> string \<Rightarrow> 'a \<Rightarrow> string option" where
  "LinuxLogger_fail_args vformat time lg str args =
     (if lg_verbose lg AND LOGGER_IMPORTANT \<noteq> LOGGER_IMPORTANT then Some []
      else do { data \<leftarrow> vformat str args;
        Some (CmdColorizer_FAIL @ ''['' @ time @ ''] (FAIL) '' @ lg_prefix lg @ '' '' @ data @ CmdColorizer_DEFAULT @ endl) })"

definition LinuxLogger_warning :: "string \<Rightarrow> QVPNLogger \<Rightarrow> string \<Rightarrow> string" where
  "LinuxLogger_warning time lg data =
     (if lg_verbose lg AND LOGGER_WARNING \<noteq> LOGGER_WARNING then []
      else CmdColorizer_WARNING @ ''['' @ time @ ''] (WARNING) '' @ lg_prefix lg @ '' '' @ data @ CmdColorizer_DEFAULT @ endl)"
definition LinuxLogger_warning_args :: "(string \<Rightarrow> 'a \<Rightarrow> string option) \<Rightarrow> string \<Rightarrow> QVPNLogger \<Rightarrow> string \<Rightarrow> 'a \<Rightarrow> string option" where
  "LinuxLogger_warning_args vformat time lg str args =
     (if lg_verbose lg AND LOGGER_WARNING \<noteq> LOGGER_WARNING then Some []
      else do { data \<leftarrow> vformat str args;
        Some (CmdColorizer_WARNING @ ''['' @ time @ ''] (WARNING) '' @ lg_prefix lg @ '' '' @ data @ CmdColorizer_DEFAULT @ endl) })"

definition LinuxLogger_simple_info :: "QVPNLogger \<Rightarrow> string \<Rightarrow> string" where
  "LinuxLogger_simple_info lg str =
     (if lg_verbose lg AND LOGGER_INFO \<noteq> LOGGER_INFO then [] else CmdColorizer_BOLD @ str @ CmdColorizer_ENDC @ endl)"
definition LinuxLogger_simple_info_args :: "QVPNLogger \<Rightarrow> string \<Rightarrow> 'a \<Rightarrow> string" where
  "LinuxLogger_simple_info_args lg str args =
     (if lg_verbose lg AND LOGGER_INFO \<noteq> LOGGER_INFO then [] else CmdColorizer_BOLD @ str @ CmdColorizer_ENDC @ endl)"

section \<open>What the texts are\<close>

text \<open>A level is printed exactly when its bit is set; both loggers print the same but for the last escape sequence, which
  has the same value too.\<close>

lemma and_power: "n < 8 \<Longrightarrow> (v :: UByte) AND 2 ^ n = 2 ^ n \<longleftrightarrow> bit v n"
proof
  assume "n < 8" "v AND 2 ^ n = 2 ^ n"
  then have "bit (v AND 2 ^ n) n" by (simp add: bit_exp_iff)
  then show "bit v n" by (simp add: bit_and_iff)
next
  show "n < 8 \<Longrightarrow> bit v n \<Longrightarrow> v AND 2 ^ n = 2 ^ n"
    by (rule bit_word_eqI) (auto simp: bit_and_iff bit_exp_iff)
qed

lemma level_bits:
  "(v :: UByte) AND LOGGER_IMPORTANT = LOGGER_IMPORTANT \<longleftrightarrow> bit v 0" "v AND LOGGER_WARNING = LOGGER_WARNING \<longleftrightarrow> bit v 1"
  "v AND LOGGER_INFO = LOGGER_INFO \<longleftrightarrow> bit v 2"
  using and_power [of 0 v] and_power [of 1 v] and_power [of 2 v]
  by (simp_all add: LOGGER_IMPORTANT_def LOGGER_WARNING_def LOGGER_INFO_def)

lemma logger_levels:
  "WinLogger_info t lg d \<noteq> [] \<longleftrightarrow> bit (lg_verbose lg) 2" "WinLogger_warning t lg d \<noteq> [] \<longleftrightarrow> bit (lg_verbose lg) 1"
  "WinLogger_success t lg d \<noteq> [] \<longleftrightarrow> bit (lg_verbose lg) 0" "WinLogger_fail t lg d \<noteq> [] \<longleftrightarrow> bit (lg_verbose lg) 0"
  "WinLogger_simple_info lg d \<noteq> [] \<longleftrightarrow> bit (lg_verbose lg) 2"
  by (simp_all only: WinLogger_info_def WinLogger_warning_def WinLogger_success_def WinLogger_fail_def
      WinLogger_simple_info_def level_bits) (simp_all add: endl_def)

lemma loggers_agree:
  "LinuxLogger_info = WinLogger_info" "LinuxLogger_warning = WinLogger_warning" "LinuxLogger_success = WinLogger_success"
  "LinuxLogger_fail = WinLogger_fail" "LinuxLogger_simple_info = WinLogger_simple_info"
  by (intro ext, simp add: LinuxLogger_info_def WinLogger_info_def LinuxLogger_warning_def WinLogger_warning_def
      LinuxLogger_success_def WinLogger_success_def LinuxLogger_fail_def WinLogger_fail_def LinuxLogger_simple_info_def
      WinLogger_simple_info_def CmdColorizer_DEFAULT_def CmdColorizer_ENDC_def)+

lemma simple_info_ignores_arguments: "WinLogger_simple_info_args lg str args = WinLogger_simple_info lg str"
  by (simp add: WinLogger_simple_info_args_def WinLogger_simple_info_def)

text \<open>The digits of a version come out as control characters, the last digit first.\<close>

lemma library_version_unreadable:
  "QVPNLib_get_library_version = [CHR ''0'', CHR ''.'', char_of (5 :: nat), CHR ''.'', char_of (5 :: nat)] \<and>
    QVPNLib_u_number_to_string 12 = [char_of (2 :: nat), char_of (1 :: nat)]"
  by (simp add: QVPNLib_get_library_version_def QVPNLib_u_number_to_string_def u_number_loop.simps
      QVPNLib_major_ver_def QVPNLib_minor_ver_def QVPNLib_patch_ver_def)

text \<open>Compatibility compares the parts one by one, so it is not a comparison of versions: 1.0.0 is refused.\<close>

lemma compatible_iff:
  "QVPNLib_is_compatible a b c \<longleftrightarrow> QVPNLib_last_compatible_major_ver \<le> a \<and> QVPNLib_last_compatible_minor_ver \<le> b \<and>
     QVPNLib_last_compatible_patch_ver \<le> c"
  by (auto simp: QVPNLib_is_compatible_def not_le)

lemma next_major_version_refused: "QVPNLib_is_compatible 0 5 5 \<and> \<not> QVPNLib_is_compatible 1 0 0"
  by (simp add: compatible_iff QVPNLib_last_compatible_major_ver_def QVPNLib_last_compatible_minor_ver_def
      QVPNLib_last_compatible_patch_ver_def)

lemmas work_mode_defs = QVPNClientWorkMode_CLIENT_VPN_def QVPNClientWorkMode_CLIENT_PROXY_NODE_def
  QVPNClientWorkMode_CLIENT_ANTI_DPI_NODE_def QVPNClientWorkMode_CLIENT_ANTI_DPI_def QVPNClientWorkMode_CLIENT_DPI_TERROR_def
  QVPNServerWorkMode_SERVER_VPN_def QVPNServerWorkMode_SERVER_PROXY_NODE_def QVPNServerWorkMode_SERVER_ANTI_DPI_NODE_def
  QVPNServerWorkMode_SERVER_DPI_TERROR_def

text \<open>The text of a mode names the mode; a text that names none is taken for VPN.\<close>

lemma client_mode_roundtrip:
  "m \<in> {QVPNClientWorkMode_CLIENT_VPN, QVPNClientWorkMode_CLIENT_PROXY_NODE, QVPNClientWorkMode_CLIENT_ANTI_DPI_NODE,
     QVPNClientWorkMode_CLIENT_ANTI_DPI, QVPNClientWorkMode_CLIENT_DPI_TERROR} \<Longrightarrow>
   QVPNModeVerbose_get_client_mode_by_verbose (QVPNModeVerbose_get_client_mode_verbose m) = m"
  by (auto simp: QVPNModeVerbose_get_client_mode_by_verbose_def QVPNModeVerbose_get_client_mode_verbose_def work_mode_defs)

lemma server_mode_roundtrip:
  "m \<in> {QVPNServerWorkMode_SERVER_VPN, QVPNServerWorkMode_SERVER_PROXY_NODE, QVPNServerWorkMode_SERVER_ANTI_DPI_NODE,
     QVPNServerWorkMode_SERVER_DPI_TERROR} \<Longrightarrow>
   QVPNModeVerbose_get_server_mode_by_verbose (QVPNModeVerbose_get_server_mode_verbose m) = m"
  by (auto simp: QVPNModeVerbose_get_server_mode_by_verbose_def QVPNModeVerbose_get_server_mode_verbose_def work_mode_defs)

text \<open>The arrays of the verboser are shorter than the numbers of the modes.\<close>

lemma mode_names_too_short:
  "QVPNVerboser_client_mode_verbose m \<noteq> None \<longleftrightarrow> m < 5" "QVPNVerboser_server_mode_verbose m \<noteq> None \<longleftrightarrow> m < 4"
  "QVPNVerboser_client_mode_verbose QVPNClientWorkMode_CLIENT_DPI_TERROR = None"
  by (simp_all add: QVPNVerboser_client_mode_verbose_def QVPNVerboser_server_mode_verbose_def rd_def client_work_modes_def
      server_work_modes_def work_mode_defs)

end
