(* ===== verification/PreParser.thy ===== *)
theory PreParser
  imports FullPacket
begin

text \<open>\<open>PacketPreParser\<close> (\<open>qvpn_tools.hpp\<close>), the packet class it returns for what it does not know (\<open>DummyFullPacket\<close> of
  \<open>qvpn_structures.hpp/.cpp\<close>), and the member functions that \<open>std::visit\<close> calls on its result.\<close>

section \<open>Unknown packets\<close>

text \<open>A dummy packet has no members; its pointer pairs are two null pointers, an empty range.\<close>

definition DummyNetPacket_get_size :: UShort where "DummyNetPacket_get_size = 0"
definition DummyNetPacket_get_src_addr :: NetAddr where "DummyNetPacket_get_src_addr = NetAddr_default"
definition DummyNetPacket_get_dst_addr :: NetAddr where "DummyNetPacket_get_dst_addr = NetAddr_default"
definition DummyNetPacket_get_protocol_version :: NetProtocol where
  "DummyNetPacket_get_protocol_version = NetProtocol_NET_UNDEFINED"
definition DummyNetPacket_get_transport_protocol :: TransportProtocol where
  "DummyNetPacket_get_transport_protocol = TransportProtocol_TRANSPORT_UNDEFINED"
definition DummyNetPacket_to_bytes :: bytes where "DummyNetPacket_to_bytes = []"

definition DummyTransportPacket_get_src_port :: UShort where "DummyTransportPacket_get_src_port = 0"
definition DummyTransportPacket_get_dst_port :: UShort where "DummyTransportPacket_get_dst_port = 0"
definition DummyTransportPacket_get_transport_length :: UShort where "DummyTransportPacket_get_transport_length = 0"
definition DummyTransportPacket_get_size :: UShort where "DummyTransportPacket_get_size = 0"
definition DummyTransportPacket_get_sender_number :: UInt where "DummyTransportPacket_get_sender_number = 0"
definition DummyTransportPacket_get_receiver_number :: UInt where "DummyTransportPacket_get_receiver_number = 0"
definition DummyTransportPacket_get_flags :: UShort where "DummyTransportPacket_get_flags = 0"
definition DummyTransportPacket_is_reset_connection_packet :: bool where
  "DummyTransportPacket_is_reset_connection_packet = False"
definition DummyTransportPacket_to_bytes :: bytes where "DummyTransportPacket_to_bytes = []"

definition DummyDataPacket_get_payload :: "ptr \<times> ptr" where "DummyDataPacket_get_payload = (0, 0)"

definition DummyFullPacket_bytes :: bytes where "DummyFullPacket_bytes = []"
definition DummyFullPacket_get_full_packet_length :: UShort where "DummyFullPacket_get_full_packet_length = 0"
definition DummyFullPacket_collect_proto_data :: QTunnelProtoData where
  "DummyFullPacket_collect_proto_data = QTunnelProtoData_new"
definition DummyFullPacket_new_packet_bytes_by_this :: "QTunnelProxy \<Rightarrow> bytes \<Rightarrow> bytes" where
  "DummyFullPacket_new_packet_bytes_by_this p payload = []"

section \<open>The parser\<close>

datatype FullPacketType =
    TcpPacketOf Ipv4TcpPacket_View
  | UdpPacketOf Ipv4UdpPacket_View
  | DummyPacket

definition PacketPreParser_pre_parse_ipv4 :: "mem \<Rightarrow> ptr \<Rightarrow> ptr \<Rightarrow> FullPacketType option" where
  "PacketPreParser_pre_parse_ipv4 m b e = do {
     packet \<leftarrow> Ipv4PacketView_of_range m b e;
     proto \<leftarrow> Ipv4PacketView_get_ip_protocol packet m;
     if proto = TransportProtocol_TCP then map_option TcpPacketOf (Ipv4TcpPacket_View_of_range m b e)
     else if proto = TransportProtocol_UDP then map_option UdpPacketOf (Ipv4UdpPacket_View_of_range m b e)
     else Some DummyPacket }"

definition PacketPreParser_pre_parse :: "mem \<Rightarrow> ptr \<Rightarrow> ptr \<Rightarrow> FullPacketType option" where
  "PacketPreParser_pre_parse m b e = do {
     first \<leftarrow> rd m b;
     let ip_ver = drop_bit 4 first AND 0xF;
     if ip_ver = NetProtocol_IPv4 then PacketPreParser_pre_parse_ipv4 m b e
     else if ip_ver = NetProtocol_IPv6 then Some DummyPacket
     else Some DummyPacket }"

section \<open>Visitors\<close>

fun visit_collect_proto_data :: "mem \<Rightarrow> FullPacketType \<Rightarrow> QTunnelProtoData option" where
  "visit_collect_proto_data m (TcpPacketOf v) = Ipv4TcpPacket_View_collect_proto_data v m"
| "visit_collect_proto_data m (UdpPacketOf v) = Ipv4UdpPacket_View_collect_proto_data v m"
| "visit_collect_proto_data m DummyPacket = Some DummyFullPacket_collect_proto_data"

fun visit_get_protocol_version :: "mem \<Rightarrow> FullPacketType \<Rightarrow> NetProtocol option" where
  "visit_get_protocol_version m (TcpPacketOf v) = Ipv4PacketView_get_protocol_version (tcpv_net v) m"
| "visit_get_protocol_version m (UdpPacketOf v) = Ipv4PacketView_get_protocol_version (udpv_net v) m"
| "visit_get_protocol_version m DummyPacket = Some DummyNetPacket_get_protocol_version"

fun visit_get_transport_protocol :: "mem \<Rightarrow> FullPacketType \<Rightarrow> TransportProtocol option" where
  "visit_get_transport_protocol m (TcpPacketOf v) = Ipv4PacketView_get_transport_protocol (tcpv_net v) m"
| "visit_get_transport_protocol m (UdpPacketOf v) = Ipv4PacketView_get_transport_protocol (udpv_net v) m"
| "visit_get_transport_protocol m DummyPacket = Some DummyNetPacket_get_transport_protocol"

fun visit_get_src_addr :: "mem \<Rightarrow> FullPacketType \<Rightarrow> NetAddr option" where
  "visit_get_src_addr m (TcpPacketOf v) = Ipv4PacketView_get_src_addr (tcpv_net v) m"
| "visit_get_src_addr m (UdpPacketOf v) = Ipv4PacketView_get_src_addr (udpv_net v) m"
| "visit_get_src_addr m DummyPacket = Some DummyNetPacket_get_src_addr"

fun visit_get_src_port :: "mem \<Rightarrow> FullPacketType \<Rightarrow> UShort option" where
  "visit_get_src_port m (TcpPacketOf v) = TcpPacketView_get_src_port (tcpv_transport v) m"
| "visit_get_src_port m (UdpPacketOf v) = UdpPacketView_get_src_port (udpv_transport v) m"
| "visit_get_src_port m DummyPacket = Some DummyTransportPacket_get_src_port"

fun visit_get_payload :: "FullPacketType \<Rightarrow> ptr \<times> ptr" where
  "visit_get_payload (TcpPacketOf v) = DataPacketView_get_payload (tcpv_payload v)"
| "visit_get_payload (UdpPacketOf v) = DataPacketView_get_payload (udpv_payload v)"
| "visit_get_payload DummyPacket = DummyDataPacket_get_payload"

fun visit_is_reset_connection_packet :: "mem \<Rightarrow> FullPacketType \<Rightarrow> bool option" where
  "visit_is_reset_connection_packet m (TcpPacketOf v) = TcpPacketView_is_reset_connection_packet (tcpv_transport v) m"
| "visit_is_reset_connection_packet m (UdpPacketOf v) =
     Some (UdpPacketView_is_reset_connection_packet (udpv_transport v) m)"
| "visit_is_reset_connection_packet m DummyPacket = Some DummyTransportPacket_is_reset_connection_packet"

end
