(* ===== verification/FriendlyView.thy ===== *)
theory FriendlyView
  imports Library Layers PreParser
begin

text \<open>The texts of packets, headers and settings (\<open>to_..._friendly_view\<close> of \<open>qvpn_structures.hpp/.cpp\<close> and the \<open>get_..._info\<close>
  functions of \<open>qvpn_driver.hpp/.cpp\<close>).  The server prints the text of every packet it sends and of every reply it reads,
  the client of every packet it captures and of every packet it rebuilds, so that what these functions do not survive
  stops the tunnel: the rounds of \<open>ServerDriver\<close> and \<open>ClientCapture\<close> call them through \<open>printed\<close>.  A text is
  \<open>Some\<close>; for texts with TCP options the outer option is \<open>None\<close> when the function never returns, the inner one when it
  reads outside the memory.\<close>

section \<open>Numbers as text\<close>

definition hex_char :: "nat \<Rightarrow> char" where
  "hex_char d = (if d < 10 then digit_char d else char_of (87 + d))"

fun hex_nat :: "nat \<Rightarrow> string" where
  "hex_nat n = (if n < 16 then [hex_char n] else hex_nat (n div 16) @ [hex_char (n mod 16)])"

declare hex_nat.simps [simp del]

definition hex :: "'a::len word \<Rightarrow> string" where "hex x = hex_nat (unat x)"

definition dec_int :: "int \<Rightarrow> string" where
  "dec_int i = (if i < 0 then ''-'' @ dec_nat (nat (- i)) else dec_nat (nat i))"

text \<open>The static tables of \<open>QVPNVerboser\<close>.\<close>

record QVPNVerboser =
  vb_net :: net_names
  vb_transport :: transport_names
  vb_options :: option_names
  vb_addrs :: addr_names

definition sample_verboser :: QVPNVerboser where
  "sample_verboser = \<lparr> vb_net = default_net_names, vb_transport = default_transport_names, vb_options = sample_names,
     vb_addrs = Map.empty \<rparr>"

section \<open>Headers\<close>

definition Ipv4PacketLE_ip_friendly_view :: "QVPNVerboser \<Rightarrow> bytes \<Rightarrow> string option" where
  "Ipv4PacketLE_ip_friendly_view vb header = do {
     src \<leftarrow> Ipv4PacketLE_get_src_addr header;
     dst \<leftarrow> Ipv4PacketLE_get_dst_addr header;
     version \<leftarrow> Ipv4PacketLE_get_ip_version header;
     header_length \<leftarrow> Ipv4PacketLE_get_ip_header_length header;
     dscp \<leftarrow> Ipv4PacketLE_get_ip_dscp header;
     ecn \<leftarrow> Ipv4PacketLE_get_ip_ecn header;
     total_length \<leftarrow> Ipv4PacketLE_get_ip_total_length header;
     ident \<leftarrow> Ipv4PacketLE_get_ip_id header;
     flags \<leftarrow> Ipv4PacketLE_get_ip_flags header;
     offset \<leftarrow> Ipv4PacketLE_get_ip_offset header;
     ttl \<leftarrow> Ipv4PacketLE_get_ip_ttl header;
     protocol \<leftarrow> Ipv4PacketLE_get_ip_protocol header;
     checksum \<leftarrow> Ipv4PacketLE_get_ip_checksum header;
     Some (''IPv4 Header: '' @ endl @
       ''Version : '' @ dec version @ '' Header Length: '' @ dec header_length @ ''/'' @
       dec_nat (unat header_length * bytes_in_quartet) @ ''  (words/bytes)'' @ '' DSCP: '' @ dec dscp @ '' ECN: '' @ dec ecn @
       '' Total length: '' @ dec total_length @ endl @
       ''ID: '' @ dec ident @ '' Flags: '' @ QVPNVerboser_ipv4_flags flags @ '' Fragment Offset: '' @ dec offset @ endl @
       ''TTL: '' @ dec ttl @ '' Protocol: '' @ QVPNVerboser_transport_verbose (vb_transport vb) protocol @
       '' Checksum: 0x'' @ hex checksum @ endl @
       ''Source IP: '' @ QVPNVerboser_addr_verbose (vb_addrs vb) src @ endl @
       ''Dest IP: '' @ QVPNVerboser_addr_verbose (vb_addrs vb) dst @ endl @
       ''Additional header size: '' @ dec_nat (range_size default_ip_bytes (length header)) @ '' bytes'' @ endl @ endl) }"

definition Ipv4PacketLE_to_net_friendly_view :: "QVPNVerboser \<Rightarrow> bytes \<Rightarrow> string option" where
  "Ipv4PacketLE_to_net_friendly_view vb header = Ipv4PacketLE_ip_friendly_view vb header"

definition Ipv4PacketView_ip_friendly_view :: "QVPNVerboser \<Rightarrow> Ipv4PacketView \<Rightarrow> mem \<Rightarrow> string option" where
  "Ipv4PacketView_ip_friendly_view vb v m = do {
     src \<leftarrow> Ipv4PacketView_get_src_addr v m;
     dst \<leftarrow> Ipv4PacketView_get_dst_addr v m;
     version \<leftarrow> Ipv4PacketView_get_ip_version v m;
     header_length \<leftarrow> Ipv4PacketView_get_ip_header_length v m;
     dscp \<leftarrow> Ipv4PacketView_get_ip_dscp v m;
     ecn \<leftarrow> Ipv4PacketView_get_ip_ecn v m;
     total_length \<leftarrow> Ipv4PacketView_get_ip_total_length v m;
     ident \<leftarrow> Ipv4PacketView_get_ip_id v m;
     flags \<leftarrow> Ipv4PacketView_get_ip_flags v m;
     offset \<leftarrow> Ipv4PacketView_get_ip_offset v m;
     ttl \<leftarrow> Ipv4PacketView_get_ip_ttl v m;
     protocol \<leftarrow> Ipv4PacketView_get_ip_protocol v m;
     checksum \<leftarrow> Ipv4PacketView_get_ip_checksum v m;
     Some (''IPv4 Header: '' @ endl @
       ''Version : '' @ dec version @ '' Header Length: '' @ dec header_length @ ''/'' @
       dec_nat (unat header_length * bytes_in_quartet) @ ''  (words/bytes)'' @ '' DSCP: '' @ dec dscp @ '' ECN: '' @ dec ecn @
       '' Total length: '' @ dec total_length @ endl @
       ''ID: '' @ dec ident @ '' Flags: '' @ QVPNVerboser_ipv4_flags flags @ '' Fragment Offset: '' @ dec offset @ endl @
       ''TTL: '' @ dec ttl @ '' Protocol: '' @ QVPNVerboser_transport_verbose (vb_transport vb) protocol @
       '' Checksum: 0x'' @ hex checksum @ endl @
       ''Source IP: '' @ QVPNVerboser_addr_verbose (vb_addrs vb) src @ endl @
       ''Dest IP: '' @ QVPNVerboser_addr_verbose (vb_addrs vb) dst @ endl @
       ''Additional header size:'' @ dec_int (ip4_add_header_size v) @ '' bytes'' @ endl @ endl) }"

definition Ipv4PacketView_to_net_friendly_view :: "QVPNVerboser \<Rightarrow> Ipv4PacketView \<Rightarrow> mem \<Rightarrow> string option" where
  "Ipv4PacketView_to_net_friendly_view vb v m = Ipv4PacketView_ip_friendly_view vb v m"

definition TcpPacketLE_fixed_text :: "bytes \<Rightarrow> string option" where
  "TcpPacketLE_fixed_text header = do {
     src \<leftarrow> TcpPacketLE_get_tcp_src_port header;
     dst \<leftarrow> TcpPacketLE_get_tcp_dst_port header;
     seq \<leftarrow> TcpPacketLE_get_tcp_seq_number header;
     ack \<leftarrow> TcpPacketLE_get_tcp_ack_number header;
     header_length \<leftarrow> TcpPacketLE_get_tcp_header_length header;
     reserved \<leftarrow> TcpPacketLE_get_tcp_reserved header;
     flags \<leftarrow> TcpPacketLE_get_tcp_flags header;
     window \<leftarrow> TcpPacketLE_get_tcp_window_size header;
     checksum \<leftarrow> TcpPacketLE_get_tcp_checksum header;
     urgent \<leftarrow> TcpPacketLE_get_tcp_urgent_pointer header;
     Some (''TCP Header:'' @ endl @ ''Source port: '' @ dec src @ '' Dest port: '' @ dec dst @ endl @
       ''Seq: '' @ dec seq @ endl @ ''Ack: '' @ dec ack @ endl @
       ''Length: '' @ dec header_length @ ''/'' @ dec_nat (unat header_length * bytes_in_quartet) @ '' (words/bytes)'' @
       '' Reserverd: '' @ dec reserved @ '' Flags: '' @ QVPNVerboser_tcp_flags flags @ '' Window size: '' @ dec window @ endl @
       ''Checksum: 0x'' @ hex checksum @ '' Urgent: '' @ dec urgent @ endl @
       ''Options size: '' @ dec_int (int (length header) - int default_tcp_size) @ '' bytes'' @ endl) }"

definition TcpPacketLE_to_tcp_friendly_view :: "QVPNVerboser \<Rightarrow> bytes \<Rightarrow> string option option" where
  "TcpPacketLE_to_tcp_friendly_view vb header = (case TcpPacketLE_fixed_text header of None \<Rightarrow> Some None
   | Some ss \<Rightarrow> map_option (map_option (\<lambda>options. ss @ ''Options: '' @ options @ endl @ endl))
       (TcpOptionsView_range_friendly_view (vb_options vb) header default_tcp_size (length header)))"

definition TcpPacketLE_to_transport_friendly_view :: "QVPNVerboser \<Rightarrow> bytes \<Rightarrow> string option option" where
  "TcpPacketLE_to_transport_friendly_view vb header = TcpPacketLE_to_tcp_friendly_view vb header"

definition TcpPacketView_fixed_text :: "TcpPacketView \<Rightarrow> mem \<Rightarrow> string option" where
  "TcpPacketView_fixed_text v m = do {
     src \<leftarrow> TcpPacketView_get_tcp_src_port v m;
     dst \<leftarrow> TcpPacketView_get_tcp_dst_port v m;
     seq \<leftarrow> TcpPacketView_get_tcp_seq_number v m;
     ack \<leftarrow> TcpPacketView_get_tcp_ack_number v m;
     header_length \<leftarrow> TcpPacketView_get_tcp_header_length v m;
     reserved \<leftarrow> TcpPacketView_get_tcp_reserved v m;
     flags \<leftarrow> TcpPacketView_get_tcp_flags v m;
     window \<leftarrow> TcpPacketView_get_tcp_window_size v m;
     checksum \<leftarrow> TcpPacketView_get_tcp_checksum v m;
     urgent \<leftarrow> TcpPacketView_get_tcp_urgent_pointer v m;
     Some (''TCP Header:'' @ endl @ ''Source port: '' @ dec src @ '' Dest port: '' @ dec dst @ endl @
       ''Seq: '' @ dec seq @ endl @ ''Ack: '' @ dec ack @ endl @
       ''Length: '' @ dec header_length @ ''/'' @ dec_nat (unat header_length * bytes_in_quartet) @ '' (words/bytes)'' @
       '' Reserverd: '' @ dec reserved @ '' Flags: '' @ QVPNVerboser_tcp_flags flags @ '' Window size: '' @ dec window @ endl @
       ''Checksum: 0x'' @ hex checksum @ '' Urgent: '' @ dec urgent @ endl @
       ''Options size: '' @ dec_int (tcp_options_size v) @ '' bytes'' @ endl @ endl) }"

definition TcpPacketView_to_tcp_friendly_view :: "QVPNVerboser \<Rightarrow> TcpPacketView \<Rightarrow> mem \<Rightarrow> string option option" where
  "TcpPacketView_to_tcp_friendly_view vb v m = (case TcpPacketView_fixed_text v m of None \<Rightarrow> Some None
   | Some ss \<Rightarrow> map_option (map_option (\<lambda>options. ss @ ''Options: '' @ options @ endl @ endl))
       ((case TcpPacketView_get_tcp_options v of (opt_b, opt_e) \<Rightarrow>
       TcpOptionsView_range_friendly_view (vb_options vb) m opt_b opt_e)))"

definition TcpPacketView_to_transport_friendly_view :: "QVPNVerboser \<Rightarrow> TcpPacketView \<Rightarrow> mem \<Rightarrow> string option option" where
  "TcpPacketView_to_transport_friendly_view vb v m = TcpPacketView_to_tcp_friendly_view vb v m"

definition UdpPacketLE_to_udp_friendly_view :: "bytes \<Rightarrow> string option" where
  "UdpPacketLE_to_udp_friendly_view header = do {
     src \<leftarrow> UdpPacketLE_get_udp_src_port header;
     dst \<leftarrow> UdpPacketLE_get_udp_dst_port header;
     len \<leftarrow> UdpPacketLE_get_udp_length header;
     checksum \<leftarrow> UdpPacketLE_get_udp_checksum header;
     Some (''UDP Header:'' @ endl @ ''Src port: '' @ dec src @ '' Dst port: '' @ dec dst @ endl @
       ''Length: '' @ dec len @ ''Checksum: 0x'' @ hex checksum @ endl @ endl) }"

definition UdpPacketLE_to_transport_friendly_view :: "bytes \<Rightarrow> string option" where
  "UdpPacketLE_to_transport_friendly_view header = UdpPacketLE_to_udp_friendly_view header"

definition UdpPacketView_to_udp_friendly_view :: "UdpPacketView \<Rightarrow> mem \<Rightarrow> string option" where
  "UdpPacketView_to_udp_friendly_view v m = do {
     src \<leftarrow> UdpPacketView_get_udp_src_port v m;
     dst \<leftarrow> UdpPacketView_get_udp_dst_port v m;
     len \<leftarrow> UdpPacketView_get_udp_length v m;
     checksum \<leftarrow> UdpPacketView_get_udp_checksum v m;
     Some (''UDP Header:'' @ endl @ ''Src port: '' @ dec src @ '' Dst port: '' @ dec dst @ endl @
       ''Length: '' @ dec len @ ''Checksum: 0x'' @ hex checksum @ endl @ endl) }"

definition UdpPacketView_to_transport_friendly_view :: "UdpPacketView \<Rightarrow> mem \<Rightarrow> string option" where
  "UdpPacketView_to_transport_friendly_view v m = UdpPacketView_to_udp_friendly_view v m"

definition DataPacketLE_to_data_friendly_view :: "bytes \<Rightarrow> string" where
  "DataPacketLE_to_data_friendly_view data = ''Data size: '' @ dec_nat (length data) @ '' bytes''"

definition DataPacketView_to_data_friendly_view :: "DataPacketView \<Rightarrow> string" where
  "DataPacketView_to_data_friendly_view v = ''Data size: '' @ dec_int (dp_size v) @ '' bytes''"

definition dummy_text :: string where
  "dummy_text = ''This is dummy packet. If you see this, you did something wrong.''"
definition DummyNetPacket_to_net_friendly_view :: string where "DummyNetPacket_to_net_friendly_view = dummy_text"
definition DummyTransportPacket_to_transport_friendly_view :: string where
  "DummyTransportPacket_to_transport_friendly_view = dummy_text"
definition DummyDataPacket_to_data_friendly_view :: string where "DummyDataPacket_to_data_friendly_view = dummy_text"

section \<open>Whole packets\<close>

text \<open>The three texts are made one after the other and written out together.\<close>

definition packet_text :: "string option \<Rightarrow> string option option \<Rightarrow> string \<Rightarrow> string option option" where
  "packet_text net transport data = (case net of None \<Rightarrow> Some None
   | Some n \<Rightarrow> map_option (map_option (\<lambda>t. n @ t @ data @ endl)) transport)"

definition Ipv4TcpFatPacket_to_packet_friendly_view :: "QVPNVerboser \<Rightarrow> FatPacket \<Rightarrow> string option option" where
  "Ipv4TcpFatPacket_to_packet_friendly_view vb fp =
     packet_text (Ipv4PacketLE_to_net_friendly_view vb (fat_net fp))
       (TcpPacketLE_to_transport_friendly_view vb (fat_transport fp)) (DataPacketLE_to_data_friendly_view (fat_payload fp))"

definition Ipv4UdpFatPacket_to_packet_friendly_view :: "QVPNVerboser \<Rightarrow> FatPacket \<Rightarrow> string option option" where
  "Ipv4UdpFatPacket_to_packet_friendly_view vb fp =
     packet_text (Ipv4PacketLE_to_net_friendly_view vb (fat_net fp))
       (Some (UdpPacketLE_to_transport_friendly_view (fat_transport fp))) (DataPacketLE_to_data_friendly_view (fat_payload fp))"

definition Ipv4TcpPacket_View_to_packet_friendly_view ::
    "QVPNVerboser \<Rightarrow> Ipv4TcpPacket_View \<Rightarrow> mem \<Rightarrow> string option option" where
  "Ipv4TcpPacket_View_to_packet_friendly_view vb v m =
     packet_text (Ipv4PacketView_to_net_friendly_view vb (tcpv_net v) m)
       (TcpPacketView_to_transport_friendly_view vb (tcpv_transport v) m)
       (DataPacketView_to_data_friendly_view (tcpv_payload v))"

definition Ipv4UdpPacket_View_to_packet_friendly_view ::
    "QVPNVerboser \<Rightarrow> Ipv4UdpPacket_View \<Rightarrow> mem \<Rightarrow> string option option" where
  "Ipv4UdpPacket_View_to_packet_friendly_view vb v m =
     packet_text (Ipv4PacketView_to_net_friendly_view vb (udpv_net v) m)
       (Some (UdpPacketView_to_transport_friendly_view (udpv_transport v) m))
       (DataPacketView_to_data_friendly_view (udpv_payload v))"

definition Ipv4TcpPacket_to_packet_friendly_view :: "QVPNVerboser \<Rightarrow> Ipv4TcpPacket \<Rightarrow> string option option" where
  "Ipv4TcpPacket_to_packet_friendly_view vb fp =
     Ipv4TcpPacket_View_to_packet_friendly_view vb (tcpo_views fp) (tcpo_data fp)"

definition Ipv4UdpPacket_to_packet_friendly_view :: "QVPNVerboser \<Rightarrow> Ipv4UdpPacket \<Rightarrow> string option option" where
  "Ipv4UdpPacket_to_packet_friendly_view vb fp =
     Ipv4UdpPacket_View_to_packet_friendly_view vb (udpo_views fp) (udpo_data fp)"

definition DummyFullPacket_to_packet_friendly_view :: string where
  "DummyFullPacket_to_packet_friendly_view =
     [CHR ''T'', CHR ''h'', CHR ''a'', CHR ''t'', CHR 0x60] @ ''s a dummy packet. If you see this, you doing something wrong.''"

fun visit_to_packet_friendly_view :: "QVPNVerboser \<Rightarrow> mem \<Rightarrow> FullPacketType \<Rightarrow> string option option" where
  "visit_to_packet_friendly_view vb m (TcpPacketOf v) = Ipv4TcpPacket_View_to_packet_friendly_view vb v m"
| "visit_to_packet_friendly_view vb m (UdpPacketOf v) = Ipv4UdpPacket_View_to_packet_friendly_view vb v m"
| "visit_to_packet_friendly_view vb m DummyPacket = Some (Some DummyFullPacket_to_packet_friendly_view)"

text \<open>Writing a text to \<open>std::cout\<close>.  The output is not kept; what the statement does otherwise is to need the text, which is
  \<open>None\<close> when there is none to write.\<close>

definition printed :: "string option option \<Rightarrow> unit option" where
  "printed txt = (case txt of Some (Some _) \<Rightarrow> Some () | _ \<Rightarrow> None)"

text \<open>Packets without a network header show the transport header only.\<close>

definition line_of :: "string option option \<Rightarrow> string option option" where
  "line_of transport = map_option (map_option (\<lambda>t. t @ endl)) transport"

definition NoNetPacketTcpFatObject_to_packet_friendly_view :: "QVPNVerboser \<Rightarrow> FatNoNetPacket \<Rightarrow> string option option" where
  "NoNetPacketTcpFatObject_to_packet_friendly_view vb np =
     line_of (TcpPacketLE_to_transport_friendly_view vb (fatn_transport np))"
definition NoNetPacketUdpFatObject_to_packet_friendly_view :: "FatNoNetPacket \<Rightarrow> string option option" where
  "NoNetPacketUdpFatObject_to_packet_friendly_view np =
     line_of (Some (UdpPacketLE_to_transport_friendly_view (fatn_transport np)))"
definition NoNetPacketTcpView_to_packet_friendly_view ::
    "QVPNVerboser \<Rightarrow> NoNetPacketTcpView \<Rightarrow> mem \<Rightarrow> string option option" where
  "NoNetPacketTcpView_to_packet_friendly_view vb v m =
     line_of (TcpPacketView_to_transport_friendly_view vb (tcpnv_transport v) m)"
definition NoNetPacketUdpView_to_packet_friendly_view :: "NoNetPacketUdpView \<Rightarrow> mem \<Rightarrow> string option option" where
  "NoNetPacketUdpView_to_packet_friendly_view v m =
     line_of (Some (UdpPacketView_to_transport_friendly_view (udpnv_transport v) m))"
definition NoNetPacketTcpObject_to_packet_friendly_view :: "QVPNVerboser \<Rightarrow> NoNetPacketTcpObject \<Rightarrow> string option option" where
  "NoNetPacketTcpObject_to_packet_friendly_view vb np =
     NoNetPacketTcpView_to_packet_friendly_view vb (tcpno_views np) (tcpno_data np)"
definition NoNetPacketUdpObject_to_packet_friendly_view :: "NoNetPacketUdpObject \<Rightarrow> string option option" where
  "NoNetPacketUdpObject_to_packet_friendly_view np =
     NoNetPacketUdpView_to_packet_friendly_view (udpno_views np) (udpno_data np)"
definition NoNetDummyPacket_to_packet_friendly_view :: string where
  "NoNetDummyPacket_to_packet_friendly_view = ''This is a dummy packet. If you see this, you do something wrong.'' @ endl"

section \<open>Settings\<close>

definition layer_line :: "string \<Rightarrow> LayerWrapper \<Rightarrow> string" where
  "layer_line off l = LayerWrapper_get_layer_name l @ '': '' @ LayerWrapper_get_layer_desc l @ '' '' @
     (if LayerWrapper_is_active l then ''Layer is ON'' else off) @ endl"

definition DefaultLayersStrategy_get_layers_info :: "LayerWrapper list \<Rightarrow> string" where
  "DefaultLayersStrategy_get_layers_info layers = concat (map (layer_line ''Layer is OFF'') layers)"

definition QVPNLayersSettings_get_layers_info :: "QVPNLayersSettings \<Rightarrow> string" where
  "QVPNLayersSettings_get_layers_info layers =
     ''Layers info:'' @ endl @ concat (map (layer_line ''Layers is OFF'') layers)"

definition QVPNConnectionEntity_to_string :: "QVPNConnectionEntity \<Rightarrow> string" where
  "QVPNConnectionEntity_to_string e = NetAddr_to_string (ce_addr e) @ '':'' @ dec (ce_port e)"

definition QVPNClientConnectionSettings_get_connection_info :: "QVPNVerboser \<Rightarrow> QVPNClientConnectionSettings \<Rightarrow> string option" where
  "QVPNClientConnectionSettings_get_connection_info vb s = do {
     let addr = QVPNConnectionEntity_get_ip_address s;
     let t_proto = QVPNConnectionEntity_get_transport_proto s;
     let port = QVPNConnectionEntity_get_port s;
     mode \<leftarrow> QVPNVerboser_client_mode_verbose (QVPNConnectionEntity_get_work_mode s);
     Some (''Connection info:'' @ endl @ ''Work mode: '' @ mode @ endl @
       ''Net protocol: '' @ QVPNVerboser_net_verbose (vb_net vb) (NetAddr_get_addr_family addr) @
       '' Transport protocol: '' @ QVPNVerboser_transport_verbose (vb_transport vb) t_proto @ endl @
       ''Server addr: '' @ NetAddr_to_string addr @ '':'' @ dec port @ endl) }"

definition QVPNClientCryptoSettings_get_crypto_info :: "QVPNClientCryptoSettings \<Rightarrow> string option" where
  "QVPNClientCryptoSettings_get_crypto_info s = do {
     mode \<leftarrow> QVPNVerboser_crypto_mode_verbose (QVPNClientCryptoSettings_get_crypto_method s);
     Some (''Crypto info:'' @ endl @ mode @ endl) }"

definition QVPNClientAuthSettings_get_auth_info :: "QVPNClientAuthSettings \<Rightarrow> string" where
  "QVPNClientAuthSettings_get_auth_info s = ''Authentication data:'' @ endl @ map (char_of \<circ> unat) s @ endl"

definition star_line :: string where "star_line = replicate 115 (CHR ''*'') @ endl"

definition QVPNClientSettings_get_client_settings_info ::
    "QVPNVerboser \<Rightarrow> QVPNLayersSettings \<Rightarrow> QVPNClientConnectionSettings \<Rightarrow> QVPNClientCryptoSettings \<Rightarrow>
     QVPNClientAuthSettings \<Rightarrow> string option" where
  "QVPNClientSettings_get_client_settings_info vb layers connection crypto auth = do {
     con_info \<leftarrow> QVPNClientConnectionSettings_get_connection_info vb connection;
     crypto_info \<leftarrow> QVPNClientCryptoSettings_get_crypto_info crypto;
     Some (star_line @ star_line @ ''QVPN Client App Info'' @ endl @ QVPNLayersSettings_get_layers_info layers @ endl @
       con_info @ endl @ crypto_info @ endl @ QVPNClientAuthSettings_get_auth_info auth @ endl @ star_line @ star_line) }"

definition QVPNServerConnectionSettings_get_addrs_info :: "QVPNVerboser \<Rightarrow> QVPNServerConnectionSettings \<Rightarrow> string" where
  "QVPNServerConnectionSettings_get_addrs_info vb data =
     ''Listens on:'' @ endl @ concat (map (\<lambda>e. QVPNVerboser_net_verbose (vb_net vb) (QVPNConnectionEntity_get_net_proto e) @ '' '' @
       QVPNVerboser_transport_verbose (vb_transport vb) (QVPNConnectionEntity_get_transport_proto e) @ '' '' @
       QVPNConnectionEntity_to_string e @ endl) data)"

fun crypto_lines :: "QVPN_Crypto list \<Rightarrow> string option" where
  "crypto_lines [] = Some []"
| "crypto_lines (c # cs) = do {
     mode \<leftarrow> QVPNVerboser_crypto_mode_verbose c;
     rest \<leftarrow> crypto_lines cs;
     Some (mode @ endl @ rest) }"

definition QVPNServerCryptoSettings_get_supported_crypto_info :: "QVPNServerCryptoSettings \<Rightarrow> string option" where
  "QVPNServerCryptoSettings_get_supported_crypto_info data =
     map_option (\<lambda>ls. ''Supported crypto methods: '' @ endl @ ls) (crypto_lines data)"

definition QVPNServerSettings_get_server_settings_info ::
    "QVPNVerboser \<Rightarrow> QVPNLayersSettings \<Rightarrow> QVPNServerCryptoSettings \<Rightarrow> QVPNServerConnectionSettings \<Rightarrow> string option" where
  "QVPNServerSettings_get_server_settings_info vb layers crypto addrs = do {
     crypto_info \<leftarrow> QVPNServerCryptoSettings_get_supported_crypto_info crypto;
     Some (star_line @ star_line @ ''QVPN Server App Info:'' @ endl @ QVPNLayersSettings_get_layers_info layers @ endl @
       crypto_info @ endl @ QVPNServerConnectionSettings_get_addrs_info vb addrs @ endl @ star_line @ star_line) }"

section \<open>What the texts survive\<close>

text \<open>The fixed part of a header has a text when the header lies in the memory.\<close>

lemma rd_inside: "i < length m \<Longrightarrow> \<exists>x. rd m i = Some x"
  by (simp add: rd_def)

lemma ipv4_text_inside:
  assumes "ip4_header v + 20 \<le> length m"
  shows "\<exists>txt. Ipv4PacketView_to_net_friendly_view vb v m = Some txt"
  using assms by (simp add: Ipv4PacketView_to_net_friendly_view_def Ipv4PacketView_ip_friendly_view_def
      Ipv4PacketView_get_src_addr_def Ipv4PacketView_get_dst_addr_def Ipv4PacketView_get_ip_version_def
      Ipv4PacketView_get_ip_header_length_def Ipv4PacketView_get_ip_dscp_def Ipv4PacketView_get_ip_ecn_def
      Ipv4PacketView_get_ip_total_length_def Ipv4PacketView_get_ip_id_def Ipv4PacketView_get_ip_flags_def
      Ipv4PacketView_get_ip_offset_def Ipv4PacketView_get_ip_ttl_def Ipv4PacketView_get_ip_protocol_def
      Ipv4PacketView_get_ip_checksum_def rd_def rd16_def rd_range_def)

lemma tcp_text_inside:
  assumes "tcp_header v + 20 \<le> length m"
  shows "\<exists>txt. TcpPacketView_fixed_text v m = Some txt"
  using assms by (simp add: TcpPacketView_fixed_text_def TcpPacketView_get_tcp_src_port_def TcpPacketView_get_tcp_dst_port_def
      TcpPacketView_get_tcp_seq_number_def TcpPacketView_get_tcp_ack_number_def TcpPacketView_get_tcp_header_length_def
      TcpPacketView_get_tcp_reserved_def TcpPacketView_get_tcp_flags_def TcpPacketView_get_tcp_window_size_def
      TcpPacketView_get_tcp_checksum_def TcpPacketView_get_tcp_urgent_pointer_def rd_def rd16_def rd32_def)

lemma udp_text_inside:
  assumes "udp_header v + 8 \<le> length m"
  shows "\<exists>txt. UdpPacketView_to_transport_friendly_view v m = Some txt"
  using assms by (simp add: UdpPacketView_to_transport_friendly_view_def UdpPacketView_to_udp_friendly_view_def
      UdpPacketView_get_udp_src_port_def UdpPacketView_get_udp_dst_port_def UdpPacketView_get_udp_length_def
      UdpPacketView_get_udp_checksum_def rd_def rd16_def)

text \<open>The text of a packet is that of its options with the rest around it.\<close>

lemma tcp_packet_text:
  assumes "ip4_header (tcpv_net v) + 20 \<le> length m" "tcp_header (tcpv_transport v) + 20 \<le> length m"
    and "TcpPacketView_get_tcp_options (tcpv_transport v) = (opt_b, opt_e)"
  shows "\<exists>before after. Ipv4TcpPacket_View_to_packet_friendly_view vb v m =
    map_option (map_option (\<lambda>options. before @ options @ after)) (TcpOptionsView_range_friendly_view (vb_options vb) m opt_b opt_e)"
proof -
  obtain n t where nt: "Ipv4PacketView_to_net_friendly_view vb (tcpv_net v) m = Some n"
    "TcpPacketView_fixed_text (tcpv_transport v) m = Some t"
    using ipv4_text_inside [OF assms(1)] tcp_text_inside [OF assms(2)] by blast
  show ?thesis
    by (intro exI [of _ "n @ t @ ''Options: ''"]
        exI [of _ "endl @ endl @ DataPacketView_to_data_friendly_view (tcpv_payload v) @ endl"])
      (simp add: Ipv4TcpPacket_View_to_packet_friendly_view_def packet_text_def TcpPacketView_to_transport_friendly_view_def
        TcpPacketView_to_tcp_friendly_view_def nt assms(3) option.map_comp comp_def)
qed

text \<open>A packet with a plain IPv4 header whose TCP options are well-formed is printed, one with a length of zero among its
  options never is.\<close>

lemma printed_simps [simp]: "printed None = None" "printed (Some None) = None" "printed (Some (Some txt)) = Some ()"
  by (simp_all add: printed_def)

definition plain_tcp_view :: "nat \<Rightarrow> Ipv4TcpPacket_View \<Rightarrow> bool" where
  "plain_tcp_view k v \<longleftrightarrow> tcpv_net v = \<lparr> ip4_header = 0, ip4_additional_header = 20, ip4_add_header_size = 0 \<rparr> \<and>
     tcpv_transport v = \<lparr> tcp_header = 20, tcp_options = 40, tcp_options_size = 4 * (int k - 5) \<rparr>"

lemma tcp_view_text:
  assumes "plain_tcp_view k v" "5 \<le> k" "20 + 4 * k \<le> length m"
  shows "\<exists>before after. Ipv4TcpPacket_View_to_packet_friendly_view vb v m =
    map_option (map_option (\<lambda>options. before @ options @ after))
      (TcpOptionsView_range_friendly_view (vb_options vb) m 40 (40 + (4 * k - 20)))"
proof -
  have "40 + 4 * (int k - 5) = int (40 + (4 * k - 20))" using assms(2) by (simp add: of_nat_diff)
  then have "nat (40 + 4 * (int k - 5)) = 40 + (4 * k - 20)" by (simp only: nat_int)
  then have "TcpPacketView_get_tcp_options (tcpv_transport v) = (40, 40 + (4 * k - 20))"
    by (simp add: TcpPacketView_get_tcp_options_def assms(1) [unfolded plain_tcp_view_def])
  then show ?thesis using assms by (intro tcp_packet_text) (simp_all add: plain_tcp_view_def)
qed

lemma tcp_view_printed:
  assumes "plain_tcp_view k v" "5 \<le> k" "20 + 4 * k \<le> length m" "options_ok (mslice m 40 (4 * k - 20))"
  shows "printed (Ipv4TcpPacket_View_to_packet_friendly_view vb v m) = Some ()"
  using tcp_view_text [OF assms(1-3), of vb] options_text_returns [OF assms(4), of "vb_options vb"] assms(2,3) by auto

lemma tcp_view_never_printed:
  assumes "plain_tcp_view k v" "5 \<le> k" "20 + 4 * k \<le> length m"
    and "\<forall>x\<in>set xs. item_ok x" "mslice m 40 (4 * k - 20) = items_bytes xs @ [kind, 0] @ rest" "1 < kind"
  shows "printed (Ipv4TcpPacket_View_to_packet_friendly_view vb v m) = None"
proof -
  let ?i = "length (items_bytes xs)" and ?M = "take 40 m @ items_bytes xs @ kind # 0 # rest @ drop (20 + 4 * k) m"
  have "take 40 m @ mslice m 40 (4 * k - 20) @ drop (40 + (4 * k - 20)) m = m"
    by (metis append_take_drop_id mslice_def drop_drop add.commute)
  moreover have "40 + (4 * k - 20) = 20 + 4 * k" using assms(2) by simp
  ultimately have m: "?M = m" by (simp add: assms(5))
  have b: "length (take 40 m) = 40" using assms(2,3) by simp
  have i: "?i < 4 * k - 20" using arg_cong [OF assms(5), of length] assms(2,3) by simp
  have "zero_length_at ?M (40 + ?i)"
    using b assms(6) by (auto simp: zero_length_at_def rd_def nth_append)
  then have "options_text_loop (vb_options vb) m 40 (4 * k - 20) ?i ss = None" for ss
    using options_loop_diverges [OF i] m by simp
  moreover have "options_text_loop (vb_options vb) m 40 (4 * k - 20) 0 [] =
      options_text_loop (vb_options vb) m 40 (4 * k - 20) ?i (items_text (vb_options vb) xs)"
    using options_walk [OF assms(4), of 40 0 "take 40 m" "4 * k - 20" "vb_options vb"
      "kind # 0 # rest @ drop (20 + 4 * k) m" "[]"] b i by (simp add: m)
  ultimately show ?thesis
    using tcp_view_text [OF assms(1-3), of vb] by (auto simp: TcpOptionsView_range_friendly_view_def range_size_def)
qed

text \<open>A client whose mode is behind the table of names reads outside of it when it prints its settings, which it does
  when it starts.\<close>

lemma client_settings_text_undefined:
  "5 \<le> ce_mode con \<Longrightarrow> QVPNClientSettings_get_client_settings_info vb layers con crypto auth = None"
  by (simp add: QVPNClientSettings_get_client_settings_info_def QVPNClientConnectionSettings_get_connection_info_def
      QVPNConnectionEntity_get_work_mode_def QVPNVerboser_client_mode_verbose_def rd_def client_work_modes_def)

text \<open>The flag for more fragments is the lowest bit, whose name in the table is that of the reserved bit.\<close>

lemma more_fragments_printed_reserved:
  "rd m (ip4_header v + 6) = Some 0x20 \<Longrightarrow> Ipv4PacketView_get_ip_mf_flag v m = Some 1 \<and>
    map_option QVPNVerboser_ipv4_flags (Ipv4PacketView_get_ip_flags v m) = Some ''[RESERVED]''"
  by (simp add: Ipv4PacketView_get_ip_mf_flag_def Ipv4PacketView_get_ip_flags_def QVPNVerboser_ipv4_flags_def
      ipv4_flag_names_def close_bracket_def upt_rec)

section \<open>Properties\<close>

text \<open>C31: the text of a captured packet. Server and client print the text of every TCP packet before they send it on. When
  its headers lie in the memory and its options are well-formed, the text exists and names the options in order. But an
  option of another kind whose length byte is zero, which any sender can put into a packet, keeps the function in its
  loop for ever, and with it the thread that reads replies or captures packets.\<close>

theorem packet_text_outcome:
  assumes "\<forall>x\<in>set xs. item_ok x" "k \<noteq> TCPOptions_TCP_EOL" "k \<noteq> TCPOptions_TCP_NOP"
    and "ip4_header (tcpv_net v) + 20 \<le> length pre" "tcp_header (tcpv_transport v) + 20 \<le> length pre"
    and "tcp_options (tcpv_transport v) = length pre"
  shows "(tcp_options_size (tcpv_transport v) = int (length (items_bytes xs)) \<longrightarrow>
      (\<exists>before after. Ipv4TcpPacket_View_to_packet_friendly_view vb v (pre @ items_bytes xs @ rest) =
         Some (Some (before @ cut_comma (items_text (vb_options vb) xs) @ after)))) \<and>
    (tcp_options_size (tcpv_transport v) = int (length (items_bytes xs) + Suc n) \<longrightarrow>
      Ipv4TcpPacket_View_to_packet_friendly_view vb v (pre @ items_bytes xs @ [k, 0] @ rest) = None)"
proof (intro conjI impI)
  note outcome = options_text_outcome [OF assms(1-3)]
  show "\<exists>before after. Ipv4TcpPacket_View_to_packet_friendly_view vb v (pre @ items_bytes xs @ rest) =
      Some (Some (before @ cut_comma (items_text (vb_options vb) xs) @ after))"
    if "tcp_options_size (tcpv_transport v) = int (length (items_bytes xs))"
    using tcp_packet_text [of v "pre @ items_bytes xs @ rest" "length pre" "length pre + length (items_bytes xs)" vb]
      outcome [of "vb_options vb" pre rest] that assms(4-6) by (auto simp: TcpPacketView_get_tcp_options_def)
  show "Ipv4TcpPacket_View_to_packet_friendly_view vb v (pre @ items_bytes xs @ [k, 0] @ rest) = None"
    if "tcp_options_size (tcpv_transport v) = int (length (items_bytes xs) + Suc n)"
    using tcp_packet_text [of v "pre @ items_bytes xs @ [k, 0] @ rest" "length pre"
        "length pre + length (items_bytes xs) + Suc n" vb]
      outcome [of "vb_options vb" pre rest n] that assms(4-6)
    by (auto simp: TcpPacketView_get_tcp_options_def nat_add_distrib)
qed

theorem packet_text_outcome_witness:
  "Ipv4TcpPacket_View_to_packet_friendly_view
      \<lparr> vb_net = default_net_names, vb_transport = default_transport_names, vb_options = sample_names, vb_addrs = Map.empty \<rparr>
      \<lparr> tcpv_net = \<lparr> ip4_header = 0, ip4_additional_header = 20, ip4_add_header_size = 0 \<rparr>,
        tcpv_transport = \<lparr> tcp_header = 20, tcp_options = 40, tcp_options_size = 4 \<rparr>,
        tcpv_payload = \<lparr> dp_data = 44, dp_size = 0 \<rparr> \<rparr>
      (replicate 40 0 @ items_bytes [Pad 1] @ [8, 0] @ [0]) = None"
  by (rule packet_text_outcome [where n = 2, THEN conjunct2, THEN mp])
    (simp_all add: option_kind_defs items_bytes_def)

end
