(* ===== verification/Sockets.thy ===== *)
theory Sockets
  imports SafeReceive SocketFilter "HOL-Library.Signed_Division"
begin

text \<open>The sockets of the Linux build: \<open>QVPN_Socket\<close>, \<open>QVPN_RawSocket\<close>, \<open>QVPNMetaSocketData\<close>, \<open>QVPNNetTools\<close> and their
  helpers (\<open>qvpn_net_tools.hpp/.cpp\<close>).  The operating system is a parameter: a record of the system calls the code
  makes, each a function of a state of the world of any type.  Messages on the console are left out.  \<open>recv_from\<close> is left
  out too: no code uses it, and its template cannot be instantiated.\<close>

section \<open>System calls\<close>

text \<open>An address structure as it lies in memory: the port in network order, the address byte by byte.\<close>

record sockaddr =
  sa_family :: int
  sa_port :: UShort
  sa_addr :: bytes

text \<open>Results come with the value of \<open>errno\<close> where the code reads it.  An option value is a list of integers.  The last
  call stands for the calls to the BPF library that load the filter program and store a key in its map.\<close>

record 'w sys =
  sys_socket :: "int \<Rightarrow> int \<Rightarrow> int \<Rightarrow> 'w \<Rightarrow> int \<times> 'w"
  sys_connect :: "int \<Rightarrow> sockaddr \<Rightarrow> 'w \<Rightarrow> (int \<times> int) \<times> 'w"
  sys_bind :: "int \<Rightarrow> sockaddr \<Rightarrow> 'w \<Rightarrow> (int \<times> int) \<times> 'w"
  sys_listen :: "int \<Rightarrow> int \<Rightarrow> 'w \<Rightarrow> int \<times> 'w"
  sys_accept :: "int \<Rightarrow> 'w \<Rightarrow> (int \<times> sockaddr) \<times> 'w"
  sys_getsockname :: "int \<Rightarrow> 'w \<Rightarrow> sockaddr"
  sys_getpeername :: "int \<Rightarrow> 'w \<Rightarrow> int \<times> sockaddr"
  sys_send :: "int \<Rightarrow> bytes \<Rightarrow> int \<Rightarrow> 'w \<Rightarrow> (int \<times> int) \<times> 'w"
  sys_recv :: "int \<Rightarrow> int \<Rightarrow> 'w \<Rightarrow> (int \<times> int \<times> bytes) \<times> 'w"
  sys_sendto :: "int \<Rightarrow> bytes \<Rightarrow> int \<Rightarrow> sockaddr \<Rightarrow> 'w \<Rightarrow> (int \<times> int) \<times> 'w"
  sys_shutdown :: "int \<Rightarrow> int \<Rightarrow> 'w \<Rightarrow> int \<times> 'w"
  sys_close :: "int \<Rightarrow> 'w \<Rightarrow> 'w"
  sys_setsockopt :: "int \<Rightarrow> int \<Rightarrow> int \<Rightarrow> int list \<Rightarrow> 'w \<Rightarrow> (int \<times> int) \<times> 'w"
  sys_load_filter :: "filter_key \<Rightarrow> bool \<Rightarrow> 'w \<Rightarrow> int \<times> 'w"

text \<open>Constants of the system headers.\<close>

definition AF_INET :: int where "AF_INET = 2"
definition AF_INET6 :: int where "AF_INET6 = 10"
definition SOCK_STREAM :: int where "SOCK_STREAM = 1"
definition SOCK_DGRAM :: int where "SOCK_DGRAM = 2"
definition SOCK_RAW :: int where "SOCK_RAW = 3"
definition IPPROTO_IP :: int where "IPPROTO_IP = 0"
definition IPPROTO_TCP :: int where "IPPROTO_TCP = 6"
definition IPPROTO_UDP :: int where "IPPROTO_UDP = 17"
definition SHUT_WR :: int where "SHUT_WR = 1"
definition SOMAXCONN :: int where "SOMAXCONN = 4096"
definition SOL_SOCKET :: int where "SOL_SOCKET = 1"
definition SO_RCVTIMEO :: int where "SO_RCVTIMEO = 20"
definition SO_ATTACH_BPF :: int where "SO_ATTACH_BPF = 50"
definition IP_HDRINCL :: int where "IP_HDRINCL = 3"
definition SOL_TCP :: int where "SOL_TCP = 6"
definition TCP_REPAIR :: int where "TCP_REPAIR = 19"
definition TCP_REPAIR_QUEUE :: int where "TCP_REPAIR_QUEUE = 20"
definition TCP_QUEUE_SEQ :: int where "TCP_QUEUE_SEQ = 21"
definition TCP_RECV_QUEUE :: int where "TCP_RECV_QUEUE = 1"
definition TCP_SEND_QUEUE :: int where "TCP_SEND_QUEUE = 2"
definition TCP_ESTABLISHED :: int where "TCP_ESTABLISHED = 1"

definition le32_bytes :: "UInt \<Rightarrow> bytes" where
  "le32_bytes x = [byte_of 0 x, byte_of 8 x, byte_of 16 x, byte_of 24 x]"
definition ntohs :: "UShort \<Rightarrow> UShort" where "ntohs x = htons x"
definition ntohl :: "UInt \<Rightarrow> UInt" where "ntohl x = htonl x"

section \<open>Meta data and settings\<close>

text \<open>The tables are hash maps read with \<open>operator[]\<close>, which gives zero for a missing key.\<close>

definition QVPNMetaSocketData_get_socket_family :: "NetProtocol \<Rightarrow> int" where
  "QVPNMetaSocketData_get_socket_family p =
     (if p = NetProtocol_IPv4 then AF_INET else if p = NetProtocol_IPv6 then AF_INET6 else 0)"

definition QVPNMetaSocketData_get_socket_type :: "TransportProtocol \<Rightarrow> int" where
  "QVPNMetaSocketData_get_socket_type p =
     (if p = TransportProtocol_TCP then SOCK_STREAM else if p = TransportProtocol_UDP then SOCK_DGRAM else 0)"

definition QVPNMetaSocketData_get_socket_proto :: "TransportProtocol \<Rightarrow> int" where
  "QVPNMetaSocketData_get_socket_proto p =
     (if p = TransportProtocol_TCP then IPPROTO_TCP else if p = TransportProtocol_UDP then IPPROTO_UDP else 0)"

definition QVPNMetaSocketData_get_raw_socket_type :: "TransportProtocol \<Rightarrow> int" where
  "QVPNMetaSocketData_get_raw_socket_type p =
     (if p = TransportProtocol_TCP \<or> p = TransportProtocol_UDP then SOCK_RAW else 0)"

definition QVPNMetaSocketData_get_raw_socket_proto :: "TransportProtocol \<Rightarrow> int" where
  "QVPNMetaSocketData_get_raw_socket_proto p =
     (if p = TransportProtocol_TCP then IPPROTO_TCP else if p = TransportProtocol_UDP then IPPROTO_UDP else 0)"

record QVPNSocketSettings =
  qss_ip_header :: bool
  qss_recv_timeout :: int

definition QVPNSocketSettings_of :: "bool \<Rightarrow> int \<Rightarrow> QVPNSocketSettings" where
  "QVPNSocketSettings_of ip_data receive_timeout_ms =
     \<lparr> qss_ip_header = ip_data, qss_recv_timeout = receive_timeout_ms \<rparr>"

definition QVPNSocketSettings_ip_header :: "QVPNSocketSettings \<Rightarrow> bool" where
  "QVPNSocketSettings_ip_header s = qss_ip_header s"

definition QVPNSocketSettings_receive_timeout_ms :: "QVPNSocketSettings \<Rightarrow> int" where
  "QVPNSocketSettings_receive_timeout_ms s = qss_recv_timeout s"

section \<open>Connecting and binding\<close>

record NetData =
  nd_success :: bool
  nd_status :: int
  nd_addr :: NetAddr
  nd_port :: UShort

definition qvpn_connect_ipv4 :: "'w sys \<Rightarrow> int \<Rightarrow> IPv4Address \<Rightarrow> UShort \<Rightarrow> 'w \<Rightarrow> (NetData \<times> 'w) option" where
  "qvpn_connect_ipv4 sys sock addr port w = do {
     let serverAddr = \<lparr> sa_family = AF_INET, sa_port = htons port,
       sa_addr = le32_bytes (htonl (IPv4Address_to_uint addr)) \<rparr>;
     let ((res, errno), w) = sys_connect sys sock serverAddr w;
     let err = (if res = -1 then errno else 0);
     let localAddr = sys_getsockname sys sock w;
     net_addr \<leftarrow> rd_range (sa_addr localAddr) 0 (IPv4Address_get_addr_size addr);
     Some (\<lparr> nd_success = (res = 0), nd_status = err, nd_addr = net_addr, nd_port = ntohs (sa_port localAddr) \<rparr>, w) }"

definition qvpn_connect_ipv6 :: "'w sys \<Rightarrow> int \<Rightarrow> IPv6Address \<Rightarrow> UShort \<Rightarrow> 'w \<Rightarrow> (NetData \<times> 'w) option" where
  "qvpn_connect_ipv6 sys sock addr port w = do {
     let serverAddr = \<lparr> sa_family = AF_INET6, sa_port = htons port, sa_addr = IPv6Address_to_bytes addr \<rparr>;
     let ((res, errno), w) = sys_connect sys sock serverAddr w;
     let localAddr = sys_getsockname sys sock w;
     net_addr \<leftarrow> rd_range (sa_addr localAddr) 0 (IPv6Address_get_addr_size addr);
     let err = (if res = -1 then errno else 0);
     Some (\<lparr> nd_success = (res = 0), nd_status = err, nd_addr = net_addr, nd_port = port \<rparr>, w) }"

definition qvpn_connect_addr :: "'w sys \<Rightarrow> int \<Rightarrow> NetAddr \<Rightarrow> UShort \<Rightarrow> 'w \<Rightarrow> (NetData \<times> 'w) option" where
  "qvpn_connect_addr sys sock addr port w =
     (let addr_family = NetAddr_get_addr_family addr in
      if addr_family = NetProtocol_IPv4 then do { a \<leftarrow> NetAddr_to_ipv4 addr; qvpn_connect_ipv4 sys sock a port w }
      else if addr_family = NetProtocol_IPv6 then do { a \<leftarrow> NetAddr_to_ipv6 addr; qvpn_connect_ipv6 sys sock a port w }
      else Some (\<lparr> nd_success = False, nd_status = 0, nd_addr = NetAddr_default, nd_port = 0 \<rparr>, w))"

text \<open>The length given to \<open>getsockname\<close> is four, so that family and port are filled in and the address stays the one that
  was asked for.\<close>

definition qvpn_bind_ipv4 :: "'w sys \<Rightarrow> int \<Rightarrow> IPv4Address \<Rightarrow> UShort \<Rightarrow> 'w \<Rightarrow> (NetData \<times> 'w) option" where
  "qvpn_bind_ipv4 sys sock addr port w = do {
     let serverAddr = \<lparr> sa_family = AF_INET, sa_port = htons port,
       sa_addr = le32_bytes (htonl (IPv4Address_to_uint addr)) \<rparr>;
     let ((res, errno), w) = sys_bind sys sock serverAddr w;
     let err = (if res = -1 then errno else 0);
     let serverAddr = (sys_getsockname sys sock w)\<lparr> sa_addr := sa_addr serverAddr \<rparr>;
     net_addr \<leftarrow> rd_range (sa_addr serverAddr) 0 (IPv4Address_get_addr_size addr);
     Some (\<lparr> nd_success = (res = 0), nd_status = err, nd_addr = net_addr, nd_port = port \<rparr>, w) }"

definition qvpn_bind_ipv6 :: "'w sys \<Rightarrow> int \<Rightarrow> IPv6Address \<Rightarrow> UShort \<Rightarrow> 'w \<Rightarrow> (NetData \<times> 'w) option" where
  "qvpn_bind_ipv6 sys sock addr port w = do {
     let serverAddr = \<lparr> sa_family = AF_INET6, sa_port = htons port, sa_addr = IPv6Address_to_bytes addr \<rparr>;
     let ((res, errno), w) = sys_bind sys sock serverAddr w;
     let err = (if res = -1 then errno else 0);
     let serverAddr = sys_getsockname sys sock w;
     net_addr \<leftarrow> rd_range (sa_addr serverAddr) 0 (IPv6Address_get_addr_size addr);
     Some (\<lparr> nd_success = (res = 0), nd_status = err, nd_addr = net_addr, nd_port = port \<rparr>, w) }"

definition qvpn_bind_addr :: "'w sys \<Rightarrow> int \<Rightarrow> NetAddr \<Rightarrow> UShort \<Rightarrow> 'w \<Rightarrow> (NetData \<times> 'w) option" where
  "qvpn_bind_addr sys sock addr port w =
     (let addr_family = NetAddr_get_addr_family addr in
      if addr_family = NetProtocol_IPv4 then do { a \<leftarrow> NetAddr_to_ipv4 addr; qvpn_bind_ipv4 sys sock a port w }
      else if addr_family = NetProtocol_IPv6 then do { a \<leftarrow> NetAddr_to_ipv6 addr; qvpn_bind_ipv6 sys sock a port w }
      else Some (\<lparr> nd_success = False, nd_status = -1, nd_addr = NetAddr_default, nd_port = 0 \<rparr>, w))"

section \<open>Repairing a connection\<close>

record SocketRepairStatus =
  srs_success :: bool
  srs_status :: int

text \<open>The options are set one after the other; the first that fails ends the function.\<close>

fun setsockopts :: "'w sys \<Rightarrow> int \<Rightarrow> (int \<times> int) list \<Rightarrow> 'w \<Rightarrow> SocketRepairStatus option \<times> 'w" where
  "setsockopts sys sock [] w = (None, w)"
| "setsockopts sys sock ((opt, val) # opts) w =
     (let ((r, errno), w) = sys_setsockopt sys sock SOL_TCP opt [val] w in
      if r < 0 then (Some \<lparr> srs_success = False, srs_status = errno \<rparr>, w) else setsockopts sys sock opts w)"

definition SocketAppendToConnection_TCP ::
    "'w sys \<Rightarrow> int \<Rightarrow> QVPNSocketData \<Rightarrow> UInt \<Rightarrow> UInt \<Rightarrow> 'w \<Rightarrow> (SocketRepairStatus \<times> 'w) option" where
  "SocketAppendToConnection_TCP sys sock connection_data local_isn remote_isn w =
     (let (failed, w) = setsockopts sys sock
        [(TCP_REPAIR, 1), (TCP_REPAIR_QUEUE, TCP_SEND_QUEUE), (TCP_QUEUE_SEQ, uint (local_isn + 1)),
         (TCP_REPAIR_QUEUE, TCP_RECV_QUEUE), (TCP_QUEUE_SEQ, uint (remote_isn + 1))] w
      in case failed of Some st \<Rightarrow> Some (st, w) | None \<Rightarrow> do {
        (bind_res, w) \<leftarrow> qvpn_bind_addr sys sock (local_addr connection_data) (local_port connection_data) w;
        if \<not> nd_success bind_res then Some (\<lparr> srs_success = False, srs_status = nd_status bind_res \<rparr>, w)
        else do {
          (con_res, w) \<leftarrow> qvpn_connect_addr sys sock (remote_addr connection_data) (remote_port connection_data) w;
          if \<not> nd_success con_res then Some (\<lparr> srs_success = False, srs_status = nd_status con_res \<rparr>, w)
          else case setsockopts sys sock [(TCP_REPAIR, TCP_ESTABLISHED), (TCP_REPAIR, 0)] w of
              (Some st, w) \<Rightarrow> Some (st, w)
            | (None, w) \<Rightarrow> Some (\<lparr> srs_success = True, srs_status = 0 \<rparr>, w) } })"

definition SocketAppendToConnection_UDP :: "SocketRepairStatus" where
  "SocketAppendToConnection_UDP = \<lparr> srs_success = True, srs_status = 0 \<rparr>"

section \<open>Sockets\<close>

text \<open>Both classes have the same members: the descriptor and the data of the connection.\<close>

record QVPN_Socket =
  sock_fd :: int
  sock_data :: QVPNSocketData

type_synonym QVPN_RawSocket = QVPN_Socket

definition QVPNSocketData_default :: QVPNSocketData where
  "QVPNSocketData_default = \<lparr> sd_net_proto = 0, sd_transport_proto = 0, local_addr = NetAddr_default,
     local_port = 0, remote_addr = NetAddr_default, remote_port = 0 \<rparr>"

definition SocketSendTo_ipv4 ::
    "'w sys \<Rightarrow> int \<Rightarrow> NetAddr \<Rightarrow> UShort \<Rightarrow> bytes \<Rightarrow> int \<Rightarrow> 'w \<Rightarrow> (NetStatus \<times> 'w) option" where
  "SocketSendTo_ipv4 sys sock addr port data flags w = do {
     a \<leftarrow> NetAddr_to_uint addr;
     let sock_addr = \<lparr> sa_family = AF_INET, sa_port = htons port, sa_addr = le32_bytes (htonl a) \<rparr>;
     let ((r, errno), w) = sys_sendto sys sock data flags sock_addr w;
     Some (if r \<le> 0 then \<lparr> ns_success = False, ns_status = errno \<rparr> else \<lparr> ns_success = True, ns_status = 0 \<rparr>, w) }"

definition SocketSendTo_ipv6 ::
    "'w sys \<Rightarrow> int \<Rightarrow> NetAddr \<Rightarrow> UShort \<Rightarrow> bytes \<Rightarrow> int \<Rightarrow> 'w \<Rightarrow> NetStatus \<times> 'w" where
  "SocketSendTo_ipv6 sys sock addr port data flags w =
     (let sock_addr = \<lparr> sa_family = AF_INET6, sa_port = htons port, sa_addr = NetAddr_to_bytes addr \<rparr>;
          ((r, errno), w) = sys_sendto sys sock data flags sock_addr w
      in (if r \<le> 0 then \<lparr> ns_success = False, ns_status = errno \<rparr> else \<lparr> ns_success = True, ns_status = 0 \<rparr>, w))"

subsection \<open>Stream sockets\<close>

definition QVPN_Socket_new :: QVPN_Socket where
  "QVPN_Socket_new = \<lparr> sock_fd = 0, sock_data = QVPNSocketData_default \<rparr>"

definition QVPN_Socket_of_params :: "'w sys \<Rightarrow> int \<Rightarrow> int \<Rightarrow> int \<Rightarrow> 'w \<Rightarrow> QVPN_Socket \<times> 'w" where
  "QVPN_Socket_of_params sys sock_family sock_type sock_proto w =
     (let (fd, w) = sys_socket sys sock_family sock_type sock_proto w;
          transport = (if sock_proto = IPPROTO_TCP then TransportProtocol_TCP
            else if sock_proto = IPPROTO_UDP then TransportProtocol_UDP else TransportProtocol_TRANSPORT_UNDEFINED);
          net = (if sock_family = AF_INET then NetProtocol_IPv4
            else if sock_family = AF_INET6 then NetProtocol_IPv6 else NetProtocol_NET_UNDEFINED)
      in (\<lparr> sock_fd = fd, sock_data = QVPNSocketData_default\<lparr> sd_transport_proto := transport, sd_net_proto := net,
            remote_port := 0, local_port := 0 \<rparr> \<rparr>, w))"

definition QVPN_Socket_of_ipv4 ::
    "int \<Rightarrow> IPv4Address \<Rightarrow> UShort \<Rightarrow> IPv4Address \<Rightarrow> UShort \<Rightarrow> TransportProtocol \<Rightarrow> QVPN_Socket" where
  "QVPN_Socket_of_ipv4 sock raddr rport laddr lport t =
     \<lparr> sock_fd = sock, sock_data = \<lparr> sd_net_proto = NetProtocol_IPv4, sd_transport_proto = t,
       local_addr = NetAddr_of_ipv4 laddr, local_port = lport, remote_addr = NetAddr_of_ipv4 raddr,
       remote_port = rport \<rparr> \<rparr>"

definition QVPN_Socket_of_ipv6 ::
    "int \<Rightarrow> IPv6Address \<Rightarrow> UShort \<Rightarrow> IPv6Address \<Rightarrow> UShort \<Rightarrow> TransportProtocol \<Rightarrow> QVPN_Socket" where
  "QVPN_Socket_of_ipv6 sock raddr rport laddr lport t =
     \<lparr> sock_fd = sock, sock_data = \<lparr> sd_net_proto = NetProtocol_IPv6, sd_transport_proto = t,
       local_addr = NetAddr_of_ipv6 laddr, local_port = lport, remote_addr = NetAddr_of_ipv6 raddr,
       remote_port = rport \<rparr> \<rparr>"

definition QVPN_Socket_of_addr ::
    "int \<Rightarrow> NetAddr \<Rightarrow> UShort \<Rightarrow> NetAddr \<Rightarrow> UShort \<Rightarrow> TransportProtocol \<Rightarrow> QVPN_Socket" where
  "QVPN_Socket_of_addr sock raddr rport laddr lport t =
     \<lparr> sock_fd = sock, sock_data = \<lparr> sd_net_proto = NetAddr_get_addr_family raddr, sd_transport_proto = t,
       local_addr = laddr, local_port = lport, remote_addr = raddr, remote_port = rport \<rparr> \<rparr>"

text \<open>Constructors and assignments from another socket, copying or moving: the descriptor and the data are the other's,
  which keeps them.\<close>

definition QVPN_Socket_assign :: "QVPN_Socket \<Rightarrow> QVPN_Socket \<Rightarrow> QVPN_Socket" where
  "QVPN_Socket_assign s other = s\<lparr> sock_fd := sock_fd other, sock_data := sock_data other \<rparr>"

definition QVPN_Socket_is_valid :: "QVPN_Socket \<Rightarrow> bool" where
  "QVPN_Socket_is_valid s = (if sock_fd s < 0 then False else True)"

definition QVPN_Socket_get_socket_data :: "QVPN_Socket \<Rightarrow> QVPNSocketData" where
  "QVPN_Socket_get_socket_data s = sock_data s"

definition QVPN_Socket_connect ::
    "'w sys \<Rightarrow> QVPN_Socket \<Rightarrow> NetAddr \<Rightarrow> UShort \<Rightarrow> 'w \<Rightarrow> ((NetStatus \<times> QVPN_Socket) \<times> 'w) option" where
  "QVPN_Socket_connect sys s addr port w = do {
     (data, w) \<leftarrow> qvpn_connect_addr sys (sock_fd s) addr port w;
     let status = \<lparr> ns_success = nd_success data, ns_status = nd_status data \<rparr>;
     let s = (if ns_success status then s\<lparr> sock_data := (sock_data s)\<lparr>
         sd_net_proto := NetAddr_get_addr_family (nd_addr data), remote_port := port, remote_addr := addr,
         local_port := nd_port data, local_addr := nd_addr data \<rparr> \<rparr> else s);
     Some ((status, s), w) }"

definition QVPN_Socket_bind ::
    "'w sys \<Rightarrow> QVPN_Socket \<Rightarrow> NetAddr \<Rightarrow> UShort \<Rightarrow> 'w \<Rightarrow> ((NetStatus \<times> QVPN_Socket) \<times> 'w) option" where
  "QVPN_Socket_bind sys s addr port w = do {
     (data, w) \<leftarrow> qvpn_bind_addr sys (sock_fd s) addr port w;
     let status = \<lparr> ns_success = nd_success data, ns_status = nd_status data \<rparr>;
     let s = (if ns_success status then s\<lparr> sock_data := (sock_data s)\<lparr>
         sd_net_proto := NetAddr_get_addr_family addr, remote_port := port, remote_addr := addr,
         local_port := nd_port data, local_addr := nd_addr data \<rparr> \<rparr> else s);
     Some ((status, s), w) }"

definition QVPN_Socket_listen :: "'w sys \<Rightarrow> QVPN_Socket \<Rightarrow> int \<Rightarrow> 'w \<Rightarrow> NetStatus \<times> 'w" where
  "QVPN_Socket_listen sys s con_limit w =
     (let (res, w) = sys_listen sys (sock_fd s) con_limit w
      in (\<lparr> ns_success = (res = 0), ns_status = res \<rparr>, w))"

definition QVPN_Socket_send :: "'w sys \<Rightarrow> QVPN_Socket \<Rightarrow> bytes \<Rightarrow> 'w \<Rightarrow> NetStatus \<times> 'w" where
  "QVPN_Socket_send sys s data w =
     (let ((res, errno), w) = sys_send sys (sock_fd s) data 0 w
      in (if res = -1 then \<lparr> ns_success = False, ns_status = errno \<rparr> else \<lparr> ns_success = True, ns_status = 0 \<rparr>, w))"

text \<open>\<open>receive\<close> in the world; \<open>safe_recv\<close> makes one such call in each round of its loop, so its calls see the worlds that
  the earlier calls left.\<close>

definition QVPN_Socket_receive_in :: "'w sys \<Rightarrow> QVPN_Socket \<Rightarrow> 'w \<Rightarrow> ReceiveData \<times> 'w" where
  "QVPN_Socket_receive_in sys s w =
     (let (r, w) = sys_recv sys (sock_fd s) 0 w in (QVPN_Socket_receive r, w))"

definition recv_world :: "'w sys \<Rightarrow> QVPN_Socket \<Rightarrow> 'w \<Rightarrow> nat \<Rightarrow> 'w" where
  "recv_world sys s w k = ((\<lambda>w. snd (sys_recv sys (sock_fd s) 0 w)) ^^ k) w"

definition QVPN_Socket_safe_recv_in ::
    "'w sys \<Rightarrow> bytes_parser \<Rightarrow> QVPN_Socket \<Rightarrow> 'w \<Rightarrow> (SafeReceiveData \<times> 'w) option" where
  "QVPN_Socket_safe_recv_in sys parse s w = do {
     (sr, n) \<leftarrow> QVPN_Socket_safe_recv parse (\<lambda>k. fst (sys_recv sys (sock_fd s) 0 (recv_world sys s w k)));
     Some (sr, recv_world sys s w n) }"

definition QVPN_Socket_disconnect :: "QVPN_Socket \<Rightarrow> NetStatus" where
  "QVPN_Socket_disconnect s = \<lparr> ns_success = True, ns_status = 0 \<rparr>"

definition QVPN_Socket_check_connected :: "'w sys \<Rightarrow> QVPN_Socket \<Rightarrow> 'w \<Rightarrow> bool" where
  "QVPN_Socket_check_connected sys s w = (fst (sys_getpeername sys (sock_fd s) w) = 0)"

text \<open>Nothing is done for a connected socket; the result is the status \<open>disconnect\<close> returned, if it was called.\<close>

definition QVPN_Socket_disconnect_if_connected :: "'w sys \<Rightarrow> QVPN_Socket \<Rightarrow> 'w \<Rightarrow> NetStatus option" where
  "QVPN_Socket_disconnect_if_connected sys s w =
     (if QVPN_Socket_check_connected sys s w then None else Some (QVPN_Socket_disconnect s))"

definition QVPN_Socket_shutdown :: "'w sys \<Rightarrow> QVPN_Socket \<Rightarrow> 'w \<Rightarrow> NetStatus \<times> 'w" where
  "QVPN_Socket_shutdown sys s w =
     (let (res, w) = sys_shutdown sys (sock_fd s) SHUT_WR w
      in (\<lparr> ns_success = (res = 0), ns_status = res \<rparr>, w))"

definition QVPN_Socket_close_socket :: "'w sys \<Rightarrow> QVPN_Socket \<Rightarrow> 'w \<Rightarrow> 'w" where
  "QVPN_Socket_close_socket sys s w = sys_close sys (sock_fd s) w"

definition QVPN_Socket_reconnect ::
    "'w sys \<Rightarrow> QVPN_Socket \<Rightarrow> NetAddr \<Rightarrow> UShort \<Rightarrow> 'w \<Rightarrow> ((NetStatus \<times> QVPN_Socket) \<times> 'w) option" where
  "QVPN_Socket_reconnect sys s addr port w =
     (let (s, w) = (if QVPN_Socket_check_connected sys s w then
          (let w = snd (QVPN_Socket_shutdown sys s w);
               w = QVPN_Socket_close_socket sys s w;
               (fd, w) = sys_socket sys
                 (QVPNMetaSocketData_get_socket_family (NetAddr_get_addr_family (local_addr (sock_data s))))
                 (QVPNMetaSocketData_get_socket_type (sd_transport_proto (sock_data s)))
                 (QVPNMetaSocketData_get_socket_proto (sd_transport_proto (sock_data s))) w
           in (s\<lparr> sock_fd := fd \<rparr>, w)) else (s, w))
      in QVPN_Socket_connect sys s addr port w)"

definition QVPN_Socket_get_local_addr :: "QVPN_Socket \<Rightarrow> NetAddr" where
  "QVPN_Socket_get_local_addr s = local_addr (sock_data s)"

definition QVPN_Socket_get_local_port :: "QVPN_Socket \<Rightarrow> UShort" where
  "QVPN_Socket_get_local_port s = local_port (sock_data s)"

definition QVPN_Socket_get_remote_addr :: "QVPN_Socket \<Rightarrow> NetAddr" where
  "QVPN_Socket_get_remote_addr s = remote_addr (sock_data s)"

definition QVPN_Socket_get_remote_port :: "QVPN_Socket \<Rightarrow> UShort" where
  "QVPN_Socket_get_remote_port s = remote_port (sock_data s)"

definition QVPN_Socket_get_transport_protocol :: "QVPN_Socket \<Rightarrow> TransportProtocol" where
  "QVPN_Socket_get_transport_protocol s = sd_transport_proto (sock_data s)"

definition QVPN_Socket_apply_settings :: "'w sys \<Rightarrow> QVPN_Socket \<Rightarrow> QVPNSocketSettings \<Rightarrow> 'w \<Rightarrow> 'w" where
  "QVPN_Socket_apply_settings sys s settings w =
     (let optval = of_bool (QVPNSocketSettings_ip_header settings);
          w = snd (sys_setsockopt sys (sock_fd s) IPPROTO_IP IP_HDRINCL [optval] w);
          timeout = QVPNSocketSettings_receive_timeout_ms settings
      in snd (sys_setsockopt sys (sock_fd s) SOL_SOCKET SO_RCVTIMEO [0, timeout] w))"

text \<open>A client that was accepted: the peer's port stays in network order.\<close>

definition SocketAccept_ipv4_QVPN_Socket :: "'w sys \<Rightarrow> int \<Rightarrow> TransportProtocol \<Rightarrow> 'w \<Rightarrow> (QVPN_Socket \<times> 'w) option" where
  "SocketAccept_ipv4_QVPN_Socket sys socket t_proto w = do {
     let ((sock, clientAddr), w) = sys_accept sys socket w;
     let sock_addr = sys_getsockname sys sock w;
     let (r, peer) = sys_getpeername sys sock w;
     let clientAddr = (if r = 0 then peer else clientAddr);
     net_addr \<leftarrow> rd_range (sa_addr sock_addr) 0 4;
     addr \<leftarrow> rd_range (sa_addr clientAddr) 0 4;
     Some (QVPN_Socket_of_addr sock addr (sa_port clientAddr) net_addr (ntohs (sa_port sock_addr)) t_proto, w) }"

definition SocketAccept_ipv6_QVPN_Socket :: "'w sys \<Rightarrow> int \<Rightarrow> TransportProtocol \<Rightarrow> 'w \<Rightarrow> (QVPN_Socket \<times> 'w) option" where
  "SocketAccept_ipv6_QVPN_Socket sys socket t_proto w = do {
     let ((sock, clientAddr), w) = sys_accept sys socket w;
     let sock_addr = sys_getsockname sys sock w;
     let (r, peer) = sys_getpeername sys sock w;
     let clientAddr = (if r = 0 then peer else clientAddr);
     net_addr \<leftarrow> rd_range (sa_addr sock_addr) 0 16;
     addr \<leftarrow> rd_range (sa_addr clientAddr) 0 16;
     Some (QVPN_Socket_of_addr sock addr (sa_port clientAddr) net_addr (ntohs (sa_port sock_addr)) t_proto, w) }"

definition QVPN_Socket_accept :: "'w sys \<Rightarrow> QVPN_Socket \<Rightarrow> 'w \<Rightarrow> (QVPN_Socket \<times> 'w) option" where
  "QVPN_Socket_accept sys s w =
     (let net_proto = NetAddr_get_addr_family (local_addr (sock_data s)); t_proto = sd_transport_proto (sock_data s) in
      if net_proto = NetProtocol_IPv4 then SocketAccept_ipv4_QVPN_Socket sys (sock_fd s) t_proto w
      else if net_proto = NetProtocol_IPv6 then SocketAccept_ipv6_QVPN_Socket sys (sock_fd s) t_proto w
      else Some (QVPN_Socket_new, w))"

definition QVPN_Socket_send_to ::
    "'w sys \<Rightarrow> QVPN_Socket \<Rightarrow> NetAddr \<Rightarrow> UShort \<Rightarrow> bytes \<Rightarrow> int \<Rightarrow> 'w \<Rightarrow> (NetStatus \<times> 'w) option" where
  "QVPN_Socket_send_to sys s addr port data flags w =
     (let net_proto = NetAddr_get_addr_family addr in
      if net_proto = NetProtocol_IPv4 then SocketSendTo_ipv4 sys (sock_fd s) addr port data flags w
      else if net_proto = NetProtocol_IPv6 then Some (SocketSendTo_ipv6 sys (sock_fd s) addr port data flags w)
      else Some (\<lparr> ns_success = False, ns_status = 0 \<rparr>, w))"

definition QVPN_Socket_append_socket_to_connection ::
    "'w sys \<Rightarrow> QVPN_Socket \<Rightarrow> QVPNSocketData \<Rightarrow> UInt \<Rightarrow> UInt \<Rightarrow> 'w \<Rightarrow> (SocketRepairStatus \<times> 'w) option" where
  "QVPN_Socket_append_socket_to_connection sys s connection_data local_isn remote_isn w =
     (if sd_transport_proto (sock_data s) = TransportProtocol_TCP
      then SocketAppendToConnection_TCP sys (sock_fd s) connection_data local_isn remote_isn w
      else if sd_transport_proto (sock_data s) = TransportProtocol_UDP then Some (SocketAppendToConnection_UDP, w)
      else Some (\<lparr> srs_success = False, srs_status = -1 \<rparr>, w))"

subsection \<open>Raw sockets\<close>

definition QVPN_RawSocket_new :: QVPN_RawSocket where
  "QVPN_RawSocket_new = \<lparr> sock_fd = 0, sock_data = QVPNSocketData_default \<rparr>"

definition QVPN_RawSocket_of_params :: "'w sys \<Rightarrow> int \<Rightarrow> int \<Rightarrow> int \<Rightarrow> 'w \<Rightarrow> QVPN_RawSocket \<times> 'w" where
  "QVPN_RawSocket_of_params sys sock_family sock_type sock_proto w =
     (let (fd, w) = sys_socket sys sock_family sock_type sock_proto w;
          transport = (if sock_proto = IPPROTO_TCP then TransportProtocol_TCP
            else if sock_proto = IPPROTO_UDP then TransportProtocol_UDP else TransportProtocol_TRANSPORT_UNDEFINED);
          net = (if sock_family = AF_INET then NetProtocol_IPv4
            else if sock_family = AF_INET6 then NetProtocol_IPv6 else NetProtocol_NET_UNDEFINED)
      in (\<lparr> sock_fd = fd, sock_data = QVPNSocketData_default\<lparr> sd_transport_proto := transport, sd_net_proto := net,
            remote_port := 0, local_port := 0 \<rparr> \<rparr>, w))"

definition QVPN_RawSocket_of_ipv4 ::
    "int \<Rightarrow> IPv4Address \<Rightarrow> UShort \<Rightarrow> IPv4Address \<Rightarrow> UShort \<Rightarrow> TransportProtocol \<Rightarrow> QVPN_RawSocket" where
  "QVPN_RawSocket_of_ipv4 sock raddr rport laddr lport t =
     \<lparr> sock_fd = sock, sock_data = \<lparr> sd_net_proto = NetProtocol_IPv4, sd_transport_proto = t,
       local_addr = NetAddr_of_ipv4 laddr, local_port = lport, remote_addr = NetAddr_of_ipv4 raddr,
       remote_port = rport \<rparr> \<rparr>"

definition QVPN_RawSocket_of_ipv6 ::
    "int \<Rightarrow> IPv6Address \<Rightarrow> UShort \<Rightarrow> IPv6Address \<Rightarrow> UShort \<Rightarrow> TransportProtocol \<Rightarrow> QVPN_RawSocket" where
  "QVPN_RawSocket_of_ipv6 sock raddr rport laddr lport t =
     \<lparr> sock_fd = sock, sock_data = \<lparr> sd_net_proto = NetProtocol_IPv6, sd_transport_proto = t,
       local_addr = NetAddr_of_ipv6 laddr, local_port = lport, remote_addr = NetAddr_of_ipv6 raddr,
       remote_port = rport \<rparr> \<rparr>"

definition QVPN_RawSocket_of_addr ::
    "int \<Rightarrow> NetAddr \<Rightarrow> UShort \<Rightarrow> NetAddr \<Rightarrow> UShort \<Rightarrow> TransportProtocol \<Rightarrow> QVPN_RawSocket" where
  "QVPN_RawSocket_of_addr sock raddr rport laddr lport t =
     \<lparr> sock_fd = sock, sock_data = \<lparr> sd_net_proto = NetAddr_get_addr_family raddr, sd_transport_proto = t,
       local_addr = laddr, local_port = lport, remote_addr = raddr, remote_port = rport \<rparr> \<rparr>"

definition QVPN_RawSocket_assign :: "QVPN_RawSocket \<Rightarrow> QVPN_RawSocket \<Rightarrow> QVPN_RawSocket" where
  "QVPN_RawSocket_assign s other = s\<lparr> sock_fd := sock_fd other, sock_data := sock_data other \<rparr>"

definition QVPN_RawSocket_is_valid :: "QVPN_RawSocket \<Rightarrow> bool" where
  "QVPN_RawSocket_is_valid s = (if sock_fd s < 0 then False else True)"

definition QVPN_RawSocket_get_socket_data :: "QVPN_RawSocket \<Rightarrow> QVPNSocketData" where
  "QVPN_RawSocket_get_socket_data s = sock_data s"

definition QVPN_RawSocket_connect ::
    "'w sys \<Rightarrow> QVPN_RawSocket \<Rightarrow> NetAddr \<Rightarrow> UShort \<Rightarrow> 'w \<Rightarrow> ((NetStatus \<times> QVPN_RawSocket) \<times> 'w) option" where
  "QVPN_RawSocket_connect sys s addr port w = do {
     (data, w) \<leftarrow> qvpn_connect_addr sys (sock_fd s) addr port w;
     let status = \<lparr> ns_success = nd_success data, ns_status = nd_status data \<rparr>;
     let s = (if ns_success status then s\<lparr> sock_data := (sock_data s)\<lparr>
         sd_net_proto := NetAddr_get_addr_family (nd_addr data), remote_port := port, remote_addr := addr,
         local_port := nd_port data, local_addr := nd_addr data \<rparr> \<rparr> else s);
     Some ((status, s), w) }"

definition QVPN_RawSocket_bind ::
    "'w sys \<Rightarrow> QVPN_RawSocket \<Rightarrow> NetAddr \<Rightarrow> UShort \<Rightarrow> 'w \<Rightarrow> ((NetStatus \<times> QVPN_RawSocket) \<times> 'w) option" where
  "QVPN_RawSocket_bind sys s addr port w = do {
     (data, w) \<leftarrow> qvpn_bind_addr sys (sock_fd s) addr port w;
     let status = \<lparr> ns_success = nd_success data, ns_status = nd_status data \<rparr>;
     let s = (if ns_success status then s\<lparr> sock_data := (sock_data s)\<lparr>
         sd_net_proto := NetAddr_get_addr_family (nd_addr data), remote_port := port, remote_addr := addr,
         local_port := nd_port data, local_addr := nd_addr data \<rparr> \<rparr> else s);
     Some ((status, s), w) }"

definition QVPN_RawSocket_listen :: "'w sys \<Rightarrow> QVPN_RawSocket \<Rightarrow> int \<Rightarrow> 'w \<Rightarrow> NetStatus \<times> 'w" where
  "QVPN_RawSocket_listen sys s con_limit w =
     (let (res, w) = sys_listen sys (sock_fd s) con_limit w
      in (\<lparr> ns_success = (res = 0), ns_status = res \<rparr>, w))"

definition QVPN_RawSocket_send :: "'w sys \<Rightarrow> QVPN_RawSocket \<Rightarrow> bytes \<Rightarrow> 'w \<Rightarrow> NetStatus \<times> 'w" where
  "QVPN_RawSocket_send sys s data w =
     (let ((res, errno), w) = sys_send sys (sock_fd s) data 0 w
      in (if res = -1 then \<lparr> ns_success = False, ns_status = errno \<rparr> else \<lparr> ns_success = True, ns_status = 0 \<rparr>, w))"

definition QVPN_RawSocket_receive :: "'w sys \<Rightarrow> QVPN_RawSocket \<Rightarrow> 'w \<Rightarrow> ReceiveData \<times> 'w" where
  "QVPN_RawSocket_receive sys s w =
     (let ((res, errno, buff), w) = sys_recv sys (sock_fd s) 0 w; success = 0 < res
      in (\<lparr> rcv_status = \<lparr> ns_success = success, ns_status = (if success then 0 else errno) \<rparr>,
            rcv_size = res, rcv_data = buff \<rparr>, w))"

text \<open>The loop is the one of stream sockets, around the \<open>receive\<close> above.\<close>

definition QVPN_RawSocket_safe_recv ::
    "'w sys \<Rightarrow> bytes_parser \<Rightarrow> QVPN_RawSocket \<Rightarrow> 'w \<Rightarrow> (SafeReceiveData \<times> 'w) option" where
  "QVPN_RawSocket_safe_recv sys parse s w = do {
     (sr, n) \<leftarrow> QVPN_Socket_safe_recv parse (\<lambda>k.
       let data = fst (QVPN_RawSocket_receive sys s (recv_world sys s w k))
       in (rcv_size data, ns_status (rcv_status data), rcv_data data));
     Some (sr, recv_world sys s w n) }"

definition QVPN_RawSocket_disconnect :: "QVPN_RawSocket \<Rightarrow> NetStatus" where
  "QVPN_RawSocket_disconnect s = \<lparr> ns_success = True, ns_status = 0 \<rparr>"

definition QVPN_RawSocket_check_connected :: "'w sys \<Rightarrow> QVPN_RawSocket \<Rightarrow> 'w \<Rightarrow> bool" where
  "QVPN_RawSocket_check_connected sys s w = (fst (sys_getpeername sys (sock_fd s) w) = 0)"

text \<open>Nothing is done for a connected socket; the result is the status \<open>disconnect\<close> returned, if it was called.\<close>

definition QVPN_RawSocket_disconnect_if_connected :: "'w sys \<Rightarrow> QVPN_RawSocket \<Rightarrow> 'w \<Rightarrow> NetStatus option" where
  "QVPN_RawSocket_disconnect_if_connected sys s w =
     (if QVPN_RawSocket_check_connected sys s w then None else Some (QVPN_RawSocket_disconnect s))"

definition QVPN_RawSocket_shutdown :: "'w sys \<Rightarrow> QVPN_RawSocket \<Rightarrow> 'w \<Rightarrow> NetStatus \<times> 'w" where
  "QVPN_RawSocket_shutdown sys s w =
     (let (res, w) = sys_shutdown sys (sock_fd s) SHUT_WR w
      in (\<lparr> ns_success = (res = 0), ns_status = res \<rparr>, w))"

definition QVPN_RawSocket_close_socket :: "'w sys \<Rightarrow> QVPN_RawSocket \<Rightarrow> 'w \<Rightarrow> 'w" where
  "QVPN_RawSocket_close_socket sys s w = sys_close sys (sock_fd s) w"

definition QVPN_RawSocket_reconnect ::
    "'w sys \<Rightarrow> QVPN_RawSocket \<Rightarrow> NetAddr \<Rightarrow> UShort \<Rightarrow> 'w \<Rightarrow> ((NetStatus \<times> QVPN_RawSocket) \<times> 'w) option" where
  "QVPN_RawSocket_reconnect sys s addr port w =
     (let (s, w) = (if QVPN_RawSocket_check_connected sys s w then
          (let w = snd (QVPN_RawSocket_shutdown sys s w);
               w = QVPN_RawSocket_close_socket sys s w;
               (fd, w) = sys_socket sys
                 (QVPNMetaSocketData_get_socket_family (NetAddr_get_addr_family (local_addr (sock_data s))))
                 (QVPNMetaSocketData_get_raw_socket_type (sd_transport_proto (sock_data s)))
                 (QVPNMetaSocketData_get_raw_socket_proto (sd_transport_proto (sock_data s))) w
           in (s\<lparr> sock_fd := fd \<rparr>, w)) else (s, w))
      in QVPN_RawSocket_connect sys s addr port w)"

definition QVPN_RawSocket_get_local_addr :: "QVPN_RawSocket \<Rightarrow> NetAddr" where
  "QVPN_RawSocket_get_local_addr s = local_addr (sock_data s)"

definition QVPN_RawSocket_get_local_port :: "QVPN_RawSocket \<Rightarrow> UShort" where
  "QVPN_RawSocket_get_local_port s = local_port (sock_data s)"

definition QVPN_RawSocket_get_remote_addr :: "QVPN_RawSocket \<Rightarrow> NetAddr" where
  "QVPN_RawSocket_get_remote_addr s = remote_addr (sock_data s)"

definition QVPN_RawSocket_get_remote_port :: "QVPN_RawSocket \<Rightarrow> UShort" where
  "QVPN_RawSocket_get_remote_port s = remote_port (sock_data s)"

definition QVPN_RawSocket_get_transport_protocol :: "QVPN_RawSocket \<Rightarrow> TransportProtocol" where
  "QVPN_RawSocket_get_transport_protocol s = sd_transport_proto (sock_data s)"

definition QVPN_RawSocket_apply_settings :: "'w sys \<Rightarrow> QVPN_RawSocket \<Rightarrow> QVPNSocketSettings \<Rightarrow> 'w \<Rightarrow> 'w" where
  "QVPN_RawSocket_apply_settings sys s settings w =
     (let optval = of_bool (QVPNSocketSettings_ip_header settings);
          w = snd (sys_setsockopt sys (sock_fd s) IPPROTO_IP IP_HDRINCL [optval] w);
          timeout = QVPNSocketSettings_receive_timeout_ms settings
      in snd (sys_setsockopt sys (sock_fd s) SOL_SOCKET SO_RCVTIMEO [timeout sdiv 1000000, timeout smod 1000000] w))"

text \<open>A client that was accepted: the peer's port stays in network order.\<close>

definition SocketAccept_ipv4_QVPN_RawSocket :: "'w sys \<Rightarrow> int \<Rightarrow> TransportProtocol \<Rightarrow> 'w \<Rightarrow> (QVPN_RawSocket \<times> 'w) option" where
  "SocketAccept_ipv4_QVPN_RawSocket sys socket t_proto w = do {
     let ((sock, clientAddr), w) = sys_accept sys socket w;
     let sock_addr = sys_getsockname sys sock w;
     let (r, peer) = sys_getpeername sys sock w;
     let clientAddr = (if r = 0 then peer else clientAddr);
     net_addr \<leftarrow> rd_range (sa_addr sock_addr) 0 4;
     addr \<leftarrow> rd_range (sa_addr clientAddr) 0 4;
     Some (QVPN_RawSocket_of_addr sock addr (sa_port clientAddr) net_addr (ntohs (sa_port sock_addr)) t_proto, w) }"

definition SocketAccept_ipv6_QVPN_RawSocket :: "'w sys \<Rightarrow> int \<Rightarrow> TransportProtocol \<Rightarrow> 'w \<Rightarrow> (QVPN_RawSocket \<times> 'w) option" where
  "SocketAccept_ipv6_QVPN_RawSocket sys socket t_proto w = do {
     let ((sock, clientAddr), w) = sys_accept sys socket w;
     let sock_addr = sys_getsockname sys sock w;
     let (r, peer) = sys_getpeername sys sock w;
     let clientAddr = (if r = 0 then peer else clientAddr);
     net_addr \<leftarrow> rd_range (sa_addr sock_addr) 0 16;
     addr \<leftarrow> rd_range (sa_addr clientAddr) 0 16;
     Some (QVPN_RawSocket_of_addr sock addr (sa_port clientAddr) net_addr (ntohs (sa_port sock_addr)) t_proto, w) }"

definition QVPN_RawSocket_accept :: "'w sys \<Rightarrow> QVPN_RawSocket \<Rightarrow> 'w \<Rightarrow> (QVPN_RawSocket \<times> 'w) option" where
  "QVPN_RawSocket_accept sys s w =
     (let net_proto = NetAddr_get_addr_family (local_addr (sock_data s)); t_proto = sd_transport_proto (sock_data s) in
      if net_proto = NetProtocol_IPv4 then SocketAccept_ipv4_QVPN_RawSocket sys (sock_fd s) t_proto w
      else if net_proto = NetProtocol_IPv6 then SocketAccept_ipv6_QVPN_RawSocket sys (sock_fd s) t_proto w
      else Some (QVPN_RawSocket_new, w))"

definition QVPN_RawSocket_send_to ::
    "'w sys \<Rightarrow> QVPN_RawSocket \<Rightarrow> NetAddr \<Rightarrow> UShort \<Rightarrow> bytes \<Rightarrow> int \<Rightarrow> 'w \<Rightarrow> (NetStatus \<times> 'w) option" where
  "QVPN_RawSocket_send_to sys s addr port data flags w =
     (let net_proto = NetAddr_get_addr_family addr in
      if net_proto = NetProtocol_IPv4 then SocketSendTo_ipv4 sys (sock_fd s) addr port data flags w
      else if net_proto = NetProtocol_IPv6 then Some (SocketSendTo_ipv6 sys (sock_fd s) addr port data flags w)
      else Some (\<lparr> ns_success = False, ns_status = 0 \<rparr>, w))"

definition QVPN_RawSocket_filter :: "'w sys \<Rightarrow> QVPN_RawSocket \<Rightarrow> filter_key \<Rightarrow> 'w \<Rightarrow> 'w" where
  "QVPN_RawSocket_filter sys s f w =
     (let (prog_fd, w) = sys_load_filter sys (QVPN_SocketFilter_get_filters f) True w
      in snd (sys_setsockopt sys (sock_fd s) SOL_SOCKET SO_ATTACH_BPF [prog_fd] w))"

section \<open>The factory\<close>

definition QVPNNetTools_create_socket :: "'w sys \<Rightarrow> NetProtocol \<Rightarrow> TransportProtocol \<Rightarrow> 'w \<Rightarrow> QVPN_Socket \<times> 'w" where
  "QVPNNetTools_create_socket sys net_proto t_proto w =
     QVPN_Socket_of_params sys (QVPNMetaSocketData_get_socket_family net_proto)
       (QVPNMetaSocketData_get_socket_type t_proto) (QVPNMetaSocketData_get_socket_proto t_proto) w"

definition QVPNNetTools_create_raw_socket ::
    "'w sys \<Rightarrow> NetProtocol \<Rightarrow> TransportProtocol \<Rightarrow> 'w \<Rightarrow> QVPN_RawSocket \<times> 'w" where
  "QVPNNetTools_create_raw_socket sys net_proto t_proto w =
     (let sock_s = QVPNSocketSettings_of False 0;
          (sock, w) = QVPN_RawSocket_of_params sys (QVPNMetaSocketData_get_socket_family net_proto)
            (QVPNMetaSocketData_get_raw_socket_type t_proto) (QVPNMetaSocketData_get_raw_socket_proto t_proto) w;
          w = QVPN_RawSocket_apply_settings sys sock sock_s w
      in (sock, w))"

definition QVPNNetTools_create_socket_by_connection ::
    "'w sys \<Rightarrow> NetProtocol \<Rightarrow> TransportProtocol \<Rightarrow> QVPNSocketData \<Rightarrow> UInt \<Rightarrow> UInt \<Rightarrow> 'w \<Rightarrow> (QVPN_Socket \<times> 'w) option" where
  "QVPNNetTools_create_socket_by_connection sys net_proto t_proto connection_data local_isn remote_isn w = do {
     let (sock, w) = QVPNNetTools_create_socket sys net_proto t_proto w;
     (_, w) \<leftarrow> QVPN_Socket_append_socket_to_connection sys sock connection_data local_isn remote_isn w;
     Some (sock, w) }"

text \<open>The key of a filter object begins with whatever was in memory.\<close>

definition QVPNNetTools_create_socket_filter :: "filter_key \<Rightarrow> QVPNSocketData \<Rightarrow> filter_key option" where
  "QVPNNetTools_create_socket_filter init s_data = QVPN_SocketFilter_of_socket_data init s_data"

definition QVPNNetTools_create_server_socket_filter :: "filter_key \<Rightarrow> QVPNServerSocketData \<Rightarrow> filter_key option" where
  "QVPNNetTools_create_server_socket_filter init s_data = QVPN_SocketFilter_of_server_data init s_data"

definition QVPNNetTools_hton_ushort :: "UShort \<Rightarrow> UShort" where "QVPNNetTools_hton_ushort num = htons num"
definition QVPNNetTools_ntoh_ushort :: "UShort \<Rightarrow> UShort" where "QVPNNetTools_ntoh_ushort num = ntohs num"
definition QVPNNetTools_hton_uint :: "UInt \<Rightarrow> UInt" where "QVPNNetTools_hton_uint num = htonl num"
definition QVPNNetTools_ntoh_uint :: "UInt \<Rightarrow> UInt" where "QVPNNetTools_ntoh_uint num = ntohl num"

section \<open>What connecting and binding leave behind\<close>

text \<open>The address structure for an IPv4 address holds its bytes in their order.\<close>

lemma le32_bytes_htonl [simp]: "le32_bytes (htonl (IPv4Address_to_uint a)) = IPv4Address_to_bytes a"
  by (cases a) (simp add: le32_bytes_def htonl_def le32_def)

text \<open>The contract of the socket classes, of both builds, that the drivers rely on: the descriptor and the transport protocol stay, a
  success records the remote endpoint, a failure changes nothing.\<close>

locale endpoint =
  fixes handle :: "'s \<Rightarrow> 'h" and info :: "'s \<Rightarrow> QVPNSocketData"
    and con bnd :: "'sys \<Rightarrow> 's \<Rightarrow> NetAddr \<Rightarrow> UShort \<Rightarrow> 'w \<Rightarrow> ((NetStatus \<times> 's) \<times> 'w) option"
  assumes con_same: "con sys s a p w = Some ((st, s'), w') \<Longrightarrow>
      handle s' = handle s \<and> sd_transport_proto (info s') = sd_transport_proto (info s)"
    and bnd_same: "bnd sys s a p w = Some ((st, s'), w') \<Longrightarrow>
      handle s' = handle s \<and> sd_transport_proto (info s') = sd_transport_proto (info s)"
    and con_success: "con sys s a p w = Some ((st, s'), w') \<Longrightarrow> ns_success st \<Longrightarrow>
      remote_addr (info s') = a \<and> remote_port (info s') = p"
    and con_failure: "con sys s a p w = Some ((st, s'), w') \<Longrightarrow> \<not> ns_success st \<Longrightarrow> s' = s"
    and bnd_failure: "bnd sys s a p w = Some ((st, s'), w') \<Longrightarrow> \<not> ns_success st \<Longrightarrow> s' = s"
begin

lemma bound_and_connected:
  assumes "bnd sys s a p w = Some ((st, s1), w1)" "con sys s1 b q w1 = Some ((st', s2), w2)" "ns_success st'"
  shows "handle s2 = handle s \<and> sd_transport_proto (info s2) = sd_transport_proto (info s) \<and>
    remote_addr (info s2) = b \<and> remote_port (info s2) = q"
  using bnd_same [OF assms(1)] con_same [OF assms(2)] con_success [OF assms(2,3)] by simp

lemma refused:
  assumes "bnd sys s a p w = Some ((st, s1), w1)" "con sys s1 b q w1 = Some ((st', s2), w2)"
    "\<not> ns_success st" "\<not> ns_success st'"
  shows "s2 = s"
  using bnd_failure [OF assms(1,3)] con_failure [OF assms(2,4)] by simp

end

lemma stream_connect_result:
  assumes "QVPN_Socket_connect sys s a p w = Some ((st, s'), w')"
  obtains d where "qvpn_connect_addr sys (sock_fd s) a p w = Some (d, w')" "ns_success st = nd_success d"
    "s' = (if nd_success d then s\<lparr> sock_data := (sock_data s)\<lparr> sd_net_proto := NetAddr_get_addr_family (nd_addr d),
       remote_port := p, remote_addr := a, local_port := nd_port d, local_addr := nd_addr d \<rparr> \<rparr> else s)"
  using assms by (auto simp: QVPN_Socket_connect_def Let_def bind_eq_Some_conv)

lemma stream_bind_result:
  assumes "QVPN_Socket_bind sys s a p w = Some ((st, s'), w')"
  obtains d where "qvpn_bind_addr sys (sock_fd s) a p w = Some (d, w')" "ns_success st = nd_success d"
    "s' = (if nd_success d then s\<lparr> sock_data := (sock_data s)\<lparr> sd_net_proto := NetAddr_get_addr_family a,
       remote_port := p, remote_addr := a, local_port := nd_port d, local_addr := nd_addr d \<rparr> \<rparr> else s)"
  using assms by (auto simp: QVPN_Socket_bind_def Let_def bind_eq_Some_conv)

lemma raw_connect_result:
  assumes "QVPN_RawSocket_connect sys s a p w = Some ((st, s'), w')"
  obtains d where "qvpn_connect_addr sys (sock_fd s) a p w = Some (d, w')" "ns_success st = nd_success d"
    "s' = (if nd_success d then s\<lparr> sock_data := (sock_data s)\<lparr> sd_net_proto := NetAddr_get_addr_family (nd_addr d),
       remote_port := p, remote_addr := a, local_port := nd_port d, local_addr := nd_addr d \<rparr> \<rparr> else s)"
  using assms by (auto simp: QVPN_RawSocket_connect_def Let_def bind_eq_Some_conv)

lemma raw_bind_result:
  assumes "QVPN_RawSocket_bind sys s a p w = Some ((st, s'), w')"
  obtains d where "qvpn_bind_addr sys (sock_fd s) a p w = Some (d, w')" "ns_success st = nd_success d"
    "s' = (if nd_success d then s\<lparr> sock_data := (sock_data s)\<lparr> sd_net_proto := NetAddr_get_addr_family (nd_addr d),
       remote_port := p, remote_addr := a, local_port := nd_port d, local_addr := nd_addr d \<rparr> \<rparr> else s)"
  using assms by (auto simp: QVPN_RawSocket_bind_def Let_def bind_eq_Some_conv)

interpretation stream: endpoint sock_fd sock_data QVPN_Socket_connect QVPN_Socket_bind
  by unfold_locales (auto elim!: stream_connect_result stream_bind_result)

interpretation raw: endpoint sock_fd sock_data QVPN_RawSocket_connect QVPN_RawSocket_bind
  by unfold_locales (auto elim!: raw_connect_result raw_bind_result)

text \<open>With an IPv4 address the local address of a bound socket is the one it was bound to, and that of a connected one is
  what the kernel says, four bytes of it.\<close>

lemma connect_local_addr:
  assumes "QVPN_RawSocket_connect sys s a p w = Some ((st, s'), w')" "length a = 4" "ns_success st"
  shows "local_addr (sock_data s') = take 4 (sa_addr (sys_getsockname sys (sock_fd s) w')) \<and>
    length (local_addr (sock_data s')) = 4"
  using assms by (auto simp: QVPN_RawSocket_connect_def qvpn_connect_addr_def qvpn_connect_ipv4_def Let_def
      bind_eq_Some_conv NetAddr_get_addr_family_def protocol_defs IPv4Address_get_addr_size_def rd_range_def
      case_prod_beta split: if_splits)

lemma bind_local_addr:
  assumes "QVPN_Socket_bind sys s a p w = Some ((st, s'), w')" "length a = 4" "ns_success st"
  shows "local_addr (sock_data s') = a \<and> local_port (sock_data s') = p"
proof -
  obtain i where i: "NetAddr_to_ipv4 a = Some i" "IPv4Address_to_bytes i = a"
    using NetAddr_to_ipv4_length4 [OF assms(2)] by blast
  with assms show ?thesis
    by (auto simp: QVPN_Socket_bind_def qvpn_bind_addr_def qvpn_bind_ipv4_def Let_def bind_eq_Some_conv
        NetAddr_get_addr_family_def protocol_defs IPv4Address_get_addr_size_def rd_range_def case_prod_beta
        split: if_splits)
qed

text \<open>The port of an accepted client is in network order: its bytes are swapped.\<close>

lemma accepted_port_swapped:
  assumes "QVPN_Socket_accept sys s w = Some (c, w')" "length (local_addr (sock_data s)) = 4"
    and "sys_getpeername sys (sock_fd c) w' = (0, \<lparr> sa_family = f, sa_port = htons p, sa_addr = a \<rparr>)"
  shows "QVPN_Socket_get_remote_port c = htons p"
  using assms by (auto simp: QVPN_Socket_accept_def SocketAccept_ipv4_QVPN_Socket_def Let_def bind_eq_Some_conv
      NetAddr_get_addr_family_def protocol_defs QVPN_Socket_of_addr_def QVPN_Socket_get_remote_port_def
      case_prod_beta split: if_splits)

text \<open>Only a socket that is not connected is disconnected.\<close>

lemma disconnect_if_connected_inverted:
  "QVPN_Socket_disconnect_if_connected sys s w \<noteq> None \<longleftrightarrow> \<not> QVPN_Socket_check_connected sys s w"
  by (simp add: QVPN_Socket_disconnect_if_connected_def)

lemma raw_socket_created:
  assumes "QVPNNetTools_create_raw_socket sys net t w = (s, w')" "t = TransportProtocol_TCP \<or> t = TransportProtocol_UDP"
  shows "sd_transport_proto (sock_data s) = t"
  using assms by (auto simp: QVPNNetTools_create_raw_socket_def QVPN_RawSocket_of_params_def Let_def
      QVPNMetaSocketData_get_raw_socket_proto_def IPPROTO_TCP_def IPPROTO_UDP_def protocol_defs case_prod_beta
      split: if_splits)

text \<open>Raw and stream sockets receive objects in the same way.\<close>

lemma QVPN_RawSocket_safe_recv_eq: "QVPN_RawSocket_safe_recv sys parse s w = QVPN_Socket_safe_recv_in sys parse s w"
proof -
  have "QVPN_Socket_receive (let data = fst (QVPN_RawSocket_receive sys s (recv_world sys s w k))
      in (rcv_size data, ns_status (rcv_status data), rcv_data data)) =
    QVPN_Socket_receive (fst (sys_recv sys (sock_fd s) 0 (recv_world sys s w k)))" for k
    by (simp add: QVPN_RawSocket_receive_def QVPN_Socket_receive_def Let_def split: prod.splits)
  from safe_recv_loop_cong [OF this] show ?thesis
    by (simp add: QVPN_RawSocket_safe_recv_def QVPN_Socket_safe_recv_in_def QVPN_Socket_safe_recv_def)
qed

end
