(* ===== verification/ServerDriver.thy ===== *)
theory ServerDriver
  imports FriendlyView Sockets
begin

text \<open>The VPN specialisation of \<open>QVPNServerDriver\<close> (\<open>qvpn_driver.hpp\<close>): opening the listening sockets, the connections to
  the servers behind the tunnel, the packets that are sent there, one round of the request loop and one of the response
  loop.  The operating system is the parameter of theory \<open>Sockets\<close>.  The hash tables are maps under equality of keys,
  which agrees with \<open>operator==\<close> on addresses of one length (lemma \<open>server_key_eq\<close>).  Both loops print the packet they
  handle, and a round ends there when its text has no end (\<open>FriendlyView\<close>); the names that \<open>QVPNVerboser\<close> has at that
  time may be any, so that the constructor's entries are left out.  Log output and the statistics object,
  which is built and dropped, are left out.  \<open>generate_sender_no_net_packet\<close> and its helper are left out: nothing calls
  them, and their template cannot be instantiated.  The installation of TCP connections by hand, which the code no longer
  calls, is left out.\<close>

section \<open>State\<close>

record PackedSocket =
  ps_socket :: QVPN_Socket
  ps_raw_socket :: QVPN_RawSocket

type_synonym sock_map = "QVPNServerSocketData \<rightharpoonup> PackedSocket"
type_synonym response_map = "QVPNServerSocketData \<rightharpoonup> QVPN_Socket \<times> PackedSocket"

record QVPNServerState =
  srv_driver :: QVPNDriver
  srv_ip4_strategy :: IPv4DefaultGenStrategy
  srv_response_sockets :: response_map
  srv_verboser :: QVPNVerboser

text \<open>What a thread that serves a client works on: the driver, its own table of sockets, and the world.\<close>

record 'w request_state =
  rq_server :: QVPNServerState
  rq_sock_map :: sock_map
  rq_world :: 'w

definition QVPNServerSocketData_eq :: "QVPNServerSocketData \<Rightarrow> QVPNServerSocketData \<Rightarrow> bool option" where
  "QVPNServerSocketData_eq a b =
     (if \<not> (ssd_net_proto a = ssd_net_proto b \<and> ssd_transport_proto a = ssd_transport_proto b) then Some False
      else do {
        c \<leftarrow> NetAddr_eq (client_local_addr a) (client_local_addr b);
        if \<not> c then Some False else do {
          s \<leftarrow> NetAddr_eq (server_local_addr a) (server_local_addr b);
          if \<not> (s \<and> ssd_local_port a = ssd_local_port b) then Some False else do {
            r \<leftarrow> NetAddr_eq (ssd_remote_addr a) (ssd_remote_addr b);
            Some (r \<and> ssd_remote_port a = ssd_remote_port b) } } })"

section \<open>Listening sockets\<close>

text \<open>The loop of the constructor over the addresses of the settings.\<close>

fun QVPNServerDriver_open_sockets ::
    "'w sys \<Rightarrow> QVPNConnectionEntity list \<Rightarrow> 'w \<Rightarrow> (QVPN_Socket list \<times> 'w) option" where
  "QVPNServerDriver_open_sockets sys [] w = Some ([], w)"
| "QVPNServerDriver_open_sockets sys (i # addrs) w =
     (let (sock, w) = QVPNNetTools_create_socket sys (QVPNConnectionEntity_get_net_proto i)
        (QVPNConnectionEntity_get_transport_proto i) w in
      if \<not> QVPN_Socket_is_valid sock then QVPNServerDriver_open_sockets sys addrs w
      else do {
        ((b_res, sock), w) \<leftarrow> QVPN_Socket_bind sys sock (QVPNConnectionEntity_get_ip_address i)
          (QVPNConnectionEntity_get_port i) w;
        if \<not> ns_success b_res then QVPNServerDriver_open_sockets sys addrs w
        else do {
          (socks, w) \<leftarrow> QVPNServerDriver_open_sockets sys addrs w;
          Some (sock # socks, w) } })"

definition QVPNServerDriver_get_random_vpn_interface :: "(UInt \<Rightarrow> nat) \<Rightarrow> QVPN_Socket list \<Rightarrow> QVPN_Socket option" where
  "QVPNServerDriver_get_random_vpn_interface draw vpn_sockets = rd vpn_sockets (draw (of_nat (length vpn_sockets) - 1))"

section \<open>Connections to servers\<close>

definition QVPNServerDriver_add_to_response_socket_map ::
    "QVPNServerState \<Rightarrow> QVPN_Socket \<Rightarrow> QVPN_RawSocket \<Rightarrow> QVPN_Socket \<Rightarrow> QVPNServerSocketData \<Rightarrow> QVPNServerState" where
  "QVPNServerDriver_add_to_response_socket_map st response_socket raw_socket shadow_socket remote_key =
     (if srv_response_sockets st remote_key = None
      then st\<lparr> srv_response_sockets := (srv_response_sockets st)(remote_key \<mapsto>
             (response_socket, \<lparr> ps_socket = shadow_socket, ps_raw_socket = raw_socket \<rparr>)) \<rparr>
      else st)"

text \<open>The key is a reference: it is returned with the server's local address filled in.  \<open>init\<close> is what the memory of the
  filter object holds before its constructor runs.\<close>

definition QVPNServerDriver_connect_to_server_impl ::
    "'w sys \<Rightarrow> filter_key \<Rightarrow> QVPN_Socket \<Rightarrow> QVPNServerSocketData \<Rightarrow> 'w request_state \<Rightarrow>
     (QVPNServerSocketData \<times> 'w request_state) option" where
  "QVPNServerDriver_connect_to_server_impl sys init response_socket key rq =
     (let family = NetAddr_get_addr_family (ssd_remote_addr key);
          (raw_socket, w) = QVPNNetTools_create_raw_socket sys family (ssd_transport_proto key) (rq_world rq);
          (shadow_socket, w) = QVPNNetTools_create_socket sys family (ssd_transport_proto key) w;
          settings = QVPNSocketSettings_of True 1000000;
          w = QVPN_RawSocket_apply_settings sys raw_socket settings w in
      if \<not> QVPN_RawSocket_is_valid raw_socket then Some (key, rq\<lparr> rq_world := w \<rparr>)
      else do {
        ((bind_res, raw_socket), w) \<leftarrow> QVPN_RawSocket_bind sys raw_socket NetAddr_default (ssd_local_port key) w;
        if \<not> ns_success bind_res then Some (key, rq\<lparr> rq_world := w \<rparr>)
        else do {
          ((res, raw_socket), w) \<leftarrow> QVPN_RawSocket_connect sys raw_socket (ssd_remote_addr key) (ssd_remote_port key) w;
          let key = key\<lparr> server_local_addr := QVPN_RawSocket_get_local_addr raw_socket \<rparr>;
          if rq_sock_map rq key \<noteq> None then Some (key, rq\<lparr> rq_world := w \<rparr>)
          else do {
            s_filter \<leftarrow> QVPNNetTools_create_server_socket_filter init key;
            let w = QVPN_RawSocket_filter sys raw_socket s_filter w;
            if \<not> ns_success res then Some (key, rq\<lparr> rq_world := w \<rparr>)
            else do {
              let st = QVPNServerDriver_add_to_response_socket_map (rq_server rq) response_socket raw_socket
                shadow_socket key;
              let p_socket = \<lparr> ps_socket = shadow_socket, ps_raw_socket = raw_socket \<rparr>;
              Some (key, rq\<lparr> rq_server := st, rq_sock_map := (rq_sock_map rq)(key \<mapsto> p_socket), rq_world := w \<rparr>) } } } })"

definition QVPNServerDriver_drop_response_socket :: "QVPNServerState \<Rightarrow> QVPNServerSocketData \<Rightarrow> QVPNServerState" where
  "QVPNServerDriver_drop_response_socket st key =
     st\<lparr> srv_response_sockets := (srv_response_sockets st)(key := None) \<rparr>"

section \<open>Packets for servers\<close>

datatype NetPacketObjectType = IPv4Header bytes | DummyNetHeader
datatype TransportPacketObjectType = TcpHeader bytes | UdpHeader bytes | DummyTransportHeader
datatype FullPacketObjectType = FullTcpPacket Ipv4TcpPacket | FullUdpPacket Ipv4UdpPacket | FullDummyPacket

definition QVPNServerDriver_generate_net_header ::
    "IPv4DefaultGenStrategy \<Rightarrow> QTunnelProxy \<Rightarrow> QVPNServerSocketData \<Rightarrow> UShort \<Rightarrow>
     (NetPacketObjectType \<times> IPv4DefaultGenStrategy) option" where
  "QVPNServerDriver_generate_net_header strategy data key total_len =
     (if QTunnelProxy_get_net_proto data = NetProtocol_IPv4 then do {
        (obj, strategy) \<leftarrow> Ipv4PacketLE_generate_object strategy (server_local_addr key) (QTunnelProxy_get_dst_addr data)
          (QTunnelProxy_get_transport_proto data) total_len True False 0;
        Some (IPv4Header obj, strategy) }
      else Some (DummyNetHeader, strategy))"

definition QVPNServerDriver_generate_transport_header ::
    "QTunnelProxy \<Rightarrow> QVPNServerSocketData \<Rightarrow> TransportPacketObjectType option" where
  "QVPNServerDriver_generate_transport_header data key =
     (let bs = QTunnelProxy_get_proto_data_bytes data in
      if QTunnelProxy_get_transport_proto data = TransportProtocol_TCP then do {
        let scheme = QTunnelTCPViewScheme_of_range bs;
        opts \<leftarrow> QTunnelTCPViewScheme_get_options scheme;
        seq \<leftarrow> QTunnelTCPViewScheme_get_seq scheme;
        ack \<leftarrow> QTunnelTCPViewScheme_get_ack scheme;
        offset \<leftarrow> QTunnelTCPViewScheme_get_offset scheme;
        flags \<leftarrow> QTunnelTCPViewScheme_get_flags scheme;
        window \<leftarrow> QTunnelTCPViewScheme_get_window scheme;
        urgent \<leftarrow> QTunnelTCPViewScheme_get_urgent_pointer scheme;
        obj \<leftarrow> TcpPacketLE_generate_object (ssd_local_port key) (QTunnelProxy_get_dst_port data) seq ack offset flags
          window urgent opts;
        Some (TcpHeader obj) }
      else if QTunnelProxy_get_transport_proto data = TransportProtocol_UDP then do {
        let scheme = QTunnelUDPViewScheme_of_range bs;
        len \<leftarrow> QTunnelUDPViewScheme_get_length scheme;
        obj \<leftarrow> UdpPacketLE_generate_object (ssd_local_port key) (QTunnelProxy_get_dst_port data) len;
        Some (UdpHeader obj) }
      else Some DummyTransportHeader)"

text \<open>\<open>to_view().to_bytes()\<close> of the two variants.\<close>

fun net_view_bytes :: "NetPacketObjectType \<Rightarrow> bytes option" where
  "net_view_bytes (IPv4Header h) = do {
     v \<leftarrow> Ipv4PacketLE_to_view h;
     let (b, e) = Ipv4PacketView_to_bytes v;
     rd_range h b e }"
| "net_view_bytes DummyNetHeader = Some DummyNetPacket_to_bytes"

fun transport_view_bytes :: "TransportPacketObjectType \<Rightarrow> bytes option" where
  "transport_view_bytes (TcpHeader h) = do {
     v \<leftarrow> TcpPacketLE_to_view h;
     let (b, e) = TcpPacketView_to_bytes v;
     rd_range h b e }"
| "transport_view_bytes (UdpHeader h) = (let (b, e) = UdpPacketView_to_bytes (UdpPacketLE_to_view h) in rd_range h b e)"
| "transport_view_bytes DummyTransportHeader = Some DummyTransportPacket_to_bytes"

fun visit_get_transport_length :: "TransportPacketObjectType \<Rightarrow> UShort option" where
  "visit_get_transport_length (TcpHeader h) = TcpPacketLE_get_transport_length h"
| "visit_get_transport_length (UdpHeader h) = UdpPacketLE_get_transport_length h"
| "visit_get_transport_length DummyTransportHeader = Some DummyTransportPacket_get_transport_length"

definition QVPNServerDriver_generate_full_packet ::
    "QTunnelProxy \<Rightarrow> NetPacketObjectType \<Rightarrow> TransportPacketObjectType \<Rightarrow> bytes \<Rightarrow> FullPacketObjectType option" where
  "QVPNServerDriver_generate_full_packet data net transport payload =
     (if QTunnelProxy_get_transport_proto data = TransportProtocol_TCP then do {
        n \<leftarrow> net_view_bytes net;
        t \<leftarrow> transport_view_bytes transport;
        map_option FullTcpPacket (Ipv4TcpPacket_of_parts n t payload) }
      else if QTunnelProxy_get_transport_proto data = TransportProtocol_UDP then do {
        n \<leftarrow> net_view_bytes net;
        t \<leftarrow> transport_view_bytes transport;
        map_option FullUdpPacket (Ipv4UdpPacket_of_parts n t payload) }
      else Some FullDummyPacket)"

fun visit_recalculate_checksums :: "FullPacketObjectType \<Rightarrow> FullPacketObjectType option" where
  "visit_recalculate_checksums (FullTcpPacket p) = map_option FullTcpPacket (Ipv4TcpPacket_recalculate_checksums p)"
| "visit_recalculate_checksums (FullUdpPacket p) = map_option FullUdpPacket (Ipv4UdpPacket_recalculate_checksums p)"
| "visit_recalculate_checksums FullDummyPacket = Some FullDummyPacket"

fun visit_bytes :: "FullPacketObjectType \<Rightarrow> bytes option" where
  "visit_bytes (FullTcpPacket p) = Ipv4TcpPacket_bytes p"
| "visit_bytes (FullUdpPacket p) = Ipv4UdpPacket_bytes p"
| "visit_bytes FullDummyPacket = Some DummyFullPacket_bytes"

fun visit_is_reset :: "FullPacketObjectType \<Rightarrow> bool option" where
  "visit_is_reset (FullTcpPacket p) =
     TcpPacketView_is_reset_connection_packet (tcpv_transport (tcpo_views p)) (tcpo_data p)"
| "visit_is_reset (FullUdpPacket p) =
     Some (UdpPacketView_is_reset_connection_packet (udpv_transport (udpo_views p)) (udpo_data p))"
| "visit_is_reset FullDummyPacket = Some DummyTransportPacket_is_reset_connection_packet"

fun visit_object_to_packet_friendly_view :: "QVPNVerboser \<Rightarrow> FullPacketObjectType \<Rightarrow> string option option" where
  "visit_object_to_packet_friendly_view vb (FullTcpPacket p) = Ipv4TcpPacket_to_packet_friendly_view vb p"
| "visit_object_to_packet_friendly_view vb (FullUdpPacket p) = Ipv4UdpPacket_to_packet_friendly_view vb p"
| "visit_object_to_packet_friendly_view vb FullDummyPacket = Some (Some DummyFullPacket_to_packet_friendly_view)"

text \<open>The sum of the two sizes is passed as a sixteen bit number.\<close>

definition QVPNServerDriver_generate_sender_packet ::
    "IPv4DefaultGenStrategy \<Rightarrow> QTunnelProxy \<Rightarrow> QVPNServerSocketData \<Rightarrow> bytes \<Rightarrow>
     (FullPacketObjectType \<times> IPv4DefaultGenStrategy) option" where
  "QVPNServerDriver_generate_sender_packet strategy data key payload = do {
     let packet_data_size = (of_nat (length payload) :: UShort);
     t_header \<leftarrow> QVPNServerDriver_generate_transport_header data key;
     t_size \<leftarrow> visit_get_transport_length t_header;
     (n_header, strategy) \<leftarrow> QVPNServerDriver_generate_net_header strategy data key (t_size + packet_data_size);
     packet \<leftarrow> QVPNServerDriver_generate_full_packet data n_header t_header payload;
     packet \<leftarrow> visit_recalculate_checksums packet;
     Some (packet, strategy) }"

text \<open>The same for a packet without network layer, which nothing calls at present.  The transport header and the payload make
  the object, whose checksum is calculated for the addresses of the server and of the destination.\<close>

datatype NoNetPacketObjectType = NoNetTcpPacket NoNetPacketTcpObject | NoNetUdpPacket NoNetPacketUdpObject | NoNetDummyPacket

definition QVPNServerDriver_generate_packet_with_transport_layer ::
    "QTunnelProxy \<Rightarrow> TransportPacketObjectType \<Rightarrow> bytes \<Rightarrow> NoNetPacketObjectType option" where
  "QVPNServerDriver_generate_packet_with_transport_layer data transport payload =
     (if QTunnelProxy_get_transport_proto data = TransportProtocol_TCP then do {
        t \<leftarrow> transport_view_bytes transport;
        map_option NoNetTcpPacket (NoNetPacketTcpObject_of_parts t payload) }
      else if QTunnelProxy_get_transport_proto data = TransportProtocol_UDP then do {
        t \<leftarrow> transport_view_bytes transport;
        map_option NoNetUdpPacket (NoNetPacketUdpObject_of_parts t payload) }
      else Some NoNetDummyPacket)"

fun visit_no_net_recalculate_checksums ::
    "NetAddr \<Rightarrow> NetAddr \<Rightarrow> UShort \<Rightarrow> NoNetPacketObjectType \<Rightarrow> NoNetPacketObjectType option" where
  "visit_no_net_recalculate_checksums src dst len (NoNetTcpPacket p) =
     map_option NoNetTcpPacket (NoNetPacketTcpObject_recalculate_checksums p src dst len)"
| "visit_no_net_recalculate_checksums src dst len (NoNetUdpPacket p) =
     map_option (\<lambda>_. NoNetUdpPacket p) (NoNetPacketUdpObject_recalculate_checksums p (udpno_data p) src dst len)"
| "visit_no_net_recalculate_checksums src dst len NoNetDummyPacket = Some NoNetDummyPacket"

definition QVPNServerDriver_generate_sender_no_net_packet ::
    "QTunnelProxy \<Rightarrow> QVPNServerSocketData \<Rightarrow> bytes \<Rightarrow> NoNetPacketObjectType option" where
  "QVPNServerDriver_generate_sender_no_net_packet data key payload = do {
     t_header \<leftarrow> QVPNServerDriver_generate_transport_header data key;
     t_size \<leftarrow> visit_get_transport_length t_header;
     let full_size = unat t_size + length payload;
     packet \<leftarrow> QVPNServerDriver_generate_packet_with_transport_layer data t_header payload;
     visit_no_net_recalculate_checksums (server_local_addr key) (QTunnelProxy_get_dst_addr data) (of_nat full_size) packet }"

section \<open>The request loop\<close>

text \<open>How the body of the loop over the received objects ends: by a return statement, or by going on.\<close>

datatype loop_exit = Return bool | Continue

definition QVPNServerDriver_process_object ::
    "'w sys \<Rightarrow> key_order \<Rightarrow> filter_key \<Rightarrow> QVPN_Socket \<Rightarrow> mem \<Rightarrow> ptr \<Rightarrow> ptr \<Rightarrow> 'w request_state \<Rightarrow>
     (loop_exit \<times> 'w request_state) option" where
  "QVPNServerDriver_process_object sys order init client_socket m data_b data_e rq = do {
     (decoded_data, drv) \<leftarrow> QVPNServerDriver_decode_data order (srv_driver (rq_server rq)) m data_b data_e;
     let rq = rq\<lparr> rq_server := (rq_server rq)\<lparr> srv_driver := drv \<rparr> \<rparr>;
     case decoded_data of
       None \<Rightarrow> Some (Return True, rq)
     | Some d \<Rightarrow> do {
         let decoded = QTunnelProxy.truncate d;
         let original_proxy_data = QTunnelProxy_create decoded;
         let key = \<lparr> ssd_net_proto = QTunnelProxy_get_net_proto decoded,
           ssd_transport_proto = QTunnelProxy_get_transport_proto decoded,
           client_local_addr = QTunnelProxy_get_src_addr decoded, server_local_addr = NetAddr_default,
           ssd_local_port = QTunnelProxy_get_src_port decoded, ssd_remote_addr = QTunnelProxy_get_dst_addr decoded,
           ssd_remote_port = QTunnelProxy_get_dst_port decoded \<rparr>;
         (key, rq) \<leftarrow> QVPNServerDriver_connect_to_server_impl sys init client_socket key rq;
         let payload = QTunnelData_get_raw_data d;
         case rq_sock_map rq key of
           None \<Rightarrow> Some (Return False, rq)
         | Some p_socket \<Rightarrow> do {
             let server_socket = ps_raw_socket p_socket;
             (packet, strategy) \<leftarrow> QVPNServerDriver_generate_sender_packet (srv_ip4_strategy (rq_server rq))
               original_proxy_data key payload;
             let rq = rq\<lparr> rq_server := (rq_server rq)\<lparr> srv_ip4_strategy := strategy \<rparr> \<rparr>;
             printed (visit_object_to_packet_friendly_view (srv_verboser (rq_server rq)) packet);
             res \<leftarrow> visit_bytes packet;
             let (send_status, w) = QVPN_RawSocket_send sys server_socket res (rq_world rq);
             let rq = rq\<lparr> rq_world := w \<rparr>;
             if \<not> ns_success send_status then Some (Return True, rq)
             else do {
               reset \<leftarrow> visit_is_reset packet;
               if reset
               then Some (Return True, rq\<lparr> rq_server := QVPNServerDriver_drop_response_socket (rq_server rq) key \<rparr>)
               else Some (Continue, rq) } } } }"

fun QVPNServerDriver_process_objects ::
    "'w sys \<Rightarrow> key_order \<Rightarrow> filter_key \<Rightarrow> QVPN_Socket \<Rightarrow> SafeReceiveData \<Rightarrow> nat list \<Rightarrow> 'w request_state \<Rightarrow>
     (bool \<times> 'w request_state) option" where
  "QVPNServerDriver_process_objects sys order init client_socket sr [] rq = Some (True, rq)"
| "QVPNServerDriver_process_objects sys order init client_socket sr (i # is) rq = do {
     (data_b, data_e) \<leftarrow> SafeReceiveData_get_object_bytes sr i;
     (ex, rq) \<leftarrow> QVPNServerDriver_process_object sys order init client_socket (sr_data sr) data_b data_e rq;
     case ex of Return r \<Rightarrow> Some (r, rq)
     | Continue \<Rightarrow> QVPNServerDriver_process_objects sys order init client_socket sr is rq }"

definition QVPNServerDriver_vpn_request_loop_iteration ::
    "'w sys \<Rightarrow> key_order \<Rightarrow> filter_key \<Rightarrow> QVPN_Socket \<Rightarrow> 'w request_state \<Rightarrow> (bool \<times> 'w request_state) option" where
  "QVPNServerDriver_vpn_request_loop_iteration sys order init client_socket rq = do {
     (receive_data, w) \<leftarrow> QVPN_Socket_safe_recv_in sys TLS13_RecordLE_bytes_parse client_socket (rq_world rq);
     let rq = rq\<lparr> rq_world := w \<rparr>;
     if \<not> ns_success (SafeReceiveData_get_status receive_data) then Some (True, rq)
     else QVPNServerDriver_process_objects sys order init client_socket receive_data
       [0..<unat (SafeReceiveData_get_objects_num receive_data)] rq }"

text \<open>The thread of a client: rounds of the loop, each taken when the last one returned true, then the socket is closed.\<close>

partial_function (option) process_socket_loop ::
    "'w sys \<Rightarrow> key_order \<Rightarrow> filter_key \<Rightarrow> QVPN_Socket \<Rightarrow> bool \<Rightarrow> 'w request_state \<Rightarrow> 'w request_state option" where
  "process_socket_loop sys order init client_socket status rq =
     (if status then do {
        (status, rq) \<leftarrow> QVPNServerDriver_vpn_request_loop_iteration sys order init client_socket rq;
        process_socket_loop sys order init client_socket status rq }
      else Some rq)"

definition QVPNServerDriver_process_socket ::
    "'w sys \<Rightarrow> key_order \<Rightarrow> filter_key \<Rightarrow> QVPN_Socket \<Rightarrow> QVPNServerState \<Rightarrow> 'w \<Rightarrow> (QVPNServerState \<times> 'w) option" where
  "QVPNServerDriver_process_socket sys order init client_socket st w = do {
     rq \<leftarrow> process_socket_loop sys order init client_socket True
       \<lparr> rq_server = st, rq_sock_map = Map.empty, rq_world = w \<rparr>;
     let w = snd (QVPN_Socket_shutdown sys client_socket (rq_world rq));
     let w = QVPN_Socket_close_socket sys client_socket w;
     Some (rq_server rq, w) }"

section \<open>The response loop\<close>

text \<open>The ranges of all parts are read before the first is sent.\<close>

definition QVPNServerDriver_base_send_data :: "'w sys \<Rightarrow> QVPN_Socket \<Rightarrow> bytes \<Rightarrow> 'w \<Rightarrow> bool \<times> 'w" where
  "QVPNServerDriver_base_send_data sys socket data w =
     (let (res, w) = QVPN_Socket_send sys socket data w
      in if \<not> ns_success res then (False, w) else (ns_success res, w))"

fun QVPNServerDriver_send_parts :: "'w sys \<Rightarrow> QVPN_Socket \<Rightarrow> bytes list \<Rightarrow> 'w \<Rightarrow> 'w" where
  "QVPNServerDriver_send_parts sys socket [] w = w"
| "QVPNServerDriver_send_parts sys socket (p # ps) w =
     (let (res, w) = QVPNServerDriver_base_send_data sys socket p w
      in if \<not> res then w else QVPNServerDriver_send_parts sys socket ps w)"

definition QVPNServerDriver_encode_and_send ::
    "'w sys \<Rightarrow> QVPN_Socket \<Rightarrow> QVPNDriver \<Rightarrow> QTunnelProxy \<Rightarrow> mem \<Rightarrow> ptr \<Rightarrow> ptr \<Rightarrow> 'w \<Rightarrow> (QVPNDriver \<times> 'w) option" where
  "QVPNServerDriver_encode_and_send sys socket d px m b e w = do {
     (sp, d) \<leftarrow> QVPNServerDriver_encode_data d px m b e;
     parts \<leftarrow> sp_parts sp;
     Some (d, QVPNServerDriver_send_parts sys socket parts w) }"

text \<open>The proxy block of a reply: from the packet's source to the client's own address.\<close>

definition response_proxy :: "mem \<Rightarrow> FullPacketType \<Rightarrow> QVPNServerSocketData \<Rightarrow> QTunnelProxy option" where
  "response_proxy m response key = do {
     proto_data \<leftarrow> visit_collect_proto_data m response;
     net \<leftarrow> visit_get_protocol_version m response;
     transport \<leftarrow> visit_get_transport_protocol m response;
     src \<leftarrow> visit_get_src_addr m response;
     src_port \<leftarrow> visit_get_src_port m response;
     Some (QTunnelProxy_of net transport src src_port (client_local_addr key) (ssd_local_port key) proto_data) }"

definition QVPNServerDriver_vpn_response_loop_iteration ::
    "'w sys \<Rightarrow> QVPN_Socket \<Rightarrow> QVPNServerSocketData \<Rightarrow> mem \<Rightarrow> ptr \<Rightarrow> ptr \<Rightarrow> QVPNServerState \<Rightarrow> 'w \<Rightarrow>
     (QVPNServerState \<times> 'w) option" where
  "QVPNServerDriver_vpn_response_loop_iteration sys socket key m b e st w = do {
     response \<leftarrow> PacketPreParser_pre_parse m b e;
     printed (visit_to_packet_friendly_view (srv_verboser st) m response);
     new_proxy_data \<leftarrow> response_proxy m response key;
     let (data_b, data_e) = visit_get_payload response;
     (drv, w) \<leftarrow> QVPNServerDriver_encode_and_send sys socket (srv_driver st) new_proxy_data m data_b data_e w;
     let st = st\<lparr> srv_driver := drv \<rparr>;
     r \<leftarrow> visit_is_reset_connection_packet m response;
     Some (if r then QVPNServerDriver_drop_response_socket st key else st, w) }"

text \<open>One pass over the table, in the order its iterator takes the keys.\<close>

fun QVPNServerDriver_listen_response_sockets ::
    "'w sys \<Rightarrow> QVPNServerSocketData list \<Rightarrow> QVPNServerState \<Rightarrow> 'w \<Rightarrow> (QVPNServerState \<times> 'w) option" where
  "QVPNServerDriver_listen_response_sockets sys [] st w = Some (st, w)"
| "QVPNServerDriver_listen_response_sockets sys (key # keys) st w =
     (case srv_response_sockets st key of
        None \<Rightarrow> QVPNServerDriver_listen_response_sockets sys keys st w
      | Some (resp_sock, sock) \<Rightarrow> do {
          let (rec_data, w) = QVPN_RawSocket_receive sys (ps_raw_socket sock) w;
          if ns_success (rcv_status rec_data) then do {
            (st, w) \<leftarrow> QVPNServerDriver_vpn_response_loop_iteration sys resp_sock key (rcv_data rec_data) 0
              (nat (rcv_size rec_data)) st w;
            QVPNServerDriver_listen_response_sockets sys keys st w }
          else QVPNServerDriver_listen_response_sockets sys keys st w })"

section \<open>Packets the server sends\<close>

text \<open>The transport header the server generates is the one a proxy block with the key's port as source gives.\<close>

definition with_local_port :: "QTunnelProxy \<Rightarrow> QVPNServerSocketData \<Rightarrow> QTunnelProxy" where
  "with_local_port p key = p\<lparr> source_port := ssd_local_port key \<rparr>"

lemma transport_header_tcp:
  "transport_protocol p = TransportProtocol_TCP \<Longrightarrow> QVPNServerDriver_generate_transport_header p key =
    map_option TcpHeader (TcpPacketLE_generate_proxy_object (with_local_port p key))"
  by (simp add: QVPNServerDriver_generate_transport_header_def TcpPacketLE_generate_proxy_object_def
      TcpPacketLE_generate_proxy_bytes_def TcpPacketLE_generate_object_def Let_def bind_assoc with_local_port_def
      proxy_get_defs map_conv_bind_option o_def)

lemma net_header_ipv4:
  assumes "length (server_local_addr key) = 4" "length (dst_addr p) = 4" "net_protocol p = NetProtocol_IPv4"
  shows "\<exists>h g'. QVPNServerDriver_generate_net_header g p key n = Some (IPv4Header h, g') \<and> length h = 20 \<and>
    h ! 0 = 0x45 \<and> be16 (h ! 2) (h ! 3) = of_nat (unat n + 20) \<and> h ! 9 = transport_protocol p \<and>
    drop 12 h = server_local_addr key @ dst_addr p \<and> net_view_bytes (IPv4Header h) = Some h"
proof -
  obtain c ident g' h where h: "Ipv4PacketLE_generate_object_bytes g (server_local_addr key) (dst_addr p)
      (transport_protocol p) n True False 0 = Some (h, g')"
      "h = [0x45, 0, of_nat ((unat n + 20) div 256), of_nat ((unat n + 20) mod 256)] @ be16_bytes ident @
        [push_bit 6 (of_bool True) OR push_bit 5 (of_bool False) OR ucast (drop_bit 11 (0 :: UShort) AND 0x1F),
         byte_of 0 (0 :: UShort), 64, transport_protocol p, byte_of 8 (c :: UShort), byte_of 0 c] @
        server_local_addr key @ dst_addr p"
    using generate_object_bytes_layout [OF assms(1,2), of g "transport_protocol p" n True False 0] by blast
  have len: "length h = 20" and 0: "h ! 0 = 0x45" using assms by (simp_all add: h(2) be16_bytes_def)
  have "be16 (h ! 2) (h ! 3) = of_nat (unat n + 20)" "h ! 9 = transport_protocol p"
    by (simp_all only: h(2)) (simp_all add: be16_bytes_def be16_of_nat del: of_nat_add)
  moreover have "drop 12 h = server_local_addr key @ dst_addr p" by (simp add: h(2) be16_bytes_def)
  moreover have "lo_nibble (h ! 0) = 5" by (simp add: 0 lo_nibble_def)
  then have "Ipv4PacketLE_of_range h 0 (length h) = Some h" "net_view_bytes (IPv4Header h) = Some h"
    using Ipv4PacketLE_of_own_bytes [of h] plain_view_of_header [of h] len
    by (simp_all add: Ipv4PacketLE_to_view_def Ipv4PacketView_to_bytes_def rd_range_def)
  ultimately show ?thesis
    using h(1) len 0 assms(3)
    by (simp add: QVPNServerDriver_generate_net_header_def Ipv4PacketLE_generate_object_def proxy_get_defs)
qed

lemma own_transport_header:
  assumes "20 \<le> length t" "4 * unat (hi_nibble (t ! 12)) = length t"
  shows "visit_get_transport_length (TcpHeader t) = Some (of_nat (length t))" "transport_view_bytes (TcpHeader t) = Some t"
    "\<exists>v. TcpPacketView_of_range t 0 (length t) = Some v"
proof -
  have "ucast (hi_nibble (t ! 12)) * 4 = (of_nat (4 * unat (hi_nibble (t ! 12))) :: UShort)"
    by (simp add: mult.commute)
  then show "visit_get_transport_length (TcpHeader t) = Some (of_nat (length t))"
    using assms by (simp add: TcpPacketLE_get_transport_length_def TcpPacketLE_get_tcp_header_length_def rd_def
        del: of_nat_mult)
  have "int (length t) = uint (hi_nibble (t ! 12)) * 4" using assms(2) [symmetric] by simp
  then have "nat (uint (hi_nibble (t ! 12)) * 4) = length t" by linarith
  then show "transport_view_bytes (TcpHeader t) = Some t" "\<exists>v. TcpPacketView_of_range t 0 (length t) = Some v"
    using assms by (auto simp: TcpPacketLE_to_view_def TcpPacketView_of_range_def TcpPacketView_parse_packet_def
        TcpPacketView_get_tcp_header_length_def TcpPacketView_to_bytes_def rd_def rd_range_def tcp_size_defs)
qed

text \<open>The buffer object made of a plain IPv4 header, a TCP header and a payload, after its checksums were calculated.\<close>

lemma tcp_object_of_parts:
  assumes h: "length h = 20" "h ! 0 = 0x45" and t: "20 \<le> length t" "4 * unat (hi_nibble (t ! 12)) = length t"
    and len: "20 + length t + length payload \<le> 65535"
  shows "\<exists>fp0 fp m. Ipv4TcpPacket_of_parts h t payload = Some fp0 \<and> Ipv4TcpPacket_recalculate_checksums fp0 = Some fp \<and>
    Ipv4TcpPacket_bytes fp = Some m \<and> length m = 20 + length t + length payload \<and>
    (\<forall>i. i \<notin> {10, 11, 36, 37} \<longrightarrow> m ! i = (h @ t @ payload) ! i) \<and>
    checksum_valid (words_sum (take 20 m)) \<and>
    checksum_valid (words_sum (drop 20 m) + words_sum (ip_pseudo_header m)) \<and>
    visit_is_reset (FullTcpPacket fp) = TcpPacketLE_is_reset_connection_packet t \<and>
    plain_tcp_view (length t div 4) (tcpo_views fp) \<and> tcpo_data fp = m"
proof -
  let ?m = "h @ t @ payload" and ?k = "unat (hi_nibble (t ! 12))"
  have at: "?m ! 0 = 0x45" "?m ! 32 = t ! 12" "lo_nibble (?m ! 0) = 5"
    using h t(1) by (simp_all add: nth_append lo_nibble_def)
  have bounds: "40 \<le> length ?m" "length ?m \<le> 65535" "5 \<le> ?k" "20 + 4 * ?k \<le> length ?m"
    using h t len by simp_all
  let ?t = "\<lparr> tcp_header = 20, tcp_options = 40, tcp_options_size = 4 * (int ?k - 5) \<rparr>"
  let ?v = "\<lparr> tcpv_net = \<lparr> ip4_header = 0, ip4_additional_header = 20, ip4_add_header_size = 0 \<rparr>, tcpv_transport = ?t,
    tcpv_payload = DataPacketView_of_range (20 + 4 * ?k) (length ?m) \<rparr>"
  have v: "Ipv4TcpPacket_View_of_range ?m 0 (length ?m) = Some ?v"
    using tcp_view_shape [of ?m] bounds at by simp
  obtain m where m: "Ipv4TcpPacket_View_recalculate_checksums ?v ?m = Some m" "length m = length ?m"
      "\<forall>i. i \<notin> {10, 11, 36, 37} \<longrightarrow> m ! i = ?m ! i" "checksum_valid (words_sum (take 20 m))"
      "checksum_valid (words_sum (drop 20 m) + words_sum (ip_pseudo_header m))"
    using tcp_packet_checksums [OF bounds(1,2) at(3) _ _ v] bounds at(2) by auto
  obtain tv where "TcpPacketView_of_range t 0 (length t) = Some tv" using own_transport_header(3) [OF t] by blast
  then have parts: "Ipv4TcpPacket_of_parts h t payload = Some \<lparr> tcpo_views = ?v, tcpo_data = ?m \<rparr>"
    using v h plain_view_of_header [of h] by (simp add: Ipv4TcpPacket_of_parts_def Ipv4TcpPacket_set_views_def lo_nibble_def)
  have bytes: "Ipv4TcpPacket_bytes \<lparr> tcpo_views = ?v, tcpo_data = m \<rparr> = Some m"
    using m(2) bounds by (simp add: Ipv4TcpPacket_bytes_def Ipv4TcpPacket_View_bytes_def Ipv4PacketView_to_bytes_def
        DataPacketView_to_bytes_def DataPacketView_of_range_def rd_range_def)
  have "m ! 32 = t ! 12" "m ! 33 = t ! 13"
    using m(3) h t(1) by (simp_all add: nth_append)
  then have "visit_is_reset (FullTcpPacket \<lparr> tcpo_views = ?v, tcpo_data = m \<rparr>) = TcpPacketLE_is_reset_connection_packet t"
    using m(2) h t(1) by (simp add: TcpPacketView_is_reset_connection_packet_def TcpPacketLE_is_reset_connection_packet_def
        TcpPacketView_get_tcp_flags_def TcpPacketLE_get_tcp_flags_def rd_def)
  moreover have "length t div 4 = ?k" using t(2) by simp
  then have "plain_tcp_view (length t div 4) ?v" by (simp add: plain_tcp_view_def)
  ultimately show ?thesis using parts bytes m h
    by (intro exI [of _ "\<lparr> tcpo_views = ?v, tcpo_data = ?m \<rparr>"] exI [of _ "\<lparr> tcpo_views = ?v, tcpo_data = m \<rparr>"] exI [of _ m])
      (simp add: Ipv4TcpPacket_recalculate_checksums_def)
qed

lemma sender_packet_tcp:
  assumes p: "net_protocol p = NetProtocol_IPv4" "transport_protocol p = TransportProtocol_TCP"
    and addr: "length (server_local_addr key) = 4" "length (dst_addr p) = 4"
    and t: "TcpPacketLE_generate_proxy_bytes (with_local_port p key) = Some t" "20 \<le> length t"
      "4 * unat (hi_nibble (t ! 12)) = length t"
    and len: "20 + length t + length payload \<le> 65535"
  shows "\<exists>fp g' m. QVPNServerDriver_generate_sender_packet g p key payload = Some (FullTcpPacket fp, g') \<and>
    visit_bytes (FullTcpPacket fp) = Some m \<and> length m = 20 + length t + length payload \<and>
    be16 (m ! 2) (m ! 3) = of_nat (length m) \<and> m ! 9 = TransportProtocol_TCP \<and>
    mslice m 12 4 = server_local_addr key \<and> mslice m 16 4 = dst_addr p \<and>
    (\<forall>i<length t. i \<noteq> 16 \<longrightarrow> i \<noteq> 17 \<longrightarrow> m ! (20 + i) = t ! i) \<and> drop (20 + length t) m = payload \<and>
    checksum_valid (words_sum (take 20 m)) \<and>
    checksum_valid (words_sum (drop 20 m) + words_sum (ip_pseudo_header m)) \<and>
    visit_is_reset (FullTcpPacket fp) = TcpPacketLE_is_reset_connection_packet t \<and>
    plain_tcp_view (length t div 4) (tcpo_views fp) \<and> tcpo_data fp = m"
proof -
  let ?n = "of_nat (length t) + of_nat (length payload) :: UShort"
  have n: "unat ?n = length t + length payload"
    using len unat_of_nat16 [of "length t + length payload"] by simp
  have th: "QVPNServerDriver_generate_transport_header p key = Some (TcpHeader t)"
    using t TcpPacketLE_of_own_bytes [OF t(2,3)]
    by (simp add: transport_header_tcp [OF p(2)] TcpPacketLE_generate_proxy_object_def)
  obtain h g' where h: "QVPNServerDriver_generate_net_header g p key ?n = Some (IPv4Header h, g')" "length h = 20"
      "h ! 0 = 0x45" "be16 (h ! 2) (h ! 3) = of_nat (unat ?n + 20)" "h ! 9 = transport_protocol p"
      "drop 12 h = server_local_addr key @ dst_addr p" "net_view_bytes (IPv4Header h) = Some h"
    using net_header_ipv4 [OF addr p(1), of g ?n] by blast
  obtain fp0 fp m where m: "Ipv4TcpPacket_of_parts h t payload = Some fp0"
      "Ipv4TcpPacket_recalculate_checksums fp0 = Some fp" "Ipv4TcpPacket_bytes fp = Some m"
      "length m = 20 + length t + length payload" "\<forall>i. i \<notin> {10, 11, 36, 37} \<longrightarrow> m ! i = (h @ t @ payload) ! i"
      "checksum_valid (words_sum (take 20 m))" "checksum_valid (words_sum (drop 20 m) + words_sum (ip_pseudo_header m))"
      "visit_is_reset (FullTcpPacket fp) = TcpPacketLE_is_reset_connection_packet t"
      "plain_tcp_view (length t div 4) (tcpo_views fp)" "tcpo_data fp = m"
    using tcp_object_of_parts [OF h(2,3) t(2,3) len] by blast
  have "mslice m 12 8 = drop 12 h"
    by (rule nth_equalityI) (use m(4,5) h(2) in \<open>auto simp: mslice_def nth_append\<close>)
  moreover have "mslice m 12 4 = take 4 (mslice m 12 8)" "mslice m 16 4 = drop 4 (mslice m 12 8)"
    by (simp_all add: mslice_def drop_take)
  ultimately have "mslice m 12 4 = server_local_addr key" "mslice m 16 4 = dst_addr p"
    using h(6) addr by simp_all
  moreover have "drop (20 + length t) m = payload"
    by (rule nth_equalityI) (use m(4,5) h(2) t(2) in \<open>auto simp: nth_append\<close>)
  moreover have "be16 (m ! 2) (m ! 3) = of_nat (length m)" "m ! 9 = TransportProtocol_TCP"
    using m(4,5) h n p(2) by (simp_all add: nth_append ac_simps)
  moreover have "\<forall>i<length t. i \<noteq> 16 \<longrightarrow> i \<noteq> 17 \<longrightarrow> m ! (20 + i) = t ! i"
    using m(5) h(2) by (auto simp: nth_append)
  ultimately show ?thesis
    using th own_transport_header(1,2) [OF t(2,3)] h(1,7) m p(2)
    by (simp add: QVPNServerDriver_generate_sender_packet_def QVPNServerDriver_generate_full_packet_def proxy_get_defs Let_def)
qed

section \<open>The tables of sockets\<close>

text \<open>Keys with addresses of the same lengths are equal for the hash table exactly when they are equal.\<close>

lemma server_key_eq:
  assumes "length (client_local_addr a) = length (client_local_addr b)"
    "length (server_local_addr a) = length (server_local_addr b)" "length (ssd_remote_addr a) = length (ssd_remote_addr b)"
  shows "QVPNServerSocketData_eq a b = Some (a = b)"
  using assms by (cases a; cases b) (auto simp: QVPNServerSocketData_eq_def NetAddr_eq_same_length)

text \<open>A raw socket belongs to a key: it leads to the key's remote endpoint, from the key's local address, with the key's
  protocol.\<close>

definition routed :: "QVPNServerSocketData \<Rightarrow> QVPN_RawSocket \<Rightarrow> bool" where
  "routed k s \<longleftrightarrow> remote_addr (sock_data s) = ssd_remote_addr k \<and> remote_port (sock_data s) = ssd_remote_port k \<and>
     local_addr (sock_data s) = server_local_addr k \<and>
     (ssd_transport_proto k \<in> {TransportProtocol_TCP, TransportProtocol_UDP} \<longrightarrow>
       sd_transport_proto (sock_data s) = ssd_transport_proto k)"

definition table_ok :: "sock_map \<Rightarrow> bool" where
  "table_ok sm \<longleftrightarrow> (\<forall>k p. sm k = Some p \<longrightarrow> routed k (ps_raw_socket p))"

definition server_ok :: "QVPNServerState \<Rightarrow> bool" where
  "server_ok st \<longleftrightarrow> (\<forall>k c p. srv_response_sockets st k = Some (c, p) \<longrightarrow> routed k (ps_raw_socket p))"

text \<open>What connecting does to the tables: nothing, or it adds one socket that belongs to the key.\<close>

lemma connect_result:
  assumes "QVPNServerDriver_connect_to_server_impl sys init rs key rq = Some (key', rq')"
  obtains (same) a where "key' = key\<lparr> server_local_addr := a \<rparr>" "rq_sock_map rq' = rq_sock_map rq"
      "rq_server rq' = rq_server rq"
  | (added) a p where "key' = key\<lparr> server_local_addr := a \<rparr>" "routed key' (ps_raw_socket p)" "rq_sock_map rq key' = None"
      "rq_sock_map rq' = (rq_sock_map rq)(key' \<mapsto> p)"
      "rq_server rq' = (rq_server rq)\<lparr> srv_response_sockets := (if srv_response_sockets (rq_server rq) key' = None
        then (srv_response_sockets (rq_server rq))(key' \<mapsto> (rs, p)) else srv_response_sockets (rq_server rq)) \<rparr>"
proof -
  obtain raw w0 where raw: "QVPNNetTools_create_raw_socket sys (NetAddr_get_addr_family (ssd_remote_addr key))
      (ssd_transport_proto key) (rq_world rq) = (raw, w0)" by fastforce
  obtain sh w1 where sh: "QVPNNetTools_create_socket sys (NetAddr_get_addr_family (ssd_remote_addr key))
      (ssd_transport_proto key) w0 = (sh, w1)" by fastforce
  note tr = raw_socket_created [OF raw]
  have key: "key = key\<lparr> server_local_addr := server_local_addr key \<rparr>" by simp
  let ?w = "QVPN_RawSocket_apply_settings sys raw (QVPNSocketSettings_of True 1000000) w1"
  note con = assms [unfolded QVPNServerDriver_connect_to_server_impl_def Let_def raw sh prod.case]
  consider (early) "key' = key" "rq' = rq\<lparr> rq_world := rq_world rq' \<rparr>"
    | (connected) bs raw1 w2 cs raw2 w3 where
        "QVPN_RawSocket_bind sys raw NetAddr_default (ssd_local_port key) ?w = Some ((bs, raw1), w2)"
        "QVPN_RawSocket_connect sys raw1 (ssd_remote_addr key) (ssd_remote_port key) w2 = Some ((cs, raw2), w3)"
    using con by (auto simp: bind_eq_Some_conv split: if_splits)
  then show thesis
  proof cases
    case early
    then show thesis using same [of "server_local_addr key"] arg_cong [OF early(2), of rq_server]
        arg_cong [OF early(2), of rq_sock_map] by simp
  next
    case (connected bs raw1 w2 cs raw2 w3)
    let ?k = "key\<lparr> server_local_addr := local_addr (sock_data raw2) \<rparr>"
    show thesis
    proof (cases "rq' = rq\<lparr> rq_world := rq_world rq' \<rparr>")
      case True
      moreover have "key' = key \<or> key' = ?k"
        using con connected by (auto simp: bind_eq_Some_conv QVPN_RawSocket_get_local_addr_def split: if_splits)
      moreover have "rq_sock_map rq' = rq_sock_map rq" "rq_server rq' = rq_server rq"
        using arg_cong [OF True, of rq_server] arg_cong [OF True, of rq_sock_map] by simp_all
      ultimately show thesis using same key by metis
    next
      case False
      then have "key' = ?k" "ns_success cs" "rq_sock_map rq ?k = None"
        "rq_sock_map rq' = (rq_sock_map rq)(?k \<mapsto> \<lparr> ps_socket = sh, ps_raw_socket = raw2 \<rparr>)"
        "rq_server rq' = QVPNServerDriver_add_to_response_socket_map (rq_server rq) rs raw2 sh ?k"
        using con connected by (auto simp: bind_eq_Some_conv QVPN_RawSocket_get_local_addr_def split: if_splits)
      moreover from this(2) have "routed ?k raw2"
        using raw.bound_and_connected [OF connected] tr by (auto simp: routed_def)
      ultimately show thesis
        using added [of "local_addr (sock_data raw2)" "\<lparr> ps_socket = sh, ps_raw_socket = raw2 \<rparr>"]
        by (simp add: QVPNServerDriver_add_to_response_socket_map_def)
    qed
  qed
qed

lemma connect_keeps:
  assumes "QVPNServerDriver_connect_to_server_impl sys init rs key rq = Some (key', rq')"
  shows "(\<exists>a. key' = key\<lparr> server_local_addr := a \<rparr>) \<and> srv_driver (rq_server rq') = srv_driver (rq_server rq) \<and>
    srv_ip4_strategy (rq_server rq') = srv_ip4_strategy (rq_server rq)"
  using assms by (cases rule: connect_result) auto

lemma connect_ok:
  assumes "QVPNServerDriver_connect_to_server_impl sys init rs key rq = Some (key', rq')"
    and "table_ok (rq_sock_map rq)" "server_ok (rq_server rq)"
  shows "table_ok (rq_sock_map rq') \<and> server_ok (rq_server rq')"
  using assms(1)
proof (cases rule: connect_result)
  case (same a)
  then show ?thesis using assms(2,3) by simp
next
  case (added a p)
  then show ?thesis using assms(2,3) by (auto simp: table_ok_def server_ok_def split: if_splits)
qed

section \<open>Requests and responses keep the tables in order\<close>

lemma drop_ok: "server_ok st \<Longrightarrow> server_ok (QVPNServerDriver_drop_response_socket st key)"
  by (simp add: server_ok_def QVPNServerDriver_drop_response_socket_def)

lemma server_ok_update [simp]:
  "server_ok (st\<lparr> srv_driver := d \<rparr>) = server_ok st" "server_ok (st\<lparr> srv_ip4_strategy := g \<rparr>) = server_ok st"
  by (simp_all add: server_ok_def)

lemma process_object_ok:
  assumes "QVPNServerDriver_process_object sys order init cs m b e rq = Some (ex, rq')"
    and ok: "table_ok (rq_sock_map rq)" "server_ok (rq_server rq)"
  shows "table_ok (rq_sock_map rq') \<and> server_ok (rq_server rq')"
proof -
  obtain d drv where d: "QVPNServerDriver_decode_data order (srv_driver (rq_server rq)) m b e = Some (d, drv)"
    using assms(1) by (auto simp: QVPNServerDriver_process_object_def bind_eq_Some_conv)
  let ?rq = "rq\<lparr> rq_server := (rq_server rq)\<lparr> srv_driver := drv \<rparr> \<rparr>"
  have ok': "table_ok (rq_sock_map ?rq)" "server_ok (rq_server ?rq)" using ok by simp_all
  show ?thesis
  proof (cases d)
    case None
    then show ?thesis using assms(1) d ok' by (auto simp: QVPNServerDriver_process_object_def)
  next
    case (Some x)
    with assms(1) d obtain key key' rq1 where c:
      "QVPNServerDriver_connect_to_server_impl sys init cs key ?rq = Some (key', rq1)"
      "rq_sock_map rq' = rq_sock_map rq1" "server_ok (rq_server rq1) \<Longrightarrow> server_ok (rq_server rq')"
      by (auto simp: QVPNServerDriver_process_object_def Let_def bind_eq_Some_conv case_prod_beta drop_ok
          split: option.splits if_splits)
    show ?thesis using connect_ok [OF c(1) ok'] c(2,3) by simp
  qed
qed

lemma process_objects_ok:
  assumes "QVPNServerDriver_process_objects sys order init cs sr is rq = Some (r, rq')"
    and "table_ok (rq_sock_map rq)" "server_ok (rq_server rq)"
  shows "table_ok (rq_sock_map rq') \<and> server_ok (rq_server rq')"
  using assms
proof (induction sys order init cs sr "is" rq rule: QVPNServerDriver_process_objects.induct)
  case (2 sys order init cs sr i "is" rq)
  from "2.prems"(1) obtain b e ex rq1 where 1: "SafeReceiveData_get_object_bytes sr i = Some (b, e)"
      "QVPNServerDriver_process_object sys order init cs (sr_data sr) b e rq = Some (ex, rq1)"
    by (auto simp: bind_eq_Some_conv)
  note ok = process_object_ok [OF 1(2) "2.prems"(2,3)]
  show ?case
  proof (cases ex)
    case (Return r')
    then show ?thesis using "2.prems"(1) 1 ok by simp
  next
    case Continue
    then show ?thesis using "2.IH" [OF 1(1) refl 1(2) refl Continue] "2.prems"(1) 1 ok by simp
  qed
qed simp

lemma request_iteration_ok:
  assumes "QVPNServerDriver_vpn_request_loop_iteration sys order init cs rq = Some (r, rq')"
    and "table_ok (rq_sock_map rq)" "server_ok (rq_server rq)"
  shows "table_ok (rq_sock_map rq') \<and> server_ok (rq_server rq')"
proof -
  obtain sr w where "QVPN_Socket_safe_recv_in sys TLS13_RecordLE_bytes_parse cs (rq_world rq) = Some (sr, w)"
    using assms(1) by (auto simp: QVPNServerDriver_vpn_request_loop_iteration_def bind_eq_Some_conv)
  with assms(1) show ?thesis
    using process_objects_ok [of sys order init cs sr _ "rq\<lparr> rq_world := w \<rparr>" r rq'] assms(2,3)
    by (auto simp: QVPNServerDriver_vpn_request_loop_iteration_def Let_def split: if_splits)
qed

lemma response_iteration_ok:
  assumes "QVPNServerDriver_vpn_response_loop_iteration sys s key m b e st w = Some (st', w')" "server_ok st"
  shows "server_ok st' \<and> (\<forall>k x. srv_response_sockets st' k = Some x \<longrightarrow> srv_response_sockets st k = Some x)"
  using assms by (auto simp: QVPNServerDriver_vpn_response_loop_iteration_def Let_def bind_eq_Some_conv case_prod_beta
      server_ok_def QVPNServerDriver_drop_response_socket_def split: if_splits)

lemma response_pass_ok:
  assumes "QVPNServerDriver_listen_response_sockets sys keys st w = Some (st', w')" "server_ok st"
  shows "server_ok st'"
  using assms
proof (induction sys keys st w rule: QVPNServerDriver_listen_response_sockets.induct)
  case (2 sys key keys st w)
  show ?case
  proof (cases "srv_response_sockets st key")
    case None
    then show ?thesis using 2 by simp
  next
    case (Some x)
    obtain rs sock where x: "x = (rs, sock)" by fastforce
    obtain rd w1 where r: "QVPN_RawSocket_receive sys (ps_raw_socket sock) w = (rd, w1)" by fastforce
    show ?thesis
    proof (cases "ns_success (rcv_status rd)")
      case True
      with "2.prems"(1) Some x r obtain st1 w2 where
        1: "QVPNServerDriver_vpn_response_loop_iteration sys rs key (rcv_data rd) 0 (nat (rcv_size rd)) st w1 = Some (st1, w2)"
        and 2: "QVPNServerDriver_listen_response_sockets sys keys st1 w2 = Some (st', w')"
        by (auto simp: bind_eq_Some_conv)
      show ?thesis using "2.IH" Some x r True 1 2 response_iteration_ok [OF 1 "2.prems"(2)] by auto
    next
      case False
      then show ?thesis using "2.IH" "2.prems" Some x r by auto
    qed
  qed
qed simp

section \<open>The running server\<close>

text \<open>The threads of the server: any number of clients, each with its socket and its table, and the thread of the
  responses.  Each step is one round of a loop, taken as a whole.  A client whose round returns false is gone.\<close>

record 'w server_config =
  cfg_server :: QVPNServerState
  cfg_clients :: "nat \<rightharpoonup> QVPN_Socket \<times> sock_map"
  cfg_world :: 'w

inductive server_step :: "'w sys \<Rightarrow> key_order \<Rightarrow> filter_key \<Rightarrow> 'w server_config \<Rightarrow> 'w server_config \<Rightarrow> bool"
  for sys order init where
  accept: "cfg_clients c i = None \<Longrightarrow>
    server_step sys order init c (c\<lparr> cfg_clients := (cfg_clients c)(i \<mapsto> (s, Map.empty)), cfg_world := w \<rparr>)"
| request: "cfg_clients c i = Some (s, sm) \<Longrightarrow>
    QVPNServerDriver_vpn_request_loop_iteration sys order init s
      \<lparr> rq_server = cfg_server c, rq_sock_map = sm, rq_world = cfg_world c \<rparr> = Some (r, rq) \<Longrightarrow>
    server_step sys order init c (c\<lparr> cfg_server := rq_server rq, cfg_world := rq_world rq,
      cfg_clients := (cfg_clients c)(i := (if r then Some (s, rq_sock_map rq) else None)) \<rparr>)"
| response: "QVPNServerDriver_listen_response_sockets sys keys (cfg_server c) (cfg_world c) = Some (st, w) \<Longrightarrow>
    server_step sys order init c (c\<lparr> cfg_server := st, cfg_world := w \<rparr>)"

inductive_cases server_stepE: "server_step sys order init c c'"

abbreviation reaches :: "'w sys \<Rightarrow> key_order \<Rightarrow> filter_key \<Rightarrow> 'w server_config \<Rightarrow> 'w server_config \<Rightarrow> bool" where
  "reaches sys order init \<equiv> (server_step sys order init)\<^sup>*\<^sup>*"

definition config_ok :: "'w server_config \<Rightarrow> bool" where
  "config_ok c \<longleftrightarrow> server_ok (cfg_server c) \<and> (\<forall>i s sm. cfg_clients c i = Some (s, sm) \<longrightarrow> table_ok sm)"

lemma step_ok: "server_step sys order init c c' \<Longrightarrow> config_ok c \<Longrightarrow> config_ok c'"
proof (induction rule: server_step.induct)
  case (request c i s sm r rq)
  then show ?case using request_iteration_ok [OF request.hyps(2)] by (auto simp: config_ok_def)
next
  case (response keys c st w)
  then show ?case using response_pass_ok [OF response.hyps] by (simp add: config_ok_def)
qed (auto simp: config_ok_def table_ok_def)

lemma reaches_ok: "reaches sys order init c c' \<Longrightarrow> config_ok c \<Longrightarrow> config_ok c'"
  by (induction rule: rtranclp_induct) (auto intro: step_ok)

definition fresh_config :: "QVPNVerboser \<Rightarrow> QVPNDriver \<Rightarrow> 'w \<Rightarrow> 'w server_config" where
  "fresh_config vb d w = \<lparr> cfg_server = \<lparr> srv_driver = d, srv_ip4_strategy = IPv4DefaultGenStrategy_new,
     srv_response_sockets = Map.empty, srv_verboser = vb \<rparr>, cfg_clients = Map.empty, cfg_world = w \<rparr>"

lemma fresh_config_ok: "config_ok (fresh_config vb d w)"
  by (simp add: fresh_config_def config_ok_def server_ok_def)

section \<open>Where replies go\<close>

text \<open>The first client that uses a key gets the replies: connecting again with the same key, for whatever client, leaves
  its entry alone.\<close>

lemma response_entry_kept:
  assumes "QVPNServerDriver_connect_to_server_impl sys init rs key rq = Some (key', rq')"
    and "srv_response_sockets (rq_server rq) k = Some x"
  shows "srv_response_sockets (rq_server rq') k = Some x"
  using assms(1)
proof (cases rule: connect_result)
  case (added a p)
  then show ?thesis using assms(2) by (cases "k = key'") auto
qed (use assms(2) in simp)

text \<open>A key whose socket is in the client's table is never put back into the table of responses.\<close>

lemma known_key_not_added:
  assumes "QVPNServerDriver_connect_to_server_impl sys init rs key rq = Some (key', rq')"
    and "rq_sock_map rq key' \<noteq> None"
  shows "rq_server rq' = rq_server rq"
  using assms(1) by (cases rule: connect_result) (use assms(2) in simp_all)

text \<open>The loop over the objects of one receive ends with the first that completes no packet.\<close>

lemma objects_after_part_dropped:
  assumes "SafeReceiveData_get_object_bytes sr i = Some (b, e)"
    and "QVPNServerDriver_decode_data order (srv_driver (rq_server rq)) (sr_data sr) b e = Some (None, drv)"
  shows "QVPNServerDriver_process_objects sys order init cs sr (i # is) rq =
    Some (True, rq\<lparr> rq_server := (rq_server rq)\<lparr> srv_driver := drv \<rparr> \<rparr>)"
  using assms by (simp add: QVPNServerDriver_process_object_def)

section \<open>A request through the server\<close>

text \<open>A packet that carries a TCP header \<open>t\<close> (up to its checksum) and a payload from \<open>src\<close> to the destination of a proxy
  block, with its length and both checksums right.\<close>

definition tcp_packet_carries :: "bytes \<Rightarrow> NetAddr \<Rightarrow> NetAddr \<Rightarrow> bytes \<Rightarrow> bytes \<Rightarrow> bool" where
  "tcp_packet_carries m src dst t payload \<longleftrightarrow> length m = 20 + length t + length payload \<and>
     be16 (m ! 2) (m ! 3) = of_nat (length m) \<and> m ! 9 = TransportProtocol_TCP \<and>
     mslice m 12 4 = src \<and> mslice m 16 4 = dst \<and>
     (\<forall>i<length t. i \<noteq> 16 \<longrightarrow> i \<noteq> 17 \<longrightarrow> m ! (20 + i) = t ! i) \<and> drop (20 + length t) m = payload \<and>
     checksum_valid (words_sum (take 20 m)) \<and>
     checksum_valid (words_sum (drop 20 m) + words_sum (ip_pseudo_header m))"

lemma tcp_parts_shape:
  assumes h: "length h = 20" "h ! 0 = 0x45" and t: "20 \<le> length t" "4 * unat (hi_nibble (t ! 12)) = length t"
  shows "Ipv4TcpPacket_of_parts h t payload = Some \<lparr> tcpo_views =
      \<lparr> tcpv_net = \<lparr> ip4_header = 0, ip4_additional_header = 20, ip4_add_header_size = 0 \<rparr>,
        tcpv_transport = \<lparr> tcp_header = 20, tcp_options = 40, tcp_options_size = int (length t) - 20 \<rparr>,
        tcpv_payload = DataPacketView_of_range (20 + length t) (20 + (length t + length payload)) \<rparr>,
      tcpo_data = h @ t @ payload \<rparr>"
proof -
  let ?m = "h @ t @ payload"
  have at: "?m ! 32 = t ! 12" "lo_nibble (?m ! 0) = 5" "5 \<le> unat (hi_nibble (t ! 12))" "40 \<le> length ?m"
    using h t by (simp_all add: nth_append lo_nibble_def)
  obtain k where k: "unat (hi_nibble (t ! 12)) = k" by blast
  then have len: "4 * (int (unat (hi_nibble (t ! 12))) - 5) = int (length t) - 20" using arg_cong [OF t(2), of int] unfolding k by simp
  obtain tv where "TcpPacketView_of_range t 0 (length t) = Some tv" using own_transport_header(3) [OF t] by blast
  then show ?thesis
    using tcp_view_shape [OF at(4,2)] at(1,3) h t(2) len plain_view_of_header [of h]
    by (simp add: Ipv4TcpPacket_of_parts_def Ipv4TcpPacket_set_views_def lo_nibble_def)
qed

lemma carries_from_parts:
  assumes h: "length h = 20" "h ! 0 = 0x45" "h ! 9 = TransportProtocol_TCP" "drop 12 h = src @ dst"
    and t: "20 \<le> length t"
    and m: "length m = 20 + length t + length payload" "\<forall>i. i \<notin> {10, 11, 36, 37} \<longrightarrow> m ! i = (h @ t @ payload) ! i"
    and l: "be16 (h ! 2) (h ! 3) = of_nat (20 + length t + length payload)"
    and addr: "length src = 4" "length dst = 4"
    and c: "checksum_valid (words_sum (take 20 m))" "checksum_valid (words_sum (drop 20 m) + words_sum (ip_pseudo_header m))"
  shows "tcp_packet_carries m src dst t payload"
proof -
  have "mslice m 12 8 = drop 12 h"
    by (rule nth_equalityI) (use m h(1) in \<open>auto simp: mslice_def nth_append\<close>)
  moreover have "mslice m 12 4 = take 4 (mslice m 12 8)" "mslice m 16 4 = drop 4 (mslice m 12 8)"
    by (simp_all add: mslice_def drop_take)
  ultimately have "mslice m 12 4 = src" "mslice m 16 4 = dst" using h(4) addr by simp_all
  moreover have "drop (20 + length t) m = payload"
    by (rule nth_equalityI) (use m h(1) t in \<open>auto simp: nth_append\<close>)
  moreover have "be16 (m ! 2) (m ! 3) = of_nat (length m)" "m ! 9 = TransportProtocol_TCP"
    using m h(1,3) l by (simp_all add: nth_append)
  moreover have "\<forall>i<length t. i \<noteq> 16 \<longrightarrow> i \<noteq> 17 \<longrightarrow> m ! (20 + i) = t ! i"
    using m(2) h(1) by (auto simp: nth_append)
  ultimately show ?thesis using m(1) c by (simp add: tcp_packet_carries_def)
qed

definition request_key :: "QTunnelProxy \<Rightarrow> QVPNServerSocketData" where
  "request_key px = \<lparr> ssd_net_proto = net_protocol px, ssd_transport_proto = transport_protocol px,
     client_local_addr = source_addr px, server_local_addr = NetAddr_default, ssd_local_port = source_port px,
     ssd_remote_addr = dst_addr px, ssd_remote_port = dst_port px \<rparr>"

lemma QTunnelProxy_create_id [simp]: "QTunnelProxy_create p = p"
  by (simp add: QTunnelProxy_create_def QTunnelProxy_of_def proxy_get_defs QTunnelProtoData_of_range_def)

lemma delivered_parts [simp]: "QTunnelProxy.truncate (delivered px payload) = px" "raw_data (delivered px payload) = payload"
  by (simp_all add: delivered_def QTunnelProxy.defs)

text \<open>The options of a packet that carries a header are those of the header.\<close>

lemma carried_options:
  assumes "tcp_packet_carries m src dst t payload"
  shows "mslice m 40 (length t - 20) = drop 20 t"
proof -
  have carried: "\<forall>i<length t. i \<noteq> 16 \<longrightarrow> i \<noteq> 17 \<longrightarrow> m ! (20 + i) = t ! i"
    using assms unfolding tcp_packet_carries_def by blast
  have "m ! (20 + (20 + i)) = t ! (20 + i)" if "i < length t - 20" for i
    using carried [rule_format, of "20 + i"] that by simp
  moreover have "length m = 20 + length t + length payload" using assms by (simp add: tcp_packet_carries_def)
  ultimately show ?thesis by (intro nth_equalityI) (auto simp: mslice_def)
qed

lemma carried_printed:
  assumes "tcp_packet_carries m src dst t payload" "plain_tcp_view (length t div 4) v" "20 \<le> length t"
    "4 * unat (hi_nibble (t ! 12)) = length t" "options_ok (drop 20 t)"
  shows "printed (Ipv4TcpPacket_View_to_packet_friendly_view vb v m) = Some ()"
proof -
  have k: "5 \<le> length t div 4" "4 * (length t div 4) = length t" using assms(3,4) by presburger+
  have "20 + 4 * (length t div 4) \<le> length m" using assms(1) k(2) by (simp add: tcp_packet_carries_def)
  then show ?thesis using tcp_view_printed [OF assms(2) k(1)] carried_options [OF assms(1)] assms(5) by (simp add: k(2))
qed

lemma process_object_forwards:
  assumes dec: "QVPNServerDriver_decode_data order (srv_driver (rq_server rq)) m b e = Some (Some (delivered px payload), drv)"
    and con: "QVPNServerDriver_connect_to_server_impl sys init cs (request_key px)
        (rq\<lparr> rq_server := (rq_server rq)\<lparr> srv_driver := drv \<rparr> \<rparr>) = Some (key, rq1)"
      "rq_sock_map rq1 key = Some p"
    and px: "net_protocol px = NetProtocol_IPv4" "transport_protocol px = TransportProtocol_TCP"
      "length (server_local_addr key) = 4" "length (dst_addr px) = 4"
    and t: "TcpPacketLE_generate_proxy_bytes px = Some t" "20 \<le> length t" "4 * unat (hi_nibble (t ! 12)) = length t"
      "20 + length t + length payload \<le> 65535" "options_ok (drop 20 t)"
  shows "\<exists>pkt ex rq'. QVPNServerDriver_process_object sys order init cs m b e rq = Some (ex, rq') \<and> ex \<noteq> Return False \<and>
    tcp_packet_carries pkt (server_local_addr key) (dst_addr px) t payload \<and>
    rq_world rq' = snd (QVPN_RawSocket_send sys (ps_raw_socket p) pkt (rq_world rq1)) \<and> rq_sock_map rq' = rq_sock_map rq1"
proof -
  obtain a where key: "key = (request_key px)\<lparr> server_local_addr := a \<rparr>" using connect_keeps [OF con(1)] by blast
  have port: "with_local_port px key = px" by (simp add: with_local_port_def key request_key_def)
  let ?g = "srv_ip4_strategy (rq_server rq1)"
  obtain fp g' pkt where pkt: "QVPNServerDriver_generate_sender_packet ?g px key payload = Some (FullTcpPacket fp, g')"
      "visit_bytes (FullTcpPacket fp) = Some pkt" "tcp_packet_carries pkt (server_local_addr key) (dst_addr px) t payload"
      "visit_is_reset (FullTcpPacket fp) = TcpPacketLE_is_reset_connection_packet t"
      "plain_tcp_view (length t div 4) (tcpo_views fp)" "tcpo_data fp = pkt"
    using sender_packet_tcp [of px key t payload ?g] px t(1-4) port unfolding tcp_packet_carries_def by metis
  have prints: "printed (visit_object_to_packet_friendly_view vb (FullTcpPacket fp)) = Some ()" for vb
    using carried_printed [OF pkt(3,5) t(2,3,5)] pkt(6) by (simp add: Ipv4TcpPacket_to_packet_friendly_view_def)
  have "\<exists>r. TcpPacketLE_is_reset_connection_packet t = Some r"
    using t(2) by (simp add: TcpPacketLE_is_reset_connection_packet_def TcpPacketLE_get_tcp_flags_def rd_def)
  then obtain r where r: "visit_is_reset (FullTcpPacket fp) = Some r" using pkt(4) by auto
  obtain st w where s: "QVPN_RawSocket_send sys (ps_raw_socket p) pkt (rq_world rq1) = (st, w)" by fastforce
  have k: "\<lparr> ssd_net_proto = net_protocol px, ssd_transport_proto = transport_protocol px,
     client_local_addr = source_addr px, server_local_addr = NetAddr_default, ssd_local_port = source_port px,
     ssd_remote_addr = dst_addr px, ssd_remote_port = dst_port px \<rparr> = request_key px" by (simp add: request_key_def)
  let ?rq = "rq1\<lparr> rq_server := (rq_server rq1)\<lparr> srv_ip4_strategy := g' \<rparr>, rq_world := w \<rparr>"
  let ?fin = "if \<not> ns_success st then (Return True, ?rq) else if r
    then (Return True, ?rq\<lparr> rq_server := QVPNServerDriver_drop_response_socket (rq_server ?rq) key \<rparr>) else (Continue, ?rq)"
  have "QVPNServerDriver_process_object sys order init cs m b e rq = Some ?fin"
    unfolding QVPNServerDriver_process_object_def Let_def proxy_get_defs delivered_parts k QTunnelProxy_create_id
      QTunnelData_get_raw_data_def
    using dec con pkt(1,2) r s prints
    by (simp add: k proxy_get_defs del: visit_bytes.simps visit_is_reset.simps visit_object_to_packet_friendly_view.simps)
  moreover have "rq_world (snd ?fin) = w" "rq_sock_map (snd ?fin) = rq_sock_map rq1" "fst ?fin \<noteq> Return False" by simp_all
  ultimately show ?thesis using pkt(3) s by (metis prod.collapse snd_conv)
qed

section \<open>A reply through the server\<close>

text \<open>A TCP packet as a raw socket delivers it: version 4, no IP options, a data offset inside the packet and no reserved
  bits.\<close>

definition tcp_reply :: "bytes \<Rightarrow> nat \<Rightarrow> bool" where
  "tcp_reply m k \<longleftrightarrow> 40 \<le> length m \<and> length m \<le> 65535 \<and> m ! 0 = 0x45 \<and> m ! 9 = TransportProtocol_TCP \<and>
     unat (hi_nibble (m ! 32)) = k \<and> 5 \<le> k \<and> 20 + 4 * k \<le> length m \<and> m ! 32 AND 0x0F = 0"

text \<open>The bytes behind the packet are what the buffer held before.\<close>

lemma reply_parsed:
  assumes ok: "tcp_reply m k"
  defines "t \<equiv> \<lparr> tcp_header = 20, tcp_options = 40, tcp_options_size = 4 * (int k - 5) \<rparr>"
  shows "PacketPreParser_pre_parse (m @ rest) 0 (length m) = Some (TcpPacketOf \<lparr>
      tcpv_net = \<lparr> ip4_header = 0, ip4_additional_header = 20, ip4_add_header_size = 0 \<rparr>, tcpv_transport = t,
      tcpv_payload = DataPacketView_of_range (20 + 4 * k) (length m) \<rparr>)"
    "TcpPacketView_valid t (m @ rest)" "TcpPacketView_to_view t (m @ rest) = Some t"
proof -
  have m: "40 \<le> length m" "lo_nibble (m ! 0) = 5" "5 \<le> unat (hi_nibble (m ! 32))" "m ! 0 = 0x45" "m ! 9 = TransportProtocol_TCP"
    "unat (hi_nibble (m ! 32)) = k" "20 + 4 * k \<le> length m"
    using ok by (auto simp: tcp_reply_def lo_nibble_def)
  have rd: "rd (m @ rest) i = rd m i" if "i < 40" for i
    using that m(1) by (simp add: rd_def nth_append)
  have "Ipv4TcpPacket_View_of_range (m @ rest) 0 (length m) = Ipv4TcpPacket_View_of_range m 0 (length m)"
    using m(1,2) by (simp add: Ipv4TcpPacket_View_of_range_def Ipv4PacketView_of_range_def Ipv4PacketView_parse_packet_def
        Ipv4PacketView_get_ip_header_length_def rd ip_size_defs Ipv4PacketView_get_size_def ip4_header_size_def
        TcpPacketView_of_range_def TcpPacketView_parse_packet_def TcpPacketView_get_tcp_header_length_def)
      (simp add: rd_def ip_size_defs rd nth_append)
  then have "Ipv4TcpPacket_View_of_range (m @ rest) 0 (length m) = Some \<lparr>
      tcpv_net = \<lparr> ip4_header = 0, ip4_additional_header = 20, ip4_add_header_size = 0 \<rparr>, tcpv_transport = t,
      tcpv_payload = DataPacketView_of_range (20 + 4 * k) (length m) \<rparr>"
    using tcp_view_shape [OF m(1-3)] m(6) by (simp add: t_def)
  moreover have "rd (m @ rest) 0 = Some 0x45" "rd (m @ rest) 9 = Some 6"
    using m by (simp_all add: rd) (simp_all add: rd_def protocol_defs del: length_greater_0_conv)
  moreover have "\<exists>v. Ipv4PacketView_of_range (m @ rest) 0 (length m) = Some v \<and> ip4_header v = 0"
    using m(1) by (auto simp: Ipv4PacketView_of_range_def Ipv4PacketView_parse_packet_def
        Ipv4PacketView_get_ip_header_length_def rd ip_size_defs) (auto simp: rd_def)
  ultimately show "PacketPreParser_pre_parse (m @ rest) 0 (length m) = Some (TcpPacketOf \<lparr>
      tcpv_net = \<lparr> ip4_header = 0, ip4_additional_header = 20, ip4_add_header_size = 0 \<rparr>, tcpv_transport = t,
      tcpv_payload = DataPacketView_of_range (20 + 4 * k) (length m) \<rparr>)"
    by (auto simp: PacketPreParser_pre_parse_def PacketPreParser_pre_parse_ipv4_def protocol_defs
        Ipv4PacketView_get_ip_protocol_def)
  show "TcpPacketView_valid t (m @ rest)" using m by (auto simp: TcpPacketView_valid_def t_def)
  have "uint (hi_nibble (m ! 32)) = int k" using m(6) [symmetric] by simp
  then show "TcpPacketView_to_view t (m @ rest) = Some t"
    using m(1,6) by (simp add: TcpPacketView_to_view_def TcpPacketView_to_bytes_def TcpPacketView_of_range_def
        TcpPacketView_parse_packet_def TcpPacketView_get_tcp_header_length_def rd tcp_size_defs t_def)
      (simp add: rd_def)
qed

lemma reply_proxy:
  assumes ok: "tcp_reply m k" and key: "length (client_local_addr key) = 4"
    and v: "PacketPreParser_pre_parse (m @ rest) 0 (length m) = Some v"
  shows "\<exists>px. response_proxy (m @ rest) v key = Some px \<and> proxy_wf px \<and> proxy_len px = 11 + 4 * k \<and>
    transport_protocol px = TransportProtocol_TCP \<and> source_addr px = mslice m 12 4 \<and>
    source_port px = be16 (m ! 20) (m ! 21) \<and> dst_addr px = client_local_addr key \<and> dst_port px = ssd_local_port key \<and>
    TcpPacketLE_generate_proxy_bytes px = Some (mslice m 20 2 @ be16_bytes (ssd_local_port key) @
      mslice m 24 12 @ [0, 0] @ mslice m 38 (4 * k - 18))"
proof -
  let ?m = "m @ rest" and ?n = "4 * (k - 5)"
  let ?t = "\<lparr> tcp_header = 20, tcp_options = 40, tcp_options_size = 4 * (int k - 5) \<rparr>"
  let ?h = "mslice ?m 20 (20 + ?n)"
  note p = reply_parsed [OF ok, of rest]
  have m: "40 \<le> length m" "5 \<le> k" "20 + 4 * k \<le> length m" "m ! 32 AND 0x0F = 0" "unat (hi_nibble (m ! 32)) = k"
      "m ! 0 = 0x45" "m ! 9 = TransportProtocol_TCP" "k < 16"
    using ok hi_nibble_less [of "m ! 32"] by (auto simp: tcp_reply_def)
  have n: "?n = nat (tcp_options_size ?t)" "?n \<le> 40" using m by auto
  have k: "20 + ?n = 4 * k" using m(2) by simp
  have h: "?h = mslice m 20 (4 * k)" "length ?h = 4 * k" unfolding k using m by (simp_all add: mslice_def)
  have h12: "?h ! 12 = m ! 32" using m by (simp add: h(1) mslice_def)
  obtain pd where pd: "QTunnelTCPViewScheme_generate_object_bytes ?t ?m = Some pd" "length pd = 17 + ?n"
      "take 2 pd = be16_bytes (15 + of_nat ?n)"
    using TcpPacketView_scheme_eq [OF p(2) n(1) refl refl] h(2) m(2) by auto
  let ?px = "\<lparr> net_protocol = 4, transport_protocol = TransportProtocol_TCP, source_addr = mslice m 12 4,
    source_port = be16 (m ! 20) (m ! 21), dst_addr = client_local_addr key, dst_port = ssd_local_port key, proto_data = pd \<rparr>"
  have rd: "rd ?m i = Some (m ! i)" if "i < 40" for i using that m(1) by (simp add: rd_def nth_append)
  have v': "v = TcpPacketOf \<lparr> tcpv_net = \<lparr> ip4_header = 0, ip4_additional_header = 20, ip4_add_header_size = 0 \<rparr>,
      tcpv_transport = ?t, tcpv_payload = DataPacketView_of_range (20 + 4 * k) (length m) \<rparr>"
    using v p(1) by simp
  have hi: "hi_nibble (0x45 :: 8 word) = 4" by (simp add: hi_nibble_def)
  have "response_proxy ?m v key = Some ?px"
    unfolding v' using p(3) pd(1) rd [of 0] rd [of 9] rd [of 20] rd [of 21] m
    by (simp add: response_proxy_def Ipv4TcpPacket_View_collect_proto_data_def QTunnelProtoData_of_range_def
        Ipv4PacketView_get_protocol_version_def Ipv4PacketView_get_ip_version_def Ipv4PacketView_get_transport_protocol_def
        Ipv4PacketView_get_ip_protocol_def Ipv4PacketView_get_src_addr_def TcpPacketView_get_src_port_def
        TcpPacketView_get_tcp_src_port_def rd16_def QTunnelProxy_of_def rd_range_def mslice_def hi)
  moreover have "proxy_wf ?px"
  proof -
    have "(15 + of_nat ?n :: UShort) = of_nat (length pd - 2)" using pd(2) by simp
    then show ?thesis using key pd(2,3) n(2) m(1) by (simp add: proxy_wf_def protocol_defs mslice_def)
  qed
  moreover have "proxy_len ?px = 11 + 4 * k" using pd(2) m(2) by (simp add: proxy_len_def)
  moreover have "TcpPacketLE_generate_proxy_bytes ?px = Some (be16_bytes (be16 (m ! 20) (m ! 21)) @
      be16_bytes (ssd_local_port key) @ take 12 (drop 4 ?h) @ [0, 0] @ drop 18 ?h)"
    using tcp_header_through_proxy [OF p(2) n refl, of ?px] h12 m(4) pd(1) by simp
  moreover have "be16_bytes (be16 (m ! 20) (m ! 21)) = mslice m 20 2" "take 12 (drop 4 ?h) = mslice m 24 12"
    "drop 18 ?h = mslice m 38 (4 * k - 18)"
    using m(1-3) by (simp_all add: be16_bytes_def) (auto simp: mslice_def list_eq_iff_nth_eq nth_Cons' less_Suc_eq numeral_2_eq_2)
  ultimately show ?thesis by (intro exI [of _ ?px]) simp
qed

text \<open>A reply goes to the socket of the client in one record, whose receiver gets the reply's bytes in the client's own
  terms.\<close>

definition reply_header :: "bytes \<Rightarrow> nat \<Rightarrow> QVPNServerSocketData \<Rightarrow> bytes" where
  "reply_header m k key = mslice m 20 2 @ be16_bytes (ssd_local_port key) @ mslice m 24 12 @ [0, 0] @ mslice m 38 (4 * k - 18)"

lemma send_one_part:
  "QVPNServerDriver_send_parts sys s [x] w = snd (QVPN_Socket_send sys s x w)"
  by (simp add: QVPNServerDriver_base_send_data_def case_prod_beta)

text \<open>The record for a payload is ten bytes longer than the payload and its proxy block.\<close>

lemma whole_record_length:
  assumes "quiet_only (drv_layers d)" "proxy_wf px" "n < unat (data_max_size (packet_manager d))" "proxy_len px + n \<le> 65525"
    "b + n \<le> length m"
    and "QVPNServerDriver_encode_data d px m b (b + n) = Some (sp, d')" "sp_parts sp = Some [x]"
  shows "length x = n + proxy_len px + 10"
proof -
  let ?f = "pb_frame (last_packet_id (packet_manager d)) 0 (n + proxy_len px) (proxy_block px (mslice m b n))"
  have len: "length ?f = 5 + (n + proxy_len px)"
    using assms(4,5) length_proxy_block [OF assms(2), of "mslice m b n"] pb_frame_reads(4) [of 0 "n + proxy_len px"] by simp
  have "sp = SplittedPacket_add_data SplittedPacket_new (app_record ?f)"
    using assms(6) encode_whole [OF assms(1,2) refl assms(3,5)] by (simp add: server_driver_eq)
  then have "x = app_record ?f"
    using assms(7) sp_parts_one [of "app_record ?f"] len assms(4) by simp
  then show ?thesis using len by simp
qed

lemma reply_parsed_plain:
  "tcp_reply m k \<Longrightarrow> \<exists>v. PacketPreParser_pre_parse (m @ rest) 0 (length m) = Some (TcpPacketOf v) \<and> plain_tcp_view k v"
  by (intro exI conjI, rule reply_parsed(1)) (simp_all add: plain_tcp_view_def)

lemma reply_options: "tcp_reply m k \<Longrightarrow> mslice (m @ rest) 40 (4 * k - 20) = mslice m 40 (4 * k - 20)"
  by (auto simp: tcp_reply_def mslice_def)

lemma reply_printed:
  assumes "tcp_reply m k" "options_ok (mslice m 40 (4 * k - 20))"
    and "PacketPreParser_pre_parse (m @ rest) 0 (length m) = Some response"
  shows "printed (visit_to_packet_friendly_view vb (m @ rest) response) = Some ()"
proof -
  obtain v where v: "response = TcpPacketOf v" "plain_tcp_view k v"
    using assms(3) reply_parsed_plain [OF assms(1), of rest] by auto
  have "5 \<le> k" "20 + 4 * k \<le> length (m @ rest)" using assms(1) by (simp_all add: tcp_reply_def)
  from tcp_view_printed [OF v(2) this] show ?thesis using assms(2) by (simp add: v(1) reply_options [OF assms(1)])
qed

lemma reply_never_printed:
  assumes "tcp_reply m k" "\<forall>x\<in>set xs. item_ok x" "mslice m 40 (4 * k - 20) = items_bytes xs @ [kind, 0] @ tail" "1 < kind"
    and "PacketPreParser_pre_parse (m @ rest) 0 (length m) = Some response"
  shows "printed (visit_to_packet_friendly_view vb (m @ rest) response) = None"
proof -
  obtain v where v: "response = TcpPacketOf v" "plain_tcp_view k v"
    using assms(5) reply_parsed_plain [OF assms(1), of rest] by auto
  have "5 \<le> k" "20 + 4 * k \<le> length (m @ rest)" using assms(1) by (simp_all add: tcp_reply_def)
  from tcp_view_never_printed [OF v(2) this assms(2) _ assms(4)] show ?thesis
    using assms(3) by (simp add: v(1) reply_options [OF assms(1)])
qed

text \<open>A reply with an option of length zero stops the thread that listens for replies.\<close>

lemma reply_stops_server:
  assumes "tcp_reply m k" "\<forall>x\<in>set xs. item_ok x" "mslice m 40 (4 * k - 20) = items_bytes xs @ [kind, 0] @ tail" "1 < kind"
  shows "QVPNServerDriver_vpn_response_loop_iteration sys s key (m @ rest) 0 (length m) st w = None"
  using reply_parsed(1) [OF assms(1), of rest] reply_never_printed [OF assms]
  by (simp add: QVPNServerDriver_vpn_response_loop_iteration_def del: visit_to_packet_friendly_view.simps)

lemma response_forwards:
  assumes ok: "tcp_reply m k" "options_ok (mslice m 40 (4 * k - 20))" and key: "length (client_local_addr key) = 4"
    and srv: "quiet_only (drv_layers (srv_driver st))"
      "length m - (20 + 4 * k) < unat (data_max_size (packet_manager (srv_driver st)))" "length m \<le> 65500"
    and cl: "quiet_only (drv_layers cl)" "pm_quiet (packet_manager cl)" "order_spec order"
      "packets (packet_manager cl) (last_packet_id (packet_manager (srv_driver st))) = None"
  shows "\<exists>x px st'. QVPNServerDriver_vpn_response_loop_iteration sys s key (m @ rest) 0 (length m) st w =
      Some (st', snd (QVPN_Socket_send sys s x w)) \<and>
    QVPNClientDriver_decode_data order cl x 0 (length x) = Some (Some (delivered px (drop (20 + 4 * k) m)), cl) \<and> length x = length m + 1 \<and>
    net_protocol px = NetProtocol_IPv4 \<and> transport_protocol px = TransportProtocol_TCP \<and> source_addr px = mslice m 12 4 \<and>
    source_port px = be16 (m ! 20) (m ! 21) \<and> dst_addr px = client_local_addr key \<and> dst_port px = ssd_local_port key \<and>
    TcpPacketLE_generate_proxy_bytes px = Some (reply_header m k key)"
proof -
  let ?n = "length m - (20 + 4 * k)" and ?drv = "srv_driver st"
  let ?drv' = "?drv\<lparr> packet_manager := (packet_manager ?drv)\<lparr> last_packet_id := last_packet_id (packet_manager ?drv) + 1 \<rparr> \<rparr>"
  note p = reply_parsed [OF ok(1), of rest]
  have m: "20 + 4 * k \<le> length m" "34 \<le> length m" using ok by (auto simp: tcp_reply_def)
  obtain px where px: "response_proxy (m @ rest) (TcpPacketOf \<lparr>
      tcpv_net = \<lparr> ip4_header = 0, ip4_additional_header = 20, ip4_add_header_size = 0 \<rparr>,
      tcpv_transport = \<lparr> tcp_header = 20, tcp_options = 40, tcp_options_size = 4 * (int k - 5) \<rparr>,
      tcpv_payload = DataPacketView_of_range (20 + 4 * k) (length m) \<rparr>) key = Some px" "proxy_wf px" "proxy_len px = 11 + 4 * k"
    "net_protocol px = NetProtocol_IPv4 \<and> transport_protocol px = TransportProtocol_TCP \<and> source_addr px = mslice m 12 4 \<and>
    source_port px = be16 (m ! 20) (m ! 21) \<and> dst_addr px = client_local_addr key \<and> dst_port px = ssd_local_port key \<and>
    TcpPacketLE_generate_proxy_bytes px = Some (reply_header m k key)"
    using reply_proxy [OF ok(1) key p(1)] unfolding reply_header_def by (auto simp: proxy_wf_def)
  obtain sp x where x: "QVPNServerDriver_encode_data ?drv px (m @ rest) (20 + 4 * k) (length m) = Some (sp, ?drv')"
      "sp_parts sp = Some [x]"
      "QVPNClientDriver_decode_data order cl x 0 (length x) = Some (Some (delivered px (mslice (m @ rest) (20 + 4 * k) ?n)), cl)"
    using whole_delivery [OF srv(1) cl(1) px(2) cl(3) srv(2), where m = "m @ rest" and b = "20 + 4 * k"]
      px(3) srv(3) cl(2,4) m by (auto simp: le_diff_conv)
  have "proxy_len px + ?n \<le> 65525" "20 + 4 * k + ?n \<le> length (m @ rest)" "20 + 4 * k + ?n = length m"
    using px(3) srv(3) m by simp_all
  then have len: "length x = length m + 1"
    using whole_record_length [OF srv(1) px(2) srv(2), of "20 + 4 * k" "m @ rest" sp ?drv' x] x(1,2) px(3) by simp
  have pay: "mslice (m @ rest) (20 + 4 * k) ?n = drop (20 + 4 * k) m" using m by (simp add: mslice_def)
  obtain r where r: "TcpPacketView_is_reset_connection_packet
      \<lparr> tcp_header = 20, tcp_options = 40, tcp_options_size = 4 * (int k - 5) \<rparr> (m @ rest) = Some r"
    using m(2) by (simp add: TcpPacketView_is_reset_connection_packet_def TcpPacketView_get_tcp_flags_def rd_def)
  have "nat (int (20 + 4 * k) + (int (length m) - int (20 + 4 * k))) = length m" using m by simp
  then have "\<exists>st'. QVPNServerDriver_vpn_response_loop_iteration sys s key (m @ rest) 0 (length m) st w =
      Some (st', snd (QVPN_Socket_send sys s x w))"
    using p(1) reply_printed [OF ok p(1)] px(1) x(1,2) r send_one_part [of sys s x w]
    by (simp add: QVPNServerDriver_vpn_response_loop_iteration_def QVPNServerDriver_encode_and_send_def
        DataPacketView_get_payload_def DataPacketView_of_range_def Let_def del: visit_to_packet_friendly_view.simps)
  then show ?thesis using x(3) px(4) len unfolding pay by blast
qed

section \<open>UDP requests and requests that are not IPv4\<close>

lemma udp_object_of_parts:
  assumes h: "length h = 20" "h ! 0 = 0x45" and t: "length t = 8" and len: "28 + length payload \<le> 65535"
  shows "\<exists>fp0 fp m. Ipv4UdpPacket_of_parts h t payload = Some fp0 \<and> Ipv4UdpPacket_recalculate_checksums fp0 = Some fp \<and>
    Ipv4UdpPacket_bytes fp = Some m \<and> length m = 28 + length payload \<and>
    (\<forall>i. i \<notin> {10, 11, 26, 27} \<longrightarrow> m ! i = (h @ t @ payload) ! i) \<and>
    checksum_valid (words_sum (drop 20 m) + words_sum (ip_pseudo_header m))"
proof -
  let ?m = "h @ t @ payload"
  let ?v = "\<lparr> udpv_net = \<lparr> ip4_header = 0, ip4_additional_header = 20, ip4_add_header_size = 0 \<rparr>,
      udpv_transport = \<lparr> udp_header = 20 \<rparr>, udpv_payload = DataPacketView_of_range 28 (length ?m) \<rparr>"
  have at: "28 \<le> length ?m" "length ?m \<le> 65535" "lo_nibble (?m ! 0) = 5"
    using h t len by (simp_all add: nth_append lo_nibble_def)
  note v = udp_view_shape [OF at(1,3)]
  obtain m where m: "Ipv4UdpPacket_View_recalculate_checksums ?v ?m = Some m" "length m = length ?m"
      "\<forall>i. i \<notin> {10, 11, 26, 27} \<longrightarrow> m ! i = ?m ! i"
      "checksum_valid (words_sum (drop 20 m) + words_sum (ip_pseudo_header m))"
    using udp_packet_checksums [OF at v] by blast
  have "Ipv4UdpPacket_bytes \<lparr> udpo_views = ?v, udpo_data = m \<rparr> = Some m"
    using m(2) at by (simp add: Ipv4UdpPacket_bytes_def Ipv4UdpPacket_View_bytes_def Ipv4PacketView_to_bytes_def
        DataPacketView_to_bytes_def DataPacketView_of_range_def rd_range_def)
  with v m h t show ?thesis
    by (intro exI [of _ "\<lparr> udpo_views = ?v, udpo_data = ?m \<rparr>"] exI [of _ "\<lparr> udpo_views = ?v, udpo_data = m \<rparr>"] exI [of _ m])
      (simp add: Ipv4UdpPacket_recalculate_checksums_def Ipv4UdpPacket_of_parts_def Ipv4UdpPacket_set_views_def)
qed

text \<open>\<open>get_transport_length\<close> of a UDP header is four times its length field, which counts the payload already.\<close>

lemma sender_packet_udp:
  assumes p: "net_protocol p = NetProtocol_IPv4" "transport_protocol p = TransportProtocol_UDP"
    and addr: "length (server_local_addr key) = 4" "length (dst_addr p) = 4"
    and l: "rd16 (proto_data p) 2 = Some l" and len: "28 + length payload \<le> 65535"
  shows "\<exists>fp g' m. QVPNServerDriver_generate_sender_packet g p key payload = Some (FullUdpPacket fp, g') \<and>
    visit_bytes (FullUdpPacket fp) = Some m \<and> length m = 28 + length payload \<and>
    be16 (m ! 2) (m ! 3) = 4 * l + of_nat (length payload) + 20 \<and> m ! 9 = TransportProtocol_UDP \<and>
    mslice m 12 8 = server_local_addr key @ dst_addr p \<and> mslice m 20 6 = be16_bytes (ssd_local_port key) @
      be16_bytes (dst_port p) @ be16_bytes l \<and> drop 28 m = payload \<and>
    checksum_valid (words_sum (drop 20 m) + words_sum (ip_pseudo_header m))"
proof -
  let ?n = "l * 4 + of_nat (length payload) :: UShort"
  let ?t = "UdpPacketLE_generate_object_bytes (ssd_local_port key) (dst_port p) l"
  have t: "length ?t = 8" by (simp add: UdpPacketLE_generate_object_bytes_def be16_bytes_def)
  have th: "QVPNServerDriver_generate_transport_header p key = Some (UdpHeader ?t)"
    using l p(2) by (simp add: QVPNServerDriver_generate_transport_header_def QTunnelUDPViewScheme_get_length_def
        QTunnelUDPViewScheme_of_range_def proxy_get_defs UdpPacketLE_generate_object_def UdpPacketLE_of_range_def UdpPacketLE_parse_packet_def
        rd_range_def Let_def protocol_defs t)
  have tl: "visit_get_transport_length (UdpHeader ?t) = Some (l * 4)" "transport_view_bytes (UdpHeader ?t) = Some ?t"
    using t by (auto simp: UdpPacketLE_get_transport_length_def UdpPacketLE_get_udp_length_def rd16_def rd_def
        UdpPacketLE_generate_object_bytes_def be16_bytes_def UdpPacketView_to_bytes_def UdpPacketLE_to_view_def
        UdpPacketView_of_range_def UdpPacketView_parse_packet_def rd_range_def udp_header_size_def)
  obtain h g' where h: "QVPNServerDriver_generate_net_header g p key ?n = Some (IPv4Header h, g')" "length h = 20"
      "h ! 0 = 0x45" "be16 (h ! 2) (h ! 3) = of_nat (unat ?n + 20)" "h ! 9 = transport_protocol p"
      "drop 12 h = server_local_addr key @ dst_addr p" "net_view_bytes (IPv4Header h) = Some h"
    using net_header_ipv4 [OF addr p(1), of g ?n] by blast
  obtain fp0 fp m where m: "Ipv4UdpPacket_of_parts h ?t payload = Some fp0"
      "Ipv4UdpPacket_recalculate_checksums fp0 = Some fp" "Ipv4UdpPacket_bytes fp = Some m"
      "length m = 28 + length payload" "\<forall>i. i \<notin> {10, 11, 26, 27} \<longrightarrow> m ! i = (h @ ?t @ payload) ! i"
      "checksum_valid (words_sum (drop 20 m) + words_sum (ip_pseudo_header m))"
    using udp_object_of_parts [OF h(2,3) t len] by blast
  have "mslice m 12 8 = drop 12 h"
    by (rule nth_equalityI) (use m(4,5) h(2) in \<open>auto simp: mslice_def nth_append\<close>)
  moreover have "mslice m 20 6 = take 6 ?t"
    by (rule nth_equalityI) (use m(4,5) h(2) t in \<open>auto simp: mslice_def nth_append\<close>)
  moreover have "take 6 ?t = be16_bytes (ssd_local_port key) @ be16_bytes (dst_port p) @ be16_bytes l"
    by (simp add: UdpPacketLE_generate_object_bytes_def be16_bytes_def)
  moreover have "drop 28 m = payload"
    by (rule nth_equalityI) (use m(4,5) h(2) t in \<open>auto simp: nth_append\<close>)
  moreover have "be16 (m ! 2) (m ! 3) = 4 * l + of_nat (length payload) + 20" "m ! 9 = TransportProtocol_UDP"
    using m(4,5) h p(2) by (simp_all add: nth_append mult.commute)
  ultimately show ?thesis
    using th tl h(1,6,7) m p(2)
    by (simp add: QVPNServerDriver_generate_sender_packet_def QVPNServerDriver_generate_full_packet_def proxy_get_defs Let_def
        protocol_defs)
qed

text \<open>A sum that verifies is a multiple of 65535, so two of them are.\<close>

lemma checksum_valid_mod: "checksum_valid n \<Longrightarrow> n < 2 ^ 32 \<Longrightarrow> n mod 65535 = 0"
  using fold_carry_spec [of "of_nat n"] by (simp add: checksum_valid_def unat_of_nat)

lemma words_sum_pseudo:
  "length a = 8 \<Longrightarrow> words_sum (a @ [0, q] @ be16_bytes n) = words_sum (a @ [0, q]) + unat n"
  using words_sum_append [of "a @ [0, q]" "be16_bytes n"] by (simp add: be16_bytes_def)

text \<open>The pseudo header with the length the datagram really has.\<close>

definition udp_pseudo_header :: "bytes \<Rightarrow> bytes" where
  "udp_pseudo_header m = mslice m 12 8 @ [0, m ! 9] @ be16_bytes (of_nat (length m - 20))"

lemma udp_request_checksum_wrong:
  assumes p: "net_protocol p = NetProtocol_IPv4" "transport_protocol p = TransportProtocol_UDP"
    and addr: "length (server_local_addr key) = 4" "length (dst_addr p) = 4"
    and l: "rd16 (proto_data p) 2 = Some (of_nat (8 + length payload))" and len: "length payload \<le> 13000"
  shows "\<exists>fp g' m. QVPNServerDriver_generate_sender_packet g p key payload = Some (FullUdpPacket fp, g') \<and>
    visit_bytes (FullUdpPacket fp) = Some m \<and> length m = 28 + length payload \<and> drop 28 m = payload \<and>
    unat (be16 (m ! 2) (m ! 3)) = 52 + 5 * length payload \<and>
    \<not> checksum_valid (words_sum (drop 20 m) + words_sum (udp_pseudo_header m))"
proof -
  let ?n = "length payload"
  have le: "28 + length payload \<le> 65535" using len by simp
  obtain fp g' m where m: "QVPNServerDriver_generate_sender_packet g p key payload = Some (FullUdpPacket fp, g')"
      "visit_bytes (FullUdpPacket fp) = Some m" "length m = 28 + ?n" "drop 28 m = payload"
      "be16 (m ! 2) (m ! 3) = 4 * of_nat (8 + ?n) + of_nat ?n + 20"
      "mslice m 12 8 = server_local_addr key @ dst_addr p"
      "checksum_valid (words_sum (drop 20 m) + words_sum (ip_pseudo_header m))"
    using sender_packet_udp [OF p addr l le, of g] by blast
  have tot: "be16 (m ! 2) (m ! 3) = of_nat (52 + 5 * ?n)" by (simp add: m(5) algebra_simps)
  have pl: "be16 (m ! 2) (m ! 3) - 20 = of_nat (32 + 5 * ?n)" by (simp add: tot)
  let ?w = "words_sum (mslice m 12 8 @ [0, m ! 9])" and ?d = "words_sum (drop 20 m)"
  have a: "length (mslice m 12 8) = 8" using m(3) by (simp add: mslice_def)
  have "ip_pseudo_header m = mslice m 12 8 @ [0, m ! 9] @ be16_bytes (of_nat (32 + 5 * ?n))"
    unfolding ip_pseudo_header_def pl using take_add [of 4 4 "drop 12 m"] by (simp add: mslice_def)
  then have wrong: "words_sum (ip_pseudo_header m) = ?w + (32 + 5 * ?n)"
    using words_sum_pseudo [OF a] unat_of_nat16 [of "32 + 5 * ?n"] len by simp
  have right: "words_sum (udp_pseudo_header m) = ?w + (8 + ?n)"
    using words_sum_pseudo [OF a] unat_of_nat16 [of "8 + ?n"] len m(3) by (simp add: udp_pseudo_header_def)
  have b: "?d \<le> 65535 * 6505" "?w \<le> 65535 * 5"
    using words_sum_bound_le [of "drop 20 m" 13008] words_sum_bound_le [of "mslice m 12 8 @ [0, m ! 9]" 10] m(3) len a by simp_all
  have "(?d + ?w + (32 + 5 * ?n)) mod 65535 = 0"
    using checksum_valid_mod [OF m(7)] b len unfolding wrong by (simp add: add.assoc)
  then have "(?d + ?w + (8 + ?n)) mod 65535 \<noteq> 0"
    using dvd_diff_nat [of 65535 "?d + ?w + (32 + 5 * ?n)" "?d + ?w + (8 + ?n)"] nat_dvd_not_less [of "4 * ?n + 24" 65535] len
    by (auto simp: mod_eq_0_iff_dvd)
  then have "\<not> checksum_valid (?d + words_sum (udp_pseudo_header m))"
    using checksum_valid_mod [of "?d + ?w + (8 + ?n)"] b len unfolding right by (auto simp: add.assoc)
  moreover have "unat (be16 (m ! 2) (m ! 3)) = 52 + 5 * ?n" using unat_of_nat16 [of "52 + 5 * ?n"] len unfolding tot by simp
  ultimately show ?thesis using m(1-4) by blast
qed

text \<open>A TCP or UDP request whose network protocol is not IPv4 has an empty network header; the packet is then built out of
  a header that is not there.\<close>

lemma no_header_no_packet:
  assumes "net_protocol p \<noteq> NetProtocol_IPv4" "transport_protocol p = TransportProtocol_TCP"
  shows "QVPNServerDriver_generate_sender_packet g p key payload = None"
proof (cases "QVPNServerDriver_generate_transport_header p key")
  case (Some t)
  have "Ipv4TcpPacket_of_parts [] b payload = None" for b
    by (simp add: Ipv4TcpPacket_of_parts_def Ipv4PacketView_of_range_def Ipv4PacketView_parse_packet_def
        Ipv4PacketView_get_ip_header_length_def rd_def)
  then show ?thesis using Some assms
    by (cases "visit_get_transport_length t")
      (auto simp: QVPNServerDriver_generate_sender_packet_def QVPNServerDriver_generate_net_header_def proxy_get_defs
        QVPNServerDriver_generate_full_packet_def DummyNetPacket_to_bytes_def Let_def bind_eq_None_conv)
qed (simp add: QVPNServerDriver_generate_sender_packet_def)

section \<open>A round of the request loop\<close>

text \<open>An operating system that grants every socket and tells the local address \<open>a\<close>.\<close>

definition willing :: "'w sys \<Rightarrow> NetAddr \<Rightarrow> bool" where
  "willing sys a \<longleftrightarrow> length a = 4 \<and> (\<forall>f t p w. 0 \<le> fst (sys_socket sys f t p w)) \<and>
     (\<forall>fd sa w. fst (fst (sys_bind sys fd sa w)) = 0) \<and> (\<forall>fd sa w. fst (fst (sys_connect sys fd sa w)) = 0) \<and>
     (\<forall>fd w. take 4 (sockaddr.sa_addr (sys_getsockname sys fd w)) = a \<and> 16 \<le> length (sockaddr.sa_addr (sys_getsockname sys fd w)))"

lemma willing_sockets:
  assumes "willing sys a"
  shows "\<exists>s' st w'. QVPN_RawSocket_bind sys s NetAddr_default port w = Some ((st, s'), w') \<and> ns_success st"
    "length addr = 4 \<Longrightarrow> \<exists>s' st w'. QVPN_RawSocket_connect sys s addr port w = Some ((st, s'), w') \<and> ns_success st \<and>
      QVPN_RawSocket_get_local_addr s' = a"
    "QVPN_RawSocket_is_valid (fst (QVPNNetTools_create_raw_socket sys net t w))"
proof -
  have to6: "\<exists>x. NetAddr_to_ipv6 NetAddr_default = Some x"
    by (simp add: NetAddr_to_ipv6_def NetAddr_default_def rd_range_def)
  have long: "n \<le> 16 \<Longrightarrow> n \<le> length (sockaddr.sa_addr (sys_getsockname sys fd w))" for n fd w
    using assms unfolding willing_def by (meson le_trans)
  show "\<exists>s' st w'. QVPN_RawSocket_bind sys s NetAddr_default port w = Some ((st, s'), w') \<and> ns_success st"
    using assms to6 by (auto simp: willing_def QVPN_RawSocket_bind_def qvpn_bind_addr_def qvpn_bind_ipv6_def Let_def
        case_prod_beta NetAddr_get_addr_family_def NetAddr_default_def protocol_defs rd_range_def
        IPv6Address_get_addr_size_def long)
  show "QVPN_RawSocket_is_valid (fst (QVPNNetTools_create_raw_socket sys net t w))"
    using assms by (simp add: willing_def QVPNNetTools_create_raw_socket_def QVPN_RawSocket_of_params_def
        QVPN_RawSocket_is_valid_def Let_def case_prod_beta not_less)
  assume "length addr = 4"
  moreover from this obtain i where "NetAddr_to_ipv4 addr = Some i" using NetAddr_to_ipv4_length4 by blast
  ultimately show "\<exists>s' st w'. QVPN_RawSocket_connect sys s addr port w = Some ((st, s'), w') \<and> ns_success st \<and>
      QVPN_RawSocket_get_local_addr s' = a"
    using assms by (auto simp: willing_def QVPN_RawSocket_connect_def qvpn_connect_addr_def qvpn_connect_ipv4_def Let_def
        case_prod_beta NetAddr_get_addr_family_def protocol_defs rd_range_def IPv4Address_get_addr_size_def
        QVPN_RawSocket_get_local_addr_def long)
qed

text \<open>A request that is new gets its socket, and the replies of that socket go to the client.\<close>

lemma connect_opens:
  assumes os: "willing sys a" and addr: "length (ssd_remote_addr key) = 4"
  defines "key' \<equiv> key\<lparr> server_local_addr := a \<rparr>"
  shows "\<exists>p rq'. QVPNServerDriver_connect_to_server_impl sys init rs key rq = Some (key', rq') \<and>
    rq_sock_map rq' key' = Some p \<and>
    (rq_sock_map rq key' = None \<longrightarrow> srv_response_sockets (rq_server rq) key' = None \<longrightarrow>
      srv_response_sockets (rq_server rq') key' = Some (rs, p))"
proof -
  let ?fam = "NetAddr_get_addr_family (ssd_remote_addr key)"
  obtain raw w0 where raw: "QVPNNetTools_create_raw_socket sys ?fam (ssd_transport_proto key) (rq_world rq) = (raw, w0)"
    by fastforce
  obtain sh w1 where sh: "QVPNNetTools_create_socket sys ?fam (ssd_transport_proto key) w0 = (sh, w1)" by fastforce
  have valid: "QVPN_RawSocket_is_valid raw"
    using willing_sockets(3) [OF os, of ?fam "ssd_transport_proto key" "rq_world rq"] raw by simp
  obtain bs raw1 w2 where b: "QVPN_RawSocket_bind sys raw NetAddr_default (ssd_local_port key)
      (QVPN_RawSocket_apply_settings sys raw (QVPNSocketSettings_of True 1000000) w1) = Some ((bs, raw1), w2)" "ns_success bs"
    using willing_sockets(1) [OF os] by metis
  obtain cs raw2 w3 where c: "QVPN_RawSocket_connect sys raw1 (ssd_remote_addr key) (ssd_remote_port key) w2 =
      Some ((cs, raw2), w3)" "ns_success cs" "QVPN_RawSocket_get_local_addr raw2 = a"
    using willing_sockets(2) [OF os addr] by metis
  have "length a = 4" using os by (simp add: willing_def)
  then obtain d r where "NetAddr_to_uint a = Some d" "NetAddr_to_uint (ssd_remote_addr key) = Some r"
    using addr NetAddr_to_uint_ipv4 by metis
  then obtain f where f: "QVPNNetTools_create_server_socket_filter init key' = Some f"
    by (cases "ssd_net_proto key = NetProtocol_IPv4")
      (auto simp: QVPNNetTools_create_server_socket_filter_def QVPN_SocketFilter_of_server_data_def key'_def)
  note result = QVPNServerDriver_connect_to_server_impl_def [of sys init rs key rq] raw sh valid b c f [unfolded key'_def]
  show ?thesis
    by (cases "rq_sock_map rq key'")
      (simp_all add: key'_def result Let_def QVPNServerDriver_add_to_response_socket_map_def)
qed

text \<open>One whole round: a record that arrives in pieces becomes a packet on a socket that is connected to its destination.\<close>

lemma request_round:
  assumes os: "willing sys a" and table: "table_ok (rq_sock_map rq)"
    and ps: "pieces_arrive (\<lambda>k. fst (sys_recv sys (sock_fd cs) 0 (recv_world sys cs (rq_world rq) k))) 0 ps"
      "concat ps = x" "is_app_record x"
    and dec: "QVPNServerDriver_decode_data order (srv_driver (rq_server rq)) x 0 (length x) =
      Some (Some (delivered px payload), srv_driver (rq_server rq))"
    and px: "net_protocol px = NetProtocol_IPv4" "transport_protocol px = TransportProtocol_TCP" "length (dst_addr px) = 4"
    and t: "TcpPacketLE_generate_proxy_bytes px = Some t" "20 \<le> length t" "4 * unat (hi_nibble (t ! 12)) = length t"
      "20 + length t + length payload \<le> 65535" "options_ok (drop 20 t)"
  shows "\<exists>pkt raw w rq'. QVPNServerDriver_vpn_request_loop_iteration sys order init cs rq = Some (True, rq') \<and>
    tcp_packet_carries pkt a (dst_addr px) t payload \<and>
    routed ((request_key px)\<lparr> server_local_addr := a \<rparr>) raw \<and> rq_world rq' = snd (QVPN_RawSocket_send sys raw pkt w)"
proof -
  let ?sr = "\<lparr> sr_status = ok_status, sr_separators = [(0, length x)], sr_data = x \<rparr>"
  let ?rq = "rq\<lparr> rq_world := recv_world sys cs (rq_world rq) (length ps) \<rparr>"
  let ?key = "(request_key px)\<lparr> server_local_addr := a \<rparr>"
  have "ps \<noteq> []" using ps(2,3) by (auto simp: is_app_record_iff app_record_eq)
  then have recv: "QVPN_Socket_safe_recv_in sys TLS13_RecordLE_bytes_parse cs (rq_world rq) =
      Some (?sr, recv_world sys cs (rq_world rq) (length ps))"
    using record_object.object_in_pieces [OF _ _ ps(1)] ps(2,3) by (simp add: QVPN_Socket_safe_recv_in_def)
  have same: "?rq\<lparr> rq_server := (rq_server ?rq)\<lparr> srv_driver := srv_driver (rq_server rq) \<rparr> \<rparr> = ?rq" by simp
  obtain p rq1 where con: "QVPNServerDriver_connect_to_server_impl sys init cs (request_key px) ?rq = Some (?key, rq1)"
      "rq_sock_map rq1 ?key = Some p"
    using connect_opens [OF os, of "request_key px" init cs ?rq] px(3) by (auto simp: request_key_def)
  have "table_ok (rq_sock_map rq1)"
    using con(1) table by (cases rule: connect_result) (auto simp: table_ok_def split: if_splits)
  then have routed: "routed ?key (ps_raw_socket p)" using con(2) by (auto simp: table_ok_def)
  have "length (server_local_addr ?key) = 4" using os by (simp add: willing_def)
  then obtain pkt ex rq' where obj: "QVPNServerDriver_process_object sys order init cs x 0 (length x) ?rq = Some (ex, rq')"
      "ex \<noteq> Return False" "tcp_packet_carries pkt a (dst_addr px) t payload"
      "rq_world rq' = snd (QVPN_RawSocket_send sys (ps_raw_socket p) pkt (rq_world rq1))"
    using process_object_forwards [of order ?rq x 0 "length x" px payload "srv_driver (rq_server rq)" sys init cs ?key rq1 p t]
      dec con px t by (auto simp: same)
  then have "QVPNServerDriver_vpn_request_loop_iteration sys order init cs rq = Some (True, rq')"
    using recv by (cases ex) (auto simp: QVPNServerDriver_vpn_request_loop_iteration_def SafeReceiveData_get_objects_num_def
        SafeReceiveData_get_status_def SafeReceiveData_get_object_bytes_def ok_status_def rd_pair Let_def)
  then show ?thesis using obj(3,4) routed by blast
qed

section \<open>A small operating system\<close>

text \<open>The world is what is still to be received and what was sent, with the descriptors.\<close>

definition sample_sys :: "(bytes list \<times> (int \<times> bytes) list) sys" where
  "sample_sys = \<lparr> sys_socket = (\<lambda>f t p w. (7, w)), sys_connect = (\<lambda>fd sa w. ((0, 0), w)), sys_bind = (\<lambda>fd sa w. ((0, 0), w)),
     sys_listen = (\<lambda>fd n w. (0, w)), sys_accept = (\<lambda>fd w. ((8, \<lparr> sa_family = 2, sa_port = 0, sa_addr = [] \<rparr>), w)),
     sys_getsockname = (\<lambda>fd w. \<lparr> sa_family = 2, sa_port = 0, sa_addr = [192, 0, 2, 1] @ replicate 12 0 \<rparr>),
     sys_getpeername = (\<lambda>fd w. (0, \<lparr> sa_family = 2, sa_port = 0, sa_addr = [] \<rparr>)),
     sys_send = (\<lambda>fd bs fl (i, out). ((int (length bs), 0), (i, out @ [(fd, bs)]))),
     sys_recv = (\<lambda>fd fl (i, out). case i of [] \<Rightarrow> ((0, 0, []), (i, out)) | c # cs \<Rightarrow> ((int (length c), 0, c), (cs, out))),
     sys_sendto = (\<lambda>fd bs fl sa (i, out). ((int (length bs), 0), (i, out @ [(fd, bs)]))),
     sys_shutdown = (\<lambda>fd how w. (0, w)), sys_close = (\<lambda>fd w. w), sys_setsockopt = (\<lambda>fd l opt v w. ((0, 0), w)),
     sys_load_filter = (\<lambda>k b w. (9, w)) \<rparr>"

lemma sample_sys_willing: "willing sample_sys [192, 0, 2, 1]"
  by (simp add: willing_def sample_sys_def)

definition sample_tcp_proxy :: QTunnelProxy where
  "sample_tcp_proxy = \<lparr> net_protocol = 4, transport_protocol = 6, source_addr = [10, 0, 0, 1], source_port = 0x1234,
     dst_addr = [198, 51, 100, 1], dst_port = 80, proto_data = [0, 15, 0, 0, 0, 9, 0, 0, 0, 8, 0, 0x18, 5, 1, 0, 0, 0] \<rparr>"

lemma sample_tcp_proxy_ok:
  "proxy_wf sample_tcp_proxy" "proxy_len sample_tcp_proxy = 31"
  "TcpPacketLE_generate_proxy_bytes sample_tcp_proxy =
    Some [0x12, 0x34, 0, 80, 0, 0, 0, 9, 0, 0, 0, 8, 0x50, 0x18, 1, 0, 0, 0, 0, 0]"
  by (simp_all add: sample_tcp_proxy_def proxy_wf_def protocol_defs be16_bytes_def byte_of_def proxy_len_def
      TcpPacketLE_generate_proxy_bytes_def proxy_get_defs QTunnelTCPViewScheme_of_range_def
      QTunnelTCPViewScheme_get_seq_def QTunnelTCPViewScheme_get_ack_def QTunnelTCPViewScheme_get_offset_def
      QTunnelTCPViewScheme_get_flags_def QTunnelTCPViewScheme_get_window_def QTunnelTCPViewScheme_get_urgent_pointer_def
      QTunnelTCPViewScheme_get_options_def rd_range_def rd_def rd16_def rd32_def Let_def TcpPacketLE_generate_object_bytes_def
      TcpFlagsObject_get_ns_def TcpFlagsObject_get_without_ns_def be16_def)

definition sample_key :: QVPNServerSocketData where
  "sample_key = \<lparr> ssd_net_proto = 4, ssd_transport_proto = 6, client_local_addr = [10, 0, 0, 1],
     server_local_addr = [192, 0, 2, 1], ssd_local_port = 0x1234, ssd_remote_addr = [198, 51, 100, 1], ssd_remote_port = 80 \<rparr>"

definition sample_server :: QVPNServerState where
  "sample_server = \<lparr> srv_driver = fresh_driver, srv_ip4_strategy = IPv4DefaultGenStrategy_new,
     srv_response_sockets = Map.empty, srv_verboser = sample_verboser \<rparr>"

definition sample_filter :: filter_key where
  "sample_filter = \<lparr> fk_net_proto = 0, fk_transport_proto = 0, fk_src_ip = 0, fk_src_port = 0, fk_dst_ip = 0, fk_dst_port = 0 \<rparr>"

definition sample_pair :: PackedSocket where
  "sample_pair = \<lparr> ps_socket = QVPN_Socket_new, ps_raw_socket = QVPN_Socket_new \<rparr>"

definition sample_request :: "response_map \<Rightarrow> sock_map \<Rightarrow> bytes list \<Rightarrow> (bytes list \<times> (int \<times> bytes) list) request_state" where
  "sample_request rs sm i = \<lparr> rq_server = sample_server\<lparr> srv_response_sockets := rs \<rparr>, rq_sock_map = sm, rq_world = (i, []) \<rparr>"

lemma sample_connect:
  "\<exists>rq' p. QVPNServerDriver_connect_to_server_impl sample_sys sample_filter s sample_key rq = Some (sample_key, rq') \<and>
    rq_sock_map rq' sample_key = Some p"
proof -
  have "sample_key\<lparr> server_local_addr := [192, 0, 2, 1] \<rparr> = sample_key" "length (ssd_remote_addr sample_key) = 4"
    by (simp_all add: sample_key_def)
  then show ?thesis using connect_opens [OF sample_sys_willing, of sample_key sample_filter s rq] by auto
qed

definition sample_reply :: bytes where
  "sample_reply = [0x45, 0, 0, 42, 0, 0, 0x40, 0, 64, 6, 0, 0, 198, 51, 100, 1, 192, 0, 2, 1,
     0, 80, 0x12, 0x34, 0, 0, 0, 8, 0, 0, 0, 9, 0x50, 0x18, 1, 0, 0, 0, 0, 0, 77, 78]"

lemma sample_reply_ok: "tcp_reply sample_reply 5"
  by (simp add: sample_reply_def tcp_reply_def protocol_defs hi_nibble_def)

text \<open>A packet without network layer for UDP is undefined, as is every such object made of two parts.\<close>

lemma no_net_udp_undefined:
  "QTunnelProxy_get_transport_proto data = TransportProtocol_UDP \<Longrightarrow>
   QVPNServerDriver_generate_sender_no_net_packet data key payload = None"
  by (auto simp: QVPNServerDriver_generate_sender_no_net_packet_def QVPNServerDriver_generate_packet_with_transport_layer_def
      NoNetPacketUdpObject_of_parts_def protocol_defs split: Option.bind_splits)

section \<open>Properties\<close>

text \<open>C4: the tables of the running server. However many clients connect, and in whatever order their requests and the
  replies are served, every raw socket in the table of a client and in the table of responses leads to the remote
  endpoint of its key, from the local address and with the protocol of its key, by what is recorded in the socket.\<close>

theorem server_tables_routed:
  assumes "reaches sys order init (fresh_config vb d w) c"
  shows "(\<forall>k cl p. srv_response_sockets (cfg_server c) k = Some (cl, p) \<longrightarrow> routed k (ps_raw_socket p)) \<and>
    (\<forall>i s sm k p. cfg_clients c i = Some (s, sm) \<longrightarrow> sm k = Some p \<longrightarrow> routed k (ps_raw_socket p))"
  using reaches_ok [OF assms fresh_config_ok] unfolding config_ok_def server_ok_def table_ok_def by blast

theorem server_tables_routed_witness:
  "\<exists>c. reaches sample_sys ascending sample_filter (fresh_config sample_verboser fresh_driver ([], [])) c \<and> cfg_clients c 0 \<noteq> None \<and>
    (\<forall>i s sm k p. cfg_clients c i = Some (s, sm) \<longrightarrow> sm k = Some p \<longrightarrow> routed k (ps_raw_socket p))"
proof -
  define c where "c = (fresh_config sample_verboser fresh_driver ([], []))\<lparr> cfg_clients := [0 \<mapsto> (QVPN_Socket_new, Map.empty)],
    cfg_world := ([], []) :: bytes list \<times> (int \<times> bytes) list \<rparr>"
  have "server_step sample_sys ascending sample_filter (fresh_config sample_verboser fresh_driver ([], [])) c"
    using server_step.accept [where c = "fresh_config sample_verboser fresh_driver ([], [])" and i = 0 and s = QVPN_Socket_new and w = "([], [])"
        and sys = sample_sys and order = ascending and init = sample_filter]
    by (simp add: c_def fresh_config_def)
  then have "reaches sample_sys ascending sample_filter (fresh_config sample_verboser fresh_driver ([], [])) c" by blast
  from this server_tables_routed [OF this] show ?thesis by (intro exI [of _ c]) (auto simp: c_def)
qed

text \<open>C35: a UDP request is sent with wrong lengths. The size of the transport header is taken as four times the length
  field, which counts the payload already, so that the total length of the packet is 52 plus five times the payload
  where it should be 28 plus the payload, and the checksum does not verify for the datagram's true length. Stated for payloads
  of at most 13000 bytes, for which the wrong lengths do not wrap.\<close>

theorem udp_request_lengths_wrong:
  assumes "net_protocol p = NetProtocol_IPv4" "transport_protocol p = TransportProtocol_UDP"
    and "length (server_local_addr key) = 4" "length (dst_addr p) = 4"
    and "rd16 (proto_data p) 2 = Some (of_nat (8 + length payload))" "length payload \<le> 13000"
  shows "\<exists>fp g' m. QVPNServerDriver_generate_sender_packet g p key payload = Some (FullUdpPacket fp, g') \<and>
    visit_bytes (FullUdpPacket fp) = Some m \<and> length m = 28 + length payload \<and> drop 28 m = payload \<and>
    unat (be16 (m ! 2) (m ! 3)) = 52 + 5 * length payload \<and>
    \<not> checksum_valid (words_sum (drop 20 m) + words_sum (udp_pseudo_header m))"
  by (rule udp_request_checksum_wrong [OF assms])

theorem udp_request_lengths_wrong_witness:
  "\<exists>fp g' m. QVPNServerDriver_generate_sender_packet IPv4DefaultGenStrategy_new
      (sample_proxy\<lparr> proto_data := [0, 2, 0, 11] \<rparr>) sample_key [1, 2, 3] = Some (FullUdpPacket fp, g') \<and>
    visit_bytes (FullUdpPacket fp) = Some m \<and> length m = 31 \<and> unat (be16 (m ! 2) (m ! 3)) = 67 \<and>
    \<not> checksum_valid (words_sum (drop 20 m) + words_sum (udp_pseudo_header m))"
  using udp_request_lengths_wrong [of "sample_proxy\<lparr> proto_data := [0, 2, 0, 11] \<rparr>" sample_key "[1, 2, 3]"
      IPv4DefaultGenStrategy_new]
  by (auto simp: sample_proxy_def sample_key_def protocol_defs rd16_def rd_def be16_def)

text \<open>C36: after a reset the replies stop. Once a request has reset a connection its key is taken out of the table of
  responses, but its socket stays in the table of the client; a later request of the client with the same key finds the
  socket there and does not put the key back, so that nothing listens for the replies.\<close>

theorem replies_end_with_reset:
  assumes "rq_sock_map rq key' \<noteq> None"
    and "QVPNServerDriver_connect_to_server_impl sys init rs key
        (rq\<lparr> rq_server := QVPNServerDriver_drop_response_socket (rq_server rq) key' \<rparr>) = Some (key', rq')"
  shows "srv_response_sockets (rq_server rq') key' = None \<and> rq_sock_map rq' key' = rq_sock_map rq key'"
proof -
  have "rq_sock_map rq' = rq_sock_map rq"
    using assms(2) by (cases rule: connect_result) (use assms(1) in simp_all)
  moreover have "rq_server rq' = QVPNServerDriver_drop_response_socket (rq_server rq) key'"
    using known_key_not_added [OF assms(2)] assms(1) by simp
  ultimately show ?thesis by (simp add: QVPNServerDriver_drop_response_socket_def)
qed

theorem replies_end_with_reset_witness:
  "\<exists>rq'. QVPNServerDriver_connect_to_server_impl sample_sys sample_filter QVPN_Socket_new sample_key
      ((sample_request [sample_key \<mapsto> (QVPN_Socket_new, sample_pair)] [sample_key \<mapsto> sample_pair] [])\<lparr> rq_server :=
        QVPNServerDriver_drop_response_socket
          (rq_server (sample_request [sample_key \<mapsto> (QVPN_Socket_new, sample_pair)] [sample_key \<mapsto> sample_pair] []))
          sample_key \<rparr>) = Some (sample_key, rq') \<and>
    srv_response_sockets (rq_server rq') sample_key = None \<and> rq_sock_map rq' sample_key = Some sample_pair"
proof -
  let ?rq = "sample_request [sample_key \<mapsto> (QVPN_Socket_new, sample_pair)] [sample_key \<mapsto> sample_pair] []"
  have "rq_sock_map ?rq sample_key = Some sample_pair" by (simp add: sample_request_def)
  then show ?thesis
    using replies_end_with_reset [of ?rq sample_key sample_sys sample_filter QVPN_Socket_new sample_key]
      sample_connect [of QVPN_Socket_new
        "?rq\<lparr> rq_server := QVPNServerDriver_drop_response_socket (rq_server ?rq) sample_key \<rparr>"] by fastforce
qed

text \<open>C37: one flow, two clients. Two clients that use the same inner address and port towards the same endpoint have equal
  keys: the second gets a socket of its own for its requests, but the replies of both go to the first.\<close>

theorem replies_go_to_first_client:
  assumes "QVPNServerDriver_connect_to_server_impl sys init second key rq = Some (key', rq')"
    and "srv_response_sockets (rq_server rq) k = Some (first_client, p)"
  shows "srv_response_sockets (rq_server rq') k = Some (first_client, p)"
  using response_entry_kept [OF assms] .

theorem replies_go_to_first_client_witness:
  "\<exists>rq'. QVPNServerDriver_connect_to_server_impl sample_sys sample_filter (QVPN_Socket_new\<lparr> sock_fd := 2 \<rparr>) sample_key
      (sample_request [sample_key \<mapsto> (QVPN_Socket_new, sample_pair)] Map.empty []) = Some (sample_key, rq') \<and>
    rq_sock_map rq' sample_key \<noteq> None \<and>
    srv_response_sockets (rq_server rq') sample_key = Some (QVPN_Socket_new, sample_pair)"
proof -
  let ?rq = "sample_request [sample_key \<mapsto> (QVPN_Socket_new, sample_pair)] Map.empty []"
  have "srv_response_sockets (rq_server ?rq) sample_key = Some (QVPN_Socket_new, sample_pair)" by (simp add: sample_request_def)
  then show ?thesis
    using replies_go_to_first_client [of sample_sys sample_filter "QVPN_Socket_new\<lparr> sock_fd := 2 \<rparr>" sample_key ?rq sample_key]
      sample_connect [of "QVPN_Socket_new\<lparr> sock_fd := 2 \<rparr>" ?rq] by fastforce
qed

end
