(* ===== verification/ClientCapture.thy ===== *)
theory ClientCapture
  imports Authorisation ServerDriver TcpOptions
begin

text \<open>The client's side of the tunnel on Windows: the traffic filters and the two capture loops of \<open>windivert_ext.hpp/.cpp\<close>,
  the functions of \<open>QVPNClientDriver\<close> (\<open>qvpn_driver.hpp\<close>) that they call, and \<open>QVPNSpeedMeter\<close> (\<open>qvpn_tools\<close>).  The
  WinDivert library is a record of its calls over a state of any type; the socket to the server, the clock and
  the random draws are parameters.  An endless capture loop is taken one round at a time.  Both loops print the packets they
  handle, the incoming one three times, and a round does not return when such a text is never finished
  (\<open>FriendlyView\<close>).  Other log and console output is left out.\<close>

section \<open>Traffic filters\<close>

text \<open>\<open>WinDivertTrafficFilterType\<close> holds the text of a filter.  Its operators change the object they are called on and
  return it: the result is the new text.\<close>

type_synonym WinDivertTrafficFilterType = string

definition WinDivertTrafficFilterType_new :: WinDivertTrafficFilterType where
  "WinDivertTrafficFilterType_new = []"

definition WinDivertTrafficFilterType_of :: "string \<Rightarrow> WinDivertTrafficFilterType" where
  "WinDivertTrafficFilterType_of text = text"

text \<open>Moving swaps the texts of the two objects.\<close>

definition WinDivertTrafficFilterType_move ::
    "WinDivertTrafficFilterType \<Rightarrow> WinDivertTrafficFilterType \<Rightarrow> WinDivertTrafficFilterType \<times> WinDivertTrafficFilterType" where
  "WinDivertTrafficFilterType_move this other = (other, this)"

definition WinDivertTrafficFilterType_and ::
    "WinDivertTrafficFilterType \<Rightarrow> WinDivertTrafficFilterType \<Rightarrow> WinDivertTrafficFilterType" where
  "WinDivertTrafficFilterType_and this t =
     (if t = [] then this
      else if this = [] then t
      else this @ '' and '' @ t)"

definition WinDivertTrafficFilterType_or ::
    "WinDivertTrafficFilterType \<Rightarrow> WinDivertTrafficFilterType \<Rightarrow> WinDivertTrafficFilterType" where
  "WinDivertTrafficFilterType_or this t =
     (if this = [] then this
      else if t = [] then t
      else this @ '' or '' @ t)"

definition WinDivertTrafficFilterType_not :: "WinDivertTrafficFilterType \<Rightarrow> WinDivertTrafficFilterType" where
  "WinDivertTrafficFilterType_not this =
     (if CHR ''='' \<in> set this
      then takeWhile (\<lambda>c. c \<noteq> CHR ''='') this @ ''!'' @ dropWhile (\<lambda>c. c \<noteq> CHR ''='') this
      else ''!'' @ this)"

definition WinDivertTrafficFilter_ipv4 :: WinDivertTrafficFilterType where
  "WinDivertTrafficFilter_ipv4 = WinDivertTrafficFilterType_of ''ip''"
definition WinDivertTrafficFilter_ipv6 :: WinDivertTrafficFilterType where
  "WinDivertTrafficFilter_ipv6 = WinDivertTrafficFilterType_of ''ipv6''"
definition WinDivertTrafficFilter_tcp :: WinDivertTrafficFilterType where
  "WinDivertTrafficFilter_tcp = WinDivertTrafficFilterType_of ''tcp''"
definition WinDivertTrafficFilter_udp :: WinDivertTrafficFilterType where
  "WinDivertTrafficFilter_udp = WinDivertTrafficFilterType_of ''udp''"

definition WinDivertTrafficFilter_source_ipv4 :: "IPv4Address \<Rightarrow> WinDivertTrafficFilterType" where
  "WinDivertTrafficFilter_source_ipv4 addr = WinDivertTrafficFilterType_of (''ip.SrcAddr = '' @ IPv4Address_to_string addr)"

definition WinDivertTrafficFilter_source :: "NetAddr \<Rightarrow> WinDivertTrafficFilterType" where
  "WinDivertTrafficFilter_source addr =
     (if NetAddr_get_addr_family addr = NetProtocol_IPv4 then
        WinDivertTrafficFilterType_of (''ip.SrcAddr = '' @ NetAddr_to_string addr)
      else if NetAddr_get_addr_family addr = NetProtocol_IPv6 then
        WinDivertTrafficFilterType_of (''ip6.SrcAddr = '' @ NetAddr_to_string addr)
      else WinDivertTrafficFilterType_of ''Address type not supported'')"

definition WinDivertTrafficFilter_dest_ipv4 :: "IPv4Address \<Rightarrow> WinDivertTrafficFilterType" where
  "WinDivertTrafficFilter_dest_ipv4 addr = WinDivertTrafficFilterType_of (''ip.DstAddr = '' @ IPv4Address_to_string addr)"

definition WinDivertTrafficFilter_dest :: "NetAddr \<Rightarrow> WinDivertTrafficFilterType" where
  "WinDivertTrafficFilter_dest addr =
     (if NetAddr_get_addr_family addr = NetProtocol_IPv4 then
        WinDivertTrafficFilterType_of (''ip.DstAddr = '' @ NetAddr_to_string addr)
      else if NetAddr_get_addr_family addr = NetProtocol_IPv6 then
        WinDivertTrafficFilterType_of (''ip6.DstAddr = '' @ NetAddr_to_string addr)
      else WinDivertTrafficFilterType_of ''Address type not supported'')"

definition WinDivertTrafficFilter_src_port :: "UInt \<Rightarrow> WinDivertTrafficFilterType" where
  "WinDivertTrafficFilter_src_port port = WinDivertTrafficFilterType_of
     (''tcp.SrcPort = '' @ dec_nat (unat port) @ '' || udp.SrcPort = '' @ dec_nat (unat port))"
definition WinDivertTrafficFilter_dst_port :: "UInt \<Rightarrow> WinDivertTrafficFilterType" where
  "WinDivertTrafficFilter_dst_port port = WinDivertTrafficFilterType_of
     (''tcp.DstPort = '' @ dec_nat (unat port) @ '' || udp.DstPort = '' @ dec_nat (unat port))"
definition WinDivertTrafficFilter_tcp_src_port :: "UInt \<Rightarrow> WinDivertTrafficFilterType" where
  "WinDivertTrafficFilter_tcp_src_port port = WinDivertTrafficFilterType_of (''tcp.SrcPort = '' @ dec_nat (unat port))"
definition WinDivertTrafficFilter_tcp_dst_port :: "UInt \<Rightarrow> WinDivertTrafficFilterType" where
  "WinDivertTrafficFilter_tcp_dst_port port = WinDivertTrafficFilterType_of (''tcp.DstPort = '' @ dec_nat (unat port))"
definition WinDivertTrafficFilter_udp_src_port :: "UInt \<Rightarrow> WinDivertTrafficFilterType" where
  "WinDivertTrafficFilter_udp_src_port port = WinDivertTrafficFilterType_of (''udp.SrcPort = '' @ dec_nat (unat port))"
definition WinDivertTrafficFilter_udp_dst_port :: "UInt \<Rightarrow> WinDivertTrafficFilterType" where
  "WinDivertTrafficFilter_udp_dst_port port = WinDivertTrafficFilterType_of (''udp.DstPort = '' @ dec_nat (unat port))"
definition WinDivertTrafficFilter_custom_protocol :: "UInt \<Rightarrow> WinDivertTrafficFilterType" where
  "WinDivertTrafficFilter_custom_protocol protocol = WinDivertTrafficFilterType_of (''protocol = '' @ dec_nat (unat protocol))"
definition WinDivertTrafficFilter_outgoing_traffic :: WinDivertTrafficFilterType where
  "WinDivertTrafficFilter_outgoing_traffic = WinDivertTrafficFilterType_of ''outbound''"
definition WinDivertTrafficFilter_incoming_traffic :: WinDivertTrafficFilterType where
  "WinDivertTrafficFilter_incoming_traffic = WinDivertTrafficFilterType_of ''inbound''"
definition WinDivertTrafficFilter_local_traffic :: WinDivertTrafficFilterType where
  "WinDivertTrafficFilter_local_traffic = WinDivertTrafficFilterType_of ''loopback''"

section \<open>Speed meter\<close>

text \<open>Time points count nanoseconds; the clock is an argument.  \<open>double\<close> only carries the result of an integer division.\<close>

type_synonym ULong = "64 word"

record QVPNSpeedMeter =
  recv_last_fixation :: int
  send_last_fixation :: int
  recv_first_fixation :: int
  send_first_fixation :: int
  recv_total_bytes :: ULong
  send_total_bytes :: ULong
  recv_last_bytes :: UInt
  send_last_bytes :: UInt

definition QVPNSpeedMeter_new :: QVPNSpeedMeter where
  "QVPNSpeedMeter_new = \<lparr> recv_last_fixation = 0, send_last_fixation = 0, recv_first_fixation = 0, send_first_fixation = 0,
     recv_total_bytes = 0, send_total_bytes = 0, recv_last_bytes = 0, send_last_bytes = 0 \<rparr>"

definition QVPNSpeedMeter_recv_meter_start :: "int \<Rightarrow> QVPNSpeedMeter \<Rightarrow> QVPNSpeedMeter" where
  "QVPNSpeedMeter_recv_meter_start now sm = sm\<lparr> recv_first_fixation := now, recv_last_fixation := 0 \<rparr>"

definition QVPNSpeedMeter_send_meter_start :: "int \<Rightarrow> QVPNSpeedMeter \<Rightarrow> QVPNSpeedMeter" where
  "QVPNSpeedMeter_send_meter_start now sm = sm\<lparr> send_first_fixation := now, send_last_fixation := 0 \<rparr>"

definition QVPNSpeedMeter_add_receive_size :: "UInt \<Rightarrow> int \<Rightarrow> QVPNSpeedMeter \<Rightarrow> QVPNSpeedMeter" where
  "QVPNSpeedMeter_add_receive_size n fix_time sm =
     sm\<lparr> recv_last_bytes := n, recv_total_bytes := recv_total_bytes sm + ucast n, recv_last_fixation := fix_time \<rparr>"

definition QVPNSpeedMeter_add_send_size :: "UInt \<Rightarrow> int \<Rightarrow> QVPNSpeedMeter \<Rightarrow> QVPNSpeedMeter" where
  "QVPNSpeedMeter_add_send_size n fix_time sm =
     sm\<lparr> send_last_bytes := n, send_total_bytes := send_total_bytes sm + ucast n, send_last_fixation := fix_time \<rparr>"

text \<open>The whole seconds that passed, rounded towards zero, as a \<open>UInt\<close>, and at least one.\<close>

definition safe_delta :: "int \<Rightarrow> int \<Rightarrow> UInt" where
  "safe_delta now fixation =
     (let seconds = (if now < fixation then - ((fixation - now) div 10 ^ 9) else (now - fixation) div 10 ^ 9)
      in max (of_int seconds) 1)"

definition QVPNSpeedMeter_get_last_recv_speed :: "int \<Rightarrow> QVPNSpeedMeter \<Rightarrow> UInt" where
  "QVPNSpeedMeter_get_last_recv_speed now sm = recv_last_bytes sm div safe_delta now (recv_last_fixation sm)"
definition QVPNSpeedMeter_get_last_send_speed :: "int \<Rightarrow> QVPNSpeedMeter \<Rightarrow> UInt" where
  "QVPNSpeedMeter_get_last_send_speed now sm = send_last_bytes sm div safe_delta now (send_last_fixation sm)"
definition QVPNSpeedMeter_get_average_recv_speed :: "int \<Rightarrow> QVPNSpeedMeter \<Rightarrow> ULong" where
  "QVPNSpeedMeter_get_average_recv_speed now sm = recv_total_bytes sm div ucast (safe_delta now (recv_first_fixation sm))"
definition QVPNSpeedMeter_get_average_send_speed :: "int \<Rightarrow> QVPNSpeedMeter \<Rightarrow> ULong" where
  "QVPNSpeedMeter_get_average_send_speed now sm = send_total_bytes sm div ucast (safe_delta now (send_first_fixation sm))"

section \<open>The client's driver\<close>

definition QVPNClientDriver_get_vpn_port :: "QVPNClientSettings \<Rightarrow> UShort" where
  "QVPNClientDriver_get_vpn_port s = QVPNClientConnectionSettings_get_port (cset_connection s)"

definition QVPNClientDriver_get_vpn_address :: "QVPNClientSettings \<Rightarrow> NetAddr" where
  "QVPNClientDriver_get_vpn_address s = QVPNClientConnectionSettings_get_ip_address (cset_connection s)"

text \<open>\<open>connect\<close> and \<open>reconnect\<close> are the calls of the socket.\<close>

definition QVPNClientDriver_connect :: "(NetAddr \<Rightarrow> UShort \<Rightarrow> NetStatus) \<Rightarrow> QVPNClientSettings \<Rightarrow> bool" where
  "QVPNClientDriver_connect connect s =
     (let addr = QVPNClientConnectionSettings_get_ip_address (cset_connection s);
          port = QVPNClientConnectionSettings_get_port (cset_connection s)
      in ns_success (connect addr port))"

definition QVPNClientDriver_reconnect :: "(NetAddr \<Rightarrow> UShort \<Rightarrow> NetStatus) \<Rightarrow> QVPNClientSettings \<Rightarrow> NetStatus" where
  "QVPNClientDriver_reconnect reconnect s =
     (let addr = QVPNClientConnectionSettings_get_ip_address (cset_connection s);
          port = QVPNClientConnectionSettings_get_port (cset_connection s)
      in reconnect addr port)"

definition QVPNClientDriver_get_data :: "ReceiveData \<Rightarrow> bytes" where
  "QVPNClientDriver_get_data receive_data = rcv_data receive_data"

text \<open>\<open>disconnect\<close> shuts the socket down and closes it before it asks for the result of \<open>disconnect\<close>, which is all that counts.\<close>

definition QVPNClientDriver_disconnect ::
    "('w \<Rightarrow> NetStatus \<times> 'w) \<Rightarrow> ('w \<Rightarrow> NetStatus \<times> 'w) \<Rightarrow> ('w \<Rightarrow> NetStatus \<times> 'w) \<Rightarrow> 'w \<Rightarrow> bool \<times> 'w" where
  "QVPNClientDriver_disconnect shutdown close_socket disconnect w =
     (let (r, w) = shutdown w;
          (r1, w) = close_socket w;
          (res, w) = disconnect w
      in (ns_success res, w))"

text \<open>What the loops need besides WinDivert: the draws, the clock of the hello, the calls of the socket, the settings,
  the order in which the hash table of packets is walked, and the names that packets are printed with.\<close>

record client_env =
  env_rss :: "nat \<Rightarrow> byte_source"
  env_time :: UInt
  env_draw :: "nat \<Rightarrow> nat"
  env_connect :: "NetAddr \<Rightarrow> UShort \<Rightarrow> NetStatus"
  env_reconnect :: "nat \<Rightarrow> NetAddr \<Rightarrow> UShort \<Rightarrow> NetStatus"
  env_send :: "nat \<Rightarrow> bytes \<Rightarrow> NetStatus"
  env_receive :: "bytes \<Rightarrow> ReceiveData"
  env_settings :: QVPNClientSettings
  env_order :: key_order
  env_now :: int
  env_verboser :: QVPNVerboser

definition env_try_reconnect :: "client_env \<Rightarrow> nat \<Rightarrow> NetStatus" where
  "env_try_reconnect env k = QVPNClientDriver_reconnect (env_reconnect env k) (env_settings env)"

definition env_init :: "client_env \<Rightarrow> (bytes \<times> bool) option" where
  "env_init env = QVPNClientDriver_init (env_rss env) (env_time env) (env_draw env) (env_send env 0) (env_receive env)
     (env_settings env)"

definition env_encode_and_send ::
    "client_env \<Rightarrow> QVPNDriver \<Rightarrow> QTunnelProxy \<Rightarrow> mem \<Rightarrow> ptr \<Rightarrow> ptr \<Rightarrow> (bytes list \<times> QVPNDriver) option" where
  "env_encode_and_send env = QVPNClientDriver_encode_and_send (env_rss env) (env_time env) (env_draw env) (env_send env)
     (env_receive env) (env_try_reconnect env) (env_settings env)"

section \<open>Visitors of captured packets\<close>

fun visit_get_dst_addr :: "mem \<Rightarrow> FullPacketType \<Rightarrow> NetAddr option" where
  "visit_get_dst_addr m (TcpPacketOf v) = Ipv4PacketView_get_dst_addr (tcpv_net v) m"
| "visit_get_dst_addr m (UdpPacketOf v) = Ipv4PacketView_get_dst_addr (udpv_net v) m"
| "visit_get_dst_addr m DummyPacket = Some DummyNetPacket_get_dst_addr"

fun visit_get_dst_port :: "mem \<Rightarrow> FullPacketType \<Rightarrow> UShort option" where
  "visit_get_dst_port m (TcpPacketOf v) = TcpPacketView_get_dst_port (tcpv_transport v) m"
| "visit_get_dst_port m (UdpPacketOf v) = UdpPacketView_get_dst_port (udpv_transport v) m"
| "visit_get_dst_port m DummyPacket = Some DummyTransportPacket_get_dst_port"

fun visit_new_packet_bytes_by_this :: "mem \<Rightarrow> FullPacketType \<Rightarrow> QTunnelProxy \<Rightarrow> bytes \<Rightarrow> bytes option" where
  "visit_new_packet_bytes_by_this m (TcpPacketOf v) p d = Ipv4TcpPacket_View_new_packet_bytes_by_this v m p d"
| "visit_new_packet_bytes_by_this m (UdpPacketOf v) p d = Ipv4UdpPacket_View_new_packet_bytes_by_this v m p d"
| "visit_new_packet_bytes_by_this m DummyPacket p d = Some (DummyFullPacket_new_packet_bytes_by_this p d)"

text \<open>The range of a whole packet; that of a dummy packet is empty.\<close>

fun visit_bytes_range :: "FullPacketType \<Rightarrow> ptr \<times> ptr" where
  "visit_bytes_range (TcpPacketOf v) = Ipv4TcpPacket_View_bytes v"
| "visit_bytes_range (UdpPacketOf v) = Ipv4UdpPacket_View_bytes v"
| "visit_bytes_range DummyPacket = (0, 0)"

section \<open>The capture driver\<close>

text \<open>The calls of the WinDivert library.  \<open>'a\<close> is \<open>WINDIVERT_ADDRESS\<close>, which a packet is captured with and injected with.\<close>

record ('w, 'a) windivert =
  wd_open :: "string \<Rightarrow> 'w \<Rightarrow> int \<times> 'w"
  wd_recv :: "int \<Rightarrow> nat \<Rightarrow> 'w \<Rightarrow> (bytes \<times> 'a) option \<times> 'w"
  wd_send :: "int \<Rightarrow> bytes \<Rightarrow> 'a \<Rightarrow> 'w \<Rightarrow> bool \<times> 'w"
  wd_calc_checksums :: "bytes \<Rightarrow> 'a \<Rightarrow> bytes \<times> 'a"
  wd_close :: "int \<Rightarrow> 'w \<Rightarrow> bool \<times> 'w"

definition INVALID_HANDLE_VALUE :: int where "INVALID_HANDLE_VALUE = -1"

text \<open>The members of \<open>WinDivertClientVPNNetDriver_\<close>.\<close>

record WinDivertClient =
  filters_out :: "WinDivertTrafficFilterType list"
  filters_in :: "WinDivertTrafficFilterType list"
  outgoing_filters_data :: string
  incoming_filters_data :: string
  out_hDivert :: int
  in_hDivert :: int
  new_adapter_id :: ULong
  wdc_driver :: QVPNDriver
  speed_meter :: QVPNSpeedMeter

definition WinDivertClient_clear_outgoing_filters :: "WinDivertClient \<Rightarrow> WinDivertClient" where
  "WinDivertClient_clear_outgoing_filters c = c\<lparr> filters_out := [], outgoing_filters_data := [] \<rparr>"

definition WinDivertClient_clear_incoming_filters :: "WinDivertClient \<Rightarrow> WinDivertClient" where
  "WinDivertClient_clear_incoming_filters c = c\<lparr> filters_in := [], incoming_filters_data := [] \<rparr>"

fun and_filters :: "WinDivertTrafficFilterType \<Rightarrow> WinDivertTrafficFilterType list \<Rightarrow> WinDivertTrafficFilterType" where
  "and_filters temp [] = temp"
| "and_filters temp (f # fs) = and_filters (WinDivertTrafficFilterType_and temp f) fs"

definition WinDivertClient_calculate_outgoing_filters :: "WinDivertClient \<Rightarrow> WinDivertClient" where
  "WinDivertClient_calculate_outgoing_filters c =
     c\<lparr> outgoing_filters_data := and_filters (WinDivertTrafficFilterType_of []) (filters_out c) \<rparr>"

definition WinDivertClient_calculate_incoming_filters :: "WinDivertClient \<Rightarrow> WinDivertClient" where
  "WinDivertClient_calculate_incoming_filters c =
     c\<lparr> incoming_filters_data := and_filters (WinDivertTrafficFilterType_of []) (filters_in c) \<rparr>"

text \<open>\<open>Addr("195.82.146.78")\<close>: the text is parsed; the parser throws on text that is not a number.\<close>

definition test_site :: "std_exception + NetAddr" where
  "test_site = NetAddr_of_string ''195.82.146.78''"

definition WinDivertClient_apply_default_outgoing_filter ::
    "QVPNClientSettings \<Rightarrow> WinDivertClient \<Rightarrow> std_exception + WinDivertClient" where
  "WinDivertClient_apply_default_outgoing_filter s c = (case test_site of
     Inl ex \<Rightarrow> Inl ex
   | Inr site \<Rightarrow> Inr (c\<lparr> filters_out := filters_out c @
       [WinDivertTrafficFilterType_not (WinDivertTrafficFilter_source (QVPNClientDriver_get_vpn_address s)),
        WinDivertTrafficFilter_outgoing_traffic,
        WinDivertTrafficFilterType_not (WinDivertTrafficFilter_tcp_dst_port 22),
        WinDivertTrafficFilterType_not WinDivertTrafficFilter_local_traffic,
        WinDivertTrafficFilter_dest site,
        WinDivertTrafficFilter_tcp_dst_port 8080] \<rparr>))"

definition WinDivertClient_apply_default_incoming_filter ::
    "QVPNClientSettings \<Rightarrow> WinDivertClient \<Rightarrow> std_exception + WinDivertClient" where
  "WinDivertClient_apply_default_incoming_filter s c = (case test_site of
     Inl ex \<Rightarrow> Inl ex
   | Inr site \<Rightarrow> Inr (c\<lparr> filters_in := filters_in c @
       [WinDivertTrafficFilter_incoming_traffic,
        WinDivertTrafficFilter_source (QVPNClientDriver_get_vpn_address s),
        WinDivertTrafficFilterType_not (WinDivertTrafficFilter_tcp_src_port 22),
        WinDivertTrafficFilterType_not WinDivertTrafficFilter_local_traffic,
        WinDivertTrafficFilter_source site] \<rparr>))"

definition WinDivertClient_add_outgoing_traffic_filter :: "WinDivertTrafficFilterType \<Rightarrow> WinDivertClient \<Rightarrow> WinDivertClient" where
  "WinDivertClient_add_outgoing_traffic_filter f c =
     WinDivertClient_calculate_outgoing_filters (c\<lparr> filters_out := filters_out c @ [f] \<rparr>)"

definition WinDivertClient_add_incoming_traffic_filter :: "WinDivertTrafficFilterType \<Rightarrow> WinDivertClient \<Rightarrow> WinDivertClient" where
  "WinDivertClient_add_incoming_traffic_filter f c =
     WinDivertClient_calculate_incoming_filters (c\<lparr> filters_in := filters_in c @ [f] \<rparr>)"

text \<open>\<open>init_driver\<close> returns nothing; what the last \<open>init\<close> sent and its result, if there was one.\<close>

definition WinDivertClient_init_driver :: "client_env \<Rightarrow> (bytes \<times> bool) option option" where
  "WinDivertClient_init_driver env =
     (if QVPNClientDriver_connect (env_connect env) (env_settings env) then map_option Some (env_init env)
      else if fst (QVPNClientDriver_try_reconnect (env_try_reconnect env) default_reconnect_number)
        then map_option Some (env_init env)
      else Some None)"

text \<open>The threads of the two loops open the driver first; \<open>None\<close> when that fails and the thread ends.\<close>

definition WinDivertClient_start_capture_outgoing_traffic ::
    "('w, 'a) windivert \<Rightarrow> client_env \<Rightarrow> ULong \<Rightarrow> WinDivertClient \<Rightarrow> 'w \<Rightarrow> std_exception + bool \<times> WinDivertClient \<times> 'w" where
  "WinDivertClient_start_capture_outgoing_traffic wd env adapter_id c w =
     (case WinDivertClient_apply_default_outgoing_filter (env_settings env) c of
        Inl ex \<Rightarrow> Inl ex
      | Inr c \<Rightarrow>
          let c = (WinDivertClient_calculate_outgoing_filters c)\<lparr> new_adapter_id := adapter_id \<rparr>;
              c = c\<lparr> speed_meter := QVPNSpeedMeter_send_meter_start (env_now env) (speed_meter c) \<rparr>;
              (h, w) = wd_open wd (outgoing_filters_data c) w
          in Inr (h \<noteq> INVALID_HANDLE_VALUE, c\<lparr> out_hDivert := h \<rparr>, w))"

definition WinDivertClient_start_capture_incoming_traffic ::
    "('w, 'a) windivert \<Rightarrow> client_env \<Rightarrow> WinDivertClient \<Rightarrow> 'w \<Rightarrow> std_exception + bool \<times> WinDivertClient \<times> 'w" where
  "WinDivertClient_start_capture_incoming_traffic wd env c w =
     (case WinDivertClient_apply_default_incoming_filter (env_settings env) c of
        Inl ex \<Rightarrow> Inl ex
      | Inr c \<Rightarrow>
          let c = WinDivertClient_calculate_incoming_filters c;
              c = c\<lparr> speed_meter := QVPNSpeedMeter_recv_meter_start (env_now env) (speed_meter c) \<rparr>;
              (h, w) = wd_open wd (incoming_filters_data c) w
          in Inr (h \<noteq> INVALID_HANDLE_VALUE, c\<lparr> in_hDivert := h \<rparr>, w))"

text \<open>The proxy block of a captured packet.\<close>

definition capture_proxy :: "mem \<Rightarrow> FullPacketType \<Rightarrow> QTunnelProxy option" where
  "capture_proxy m package = do {
     ver \<leftarrow> visit_get_protocol_version m package;
     transport_proto \<leftarrow> visit_get_transport_protocol m package;
     ip_src \<leftarrow> visit_get_src_addr m package;
     port_src \<leftarrow> visit_get_src_port m package;
     ip_dest \<leftarrow> visit_get_dst_addr m package;
     port_dst \<leftarrow> visit_get_dst_port m package;
     qtunnel_proto_data \<leftarrow> visit_collect_proto_data m package;
     Some (QTunnelProxy_of ver transport_proto ip_src port_src ip_dest port_dst qtunnel_proto_data) }"

text \<open>A round of \<open>outgoing_capture_loop\<close>.  \<open>packet\<close> is the buffer of \<open>MAXBUF\<close> bytes, which keeps what earlier rounds left in
  it.  The result has the byte strings sent to the server.\<close>

definition WinDivertClient_outgoing_capture_round ::
    "('w, 'a) windivert \<Rightarrow> client_env \<Rightarrow> bytes \<Rightarrow> WinDivertClient \<Rightarrow> 'w \<Rightarrow>
     (bytes list \<times> bytes \<times> WinDivertClient \<times> 'w) option" where
  "WinDivertClient_outgoing_capture_round wd env packet c w =
     (case wd_recv wd (out_hDivert c) (length packet) w of
        (None, w) \<Rightarrow> Some ([], packet, c, w)
      | (Some (captured, addr), w) \<Rightarrow> do {
          let packet = captured @ drop (length captured) packet;
          package \<leftarrow> PacketPreParser_pre_parse packet 0 (length captured);
          proxy_data \<leftarrow> capture_proxy packet package;
          let (data_b, data_e) = visit_get_payload package;
          printed (visit_to_packet_friendly_view (env_verboser env) packet package);
          (sent, d) \<leftarrow> env_encode_and_send env (wdc_driver c) proxy_data packet data_b data_e;
          let meter = QVPNSpeedMeter_add_send_size (of_int (int data_e - int data_b)) (env_now env) (speed_meter c);
          Some (sent, packet, c\<lparr> wdc_driver := d, speed_meter := meter \<rparr>, w) })"

text \<open>What the incoming loop does with the data of a packet of the server: the packet to inject, which is printed, and its
  range.\<close>

definition rebuild_packet ::
    "QVPNVerboser \<Rightarrow> mem \<Rightarrow> FullPacketType \<Rightarrow> QTunnelData \<Rightarrow> (bytes \<times> FullPacketType \<times> ptr \<times> ptr) option" where
  "rebuild_packet vb m package decoded_data = do {
     let raw = QTunnelData_get_raw_data decoded_data;
     let proxy_data = QTunnelProxy_create (QTunnelProxy.truncate decoded_data);
     inj_p_bytes \<leftarrow> visit_new_packet_bytes_by_this m package proxy_data raw;
     inj_packet \<leftarrow> PacketPreParser_pre_parse inj_p_bytes 0 (length inj_p_bytes);
     printed (visit_to_packet_friendly_view vb inj_p_bytes inj_packet);
     let (res_b, res_e) = visit_bytes_range inj_packet;
     Some (inj_p_bytes, inj_packet, res_b, res_e) }"

text \<open>A round of \<open>incoming_capture_loop\<close>.  Injection is called with the size of the C++ object \<open>inj_packet\<close>, not that of the
  packet: \<open>sizeof_inj_packet\<close> bytes are handed over from the start of the packet, which is undefined when they reach
  past its vector.  A packet without payload is injected again with the whole buffer.\<close>

definition WinDivertClient_incoming_capture_round ::
    "('w, 'a) windivert \<Rightarrow> client_env \<Rightarrow> nat \<Rightarrow> bytes \<Rightarrow> WinDivertClient \<Rightarrow> 'w \<Rightarrow> (bytes \<times> WinDivertClient \<times> 'w) option" where
  "WinDivertClient_incoming_capture_round wd env sizeof_inj_packet packet c w =
     (case wd_recv wd (in_hDivert c) (length packet) w of
        (None, w) \<Rightarrow> Some (packet, c, w)
      | (Some (captured, addr), w) \<Rightarrow> do {
          let packet = captured @ drop (length captured) packet;
          let c = c\<lparr> speed_meter :=
            QVPNSpeedMeter_add_receive_size (of_nat (length captured)) (env_now env) (speed_meter c) \<rparr>;
          package \<leftarrow> PacketPreParser_pre_parse packet 0 (length captured);
          let (data_b, data_e) = visit_get_payload package;
          if data_b = data_e then Some (packet, c, snd (wd_send wd (in_hDivert c) packet addr w))
          else do {
            printed (visit_to_packet_friendly_view (env_verboser env) packet package);
            (decoded_data, d) \<leftarrow> QVPNClientDriver_decode_data (env_order env) (wdc_driver c) packet data_b data_e;
            let c = c\<lparr> wdc_driver := d \<rparr>;
            case decoded_data of
              None \<Rightarrow> Some (packet, c, w)
            | Some decoded_data \<Rightarrow>
                if \<not> QTunnelProxy_check_validity (QTunnelProxy.truncate decoded_data) then Some (packet, c, w)
                else do {
                  (inj_p_bytes, inj_packet, res_b, res_e) \<leftarrow> rebuild_packet (env_verboser env) packet package decoded_data;
                  res \<leftarrow> rd_range inj_p_bytes res_b res_e;
                  let (res, addr) = wd_calc_checksums wd res addr;
                  inj_p_bytes \<leftarrow> wr_range inj_p_bytes res_b res;
                  printed (visit_to_packet_friendly_view (env_verboser env) inj_p_bytes inj_packet);
                  handed \<leftarrow> rd_range inj_p_bytes res_b (res_b + sizeof_inj_packet);
                  Some (packet, c, snd (wd_send wd (in_hDivert c) handed addr w)) } } })"

definition WinDivertClient_stop_capture_traffic ::
    "('w, 'a) windivert \<Rightarrow> ('w \<Rightarrow> 'w) \<Rightarrow> WinDivertClient \<Rightarrow> 'w \<Rightarrow> 'w" where
  "WinDivertClient_stop_capture_traffic wd disconnect c w =
     (let w = disconnect w;
          (_, w) = wd_close wd (out_hDivert c) w;
          (_, w) = wd_close wd (in_hDivert c) w
      in w)"

section \<open>Packets rebuilt from captured ones\<close>

lemma view_tcp_by_this:
  "Ipv4TcpPacket_View_new_packet_by_this v m p payload = do {
     t \<leftarrow> TcpPacketLE_generate_proxy_object p;
     let (ob, oe) = Ipv4PacketView_to_bytes (tcpv_net v);
     old_header \<leftarrow> Ipv4PacketView_of_range m ob oe;
     n \<leftarrow> Ipv4PacketView_generate_object_from_parent old_header m (source_addr p) (dst_addr p)
       (of_nat (length t + length payload));
     fp \<leftarrow> Ipv4TcpPacket_of_parts n t payload;
     fp \<leftarrow> Ipv4TcpPacket_recalculate_lengths fp;
     Ipv4TcpPacket_recalculate_checksums fp }"
  by (simp add: Ipv4TcpPacket_View_new_packet_by_this_def TcpPacketLE_generate_proxy_object_def
      TcpPacketLE_generate_proxy_bytes_def TcpPacketView_generate_object_def TcpPacketLE_generate_object_def Let_def bind_assoc
      Ipv4PacketLE_to_bytes_def TcpPacketLE_to_bytes_def QTunnelProxy_get_src_addr_def
      QTunnelProxy_get_dst_addr_def)

text \<open>The new network header is made from a copy of the captured one.\<close>

lemma header_from_captured:
  assumes m: "20 \<le> length m" "lo_nibble (m ! 0) = 5" and addr: "length src = 4" "length dst = 4"
    and v: "v = \<lparr> ip4_header = 0, ip4_additional_header = 20, ip4_add_header_size = 0 \<rparr>"
  shows "\<exists>n. Ipv4PacketView_generate_object_from_parent v m src dst len = Some n \<and> length n = 20 \<and>
    n ! 0 = m ! 0 \<and> n ! 9 = m ! 9 \<and> drop 12 n = src @ dst"
proof -
  have "Ipv4PacketView_generate_object_from_parent v m src dst len =
      Ipv4PacketLE_generate_object_from_parent v (take 20 m) src dst len"
    using m(1) by (simp add: Ipv4PacketView_generate_object_from_parent_def Ipv4PacketLE_generate_object_from_parent_def
        Ipv4PacketView_generate_from_parent_def Ipv4PacketLE_generate_from_parent_def v Ipv4PacketView_to_bytes_def
        rd_range_def)
  then show ?thesis
    using header_from_parent [of "take 20 m" src dst v len] m addr v by simp
qed

text \<open>Recalculating the lengths of such an object fills in the total length of its network header.\<close>

lemma tcp_object_lengths:
  assumes h: "length h = 20" "h ! 0 = 0x45" and t: "20 \<le> length t" "4 * unat (hi_nibble (t ! 12)) = length t"
    and fp: "Ipv4TcpPacket_of_parts h t payload = Some fp"
  defines "l \<equiv> of_nat (20 + length t + length payload) :: UShort"
  shows "Ipv4TcpPacket_recalculate_lengths fp = Ipv4TcpPacket_of_parts (h[2 := byte_of 8 l, 3 := byte_of 0 l]) t payload"
proof -
  let ?h = "h[2 := byte_of 8 l, 3 := byte_of 0 l]"
  let ?m = "h @ t @ payload" and ?m' = "?h @ t @ payload"
  let ?x = "t ! 12 OR push_bit 4 (ucast ((of_nat (length t) :: UShort) div 4))"
  have "t[12 := ?x] = t"
    using transport_length_idem [OF _ t(2)] t(1) by (simp add: TcpPacketLE_set_transport_length_def rd_def wr_def)
  then have idem: "?x = t ! 12" using nth_list_update_eq [of 12 t ?x] t(1) by simp
  have w1: "wr16 ?m 2 l = Some ?m'"
    using h(1) by (simp add: wr16_Some list_update_append numeral_2_eq_2 numeral_3_eq_3)
  have at: "?m' ! 32 = t ! 12" "32 < length ?m'" using h(1) t(1) by (simp_all add: nth_append)
  have same: "?m'[32 := t ! 12] = ?m'" using at by (metis list_update_id)
  let ?v = "\<lparr> tcpv_net = \<lparr> ip4_header = 0, ip4_additional_header = 20, ip4_add_header_size = 0 \<rparr>,
    tcpv_transport = \<lparr> tcp_header = 20, tcp_options = 40, tcp_options_size = int (length t) - 20 \<rparr>,
    tcpv_payload = DataPacketView_of_range (20 + length t) (20 + (length t + length payload)) \<rparr>"
  have range: "Ipv4PacketView_to_bytes (tcpv_net ?v) = (0, 20)"
    "TcpPacketView_to_bytes (tcpv_transport ?v) = (20, 20 + length t)"
    "DataPacketView_to_bytes (tcpv_payload ?v) = (20 + length t, 20 + (length t + length payload))"
    using t(1) by (simp_all add: Ipv4PacketView_to_bytes_def TcpPacketView_to_bytes_def DataPacketView_to_bytes_def
        DataPacketView_of_range_def)
  have len: "(of_int (int 20 - int 0 + (int (20 + length t) - int 20) +
      (int (20 + (length t + length payload)) - int (20 + length t))) :: UShort) = l"
    "(of_int (int (20 + length t) - int 20) :: UShort) = of_nat (length t)"
    unfolding l_def by simp_all
  have "TcpPacketView_set_transport_length (tcpv_transport ?v) ?m' (of_nat (length t)) = Some ?m'"
    using at idem same by (simp add: TcpPacketView_set_transport_length_def rd_def wr_def)
  then have "Ipv4TcpPacket_View_recalculate_lengths ?v ?m = Some ?m'"
    unfolding Ipv4TcpPacket_View_recalculate_lengths_def range Let_def prod.case len
    using w1 by (simp add: Ipv4PacketView_set_ip_total_length_def numeral_2_eq_2)
  moreover have "fp = \<lparr> tcpo_views = ?v, tcpo_data = ?m \<rparr>" using fp tcp_parts_shape [OF h t, of payload] by simp
  ultimately show ?thesis
    using tcp_parts_shape [of ?h, OF _ _ t, of payload] h by (simp add: Ipv4TcpPacket_recalculate_lengths_def)
qed

text \<open>The packet that the client makes of a captured IPv4 TCP packet and of the data the server sent in it.\<close>

lemma captured_packet_rebuilt:
  assumes net: "20 \<le> length m" "m ! 0 = 0x45" "m ! 9 = TransportProtocol_TCP"
    and v: "tcpv_net v = \<lparr> ip4_header = 0, ip4_additional_header = 20, ip4_add_header_size = 0 \<rparr>"
    and addr: "length (source_addr p) = 4" "length (dst_addr p) = 4"
    and t: "TcpPacketLE_generate_proxy_bytes p = Some t" "20 \<le> length t" "4 * unat (hi_nibble (t ! 12)) = length t"
    and len: "20 + length t + length payload \<le> 65535"
  shows "\<exists>pkt. Ipv4TcpPacket_View_new_packet_bytes_by_this v m p payload = Some pkt \<and> pkt ! 0 = 0x45 \<and>
    tcp_packet_carries pkt (source_addr p) (dst_addr p) t payload"
proof -
  let ?v = "\<lparr> ip4_header = 0, ip4_additional_header = 20, ip4_add_header_size = 0 \<rparr>"
  let ?l = "of_nat (20 + length t + length payload) :: UShort"
  have lo: "lo_nibble (m ! 0) = 5" by (simp add: net(2) lo_nibble_def)
  obtain n where n: "Ipv4PacketView_generate_object_from_parent ?v m (source_addr p) (dst_addr p)
      (of_nat (length t + length payload)) = Some n" "length n = 20" "n ! 0 = m ! 0" "n ! 9 = m ! 9"
      "drop 12 n = source_addr p @ dst_addr p"
    using header_from_captured [OF net(1) lo addr refl] by metis
  let ?n = "n[2 := byte_of 8 ?l, 3 := byte_of 0 ?l]"
  have n': "length ?n = 20" "?n ! 0 = 0x45" "?n ! 9 = TransportProtocol_TCP" "drop 12 ?n = source_addr p @ dst_addr p"
    using n net by simp_all
  obtain fp0 fp pkt where pkt: "Ipv4TcpPacket_of_parts ?n t payload = Some fp0" "Ipv4TcpPacket_recalculate_checksums fp0 = Some fp"
    "Ipv4TcpPacket_bytes fp = Some pkt" "length pkt = 20 + length t + length payload"
    "\<forall>i. i \<notin> {10, 11, 36, 37} \<longrightarrow> pkt ! i = (?n @ t @ payload) ! i" "checksum_valid (words_sum (take 20 pkt))"
    "checksum_valid (words_sum (drop 20 pkt) + words_sum (ip_pseudo_header pkt))"
    using tcp_object_of_parts [OF n'(1,2) t(2,3) len] by blast
  obtain fp' where fp': "Ipv4TcpPacket_of_parts n t payload = Some fp'"
    using tcp_parts_shape [of n, OF n(2) _ t(2,3)] n(3) net(2) by simp
  have lens: "Ipv4TcpPacket_recalculate_lengths fp' = Some fp0"
    using tcp_object_lengths [OF n(2) _ t(2,3) fp'] n(3) net(2) pkt(1) by simp
  have view: "Ipv4PacketView_of_range m 0 20 = Some ?v"
    using net(1) lo by (simp add: Ipv4PacketView_of_range_def Ipv4PacketView_parse_packet_def
      Ipv4PacketView_get_ip_header_length_def rd_def ip_size_defs del: length_greater_0_conv)
  have "Ipv4TcpPacket_View_new_packet_bytes_by_this v m p payload = Some pkt"
    using t TcpPacketLE_of_own_bytes [OF t(2,3)] n(1) fp' lens pkt(2,3) view
    by (simp add: Ipv4TcpPacket_View_new_packet_bytes_by_this_def view_tcp_by_this TcpPacketLE_generate_proxy_object_def v
        Ipv4PacketView_to_bytes_def)
  moreover have "tcp_packet_carries pkt (source_addr p) (dst_addr p) t payload"
    by (rule carries_from_parts [OF n' t(2) pkt(4,5) _ addr pkt(6,7)]) (simp add: n(2))
  moreover have "pkt ! 0 = 0x45" using pkt(5) n'(1,2) by (simp add: nth_append)
  ultimately show ?thesis by blast
qed
section \<open>Rounds of the loops\<close>

lemma tcp_packet_parsed:
  assumes "40 \<le> length m" "m ! 0 = 0x45" "m ! 9 = TransportProtocol_TCP" "5 \<le> unat (hi_nibble (m ! 32))"
    "20 + 4 * unat (hi_nibble (m ! 32)) \<le> length m"
  shows "\<exists>v. PacketPreParser_pre_parse m 0 (length m) = Some (TcpPacketOf v) \<and> Ipv4TcpPacket_View_bytes v = (0, length m) \<and>
    plain_tcp_view (unat (hi_nibble (m ! 32))) v"
proof -
  have lo: "lo_nibble (m ! 0) = 5" by (simp add: assms(2) lo_nibble_def)
  note v = tcp_view_shape [OF assms(1) lo assms(4)]
  have "rd m 0 = Some 0x45" "rd m 9 = Some 6"
    using assms(1-3) by (simp_all add: rd_def protocol_defs del: length_greater_0_conv)
  moreover have "\<exists>v. Ipv4PacketView_of_range m 0 (length m) = Some v \<and> ip4_header v = 0"
    using assms(1) by (simp add: Ipv4PacketView_of_range_def Ipv4PacketView_parse_packet_def
      Ipv4PacketView_get_ip_header_length_def rd_def ip_size_defs del: length_greater_0_conv)
  ultimately have "PacketPreParser_pre_parse m 0 (length m) = map_option TcpPacketOf (Ipv4TcpPacket_View_of_range m 0 (length m))"
    by (auto simp: PacketPreParser_pre_parse_def PacketPreParser_pre_parse_ipv4_def protocol_defs
        Ipv4PacketView_get_ip_protocol_def)
  then show ?thesis
    using v assms(5) by (simp add: Ipv4TcpPacket_View_bytes_def Ipv4PacketView_to_bytes_def DataPacketView_to_bytes_def
        DataPacketView_of_range_def plain_tcp_view_def)
qed

text \<open>Decoding depends on the bytes of its range only.\<close>

lemma decode_at:
  "rd_range m b e = Some x \<Longrightarrow>
    QVPNClientDriver_decode_data order d m b e = QVPNClientDriver_decode_data order d x 0 (length x)"
  by (simp add: QVPNClientDriver_decode_data_def rd_range_def)

lemma rebuild_tcp_packet:
  assumes "20 \<le> length m" "m ! 0 = 0x45" "m ! 9 = TransportProtocol_TCP"
    "tcpv_net v = \<lparr> ip4_header = 0, ip4_additional_header = 20, ip4_add_header_size = 0 \<rparr>"
    "length (source_addr p) = 4" "length (dst_addr p) = 4"
    and t: "TcpPacketLE_generate_proxy_bytes p = Some t" "20 \<le> length t" "4 * unat (hi_nibble (t ! 12)) = length t"
    and "20 + length t + length payload \<le> 65535" and opts: "options_ok (drop 20 t)"
  shows "\<exists>pkt v'. rebuild_packet vb m (TcpPacketOf v) (delivered p payload) = Some (pkt, TcpPacketOf v', 0, length pkt) \<and>
    tcp_packet_carries pkt (source_addr p) (dst_addr p) t payload \<and> pkt ! 0 = 0x45 \<and> plain_tcp_view (length t div 4) v'"
proof -
  obtain pkt where pkt: "Ipv4TcpPacket_View_new_packet_bytes_by_this v m p payload = Some pkt" "pkt ! 0 = 0x45"
      "tcp_packet_carries pkt (source_addr p) (dst_addr p) t payload"
    using captured_packet_rebuilt [OF assms(1-10)] by blast
  have "pkt ! (20 + 12) = t ! 12" "length pkt = 20 + length t + length payload" "pkt ! 9 = TransportProtocol_TCP"
    using pkt(3) t(2) by (simp_all only: tcp_packet_carries_def)
  then obtain v' where "PacketPreParser_pre_parse pkt 0 (length pkt) = Some (TcpPacketOf v')"
      "Ipv4TcpPacket_View_bytes v' = (0, length pkt)" "plain_tcp_view (unat (hi_nibble (t ! 12))) v'"
    using tcp_packet_parsed [of pkt] pkt(2) t(2,3) by auto
  moreover have "length t div 4 = unat (hi_nibble (t ! 12))" using t(3) by simp
  ultimately show ?thesis
    using pkt carried_printed [OF pkt(3) _ t(2,3) opts, of v' vb] by (simp add: rebuild_packet_def QTunnelData_get_raw_data_def)
qed

text \<open>What WinDivert documents of \<open>WinDivertHelperCalcChecksums\<close>, for TCP packets with a plain IPv4 header: the two
  checksums may change and nothing else.\<close>

definition calculates_checksums :: "('w, 'a) windivert \<Rightarrow> bool" where
  "calculates_checksums wd \<longleftrightarrow> (\<forall>bs a. length (fst (wd_calc_checksums wd bs a)) = length bs \<and>
     (40 \<le> length bs \<and> bs ! 0 = 0x45 \<and> bs ! 9 = TransportProtocol_TCP \<longrightarrow>
       (\<forall>i<length bs. i \<notin> {10, 11, 36, 37} \<longrightarrow> fst (wd_calc_checksums wd bs a) ! i = bs ! i)))"

text \<open>After it the rebuilt packet is printed again.\<close>

lemma recalculated_printed:
  assumes "calculates_checksums wd" "tcp_packet_carries pkt src dst t payload" "pkt ! 0 = 0x45"
    and v: "plain_tcp_view (length t div 4) v" and t: "20 \<le> length t" "4 * unat (hi_nibble (t ! 12)) = length t"
    and opts: "options_ok (drop 20 t)"
  shows "printed (Ipv4TcpPacket_View_to_packet_friendly_view vb v (fst (wd_calc_checksums wd pkt a))) = Some ()"
proof -
  let ?m = "fst (wd_calc_checksums wd pkt a)"
  have k: "5 \<le> length t div 4" "4 * (length t div 4) = length t" using t by presburger+
  have pkt: "length pkt = 20 + length t + length payload" "pkt ! 9 = TransportProtocol_TCP"
    using assms(2) unfolding tcp_packet_carries_def by blast+
  have len: "length ?m = length pkt" using assms(1) by (simp add: calculates_checksums_def)
  have "?m ! i = pkt ! i" if "40 \<le> i" "i < length pkt" for i
    using assms(1,3) pkt t(1) that by (simp add: calculates_checksums_def)
  then have "mslice ?m 40 (length t - 20) = mslice pkt 40 (length t - 20)"
    using len pkt(1) by (intro nth_equalityI) (auto simp: mslice_def)
  then have "options_ok (mslice ?m 40 (4 * (length t div 4) - 20))"
    using carried_options [OF assms(2)] opts by (simp add: k(2))
  then show ?thesis using tcp_view_printed [OF v k(1)] len pkt(1) by (simp add: k(2))
qed

text \<open>What the incoming loop injects: as many bytes of the rebuilt packet as the size of the object \<open>inj_packet\<close>.\<close>

lemma incoming_round_injects:
  assumes recv: "wd_recv wd (in_hDivert c) (length packet) w = (Some (seg, addr), w')" "length seg \<le> length packet"
    and seg: "tcp_reply seg j" "x \<noteq> []" "drop (20 + 4 * j) seg = x" "options_ok (mslice seg 40 (4 * j - 20))"
    and dec: "QVPNClientDriver_decode_data (env_order env) (wdc_driver c) x 0 (length x) = Some (Some (delivered px payload), d')"
    and px: "net_protocol px = NetProtocol_IPv4" "transport_protocol px = TransportProtocol_TCP"
      "length (source_addr px) = 4" "length (dst_addr px) = 4"
    and t: "TcpPacketLE_generate_proxy_bytes px = Some t" "20 \<le> length t" "4 * unat (hi_nibble (t ! 12)) = length t"
    and len: "20 + length t + length payload \<le> 65535" and opts: "options_ok (drop 20 t)"
    and calc: "calculates_checksums wd"
  shows "\<exists>pkt. tcp_packet_carries pkt (source_addr px) (dst_addr px) t payload \<and>
    WinDivertClient_incoming_capture_round wd env n packet c w =
      (if n \<le> length pkt then Some (seg @ drop (length seg) packet, c\<lparr> wdc_driver := d', speed_meter :=
           QVPNSpeedMeter_add_receive_size (of_nat (length seg)) (env_now env) (speed_meter c) \<rparr>,
         snd (wd_send wd (in_hDivert c) (take n (fst (wd_calc_checksums wd pkt addr))) (snd (wd_calc_checksums wd pkt addr)) w'))
       else None)"
proof -
  let ?m = "seg @ drop (length seg) packet"
  let ?v = "\<lparr> tcpv_net = \<lparr> ip4_header = 0, ip4_additional_header = 20, ip4_add_header_size = 0 \<rparr>,
    tcpv_transport = \<lparr> tcp_header = 20, tcp_options = 40, tcp_options_size = 4 * (int j - 5) \<rparr>,
    tcpv_payload = DataPacketView_of_range (20 + 4 * j) (length seg) \<rparr>"
  note parsed = reply_parsed(1) [OF seg(1), of "drop (length seg) packet"]
  have s: "40 \<le> length seg" "seg ! 0 = 0x45" "seg ! 9 = TransportProtocol_TCP" "20 + 4 * j < length seg"
    using seg by (auto simp: tcp_reply_def)
  have x: "rd_range ?m (20 + 4 * j) (length seg) = Some x"
    using s(4) by (simp add: rd_range_def seg(3) [symmetric])
  have "20 \<le> length ?m" "?m ! 0 = 0x45" "?m ! 9 = TransportProtocol_TCP" using s by (auto simp: nth_append)
  from rebuild_tcp_packet [OF this _ px(3,4) t len opts, of ?v "env_verboser env"]
  obtain pkt v' where pkt: "rebuild_packet (env_verboser env) ?m (TcpPacketOf ?v) (delivered px payload) =
        Some (pkt, TcpPacketOf v', 0, length pkt)"
      "tcp_packet_carries pkt (source_addr px) (dst_addr px) t payload" "pkt ! 0 = 0x45" "plain_tcp_view (length t div 4) v'"
    by auto
  note again = recalculated_printed [OF calc pkt(2-4) t(2,3) opts, of "env_verboser env" addr]
  have "visit_get_payload (TcpPacketOf ?v) = (20 + 4 * j, length seg)"
    using s(4) by (simp add: DataPacketView_get_payload_def DataPacketView_of_range_def)
  moreover have "QTunnelProxy_check_validity px" using px by (simp add: QTunnelProxy_check_validity_def)
  moreover have "wr_range pkt 0 (fst (wd_calc_checksums wd pkt addr)) = Some (fst (wd_calc_checksums wd pkt addr))"
    using calc by (simp add: calculates_checksums_def wr_range_def overwrite_def)
  moreover have "rd_range pkt 0 (length pkt) = Some pkt" by (simp add: rd_range_def)
  moreover have "rd_range (fst (wd_calc_checksums wd pkt addr)) 0 (0 + n) =
      (if n \<le> length pkt then Some (take n (fst (wd_calc_checksums wd pkt addr))) else None)"
    using calc by (simp add: calculates_checksums_def rd_range_def)
  ultimately have "WinDivertClient_incoming_capture_round wd env n packet c w =
      (if n \<le> length pkt then Some (seg @ drop (length seg) packet, c\<lparr> wdc_driver := d', speed_meter :=
           QVPNSpeedMeter_add_receive_size (of_nat (length seg)) (env_now env) (speed_meter c) \<rparr>,
         snd (wd_send wd (in_hDivert c) (take n (fst (wd_calc_checksums wd pkt addr))) (snd (wd_calc_checksums wd pkt addr)) w'))
       else None)"
    using recv(1) parsed reply_printed [OF seg(1,4) parsed, of "env_verboser env"] decode_at [OF x] dec pkt(1) s(4) again
    by (simp add: WinDivertClient_incoming_capture_round_def case_prod_beta)
  with pkt(2) show ?thesis by blast
qed

text \<open>The TCP header of a captured packet with its checksum cleared, as the proxy block describes it.\<close>

definition plain_tcp_header :: "bytes \<Rightarrow> nat \<Rightarrow> bytes" where
  "plain_tcp_header m k = mslice m 20 16 @ [0, 0] @ mslice m 38 (4 * k - 18)"

lemma length_plain_tcp_header:
  "tcp_reply m k \<Longrightarrow> length (plain_tcp_header m k) = 4 * k"
  by (auto simp: tcp_reply_def plain_tcp_header_def mslice_def)

lemma plain_tcp_header_offset:
  "tcp_reply m k \<Longrightarrow> 4 * unat (hi_nibble (plain_tcp_header m k ! 12)) = length (plain_tcp_header m k)"
  using length_plain_tcp_header [of m k] by (auto simp: tcp_reply_def plain_tcp_header_def mslice_def nth_append)

text \<open>The proxy block of a captured packet is the one the server makes for a reply to the packet's own destination.\<close>

lemma captured_proxy:
  assumes ok: "tcp_reply m k"
    and v: "PacketPreParser_pre_parse (m @ rest) 0 (length m) = Some v"
  shows "\<exists>px. capture_proxy (m @ rest) v = Some px \<and> proxy_wf px \<and> proxy_len px = 11 + 4 * k \<and>
    transport_protocol px = TransportProtocol_TCP \<and> source_addr px = mslice m 12 4 \<and> dst_addr px = mslice m 16 4 \<and>
    source_port px = be16 (m ! 20) (m ! 21) \<and> dst_port px = be16 (m ! 22) (m ! 23) \<and>
    TcpPacketLE_generate_proxy_bytes px = Some (plain_tcp_header m k)"
proof -
  let ?key = "undefined\<lparr> client_local_addr := mslice m 16 4, ssd_local_port := be16 (m ! 22) (m ! 23) \<rparr>"
  have m: "40 \<le> length m" using ok by (simp add: tcp_reply_def)
  have rd: "rd (m @ rest) i = Some (m ! i)" if "i < 40" for i using that m by (simp add: rd_def nth_append)
  have v': "v = TcpPacketOf \<lparr> tcpv_net = \<lparr> ip4_header = 0, ip4_additional_header = 20, ip4_add_header_size = 0 \<rparr>,
      tcpv_transport = \<lparr> tcp_header = 20, tcp_options = 40, tcp_options_size = 4 * (int k - 5) \<rparr>,
      tcpv_payload = DataPacketView_of_range (20 + 4 * k) (length m) \<rparr>"
    using v reply_parsed(1) [OF ok, of rest] by simp
  have "visit_get_dst_addr (m @ rest) v = Some (mslice m 16 4)" "visit_get_dst_port (m @ rest) v = Some (be16 (m ! 22) (m ! 23))"
    using m rd [of 22] rd [of 23] by (simp_all add: v' Ipv4PacketView_get_dst_addr_def rd_range_def mslice_def
        TcpPacketView_get_dst_port_def TcpPacketView_get_tcp_dst_port_def rd16_def)
  then have "capture_proxy (m @ rest) v = response_proxy (m @ rest) v ?key"
    by (cases "visit_collect_proto_data (m @ rest) v"; cases "visit_get_protocol_version (m @ rest) v";
      cases "visit_get_transport_protocol (m @ rest) v"; cases "visit_get_src_addr (m @ rest) v";
      cases "visit_get_src_port (m @ rest) v") (simp_all add: capture_proxy_def response_proxy_def)
  moreover have "mslice m 20 2 @ be16_bytes (be16 (m ! 22) (m ! 23)) @ mslice m 24 12 = mslice m 20 16"
    using m by (simp add: be16_bytes_def) (auto simp: mslice_def list_eq_iff_nth_eq nth_append nth_Cons' less_Suc_eq numeral_eq_Suc)
  then have "reply_header m k ?key = plain_tcp_header m k"
    by (simp add: reply_header_def plain_tcp_header_def)
  ultimately show ?thesis
    using reply_proxy [OF ok _ v, of ?key] m by (auto simp: reply_header_def mslice_def)
qed
lemma one_part_sent:
  assumes "QVPNClientDriver_encode_data d px m b e = Some (sp, d')" "sp_parts sp = Some [x]" "ns_success (env_send env 0 x)"
  shows "env_encode_and_send env d px m b e = Some ([x], d')"
  using assms by (simp add: env_encode_and_send_def QVPNClientDriver_encode_and_send_def)

text \<open>A captured packet whose payload fits into one record leaves as that record.\<close>

lemma outgoing_round_sends:
  assumes recv: "wd_recv wd (out_hDivert c) (length packet) w = (Some (m, addr), w')"
    and ok: "tcp_reply m k" "options_ok (mslice m 40 (4 * k - 20))"
    and px: "capture_proxy (m @ drop (length m) packet) (TcpPacketOf \<lparr>
      tcpv_net = \<lparr> ip4_header = 0, ip4_additional_header = 20, ip4_add_header_size = 0 \<rparr>,
      tcpv_transport = \<lparr> tcp_header = 20, tcp_options = 40, tcp_options_size = 4 * (int k - 5) \<rparr>,
      tcpv_payload = DataPacketView_of_range (20 + 4 * k) (length m) \<rparr>) = Some px"
    and enc: "QVPNClientDriver_encode_data (wdc_driver c) px (m @ drop (length m) packet) (20 + 4 * k) (length m) = Some (sp, d')"
      "sp_parts sp = Some [x]" "ns_success (env_send env 0 x)"
  shows "WinDivertClient_outgoing_capture_round wd env packet c w = Some ([x], m @ drop (length m) packet,
    c\<lparr> wdc_driver := d', speed_meter := QVPNSpeedMeter_add_send_size (of_nat (length m - (20 + 4 * k))) (env_now env)
      (speed_meter c) \<rparr>, w')"
proof -
  note parsed = reply_parsed(1) [OF ok(1), of "drop (length m) packet"]
  have len: "20 + 4 * k \<le> length m" using ok(1) by (simp add: tcp_reply_def)
  then have "DataPacketView_get_payload (DataPacketView_of_range (20 + 4 * k) (length m)) = (20 + 4 * k, length m)"
    by (simp add: DataPacketView_get_payload_def DataPacketView_of_range_def)
  moreover have "(of_int (int (length m) - int (20 + 4 * k)) :: UInt) = of_nat (length m - (20 + 4 * k))"
    using of_nat_diff [OF len, where 'a = UInt] by simp
  ultimately show ?thesis
    using recv parsed reply_printed [OF ok parsed, of "env_verboser env"] px one_part_sent [OF enc]
    by (simp add: WinDivertClient_outgoing_capture_round_def del: of_int_diff)
qed

text \<open>A captured packet with an option of length zero stops the thread of its loop: nothing is sent, nothing is injected.\<close>

lemma trapped_packet_stops_outgoing:
  assumes recv: "wd_recv wd (out_hDivert c) (length packet) w = (Some (m, addr), w')"
    and opts: "tcp_reply m k" "\<forall>x\<in>set xs. item_ok x" "mslice m 40 (4 * k - 20) = items_bytes xs @ [kind, 0] @ tail" "1 < kind"
  shows "WinDivertClient_outgoing_capture_round wd env packet c w = None"
  using recv reply_parsed(1) [OF opts(1), of "drop (length m) packet"] reply_never_printed [OF opts, of "drop (length m) packet"]
    captured_proxy [OF opts(1), of "drop (length m) packet"]
  by (auto simp: WinDivertClient_outgoing_capture_round_def case_prod_beta simp del: visit_to_packet_friendly_view.simps)

lemma trapped_packet_stops_incoming:
  assumes recv: "wd_recv wd (in_hDivert c) (length packet) w = (Some (m, addr), w')"
    and opts: "tcp_reply m k" "\<forall>x\<in>set xs. item_ok x" "mslice m 40 (4 * k - 20) = items_bytes xs @ [kind, 0] @ tail" "1 < kind"
    and "20 + 4 * k < length m"
  shows "WinDivertClient_incoming_capture_round wd env n packet c w = None"
proof -
  note parsed = reply_parsed(1) [OF opts(1), of "drop (length m) packet"]
  have "fst (DataPacketView_get_payload (DataPacketView_of_range (20 + 4 * k) (length m))) \<noteq>
      snd (DataPacketView_get_payload (DataPacketView_of_range (20 + 4 * k) (length m)))"
    using assms(6) by (simp add: DataPacketView_get_payload_def DataPacketView_of_range_def)
  then show ?thesis
    using recv parsed reply_never_printed [OF opts parsed, of "env_verboser env"]
    by (simp add: WinDivertClient_incoming_capture_round_def case_prod_beta del: visit_to_packet_friendly_view.simps)
qed

section \<open>Texts of filters\<close>

definition conjunction_text :: "string list \<Rightarrow> string" where
  "conjunction_text fs = concat (map (\<lambda>f. f @ '' and '') (butlast fs)) @ last fs"

lemma conjunction_text_Cons:
  "conjunction_text [f] = f" "fs \<noteq> [] \<Longrightarrow> conjunction_text (f # fs) = f @ '' and '' @ conjunction_text fs"
  by (simp_all add: conjunction_text_def)

lemma and_filters_text:
  "[] \<notin> set fs \<Longrightarrow> temp \<noteq> [] \<Longrightarrow> and_filters temp fs = conjunction_text (temp # fs)"
proof (induction fs arbitrary: temp)
  case Nil then show ?case by (simp add: conjunction_text_Cons)
next
  case (Cons f fs)
  then have "and_filters temp (f # fs) = conjunction_text ((temp @ '' and '' @ f) # fs)"
    by (auto simp: WinDivertTrafficFilterType_and_def)
  then show ?case using Cons.prems by (cases fs) (auto simp: conjunction_text_Cons)
qed

text \<open>Empty filters are skipped.\<close>

lemma and_filters_skips: "and_filters temp fs = and_filters temp (List.filter (\<lambda>f. f \<noteq> []) fs)"
  by (induction fs arbitrary: temp) (simp_all add: WinDivertTrafficFilterType_and_def)

section \<open>A sample client\<close>

text \<open>A WinDivert whose state is the packets that will be captured and what was injected.\<close>

definition sample_windivert :: "((bytes list \<times> bytes list), unit) windivert" where
  "sample_windivert = \<lparr> wd_open = \<lambda>f w. (1, w),
     wd_recv = \<lambda>h n w. (case fst w of [] \<Rightarrow> (None, w) | p # ps \<Rightarrow> (Some (p, ()), (ps, snd w))),
     wd_send = \<lambda>h p a w. (True, (fst w, snd w @ [p])),
     wd_calc_checksums = \<lambda>p a. (p, a),
     wd_close = \<lambda>h w. (True, w) \<rparr>"

definition sample_env :: client_env where
  "sample_env = \<lparr> env_rss = \<lambda>_ _. 0, env_time = 0, env_draw = id, env_connect = \<lambda>_ _. ok_status,
     env_reconnect = \<lambda>_ _ _. ok_status, env_send = \<lambda>_ _. ok_status, env_receive = \<lambda>_. closed_connection,
     env_settings = sample_settings, env_order = ascending, env_now = 5, env_verboser = sample_verboser \<rparr>"

definition sample_client :: WinDivertClient where
  "sample_client = \<lparr> filters_out = [], filters_in = [], outgoing_filters_data = [], incoming_filters_data = [],
     out_hDivert = 1, in_hDivert = 2, new_adapter_id = 0, wdc_driver = fresh_driver, speed_meter = QVPNSpeedMeter_new \<rparr>"

text \<open>The segment in which the server's record arrives at the client.\<close>

definition sample_segment :: "bytes \<Rightarrow> bytes" where
  "sample_segment x = [0x45, 0, 0, 0, 0, 0, 0x40, 0, 64, 6, 0, 0, 203, 0, 113, 1, 10, 0, 0, 1,
     1, 187, 0x40, 0, 0, 0, 0, 1, 0, 0, 0, 2, 0x50, 0x18, 1, 0, 0, 0, 0, 0] @ x"

lemma sample_segment_ok:
  "length x \<le> 65000 \<Longrightarrow> tcp_reply (sample_segment x) 5" "drop 40 (sample_segment x) = x"
  "length (sample_segment x) = 40 + length x"
  by (simp_all add: sample_segment_def tcp_reply_def protocol_defs hi_nibble_def)

lemma and_filters_from_empty:
  "[] \<notin> set fs \<Longrightarrow> fs \<noteq> [] \<Longrightarrow> and_filters [] fs = conjunction_text fs"
  by (cases fs) (auto simp: WinDivertTrafficFilterType_and_def and_filters_text)

lemma test_site_value: "test_site = Inr [195, 82, 146, 78]"
  by code_simp

lemma test_site_text: "NetAddr_to_string [195, 82, 146, 78] = ''195.82.146.78''"
  by code_simp

lemma dec_nat_values: "dec_nat 22 = ''22''" "dec_nat 8080 = ''8080''"
  by (simp_all add: dec_nat.simps digit_char_def) (code_simp)+

lemma not_after_equals:
  "CHR ''='' \<notin> set f \<Longrightarrow> WinDivertTrafficFilterType_not (f @ ''= '' @ g) = f @ ''!= '' @ g"
  by (simp add: WinDivertTrafficFilterType_not_def takeWhile_append dropWhile_append)

definition sample_capture :: bytes where
  "sample_capture = [0x45, 0, 0, 43, 0, 0, 0x40, 0, 64, 6, 0, 0, 10, 0, 0, 1, 198, 51, 100, 1,
     0x12, 0x34, 0, 80, 0, 0, 0, 9, 0, 0, 0, 8, 0x50, 0x18, 1, 0, 0, 0, 0, 0, 1, 2, 3]"

lemma sample_capture_ok: "tcp_reply sample_capture 5" "length sample_capture = 43"
  by (simp_all add: sample_capture_def tcp_reply_def protocol_defs hi_nibble_def)

lemma sample_capture_parts:
  "mslice sample_capture 16 4 = [198, 51, 100, 1]" "drop 40 sample_capture = [1, 2, 3]"
  "plain_tcp_header sample_capture 5 = [0x12, 0x34, 0, 80, 0, 0, 0, 9, 0, 0, 0, 8, 0x50, 0x18, 1, 0, 0, 0, 0, 0]"
  by (simp_all add: sample_capture_def mslice_def plain_tcp_header_def)

text \<open>The header of a reply in the client's terms.\<close>

lemma reply_header_parts:
  assumes "tcp_reply m k"
  shows "length (reply_header m k key) = 4 * k"
    "4 * unat (hi_nibble (reply_header m k key ! 12)) = length (reply_header m k key)"
proof -
  show len: "length (reply_header m k key) = 4 * k"
    using assms by (auto simp: tcp_reply_def reply_header_def mslice_def)
  show "4 * unat (hi_nibble (reply_header m k key ! 12)) = length (reply_header m k key)"
    using assms unfolding len by (auto simp: tcp_reply_def reply_header_def mslice_def nth_append nth_Cons')
qed

text \<open>Both headers keep the options.\<close>

lemma header_options:
  assumes "tcp_reply m k"
  shows "drop 20 (plain_tcp_header m k) = mslice m 40 (4 * k - 20)" "drop 20 (reply_header m k key) = mslice m 40 (4 * k - 20)"
proof -
  have "40 \<le> length m" "5 \<le> k" using assms by (simp_all add: tcp_reply_def)
  then have "drop 2 (mslice m 38 (4 * k - 18)) = mslice m 40 (4 * k - 20)" "length (mslice m 20 16) = 16"
    "length (mslice m 20 2) = 2" "length (mslice m 24 12) = 12"
    by (simp_all add: mslice_def drop_take)
  then show "drop 20 (plain_tcp_header m k) = mslice m 40 (4 * k - 20)" "drop 20 (reply_header m k key) = mslice m 40 (4 * k - 20)"
    by (simp_all add: plain_tcp_header_def reply_header_def be16_bytes_def)
qed

text \<open>The text with which WinDivert is opened joins the filters that were added and the default ones with \<open>and\<close>.  The default
  ones for incoming packets ask for two source addresses at once, the server's and that of one web site.\<close>

lemma default_capture_filters:
  assumes "length (QVPNClientDriver_get_vpn_address s) = 4" "[] \<notin> set (filters_out c)" "[] \<notin> set (filters_in c)"
  defines "vpn \<equiv> NetAddr_to_string (QVPNClientDriver_get_vpn_address s)"
  shows "map_sum id (outgoing_filters_data \<circ> WinDivertClient_calculate_outgoing_filters)
      (WinDivertClient_apply_default_outgoing_filter s c) =
    Inr (conjunction_text (filters_out c @ [''ip.SrcAddr != '' @ vpn, ''outbound'', ''tcp.DstPort != 22'', ''!loopback'',
      ''ip.DstAddr = 195.82.146.78'', ''tcp.DstPort = 8080''])) \<and>
    map_sum id (incoming_filters_data \<circ> WinDivertClient_calculate_incoming_filters)
      (WinDivertClient_apply_default_incoming_filter s c) =
    Inr (conjunction_text (filters_in c @ [''inbound'', ''ip.SrcAddr = '' @ vpn, ''tcp.SrcPort != 22'', ''!loopback'',
      ''ip.SrcAddr = 195.82.146.78'']))"
proof -
  have source: "WinDivertTrafficFilter_source (QVPNClientDriver_get_vpn_address s) = ''ip.SrcAddr = '' @ vpn"
    using assms(1) by (simp add: WinDivertTrafficFilter_source_def NetAddr_get_addr_family_def vpn_def
        WinDivertTrafficFilterType_of_def)
  have nots: "WinDivertTrafficFilterType_not (''ip.SrcAddr = '' @ vpn) = ''ip.SrcAddr != '' @ vpn"
    "WinDivertTrafficFilterType_not (WinDivertTrafficFilter_tcp_dst_port 22) = ''tcp.DstPort != 22''"
    "WinDivertTrafficFilterType_not (WinDivertTrafficFilter_tcp_src_port 22) = ''tcp.SrcPort != 22''"
    and port: "WinDivertTrafficFilter_tcp_dst_port 8080 = ''tcp.DstPort = 8080''"
    using not_after_equals [of "''ip.SrcAddr ''" vpn] not_after_equals [of "''tcp.DstPort ''" "''22''"]
      not_after_equals [of "''tcp.SrcPort ''" "''22''"]
    by (simp_all add: WinDivertTrafficFilter_tcp_dst_port_def WinDivertTrafficFilter_tcp_src_port_def
        WinDivertTrafficFilterType_of_def dec_nat_values)
  have site: "WinDivertTrafficFilter_source [195, 82, 146, 78] = ''ip.SrcAddr = 195.82.146.78''"
    "WinDivertTrafficFilter_dest [195, 82, 146, 78] = ''ip.DstAddr = 195.82.146.78''"
    by (simp_all add: WinDivertTrafficFilter_source_def WinDivertTrafficFilter_dest_def NetAddr_get_addr_family_def
        test_site_text WinDivertTrafficFilterType_of_def)
  have loopback: "WinDivertTrafficFilterType_not WinDivertTrafficFilter_local_traffic = ''!loopback''"
    by (simp add: WinDivertTrafficFilterType_not_def WinDivertTrafficFilter_local_traffic_def WinDivertTrafficFilterType_of_def)
  note texts = source nots port site loopback
  have "map_sum id (outgoing_filters_data \<circ> WinDivertClient_calculate_outgoing_filters)
      (WinDivertClient_apply_default_outgoing_filter s c) =
    Inr (conjunction_text (filters_out c @ [''ip.SrcAddr != '' @ vpn, ''outbound'', ''tcp.DstPort != 22'', ''!loopback'',
      ''ip.DstAddr = 195.82.146.78'', ''tcp.DstPort = 8080'']))"
    unfolding WinDivertClient_apply_default_outgoing_filter_def test_site_value sum.case texts
    using assms(2) by (auto simp: WinDivertClient_calculate_outgoing_filters_def
        WinDivertTrafficFilterType_of_def WinDivertTrafficFilter_outgoing_traffic_def and_filters_from_empty)
  moreover have "map_sum id (incoming_filters_data \<circ> WinDivertClient_calculate_incoming_filters)
      (WinDivertClient_apply_default_incoming_filter s c) =
    Inr (conjunction_text (filters_in c @ [''inbound'', ''ip.SrcAddr = '' @ vpn, ''tcp.SrcPort != 22'', ''!loopback'',
      ''ip.SrcAddr = 195.82.146.78'']))"
    unfolding WinDivertClient_apply_default_incoming_filter_def test_site_value sum.case texts
    using assms(3) by (auto simp: WinDivertClient_calculate_incoming_filters_def
        WinDivertTrafficFilterType_of_def WinDivertTrafficFilter_incoming_traffic_def and_filters_from_empty)
  ultimately show ?thesis by blast
qed

end
