(* ===== verification/Http.thy ===== *)
theory Http
  imports NetAddress "HOL-Library.Sublist"
begin

text \<open>HTTP messages: the functions of \<open>HttpTools\<close> (\<open>qvpn_tools.hpp/.cpp\<close>) and the four message classes of
  \<open>qvpn_structures.hpp/.cpp\<close>, a request and a response, each owning its bytes or viewing foreign memory.  The classes
  have no constructor that fills them; their functions are modelled on any content.  An exception of the standard library is
  a left value; \<open>None\<close> is an access outside the memory.\<close>

section \<open>Text functions of the standard library\<close>

definition npos :: nat where "npos = 2 ^ 64 - 1"

text \<open>\<open>string_view::find\<close> from a position, and \<open>string_view::substr\<close>, which throws past the end.\<close>

definition string_find :: "string \<Rightarrow> string \<Rightarrow> nat \<Rightarrow> nat" where
  "string_find s d i = (case find_from s d i of None \<Rightarrow> npos | Some k \<Rightarrow> k)"

definition substr :: "string \<Rightarrow> nat \<Rightarrow> nat \<Rightarrow> std_exception + string" where
  "substr s pos n = (if length s < pos then Inl Out_of_range else Inr (take n (drop pos s)))"

text \<open>\<open>std::toupper\<close> and \<open>std::tolower\<close> in the default locale.\<close>

definition to_upper :: "char \<Rightarrow> char" where
  "to_upper c = (let n = of_char c :: nat in if 97 \<le> n \<and> n \<le> 122 then char_of (n - 32) else c)"

definition to_lower :: "char \<Rightarrow> char" where
  "to_lower c = (let n = of_char c :: nat in if 65 \<le> n \<and> n \<le> 90 then char_of (n + 32) else c)"

text \<open>\<open>std::search\<close> with a predicate: the first position at which the pattern matches, or the end.\<close>

fun search_with :: "(char \<Rightarrow> char \<Rightarrow> bool) \<Rightarrow> string \<Rightarrow> string \<Rightarrow> nat" where
  "search_with eq [] d = 0"
| "search_with eq (x # xs) d =
     (if length d \<le> length (x # xs) \<and> list_all2 eq (take (length d) (x # xs)) d then 0 else Suc (search_with eq xs d))"

section \<open>Kinds of messages\<close>

datatype HttpRequestType = HEAD | GET | POST | PUT | DELETE_REQUEST | CONNECT | OPTIONS | TRACE | UNKNOWN_REQUEST
datatype HttpVersion = HTTP1 | HTTP1_1 | HTTP2 | HTTP3 | UNKNOWN_VERSION
datatype HttpResponseStatus = SWITCH_PROTOCOLS | OK | CREATED | MOVED_PERMANENTLY | FOUND | NOT_MODIFIED | BAD_REQUEST
  | FORBIDDEN | NOT_FOUND | INTERNAL_SERVER_ERROR | NOT_IMPLEMENTED | HTTP_VERSION_NOT_SUPPORTED | UNKNOWN_STATUS
datatype HttpContentType = TEXT_HTML | UNKNOWN_CONTENT
datatype HttpConnectionType = KEEP_ALIVE | CLOSED | UNKNOWN_CONNECTION
datatype HttpUserAgent = MOZILLA | APPLE_WEB_KIT | CHROME | SAFARI | UKNOWN
datatype QVPNCharset = CP866 | CP1251 | UTF8 | UNKNOWN_CHARSET

definition request_types :: "string \<rightharpoonup> HttpRequestType" where
  "request_types = [''HEAD'' \<mapsto> HEAD, ''GET'' \<mapsto> GET, ''POST'' \<mapsto> POST, ''PUT'' \<mapsto> PUT, ''DELETE'' \<mapsto> DELETE_REQUEST,
     ''CONNECT'' \<mapsto> CONNECT, ''OPTIONS'' \<mapsto> OPTIONS, ''TRACE'' \<mapsto> TRACE]"

definition con_types :: "string \<rightharpoonup> HttpConnectionType" where
  "con_types = [''keep-alive'' \<mapsto> KEEP_ALIVE, ''closed'' \<mapsto> CLOSED]"

definition versions :: "string \<rightharpoonup> HttpVersion" where
  "versions = [''1.0'' \<mapsto> HTTP1, ''1.1'' \<mapsto> HTTP1_1, ''2.0'' \<mapsto> HTTP2, ''3.0'' \<mapsto> HTTP3]"

definition statuses :: "string \<rightharpoonup> HttpResponseStatus" where
  "statuses = [''101'' \<mapsto> SWITCH_PROTOCOLS, ''200'' \<mapsto> OK, ''201'' \<mapsto> CREATED, ''301'' \<mapsto> MOVED_PERMANENTLY,
     ''400'' \<mapsto> BAD_REQUEST, ''403'' \<mapsto> NOT_MODIFIED, ''404'' \<mapsto> NOT_FOUND, ''500'' \<mapsto> INTERNAL_SERVER_ERROR,
     ''501'' \<mapsto> NOT_IMPLEMENTED, ''505'' \<mapsto> HTTP_VERSION_NOT_SUPPORTED]"

definition content_types :: "string \<rightharpoonup> HttpContentType" where
  "content_types = [''text/html'' \<mapsto> TEXT_HTML]"

definition charsets :: "string \<rightharpoonup> QVPNCharset" where
  "charsets = [''utf-8'' \<mapsto> UTF8]"

text \<open>\<open>at\<close> of a table; a missing key is caught and becomes the unknown value.\<close>

definition lookup_or :: "('k \<rightharpoonup> 'v) \<Rightarrow> 'v \<Rightarrow> 'k \<Rightarrow> 'v" where
  "lookup_or table unknown k = (case table k of None \<Rightarrow> unknown | Some v \<Rightarrow> v)"

section \<open>HttpTools\<close>

definition HttpTools_str_to_upper :: "string \<Rightarrow> string" where
  "HttpTools_str_to_upper s = map to_upper s"

definition HttpTools_case_free_compare :: "char \<Rightarrow> char \<Rightarrow> bool" where
  "HttpTools_case_free_compare a b \<longleftrightarrow> to_lower a = to_lower b"

definition HttpTools_case_free_search :: "string \<Rightarrow> string \<Rightarrow> nat" where
  "HttpTools_case_free_search source templ = search_with HttpTools_case_free_compare source templ"

definition HttpTools_get_request_type_by_string :: "string \<Rightarrow> HttpRequestType" where
  "HttpTools_get_request_type_by_string request_type = lookup_or request_types UNKNOWN_REQUEST (HttpTools_str_to_upper request_type)"

definition HttpTools_get_http_connection_type_by_string :: "string \<Rightarrow> HttpConnectionType" where
  "HttpTools_get_http_connection_type_by_string connection_type =
     lookup_or con_types UNKNOWN_CONNECTION (HttpTools_str_to_upper connection_type)"

definition HttpTools_get_http_version_by_string :: "string \<Rightarrow> HttpVersion" where
  "HttpTools_get_http_version_by_string version = lookup_or versions UNKNOWN_VERSION version"

definition HttpTools_get_http_status_by_string :: "string \<Rightarrow> HttpResponseStatus" where
  "HttpTools_get_http_status_by_string status = lookup_or statuses UNKNOWN_STATUS status"

definition HttpTools_get_http_content_type_by_string :: "string \<Rightarrow> HttpContentType" where
  "HttpTools_get_http_content_type_by_string content = lookup_or content_types UNKNOWN_CONTENT content"

definition HttpTools_get_http_charset_by_string :: "string \<Rightarrow> QVPNCharset" where
  "HttpTools_get_http_charset_by_string charset = lookup_or charsets UNKNOWN_CHARSET charset"

text \<open>The position of the end of the line is passed to \<open>substr\<close>, which takes a number of characters.\<close>

definition HttpTools_get_http_header_line :: "string \<Rightarrow> string \<Rightarrow> std_exception + string" where
  "HttpTools_get_http_header_line http_data header_name =
     (let start = HttpTools_case_free_search http_data header_name;
          line_end = string_find http_data [CHR 0x0D, CHR 0x0A] start
      in substr http_data (start + length header_name) line_end)"

definition HttpTools_get_http_header_block :: "string \<Rightarrow> string \<Rightarrow> std_exception + string" where
  "HttpTools_get_http_header_block http_data header_name =
     (let start = HttpTools_case_free_search http_data header_name;
          line_end = string_find http_data '' '' start
      in substr http_data (start + length header_name) line_end)"

definition http_header_ends :: "string list" where
  "http_header_ends = [[CHR 0x0D, CHR 0x0A, CHR 0x0D, CHR 0x0A], [CHR 0x0A, CHR 0x0A], [CHR 0x0D, CHR 0x0D],
     [CHR 0x0D, CHR 0x0A, CHR 0x0A]]"

text \<open>The flag after the loops over the delimiters and over the characters of each: every character is compared with the
  same byte, and every delimiter sets the flag anew.\<close>

definition header_end_accept :: "UByte \<Rightarrow> bool" where
  "header_end_accept x = foldl (\<lambda>accept delim. list_all (\<lambda>c. of_char c = unat x) delim) False http_header_ends"

text \<open>The last argument but one counts the rounds that are left.\<close>

function header_end_loop :: "mem \<Rightarrow> ptr \<Rightarrow> nat \<Rightarrow> nat \<Rightarrow> nat \<Rightarrow> nat option" where
  "header_end_loop m b i n pos =
     (if n = 0 then Some pos
      else do {
        x \<leftarrow> rd m (b + i);
        header_end_loop m b (i + 1) (n - 1) (if header_end_accept x then i else pos) })"
  by pat_completeness auto
termination
  by (relation "measure (\<lambda>(m, b, i, n, pos). n)") auto

declare header_end_loop.simps [simp del]

text \<open>The bound of the loop is computed in a signed type and compared in an unsigned one.\<close>

definition HttpTools_find_http_header_end :: "mem \<Rightarrow> ptr \<Rightarrow> ptr \<Rightarrow> nat option" where
  "HttpTools_find_http_header_end m b e =
     (let sz = int e - int b in header_end_loop m b 0 (unat (word_of_int (sz - 2) :: 64 word)) 0)"

section \<open>Requests that own their bytes\<close>

type_synonym Http1PacketRequestLE = bytes

definition Http1PacketRequestLE_to_string_view :: "Http1PacketRequestLE \<Rightarrow> string" where
  "Http1PacketRequestLE_to_string_view d = map (\<lambda>x. char_of (unat x)) d"

definition Http1PacketRequestLE_get_http_version ::
    "Http1PacketRequestLE \<Rightarrow> std_exception + HttpVersion \<times> string" where
  "Http1PacketRequestLE_get_http_version d = (let text = Http1PacketRequestLE_to_string_view d
     in map_sum id (\<lambda>ver. (HttpTools_get_http_version_by_string ver, ver))
       (HttpTools_get_http_header_line text ''HTTP/''))"

definition Http1PacketRequestLE_get_http_request ::
    "Http1PacketRequestLE \<Rightarrow> string" where
  "Http1PacketRequestLE_get_http_request d = (let text = Http1PacketRequestLE_to_string_view d
     in text)"

definition Http1PacketRequestLE_get_http_request_type ::
    "Http1PacketRequestLE \<Rightarrow> std_exception + HttpRequestType \<times> string" where
  "Http1PacketRequestLE_get_http_request_type d = (let text = Http1PacketRequestLE_to_string_view d
     in map_sum id (\<lambda>req_type. (HttpTools_get_request_type_by_string req_type, req_type)) 
       (substr text 0 (string_find text '' '' 0)))"

definition Http1PacketRequestLE_get_http_request_host ::
    "Http1PacketRequestLE \<Rightarrow> std_exception + string" where
  "Http1PacketRequestLE_get_http_request_host d = (let text = Http1PacketRequestLE_to_string_view d
     in HttpTools_get_http_header_line text ''Host:'')"

definition Http1PacketRequestLE_get_http_request_connection_type ::
    "Http1PacketRequestLE \<Rightarrow> std_exception + HttpConnectionType \<times> string" where
  "Http1PacketRequestLE_get_http_request_connection_type d = (let text = Http1PacketRequestLE_to_string_view d
     in map_sum id (\<lambda>con_type. (HttpTools_get_http_connection_type_by_string con_type, con_type)) 
       (HttpTools_get_http_header_line text ''Connection:''))"

definition Http1PacketRequestLE_get_http_request_user_agent ::
    "Http1PacketRequestLE \<Rightarrow> std_exception + HttpUserAgent \<times> string" where
  "Http1PacketRequestLE_get_http_request_user_agent d = (let text = Http1PacketRequestLE_to_string_view d
     in map_sum id (\<lambda>val. (UKNOWN, val)) 
       (HttpTools_get_http_header_line text ''User-Agent:''))"

definition Http1PacketRequestLE_get_http_request_header_bytes :: "Http1PacketRequestLE \<Rightarrow> (ptr \<times> ptr) option" where
  "Http1PacketRequestLE_get_http_request_header_bytes d = do {
     pos \<leftarrow> HttpTools_find_http_header_end d 0 (length d);
     Some (0, pos) }"

text \<open>The end of the range is taken from the start of the vector, here and in \<open>to_bytes\<close>.\<close>

definition Http1PacketRequestLE_get_http_request_body_bytes :: "Http1PacketRequestLE \<Rightarrow> (ptr \<times> ptr) option" where
  "Http1PacketRequestLE_get_http_request_body_bytes d = do {
     pos \<leftarrow> HttpTools_find_http_header_end d 0 0;
     Some (pos, 0) }"

definition Http1PacketRequestLE_get_http_request_header :: "Http1PacketRequestLE \<Rightarrow> string option" where
  "Http1PacketRequestLE_get_http_request_header d = do {
     (b, e) \<leftarrow> Http1PacketRequestLE_get_http_request_header_bytes d;
     bs \<leftarrow> rd_range d 0 (e - b);
     Some (map (\<lambda>x. char_of (unat x)) bs) }"

definition Http1PacketRequestLE_get_http_request_body :: "Http1PacketRequestLE \<Rightarrow> string option" where
  "Http1PacketRequestLE_get_http_request_body d = do {
     (b, e) \<leftarrow> Http1PacketRequestLE_get_http_request_header_bytes d;
     let start = e - b;
     bs \<leftarrow> rd_range d start (start + (length d - e));
     Some (map (\<lambda>x. char_of (unat x)) bs) }"

definition Http1PacketRequestLE_to_bytes :: "Http1PacketRequestLE \<Rightarrow> ptr \<times> ptr" where
  "Http1PacketRequestLE_to_bytes d = (0, 0)"

section \<open>Requests that view memory\<close>

record Http1PacketRequestView =
  PacketRequestView_data :: ptr
  PacketRequestView_size :: UInt

definition Http1PacketRequestView_to_string_view :: "Http1PacketRequestView \<Rightarrow> mem \<Rightarrow> string option" where
  "Http1PacketRequestView_to_string_view h m = do {
     bs \<leftarrow> rd_range m (PacketRequestView_data h) ((PacketRequestView_data h) + unat (PacketRequestView_size h));
     Some (map (\<lambda>x. char_of (unat x)) bs) }"

definition Http1PacketRequestView_get_http_version ::
    "Http1PacketRequestView \<Rightarrow> mem \<Rightarrow> (std_exception + HttpVersion \<times> string) option" where
  "Http1PacketRequestView_get_http_version h m = do {
     text \<leftarrow> Http1PacketRequestView_to_string_view h m;
     Some (map_sum id (\<lambda>ver. (HttpTools_get_http_version_by_string ver, ver))
       (HttpTools_get_http_header_line text ''HTTP/'')) }"

definition Http1PacketRequestView_get_http_request ::
    "Http1PacketRequestView \<Rightarrow> mem \<Rightarrow> string option" where
  "Http1PacketRequestView_get_http_request h m = do {
     text \<leftarrow> Http1PacketRequestView_to_string_view h m;
     Some (text) }"

definition Http1PacketRequestView_get_http_request_type ::
    "Http1PacketRequestView \<Rightarrow> mem \<Rightarrow> (std_exception + HttpRequestType \<times> string) option" where
  "Http1PacketRequestView_get_http_request_type h m = do {
     text \<leftarrow> Http1PacketRequestView_to_string_view h m;
     Some (map_sum id (\<lambda>req_type. (HttpTools_get_request_type_by_string req_type, req_type)) 
       (substr text 0 (string_find text '' '' 0))) }"

definition Http1PacketRequestView_get_http_request_host ::
    "Http1PacketRequestView \<Rightarrow> mem \<Rightarrow> (std_exception + string) option" where
  "Http1PacketRequestView_get_http_request_host h m = do {
     text \<leftarrow> Http1PacketRequestView_to_string_view h m;
     Some (HttpTools_get_http_header_line text ''Host:'') }"

definition Http1PacketRequestView_get_http_request_connection_type ::
    "Http1PacketRequestView \<Rightarrow> mem \<Rightarrow> (std_exception + HttpConnectionType \<times> string) option" where
  "Http1PacketRequestView_get_http_request_connection_type h m = do {
     text \<leftarrow> Http1PacketRequestView_to_string_view h m;
     Some (map_sum id (\<lambda>con_type. (HttpTools_get_http_connection_type_by_string con_type, con_type)) 
       (HttpTools_get_http_header_line text ''Connection:'')) }"

definition Http1PacketRequestView_get_http_request_user_agent ::
    "Http1PacketRequestView \<Rightarrow> mem \<Rightarrow> (std_exception + HttpUserAgent \<times> string) option" where
  "Http1PacketRequestView_get_http_request_user_agent h m = do {
     text \<leftarrow> Http1PacketRequestView_to_string_view h m;
     Some (map_sum id (\<lambda>val. (UKNOWN, val)) 
       (HttpTools_get_http_header_line text ''User-Agent:'')) }"

definition Http1PacketRequestView_get_http_request_header_bytes :: "Http1PacketRequestView \<Rightarrow> mem \<Rightarrow> (ptr \<times> ptr) option" where
  "Http1PacketRequestView_get_http_request_header_bytes h m = do {
     pos \<leftarrow> HttpTools_find_http_header_end m (PacketRequestView_data h)
       ((PacketRequestView_data h) + unat (PacketRequestView_size h));
     Some ((PacketRequestView_data h), (PacketRequestView_data h) + pos) }"

definition Http1PacketRequestView_get_http_request_body_bytes :: "Http1PacketRequestView \<Rightarrow> mem \<Rightarrow> (ptr \<times> ptr) option" where
  "Http1PacketRequestView_get_http_request_body_bytes h m = do {
     pos \<leftarrow> HttpTools_find_http_header_end m (PacketRequestView_data h)
       ((PacketRequestView_data h) + unat (PacketRequestView_size h));
     Some ((PacketRequestView_data h) + pos, (PacketRequestView_data h) + unat (PacketRequestView_size h)) }"

definition Http1PacketRequestView_get_http_request_header :: "Http1PacketRequestView \<Rightarrow> mem \<Rightarrow> string option" where
  "Http1PacketRequestView_get_http_request_header h m = do {
     (b, e) \<leftarrow> Http1PacketRequestView_get_http_request_header_bytes h m;
     bs \<leftarrow> rd_range m (PacketRequestView_data h) ((PacketRequestView_data h) + (e - b));
     Some (map (\<lambda>x. char_of (unat x)) bs) }"

definition Http1PacketRequestView_get_http_request_body :: "Http1PacketRequestView \<Rightarrow> mem \<Rightarrow> string option" where
  "Http1PacketRequestView_get_http_request_body h m = do {
     (b, e) \<leftarrow> Http1PacketRequestView_get_http_request_header_bytes h m;
     let start = e - b;
     bs \<leftarrow> rd_range m ((PacketRequestView_data h) + start)
       ((PacketRequestView_data h) + start + ((PacketRequestView_data h) + unat (PacketRequestView_size h) - e));
     Some (map (\<lambda>x. char_of (unat x)) bs) }"

definition Http1PacketRequestView_to_bytes :: "Http1PacketRequestView \<Rightarrow> ptr \<times> ptr" where
  "Http1PacketRequestView_to_bytes h = ((PacketRequestView_data h), (PacketRequestView_data h) + unat (PacketRequestView_size h))"

section \<open>Responses that own their bytes\<close>

type_synonym Http1PacketResponseLE = bytes

definition Http1PacketResponseLE_to_string_view :: "Http1PacketResponseLE \<Rightarrow> string" where
  "Http1PacketResponseLE_to_string_view d = map (\<lambda>x. char_of (unat x)) d"

definition Http1PacketResponseLE_get_http_version ::
    "Http1PacketResponseLE \<Rightarrow> std_exception + HttpVersion \<times> string" where
  "Http1PacketResponseLE_get_http_version d = (let text = Http1PacketResponseLE_to_string_view d
     in map_sum id (\<lambda>ver. (HttpTools_get_http_version_by_string ver, ver))
       (HttpTools_get_http_header_block text ''HTTP/''))"

definition Http1PacketResponseLE_get_http_response ::
    "Http1PacketResponseLE \<Rightarrow> string" where
  "Http1PacketResponseLE_get_http_response d = (let text = Http1PacketResponseLE_to_string_view d
     in text)"

definition Http1PacketResponseLE_get_http_response_status ::
    "Http1PacketResponseLE \<Rightarrow> std_exception + HttpResponseStatus \<times> string" where
  "Http1PacketResponseLE_get_http_response_status d = (let text = Http1PacketResponseLE_to_string_view d
     in let start = (string_find text '' '' 0 + 1) mod 2 ^ 64; fin = string_find text '' '' start;
       len = (fin + 2 ^ 64 - start) mod 2 ^ 64
     in map_sum id (\<lambda>status. (HttpTools_get_http_status_by_string status, status)) 
       (substr text start len))"

definition Http1PacketResponseLE_get_http_response_content_type ::
    "Http1PacketResponseLE \<Rightarrow> std_exception + HttpContentType \<times> string" where
  "Http1PacketResponseLE_get_http_response_content_type d = (let text = Http1PacketResponseLE_to_string_view d
     in case HttpTools_get_http_header_line text ''Content-Type:'' of Inl ex \<Rightarrow> Inl ex
     | Inr ctype_line \<Rightarrow> map_sum id (\<lambda>val. (HttpTools_get_http_content_type_by_string val, val))
         (substr ctype_line 0 (string_find ctype_line '';'' 0)))"

definition Http1PacketResponseLE_get_http_response_charset ::
    "Http1PacketResponseLE \<Rightarrow> std_exception + QVPNCharset \<times> string" where
  "Http1PacketResponseLE_get_http_response_charset d = (let text = Http1PacketResponseLE_to_string_view d
     in map_sum id (\<lambda>charset. (HttpTools_get_http_charset_by_string charset, charset)) 
       (HttpTools_get_http_header_line text ''charset=''))"

definition Http1PacketResponseLE_get_http_response_content_length ::
    "Http1PacketResponseLE \<Rightarrow> std_exception + UInt" where
  "Http1PacketResponseLE_get_http_response_content_length d = (let text = Http1PacketResponseLE_to_string_view d
     in case HttpTools_get_http_header_line text ''Content-Length:'' of Inl ex \<Rightarrow> Inl ex
     | Inr len \<Rightarrow> map_sum id of_int (stoi len))"

definition Http1PacketResponseLE_get_http_response_server ::
    "Http1PacketResponseLE \<Rightarrow> std_exception + string" where
  "Http1PacketResponseLE_get_http_response_server d = (let text = Http1PacketResponseLE_to_string_view d
     in HttpTools_get_http_header_line text ''Server:'')"

definition Http1PacketResponseLE_get_http_response_header_bytes :: "Http1PacketResponseLE \<Rightarrow> (ptr \<times> ptr) option" where
  "Http1PacketResponseLE_get_http_response_header_bytes d = do {
     pos \<leftarrow> HttpTools_find_http_header_end d 0 (length d);
     Some (0, pos) }"

definition Http1PacketResponseLE_get_http_response_body_bytes :: "Http1PacketResponseLE \<Rightarrow> (ptr \<times> ptr) option" where
  "Http1PacketResponseLE_get_http_response_body_bytes d = do {
     pos \<leftarrow> HttpTools_find_http_header_end d 0 (length d);
     Some (pos, length d) }"

definition Http1PacketResponseLE_get_http_response_header :: "Http1PacketResponseLE \<Rightarrow> string option" where
  "Http1PacketResponseLE_get_http_response_header d = do {
     (b, e) \<leftarrow> Http1PacketResponseLE_get_http_response_header_bytes d;
     bs \<leftarrow> rd_range d 0 (e - b);
     Some (map (\<lambda>x. char_of (unat x)) bs) }"

definition Http1PacketResponseLE_get_http_response_body :: "Http1PacketResponseLE \<Rightarrow> string option" where
  "Http1PacketResponseLE_get_http_response_body d = do {
     (b, e) \<leftarrow> Http1PacketResponseLE_get_http_response_header_bytes d;
     let start = e - b;
     bs \<leftarrow> rd_range d start (start + (length d - e));
     Some (map (\<lambda>x. char_of (unat x)) bs) }"

definition Http1PacketResponseLE_to_bytes :: "Http1PacketResponseLE \<Rightarrow> ptr \<times> ptr" where
  "Http1PacketResponseLE_to_bytes d = (0, length d)"

section \<open>Responses that view memory\<close>

record Http1PacketResponseView =
  PacketResponseView_data :: ptr
  PacketResponseView_size :: UInt

definition Http1PacketResponseView_to_string_view :: "Http1PacketResponseView \<Rightarrow> mem \<Rightarrow> string option" where
  "Http1PacketResponseView_to_string_view h m = do {
     bs \<leftarrow> rd_range m (PacketResponseView_data h) ((PacketResponseView_data h) + unat (PacketResponseView_size h));
     Some (map (\<lambda>x. char_of (unat x)) bs) }"

definition Http1PacketResponseView_get_http_version ::
    "Http1PacketResponseView \<Rightarrow> mem \<Rightarrow> (std_exception + HttpVersion \<times> string) option" where
  "Http1PacketResponseView_get_http_version h m = do {
     text \<leftarrow> Http1PacketResponseView_to_string_view h m;
     Some (map_sum id (\<lambda>ver. (HttpTools_get_http_version_by_string ver, ver))
       (HttpTools_get_http_header_block text ''HTTP/'')) }"

definition Http1PacketResponseView_get_http_response ::
    "Http1PacketResponseView \<Rightarrow> mem \<Rightarrow> string option" where
  "Http1PacketResponseView_get_http_response h m = do {
     text \<leftarrow> Http1PacketResponseView_to_string_view h m;
     Some (text) }"

definition Http1PacketResponseView_get_http_response_status ::
    "Http1PacketResponseView \<Rightarrow> mem \<Rightarrow> (std_exception + HttpResponseStatus \<times> string) option" where
  "Http1PacketResponseView_get_http_response_status h m = do {
     text \<leftarrow> Http1PacketResponseView_to_string_view h m;
     Some (let start = (string_find text '' '' 0 + 1) mod 2 ^ 64; fin = string_find text '' '' start;
       len = (fin + 2 ^ 64 - start) mod 2 ^ 64
     in map_sum id (\<lambda>status. (HttpTools_get_http_status_by_string status, status)) 
       (substr text start len)) }"

definition Http1PacketResponseView_get_http_response_content_type ::
    "Http1PacketResponseView \<Rightarrow> mem \<Rightarrow> (std_exception + HttpContentType \<times> string) option" where
  "Http1PacketResponseView_get_http_response_content_type h m = do {
     text \<leftarrow> Http1PacketResponseView_to_string_view h m;
     Some (case HttpTools_get_http_header_line text ''Content-Type:'' of Inl ex \<Rightarrow> Inl ex
     | Inr ctype_line \<Rightarrow> map_sum id (\<lambda>val. (HttpTools_get_http_content_type_by_string val, val))
         (substr ctype_line 0 (string_find ctype_line '';'' 0))) }"

definition Http1PacketResponseView_get_http_response_charset ::
    "Http1PacketResponseView \<Rightarrow> mem \<Rightarrow> (std_exception + QVPNCharset \<times> string) option" where
  "Http1PacketResponseView_get_http_response_charset h m = do {
     text \<leftarrow> Http1PacketResponseView_to_string_view h m;
     Some (map_sum id (\<lambda>charset. (HttpTools_get_http_charset_by_string charset, charset)) 
       (HttpTools_get_http_header_line text ''charset='')) }"

definition Http1PacketResponseView_get_http_response_content_length ::
    "Http1PacketResponseView \<Rightarrow> mem \<Rightarrow> (std_exception + UInt) option" where
  "Http1PacketResponseView_get_http_response_content_length h m = do {
     text \<leftarrow> Http1PacketResponseView_to_string_view h m;
     Some (case HttpTools_get_http_header_line text ''Content-Length:'' of Inl ex \<Rightarrow> Inl ex
     | Inr len \<Rightarrow> map_sum id of_int (stoi len)) }"

definition Http1PacketResponseView_get_http_response_server ::
    "Http1PacketResponseView \<Rightarrow> mem \<Rightarrow> (std_exception + string) option" where
  "Http1PacketResponseView_get_http_response_server h m = do {
     text \<leftarrow> Http1PacketResponseView_to_string_view h m;
     Some (HttpTools_get_http_header_line text ''Server:'') }"

definition Http1PacketResponseView_get_http_response_header_bytes :: "Http1PacketResponseView \<Rightarrow> mem \<Rightarrow> (ptr \<times> ptr) option" where
  "Http1PacketResponseView_get_http_response_header_bytes h m = do {
     pos \<leftarrow> HttpTools_find_http_header_end m (PacketResponseView_data h)
       ((PacketResponseView_data h) + unat (PacketResponseView_size h));
     Some ((PacketResponseView_data h), (PacketResponseView_data h) + pos) }"

definition Http1PacketResponseView_get_http_response_body_bytes :: "Http1PacketResponseView \<Rightarrow> mem \<Rightarrow> (ptr \<times> ptr) option" where
  "Http1PacketResponseView_get_http_response_body_bytes h m = do {
     pos \<leftarrow> HttpTools_find_http_header_end m (PacketResponseView_data h)
       ((PacketResponseView_data h) + unat (PacketResponseView_size h));
     Some ((PacketResponseView_data h) + pos, (PacketResponseView_data h) + unat (PacketResponseView_size h)) }"

definition Http1PacketResponseView_get_http_response_header :: "Http1PacketResponseView \<Rightarrow> mem \<Rightarrow> string option" where
  "Http1PacketResponseView_get_http_response_header h m = do {
     (b, e) \<leftarrow> Http1PacketResponseView_get_http_response_header_bytes h m;
     bs \<leftarrow> rd_range m (PacketResponseView_data h) ((PacketResponseView_data h) + (e - b));
     Some (map (\<lambda>x. char_of (unat x)) bs) }"

definition Http1PacketResponseView_get_http_response_body :: "Http1PacketResponseView \<Rightarrow> mem \<Rightarrow> string option" where
  "Http1PacketResponseView_get_http_response_body h m = do {
     (b, e) \<leftarrow> Http1PacketResponseView_get_http_response_header_bytes h m;
     let start = e - b;
     bs \<leftarrow> rd_range m ((PacketResponseView_data h) + start)
       ((PacketResponseView_data h) + start + ((PacketResponseView_data h) + unat (PacketResponseView_size h) - e));
     Some (map (\<lambda>x. char_of (unat x)) bs) }"

definition Http1PacketResponseView_to_bytes :: "Http1PacketResponseView \<Rightarrow> ptr \<times> ptr" where
  "Http1PacketResponseView_to_bytes h = ((PacketResponseView_data h), (PacketResponseView_data h) + unat (PacketResponseView_size h))"

section \<open>The end of the header\<close>

lemma no_header_end [simp]: "\<not> header_end_accept x"
  by (simp add: header_end_accept_def http_header_ends_def)

text \<open>No position is ever accepted: the loop ends with what it began with, unless it leaves the memory.\<close>

lemma header_end_loop_result:
  "header_end_loop m b i n pos = (if n = 0 \<or> b + i + n \<le> length m then Some pos else None)"
proof (induction n arbitrary: i)
  case (Suc n)
  then show ?case by (subst header_end_loop.simps) (auto simp: rd_def)
qed (simp add: header_end_loop.simps)

lemma find_header_end:
  assumes "b + 2 \<le> e" "e \<le> length m" "length m < 2 ^ 63"
  shows "HttpTools_find_http_header_end m b e = Some 0"
proof -
  have "int e - int b - 2 = int (e - b - 2)" using assms(1) by simp
  then have "unat (word_of_int (int e - int b - 2) :: 64 word) = e - b - 2"
    using assms unat_of_nat_small [where 'a = 64, of "e - b - 2"] by (simp only: of_int_of_nat_eq) simp
  moreover have "b + (e - b - 2) \<le> length m" using assms by linarith
  ultimately show ?thesis by (simp add: HttpTools_find_http_header_end_def header_end_loop_result)
qed

lemma find_header_end_tiny:
  assumes "e = b \<or> e = b + 1" "length m < 2 ^ 63"
  shows "HttpTools_find_http_header_end m b e = None"
proof -
  have "unat (word_of_int (int e - int b - 2) :: 64 word) \<ge> 2 ^ 64 - 2"
    using assms(1) by (auto simp: unsigned_minus_1_eq_mask mask_eq_exp_minus_1)
  then show ?thesis using assms(2) by (simp add: HttpTools_find_http_header_end_def header_end_loop_result)
qed

section \<open>Lines of the header\<close>

text \<open>The first position where a name matches.\<close>

definition matches_at :: "string \<Rightarrow> string \<Rightarrow> nat \<Rightarrow> bool" where
  "matches_at s d i \<longleftrightarrow> i + length d \<le> length s \<and> list_all2 HttpTools_case_free_compare (take (length d) (drop i s)) d"

lemma search_first:
  "matches_at s d i \<Longrightarrow> \<forall>j<i. \<not> matches_at s d j \<Longrightarrow> HttpTools_case_free_search s d = i"
proof (induction s arbitrary: i)
  case Nil
  then show ?case by (auto simp: matches_at_def HttpTools_case_free_search_def)
next
  case (Cons x s)
  show ?case
  proof (cases i)
    case 0
    then show ?thesis using Cons.prems(1) by (simp add: matches_at_def HttpTools_case_free_search_def)
  next
    case (Suc k)
    have "\<not> matches_at (x # s) d 0" using Cons.prems(2) Suc by simp
    moreover have "matches_at s d k" using Cons.prems(1) by (simp add: matches_at_def Suc)
    moreover have "\<forall>j<k. \<not> matches_at s d j" using Cons.prems(2) by (auto simp: matches_at_def Suc dest: spec [of _ "Suc _"])
    ultimately show ?thesis
      using Cons.IH [of k] by (auto simp: matches_at_def HttpTools_case_free_search_def Suc)
  qed
qed

lemma search_none: "\<forall>i. \<not> matches_at s d i \<Longrightarrow> HttpTools_case_free_search s d = length s"
proof (induction s)
  case (Cons x s)
  have "\<not> matches_at (x # s) d 0" using Cons.prems by simp
  moreover have "\<forall>i. \<not> matches_at s d i" using Cons.prems by (auto simp: matches_at_def dest: spec [of _ "Suc _"])
  ultimately show ?case using Cons.IH by (auto simp: matches_at_def HttpTools_case_free_search_def)
qed (simp add: HttpTools_case_free_search_def)

lemma find_sub_append: "x \<notin> set s \<Longrightarrow> find_sub (x # d) (s @ x # d @ rest) = Some (length s)"
  by (induction s) auto

text \<open>The value of a header line, as the code cuts it out: the end of the line is counted from the start of the message.\<close>

lemma header_line_at:
  assumes "matches_at (pre @ name @ val @ [CHR 0x0D, CHR 0x0A] @ rest) d (length pre)" "length name = length d"
    and "\<forall>j<length pre. \<not> matches_at (pre @ name @ val @ [CHR 0x0D, CHR 0x0A] @ rest) d j"
    and "CHR 0x0D \<notin> set (name @ val)"
  shows "HttpTools_get_http_header_line (pre @ name @ val @ [CHR 0x0D, CHR 0x0A] @ rest) d =
    Inr (val @ take (length pre + length d) ([CHR 0x0D, CHR 0x0A] @ rest))"
proof -
  let ?s = "pre @ name @ val @ [CHR 0x0D, CHR 0x0A] @ rest"
  have "HttpTools_case_free_search ?s d = length pre" by (rule search_first [OF assms(1,3)])
  moreover have "string_find ?s [CHR 0x0D, CHR 0x0A] (length pre) = length pre + (length d + length val)"
    using find_sub_append [of "CHR 0x0D" "name @ val" "[CHR 0x0A]" rest] assms(2,4)
    by (simp add: string_find_def find_from_def)
  ultimately show ?thesis
    using assms(2) by (simp add: HttpTools_get_http_header_line_def substr_def add.commute)
qed

section \<open>Connection types\<close>

text \<open>The table has lower case keys and is asked for upper case ones.\<close>

lemma to_upper_not_lower: "to_upper c \<noteq> CHR ''e''"
proof
  assume e: "to_upper c = CHR ''e''"
  obtain n :: nat where n: "of_char c = n" by blast
  have "of_char (to_upper c) \<noteq> (101 :: nat)"
  proof (cases "97 \<le> n \<and> n \<le> 122")
    case True
    then have "(n - 32) mod 256 = n - 32" by (intro mod_less) linarith
    moreover have "n - 32 \<noteq> 101" using True by linarith
    ultimately show ?thesis using True by (simp add: to_upper_def n)
  qed (auto simp: to_upper_def n)
  then show False unfolding e by simp
qed

lemma connection_type_unknown: "HttpTools_get_http_connection_type_by_string s = UNKNOWN_CONNECTION"
proof -
  have "CHR ''e'' \<notin> set (HttpTools_str_to_upper s)" using to_upper_not_lower [THEN not_sym] by (auto simp: HttpTools_str_to_upper_def)
  then have "HttpTools_str_to_upper s \<noteq> ''keep-alive''" "HttpTools_str_to_upper s \<noteq> ''closed''" by auto
  then show ?thesis
    by (simp add: HttpTools_get_http_connection_type_by_string_def con_types_def lookup_or_def)
qed

section \<open>Properties\<close>

text \<open>The end of an HTTP header is never found. Whatever a message of at least two bytes contains, the position returned
  for the end of its header is zero, so that the header is empty and the body is the whole message, for owning and for
  viewing classes; on a shorter message the search runs out of the memory. The body range of an owned request is never
  defined.\<close>

lemma http_header_never_found:
  assumes "b + 2 \<le> e" "e \<le> length m" "length m < 2 ^ 31" "unat n = e - b"
  shows "HttpTools_find_http_header_end m b e = Some 0 \<and> HttpTools_find_http_header_end m b b = None \<and>
    Http1PacketResponseView_get_http_response_header \<lparr> PacketResponseView_data = b, PacketResponseView_size = n \<rparr> m = Some [] \<and>
    Http1PacketResponseView_get_http_response_body \<lparr> PacketResponseView_data = b, PacketResponseView_size = n \<rparr> m =
      Http1PacketResponseView_get_http_response \<lparr> PacketResponseView_data = b, PacketResponseView_size = n \<rparr> m \<and>
    Http1PacketRequestView_get_http_request_body_bytes \<lparr> PacketRequestView_data = b, PacketRequestView_size = n \<rparr> m =
      Some (b, e) \<and>
    Http1PacketRequestLE_get_http_request_header m = Some [] \<and> Http1PacketRequestLE_get_http_request_body_bytes m = None"
proof -
  have n: "b + unat n = e" using assms by simp
  have find: "HttpTools_find_http_header_end m b e = Some 0" "HttpTools_find_http_header_end m b b = None"
    "HttpTools_find_http_header_end m 0 (length m) = Some 0" "HttpTools_find_http_header_end m 0 0 = None"
    using assms by (auto intro!: find_header_end find_header_end_tiny)
  then show ?thesis
    using n assms(2) by (simp add: Http1PacketResponseView_get_http_response_header_def
        Http1PacketResponseView_get_http_response_header_bytes_def Http1PacketResponseView_get_http_response_body_def
        Http1PacketResponseView_get_http_response_def Http1PacketResponseView_to_string_view_def
        Http1PacketRequestView_get_http_request_body_bytes_def Http1PacketRequestLE_get_http_request_header_def
        Http1PacketRequestLE_get_http_request_header_bytes_def Http1PacketRequestLE_get_http_request_body_bytes_def
        rd_range_def Let_def)
qed

text \<open>The value of a header line. When a name occurs at position \<open>length pre\<close> and not before, in any case, and its line
  ends with a carriage return and a line feed, the value returned is followed by as many characters of what comes behind
  it as there are before it in the message. A name that does not occur makes the function throw.\<close>

lemma http_header_line_outcome:
  assumes "length name = length d" "d \<noteq> []" "CHR 0x0D \<notin> set (name @ val)"
    and "list_all2 HttpTools_case_free_compare name d"
    and "\<forall>j<length pre. \<not> matches_at (pre @ name @ val @ [CHR 0x0D, CHR 0x0A] @ rest) d j"
    and "\<forall>j. \<not> matches_at s d j"
  shows "HttpTools_get_http_header_line (pre @ name @ val @ [CHR 0x0D, CHR 0x0A] @ rest) d =
      Inr (val @ take (length pre + length d) ([CHR 0x0D, CHR 0x0A] @ rest)) \<and>
    HttpTools_get_http_header_line s d = Inl Out_of_range"
proof -
  have "matches_at (pre @ name @ val @ [CHR 0x0D, CHR 0x0A] @ rest) d (length pre)"
    using assms(1,4) by (simp add: matches_at_def)
  then have "HttpTools_get_http_header_line (pre @ name @ val @ [CHR 0x0D, CHR 0x0A] @ rest) d =
      Inr (val @ take (length pre + length d) ([CHR 0x0D, CHR 0x0A] @ rest))"
    by (rule header_line_at [OF _ assms(1,5,3)])
  moreover have "HttpTools_get_http_header_line s d = Inl Out_of_range"
    using search_none [OF assms(6)] assms(2) by (simp add: HttpTools_get_http_header_line_def substr_def)
  ultimately show ?thesis by blast
qed

end
