(* ===== verification/Database.thy ===== *)
theory Database
  imports Authorisation TcpOptions
begin

text \<open>The database of the server application (\<open>QVPN Server App/src/database.cpp\<close>): \<open>SQLiteDatabase\<close> with its callbacks and the
  two adapters.  SQLite is a parameter: a record of the three calls the code makes, over a state of any type.  Messages on
  the console are left out.\<close>

section \<open>SQLite\<close>

text \<open>Opening gives a handle; the code does not look at the result code.  Executing gives the result code and the rows for
  which the callback is called, in order; a field of a row is a text or null.  The callbacks of the code never ask to stop.\<close>

record 'w sqlite =
  sqlite3_open :: "string \<Rightarrow> 'w \<Rightarrow> int \<times> 'w"
  sqlite3_exec :: "int \<Rightarrow> string \<Rightarrow> 'w \<Rightarrow> (int \<times> string option list list) \<times> 'w"
  sqlite3_close :: "int \<Rightarrow> 'w \<Rightarrow> 'w"

definition SQLITE_OK :: int where "SQLITE_OK = 0"

section \<open>Texts\<close>

definition text_of :: "bytes \<Rightarrow> string" where "text_of bs = map (\<lambda>x. char_of (unat x)) bs"

text \<open>What C code sees of a text: the part before the first null character.\<close>

definition c_str :: "string \<Rightarrow> string" where "c_str s = takeWhile (\<lambda>c. c \<noteq> CHR 0x00) s"

definition quoted :: "string \<Rightarrow> string" where "quoted s = [CHR 0x27] @ s @ [CHR 0x27]"

section \<open>SQLiteDatabase\<close>

text \<open>A database is its handle.\<close>

type_synonym SQLiteDatabase = int

definition SQLiteDatabase_of :: "'w sqlite \<Rightarrow> string \<Rightarrow> 'w \<Rightarrow> SQLiteDatabase \<times> 'w" where
  "SQLiteDatabase_of sq path w = sqlite3_open sq (c_str path) w"

definition SQLiteDatabase_delete :: "'w sqlite \<Rightarrow> SQLiteDatabase \<Rightarrow> 'w \<Rightarrow> 'w" where
  "SQLiteDatabase_delete sq db w = sqlite3_close sq db w"

definition statistic_query :: "bytes \<Rightarrow> QVPNSocketData \<Rightarrow> nat \<Rightarrow> TrafficType \<Rightarrow> string" where
  "statistic_query user d traffic_size traffic_type =
     ''INSERT INTO stats VALUES(NULL, '' @ quoted (NetAddr_to_string (local_addr d)) @ '', '' @ dec_nat (unat (local_port d)) @
     '', '' @ quoted (NetAddr_to_string (remote_addr d)) @ '', '' @ dec_nat (unat (remote_port d)) @ '', '' @
     dec_nat (unat (sd_net_proto d)) @ '', '' @ dec_nat (unat (sd_transport_proto d)) @ '', '' @ dec_nat traffic_size @ '', '' @
     quoted (text_of user) @ '', '' @ dec_nat (unat (word_of_int traffic_type :: UInt)) @ '');''"

definition SQLiteDatabase_add_statistic_data ::
    "'w sqlite \<Rightarrow> SQLiteDatabase \<Rightarrow> bytes \<Rightarrow> QVPNSocketData \<Rightarrow> nat \<Rightarrow> TrafficType \<Rightarrow> 'w \<Rightarrow> 'w" where
  "SQLiteDatabase_add_statistic_data sq db user sock_data traffic_size traffic_type w =
     snd (sqlite3_exec sq db (c_str (statistic_query user sock_data traffic_size traffic_type)) w)"

subsection \<open>Statistics of a user\<close>

text \<open>A field of a row as a text; a field that is missing or null is \<open>None\<close>, since the code makes a text of the pointer.\<close>

definition argv :: "string option list \<Rightarrow> nat \<Rightarrow> string option" where
  "argv row i = (if i < length row then row ! i else None)"

text \<open>Sequencing of steps that may be undefined or throw.\<close>

definition and_then ::
    "(std_exception + 'a) option \<Rightarrow> ('a \<Rightarrow> (std_exception + 'b) option) \<Rightarrow> (std_exception + 'b) option" where
  "and_then x f = (case x of None \<Rightarrow> None | Some (Inl ex) \<Rightarrow> Some (Inl ex) | Some (Inr v) \<Rightarrow> f v)"

definition arg_addr :: "string option list \<Rightarrow> nat \<Rightarrow> (std_exception + NetAddr) option" where
  "arg_addr row i = map_option NetAddr_of_string (argv row i)"

definition arg_int :: "string option list \<Rightarrow> nat \<Rightarrow> (std_exception + int) option" where
  "arg_int row i = map_option stoi (argv row i)"

text \<open>The loop over the columns of a row: \<open>at\<close> throws for a position outside the vector.\<close>

fun set_data_loop ::
    "string option list \<Rightarrow> QVPNSocketData \<Rightarrow> nat \<Rightarrow> TrafficType \<Rightarrow> nat list \<Rightarrow> UserStatisticData list \<Rightarrow>
     (std_exception + UserStatisticData list) option" where
  "set_data_loop row d traffic_size traffic_type [] res = Some (Inr res)"
| "set_data_loop row d traffic_size traffic_type (i # is) res =
     (if length res \<le> i then Some (Inl Out_of_range)
      else case argv row 0 of None \<Rightarrow> None | Some user \<Rightarrow>
        set_data_loop row d traffic_size traffic_type is
          (res[i := UserStatisticData_set_data (res ! i) (map of_char user) d traffic_size traffic_type]))"

definition get_user_stats_callback ::
    "string option list \<Rightarrow> UserStatisticData list \<Rightarrow> (std_exception + UserStatisticData list) option" where
  "get_user_stats_callback row res =
     and_then (arg_addr row 1) (\<lambda>src. and_then (arg_addr row 3) (\<lambda>dst.
     and_then (arg_int row 2) (\<lambda>src_port. and_then (arg_int row 4) (\<lambda>dst_port.
     and_then (arg_int row 5) (\<lambda>net. and_then (arg_int row 6) (\<lambda>transport.
     and_then (arg_int row 7) (\<lambda>size. and_then (arg_int row 8) (\<lambda>traffic_type.
       set_data_loop row
         \<lparr> sd_net_proto = word_of_int net, sd_transport_proto = word_of_int transport, local_addr = src,
           local_port = word_of_int src_port, remote_addr = dst, remote_port = word_of_int dst_port \<rparr>
         (nat (size mod 2 ^ 64)) traffic_type [0..<length row] res))))))))"

fun for_rows ::
    "string option list list \<Rightarrow> UserStatisticData list \<Rightarrow> (std_exception + UserStatisticData list) option" where
  "for_rows [] res = Some (Inr res)"
| "for_rows (row # rows) res = and_then (get_user_stats_callback row res) (for_rows rows)"

definition user_stats_query :: "string \<Rightarrow> string" where
  "user_stats_query user =
     ''SELECT stats.user, stats.src_addr, stats.src_port, stats.dst_addr, stats.dst_port, stats.net_proto, '' @
     ''stats.transport_proto, SUM(stats.traffic_size) FROM stats JOIN users ON stats.user = users.key WHERE stats.user LIKE '' @
     quoted user @ ''GROUP BY stats.src_addr, stats.src_port, stats.dst_addr, stats.dst_port;''"

definition SQLiteDatabase_get_user_stats ::
    "'w sqlite \<Rightarrow> SQLiteDatabase \<Rightarrow> bytes \<Rightarrow> 'w \<Rightarrow> (std_exception + UserStatisticData list) option \<times> 'w" where
  "SQLiteDatabase_get_user_stats sq db user w =
     (let ((exit, rows), w) = sqlite3_exec sq db (c_str (user_stats_query (text_of user))) w
      in (for_rows rows [], w))"

subsection \<open>Checking a user\<close>

definition check_user_callback :: "bool \<Rightarrow> string option list \<Rightarrow> bool" where
  "check_user_callback res row = (if 0 < length row then True else False)"

definition check_user_query :: "string \<Rightarrow> string" where
  "check_user_query user = ''SELECT * FROM users WHERE key LIKE '' @ quoted user"

definition SQLiteDatabase_check_user :: "'w sqlite \<Rightarrow> SQLiteDatabase \<Rightarrow> bytes \<Rightarrow> 'w \<Rightarrow> bool \<times> 'w" where
  "SQLiteDatabase_check_user sq db user w =
     (let ((exit, rows), w) = sqlite3_exec sq db (c_str (check_user_query (text_of user))) w;
          b = foldl check_user_callback False rows
      in (if exit \<noteq> SQLITE_OK then False else b, w))"

section \<open>Adapters\<close>

text \<open>An adapter keeps a copy of the database, which has the same handle.\<close>

type_synonym ServerDatabaseAdapter = SQLiteDatabase
type_synonym ServerStatsAdatper = SQLiteDatabase

definition ServerDatabaseAdapter_of :: "SQLiteDatabase \<Rightarrow> ServerDatabaseAdapter" where
  "ServerDatabaseAdapter_of db_instance = db_instance"

definition ServerDatabaseAdapter_check_user :: "'w sqlite \<Rightarrow> ServerDatabaseAdapter \<Rightarrow> bytes \<Rightarrow> 'w \<Rightarrow> bool \<times> 'w" where
  "ServerDatabaseAdapter_check_user sq a user w = SQLiteDatabase_check_user sq a user w"

definition ServerStatsAdatper_of :: "SQLiteDatabase \<Rightarrow> ServerStatsAdatper" where
  "ServerStatsAdatper_of db_instance = db_instance"

definition ServerStatsAdatper_add_user_stats :: "'w sqlite \<Rightarrow> ServerStatsAdatper \<Rightarrow> UserStatisticData \<Rightarrow> 'w \<Rightarrow> 'w" where
  "ServerStatsAdatper_add_user_stats sq a data w =
     SQLiteDatabase_add_statistic_data sq a (UserStatisticData_get_user data) (UserStatisticData_get_connection_data data)
       (UserStatisticData_get_traffic_size data) (UserStatisticData_get_traffic_type data) w"

definition ServerStatsAdatper_get_user_stats ::
    "'w sqlite \<Rightarrow> ServerStatsAdatper \<Rightarrow> bytes \<Rightarrow> 'w \<Rightarrow> (std_exception + UserStatisticData list) option \<times> 'w" where
  "ServerStatsAdatper_get_user_stats sq a user w = SQLiteDatabase_get_user_stats sq a user w"

section \<open>Lemmas\<close>

text \<open>What SQLite documents of the query of \<open>check_user\<close> when the name has neither a quote nor a null character, so that the query
  is one literal: it succeeds, and gives a row, with at least one column, for every key that the name matches as a
  pattern.\<close>

definition selects_matching :: "'w sqlite \<Rightarrow> (string \<Rightarrow> string \<Rightarrow> bool) \<Rightarrow> ('w \<Rightarrow> string list) \<Rightarrow> SQLiteDatabase \<Rightarrow> bool" where
  "selects_matching sq like users db \<longleftrightarrow> (\<forall>p w. CHR 0x27 \<notin> set p \<and> CHR 0x00 \<notin> set p \<longrightarrow>
     (\<exists>rows. fst (sqlite3_exec sq db (check_user_query p) w) = (SQLITE_OK, rows) \<and>
       length rows = length (filter (like p) (users w)) \<and> [] \<notin> set rows))"

lemma c_str_id: "CHR 0x00 \<notin> set s \<Longrightarrow> c_str s = s"
  by (auto simp: c_str_def takeWhile_eq_all_conv)

lemma check_user_rows: "foldl check_user_callback b rows = (if rows = [] then b else last rows \<noteq> [])"
  by (induction rows rule: rev_induct) (auto simp: check_user_callback_def)

lemma check_user_matches:
  assumes "selects_matching sq like users db" "CHR 0x27 \<notin> set (text_of user)" "CHR 0x00 \<notin> set (text_of user)"
  shows "fst (SQLiteDatabase_check_user sq db user w) \<longleftrightarrow> (\<exists>key\<in>set (users w). like (text_of user) key)"
proof -
  from assms obtain rows where r: "fst (sqlite3_exec sq db (check_user_query (text_of user)) w) = (SQLITE_OK, rows)"
      "length rows = length (filter (like (text_of user)) (users w))" "[] \<notin> set rows"
    unfolding selects_matching_def by blast
  have "c_str (check_user_query (text_of user)) = check_user_query (text_of user)"
    using assms(3) by (intro c_str_id) (simp add: check_user_query_def quoted_def)
  moreover have "rows \<noteq> [] \<longleftrightarrow> (\<exists>key\<in>set (users w). like (text_of user) key)"
    using r(2) by (metis filter_empty_conv length_0_conv)
  moreover have "rows \<noteq> [] \<Longrightarrow> last rows \<noteq> []"
    using r(3) by (metis last_in_set)
  ultimately show ?thesis
    using r(1) by (cases "sqlite3_exec sq db (check_user_query (text_of user)) w")
      (auto simp: SQLiteDatabase_check_user_def check_user_rows)
qed

text \<open>A row of the query of \<open>get_user_stats\<close>: eight columns that parse.\<close>

definition parses :: "(std_exception + 'a) option \<Rightarrow> bool" where
  "parses x = (case x of Some (Inr a) \<Rightarrow> True | _ \<Rightarrow> False)"

definition stats_row :: "string option list \<Rightarrow> bool" where
  "stats_row row \<longleftrightarrow> length row = 8 \<and> list_all (\<lambda>i. parses (arg_addr row i)) [1, 3] \<and>
     list_all (\<lambda>i. parses (arg_int row i)) [2, 4, 5, 6, 7]"

lemma parses_iff: "parses x \<longleftrightarrow> (\<exists>a. x = Some (Inr a))"
  by (auto simp: parses_def split: option.splits sum.splits)

lemma stats_row_undefined:
  assumes "stats_row row"
  shows "get_user_stats_callback row res = None"
proof -
  have "arg_int row 8 = None" using assms by (simp add: stats_row_def arg_int_def argv_def)
  then show ?thesis
    using assms by (auto simp: stats_row_def parses_iff get_user_stats_callback_def and_then_def)
qed

section \<open>A sample database\<close>

text \<open>Patterns of \<open>LIKE\<close> over characters of one byte that have no case.\<close>

fun sample_like :: "string \<Rightarrow> string \<Rightarrow> bool" where
  "sample_like [] key = (key = [])"
| "sample_like (p # ps) [] = (p = CHR ''%'' \<and> sample_like ps [])"
| "sample_like (p # ps) (c # cs) =
     (if p = CHR ''%'' then sample_like ps (c # cs) \<or> sample_like (p # ps) cs
      else (p = CHR ''_'' \<or> p = c) \<and> sample_like ps cs)"

text \<open>Its state is the list of keys; every query is taken for one of users.\<close>

definition sample_sqlite :: "string list sqlite" where
  "sample_sqlite = \<lparr> sqlite3_open = \<lambda>path w. (3, w),
     sqlite3_exec = \<lambda>db sql w. ((0, map (\<lambda>key. [Some key])
       (filter (sample_like (butlast (drop (length ''SELECT * FROM users WHERE key LIKE '' + 1) sql))) w)), w),
     sqlite3_close = \<lambda>db w. w \<rparr>"

lemma like_any [simp]: "sample_like ''%'' key"
  by (induction key) simp_all

lemma sample_sqlite_selects: "selects_matching sample_sqlite sample_like (\<lambda>w. w) 3"
  by (auto simp: selects_matching_def sample_sqlite_def SQLITE_OK_def check_user_query_def quoted_def)

section \<open>Properties\<close>

text \<open>C8: the name of a user is a pattern. With the documented behaviour of SQLite, a name without a quote or null character is
  accepted exactly when it matches some key as a pattern of \<open>LIKE\<close>. A client that names its user with a percent sign is
  connected, and the server serves it, whatever the keys are, as long as there is one.\<close>

theorem wildcard_user_served:
  assumes sq: "selects_matching sq like users db" and any: "\<forall>key. like ''%'' key"
    and "CHR 0x27 \<notin> set (text_of user)" "CHR 0x00 \<notin> set (text_of user)"
    and s: "QVPNClientSettings_get_whitelist_element draw s 0 = Some host" "length host < 65470"
      "length (ccs_key (cset_crypto s)) \<le> 250" "cset_auth s = [37]"
  shows "(fst (ServerDatabaseAdapter_check_user sq (ServerDatabaseAdapter_of db) user w) \<longleftrightarrow>
      (\<exists>key\<in>set (users w). like (text_of user) key)) \<and>
    (\<exists>hello. handshake rc tc draw rs ts (\<lambda>u. fst (ServerDatabaseAdapter_check_user sq (ServerDatabaseAdapter_of db) u w)) rest s =
      Some (hello, users w \<noteq> []))"
proof -
  note check = check_user_matches [OF sq] ServerDatabaseAdapter_check_user_def ServerDatabaseAdapter_of_def
  have "text_of [37] = ''%''" by code_simp
  then have "fst (ServerDatabaseAdapter_check_user sq (ServerDatabaseAdapter_of db) [37] w) \<longleftrightarrow> users w \<noteq> []"
    using any by (cases "users w") (auto simp: check)
  then show ?thesis
    using handshake_result [OF s(1,2), of rc tc rs ts "\<lambda>u. fst (SQLiteDatabase_check_user sq db u w)" rest] s(3,4) assms(3,4)
    by (simp add: check)
qed

text \<open>A database with two keys.\<close>

theorem wildcard_user_served_witness:
  "\<exists>hello. handshake (\<lambda>_ _. 1) 5 (\<lambda>_. 0) (\<lambda>_ _. 2) 6 (\<lambda>u. fst (ServerDatabaseAdapter_check_user sample_sqlite
      (ServerDatabaseAdapter_of 3) u [''alice'', ''bob''])) [] (sample_settings\<lparr> cset_auth := [37] \<rparr>) = Some (hello, True)"
proof -
  have "QVPNClientSettings_get_whitelist_element (\<lambda>_. 0) (sample_settings\<lparr> cset_auth := [37] \<rparr>) 0 = Some ''vk.com''"
    by (simp add: sample_settings_def QVPNClientSettings_get_whitelist_element_def QVPNWhitelist_get_random_host_def rd_def
        QVPNWhitelistElement_get_host_def)
  from wildcard_user_served [OF sample_sqlite_selects _ _ _ this, of "[]" "[''alice'', ''bob'']" "\<lambda>_ _. 1" 5 "\<lambda>_ _. 2" 6 "[]"]
  show ?thesis by (simp add: sample_settings_def like_any text_of_def)
qed

text \<open>The statistics of a user. When SQLite has no row for the user the result is the empty list; on the first row, which
  has the eight columns that the query asks for, the callback reads a ninth, so that the result is never defined.\<close>

lemma user_stats_outcome:
  assumes "sqlite3_exec sq db (c_str (user_stats_query (text_of user))) w = ((exit, rows), w')" "\<forall>row\<in>set rows. stats_row row"
  shows "ServerStatsAdatper_get_user_stats sq (ServerStatsAdatper_of db) user w =
    (if rows = [] then Some (Inr []) else None, w')"
  using assms stats_row_undefined
  by (cases rows) (auto simp: ServerStatsAdatper_get_user_stats_def ServerStatsAdatper_of_def
      SQLiteDatabase_get_user_stats_def and_then_def)

end
