(* ===== verification/Installer.thy ===== *)
theory Installer
  imports ServerDriver
begin

text \<open>\<open>ConnectionInstaller\<close> (\<open>qvpn_driver.hpp\<close>): the server makes the handshake of a TCP connection by hand through a raw
  socket and puts a stream socket into the connection, so that the kernel does not reset it.  Below it, the functions of
  the server driver that try until a connection is made; the driver does not call them at present.  The operating system
  is the record of \<open>Sockets\<close>.\<close>

section \<open>Without a handshake\<close>

definition ConnectionInstaller_install_connection :: NetStatus where
  "ConnectionInstaller_install_connection = \<lparr> ns_success = True, ns_status = 0 \<rparr>"

section \<open>TCP over IPv4\<close>

definition ConnectionInstaller_generate_net_header :: "QTunnelProxy \<Rightarrow> QVPNServerSocketData \<Rightarrow> UShort \<Rightarrow> bytes option" where
  "ConnectionInstaller_generate_net_header data key total_length = do {
     let strategy = IPv4DefaultGenStrategy_new;
     (obj, _) \<leftarrow> Ipv4PacketLE_generate_object strategy (server_local_addr key) (QTunnelProxy_get_dst_addr data)
       TransportProtocol_TCP total_length True False 0;
     Some obj }"

definition ConnectionInstaller_generate_transport_header :: "QTunnelProxy \<Rightarrow> UInt \<Rightarrow> UInt \<Rightarrow> UShort \<Rightarrow> bytes option" where
  "ConnectionInstaller_generate_transport_header data seq ack flags = do {
     let scheme = QTunnelTCPViewScheme_of_range (QTunnelProxy_get_proto_data_bytes data);
     opts \<leftarrow> QTunnelTCPViewScheme_get_options scheme;
     offset \<leftarrow> QTunnelTCPViewScheme_get_offset scheme;
     window \<leftarrow> QTunnelTCPViewScheme_get_window scheme;
     urgent \<leftarrow> QTunnelTCPViewScheme_get_urgent_pointer scheme;
     TcpPacketLE_generate_object (QTunnelProxy_get_src_port data) (QTunnelProxy_get_dst_port data) seq ack offset
       (ucast (ucast flags :: UByte)) window urgent opts }"

text \<open>How both packets of the handshake are put together.\<close>

definition ConnectionInstaller_packet ::
    "QTunnelProxy \<Rightarrow> QVPNServerSocketData \<Rightarrow> UInt \<Rightarrow> UInt \<Rightarrow> UShort \<Rightarrow> Ipv4TcpPacket option" where
  "ConnectionInstaller_packet data key seq ack flags = do {
     tcp \<leftarrow> ConnectionInstaller_generate_transport_header data seq ack flags;
     let bt = TcpPacketLE_to_bytes tcp;
     ipv4 \<leftarrow> ConnectionInstaller_generate_net_header data key (of_nat (length bt));
     fp \<leftarrow> Ipv4TcpPacket_of_parts (Ipv4PacketLE_to_bytes ipv4) bt [];
     Ipv4TcpPacket_recalculate_checksums fp }"

text \<open>The numbers pass through \<open>hton\<close>; the small constants are \<open>UShort\<close>, so that theirs changes them too.\<close>

definition ConnectionInstaller_syn_seq :: "UInt \<Rightarrow> UInt" where
  "ConnectionInstaller_syn_seq seq = QVPNNetTools_hton_uint seq - ucast (QVPNNetTools_hton_ushort 2)"

definition ConnectionInstaller_ack_seq :: "UInt \<Rightarrow> UInt" where
  "ConnectionInstaller_ack_seq seq = QVPNNetTools_hton_uint seq - ucast (QVPNNetTools_hton_ushort 1)"

text \<open>The data of the connection that the stream socket is put into.\<close>

definition ConnectionInstaller_socket_data :: "QVPN_RawSocket \<Rightarrow> QVPNServerSocketData \<Rightarrow> UShort \<Rightarrow> QVPNSocketData" where
  "ConnectionInstaller_socket_data raw_socket key src_port = (let r_sock_data = QVPN_RawSocket_get_socket_data raw_socket
     in \<lparr> sd_net_proto = sd_net_proto r_sock_data, sd_transport_proto = sd_transport_proto r_sock_data,
          local_addr = server_local_addr key, local_port = src_port,
          remote_addr = remote_addr r_sock_data, remote_port = remote_port r_sock_data \<rparr>)"

definition ConnectionInstaller_IPv4_TCP_install_connection ::
    "'w sys \<Rightarrow> QTunnelProxy \<Rightarrow> QVPNServerSocketData \<Rightarrow> QVPN_RawSocket \<Rightarrow> QVPN_Socket \<Rightarrow> 'w \<Rightarrow> (NetStatus \<times> 'w) option" where
  "ConnectionInstaller_IPv4_TCP_install_connection sys data key raw_socket socket w = do {
     let scheme = QTunnelTCPViewScheme_of_range (QTunnelProxy_get_proto_data_bytes data);
     seq \<leftarrow> QTunnelTCPViewScheme_get_seq scheme;
     fp_syn \<leftarrow> ConnectionInstaller_packet data key (ConnectionInstaller_syn_seq seq) 0 TCPFlags_SYN;
     syn \<leftarrow> Ipv4TcpPacket_bytes fp_syn;
     let (syn_res, w) = QVPN_RawSocket_send sys raw_socket syn w;
     if \<not> ns_success syn_res then Some (syn_res, w)
     else do {
       let (rec_data, w) = QVPN_RawSocket_receive sys raw_socket w;
       if \<not> ns_success (rcv_status rec_data) then Some (rcv_status rec_data, w)
       else do {
         fp_syn_ack \<leftarrow> Ipv4TcpPacket_of_range (rcv_data rec_data) 0 (nat (rcv_size rec_data));
         let view = tcpv_transport (tcpo_views fp_syn_ack);
         fl \<leftarrow> TcpPacketView_get_flags view (tcpo_data fp_syn_ack);
         let flags = fl AND TCPFlags_SYN_ACK;
         ack \<leftarrow> TcpPacketView_get_tcp_ack_number view (tcpo_data fp_syn_ack);
         server_seq \<leftarrow> TcpPacketView_get_tcp_seq_number view (tcpo_data fp_syn_ack);
         src_port \<leftarrow> TcpPacketView_get_src_port (tcpv_transport (tcpo_views fp_syn)) (tcpo_data fp_syn);
         (r_res, w) \<leftarrow> QVPN_Socket_append_socket_to_connection sys socket
           (ConnectionInstaller_socket_data raw_socket key src_port) (QVPNNetTools_hton_uint seq)
           (QVPNNetTools_hton_uint server_seq) w;
         if \<not> srs_success r_res then Some (\<lparr> ns_success = srs_success r_res, ns_status = srs_status r_res \<rparr>, w)
         else if flags \<noteq> TCPFlags_SYN_ACK then Some (\<lparr> ns_success = False, ns_status = -1 \<rparr>, w)
         else do {
           fp_ack \<leftarrow> ConnectionInstaller_packet data key (ConnectionInstaller_ack_seq seq)
             (QVPNNetTools_hton_uint (server_seq + 1)) TCPFlags_ACK;
           ack_bytes \<leftarrow> Ipv4TcpPacket_bytes fp_ack;
           let (ack_res, w) = QVPN_RawSocket_send sys raw_socket ack_bytes w;
           Some (ack_res, w) } } } }"

section \<open>TCP without a network header\<close>

text \<open>Here the kernel adds the network header to what is sent, and what is received has one.\<close>

definition ConnectionInstaller_no_net_packet ::
    "QTunnelProxy \<Rightarrow> QVPN_RawSocket \<Rightarrow> UInt \<Rightarrow> UInt \<Rightarrow> UShort \<Rightarrow> NoNetPacketTcpObject option" where
  "ConnectionInstaller_no_net_packet data raw_socket seq ack flags = do {
     tcp \<leftarrow> ConnectionInstaller_generate_transport_header data seq ack flags;
     let bt = TcpPacketLE_to_bytes tcp;
     fp \<leftarrow> NoNetPacketTcpObject_of_parts bt [];
     NoNetPacketTcpObject_recalculate_checksums fp (QVPN_RawSocket_get_local_addr raw_socket)
       (QVPN_RawSocket_get_remote_addr raw_socket) (of_nat (length bt)) }"

definition ConnectionInstaller_NET_UNDEFINED_TCP_install_connection ::
    "'w sys \<Rightarrow> QTunnelProxy \<Rightarrow> QVPNServerSocketData \<Rightarrow> QVPN_RawSocket \<Rightarrow> QVPN_Socket \<Rightarrow> 'w \<Rightarrow> (NetStatus \<times> 'w) option" where
  "ConnectionInstaller_NET_UNDEFINED_TCP_install_connection sys data key raw_socket socket w = do {
     let scheme = QTunnelTCPViewScheme_of_range (QTunnelProxy_get_proto_data_bytes data);
     seq \<leftarrow> QTunnelTCPViewScheme_get_seq scheme;
     fp_syn \<leftarrow> ConnectionInstaller_no_net_packet data raw_socket (ConnectionInstaller_syn_seq seq) 0 TCPFlags_SYN;
     syn \<leftarrow> NoNetPacketTcpObject_bytes fp_syn;
     let (syn_res, w) = QVPN_RawSocket_send sys raw_socket syn w;
     if \<not> ns_success syn_res then Some (syn_res, w)
     else do {
       let (rec_data, w) = QVPN_RawSocket_receive sys raw_socket w;
       if \<not> ns_success (rcv_status rec_data) then Some (rcv_status rec_data, w)
       else do {
         fp_syn_ack \<leftarrow> PacketPreParser_pre_parse (rcv_data rec_data) 0 (nat (rcv_size rec_data));
         proto_data \<leftarrow> visit_collect_proto_data (rcv_data rec_data) fp_syn_ack;
         let scheme_syn_ack = QTunnelTCPViewScheme_of_range (QTunnelProtoData_to_bytes proto_data);
         fl \<leftarrow> QTunnelTCPViewScheme_get_flags scheme_syn_ack;
         let flags = fl AND TCPFlags_SYN_ACK;
         server_seq \<leftarrow> QTunnelTCPViewScheme_get_seq scheme_syn_ack;
         server_ack \<leftarrow> QTunnelTCPViewScheme_get_ack scheme_syn_ack;
         src_port \<leftarrow> TcpPacketView_get_src_port (tcpnv_transport (tcpno_views fp_syn)) (tcpno_data fp_syn);
         (r_res, w) \<leftarrow> QVPN_Socket_append_socket_to_connection sys socket
           (ConnectionInstaller_socket_data raw_socket key src_port) seq (server_seq + 1) w;
         if \<not> srs_success r_res then Some (\<lparr> ns_success = srs_success r_res, ns_status = srs_status r_res \<rparr>, w)
         else if flags \<noteq> TCPFlags_SYN_ACK then Some (\<lparr> ns_success = False, ns_status = -1 \<rparr>, w)
         else do {
           fp_ack \<leftarrow> ConnectionInstaller_no_net_packet data raw_socket (ConnectionInstaller_ack_seq seq)
             (server_ack + QVPNNetTools_hton_uint (server_seq + 1)) TCPFlags_ACK;
           ack_bytes \<leftarrow> NoNetPacketTcpObject_bytes fp_ack;
           let (ack_res, w) = QVPN_RawSocket_send sys raw_socket ack_bytes w;
           Some (ack_res, w) } } } }"

section \<open>Trying until it succeeds\<close>

text \<open>\<open>estabilish_connection\<close> for the instances that the functions below use.\<close>

definition QVPNServerDriver_estabilish_connection ::
    "'w sys \<Rightarrow> NetProtocol \<Rightarrow> TransportProtocol \<Rightarrow> QTunnelProxy \<Rightarrow> QVPNServerSocketData \<Rightarrow> QVPN_RawSocket \<Rightarrow> QVPN_Socket \<Rightarrow>
     'w \<Rightarrow> (bool \<times> 'w) option" where
  "QVPNServerDriver_estabilish_connection sys net transport data key socket shadow_socket w = do {
     (res, w) \<leftarrow> (if net = NetProtocol_IPv4 \<and> transport = TransportProtocol_TCP
        then ConnectionInstaller_IPv4_TCP_install_connection sys data key socket shadow_socket w
        else if net = NetProtocol_NET_UNDEFINED \<and> transport = TransportProtocol_TCP
        then ConnectionInstaller_NET_UNDEFINED_TCP_install_connection sys data key socket shadow_socket w
        else Some (ConnectionInstaller_install_connection, w));
     Some (ns_success res, w) }"

definition QVPNServerDriver_connection_wrapper_transport_ipv4 ::
    "'w sys \<Rightarrow> QTunnelProxy \<Rightarrow> QVPNServerSocketData \<Rightarrow> QVPN_RawSocket \<Rightarrow> QVPN_Socket \<Rightarrow> 'w \<Rightarrow> (bool \<times> 'w) option" where
  "QVPNServerDriver_connection_wrapper_transport_ipv4 sys data key socket shadow_socket w =
     (let t_proto = QTunnelProxy_get_transport_proto data in
      if t_proto = TransportProtocol_TCP then
        QVPNServerDriver_estabilish_connection sys NetProtocol_IPv4 TransportProtocol_TCP data key socket shadow_socket w
      else if t_proto = TransportProtocol_UDP then
        QVPNServerDriver_estabilish_connection sys NetProtocol_IPv4 TransportProtocol_UDP data key socket shadow_socket w
      else Some (False, w))"

definition QVPNServerDriver_connection_wrapper_transport_ipv6 :: bool where
  "QVPNServerDriver_connection_wrapper_transport_ipv6 = False"

definition QVPNServerDriver_connection_wrapper_net ::
    "'w sys \<Rightarrow> QTunnelProxy \<Rightarrow> QVPNServerSocketData \<Rightarrow> QVPN_RawSocket \<Rightarrow> QVPN_Socket \<Rightarrow> 'w \<Rightarrow> (bool \<times> 'w) option" where
  "QVPNServerDriver_connection_wrapper_net sys data key socket shadow_socket w =
     (let net_p = QTunnelProxy_get_net_proto data in
      if net_p = NetProtocol_IPv4 then QVPNServerDriver_connection_wrapper_transport_ipv4 sys data key socket shadow_socket w
      else if net_p = NetProtocol_IPv6 then Some (QVPNServerDriver_connection_wrapper_transport_ipv6, w)
      else Some (False, w))"

text \<open>The loop: \<open>None\<close> when it never ends, \<open>Some None\<close> when a round of it is undefined.\<close>

partial_function (option) install_loop :: "('w \<Rightarrow> (bool \<times> 'w) option) \<Rightarrow> bool \<Rightarrow> 'w \<Rightarrow> 'w option option" where
  "install_loop attempt con w =
     (if con then Some (Some w)
      else case attempt w of None \<Rightarrow> Some None | Some (con, w) \<Rightarrow> install_loop attempt con w)"

definition QVPNServerDriver_install_connection_by_protocols ::
    "'w sys \<Rightarrow> QTunnelProxy \<Rightarrow> QVPNServerSocketData \<Rightarrow> QVPN_RawSocket \<Rightarrow> QVPN_Socket \<Rightarrow> 'w \<Rightarrow> 'w option option" where
  "QVPNServerDriver_install_connection_by_protocols sys data key socket shadow_socket w =
     install_loop (QVPNServerDriver_connection_wrapper_net sys data key socket shadow_socket) False w"

section \<open>The handshake\<close>

text \<open>The header of a handshake packet is the header of the proxy block with other numbers and flags.\<close>

lemma hi_nibble_or_low: "hi_nibble (push_bit 4 x OR (y AND 1)) = hi_nibble (push_bit 4 x)"
  by (rule bit_eqI) (auto simp: hi_nibble_def bit_simps)

lemma installer_header:
  assumes gen: "TcpPacketLE_generate_proxy_bytes data = Some t" and len: "20 \<le> length t" "4 * unat (hi_nibble (t ! 12)) = length t"
  shows "\<exists>h. ConnectionInstaller_generate_transport_header data seq ack flags = Some h \<and> length h = length t \<and>
    hi_nibble (h ! 12) = hi_nibble (t ! 12) \<and> mslice h 4 8 = be32_bytes seq @ be32_bytes ack \<and> h ! 13 = ucast flags \<and>
    mslice h 0 2 = be16_bytes (source_port data)"
    "\<exists>s. QTunnelTCPViewScheme_get_seq (QTunnelTCPViewScheme_of_range (proto_data data)) = Some s \<and> mslice t 4 4 = be32_bytes s"
proof -
  let ?s = "QTunnelTCPViewScheme_of_range (QTunnelProxy_get_proto_data_bytes data)"
  from gen obtain opts seq0 ack0 offset flags0 window urgent where s: "QTunnelTCPViewScheme_get_options ?s = Some opts"
      "QTunnelTCPViewScheme_get_seq ?s = Some seq0" "QTunnelTCPViewScheme_get_ack ?s = Some ack0"
      "QTunnelTCPViewScheme_get_offset ?s = Some offset" "QTunnelTCPViewScheme_get_flags ?s = Some flags0"
      "QTunnelTCPViewScheme_get_window ?s = Some window" "QTunnelTCPViewScheme_get_urgent_pointer ?s = Some urgent"
    and t: "t = TcpPacketLE_generate_object_bytes (source_port data) (dst_port data) seq0 ack0 offset flags0 window urgent opts"
    by (auto simp: TcpPacketLE_generate_proxy_bytes_def Let_def bind_eq_Some_conv proxy_get_defs)
  define h where "h = TcpPacketLE_generate_object_bytes (source_port data) (dst_port data) seq ack offset
    (ucast (ucast flags :: UByte)) window urgent opts"
  have h: "length h = length t" "hi_nibble (h ! 12) = hi_nibble (t ! 12)" "mslice h 4 8 = be32_bytes seq @ be32_bytes ack"
      "h ! 13 = ucast flags" "mslice h 0 2 = be16_bytes (source_port data)"
    by (simp_all add: h_def t TcpPacketLE_generate_object_bytes_def be16_bytes_def be32_bytes_def mslice_def
        hi_nibble_or_low)
  moreover have "TcpPacketLE_of_range h 0 (length h) = Some h"
    using TcpPacketLE_of_own_bytes [of h] h(1,2) len by simp
  ultimately show "\<exists>h. ConnectionInstaller_generate_transport_header data seq ack flags = Some h \<and> length h = length t \<and>
    hi_nibble (h ! 12) = hi_nibble (t ! 12) \<and> mslice h 4 8 = be32_bytes seq @ be32_bytes ack \<and> h ! 13 = ucast flags \<and>
    mslice h 0 2 = be16_bytes (source_port data)"
    using s by (simp add: ConnectionInstaller_generate_transport_header_def TcpPacketLE_generate_object_def Let_def
        proxy_get_defs flip: h_def)
  show "\<exists>s. QTunnelTCPViewScheme_get_seq (QTunnelTCPViewScheme_of_range (proto_data data)) = Some s \<and> mslice t 4 4 = be32_bytes s"
    using s(2) by (simp add: proxy_get_defs t TcpPacketLE_generate_object_bytes_def be16_bytes_def be32_bytes_def mslice_def)
qed

text \<open>The packet carries that header and nothing else, and its source port reads back.\<close>

lemma installer_packet:
  assumes gen: "TcpPacketLE_generate_proxy_bytes data = Some t" and len: "20 \<le> length t" "4 * unat (hi_nibble (t ! 12)) = length t"
    and addr: "length (server_local_addr key) = 4" "length (dst_addr data) = 4"
  shows "\<exists>fp m h. ConnectionInstaller_packet data key seq ack flags = Some fp \<and> Ipv4TcpPacket_bytes fp = Some m \<and>
    tcp_packet_carries m (server_local_addr key) (dst_addr data) h [] \<and> length h = length t \<and>
    mslice h 4 8 = be32_bytes seq @ be32_bytes ack \<and> h ! 13 = ucast flags \<and>
    TcpPacketView_get_src_port (tcpv_transport (tcpo_views fp)) (tcpo_data fp) = Some (source_port data)"
proof -
  obtain h where h: "ConnectionInstaller_generate_transport_header data seq ack flags = Some h" "length h = length t"
      "hi_nibble (h ! 12) = hi_nibble (t ! 12)" "mslice h 4 8 = be32_bytes seq @ be32_bytes ack" "h ! 13 = ucast flags"
      "mslice h 0 2 = be16_bytes (source_port data)"
    using installer_header(1) [OF gen len, of seq ack flags] by blast
  have "unat (hi_nibble (t ! 12)) < 16" by (rule hi_nibble_less)
  then have short: "length t \<le> 60" "20 \<le> length h" "4 * unat (hi_nibble (h ! 12)) = length h"
    using len h(2,3) by simp_all
  let ?p = "data\<lparr> net_protocol := NetProtocol_IPv4, transport_protocol := TransportProtocol_TCP \<rparr>"
  obtain n g where n: "QVPNServerDriver_generate_net_header IPv4DefaultGenStrategy_new ?p key (of_nat (length h)) = Some (IPv4Header n, g)"
      "length n = 20" "n ! 0 = 0x45" "be16 (n ! 2) (n ! 3) = of_nat (unat (of_nat (length h) :: UShort) + 20)"
      "n ! 9 = TransportProtocol_TCP" "drop 12 n = server_local_addr key @ dst_addr data"
    using net_header_ipv4 [of key ?p IPv4DefaultGenStrategy_new "of_nat (length h)"] addr by auto
  have net: "ConnectionInstaller_generate_net_header data key (of_nat (length h)) = Some n"
    using n(1) by (auto simp: ConnectionInstaller_generate_net_header_def QVPNServerDriver_generate_net_header_def
        proxy_get_defs bind_eq_Some_conv)
  obtain fp0 fp m where m: "Ipv4TcpPacket_of_parts n h [] = Some fp0" "Ipv4TcpPacket_recalculate_checksums fp0 = Some fp"
      "Ipv4TcpPacket_bytes fp = Some m" "length m = 20 + length h + length ([] :: bytes)"
      "\<forall>i. i \<notin> {10, 11, 36, 37} \<longrightarrow> m ! i = (n @ h @ []) ! i" "checksum_valid (words_sum (take 20 m))"
      "checksum_valid (words_sum (drop 20 m) + words_sum (ip_pseudo_header m))"
    using tcp_object_of_parts [OF n(2,3) short(2,3), of "[]"] short h(2) by auto
  have "unat (of_nat (length h) :: UShort) = length h" using short(1) h(2) by (intro unat_of_nat_small) simp
  then have "be16 (n ! 2) (n ! 3) = of_nat (20 + length h + length [])" using n(4) by (simp add: add.commute)
  from carries_from_parts [OF n(2,3,5,6) short(2) m(4,5) this addr m(6,7)]
  have carries: "tcp_packet_carries m (server_local_addr key) (dst_addr data) h []" .
  have views: "tcpo_views fp = tcpo_views fp0"
    using m(2) by (auto simp: Ipv4TcpPacket_recalculate_checksums_def bind_eq_Some_conv)
  then have v: "tcp_header (tcpv_transport (tcpo_views fp)) = 20" "Ipv4TcpPacket_View_bytes (tcpo_views fp) = (0, 20 + length h)"
    using m(1) tcp_parts_shape [OF n(2,3) short(2,3), of "[]"]
    by (auto simp: Ipv4TcpPacket_View_bytes_def Ipv4PacketView_to_bytes_def DataPacketView_to_bytes_def
        DataPacketView_of_range_def)
  from v(2) m(3) have data: "m = take (20 + length h) (tcpo_data fp)" "20 + length h \<le> length (tcpo_data fp)"
    by (auto simp: Ipv4TcpPacket_bytes_def rd_range_def split: if_splits)
  have "h \<noteq> []" using short(2) by auto
  then have "tcpo_data fp ! 20 = h ! 0" "tcpo_data fp ! 21 = h ! 1"
    using spec [OF m(5), of 20] spec [OF m(5), of 21] data short(2) n(2) by (simp_all add: nth_append)
  moreover have "be16 (h ! 0) (h ! 1) = source_port data"
    using arg_cong [OF h(6), of "\<lambda>l. l ! 0"] arg_cong [OF h(6), of "\<lambda>l. l ! 1"]
    by (simp add: mslice_def be16_bytes_def)
  ultimately have "TcpPacketView_get_src_port (tcpv_transport (tcpo_views fp)) (tcpo_data fp) = Some (source_port data)"
    using v(1) data(2) short(2) by (simp add: TcpPacketView_get_src_port_def TcpPacketView_get_tcp_src_port_def rd16_def rd_def)
  then show ?thesis
    using h net m carries by (intro exI [of _ fp] exI [of _ m] exI [of _ h])
      (simp add: ConnectionInstaller_packet_def TcpPacketLE_to_bytes_def Ipv4PacketLE_to_bytes_def)
qed

text \<open>An answer is parsed and its flags and number are read.\<close>

lemma answer_read:
  assumes "tcp_reply m k"
  shows "\<exists>fp. Ipv4TcpPacket_of_range (m @ rest) 0 (length m) = Some fp \<and>
    TcpPacketView_get_flags (tcpv_transport (tcpo_views fp)) (tcpo_data fp) = Some (ucast (m ! 33)) \<and>
    TcpPacketView_get_tcp_ack_number (tcpv_transport (tcpo_views fp)) (tcpo_data fp) = Some (be32 (m ! 28) (m ! 29) (m ! 30) (m ! 31)) \<and>
    TcpPacketView_get_tcp_seq_number (tcpv_transport (tcpo_views fp)) (tcpo_data fp) = Some (be32 (m ! 24) (m ! 25) (m ! 26) (m ! 27))"
proof -
  have m: "40 \<le> length m" "lo_nibble (m ! 0) = 5" "5 \<le> unat (hi_nibble (m ! 32))" "m ! 32 AND 0x0F = 0"
    using assms by (auto simp: tcp_reply_def lo_nibble_def)
  obtain v where v: "Ipv4TcpPacket_View_of_range m 0 (length m) = Some v" "tcp_header (tcpv_transport v) = 20"
    using tcp_view_shape [OF m(1-3)] by auto
  have "rd_range (m @ rest) 0 (length m) = Some m" by (simp add: rd_range_def)
  then have "Ipv4TcpPacket_of_range (m @ rest) 0 (length m) = Some \<lparr> tcpo_views = v, tcpo_data = m \<rparr>"
    using v(1) by (simp add: Ipv4TcpPacket_of_range_def Ipv4TcpPacket_set_views_def)
  then show ?thesis
    using m(1) v(2) tcp_flags_no_ns [OF m(4), of "m ! 33"]
    by (simp add: TcpPacketView_get_flags_def TcpPacketView_get_tcp_flags_def TcpPacketView_get_tcp_ack_number_def
        TcpPacketView_get_tcp_seq_number_def rd32_def rd_def del: length_greater_0_conv)
qed

text \<open>What the installer needs of its arguments and of the operating system: the raw socket sends, it receives the answer \<open>m\<close>,
  and the stream socket can be put into the connection.\<close>

definition installs :: "'w sys \<Rightarrow> QTunnelProxy \<Rightarrow> QVPNServerSocketData \<Rightarrow> QVPN_RawSocket \<Rightarrow> QVPN_Socket \<Rightarrow> bytes \<Rightarrow> bytes \<Rightarrow> bool" where
  "installs sys data key raw sock m rest \<longleftrightarrow> (\<forall>bs w. ns_success (fst (QVPN_RawSocket_send sys raw bs w))) \<and>
     (\<forall>w. \<exists>w'. QVPN_RawSocket_receive sys raw w = (\<lparr> rcv_status = ok_status, rcv_size = int (length m), rcv_data = m @ rest \<rparr>, w')) \<and>
     (\<forall>a b w. \<exists>st w'. QVPN_Socket_append_socket_to_connection sys sock
        (ConnectionInstaller_socket_data raw key (source_port data)) a b w = Some (st, w') \<and> srs_success st)"

lemma syn_and_ack:
  "ConnectionInstaller_ack_seq seq = ConnectionInstaller_syn_seq seq + 256"
proof -
  have "htons 1 = 256" "htons 2 = 512" by code_simp+
  then show ?thesis
    by (simp add: ConnectionInstaller_ack_seq_def ConnectionInstaller_syn_seq_def QVPNNetTools_hton_ushort_def)
qed

lemma handshake_sent:
  assumes gen: "TcpPacketLE_generate_proxy_bytes data = Some t" and len: "20 \<le> length t" "4 * unat (hi_nibble (t ! 12)) = length t"
    and addr: "length (server_local_addr key) = 4" "length (dst_addr data) = 4"
    and os: "installs sys data key raw sock m rest" "tcp_reply m k" "m ! 33 AND 0x12 = 0x12"
  shows "\<exists>seq syn ack syn_t ack_t w2. ConnectionInstaller_IPv4_TCP_install_connection sys data key raw sock w =
      Some (QVPN_RawSocket_send sys raw ack w2) \<and>
    (\<exists>st. QVPN_Socket_append_socket_to_connection sys sock (ConnectionInstaller_socket_data raw key (source_port data))
      (htonl seq) (htonl (be32 (m ! 24) (m ! 25) (m ! 26) (m ! 27)))
      (snd (QVPN_RawSocket_receive sys raw (snd (QVPN_RawSocket_send sys raw syn w)))) = Some (st, w2)) \<and>
    mslice t 4 4 = be32_bytes seq \<and>
    tcp_packet_carries syn (server_local_addr key) (dst_addr data) syn_t [] \<and> length syn_t = length t \<and> syn_t ! 13 = 2 \<and>
    tcp_packet_carries ack (server_local_addr key) (dst_addr data) ack_t [] \<and> length ack_t = length t \<and> ack_t ! 13 = 16 \<and>
    mslice syn_t 4 8 = be32_bytes (ConnectionInstaller_syn_seq seq) @ be32_bytes 0 \<and>
    mslice ack_t 4 8 = be32_bytes (ConnectionInstaller_syn_seq seq + 256) @
      be32_bytes (htonl (be32 (m ! 24) (m ! 25) (m ! 26) (m ! 27) + 1))"
proof -
  obtain seq where seq: "QTunnelTCPViewScheme_get_seq (QTunnelTCPViewScheme_of_range (proto_data data)) = Some seq"
      "mslice t 4 4 = be32_bytes seq"
    using installer_header(2) [OF gen len] by blast
  let ?sseq = "be32 (m ! 24) (m ! 25) (m ! 26) (m ! 27)"
  obtain fs syn hs where syn: "ConnectionInstaller_packet data key (ConnectionInstaller_syn_seq seq) 0 TCPFlags_SYN = Some fs"
      "Ipv4TcpPacket_bytes fs = Some syn" "tcp_packet_carries syn (server_local_addr key) (dst_addr data) hs []"
      "length hs = length t" "mslice hs 4 8 = be32_bytes (ConnectionInstaller_syn_seq seq) @ be32_bytes 0" "hs ! 13 = ucast TCPFlags_SYN"
      "TcpPacketView_get_src_port (tcpv_transport (tcpo_views fs)) (tcpo_data fs) = Some (source_port data)"
    using installer_packet [OF gen len addr] by meson
  obtain fa ack ha where ack: "ConnectionInstaller_packet data key (ConnectionInstaller_ack_seq seq) (htonl (?sseq + 1)) TCPFlags_ACK = Some fa"
      "Ipv4TcpPacket_bytes fa = Some ack" "tcp_packet_carries ack (server_local_addr key) (dst_addr data) ha []"
      "length ha = length t" "mslice ha 4 8 = be32_bytes (ConnectionInstaller_ack_seq seq) @ be32_bytes (htonl (?sseq + 1))"
      "ha ! 13 = ucast TCPFlags_ACK"
    using installer_packet [OF gen len addr] by meson
  obtain fp where fp: "Ipv4TcpPacket_of_range (m @ rest) 0 (length m) = Some fp"
      "TcpPacketView_get_flags (tcpv_transport (tcpo_views fp)) (tcpo_data fp) = Some (ucast (m ! 33))"
      "TcpPacketView_get_tcp_ack_number (tcpv_transport (tcpo_views fp)) (tcpo_data fp) = Some (be32 (m ! 28) (m ! 29) (m ! 30) (m ! 31))"
      "TcpPacketView_get_tcp_seq_number (tcpv_transport (tcpo_views fp)) (tcpo_data fp) = Some ?sseq"
    using answer_read [OF os(2)] by blast
  have flags: "ucast (m ! 33) AND TCPFlags_SYN_ACK = TCPFlags_SYN_ACK"
  proof -
    have "ucast (m ! 33 AND 0x12) = (ucast (m ! 33) AND ucast (0x12 :: UByte) :: UShort)" by (simp add: unsigned_and_eq)
    then show ?thesis using os(3) by (simp add: TCPFlags_SYN_ACK_def)
  qed
  obtain st1 w1 where w1: "QVPN_RawSocket_send sys raw syn w = (st1, w1)" "ns_success st1"
    using os(1) by (metis installs_def prod.collapse)
  obtain w1' where r: "QVPN_RawSocket_receive sys raw w1 = (\<lparr> rcv_status = ok_status, rcv_size = int (length m), rcv_data = m @ rest \<rparr>, w1')"
    using os(1) unfolding installs_def by blast
  obtain st2 w2 where a: "QVPN_Socket_append_socket_to_connection sys sock (ConnectionInstaller_socket_data raw key (source_port data))
      (htonl seq) (htonl ?sseq) w1' = Some (st2, w2)" "srs_success st2"
    using os(1) unfolding installs_def by blast
  have "ConnectionInstaller_IPv4_TCP_install_connection sys data key raw sock w = Some (QVPN_RawSocket_send sys raw ack w2)"
    using seq(1) syn(1,2,7) w1 r fp a flags ack(1,2)
    by (simp add: ConnectionInstaller_IPv4_TCP_install_connection_def proxy_get_defs Let_def QVPNNetTools_hton_uint_def ok_status_def)
  then show ?thesis
    using seq(2) syn(3-6) ack(3-6) a(1) w1(1) r
    by (intro exI [of _ seq] exI [of _ syn] exI [of _ ack] exI [of _ hs] exI [of _ ha] exI [of _ w2])
      (simp add: syn_and_ack TCPFlags_SYN_def TCPFlags_ACK_def)
qed

section \<open>The loop\<close>

lemma install_loop_returns:
  assumes "\<forall>w. \<exists>w'. attempt w = Some (False, w')"
  shows "install_loop attempt con w = Some y \<Longrightarrow> con"
proof (rule install_loop.raw_induct [where P = "\<lambda>attempt con w y. (\<forall>w. \<exists>w'. attempt w = Some (False, w')) \<longrightarrow> con", THEN mp, OF _ _ assms], goal_cases)
  case (1 loop attempt con w y)
  show ?case
  proof (intro impI)
    assume a: "\<forall>w. \<exists>w'. attempt w = Some (False, w')"
    then obtain w' where "attempt w = Some (False, w')" by blast
    then show con using 1 a by (cases con) auto
  qed
qed

lemma install_loop_diverges:
  "\<forall>w. \<exists>w'. attempt w = Some (False, w') \<Longrightarrow> install_loop attempt False w = None"
  using install_loop_returns [of attempt False w] by (cases "install_loop attempt False w") auto

lemma install_loop_first: "attempt w = Some (True, w') \<Longrightarrow> install_loop attempt False w = Some (Some w')"
  by (simp add: install_loop.simps)

lemmas connection_wrapper_defs = QVPNServerDriver_connection_wrapper_net_def QVPNServerDriver_connection_wrapper_transport_ipv4_def
  QVPNServerDriver_connection_wrapper_transport_ipv6_def QVPNServerDriver_estabilish_connection_def
  ConnectionInstaller_install_connection_def Let_def

lemma install_mute:
  assumes "TcpPacketLE_generate_proxy_bytes data = Some t" "20 \<le> length t" "4 * unat (hi_nibble (t ! 12)) = length t"
    and "length (server_local_addr key) = 4" "length (dst_addr data) = 4"
    and "\<forall>bs w. \<not> ns_success (fst (QVPN_RawSocket_send sys raw bs w))"
  shows "\<exists>st w'. ConnectionInstaller_IPv4_TCP_install_connection sys data key raw sock w = Some (st, w') \<and> \<not> ns_success st"
proof -
  obtain seq where seq: "QTunnelTCPViewScheme_get_seq (QTunnelTCPViewScheme_of_range (proto_data data)) = Some seq"
    using installer_header(2) [OF assms(1-3)] by blast
  obtain fs syn where "ConnectionInstaller_packet data key (ConnectionInstaller_syn_seq seq) 0 TCPFlags_SYN = Some fs"
      "Ipv4TcpPacket_bytes fs = Some syn"
    using installer_packet [OF assms(1-5)] by meson
  moreover obtain st w' where "QVPN_RawSocket_send sys raw syn w = (st, w')" "\<not> ns_success st"
    using assms(6) by (metis prod.collapse)
  ultimately show ?thesis
    using seq by (simp add: ConnectionInstaller_IPv4_TCP_install_connection_def proxy_get_defs Let_def)
qed

section \<open>A sample handshake\<close>

definition sample_syn_ack :: bytes where "sample_syn_ack = sample_reply[33 := 0x12]"

text \<open>Descriptor 6 cannot send.\<close>

definition sample_peer :: "(bytes list \<times> (int \<times> bytes) list) sys" where
  "sample_peer = sample_sys\<lparr> sys_recv := \<lambda>fd fl w. ((int (length sample_syn_ack), 0, sample_syn_ack), w),
     sys_send := \<lambda>fd bs fl (i, out). if fd = 6 then ((-1, 32), (i, out)) else ((int (length bs), 0), (i, out @ [(fd, bs)])) \<rparr>"

definition sample_shadow :: QVPN_Socket where
  "sample_shadow = \<lparr> sock_fd = 5, sock_data = QVPNSocketData_default\<lparr> sd_transport_proto := TransportProtocol_TCP \<rparr> \<rparr>"

definition sample_raw :: QVPN_RawSocket where
  "sample_raw = \<lparr> sock_fd = 7, sock_data = QVPNSocketData_default\<lparr> remote_addr := [198, 51, 100, 1], remote_port := 80 \<rparr> \<rparr>"

lemma sample_installs: "installs sample_peer sample_tcp_proxy sample_key sample_raw sample_shadow sample_syn_ack []"
  by (auto simp: installs_def sample_peer_def sample_sys_def QVPN_RawSocket_send_def QVPN_RawSocket_receive_def ok_status_def
      sample_syn_ack_def sample_reply_def QVPN_Socket_append_socket_to_connection_def SocketAppendToConnection_TCP_def
      sample_shadow_def sample_raw_def qvpn_bind_addr_def qvpn_connect_addr_def qvpn_bind_ipv4_def qvpn_connect_ipv4_def
      ConnectionInstaller_socket_data_def QVPN_RawSocket_get_socket_data_def sample_key_def NetAddr_get_addr_family_def
      NetAddr_to_ipv4_def rd_range_def rd_def Let_def case_prod_beta protocol_defs IPv4Address_get_addr_size_def)

lemma sample_syn_ack_ok: "tcp_reply sample_syn_ack 5" "sample_syn_ack ! 33 AND 0x12 = 0x12"
  by (simp_all add: tcp_reply_def sample_syn_ack_def sample_reply_def hi_nibble_def protocol_defs)

lemma sample_mute: "\<not> ns_success (fst (QVPN_RawSocket_send sample_peer (sample_raw\<lparr> sock_fd := 6 \<rparr>) bs w))"
  by (cases w) (simp add: sample_peer_def QVPN_RawSocket_send_def sample_raw_def Let_def)

section \<open>Properties\<close>

text \<open>C32: the handshake that the installer makes. Both packets are whole IPv4 packets with right lengths and checksums from the
  server to the destination. With \<open>s\<close> the number of the first one, the number of the last is \<open>s + 256\<close>, where TCP requires
  \<open>s + 1\<close>, and what it acknowledges is the next number of the other side with its bytes reversed. The stream socket is put
  into the connection with numbers of which neither is sent.\<close>

theorem handshake_numbers:
  assumes "TcpPacketLE_generate_proxy_bytes data = Some t" "20 \<le> length t" "4 * unat (hi_nibble (t ! 12)) = length t"
    and "length (server_local_addr key) = 4" "length (dst_addr data) = 4"
    and "installs sys data key raw sock m rest" "tcp_reply m k" "m ! 33 AND 0x12 = 0x12"
  defines "server_seq \<equiv> be32 (m ! 24) (m ! 25) (m ! 26) (m ! 27)"
  shows "\<exists>seq s syn ack syn_t ack_t w2. mslice t 4 4 = be32_bytes seq \<and> s = htonl seq - 512 \<and>
    ConnectionInstaller_IPv4_TCP_install_connection sys data key raw sock w = Some (QVPN_RawSocket_send sys raw ack w2) \<and>
    (\<exists>st. QVPN_Socket_append_socket_to_connection sys sock (ConnectionInstaller_socket_data raw key (source_port data))
      (htonl seq) (htonl server_seq) (snd (QVPN_RawSocket_receive sys raw (snd (QVPN_RawSocket_send sys raw syn w)))) = Some (st, w2)) \<and>
    tcp_packet_carries syn (server_local_addr key) (dst_addr data) syn_t [] \<and> syn_t ! 13 = 2 \<and>
    tcp_packet_carries ack (server_local_addr key) (dst_addr data) ack_t [] \<and> ack_t ! 13 = 16 \<and>
    mslice syn_t 4 8 = be32_bytes s @ be32_bytes 0 \<and>
    mslice ack_t 4 8 = be32_bytes (s + 256) @ be32_bytes (htonl (server_seq + 1))"
proof -
  have "ConnectionInstaller_syn_seq seq = htonl seq - 512" for seq
  proof -
    have "htons 2 = 512" by code_simp
    then show ?thesis by (simp add: ConnectionInstaller_syn_seq_def QVPNNetTools_hton_ushort_def QVPNNetTools_hton_uint_def)
  qed
  then show ?thesis
    using handshake_sent [OF assms(1-8), of w] unfolding server_seq_def by fastforce
qed

theorem handshake_numbers_witness:
  "\<exists>ack ack_t w2. ConnectionInstaller_IPv4_TCP_install_connection sample_peer sample_tcp_proxy sample_key sample_raw sample_shadow ([], []) =
      Some (QVPN_RawSocket_send sample_peer sample_raw ack w2) \<and>
    tcp_packet_carries ack [192, 0, 2, 1] [198, 51, 100, 1] ack_t [] \<and> ack_t ! 13 = 16"
proof -
  have "unat (hi_nibble 0x50) = 5" by (simp add: hi_nibble_def)
  then show ?thesis
    using handshake_numbers [OF sample_tcp_proxy_ok(3) _ _ _ _ sample_installs sample_syn_ack_ok, of "([], [])"]
    by (fastforce simp: sample_key_def sample_tcp_proxy_def)
qed

text \<open>Whether the connection is ever installed. For a network protocol other than IPv4 and for an unknown transport
  protocol the loop never ends; for UDP it ends without doing anything; for TCP it ends with the first answer, and never
  when the raw socket does not send.\<close>

lemma install_loop_outcome:
  assumes "TcpPacketLE_generate_proxy_bytes data = Some t" "20 \<le> length t" "4 * unat (hi_nibble (t ! 12)) = length t"
    and "length (server_local_addr key) = 4" "length (dst_addr data) = 4"
    and "installs sys data key raw sock m rest" "tcp_reply m k" "m ! 33 AND 0x12 = 0x12"
    and mute: "\<forall>bs w. \<not> ns_success (fst (QVPN_RawSocket_send sys mute bs w))"
  shows "(net_protocol data \<noteq> NetProtocol_IPv4 \<or> transport_protocol data \<notin> {TransportProtocol_TCP, TransportProtocol_UDP} \<longrightarrow>
      QVPNServerDriver_install_connection_by_protocols sys data key raw sock w = None) \<and>
    (net_protocol data = NetProtocol_IPv4 \<and> transport_protocol data = TransportProtocol_UDP \<longrightarrow>
      QVPNServerDriver_install_connection_by_protocols sys data key raw sock w = Some (Some w)) \<and>
    (net_protocol data = NetProtocol_IPv4 \<and> transport_protocol data = TransportProtocol_TCP \<longrightarrow>
      (\<exists>w'. QVPNServerDriver_install_connection_by_protocols sys data key raw sock w = Some (Some w')) \<and>
      QVPNServerDriver_install_connection_by_protocols sys data key mute sock w = None)"
proof (intro conjI impI; (elim conjE)?)
  assume "net_protocol data \<noteq> NetProtocol_IPv4 \<or> transport_protocol data \<notin> {TransportProtocol_TCP, TransportProtocol_UDP}"
  then show "QVPNServerDriver_install_connection_by_protocols sys data key raw sock w = None"
    unfolding QVPNServerDriver_install_connection_by_protocols_def
    by (intro install_loop_diverges) (auto simp: connection_wrapper_defs proxy_get_defs)
next
  assume "net_protocol data = NetProtocol_IPv4" "transport_protocol data = TransportProtocol_UDP"
  then show "QVPNServerDriver_install_connection_by_protocols sys data key raw sock w = Some (Some w)"
    unfolding QVPNServerDriver_install_connection_by_protocols_def
    by (intro install_loop_first) (simp add: connection_wrapper_defs proxy_get_defs protocol_defs)
next
  assume p: "net_protocol data = NetProtocol_IPv4" "transport_protocol data = TransportProtocol_TCP"
  obtain ack w2 where "ConnectionInstaller_IPv4_TCP_install_connection sys data key raw sock w =
      Some (QVPN_RawSocket_send sys raw ack w2)"
    using handshake_sent [OF assms(1-8), of w] by blast
  moreover have "ns_success (fst (QVPN_RawSocket_send sys raw ack w2))" using assms(6) by (simp add: installs_def)
  ultimately have "QVPNServerDriver_connection_wrapper_net sys data key raw sock w =
      Some (True, snd (QVPN_RawSocket_send sys raw ack w2))"
    using p by (cases "QVPN_RawSocket_send sys raw ack w2") (simp add: connection_wrapper_defs proxy_get_defs)
  then show "\<exists>w'. QVPNServerDriver_install_connection_by_protocols sys data key raw sock w = Some (Some w')"
    unfolding QVPNServerDriver_install_connection_by_protocols_def by (intro exI) (rule install_loop_first)
  have "\<exists>w'. QVPNServerDriver_connection_wrapper_net sys data key mute sock w = Some (False, w')" for w
  proof -
    obtain st w' where "ConnectionInstaller_IPv4_TCP_install_connection sys data key mute sock w = Some (st, w')" "\<not> ns_success st"
      using install_mute [OF assms(1-5) mute] by blast
    then show ?thesis using p by (simp add: connection_wrapper_defs proxy_get_defs)
  qed
  then show "QVPNServerDriver_install_connection_by_protocols sys data key mute sock w = None"
    unfolding QVPNServerDriver_install_connection_by_protocols_def by (intro install_loop_diverges) blast
qed

end
