(* ===== verification/WinSockets.thy ===== *)
theory WinSockets
  imports Sockets
begin

text \<open>The sockets of the Windows build: \<open>QVPN_Socket\<close>, \<open>QVPN_RawSocket\<close>, \<open>QVPNMetaSocketData\<close> and
  \<open>QVPNNetTools\<close> of \<open>Windows/qvpn_net_tools.hpp/.cpp\<close> and \<open>QVPN_SocketFilter\<close> of
  \<open>Windows/qvpn_socket_filters.cpp\<close>, under names that begin with \<open>Win\<close>.  Winsock is a parameter: a record of the
  functions the code calls, on a state of the world of any type.  Address structures are the bytes they are in memory,
  because the code takes addresses out of them by pointer and length; reading outside a structure is \<open>None\<close>.  The
  \<open>WSADATA\<close> member, which is never read, messages on the console and \<open>recv_from\<close>, whose template no code can
  instantiate, are left out.\<close>

section \<open>Winsock\<close>

type_synonym SOCKET = "64 word"

text \<open>\<open>getsockname\<close> and its relatives are given a structure and its length and give both back, changed.\<close>

record 'w winsock =
  wsk_startup :: "'w \<Rightarrow> int \<times> 'w"
  wsk_cleanup :: "'w \<Rightarrow> 'w"
  wsk_last_error :: "'w \<Rightarrow> int"
  wsk_errno :: "'w \<Rightarrow> int"
  wsk_socket :: "int \<Rightarrow> int \<Rightarrow> int \<Rightarrow> 'w \<Rightarrow> SOCKET \<times> 'w"
  wsk_connect :: "SOCKET \<Rightarrow> bytes \<Rightarrow> 'w \<Rightarrow> int \<times> 'w"
  wsk_bind :: "SOCKET \<Rightarrow> bytes \<Rightarrow> 'w \<Rightarrow> int \<times> 'w"
  wsk_listen :: "SOCKET \<Rightarrow> int \<Rightarrow> 'w \<Rightarrow> int \<times> 'w"
  wsk_accept :: "SOCKET \<Rightarrow> bytes \<Rightarrow> nat \<Rightarrow> 'w \<Rightarrow> (SOCKET \<times> bytes \<times> nat) \<times> 'w"
  wsk_getsockname :: "SOCKET \<Rightarrow> bytes \<Rightarrow> nat \<Rightarrow> 'w \<Rightarrow> (int \<times> bytes \<times> nat) \<times> 'w"
  wsk_getpeername :: "SOCKET \<Rightarrow> bytes \<Rightarrow> nat \<Rightarrow> 'w \<Rightarrow> (int \<times> bytes \<times> nat) \<times> 'w"
  wsk_send :: "SOCKET \<Rightarrow> bytes \<Rightarrow> int \<Rightarrow> 'w \<Rightarrow> int \<times> 'w"
  wsk_recv :: "SOCKET \<Rightarrow> int \<Rightarrow> 'w \<Rightarrow> (int \<times> bytes) \<times> 'w"
  wsk_sendto :: "SOCKET \<Rightarrow> bytes \<Rightarrow> int \<Rightarrow> bytes \<Rightarrow> 'w \<Rightarrow> int \<times> 'w"
  wsk_shutdown :: "SOCKET \<Rightarrow> int \<Rightarrow> 'w \<Rightarrow> int \<times> 'w"
  wsk_closesocket :: "SOCKET \<Rightarrow> 'w \<Rightarrow> 'w"
  wsk_setsockopt :: "SOCKET \<Rightarrow> int \<Rightarrow> int \<Rightarrow> bytes \<Rightarrow> 'w \<Rightarrow> int \<times> 'w"

text \<open>Constants of the Windows headers, where they differ from those of Linux.\<close>

definition INVALID_SOCKET :: SOCKET where "INVALID_SOCKET = -1"
definition SOCKET_ERROR :: int where "SOCKET_ERROR = -1"
definition WIN_AF_INET6 :: int where "WIN_AF_INET6 = 23"
definition WIN_SOL_SOCKET :: int where "WIN_SOL_SOCKET = 65535"
definition WIN_SO_RCVTIMEO :: int where "WIN_SO_RCVTIMEO = 4102"
definition WIN_IP_HDRINCL :: int where "WIN_IP_HDRINCL = 2"
definition SD_SEND :: int where "SD_SEND = 1"

text \<open>\<open>sockaddr_in\<close> is 16 bytes: family, port and address at 0, 2 and 4; \<open>sockaddr_in6\<close> is 28 bytes, with the address
  at 8 and a scope behind it.\<close>

definition le16_bytes :: "UShort \<Rightarrow> bytes" where "le16_bytes x = [byte_of 0 x, byte_of 8 x]"

definition sockaddr_in :: "UShort \<Rightarrow> UInt \<Rightarrow> bytes" where
  "sockaddr_in port addr = le16_bytes 2 @ le16_bytes port @ le32_bytes addr @ replicate 8 0"

definition sockaddr_in6 :: "UShort \<Rightarrow> bytes \<Rightarrow> bytes" where
  "sockaddr_in6 port addr = le16_bytes 23 @ le16_bytes port @ replicate 4 0 @ addr @ replicate 4 0"

definition sin_port :: "bytes \<Rightarrow> UShort option" where
  "sin_port sa = do { a \<leftarrow> rd sa 2; b \<leftarrow> rd sa 3; Some (le16 a b) }"

section \<open>Meta data\<close>

definition WinMetaSocketData_get_socket_family :: "NetProtocol \<Rightarrow> int" where
  "WinMetaSocketData_get_socket_family p =
     (if p = NetProtocol_IPv4 then AF_INET else if p = NetProtocol_IPv6 then WIN_AF_INET6 else 0)"

definition WinMetaSocketData_get_socket_type :: "TransportProtocol \<Rightarrow> int" where
  "WinMetaSocketData_get_socket_type p =
     (if p = TransportProtocol_TCP then SOCK_STREAM else if p = TransportProtocol_UDP then SOCK_DGRAM else 0)"

definition WinMetaSocketData_get_socket_proto :: "TransportProtocol \<Rightarrow> int" where
  "WinMetaSocketData_get_socket_proto p =
     (if p = TransportProtocol_TCP then IPPROTO_TCP else if p = TransportProtocol_UDP then IPPROTO_UDP else 0)"

definition WinMetaSocketData_get_raw_socket_type :: "TransportProtocol \<Rightarrow> int" where
  "WinMetaSocketData_get_raw_socket_type p =
     (if p = TransportProtocol_TCP \<or> p = TransportProtocol_UDP then SOCK_RAW else 0)"

definition WinMetaSocketData_get_raw_socket_proto :: "TransportProtocol \<Rightarrow> int" where
  "WinMetaSocketData_get_raw_socket_proto p =
     (if p = TransportProtocol_TCP then IPPROTO_TCP else if p = TransportProtocol_UDP then IPPROTO_UDP else 0)"

section \<open>Connecting and binding\<close>

definition win_qvpn_connect_ipv4 ::
    "'w winsock \<Rightarrow> SOCKET \<Rightarrow> IPv4Address \<Rightarrow> UShort \<Rightarrow> 'w \<Rightarrow> (NetData \<times> 'w) option" where
  "win_qvpn_connect_ipv4 sys socket addr port w = do {
     let serverAddr = sockaddr_in (htons port) (htonl (IPv4Address_to_uint addr));
     let (res, w) = wsk_connect sys socket serverAddr w;
     let err = (if res = SOCKET_ERROR then wsk_last_error sys w else 0);
     let ((_, localAddr, localAddrLen), w) = wsk_getsockname sys socket (replicate 16 0) 16 w;
     net_addr \<leftarrow> rd_range localAddr 4 (4 + localAddrLen);
     local_port \<leftarrow> sin_port localAddr;
     Some (\<lparr> nd_success = (res = 0), nd_status = err, nd_addr = net_addr, nd_port = ntohs local_port \<rparr>, w) }"

definition win_qvpn_connect_ipv6 ::
    "'w winsock \<Rightarrow> SOCKET \<Rightarrow> IPv6Address \<Rightarrow> UShort \<Rightarrow> 'w \<Rightarrow> (NetData \<times> 'w) option" where
  "win_qvpn_connect_ipv6 sys socket addr port w = do {
     let serverAddr = sockaddr_in6 (htons port) (IPv6Address_to_bytes addr);
     let (res, w) = wsk_connect sys socket serverAddr w;
     let ((_, localAddr, localAddrLen), w) = wsk_getsockname sys socket (replicate 28 0) 28 w;
     net_addr \<leftarrow> rd_range localAddr 8 (8 + localAddrLen);
     let err = (if res \<noteq> 0 then wsk_last_error sys w else 0);
     Some (\<lparr> nd_success = (res = 0), nd_status = err, nd_addr = net_addr, nd_port = port \<rparr>, w) }"

definition win_qvpn_connect_addr ::
    "'w winsock \<Rightarrow> SOCKET \<Rightarrow> NetAddr \<Rightarrow> UShort \<Rightarrow> 'w \<Rightarrow> (NetData \<times> 'w) option" where
  "win_qvpn_connect_addr sys socket addr port w =
     (let addr_family = NetAddr_get_addr_family addr in
      if addr_family = NetProtocol_IPv4 then do { a \<leftarrow> NetAddr_to_ipv4 addr; win_qvpn_connect_ipv4 sys socket a port w }
      else if addr_family = NetProtocol_IPv6 then do { a \<leftarrow> NetAddr_to_ipv6 addr; win_qvpn_connect_ipv6 sys socket a port w }
      else Some (\<lparr> nd_success = False, nd_status = 0, nd_addr = NetAddr_default, nd_port = 0 \<rparr>, w))"

text \<open>The length given to \<open>getsockname\<close> is four here, less than the structure.\<close>

definition win_qvpn_bind_ipv4 ::
    "'w winsock \<Rightarrow> SOCKET \<Rightarrow> IPv4Address \<Rightarrow> UShort \<Rightarrow> 'w \<Rightarrow> (NetData \<times> 'w) option" where
  "win_qvpn_bind_ipv4 sys socket addr port w = do {
     let serverAddr = sockaddr_in (htons port) (htonl (IPv4Address_to_uint addr));
     let (res, w) = wsk_bind sys socket serverAddr w;
     let err = (if res = SOCKET_ERROR then wsk_last_error sys w else 0);
     let ((_, serverAddr, addr_len), w) = wsk_getsockname sys socket serverAddr 4 w;
     net_addr \<leftarrow> rd_range serverAddr 4 (4 + addr_len);
     Some (\<lparr> nd_success = (res = 0), nd_status = err, nd_addr = net_addr, nd_port = port \<rparr>, w) }"

definition win_qvpn_bind_ipv6 ::
    "'w winsock \<Rightarrow> SOCKET \<Rightarrow> IPv6Address \<Rightarrow> UShort \<Rightarrow> 'w \<Rightarrow> (NetData \<times> 'w) option" where
  "win_qvpn_bind_ipv6 sys socket addr port w = do {
     let serverAddr = sockaddr_in6 (htons port) (IPv6Address_to_bytes addr);
     let (res, w) = wsk_bind sys socket serverAddr w;
     let err = (if res = SOCKET_ERROR then wsk_last_error sys w else 0);
     let ((_, serverAddr, addr_len), w) = wsk_getsockname sys socket serverAddr 28 w;
     net_addr \<leftarrow> rd_range serverAddr 8 (8 + addr_len);
     Some (\<lparr> nd_success = (res = 0), nd_status = err, nd_addr = net_addr, nd_port = port \<rparr>, w) }"

definition win_qvpn_bind_addr ::
    "'w winsock \<Rightarrow> SOCKET \<Rightarrow> NetAddr \<Rightarrow> UShort \<Rightarrow> 'w \<Rightarrow> (NetData \<times> 'w) option" where
  "win_qvpn_bind_addr sys socket addr port w =
     (let addr_family = NetAddr_get_addr_family addr in
      if addr_family = NetProtocol_IPv4 then do { a \<leftarrow> NetAddr_to_ipv4 addr; win_qvpn_bind_ipv4 sys socket a port w }
      else if addr_family = NetProtocol_IPv6 then do { a \<leftarrow> NetAddr_to_ipv6 addr; win_qvpn_bind_ipv6 sys socket a port w }
      else Some (\<lparr> nd_success = False, nd_status = 0, nd_addr = NetAddr_default, nd_port = 0 \<rparr>, w))"

section \<open>Sending to an address\<close>

definition WinSocketSendTo_ipv4 ::
    "'w winsock \<Rightarrow> SOCKET \<Rightarrow> NetAddr \<Rightarrow> UShort \<Rightarrow> bytes \<Rightarrow> int \<Rightarrow> 'w \<Rightarrow> (NetStatus \<times> 'w) option" where
  "WinSocketSendTo_ipv4 sys socket addr port data flags w = do {
     a \<leftarrow> NetAddr_to_uint addr;
     let (r, w) = wsk_sendto sys socket data flags (sockaddr_in (htons port) (htonl a)) w;
     Some (if r = SOCKET_ERROR then \<lparr> ns_success = False, ns_status = wsk_last_error sys w \<rparr>
       else \<lparr> ns_success = True, ns_status = 0 \<rparr>, w) }"

definition WinSocketSendTo_ipv6 ::
    "'w winsock \<Rightarrow> SOCKET \<Rightarrow> NetAddr \<Rightarrow> UShort \<Rightarrow> bytes \<Rightarrow> int \<Rightarrow> 'w \<Rightarrow> NetStatus \<times> 'w" where
  "WinSocketSendTo_ipv6 sys socket addr port data flags w =
     (let (r, w) = wsk_sendto sys socket data flags (sockaddr_in6 (htons port) (NetAddr_to_bytes addr)) w
      in (if r = SOCKET_ERROR then \<lparr> ns_success = False, ns_status = wsk_last_error sys w \<rparr>
       else \<lparr> ns_success = True, ns_status = 0 \<rparr>, w))"

section \<open>Sockets\<close>

record WinSocket =
  ws_socket :: SOCKET
  ws_data :: QVPNSocketData

type_synonym WinRawSocket = WinSocket

subsection \<open>Stream sockets\<close>

definition WinSocket_new :: WinSocket where
  "WinSocket_new = \<lparr> ws_socket = 0, ws_data = QVPNSocketData_default \<rparr>"

text \<open>When \<open>WSAStartup\<close> fails the descriptor stays what the memory held, which is the argument \<open>init\<close>.\<close>

definition WinSocket_of_params :: "SOCKET \<Rightarrow> 'w winsock \<Rightarrow> int \<Rightarrow> int \<Rightarrow> int \<Rightarrow> 'w \<Rightarrow> WinSocket \<times> 'w" where
  "WinSocket_of_params init sys sock_family sock_type sock_proto w =
     (let (r, w) = wsk_startup sys w in
      if r = 0 then
         (let (sock, w) = wsk_socket sys sock_family sock_type sock_proto w;
          transport = (if sock_proto = IPPROTO_TCP then TransportProtocol_TCP
            else if sock_proto = IPPROTO_UDP then TransportProtocol_UDP else TransportProtocol_TRANSPORT_UNDEFINED);
          net = (if sock_family = AF_INET then NetProtocol_IPv4
            else if sock_family = WIN_AF_INET6 then NetProtocol_IPv6 else NetProtocol_NET_UNDEFINED)
          in (\<lparr> ws_socket = sock, ws_data = QVPNSocketData_default\<lparr> sd_transport_proto := transport, sd_net_proto := net,
             remote_port := 0, local_port := 0 \<rparr> \<rparr>, w))
      else (\<lparr> ws_socket = init, ws_data = QVPNSocketData_default \<rparr>, w))"

definition WinSocket_of_ipv4 ::
    "SOCKET \<Rightarrow> IPv4Address \<Rightarrow> UShort \<Rightarrow> IPv4Address \<Rightarrow> UShort \<Rightarrow> TransportProtocol \<Rightarrow> WinSocket" where
  "WinSocket_of_ipv4 sock raddr rport laddr lport t =
     \<lparr> ws_socket = sock, ws_data = \<lparr> sd_net_proto = NetProtocol_IPv4, sd_transport_proto = t,
       local_addr = NetAddr_of_ipv4 laddr, local_port = lport, remote_addr = NetAddr_of_ipv4 raddr, remote_port = rport \<rparr> \<rparr>"

definition WinSocket_of_ipv6 ::
    "SOCKET \<Rightarrow> IPv6Address \<Rightarrow> UShort \<Rightarrow> IPv6Address \<Rightarrow> UShort \<Rightarrow> TransportProtocol \<Rightarrow> WinSocket" where
  "WinSocket_of_ipv6 sock raddr rport laddr lport t =
     \<lparr> ws_socket = sock, ws_data = \<lparr> sd_net_proto = NetProtocol_IPv6, sd_transport_proto = t,
       local_addr = NetAddr_of_ipv6 laddr, local_port = lport, remote_addr = NetAddr_of_ipv6 raddr, remote_port = rport \<rparr> \<rparr>"

definition WinSocket_of_addr ::
    "SOCKET \<Rightarrow> NetAddr \<Rightarrow> UShort \<Rightarrow> NetAddr \<Rightarrow> UShort \<Rightarrow> TransportProtocol \<Rightarrow> WinSocket" where
  "WinSocket_of_addr sock raddr rport laddr lport t =
     \<lparr> ws_socket = sock, ws_data = \<lparr> sd_net_proto = NetAddr_get_addr_family raddr, sd_transport_proto = t,
       local_addr = laddr, local_port = lport, remote_addr = raddr, remote_port = rport \<rparr> \<rparr>"

text \<open>Constructors and assignments from another socket.\<close>

definition WinSocket_assign :: "WinSocket \<Rightarrow> WinSocket \<Rightarrow> WinSocket" where
  "WinSocket_assign s other = s\<lparr> ws_socket := ws_socket other, ws_data := ws_data other \<rparr>"

definition WinSocket_is_valid :: "WinSocket \<Rightarrow> bool" where
  "WinSocket_is_valid s = (if ws_socket s = INVALID_SOCKET then False else True)"

definition WinSocket_get_socket_data :: "WinSocket \<Rightarrow> QVPNSocketData" where
  "WinSocket_get_socket_data s = ws_data s"

definition WinSocket_connect ::
    "'w winsock \<Rightarrow> WinSocket \<Rightarrow> NetAddr \<Rightarrow> UShort \<Rightarrow> 'w \<Rightarrow> ((NetStatus \<times> WinSocket) \<times> 'w) option" where
  "WinSocket_connect sys s addr port w = do {
     (data, w) \<leftarrow> win_qvpn_connect_addr sys (ws_socket s) addr port w;
     let status = \<lparr> ns_success = nd_success data, ns_status = nd_status data \<rparr>;
     let s = (if ns_success status then s\<lparr> ws_data := (ws_data s)\<lparr> remote_port := port,
         remote_addr := addr, local_port := nd_port data, local_addr := nd_addr data \<rparr> \<rparr> else s);
     Some ((status, s), w) }"

definition WinSocket_bind ::
    "'w winsock \<Rightarrow> WinSocket \<Rightarrow> NetAddr \<Rightarrow> UShort \<Rightarrow> 'w \<Rightarrow> ((NetStatus \<times> WinSocket) \<times> 'w) option" where
  "WinSocket_bind sys s addr port w = do {
     (data, w) \<leftarrow> win_qvpn_bind_addr sys (ws_socket s) addr port w;
     let status = \<lparr> ns_success = nd_success data, ns_status = nd_status data \<rparr>;
     let s = (if ns_success status then s\<lparr> ws_data := (ws_data s)\<lparr> remote_port := port,
         remote_addr := addr, local_port := nd_port data, local_addr := nd_addr data \<rparr> \<rparr> else s);
     Some ((status, s), w) }"

definition WinSocket_listen :: "'w winsock \<Rightarrow> WinSocket \<Rightarrow> int \<Rightarrow> 'w \<Rightarrow> NetStatus \<times> 'w" where
  "WinSocket_listen sys s con_limit w =
     (let (res, w) = wsk_listen sys (ws_socket s) con_limit w
      in (\<lparr> ns_success = (res = 0), ns_status = res \<rparr>, w))"

definition WinSocket_send :: "'w winsock \<Rightarrow> WinSocket \<Rightarrow> bytes \<Rightarrow> int \<Rightarrow> 'w \<Rightarrow> NetStatus \<times> 'w" where
  "WinSocket_send sys s data flags w =
     (let (res, w) = wsk_send sys (ws_socket s) data flags w
      in (if res = SOCKET_ERROR then \<lparr> ns_success = False, ns_status = wsk_last_error sys w \<rparr>
          else \<lparr> ns_success = True, ns_status = 0 \<rparr>, w))"

definition WinSocket_receive :: "'w winsock \<Rightarrow> WinSocket \<Rightarrow> int \<Rightarrow> 'w \<Rightarrow> ReceiveData \<times> 'w" where
  "WinSocket_receive sys s flags w =
     (let ((res, buff), w) = wsk_recv sys (ws_socket s) flags w; success = 0 < res
      in (\<lparr> rcv_status = \<lparr> ns_success = success, ns_status = (if success then 0 else wsk_last_error sys w) \<rparr>,
            rcv_size = res, rcv_data = buff \<rparr>, w))"

text \<open>\<open>safe_recv\<close> is the loop of the Linux build, over these calls of \<open>recv\<close>.\<close>

definition win_recv_world :: "'w winsock \<Rightarrow> WinSocket \<Rightarrow> int \<Rightarrow> 'w \<Rightarrow> nat \<Rightarrow> 'w" where
  "win_recv_world sys s flags w k = ((\<lambda>w. snd (WinSocket_receive sys s flags w)) ^^ k) w"

definition WinSocket_safe_recv ::
    "'w winsock \<Rightarrow> bytes_parser \<Rightarrow> WinSocket \<Rightarrow> int \<Rightarrow> 'w \<Rightarrow> (SafeReceiveData \<times> 'w) option" where
  "WinSocket_safe_recv sys parse s flags w = do {
     (sr, n) \<leftarrow> QVPN_Socket_safe_recv parse (\<lambda>k.
       let data = fst (WinSocket_receive sys s flags (win_recv_world sys s flags w k))
       in (rcv_size data, ns_status (rcv_status data), rcv_data data));
     Some (sr, win_recv_world sys s flags w n) }"

definition WinSocket_disconnect :: "'w winsock \<Rightarrow> WinSocket \<Rightarrow> 'w \<Rightarrow> NetStatus \<times> 'w" where
  "WinSocket_disconnect sys s w = (\<lparr> ns_success = True, ns_status = 0 \<rparr>, wsk_cleanup sys w)"

definition WinSocket_check_connected :: "'w winsock \<Rightarrow> WinSocket \<Rightarrow> 'w \<Rightarrow> bool \<times> 'w" where
  "WinSocket_check_connected sys s w =
     (let ((r, _, _), w) = wsk_getpeername sys (ws_socket s) (replicate 16 0) 16 w in (r = 0, w))"

definition WinSocket_disconnect_if_connected :: "'w winsock \<Rightarrow> WinSocket \<Rightarrow> 'w \<Rightarrow> 'w" where
  "WinSocket_disconnect_if_connected sys s w =
     (let (connected, w) = WinSocket_check_connected sys s w
      in if connected then w else snd (WinSocket_disconnect sys s w))"

definition WinSocket_shutdown :: "'w winsock \<Rightarrow> WinSocket \<Rightarrow> 'w \<Rightarrow> NetStatus \<times> 'w" where
  "WinSocket_shutdown sys s w =
     (let (res, w) = wsk_shutdown sys (ws_socket s) SD_SEND w
      in (\<lparr> ns_success = (res = 0), ns_status = res \<rparr>, w))"

definition WinSocket_close_socket :: "'w winsock \<Rightarrow> WinSocket \<Rightarrow> 'w \<Rightarrow> 'w" where
  "WinSocket_close_socket sys s w = wsk_closesocket sys (ws_socket s) w"

definition WinSocket_reconnect ::
    "'w winsock \<Rightarrow> WinSocket \<Rightarrow> NetAddr \<Rightarrow> UShort \<Rightarrow> 'w \<Rightarrow> ((NetStatus \<times> WinSocket) \<times> 'w) option" where
  "WinSocket_reconnect sys s addr port w =
     (let (connected, w) = WinSocket_check_connected sys s w;
          (s, w) = (if connected then
            (let w = snd (WinSocket_shutdown sys s w);
                 w = WinSocket_close_socket sys s w;
                 (sock, w) = wsk_socket sys
                   (WinMetaSocketData_get_socket_family (NetAddr_get_addr_family (local_addr (ws_data s))))
                   (WinMetaSocketData_get_socket_type (sd_transport_proto (ws_data s)))
                   (WinMetaSocketData_get_socket_proto (sd_transport_proto (ws_data s))) w
             in (s\<lparr> ws_socket := sock \<rparr>, w)) else (s, w))
      in WinSocket_connect sys s addr port w)"

definition WinSocket_get_local_addr :: "WinSocket \<Rightarrow> NetAddr" where
  "WinSocket_get_local_addr s = local_addr (ws_data s)"

definition WinSocket_get_local_port :: "WinSocket \<Rightarrow> UShort" where
  "WinSocket_get_local_port s = local_port (ws_data s)"

definition WinSocket_get_remote_addr :: "WinSocket \<Rightarrow> NetAddr" where
  "WinSocket_get_remote_addr s = remote_addr (ws_data s)"

definition WinSocket_get_remote_port :: "WinSocket \<Rightarrow> UShort" where
  "WinSocket_get_remote_port s = remote_port (ws_data s)"

definition WinSocket_get_transport_protocol :: "WinSocket \<Rightarrow> TransportProtocol" where
  "WinSocket_get_transport_protocol s = sd_transport_proto (ws_data s)"

text \<open>The option is a \<open>char\<close>, the timeout an \<open>int\<close> in milliseconds.\<close>

definition WinSocket_apply_settings :: "'w winsock \<Rightarrow> WinSocket \<Rightarrow> QVPNSocketSettings \<Rightarrow> 'w \<Rightarrow> 'w" where
  "WinSocket_apply_settings sys s settings w =
     (let optval = of_bool (QVPNSocketSettings_ip_header settings);
          w = snd (wsk_setsockopt sys (ws_socket s) IPPROTO_IP WIN_IP_HDRINCL [optval] w);
          timeout = QVPNSocketSettings_receive_timeout_ms settings
      in snd (wsk_setsockopt sys (ws_socket s) WIN_SOL_SOCKET WIN_SO_RCVTIMEO (le32_bytes (word_of_int timeout)) w))"

text \<open>A client that was accepted: the peer's port stays in network order.\<close>

definition WinSocketAccept_ipv4_WinSocket :: "'w winsock \<Rightarrow> SOCKET \<Rightarrow> TransportProtocol \<Rightarrow> 'w \<Rightarrow> (WinSocket \<times> 'w) option" where
  "WinSocketAccept_ipv4_WinSocket sys socket t_proto w = do {
     let ((sock, clientAddr, clientAddrLen), w) = wsk_accept sys socket (replicate 16 0) 16 w;
     let ((_, sock_addr, addr_len), w) = wsk_getsockname sys sock (replicate 16 0) 16 w;
     let ((_, clientAddr, clientAddrLen), w) = wsk_getpeername sys sock clientAddr clientAddrLen w;
     net_addr \<leftarrow> rd_range sock_addr 4 8;
     addr \<leftarrow> rd_range clientAddr 4 8;
     port \<leftarrow> sin_port clientAddr;
     local_port \<leftarrow> sin_port sock_addr;
     Some (WinSocket_of_addr sock addr port net_addr (ntohs local_port) t_proto, w) }"

definition WinSocketAccept_ipv6_WinSocket :: "'w winsock \<Rightarrow> SOCKET \<Rightarrow> TransportProtocol \<Rightarrow> 'w \<Rightarrow> (WinSocket \<times> 'w) option" where
  "WinSocketAccept_ipv6_WinSocket sys socket t_proto w = do {
     let ((sock, clientAddr, clientAddrLen), w) = wsk_accept sys socket (replicate 28 0) 28 w;
     let ((_, sock_addr, addr_len), w) = wsk_getsockname sys sock (replicate 28 0) 28 w;
     let ((_, clientAddr, clientAddrLen), w) = wsk_getpeername sys sock clientAddr clientAddrLen w;
     net_addr \<leftarrow> rd_range sock_addr 8 (8 + addr_len);
     addr \<leftarrow> rd_range clientAddr 8 (8 + addr_len);
     port \<leftarrow> sin_port clientAddr;
     local_port \<leftarrow> sin_port sock_addr;
     Some (WinSocket_of_addr sock addr port net_addr (ntohs local_port) t_proto, w) }"

definition WinSocket_accept :: "'w winsock \<Rightarrow> WinSocket \<Rightarrow> 'w \<Rightarrow> (WinSocket \<times> 'w) option" where
  "WinSocket_accept sys s w =
     (let net_proto = NetAddr_get_addr_family (local_addr (ws_data s)); t_proto = sd_transport_proto (ws_data s) in
      if net_proto = NetProtocol_IPv4 then WinSocketAccept_ipv4_WinSocket sys (ws_socket s) t_proto w
      else if net_proto = NetProtocol_IPv6 then WinSocketAccept_ipv6_WinSocket sys (ws_socket s) t_proto w
      else Some (WinSocket_new, w))"

definition WinSocket_send_to ::
    "'w winsock \<Rightarrow> WinSocket \<Rightarrow> NetAddr \<Rightarrow> UShort \<Rightarrow> bytes \<Rightarrow> int \<Rightarrow> 'w \<Rightarrow> (NetStatus \<times> 'w) option" where
  "WinSocket_send_to sys s addr port data flags w =
     (let net_proto = NetAddr_get_addr_family addr in
      if net_proto = NetProtocol_IPv4 then WinSocketSendTo_ipv4 sys (ws_socket s) addr port data flags w
      else if net_proto = NetProtocol_IPv6 then Some (WinSocketSendTo_ipv6 sys (ws_socket s) addr port data flags w)
      else Some (\<lparr> ns_success = False, ns_status = 0 \<rparr>, w))"

definition WinSocket_append_socket_to_connection :: "WinSocket \<Rightarrow> QVPNSocketData \<Rightarrow> UInt \<Rightarrow> UInt \<Rightarrow> SocketRepairStatus" where
  "WinSocket_append_socket_to_connection s connection_data local_isn remote_isn =
     \<lparr> srs_success = False, srs_status = -1 \<rparr>"

subsection \<open>Raw sockets\<close>

definition WinRawSocket_new :: WinRawSocket where
  "WinRawSocket_new = \<lparr> ws_socket = 0, ws_data = QVPNSocketData_default \<rparr>"

definition WinRawSocket_of_params :: "'w winsock \<Rightarrow> int \<Rightarrow> int \<Rightarrow> int \<Rightarrow> 'w \<Rightarrow> WinRawSocket \<times> 'w" where
  "WinRawSocket_of_params sys sock_family sock_type sock_proto w =
     (let (sock, w) = wsk_socket sys sock_family sock_type sock_proto w;
          transport = (if sock_proto = IPPROTO_TCP then TransportProtocol_TCP
            else if sock_proto = IPPROTO_UDP then TransportProtocol_UDP else TransportProtocol_TRANSPORT_UNDEFINED);
          net = (if sock_family = AF_INET then NetProtocol_IPv4
            else if sock_family = WIN_AF_INET6 then NetProtocol_IPv6 else NetProtocol_NET_UNDEFINED)
      in (\<lparr> ws_socket = sock, ws_data = QVPNSocketData_default\<lparr> sd_transport_proto := transport, sd_net_proto := net,
             remote_port := 0, local_port := 0 \<rparr> \<rparr>, w))"

definition WinRawSocket_of_ipv4 ::
    "SOCKET \<Rightarrow> IPv4Address \<Rightarrow> UShort \<Rightarrow> IPv4Address \<Rightarrow> UShort \<Rightarrow> TransportProtocol \<Rightarrow> WinRawSocket" where
  "WinRawSocket_of_ipv4 sock raddr rport laddr lport t =
     \<lparr> ws_socket = sock, ws_data = \<lparr> sd_net_proto = NetProtocol_IPv4, sd_transport_proto = t,
       local_addr = NetAddr_of_ipv4 laddr, local_port = lport, remote_addr = NetAddr_of_ipv4 raddr, remote_port = rport \<rparr> \<rparr>"

definition WinRawSocket_of_ipv6 ::
    "SOCKET \<Rightarrow> IPv6Address \<Rightarrow> UShort \<Rightarrow> IPv6Address \<Rightarrow> UShort \<Rightarrow> TransportProtocol \<Rightarrow> WinRawSocket" where
  "WinRawSocket_of_ipv6 sock raddr rport laddr lport t =
     \<lparr> ws_socket = sock, ws_data = \<lparr> sd_net_proto = NetProtocol_IPv6, sd_transport_proto = t,
       local_addr = NetAddr_of_ipv6 laddr, local_port = lport, remote_addr = NetAddr_of_ipv6 raddr, remote_port = rport \<rparr> \<rparr>"

definition WinRawSocket_of_addr ::
    "SOCKET \<Rightarrow> NetAddr \<Rightarrow> UShort \<Rightarrow> NetAddr \<Rightarrow> UShort \<Rightarrow> TransportProtocol \<Rightarrow> WinRawSocket" where
  "WinRawSocket_of_addr sock raddr rport laddr lport t =
     \<lparr> ws_socket = sock, ws_data = \<lparr> sd_net_proto = NetAddr_get_addr_family raddr, sd_transport_proto = t,
       local_addr = laddr, local_port = lport, remote_addr = raddr, remote_port = rport \<rparr> \<rparr>"

text \<open>The descriptor is unsigned.\<close>

definition WinRawSocket_assign :: "WinRawSocket \<Rightarrow> WinRawSocket \<Rightarrow> WinRawSocket" where
  "WinRawSocket_assign s other = s\<lparr> ws_socket := ws_socket other, ws_data := ws_data other \<rparr>"

definition WinRawSocket_is_valid :: "WinRawSocket \<Rightarrow> bool" where
  "WinRawSocket_is_valid s = (if ws_socket s < 0 then False else True)"

definition WinRawSocket_get_socket_data :: "WinRawSocket \<Rightarrow> QVPNSocketData" where
  "WinRawSocket_get_socket_data s = ws_data s"

definition WinRawSocket_connect ::
    "'w winsock \<Rightarrow> WinRawSocket \<Rightarrow> NetAddr \<Rightarrow> UShort \<Rightarrow> 'w \<Rightarrow> ((NetStatus \<times> WinRawSocket) \<times> 'w) option" where
  "WinRawSocket_connect sys s addr port w = do {
     (data, w) \<leftarrow> win_qvpn_connect_addr sys (ws_socket s) addr port w;
     let status = \<lparr> ns_success = nd_success data, ns_status = nd_status data \<rparr>;
     let s = (if ns_success status then s\<lparr> ws_data := (ws_data s)\<lparr>
         sd_net_proto := NetAddr_get_addr_family (nd_addr data), remote_port := port,
         remote_addr := addr, local_port := nd_port data, local_addr := nd_addr data \<rparr> \<rparr> else s);
     Some ((status, s), w) }"

definition WinRawSocket_bind ::
    "'w winsock \<Rightarrow> WinRawSocket \<Rightarrow> NetAddr \<Rightarrow> UShort \<Rightarrow> 'w \<Rightarrow> ((NetStatus \<times> WinRawSocket) \<times> 'w) option" where
  "WinRawSocket_bind sys s addr port w = do {
     (data, w) \<leftarrow> win_qvpn_bind_addr sys (ws_socket s) addr port w;
     let status = \<lparr> ns_success = nd_success data, ns_status = nd_status data \<rparr>;
     let s = (if ns_success status then s\<lparr> ws_data := (ws_data s)\<lparr>
         sd_net_proto := NetAddr_get_addr_family (nd_addr data), remote_port := port,
         remote_addr := addr, local_port := nd_port data, local_addr := nd_addr data \<rparr> \<rparr> else s);
     Some ((status, s), w) }"

definition WinRawSocket_listen :: "'w winsock \<Rightarrow> WinRawSocket \<Rightarrow> int \<Rightarrow> 'w \<Rightarrow> NetStatus \<times> 'w" where
  "WinRawSocket_listen sys s con_limit w =
     (let (res, w) = wsk_listen sys (ws_socket s) con_limit w
      in (\<lparr> ns_success = (res = 0), ns_status = res \<rparr>, w))"

definition WinRawSocket_send :: "'w winsock \<Rightarrow> WinRawSocket \<Rightarrow> bytes \<Rightarrow> int \<Rightarrow> 'w \<Rightarrow> NetStatus \<times> 'w" where
  "WinRawSocket_send sys s data flags w =
     (let (res, w) = wsk_send sys (ws_socket s) data flags w
      in (if res = SOCKET_ERROR then \<lparr> ns_success = False, ns_status = wsk_last_error sys w \<rparr>
          else \<lparr> ns_success = True, ns_status = 0 \<rparr>, w))"

definition WinRawSocket_receive :: "'w winsock \<Rightarrow> WinRawSocket \<Rightarrow> int \<Rightarrow> 'w \<Rightarrow> ReceiveData \<times> 'w" where
  "WinRawSocket_receive sys s flags w =
     (let ((res, buff), w) = wsk_recv sys (ws_socket s) flags w; success = 0 < res
      in (\<lparr> rcv_status = \<lparr> ns_success = success, ns_status = (if success then 0 else wsk_errno sys w) \<rparr>,
            rcv_size = res, rcv_data = buff \<rparr>, w))"

definition WinRawSocket_safe_recv ::
    "'w winsock \<Rightarrow> bytes_parser \<Rightarrow> WinRawSocket \<Rightarrow> int \<Rightarrow> 'w \<Rightarrow> (SafeReceiveData \<times> 'w) option" where
  "WinRawSocket_safe_recv sys parse s flags w = do {
     (sr, n) \<leftarrow> QVPN_Socket_safe_recv parse (\<lambda>k.
       let data = fst (WinRawSocket_receive sys s flags (win_recv_world sys s flags w k))
       in (rcv_size data, ns_status (rcv_status data), rcv_data data));
     Some (sr, win_recv_world sys s flags w n) }"

definition WinRawSocket_disconnect :: "WinRawSocket \<Rightarrow> 'w \<Rightarrow> NetStatus \<times> 'w" where
  "WinRawSocket_disconnect s w = (\<lparr> ns_success = True, ns_status = 0 \<rparr>, w)"

definition WinRawSocket_check_connected :: "'w winsock \<Rightarrow> WinRawSocket \<Rightarrow> 'w \<Rightarrow> bool \<times> 'w" where
  "WinRawSocket_check_connected sys s w =
     (let ((r, _, _), w) = wsk_getpeername sys (ws_socket s) (replicate 16 0) 16 w in (r = 0, w))"

definition WinRawSocket_disconnect_if_connected :: "'w winsock \<Rightarrow> WinRawSocket \<Rightarrow> 'w \<Rightarrow> 'w" where
  "WinRawSocket_disconnect_if_connected sys s w =
     (let (connected, w) = WinRawSocket_check_connected sys s w
      in if connected then w else snd (WinRawSocket_disconnect s w))"

definition WinRawSocket_shutdown :: "'w winsock \<Rightarrow> WinRawSocket \<Rightarrow> 'w \<Rightarrow> NetStatus \<times> 'w" where
  "WinRawSocket_shutdown sys s w =
     (let (res, w) = wsk_shutdown sys (ws_socket s) SD_SEND w
      in (\<lparr> ns_success = (res = 0), ns_status = res \<rparr>, w))"

definition WinRawSocket_close_socket :: "'w winsock \<Rightarrow> WinRawSocket \<Rightarrow> 'w \<Rightarrow> 'w" where
  "WinRawSocket_close_socket sys s w = wsk_closesocket sys (ws_socket s) w"

definition WinRawSocket_reconnect ::
    "'w winsock \<Rightarrow> WinRawSocket \<Rightarrow> NetAddr \<Rightarrow> UShort \<Rightarrow> 'w \<Rightarrow> ((NetStatus \<times> WinRawSocket) \<times> 'w) option" where
  "WinRawSocket_reconnect sys s addr port w =
     (let (connected, w) = WinRawSocket_check_connected sys s w;
          (s, w) = (if connected then
            (let w = snd (WinRawSocket_shutdown sys s w);
                 w = WinRawSocket_close_socket sys s w;
                 (sock, w) = wsk_socket sys
                   (WinMetaSocketData_get_socket_family (NetAddr_get_addr_family (local_addr (ws_data s))))
                   (WinMetaSocketData_get_raw_socket_type (sd_transport_proto (ws_data s)))
                   (WinMetaSocketData_get_raw_socket_proto (sd_transport_proto (ws_data s))) w
             in (s\<lparr> ws_socket := sock \<rparr>, w)) else (s, w))
      in WinRawSocket_connect sys s addr port w)"

definition WinRawSocket_get_local_addr :: "WinRawSocket \<Rightarrow> NetAddr" where
  "WinRawSocket_get_local_addr s = local_addr (ws_data s)"

definition WinRawSocket_get_local_port :: "WinRawSocket \<Rightarrow> UShort" where
  "WinRawSocket_get_local_port s = local_port (ws_data s)"

definition WinRawSocket_get_remote_addr :: "WinRawSocket \<Rightarrow> NetAddr" where
  "WinRawSocket_get_remote_addr s = remote_addr (ws_data s)"

definition WinRawSocket_get_remote_port :: "WinRawSocket \<Rightarrow> UShort" where
  "WinRawSocket_get_remote_port s = remote_port (ws_data s)"

definition WinRawSocket_get_transport_protocol :: "WinRawSocket \<Rightarrow> TransportProtocol" where
  "WinRawSocket_get_transport_protocol s = sd_transport_proto (ws_data s)"

text \<open>The option is a \<open>char\<close>, the timeout an \<open>int\<close> in milliseconds.\<close>

definition WinRawSocket_apply_settings :: "'w winsock \<Rightarrow> WinRawSocket \<Rightarrow> QVPNSocketSettings \<Rightarrow> 'w \<Rightarrow> 'w" where
  "WinRawSocket_apply_settings sys s settings w =
     (let optval = of_bool (QVPNSocketSettings_ip_header settings);
          w = snd (wsk_setsockopt sys (ws_socket s) IPPROTO_IP WIN_IP_HDRINCL [optval] w);
          timeout = QVPNSocketSettings_receive_timeout_ms settings
      in snd (wsk_setsockopt sys (ws_socket s) WIN_SOL_SOCKET WIN_SO_RCVTIMEO (le32_bytes (word_of_int timeout)) w))"

text \<open>A client that was accepted: the peer's port stays in network order.\<close>

definition WinSocketAccept_ipv4_WinRawSocket :: "'w winsock \<Rightarrow> SOCKET \<Rightarrow> TransportProtocol \<Rightarrow> 'w \<Rightarrow> (WinRawSocket \<times> 'w) option" where
  "WinSocketAccept_ipv4_WinRawSocket sys socket t_proto w = do {
     let ((sock, clientAddr, clientAddrLen), w) = wsk_accept sys socket (replicate 16 0) 16 w;
     let ((_, sock_addr, addr_len), w) = wsk_getsockname sys sock (replicate 16 0) 16 w;
     let ((_, clientAddr, clientAddrLen), w) = wsk_getpeername sys sock clientAddr clientAddrLen w;
     net_addr \<leftarrow> rd_range sock_addr 4 8;
     addr \<leftarrow> rd_range clientAddr 4 8;
     port \<leftarrow> sin_port clientAddr;
     local_port \<leftarrow> sin_port sock_addr;
     Some (WinRawSocket_of_addr sock addr port net_addr (ntohs local_port) t_proto, w) }"

definition WinSocketAccept_ipv6_WinRawSocket :: "'w winsock \<Rightarrow> SOCKET \<Rightarrow> TransportProtocol \<Rightarrow> 'w \<Rightarrow> (WinRawSocket \<times> 'w) option" where
  "WinSocketAccept_ipv6_WinRawSocket sys socket t_proto w = do {
     let ((sock, clientAddr, clientAddrLen), w) = wsk_accept sys socket (replicate 28 0) 28 w;
     let ((_, sock_addr, addr_len), w) = wsk_getsockname sys sock (replicate 28 0) 28 w;
     let ((_, clientAddr, clientAddrLen), w) = wsk_getpeername sys sock clientAddr clientAddrLen w;
     net_addr \<leftarrow> rd_range sock_addr 8 (8 + addr_len);
     addr \<leftarrow> rd_range clientAddr 8 (8 + addr_len);
     port \<leftarrow> sin_port clientAddr;
     local_port \<leftarrow> sin_port sock_addr;
     Some (WinRawSocket_of_addr sock addr port net_addr (ntohs local_port) t_proto, w) }"

definition WinRawSocket_accept :: "'w winsock \<Rightarrow> WinRawSocket \<Rightarrow> 'w \<Rightarrow> (WinRawSocket \<times> 'w) option" where
  "WinRawSocket_accept sys s w =
     (let net_proto = NetAddr_get_addr_family (local_addr (ws_data s)); t_proto = sd_transport_proto (ws_data s) in
      if net_proto = NetProtocol_IPv4 then WinSocketAccept_ipv4_WinRawSocket sys (ws_socket s) t_proto w
      else if net_proto = NetProtocol_IPv6 then WinSocketAccept_ipv6_WinRawSocket sys (ws_socket s) t_proto w
      else Some (WinRawSocket_new, w))"

definition WinRawSocket_send_to ::
    "'w winsock \<Rightarrow> WinRawSocket \<Rightarrow> NetAddr \<Rightarrow> UShort \<Rightarrow> bytes \<Rightarrow> int \<Rightarrow> 'w \<Rightarrow> (NetStatus \<times> 'w) option" where
  "WinRawSocket_send_to sys s addr port data flags w =
     (let net_proto = NetAddr_get_addr_family addr in
      if net_proto = NetProtocol_IPv4 then WinSocketSendTo_ipv4 sys (ws_socket s) addr port data flags w
      else if net_proto = NetProtocol_IPv6 then Some (WinSocketSendTo_ipv6 sys (ws_socket s) addr port data flags w)
      else Some (\<lparr> ns_success = False, ns_status = 0 \<rparr>, w))"

text \<open>Filters are not supported here: only a message is printed.\<close>

definition WinRawSocket_filter :: "WinRawSocket \<Rightarrow> filter_key \<Rightarrow> 'w \<Rightarrow> 'w" where
  "WinRawSocket_filter s f w = w"

section \<open>The factory\<close>

definition WinNetTools_create_socket ::
    "SOCKET \<Rightarrow> 'w winsock \<Rightarrow> NetProtocol \<Rightarrow> TransportProtocol \<Rightarrow> 'w \<Rightarrow> WinSocket \<times> 'w" where
  "WinNetTools_create_socket init sys net_proto t_proto w =
     WinSocket_of_params init sys (WinMetaSocketData_get_socket_family net_proto)
       (WinMetaSocketData_get_socket_type t_proto) (WinMetaSocketData_get_socket_proto t_proto) w"

definition WinNetTools_create_raw_socket ::
    "'w winsock \<Rightarrow> NetProtocol \<Rightarrow> TransportProtocol \<Rightarrow> 'w \<Rightarrow> WinRawSocket \<times> 'w" where
  "WinNetTools_create_raw_socket sys net_proto t_proto w =
     (let sock_s = QVPNSocketSettings_of False 0;
          (sock, w) = WinRawSocket_of_params sys (WinMetaSocketData_get_socket_family net_proto)
            (WinMetaSocketData_get_raw_socket_type t_proto) (WinMetaSocketData_get_raw_socket_proto t_proto) w;
          w = WinRawSocket_apply_settings sys sock sock_s w
      in (sock, w))"

definition WinNetTools_hton_ushort :: "UShort \<Rightarrow> UShort" where "WinNetTools_hton_ushort num = htons num"
definition WinNetTools_ntoh_ushort :: "UShort \<Rightarrow> UShort" where "WinNetTools_ntoh_ushort num = ntohs num"
definition WinNetTools_hton_uint :: "UInt \<Rightarrow> UInt" where "WinNetTools_hton_uint num = htonl num"
definition WinNetTools_ntoh_uint :: "UInt \<Rightarrow> UInt" where "WinNetTools_ntoh_uint num = ntohl num"

text \<open>\<open>htonll\<close> swaps the two halves and the bytes of each.\<close>

definition htonll :: "64 word \<Rightarrow> 64 word" where
  "htonll x = word_cat (htonl (ucast x)) (htonl (ucast (drop_bit 32 x)))"

definition WinNetTools_hton_ulong :: "64 word \<Rightarrow> 64 word" where "WinNetTools_hton_ulong num = htonll num"
definition WinNetTools_ntoh_ulong :: "64 word \<Rightarrow> 64 word" where "WinNetTools_ntoh_ulong num = htonll num"

section \<open>Filter keys\<close>

text \<open>The Windows class fills the key from the other side and leaves addresses and ports in the order of the host.\<close>

definition WinSocketFilter_of_socket_data :: "filter_key \<Rightarrow> QVPNSocketData \<Rightarrow> filter_key option" where
  "WinSocketFilter_of_socket_data init s = do {
     let f = init\<lparr> fk_net_proto := sd_net_proto s, fk_transport_proto := sd_transport_proto s \<rparr>;
     f \<leftarrow> (if sd_net_proto s = NetProtocol_IPv4 then do {
             l \<leftarrow> NetAddr_to_uint (local_addr s);
             r \<leftarrow> NetAddr_to_uint (remote_addr s);
             Some (f\<lparr> fk_src_ip := l, fk_dst_ip := r \<rparr>) }
           else Some f);
     Some (f\<lparr> fk_src_port := local_port s, fk_dst_port := remote_port s \<rparr>) }"

definition WinSocketFilter_of_server_data :: "filter_key \<Rightarrow> QVPNServerSocketData \<Rightarrow> filter_key option" where
  "WinSocketFilter_of_server_data init s = do {
     let f = init\<lparr> fk_net_proto := ssd_net_proto s, fk_transport_proto := ssd_transport_proto s \<rparr>;
     f \<leftarrow> (if ssd_net_proto s = NetProtocol_IPv4 then do {
             l \<leftarrow> NetAddr_to_uint (server_local_addr s);
             r \<leftarrow> NetAddr_to_uint (ssd_remote_addr s);
             Some (f\<lparr> fk_src_ip := l, fk_dst_ip := r \<rparr>) }
           else Some f);
     Some (f\<lparr> fk_src_port := ssd_local_port s, fk_dst_port := ssd_remote_port s \<rparr>) }"

definition WinSocketFilter_ipv4 :: "filter_key \<Rightarrow> filter_key" where
  "WinSocketFilter_ipv4 f = f\<lparr> fk_net_proto := NetProtocol_IPv4 \<rparr>"
definition WinSocketFilter_ipv6 :: "filter_key \<Rightarrow> filter_key" where
  "WinSocketFilter_ipv6 f = f\<lparr> fk_net_proto := NetProtocol_IPv6 \<rparr>"
definition WinSocketFilter_net_ver :: "filter_key \<Rightarrow> UByte \<Rightarrow> filter_key" where
  "WinSocketFilter_net_ver f net = f\<lparr> fk_net_proto := net \<rparr>"

definition WinSocketFilter_src :: "filter_key \<Rightarrow> NetAddr \<Rightarrow> filter_key option" where
  "WinSocketFilter_src f addr =
     (if NetAddr_get_addr_family addr = NetProtocol_IPv4
      then do { a \<leftarrow> NetAddr_to_uint addr; Some (f\<lparr> fk_src_ip := htonl a \<rparr>) } else Some f)"
definition WinSocketFilter_dst :: "filter_key \<Rightarrow> NetAddr \<Rightarrow> filter_key option" where
  "WinSocketFilter_dst f addr =
     (if NetAddr_get_addr_family addr = NetProtocol_IPv4
      then do { a \<leftarrow> NetAddr_to_uint addr; Some (f\<lparr> fk_dst_ip := htonl a \<rparr>) } else Some f)"

definition WinSocketFilter_src_port :: "filter_key \<Rightarrow> UShort \<Rightarrow> filter_key" where
  "WinSocketFilter_src_port f port = f\<lparr> fk_src_port := htons port \<rparr>"
definition WinSocketFilter_dst_port :: "filter_key \<Rightarrow> UShort \<Rightarrow> filter_key" where
  "WinSocketFilter_dst_port f port = f\<lparr> fk_dst_port := htons port \<rparr>"
definition WinSocketFilter_tcp :: "filter_key \<Rightarrow> filter_key" where
  "WinSocketFilter_tcp f = f\<lparr> fk_transport_proto := TransportProtocol_TCP \<rparr>"
definition WinSocketFilter_udp :: "filter_key \<Rightarrow> filter_key" where
  "WinSocketFilter_udp f = f\<lparr> fk_transport_proto := TransportProtocol_UDP \<rparr>"
definition WinSocketFilter_custom_protocol :: "filter_key \<Rightarrow> UByte \<Rightarrow> filter_key" where
  "WinSocketFilter_custom_protocol f proto = f\<lparr> fk_transport_proto := proto \<rparr>"
definition WinSocketFilter_get_filters :: "filter_key \<Rightarrow> filter_key" where
  "WinSocketFilter_get_filters f = f"

definition WinNetTools_create_socket_filter :: "filter_key \<Rightarrow> QVPNSocketData \<Rightarrow> filter_key option" where
  "WinNetTools_create_socket_filter init s_data = WinSocketFilter_of_socket_data init s_data"

definition WinNetTools_create_server_socket_filter :: "filter_key \<Rightarrow> QVPNServerSocketData \<Rightarrow> filter_key option" where
  "WinNetTools_create_server_socket_filter init s_data = WinSocketFilter_of_server_data init s_data"

section \<open>What connecting and binding leave behind\<close>

lemma win_stream_connect_result:
  assumes "WinSocket_connect sys s a p w = Some ((st, s'), w')"
  obtains d where "win_qvpn_connect_addr sys (ws_socket s) a p w = Some (d, w')" "ns_success st = nd_success d"
    "s' = (if nd_success d then s\<lparr> ws_data := (ws_data s)\<lparr> remote_port := p, remote_addr := a,
       local_port := nd_port d, local_addr := nd_addr d \<rparr> \<rparr> else s)"
  using assms by (auto simp: WinSocket_connect_def Let_def bind_eq_Some_conv)

lemma win_stream_bind_result:
  assumes "WinSocket_bind sys s a p w = Some ((st, s'), w')"
  obtains d where "win_qvpn_bind_addr sys (ws_socket s) a p w = Some (d, w')" "ns_success st = nd_success d"
    "s' = (if nd_success d then s\<lparr> ws_data := (ws_data s)\<lparr> remote_port := p, remote_addr := a,
       local_port := nd_port d, local_addr := nd_addr d \<rparr> \<rparr> else s)"
  using assms by (auto simp: WinSocket_bind_def Let_def bind_eq_Some_conv)

lemma win_raw_connect_result:
  assumes "WinRawSocket_connect sys s a p w = Some ((st, s'), w')"
  obtains d where "win_qvpn_connect_addr sys (ws_socket s) a p w = Some (d, w')" "ns_success st = nd_success d"
    "s' = (if nd_success d then s\<lparr> ws_data := (ws_data s)\<lparr> sd_net_proto := NetAddr_get_addr_family (nd_addr d),
       remote_port := p, remote_addr := a, local_port := nd_port d, local_addr := nd_addr d \<rparr> \<rparr> else s)"
  using assms by (auto simp: WinRawSocket_connect_def Let_def bind_eq_Some_conv)

lemma win_raw_bind_result:
  assumes "WinRawSocket_bind sys s a p w = Some ((st, s'), w')"
  obtains d where "win_qvpn_bind_addr sys (ws_socket s) a p w = Some (d, w')" "ns_success st = nd_success d"
    "s' = (if nd_success d then s\<lparr> ws_data := (ws_data s)\<lparr> sd_net_proto := NetAddr_get_addr_family (nd_addr d),
       remote_port := p, remote_addr := a, local_port := nd_port d, local_addr := nd_addr d \<rparr> \<rparr> else s)"
  using assms by (auto simp: WinRawSocket_bind_def Let_def bind_eq_Some_conv)

interpretation win_stream: endpoint ws_socket ws_data WinSocket_connect WinSocket_bind
  by unfold_locales (auto elim!: win_stream_connect_result win_stream_bind_result)

interpretation win_raw: endpoint ws_socket ws_data WinRawSocket_connect WinRawSocket_bind
  by unfold_locales (auto elim!: win_raw_connect_result win_raw_bind_result)

section \<open>Lengths of address structures\<close>

text \<open>What Winsock documents of \<open>getsockname\<close> on a structure of the size \<open>n\<close> that the family of the socket uses: it
  fills the structure and gives its length back, or fails and leaves both.\<close>

definition names_fill :: "'w winsock \<Rightarrow> SOCKET \<Rightarrow> nat \<Rightarrow> bool" where
  "names_fill sys s n \<longleftrightarrow> (\<forall>sa w. length sa = n \<longrightarrow>
     (case fst (wsk_getsockname sys s sa n w) of (_, sa', n') \<Rightarrow> length sa' = n \<and> n' = n))"

text \<open>A length that is too small is an error, which leaves structure and length alone.\<close>

definition names_too_short :: "'w winsock \<Rightarrow> SOCKET \<Rightarrow> bool" where
  "names_too_short sys s \<longleftrightarrow> (\<forall>sa n w. n < 16 \<longrightarrow> snd (fst (wsk_getsockname sys s sa n w)) = (sa, n))"

lemma names_fill_past:
  assumes "names_fill sys s n" "length sa = n" "0 < off"
  shows "rd_range (fst (snd (fst (wsk_getsockname sys s sa n w)))) off
    (off + snd (snd (fst (wsk_getsockname sys s sa n w)))) = None"
proof -
  have "case fst (wsk_getsockname sys s sa n w) of (_, sa', n') \<Rightarrow> length sa' = n \<and> n' = n"
    using assms(1,2) by (auto simp: names_fill_def)
  then show ?thesis using assms(3) by (simp add: rd_range_def case_prod_beta)
qed

lemma length_sockaddr [simp]:
  "length (sockaddr_in port addr) = 16" "length a = 16 \<Longrightarrow> length (sockaddr_in6 port a) = 28"
  by (simp_all add: sockaddr_in_def sockaddr_in6_def le16_bytes_def le32_bytes_def)

lemma win_ipv4_connect_undefined:
  assumes "names_fill sys sock 16"
  shows "win_qvpn_connect_ipv4 sys sock a p w = None"
  by (simp add: win_qvpn_connect_ipv4_def Let_def case_prod_beta bind_eq_None_conv
      names_fill_past [OF assms])

lemma win_ipv6_connect_undefined:
  assumes "names_fill sys sock 28"
  shows "win_qvpn_connect_ipv6 sys sock a p w = None"
  by (simp add: win_qvpn_connect_ipv6_def Let_def case_prod_beta bind_eq_None_conv
      names_fill_past [OF assms])

lemma win_ipv6_bind_undefined:
  assumes "names_fill sys sock 28" "length a = 16"
  shows "win_qvpn_bind_ipv6 sys sock a p w = None"
  by (simp add: win_qvpn_bind_ipv6_def Let_def case_prod_beta bind_eq_None_conv IPv6Address_to_bytes_def
      names_fill_past [OF assms(1)] assms(2))

text \<open>Binding to an IPv4 address does not read past its structure, because the length that is too small makes
  \<open>getsockname\<close> fail; the address and port are those that were asked for.\<close>

lemma sockaddr_in_fields [simp]:
  "rd_range (sockaddr_in port addr) 4 8 = Some (le32_bytes addr)"
  by (simp add: sockaddr_in_def le16_bytes_def le32_bytes_def rd_range_def)

lemma sin_port_in [simp]: "sin_port (sockaddr_in port addr) = Some port"
  by (simp add: sockaddr_in_def le16_bytes_def le32_bytes_def sin_port_def rd_def le16_def be16_of_bytes)

lemma win_ipv4_bind:
  assumes "names_too_short sys sock"
  shows "win_qvpn_bind_ipv4 sys sock a p w =
    (let sa = sockaddr_in (htons p) (htonl (IPv4Address_to_uint a)); (res, w) = wsk_bind sys sock sa w
     in Some (\<lparr> nd_success = (res = 0), nd_status = (if res = SOCKET_ERROR then wsk_last_error sys w else 0),
        nd_addr = IPv4Address_to_bytes a, nd_port = p \<rparr>, snd (wsk_getsockname sys sock sa 4 w)))"
proof -
  have "snd (fst (wsk_getsockname sys sock sa 4 w)) = (sa, 4)" for sa w
    using assms by (simp add: names_too_short_def)
  then show ?thesis by (simp add: win_qvpn_bind_ipv4_def Let_def case_prod_beta)
qed

lemma win_bind_ipv4_socket:
  assumes "WinSocket_bind sys s a p w = Some ((st, s'), w')" "length a = 4" "ns_success st"
    and "names_too_short sys (ws_socket s)"
  shows "s' = s\<lparr> ws_data := (ws_data s)\<lparr> remote_port := p, remote_addr := a, local_port := p, local_addr := a \<rparr> \<rparr>"
proof -
  obtain i where i: "NetAddr_to_ipv4 a = Some i" "IPv4Address_to_bytes i = a"
    using NetAddr_to_ipv4_length4 [OF assms(2)] by blast
  obtain d where d: "win_qvpn_bind_addr sys (ws_socket s) a p w = Some (d, w')" "ns_success st = nd_success d"
    "s' = (if nd_success d then s\<lparr> ws_data := (ws_data s)\<lparr> remote_port := p, remote_addr := a,
       local_port := nd_port d, local_addr := nd_addr d \<rparr> \<rparr> else s)"
    using assms(1) by (rule win_stream_bind_result)
  have "nd_port d = p \<and> nd_addr d = a"
    using d(1) i assms(2) by (auto simp: win_qvpn_bind_addr_def win_ipv4_bind [OF assms(4)] Let_def case_prod_beta
        NetAddr_get_addr_family_def protocol_defs)
  then show ?thesis using d(2,3) assms(3) by simp
qed

section \<open>Accepted clients\<close>

text \<open>Both ends of a connected socket, as \<open>getsockname\<close> and \<open>getpeername\<close> report them.\<close>

definition ends_known :: "'w winsock \<Rightarrow> SOCKET \<Rightarrow> bytes \<Rightarrow> bytes \<Rightarrow> bool" where
  "ends_known sys s own peer \<longleftrightarrow>
     (\<forall>sa w. length sa = 16 \<longrightarrow> snd (fst (wsk_getsockname sys s sa 16 w)) = (own, 16)) \<and>
     (\<forall>sa n w. fst (snd (fst (wsk_getpeername sys s sa n w))) = peer)"

definition client_socket ::
    "SOCKET \<Rightarrow> TransportProtocol \<Rightarrow> IPv4Address \<Rightarrow> UShort \<Rightarrow> IPv4Address \<Rightarrow> UShort \<Rightarrow> WinSocket" where
  "client_socket c t la lp ra rp = \<lparr> ws_socket = c, ws_data = \<lparr> sd_net_proto = NetProtocol_IPv4, sd_transport_proto = t,
     local_addr = IPv4Address_to_bytes la, local_port = lp, remote_addr = IPv4Address_to_bytes ra,
     remote_port = htons rp \<rparr> \<rparr>"

lemma length_ipv4_bytes [simp]: "length (IPv4Address_to_bytes a) = 4"
  by (cases a) simp

lemma ntohs_htons [simp]: "ntohs (htons p) = p"
  by (simp add: ntohs_def htons_def le16_def)

lemma win_accept_ipv4:
  assumes "ends_known sys c (sockaddr_in (htons lp) (htonl (IPv4Address_to_uint la)))
      (sockaddr_in (htons rp) (htonl (IPv4Address_to_uint ra)))"
    and "fst (fst (wsk_accept sys sk (replicate 16 0) 16 w)) = c"
  shows "\<exists>w'. WinSocketAccept_ipv4_WinSocket sys sk t w = Some (client_socket c t la lp ra rp, w') \<and>
    WinSocketAccept_ipv4_WinRawSocket sys sk t w = Some (client_socket c t la lp ra rp, w')"
proof -
  have *: "snd (fst (wsk_getsockname sys c (replicate 16 0) 16 w)) = (sockaddr_in (htons lp) (htonl (IPv4Address_to_uint la)), 16)"
    "fst (snd (fst (wsk_getpeername sys c sa n w))) = sockaddr_in (htons rp) (htonl (IPv4Address_to_uint ra))" for w sa n
    using assms(1) by (simp_all add: ends_known_def)
  show ?thesis
    by (simp add: WinSocketAccept_ipv4_WinSocket_def WinSocketAccept_ipv4_WinRawSocket_def Let_def case_prod_beta assms(2) *
        client_socket_def WinSocket_of_addr_def WinRawSocket_of_addr_def NetAddr_get_addr_family_def)
qed

section \<open>Differences to the Linux build\<close>

text \<open>The descriptor of a raw socket is compared as if it were signed, so a failed \<open>socket\<close> goes unnoticed.\<close>

lemma win_raw_always_valid: "WinRawSocket_is_valid s"
  by (simp add: WinRawSocket_is_valid_def)

lemma win_raw_invalid_unnoticed:
  "WinRawSocket_is_valid (s\<lparr> ws_socket := INVALID_SOCKET \<rparr>) \<and> \<not> WinSocket_is_valid (s\<lparr> ws_socket := INVALID_SOCKET \<rparr>)"
  by (simp add: win_raw_always_valid WinSocket_is_valid_def)

text \<open>The key of the Windows class is that of the Linux class seen from the other end, in the order of the host.\<close>

definition swapped_key :: "filter_key \<Rightarrow> filter_key" where
  "swapped_key f = f\<lparr> fk_src_ip := htonl (fk_dst_ip f), fk_src_port := htons (fk_dst_port f),
     fk_dst_ip := htonl (fk_src_ip f), fk_dst_port := htons (fk_src_port f) \<rparr>"

lemma htonl_htonl [simp]: "htonl (htonl x) = x"
  by (simp add: htonl_def le32_def)

lemma htons_htons [simp]: "htons (htons x) = x"
  using ntohs_htons [of x] by (simp add: ntohs_def)

lemma win_key_is_swapped:
  assumes "sd_net_proto s = NetProtocol_IPv4"
  shows "WinSocketFilter_of_socket_data init s = map_option swapped_key (QVPN_SocketFilter_of_socket_data init s)"
  using assms by (cases "NetAddr_to_uint (local_addr s)"; cases "NetAddr_to_uint (remote_addr s)")
    (simp_all add: WinSocketFilter_of_socket_data_def QVPN_SocketFilter_of_socket_data_def swapped_key_def Let_def)

lemma win_server_key_is_swapped:
  assumes "ssd_net_proto s = NetProtocol_IPv4"
  shows "WinSocketFilter_of_server_data init s = map_option swapped_key (QVPN_SocketFilter_of_server_data init s)"
  using assms by (cases "NetAddr_to_uint (server_local_addr s)"; cases "NetAddr_to_uint (ssd_remote_addr s)")
    (simp_all add: WinSocketFilter_of_server_data_def QVPN_SocketFilter_of_server_data_def swapped_key_def Let_def)

lemma htonll_round: "WinNetTools_ntoh_ulong (WinNetTools_hton_ulong x) = x"
proof -
  have "ucast (htonll x) = htonl (ucast (drop_bit 32 x))" "ucast (drop_bit 32 (htonll x)) = htonl (ucast x)"
    by (rule bit_word_eqI, simp add: htonll_def bit_word_cat_iff bit_ucast_iff bit_drop_bit_eq)+
  moreover have "word_cat (ucast (drop_bit 32 x) :: UInt) (ucast x :: UInt) = x"
    by (rule bit_word_eqI) (auto simp: bit_word_cat_iff bit_ucast_iff bit_drop_bit_eq)
  ultimately show ?thesis
    by (simp add: WinNetTools_ntoh_ulong_def WinNetTools_hton_ulong_def htonll_def [of "htonll x"])
qed

text \<open>An empty datagram that was sent is a success here and a failure in the Linux build.\<close>

lemma win_empty_datagram:
  assumes "length a = 4" "fst (wsk_sendto sys (ws_socket s) [] flags sa w) = 0"
    and "sa = sockaddr_in (htons p) (htonl (be32 (a ! 0) (a ! 1) (a ! 2) (a ! 3)))"
  shows "map_option (ns_success \<circ> fst) (WinRawSocket_send_to sys s a p [] flags w) = Some True"
  using assms by (simp add: WinRawSocket_send_to_def WinSocketSendTo_ipv4_def NetAddr_to_uint_ipv4 Let_def case_prod_beta
      NetAddr_get_addr_family_def SOCKET_ERROR_def del: length_greater_0_conv)

section \<open>Receiving\<close>

text \<open>\<open>safe_recv\<close> puts a record together as in the Linux build.\<close>

lemma win_safe_recv_record:
  assumes "is_app_record (concat cs)" "cs \<noteq> []"
    and "pieces_arrive (\<lambda>k. let data = fst (WinSocket_receive sys s flags (win_recv_world sys s flags w k))
       in (rcv_size data, ns_status (rcv_status data), rcv_data data)) 0 cs"
  shows "WinSocket_safe_recv sys TLS13_RecordView_bytes_parse s flags w =
    Some (\<lparr> sr_status = ok_status, sr_separators = [(0, length (concat cs))], sr_data = concat cs \<rparr>,
      win_recv_world sys s flags w (length cs))"
  unfolding WinSocket_safe_recv_def record_view.object_in_pieces [OF assms] by simp

section \<open>A sample system\<close>

text \<open>A server socket bound to port 443 and a client 10.0.0.2 that connects from port 50000.\<close>

definition sample_winsock :: "unit winsock" where
  "sample_winsock = \<lparr> wsk_startup = (\<lambda>w. (0, w)), wsk_cleanup = (\<lambda>w. w), wsk_last_error = (\<lambda>w. 0), wsk_errno = (\<lambda>w. 0),
     wsk_socket = (\<lambda>f t p w. (8, w)), wsk_connect = (\<lambda>s sa w. (0, w)), wsk_bind = (\<lambda>s sa w. (0, w)),
     wsk_listen = (\<lambda>s n w. (0, w)), wsk_accept = (\<lambda>s sa n w. ((9, sa, n), w)),
     wsk_getsockname = (\<lambda>s sa n w. (if n < 16 then (-1, sa, n)
       else (0, sockaddr_in (htons 443) (htonl (IPv4Address_to_uint (IPv4Address 10 0 0 1))), 16), w)),
     wsk_getpeername = (\<lambda>s sa n w. ((0, sockaddr_in (htons 50000) (htonl (IPv4Address_to_uint (IPv4Address 10 0 0 2))), 16), w)),
     wsk_send = (\<lambda>s d f w. (0, w)), wsk_recv = (\<lambda>s f w. ((0, []), w)), wsk_sendto = (\<lambda>s d f sa w. (0, w)),
     wsk_shutdown = (\<lambda>s h w. (0, w)), wsk_closesocket = (\<lambda>s w. w), wsk_setsockopt = (\<lambda>s l opt v w. (0, w)) \<rparr>"

lemma sample_winsock_facts:
  "names_fill sample_winsock s 16" "names_too_short sample_winsock s"
  "ends_known sample_winsock s (sockaddr_in (htons 443) (htonl (IPv4Address_to_uint (IPv4Address 10 0 0 1))))
     (sockaddr_in (htons 50000) (htonl (IPv4Address_to_uint (IPv4Address 10 0 0 2))))"
  "fst (fst (wsk_accept sample_winsock s sa n w)) = 9"
  "wsk_bind sample_winsock s sa w = (0, w)"
  by (simp_all add: names_fill_def names_too_short_def ends_known_def sample_winsock_def)

section \<open>Properties\<close>

text \<open>C33: the Windows sockets cannot connect. Where the code should take the four or sixteen bytes of the local
  address it takes as many as the whole address structure has, counted from the address on, so it reads behind
  the structure: for every socket, IPv4 and IPv6, stream and raw, \<open>connect\<close> has no defined result, whatever
  \<open>connect\<close> of the system did, and neither has binding to an IPv6 address.\<close>

theorem win_connect_reads_outside:
  assumes "length a = 4 \<and> names_fill sys (ws_socket s) 16 \<or> length a = 16 \<and> names_fill sys (ws_socket s) 28"
  shows "WinSocket_connect sys s a p w = None \<and> WinRawSocket_connect sys s a p w = None \<and>
    (length a = 16 \<longrightarrow> WinSocket_bind sys s a p w = None \<and> WinRawSocket_bind sys s a p w = None)"
  using assms
proof
  assume four: "length a = 4 \<and> names_fill sys (ws_socket s) 16"
  then have "win_qvpn_connect_addr sys (ws_socket s) a p w = None"
    by (simp add: win_qvpn_connect_addr_def win_ipv4_connect_undefined NetAddr_get_addr_family_def bind_eq_None_conv)
  then show ?thesis using four by (simp add: WinSocket_connect_def WinRawSocket_connect_def)
next
  assume sixteen: "length a = 16 \<and> names_fill sys (ws_socket s) 28"
  then have "win_qvpn_connect_addr sys (ws_socket s) a p w = None" "win_qvpn_bind_addr sys (ws_socket s) a p w = None"
    by (simp_all add: win_qvpn_connect_addr_def win_qvpn_bind_addr_def win_ipv6_connect_undefined
        win_ipv6_bind_undefined NetAddr_get_addr_family_def NetAddr_to_ipv6_def rd_range_def protocol_defs)
  then show ?thesis
    by (simp add: WinSocket_connect_def WinRawSocket_connect_def WinSocket_bind_def WinRawSocket_bind_def)
qed

theorem win_connect_reads_outside_witness:
  "WinSocket_connect sample_winsock WinSocket_new [10, 0, 0, 2] 443 () = None"
  using win_connect_reads_outside [of "[10, 0, 0, 2]" sample_winsock WinSocket_new 443 "()"] sample_winsock_facts(1)
  by simp

text \<open>C34: a Windows server socket that was bound to an IPv4 address accepts a client. Binding succeeds because the
  length given to \<open>getsockname\<close> is too short and the structure stays as it was; the accepted socket carries
  both addresses, its own port and the transport protocol of the server socket, and the port of the client in
  network order, that is with its bytes swapped.\<close>

theorem win_client_accepted:
  assumes "WinSocket_bind sys s a p w = Some ((st, s'), w1)" "length a = 4" "ns_success st"
    and "names_too_short sys (ws_socket s)"
    and "fst (fst (wsk_accept sys (ws_socket s) (replicate 16 0) 16 w2)) = c"
    and "ends_known sys c (sockaddr_in (htons lp) (htonl (IPv4Address_to_uint la)))
      (sockaddr_in (htons rp) (htonl (IPv4Address_to_uint ra)))"
  shows "local_addr (ws_data s') = a \<and> local_port (ws_data s') = p \<and>
    (\<exists>w3. WinSocket_accept sys s' w2 =
       Some (client_socket c (sd_transport_proto (ws_data s)) la lp ra rp, w3))"
proof -
  note s' = win_bind_ipv4_socket [OF assms(1-4)]
  obtain w3 where "WinSocketAccept_ipv4_WinSocket sys (ws_socket s) (sd_transport_proto (ws_data s)) w2 =
      Some (client_socket c (sd_transport_proto (ws_data s)) la lp ra rp, w3)"
    using win_accept_ipv4 [OF assms(6,5)] by blast
  then show ?thesis using s' assms(2) by (simp add: WinSocket_accept_def NetAddr_get_addr_family_def)
qed

theorem win_client_accepted_witness:
  "\<exists>st s' w1 w3. WinSocket_bind sample_winsock (WinSocket_new\<lparr> ws_socket := 8 \<rparr>) [10, 0, 0, 1] 443 () = Some ((st, s'), w1) \<and>
    WinSocket_accept sample_winsock s' () =
      Some (client_socket 9 0 (IPv4Address 10 0 0 1) 443 (IPv4Address 10 0 0 2) 50000, w3)"
proof -
  let ?s = "WinSocket_new\<lparr> ws_socket := 8 \<rparr>"
  have "\<exists>d. win_qvpn_bind_addr sample_winsock (ws_socket ?s) [10, 0, 0, 1] 443 () = Some (d, ()) \<and> nd_success d"
    by (simp add: win_qvpn_bind_addr_def NetAddr_get_addr_family_def NetAddr_to_ipv4_def rd_def
        win_ipv4_bind [OF sample_winsock_facts(2)] sample_winsock_facts(5) Let_def)
  then obtain st s' w1 where b: "WinSocket_bind sample_winsock ?s [10, 0, 0, 1] 443 () = Some ((st, s'), w1)" "ns_success st"
    by (auto simp: WinSocket_bind_def)
  have "sd_transport_proto (ws_data ?s) = 0" by (simp add: WinSocket_new_def QVPNSocketData_default_def)
  then show ?thesis
    using win_client_accepted [OF b(1) _ b(2) sample_winsock_facts(2) sample_winsock_facts(4) sample_winsock_facts(3), of "()"]
      b(1) by auto
qed

end
