(* ===== verification/Adapters.thy ===== *)
theory Adapters
  imports SocketFilter ClientCapture
begin

text \<open>Network adapters: the classes \<open>Adapter\<close> and \<open>AdapterList\<close> (\<open>qvpn_structures.hpp\<close>), the Wintun driver
  (\<open>wintun_ext.cpp\<close>) and the pcap driver (\<open>pcap_ext.cpp\<close>).  Wintun, the IP helper functions of Windows and pcap are records of
  their calls.  A pointer to something opaque is a number, the null pointer is zero; a member that a constructor leaves
  uninitialised is \<open>None\<close>.\<close>

section \<open>Adapters and lists of adapters\<close>

record Adapter =
  adapter_name :: string
  adapter_desc :: string
  friendly_name :: string
  adapter_address :: IPv4Address
  adapter_handle :: "nat option"
  adapter_id :: "ULong option"

definition Adapter_new :: Adapter where
  "Adapter_new = \<lparr> adapter_name = [], adapter_desc = [], friendly_name = [], adapter_address = IPv4Address_any,
     adapter_handle = Some 0, adapter_id = None \<rparr>"

definition Adapter_of_names :: "string \<Rightarrow> string \<Rightarrow> string \<Rightarrow> Adapter" where
  "Adapter_of_names a_name a_desc a_fname = \<lparr> adapter_name = a_name, adapter_desc = a_desc, friendly_name = a_fname,
     adapter_address = IPv4Address_any, adapter_handle = None, adapter_id = None \<rparr>"
definition Adapter_of_names_id :: "string \<Rightarrow> string \<Rightarrow> string \<Rightarrow> ULong \<Rightarrow> Adapter" where
  "Adapter_of_names_id a_name a_desc a_fname a_id = (Adapter_of_names a_name a_desc a_fname)\<lparr> adapter_id := Some a_id \<rparr>"
definition Adapter_of_addr :: "string \<Rightarrow> string \<Rightarrow> IPv4Address \<Rightarrow> Adapter" where
  "Adapter_of_addr a_name a_desc addr = \<lparr> adapter_name = a_name, adapter_desc = a_desc, friendly_name = a_name,
     adapter_address = addr, adapter_handle = None, adapter_id = None \<rparr>"
definition Adapter_of_addr_id :: "string \<Rightarrow> string \<Rightarrow> IPv4Address \<Rightarrow> ULong \<Rightarrow> Adapter" where
  "Adapter_of_addr_id a_name a_desc addr a_id = (Adapter_of_addr a_name a_desc addr)\<lparr> adapter_id := Some a_id \<rparr>"
definition Adapter_of_addr_handle :: "string \<Rightarrow> string \<Rightarrow> IPv4Address \<Rightarrow> nat \<Rightarrow> Adapter" where
  "Adapter_of_addr_handle a_name a_desc addr hnd = (Adapter_of_addr a_name a_desc addr)\<lparr> adapter_handle := Some hnd \<rparr>"
definition Adapter_of_addr_handle_id :: "string \<Rightarrow> string \<Rightarrow> IPv4Address \<Rightarrow> nat \<Rightarrow> ULong \<Rightarrow> Adapter" where
  "Adapter_of_addr_handle_id a_name a_desc addr hnd a_id =
     (Adapter_of_addr a_name a_desc addr)\<lparr> adapter_handle := Some hnd, adapter_id := Some a_id \<rparr>"
definition Adapter_of_names_handle :: "string \<Rightarrow> string \<Rightarrow> string \<Rightarrow> nat \<Rightarrow> Adapter" where
  "Adapter_of_names_handle a_name a_desc a_fname a_handle =
     (Adapter_of_names a_name a_desc a_fname)\<lparr> adapter_handle := Some a_handle \<rparr>"
definition Adapter_of_names_handle_id :: "string \<Rightarrow> string \<Rightarrow> string \<Rightarrow> nat \<Rightarrow> ULong \<Rightarrow> Adapter" where
  "Adapter_of_names_handle_id a_name a_desc a_fname a_handle a_id =
     (Adapter_of_names a_name a_desc a_fname)\<lparr> adapter_handle := Some a_handle, adapter_id := Some a_id \<rparr>"

definition Adapter_set_handle :: "nat \<Rightarrow> Adapter \<Rightarrow> Adapter" where
  "Adapter_set_handle a_handle a = a\<lparr> adapter_handle := Some a_handle \<rparr>"
definition Adapter_set_data :: "string \<Rightarrow> string \<Rightarrow> string \<Rightarrow> Adapter \<Rightarrow> Adapter" where
  "Adapter_set_data a_name a_desc a_fname a = a\<lparr> adapter_name := a_name, adapter_desc := a_desc, friendly_name := a_fname \<rparr>"
definition Adapter_set_name :: "string \<Rightarrow> Adapter \<Rightarrow> Adapter" where
  "Adapter_set_name a_name a = a\<lparr> adapter_name := a_name \<rparr>"
definition Adapter_set_desc :: "string \<Rightarrow> Adapter \<Rightarrow> Adapter" where
  "Adapter_set_desc a_desc a = a\<lparr> adapter_desc := a_desc \<rparr>"
definition Adapter_set_friendly_name :: "string \<Rightarrow> Adapter \<Rightarrow> Adapter" where
  "Adapter_set_friendly_name a_fname a = a\<lparr> friendly_name := a_fname \<rparr>"

definition Adapter_get_name :: "Adapter \<Rightarrow> string" where "Adapter_get_name a = adapter_name a"
definition Adapter_get_desc :: "Adapter \<Rightarrow> string" where "Adapter_get_desc a = adapter_desc a"
definition Adapter_get_friendly_name :: "Adapter \<Rightarrow> string" where "Adapter_get_friendly_name a = friendly_name a"
definition Adapter_get_handle :: "Adapter \<Rightarrow> nat option" where "Adapter_get_handle a = adapter_handle a"
definition Adapter_get_addr :: "Adapter \<Rightarrow> IPv4Address" where "Adapter_get_addr a = adapter_address a"
definition Adapter_get_id :: "Adapter \<Rightarrow> ULong option" where "Adapter_get_id a = adapter_id a"

text \<open>A criteria class is its \<open>check_criteria\<close>; without a match the result is the null pointer.\<close>

fun AdapterList_get_default_adapter :: "(Adapter \<Rightarrow> bool) \<Rightarrow> Adapter list \<Rightarrow> Adapter option" where
  "AdapterList_get_default_adapter check_criteria [] = None"
| "AdapterList_get_default_adapter check_criteria (it # l) =
     (if check_criteria it then Some it else AdapterList_get_default_adapter check_criteria l)"

section \<open>The pcap driver\<close>

text \<open>An interface of pcap: its name, its description, which may be null, and whether it has addresses.\<close>

record pcap_if =
  if_name :: string
  if_description :: "string option"
  if_has_addresses :: bool

record 'w pcap =
  pcap_findalldevs :: "'w \<Rightarrow> pcap_if list option \<times> 'w"
  pcap_open_live :: "string \<Rightarrow> 'w \<Rightarrow> nat \<times> 'w"
  pcap_loop :: "nat \<Rightarrow> 'w \<Rightarrow> 'w"

text \<open>A \<open>string_view\<close> of a null pointer is undefined.\<close>

definition PcapNetDriver_convert_from_pcap_adapter :: "pcap_if \<Rightarrow> Adapter option" where
  "PcapNetDriver_convert_from_pcap_adapter a =
     map_option (\<lambda>desc. Adapter_of_names (if_name a) desc (if_name a)) (if_description a)"

fun pcap_adapters :: "pcap_if list \<Rightarrow> Adapter list option" where
  "pcap_adapters [] = Some []"
| "pcap_adapters (d # ds) =
     (if \<not> if_has_addresses d then pcap_adapters ds
      else do {
        adapter \<leftarrow> PcapNetDriver_convert_from_pcap_adapter d;
        adapters \<leftarrow> pcap_adapters ds;
        Some (Adapter_of_names (Adapter_get_name adapter) (Adapter_get_desc adapter) (Adapter_get_friendly_name adapter) #
          adapters) })"

definition PcapNetDriver_get_adapters_list :: "'w pcap \<Rightarrow> 'w \<Rightarrow> (Adapter list \<times> 'w) option" where
  "PcapNetDriver_get_adapters_list pc w = (case pcap_findalldevs pc w of
     (None, w) \<Rightarrow> Some ([], w)
   | (Some alldevs, w) \<Rightarrow> map_option (\<lambda>adapters. (adapters, w)) (pcap_adapters alldevs))"

definition PcapNetDriver_capture_adapter :: "'w pcap \<Rightarrow> string \<Rightarrow> 'w \<Rightarrow> 'w" where
  "PcapNetDriver_capture_adapter pc adapter w =
     (let (descr, w) = pcap_open_live pc adapter w in if descr = 0 then w else pcap_loop pc descr w)"

definition PcapNetDriver_capture_adapter_of :: "'w pcap \<Rightarrow> Adapter \<Rightarrow> 'w \<Rightarrow> 'w" where
  "PcapNetDriver_capture_adapter_of pc adapter w = PcapNetDriver_capture_adapter pc (Adapter_get_friendly_name adapter) w"

definition is_physical_adapter :: "Adapter \<Rightarrow> bool" where
  "is_physical_adapter adapter = (let name = Adapter_get_desc adapter in
     find_sub ''Realtek'' name \<noteq> None \<or> find_sub ''Broadcom'' name \<noteq> None \<or> find_sub ''Intel'' name \<noteq> None)"

definition AdapterCriteria_check_criteria :: "Adapter \<Rightarrow> bool" where
  "AdapterCriteria_check_criteria adapter = (if is_physical_adapter adapter then True else False)"

lemma pcap_adapters_outcome:
  "pcap_adapters ds = (if \<exists>d\<in>set ds. if_has_addresses d \<and> if_description d = None then None
     else Some (map (\<lambda>d. Adapter_of_names (if_name d) (the (if_description d)) (if_name d)) (filter if_has_addresses ds)))"
  by (induction ds) (auto simp: PcapNetDriver_convert_from_pcap_adapter_def Adapter_get_name_def Adapter_get_desc_def
      Adapter_get_friendly_name_def Adapter_of_names_def)

lemma default_adapter_first:
  "AdapterList_get_default_adapter check l = List.find check l"
  by (induction l) simp_all

section \<open>The Wintun driver\<close>

text \<open>The structures of the IP helper functions, with the fields the code sets.\<close>

record IP_ADDRESS_PREFIX =
  prefix_family :: int
  prefix_addr :: bytes
  PrefixLength :: UByte

record MIB_IPFORWARD_ROW2 =
  row_luid :: nat
  DestinationPrefix :: IP_ADDRESS_PREFIX
  hop_family :: int
  hop_addr :: bytes
  row_metric :: nat
  row_protocol :: nat

record MIB_IPINTERFACE_ROW =
  ifc_family :: int
  ifc_luid :: nat
  ifc_metric :: nat
  UseAutomaticMetric :: bool
  SitePrefixLength :: nat

record MIB_UNICASTIPADDRESS_ROW =
  uni_family :: int
  uni_addr :: UInt
  uni_luid :: nat
  OnLinkPrefixLength :: UByte
  DadState :: nat

definition NO_ERROR :: nat where "NO_ERROR = 0"
definition ERROR_INVALID_PARAMETER :: nat where "ERROR_INVALID_PARAMETER = 87"
definition ERROR_NO_MORE_ITEMS :: nat where "ERROR_NO_MORE_ITEMS = 259"
definition MIB_IPPROTO_NETMGMT :: nat where "MIB_IPPROTO_NETMGMT = 3"
definition IpDadStatePreferred :: nat where "IpDadStatePreferred = 4"

text \<open>The calls of Windows and of the Wintun library.  \<open>wt_proc\<close> says whether the library has a function of this name; a call of
  \<open>WintunGetAdapterLUID\<close> whose adapter is not a handle is \<open>None\<close>.  The last three \<open>init\<close> functions fill a structure.\<close>

record 'w wintun =
  wt_load_library :: "'w \<Rightarrow> nat \<times> 'w"
  wt_proc :: "string \<Rightarrow> bool"
  wt_free_library :: "nat \<Rightarrow> 'w \<Rightarrow> 'w"
  wt_last_error :: "'w \<Rightarrow> nat"
  wt_create_adapter :: "string \<Rightarrow> string \<Rightarrow> 'w \<Rightarrow> nat \<times> 'w"
  wt_adapter_luid :: "nat \<Rightarrow> 'w \<Rightarrow> nat option"
  wt_start_session :: "nat \<Rightarrow> nat \<Rightarrow> 'w \<Rightarrow> nat \<times> 'w"
  wt_end_session :: "nat \<Rightarrow> 'w \<Rightarrow> 'w"
  wt_receive_packet :: "nat \<Rightarrow> 'w \<Rightarrow> bytes option \<times> 'w"
  wt_release_packet :: "nat \<Rightarrow> 'w \<Rightarrow> 'w"
  wt_wait :: "nat \<Rightarrow> 'w \<Rightarrow> 'w"
  inet_pton4 :: "string \<Rightarrow> bytes option"
  create_ip_forward_entry :: "MIB_IPFORWARD_ROW2 \<Rightarrow> 'w \<Rightarrow> nat \<times> 'w"
  set_ip_interface_entry :: "MIB_IPINTERFACE_ROW \<Rightarrow> 'w \<Rightarrow> nat \<times> 'w"
  create_unicast_entry :: "MIB_UNICASTIPADDRESS_ROW \<Rightarrow> 'w \<Rightarrow> nat \<times> 'w"
  init_ip_forward_entry :: MIB_IPFORWARD_ROW2
  init_ip_interface_entry :: MIB_IPINTERFACE_ROW
  init_unicast_entry :: MIB_UNICASTIPADDRESS_ROW

subsection \<open>Prefixes\<close>

text \<open>\<open>atoi\<close> of the C library: the number the text begins with, zero without one.  A number that does not fit is saturated on
  Windows, which here gives the same answers.\<close>

definition atoi :: "string \<Rightarrow> int" where
  "atoi s = (let s = dropWhile is_space s;
                 (neg, s) = (case s of [] \<Rightarrow> (False, [])
                   | c # cs \<Rightarrow> if c = CHR ''-'' then (True, cs) else if c = CHR ''+'' then (False, cs) else (False, c # cs));
                 v = digits_value (takeWhile is_digit s)
             in if neg then - v else v)"

text \<open>The text goes through a buffer of 64 characters; null pointers are \<open>None\<close>.  The result has the error code and what the
  structure is left with.\<close>

definition ConvertIpv4StringToPrefix ::
    "(string \<Rightarrow> bytes option) \<Rightarrow> string option \<Rightarrow> IP_ADDRESS_PREFIX option \<Rightarrow> nat \<times> IP_ADDRESS_PREFIX option" where
  "ConvertIpv4StringToPrefix pton ipCidrString outPrefix = (case (ipCidrString, outPrefix) of
     (Some text, Some p) \<Rightarrow>
       let buffer = take 63 text;
           ipPart = takeWhile (\<lambda>c. c \<noteq> CHR ''/'') buffer
       in if CHR ''/'' \<notin> set buffer then (ERROR_INVALID_PARAMETER, Some p)
          else
            let maskPart = drop (Suc (length ipPart)) buffer;
                p = p\<lparr> prefix_family := AF_INET \<rparr>
            in (case pton ipPart of
                  None \<Rightarrow> (ERROR_INVALID_PARAMETER, Some p)
                | Some addr \<Rightarrow>
                    let p = p\<lparr> prefix_addr := addr \<rparr>; maskLength = atoi maskPart
                    in if maskLength < 0 \<or> maskLength > 32 then (ERROR_INVALID_PARAMETER, Some p)
                       else (NO_ERROR, Some (p\<lparr> PrefixLength := word_of_int maskLength \<rparr>)))
   | _ \<Rightarrow> (ERROR_INVALID_PARAMETER, outPrefix))"

subsection \<open>The driver\<close>

text \<open>The members of \<open>WinTunDriver\<close> and the function pointers that may be called, by name.\<close>

record WinTunDriver =
  wtd_adapter :: Adapter
  wtd_wintun :: nat
  wtd_session :: "nat option"
  wtd_procs :: "string list"

definition wintun_procs :: "string list" where
  "wintun_procs = [''WintunCreateAdapter'', ''WintunCloseAdapter'', ''WintunOpenAdapter'', ''WintunGetAdapterLUID'',
     ''WintunGetRunningDriverVersion'', ''WintunDeleteDriver'', ''WintunSetLogger'', ''WintunStartSession'',
     ''WintunEndSession'', ''WintunGetReadWaitEvent'', ''WintunReceivePacket'', ''WintunReleaseReceivePacket'',
     ''WintunAllocateSendPacket'', ''WintunSendPacket'']"

text \<open>When a function is missing the library is unloaded again, and no pointer may be called.\<close>

definition WinTunDriver_init_wintun :: "'w wintun \<Rightarrow> WinTunDriver \<Rightarrow> 'w \<Rightarrow> WinTunDriver \<times> 'w" where
  "WinTunDriver_init_wintun wt d w = (case wt_load_library wt w of (lib, w) \<Rightarrow>
     if lib = 0 then (d\<lparr> wtd_wintun := 0 \<rparr>, w)
     else if \<not> list_all (wt_proc wt) wintun_procs then (d\<lparr> wtd_wintun := 0, wtd_procs := [] \<rparr>, wt_free_library wt lib w)
     else (d\<lparr> wtd_wintun := lib, wtd_procs := wintun_procs \<rparr>, w))"

definition WinTunDriver_new :: "'w wintun \<Rightarrow> 'w \<Rightarrow> WinTunDriver \<times> 'w" where
  "WinTunDriver_new wt w = WinTunDriver_init_wintun wt
     \<lparr> wtd_adapter = Adapter_new, wtd_wintun = 0, wtd_session = None, wtd_procs = [] \<rparr> w"

text \<open>A call through a function pointer.\<close>

definition proc :: "WinTunDriver \<Rightarrow> string \<Rightarrow> unit option" where
  "proc d name = (if name \<in> set (wtd_procs d) then Some () else None)"

definition WinTunDriver_delete :: "'w wintun \<Rightarrow> WinTunDriver \<Rightarrow> 'w \<Rightarrow> 'w option" where
  "WinTunDriver_delete wt d w = do {
     _ \<leftarrow> proc d ''WintunEndSession'';
     session \<leftarrow> wtd_session d;
     Some (wt_end_session wt session w) }"

text \<open>The loop that creates an adapter; its variable is not initialised.\<close>

fun create_loop :: "'w wintun \<Rightarrow> string \<Rightarrow> string \<Rightarrow> nat \<Rightarrow> nat option \<Rightarrow> 'w \<Rightarrow> nat option \<times> 'w" where
  "create_loop wt name desc 0 adapter w = (adapter, w)"
| "create_loop wt name desc (Suc try_numbers) adapter w = (case wt_create_adapter wt name desc w of (adapter, w) \<Rightarrow>
     if adapter = 0 then create_loop wt name desc try_numbers (Some adapter) w else (Some adapter, w))"

definition WinTunDriver_create_adapter_ipv4_of ::
    "'w wintun \<Rightarrow> string \<Rightarrow> string \<Rightarrow> IPv4Address \<Rightarrow> WinTunDriver \<Rightarrow> 'w \<Rightarrow> (WinTunDriver \<times> 'w) option" where
  "WinTunDriver_create_adapter_ipv4_of wt a_name a_desc address d w = do {
     _ \<leftarrow> proc d ''WintunCreateAdapter'';
     let (adapter, w) = create_loop wt a_name a_desc 20 None w;
     adapter \<leftarrow> adapter;
     luid \<leftarrow> wt_adapter_luid wt adapter w;
     let routeRow = (init_ip_forward_entry wt)\<lparr> row_luid := luid \<rparr>;
     let (code, prefix) = ConvertIpv4StringToPrefix (inet_pton4 wt) (Some ''0.0.0.0/0'') (Some (DestinationPrefix routeRow));
     prefix \<leftarrow> prefix;
     let routeRow = routeRow\<lparr> DestinationPrefix := prefix, hop_family := AF_INET \<rparr>;
     let routeRow = (case inet_pton4 wt (IPv4Address_to_string address) of
         None \<Rightarrow> routeRow | Some addr \<Rightarrow> routeRow\<lparr> hop_addr := addr \<rparr>);
     let routeRow = routeRow\<lparr> row_metric := 0, row_protocol := MIB_IPPROTO_NETMGMT \<rparr>;
     let (dwRet, w) = create_ip_forward_entry wt routeRow w;
     luid \<leftarrow> wt_adapter_luid wt adapter w;
     let adapter_data = (init_ip_interface_entry wt)
       \<lparr> ifc_family := AF_INET, ifc_luid := luid, ifc_metric := 0, UseAutomaticMetric := False, SitePrefixLength := 0 \<rparr>;
     let (lastError, w) = set_ip_interface_entry wt adapter_data w;
     luid \<leftarrow> wt_adapter_luid wt adapter w;
     let addressRow = (init_unicast_entry wt)
       \<lparr> uni_family := AF_INET, uni_addr := htonl (IPv4Address_to_uint address), uni_luid := luid,
         OnLinkPrefixLength := 10, DadState := IpDadStatePreferred \<rparr>;
     let (lastError, w) = create_unicast_entry wt addressRow w;
     Some (d\<lparr> wtd_adapter := Adapter_of_addr_handle a_name a_desc address adapter \<rparr>, w) }"

definition WinTunDriver_create_adapter_ipv4 :: "'w wintun \<Rightarrow> WinTunDriver \<Rightarrow> 'w \<Rightarrow> (WinTunDriver \<times> 'w) option" where
  "WinTunDriver_create_adapter_ipv4 wt d w =
     WinTunDriver_create_adapter_ipv4_of wt ''QVPN Adapter'' ''Quiet and fast'' (IPv4Address 100 64 0 0) d w"

definition WinTunDriver_capture_adapter :: "'w wintun \<Rightarrow> WinTunDriver \<Rightarrow> 'w \<Rightarrow> (WinTunDriver \<times> 'w) option" where
  "WinTunDriver_capture_adapter wt d w = do {
     _ \<leftarrow> proc d ''WintunStartSession'';
     handle \<leftarrow> Adapter_get_handle (wtd_adapter d);
     let (session, w) = wt_start_session wt handle 0x400000 w;
     Some (d\<lparr> wtd_session := Some session \<rparr>, w) }"

definition WinTunDriver_get_ipv4_adapter :: "WinTunDriver \<Rightarrow> Adapter" where
  "WinTunDriver_get_ipv4_adapter d = wtd_adapter d"

text \<open>Nothing closes an adapter, and the list of adapters is a null pointer.\<close>

definition WinTunDriver_close_adapter :: "WinTunDriver \<Rightarrow> WinTunDriver" where "WinTunDriver_close_adapter d = d"
definition WinTunDriver_close_all_adapters :: "WinTunDriver \<Rightarrow> WinTunDriver" where "WinTunDriver_close_all_adapters d = d"
definition WinTunDriver_capture_main_adapter :: "WinTunDriver \<Rightarrow> WinTunDriver" where "WinTunDriver_capture_main_adapter d = d"
definition WinTunDriver_get_adapters_list :: "Adapter list option" where "WinTunDriver_get_adapters_list = None"

text \<open>The loop over received packets.  It makes a packet of each, which reads past the end of a short one (\<open>Some None\<close>), and
  ends with the first error other than the lack of packets; the outer \<open>None\<close> when it never ends.\<close>

partial_function (option) WinTunDriver_main_adapter_loop_handler :: "'w wintun \<Rightarrow> nat \<Rightarrow> 'w \<Rightarrow> 'w option option" where
  "WinTunDriver_main_adapter_loop_handler wt session w = (case wt_receive_packet wt session w of
     (Some packet, w) \<Rightarrow>
       if Ipv4PacketLE_of_range packet 0 (length packet) = None then Some None
       else WinTunDriver_main_adapter_loop_handler wt session (wt_release_packet wt session w)
   | (None, w) \<Rightarrow>
       if wt_last_error wt w = ERROR_NO_MORE_ITEMS then WinTunDriver_main_adapter_loop_handler wt session (wt_wait wt session w)
       else Some (Some w))"

section \<open>What the Wintun driver does\<close>

lemma atoi_dec_byte: "atoi (dec_byte b) = int (unat b)"
proof -
  obtain c cs where c: "dec_byte b = c # cs" using dec_byte_digits(2) [of b] by (cases "dec_byte b") auto
  have d: "list_all is_digit (c # cs)" using dec_byte_digits(1) [of b] c by simp
  then have "takeWhile is_digit (c # cs) = c # cs" by (simp add: takeWhile_eq_all_conv list_all_iff)
  moreover have "\<not> is_space c" "c \<noteq> CHR ''-''" "c \<noteq> CHR ''+''" using d digit_not_sign [of c] by auto
  ultimately show ?thesis using digits_value_dec_byte [of b] c by (simp add: atoi_def del: digits_value_dec_byte)
qed

text \<open>The usual notation is understood; but so are texts that name no length, or one with more characters behind it.\<close>

lemma prefix_understood:
  assumes "CHR ''/'' \<notin> set ip" "pton ip = Some addr" "unat b \<le> 32" "length ip \<le> 59"
  shows "ConvertIpv4StringToPrefix pton (Some (ip @ ''/'' @ dec_byte b)) (Some p) =
    (NO_ERROR, Some (p\<lparr> prefix_family := AF_INET, prefix_addr := addr, PrefixLength := b \<rparr>))"
proof -
  have "length (dec_byte b) \<le> 3" by (simp add: dec_byte_def Let_def)
  then have "take 63 (ip @ CHR ''/'' # dec_byte b) = ip @ CHR ''/'' # dec_byte b" using assms(4) by simp
  moreover have "takeWhile (\<lambda>c. c \<noteq> CHR ''/'') (ip @ CHR ''/'' # dec_byte b) = ip"
    using assms(1) by (simp add: takeWhile_append takeWhile_eq_all_conv)
  moreover have "\<not> 32 < uint b" using assms(3) uint_nat [of b] by linarith
  ultimately show ?thesis
    using assms(2) by (simp add: ConvertIpv4StringToPrefix_def Let_def atoi_dec_byte)
qed

lemma prefix_length_unchecked:
  assumes "pton ''10.0.0.0'' = Some addr"
  shows "ConvertIpv4StringToPrefix pton (Some ''10.0.0.0/'') (Some p) =
      (NO_ERROR, Some (p\<lparr> prefix_family := AF_INET, prefix_addr := addr, PrefixLength := 0 \<rparr>))"
    "ConvertIpv4StringToPrefix pton (Some ''10.0.0.0/8 or so'') (Some p) =
      (NO_ERROR, Some (p\<lparr> prefix_family := AF_INET, prefix_addr := addr, PrefixLength := 8 \<rparr>))"
  using assms by (simp_all add: ConvertIpv4StringToPrefix_def Let_def atoi_def is_space_def is_digit_def digits_value_def)

text \<open>After twenty failures the null pointer is used as an adapter.\<close>

lemma create_loop_fails:
  assumes "\<And>w. fst (wt_create_adapter wt name desc w) = 0"
  shows "fst (create_loop wt name desc (Suc n) adapter w) = Some 0"
proof (induction n arbitrary: adapter w)
  case 0
  show ?case using assms [of w] by (cases "wt_create_adapter wt name desc w") simp
next
  case (Suc n)
  then show ?case using assms [of w] by (cases "wt_create_adapter wt name desc w") simp
qed

lemma adapter_not_created:
  assumes "\<And>w. fst (wt_create_adapter wt name desc w) = 0" "\<And>w. wt_adapter_luid wt 0 w = None"
  shows "WinTunDriver_create_adapter_ipv4_of wt name desc address d w = None"
  using create_loop_fails [of wt name desc 19 None w, OF assms(1)] assms(2)
  by (auto simp: WinTunDriver_create_adapter_ipv4_of_def eval_nat_numeral split: prod.split Option.bind_splits
      simp del: create_loop.simps)

text \<open>The destructor uses the session, which only \<open>capture_adapter\<close> sets.\<close>

lemma wintun_new_session: "wtd_session (fst (WinTunDriver_new wt w)) = None"
  by (simp add: WinTunDriver_new_def WinTunDriver_init_wintun_def split: prod.split)

lemma wintun_delete_without_session: "wtd_session d = None \<Longrightarrow> WinTunDriver_delete wt d w = None"
  by (simp add: WinTunDriver_delete_def proc_def)

lemma create_adapter_session:
  "WinTunDriver_create_adapter_ipv4_of wt name desc address d w = Some (d', w') \<Longrightarrow>
   wtd_session d' = wtd_session d \<and> wtd_procs d' = wtd_procs d"
  by (auto simp: WinTunDriver_create_adapter_ipv4_of_def Let_def case_prod_unfold bind_eq_Some_conv)

lemma wintun_delete_after_capture:
  assumes "WinTunDriver_capture_adapter wt d w = Some (d', w')" "''WintunEndSession'' \<in> set (wtd_procs d)"
  shows "\<exists>s. wtd_session d' = Some s \<and> WinTunDriver_delete wt d' w'' = Some (wt_end_session wt s w'')"
  using assms by (auto simp: WinTunDriver_capture_adapter_def WinTunDriver_delete_def proc_def
      split: Option.bind_splits prod.splits if_splits)

text \<open>Every packet is taken for IPv4: one of IPv6 without traffic class is read before its start.\<close>

lemma ipv6_packet_undefined:
  assumes "wt_receive_packet wt session w = (Some (0x60 # packet), w')"
  shows "WinTunDriver_main_adapter_loop_handler wt session w = Some None"
proof -
  have "Ipv4PacketLE_of_range (0x60 # packet) 0 (length (0x60 # packet)) = None"
    by (auto simp: Ipv4PacketLE_of_range_def Ipv4PacketLE_parse_packet_def Ipv4PacketLE_get_ip_header_length_def rd_range_def
        rd_def lo_nibble_def default_ip_bytes_def default_ip_quart_size_def bytes_in_quartet_def
        split: Option.bind_splits)
  then show ?thesis using assms by (subst WinTunDriver_main_adapter_loop_handler.simps) simp
qed

end
