(* ===== verification/Applications.thy ===== *)
theory Applications
  imports Adapters Database FriendlyView
begin

text \<open>The two applications from the start to the end of \<open>main\<close> (\<open>QVPN Client App/src/main.cpp\<close>, \<open>QVPN Server App/src/main.cpp\<close>)
  and the classes they are made of: \<open>VPNClient\<close> and \<open>VPNServer_\<close> of \<open>qvpn_driver.hpp\<close>.  The command line is the settings
  file it names; waiting for a key and setting the mode of the console do nothing.  The rounds of the threads that the applications start are the subject
  of \<open>ClientCapture\<close> and \<open>ServerDriver\<close>: here a thread opens its driver when it is started.\<close>

section \<open>The client\<close>

text \<open>How an application ends: an exception leaves \<open>main\<close>, the library calls \<open>std::terminate\<close>, or \<open>main\<close> returns.\<close>

datatype app_exit = Uncaught std_exception | Terminated | Returned int

text \<open>\<open>QVPNClientSettings settings{}\<close> is filled with zeros; \<open>NetAddr\<close> has a constructor of its own.\<close>

definition QVPNClientSettings_new :: QVPNClientSettings where
  "QVPNClientSettings_new =
     \<lparr> cset_connection = \<lparr> ce_addr = NetAddr_default, ce_port = 0, ce_t_proto = 0, ce_mode = QVPNClientWorkMode_CLIENT_VPN \<rparr>,
       cset_crypto = \<lparr> ccs_key = [], ccs_crypto_method = QVPN_Crypto_NO_CRYPTO \<rparr>, cset_auth = [], cset_whitelists = [] \<rparr>"

text \<open>The constructor of the client driver prints the settings, whose text may be undefined.\<close>

definition QVPNClientDriver_of :: "QVPNVerboser \<Rightarrow> QVPNClientSettings \<Rightarrow> QVPNLayersSettings \<Rightarrow> QVPNDriver option" where
  "QVPNClientDriver_of vb s layers = do {
     info \<leftarrow> QVPNClientSettings_get_client_settings_info vb layers (cset_connection s) (cset_crypto s) (cset_auth s);
     Some \<lparr> packet_manager = QVPNPacketManager_new, drv_layers = layers \<rparr> }"

text \<open>The constructor of the capture driver leaves the handles and the adapter as \<open>memory\<close> has them.\<close>

definition WinDivertClient_of :: "WinDivertClient \<Rightarrow> QVPNDriver \<Rightarrow> WinDivertClient" where
  "WinDivertClient_of memory driver = memory\<lparr> filters_out := [], filters_in := [], outgoing_filters_data := [],
     incoming_filters_data := [], wdc_driver := driver, speed_meter := QVPNSpeedMeter_new \<rparr>"

text \<open>The client: its two base classes, and whether the two \<open>std::thread\<close> members hold a thread.\<close>

record VPNClient =
  vc_adapter_driver :: WinTunDriver
  vc_net_driver :: WinDivertClient
  vc_default_addr :: IPv4Address
  out_worker :: bool
  in_worker :: bool

definition VPNClient_of ::
    "'w wintun \<Rightarrow> QVPNVerboser \<Rightarrow> WinDivertClient \<Rightarrow> QVPNClientSettings \<Rightarrow> QVPNLayersSettings \<Rightarrow> 'w \<Rightarrow> (VPNClient \<times> 'w) option" where
  "VPNClient_of wt vb memory s layers w = (case WinTunDriver_new wt w of (adapter_driver, w) \<Rightarrow> do {
     driver \<leftarrow> QVPNClientDriver_of vb s layers;
     Some (\<lparr> vc_adapter_driver = adapter_driver, vc_net_driver = WinDivertClient_of memory driver,
       vc_default_addr = IPv4Address 192 168 50 193, out_worker = False, in_worker = False \<rparr>, w) })"

text \<open>The address is parsed and not used; the result is what was sent and whether it was.\<close>

definition VPNClient_init_vpn :: "client_env \<Rightarrow> (std_exception + (bytes \<times> bool) option) option" where
  "VPNClient_init_vpn env =
     and_then (IPv4Address_of_string ''0.0.0.0'') (\<lambda>addr. map_option Inr (WinDivertClient_init_driver env))"

text \<open>Starting gives a thread to each of the two members, after the calls that may throw.\<close>

definition VPNClient_start_vpn_client ::
    "('w, 'a) windivert \<Rightarrow> client_env \<Rightarrow> VPNClient \<Rightarrow> 'w \<Rightarrow> (std_exception + VPNClient \<times> 'w) option" where
  "VPNClient_start_vpn_client wd env vc w = and_then (IPv4Address_of_string ''0.0.0.0'') (\<lambda>addr.
     case WinDivertClient_start_capture_outgoing_traffic wd env 0 (vc_net_driver vc) w of
       Inl ex \<Rightarrow> Some (Inl ex)
     | Inr (_, c, w) \<Rightarrow>
         let vc = vc\<lparr> vc_net_driver := c, out_worker := True \<rparr>
         in (case WinDivertClient_start_capture_incoming_traffic wd env (vc_net_driver vc) w of
               Inl ex \<Rightarrow> Some (Inl ex)
             | Inr (_, c, w) \<Rightarrow> Some (Inr (vc\<lparr> vc_net_driver := c, in_worker := True \<rparr>, w))))"

text \<open>The end of the client: the members go first, where the destructor of a \<open>std::thread\<close> that holds a thread terminates the
  program, and then the Wintun driver.\<close>

definition VPNClient_delete :: "'w wintun \<Rightarrow> VPNClient \<Rightarrow> 'w \<Rightarrow> (app_exit option \<times> 'w) option" where
  "VPNClient_delete wt vc w =
     (if in_worker vc \<or> out_worker vc then Some (Some Terminated, w)
      else map_option (\<lambda>w. (None, w)) (WinTunDriver_delete wt (vc_adapter_driver vc) w))"

definition app_filter :: WinDivertTrafficFilterType where
  "app_filter = WinDivertTrafficFilterType_and WinDivertTrafficFilter_ipv4 WinDivertTrafficFilter_tcp"

definition client_main ::
    "'w wintun \<Rightarrow> ('w, 'a) windivert \<Rightarrow> QVPNVerboser \<Rightarrow> client_env \<Rightarrow> WinDivertClient \<Rightarrow> client_json option \<Rightarrow> 'w \<Rightarrow>
     (app_exit \<times> 'w) option" where
  "client_main wt wd vb env memory file w = (case QVPNClientSettings_parse_settings QVPNClientSettings_new file of
     Inl ex \<Rightarrow> Some (Uncaught ex, w)
   | Inr s \<Rightarrow> do {
       let layers = QVPNLayersSettings_apply_strategy [] DefaultLayersStrategy_get_layers;
       let env = env\<lparr> env_settings := s \<rparr>;
       (vpn_client, w) \<leftarrow> VPNClient_of wt vb memory s layers w;
       init \<leftarrow> VPNClient_init_vpn env;
       case init of
         Inl ex \<Rightarrow> Some (Uncaught ex, w)
       | Inr _ \<Rightarrow> do {
           let c = WinDivertClient_add_outgoing_traffic_filter app_filter (vc_net_driver vpn_client);
           let c = WinDivertClient_add_incoming_traffic_filter app_filter c;
           started \<leftarrow> VPNClient_start_vpn_client wd env (vpn_client\<lparr> vc_net_driver := c \<rparr>) w;
           case started of
             Inl ex \<Rightarrow> Some (Uncaught ex, w)
           | Inr (vpn_client, w) \<Rightarrow> do {
               (ending, w) \<leftarrow> VPNClient_delete wt vpn_client w;
               Some (case ending of None \<Rightarrow> Returned 0 | Some e \<Rightarrow> e, w) } } })"

section \<open>The server\<close>

definition QVPNServerSettings_new :: QVPNServerSettings where
  "QVPNServerSettings_new = \<lparr> sset_connection = [], sset_crypto = [],
     sset_database = \<lparr> db_host = [], db_user = [], db_password = [], db_name = [], db_port = 0 \<rparr> \<rparr>"

text \<open>The constructor of the server driver prints the settings and opens a socket for every address.\<close>

definition QVPNServerDriver_of ::
    "'w sys \<Rightarrow> QVPNVerboser \<Rightarrow> QVPNServerSettings \<Rightarrow> QVPNLayersSettings \<Rightarrow> 'w \<Rightarrow> (QVPN_Socket list \<times> 'w) option" where
  "QVPNServerDriver_of sys vb s layers w = do {
     info \<leftarrow> QVPNServerSettings_get_server_settings_info vb layers (sset_crypto s) (sset_connection s);
     QVPNServerDriver_open_sockets sys (QVPNServerConnectionSettings_get_addrs (sset_connection s)) w }"

text \<open>\<open>init\<close> starts a detached thread for every socket, and one for the replies.  The result of \<open>main\<close> has the sockets that
  are listened on.  At the end the two adapters and the database close the same handle, in this order.\<close>

definition server_main ::
    "'w sys \<Rightarrow> 'w sqlite \<Rightarrow> QVPNVerboser \<Rightarrow> server_json option \<Rightarrow> 'w \<Rightarrow> (app_exit \<times> QVPN_Socket list \<times> 'w) option" where
  "server_main sys sq vb file w = (case QVPNServerSettings_parse_settings QVPNServerSettings_new file of
     Inl ex \<Rightarrow> Some (Uncaught ex, [], w)
   | Inr s \<Rightarrow> do {
       let layers = QVPNLayersSettings_apply_strategy [] DefaultLayersStrategy_get_layers;
       let (database, w) = SQLiteDatabase_of sq (text_of (QVPNDatabaseSettings_get_db_host (sset_database s))) w;
       let db_adapter = ServerDatabaseAdapter_of database;
       let stats_adapter = ServerStatsAdatper_of database;
       (vpn_sockets, w) \<leftarrow> QVPNServerDriver_of sys vb s layers w;
       let w = SQLiteDatabase_delete sq stats_adapter w;
       let w = SQLiteDatabase_delete sq db_adapter w;
       let w = SQLiteDatabase_delete sq database w;
       Some (Returned 0, vpn_sockets, w) })"

section \<open>How the applications run\<close>

lemma capture_starts:
  assumes "length (QVPNClientDriver_get_vpn_address (env_settings env)) = 4"
  defines "vpn \<equiv> NetAddr_to_string (QVPNClientDriver_get_vpn_address (env_settings env))"
  shows "[] \<notin> set (filters_out c) \<Longrightarrow> \<exists>b c'. WinDivertClient_start_capture_outgoing_traffic wd env i c w = Inr (b, c',
      snd (wd_open wd (conjunction_text (filters_out c @ [''ip.SrcAddr != '' @ vpn, ''outbound'', ''tcp.DstPort != 22'',
        ''!loopback'', ''ip.DstAddr = 195.82.146.78'', ''tcp.DstPort = 8080''])) w)) \<and> filters_in c' = filters_in c"
    "[] \<notin> set (filters_in c) \<Longrightarrow> \<exists>b c'. WinDivertClient_start_capture_incoming_traffic wd env c w = Inr (b, c',
      snd (wd_open wd (conjunction_text (filters_in c @ [''inbound'', ''ip.SrcAddr = '' @ vpn, ''tcp.SrcPort != 22'',
        ''!loopback'', ''ip.SrcAddr = 195.82.146.78''])) w))"
proof -
  note texts = default_capture_filters [OF assms(1), folded vpn_def]
  show "[] \<notin> set (filters_out c) \<Longrightarrow> \<exists>b c'. WinDivertClient_start_capture_outgoing_traffic wd env i c w = Inr (b, c',
      snd (wd_open wd (conjunction_text (filters_out c @ [''ip.SrcAddr != '' @ vpn, ''outbound'', ''tcp.DstPort != 22'',
        ''!loopback'', ''ip.DstAddr = 195.82.146.78'', ''tcp.DstPort = 8080''])) w)) \<and> filters_in c' = filters_in c"
    using texts [of "c\<lparr> filters_in := [] \<rparr>"]
    by (simp add: WinDivertClient_start_capture_outgoing_traffic_def WinDivertClient_apply_default_outgoing_filter_def
        test_site_value WinDivertClient_calculate_outgoing_filters_def Let_def split: prod.split)
  show "[] \<notin> set (filters_in c) \<Longrightarrow> \<exists>b c'. WinDivertClient_start_capture_incoming_traffic wd env c w = Inr (b, c',
      snd (wd_open wd (conjunction_text (filters_in c @ [''inbound'', ''ip.SrcAddr = '' @ vpn, ''tcp.SrcPort != 22'',
        ''!loopback'', ''ip.SrcAddr = 195.82.146.78''])) w))"
    using texts [of "c\<lparr> filters_out := [] \<rparr>"]
    by (simp add: WinDivertClient_start_capture_incoming_traffic_def WinDivertClient_apply_default_incoming_filter_def
        test_site_value WinDivertClient_calculate_incoming_filters_def Let_def split: prod.split)
qed

lemma app_filter_text: "app_filter = ''ip and tcp''"
  by (simp add: app_filter_def WinDivertTrafficFilterType_and_def WinDivertTrafficFilter_ipv4_def
      WinDivertTrafficFilter_tcp_def WinDivertTrafficFilterType_of_def)

lemma any_address_text: "IPv4Address_of_string ''0.0.0.0'' = Some (Inr (IPv4Address 0 0 0 0))"
  by code_simp

text \<open>The mode of the settings file is not stored, so that the mode of the client is that of VPN, whose name is in the table.\<close>

lemma parsed_mode:
  "QVPNClientSettings_parse_settings QVPNClientSettings_new file = Inr s \<Longrightarrow> ce_mode (cset_connection s) = 0"
  by (auto simp: QVPNClientSettings_parse_settings_def QVPNClientSettings_new_def QVPNClientWorkMode_CLIENT_VPN_def
      QVPNClientConnectionSettings_set_ip_address_def QVPNConnectionEntity_set_ip_address_def
      QVPNClientConnectionSettings_set_port_def QVPNConnectionEntity_set_port_def
      QVPNClientConnectionSettings_set_transport_proto_def QVPNConnectionEntity_set_transport_proto_def
      Let_def map_sum_def split: option.splits sum.splits)

lemma client_driver_outcome:
  "ce_mode (cset_connection s) = 0 \<Longrightarrow> QVPNClientDriver_of vb s layers =
    (if ccs_crypto_method (cset_crypto s) = 0 then Some \<lparr> packet_manager = QVPNPacketManager_new, drv_layers = layers \<rparr> else None)"
  by (auto simp: QVPNClientDriver_of_def QVPNClientSettings_get_client_settings_info_def rd_def unat_eq_zero
      QVPNClientConnectionSettings_get_connection_info_def QVPNConnectionEntity_get_work_mode_def client_work_modes_def
      QVPNVerboser_client_mode_verbose_def QVPNClientCryptoSettings_get_crypto_info_def crypto_modes_def
      QVPNVerboser_crypto_mode_verbose_def QVPNClientCryptoSettings_get_crypto_method_def Let_def)

lemma init_vpn_outcome:
  "VPNClient_init_vpn env = map_option Inr (WinDivertClient_init_driver env)"
  by (simp add: VPNClient_init_vpn_def any_address_text and_then_def)

text \<open>The texts with which the client opens WinDivert, for the address of the server.\<close>

definition outgoing_text :: "string \<Rightarrow> string" where
  "outgoing_text vpn = ''ip and tcp and ip.SrcAddr != '' @ vpn @
     '' and outbound and tcp.DstPort != 22 and !loopback and ip.DstAddr = 195.82.146.78 and tcp.DstPort = 8080''"
definition incoming_text :: "string \<Rightarrow> string" where
  "incoming_text vpn = ''ip and tcp and inbound and ip.SrcAddr = '' @ vpn @
     '' and tcp.SrcPort != 22 and !loopback and ip.SrcAddr = 195.82.146.78''"

text \<open>Starting opens WinDivert twice and leaves the client with two threads.\<close>

lemma start_vpn_client:
  assumes "length (QVPNClientDriver_get_vpn_address (env_settings env)) = 4"
    and "filters_out (vc_net_driver vc) = [app_filter]" "filters_in (vc_net_driver vc) = [app_filter]"
  defines "vpn \<equiv> NetAddr_to_string (QVPNClientDriver_get_vpn_address (env_settings env))"
  shows "\<exists>vc'. VPNClient_start_vpn_client wd env vc w = Some (Inr (vc',
      snd (wd_open wd (incoming_text vpn) (snd (wd_open wd (outgoing_text vpn) w))))) \<and> in_worker vc'"
proof -
  let ?w = "snd (wd_open wd (outgoing_text vpn) w)"
  have texts: "conjunction_text ([app_filter] @ [''ip.SrcAddr != '' @ vpn, ''outbound'', ''tcp.DstPort != 22'', ''!loopback'',
        ''ip.DstAddr = 195.82.146.78'', ''tcp.DstPort = 8080'']) = outgoing_text vpn"
    "conjunction_text ([app_filter] @ [''inbound'', ''ip.SrcAddr = '' @ vpn, ''tcp.SrcPort != 22'', ''!loopback'',
        ''ip.SrcAddr = 195.82.146.78'']) = incoming_text vpn"
    by (simp_all add: app_filter_text conjunction_text_def outgoing_text_def incoming_text_def)
  have "[] \<notin> set [app_filter]" by (simp add: app_filter_text)
  then obtain b c where c: "WinDivertClient_start_capture_outgoing_traffic wd env 0 (vc_net_driver vc) w = Inr (b, c, ?w)"
      "filters_in c = [app_filter]"
    using capture_starts(1) [OF assms(1), of "vc_net_driver vc" wd 0 w, folded vpn_def] assms(2,3) by (auto simp only: texts)
  then obtain b' c' where "WinDivertClient_start_capture_incoming_traffic wd env c ?w =
      Inr (b', c', snd (wd_open wd (incoming_text vpn) ?w))"
    using capture_starts(2) [OF assms(1), of c wd ?w, folded vpn_def] \<open>[] \<notin> set [app_filter]\<close> by (auto simp only: texts)
  then show ?thesis
    using c(1) by (simp add: VPNClient_start_vpn_client_def any_address_text and_then_def)
qed

text \<open>The server names its crypto methods when it starts; the only one with a name is the absence of one.  Otherwise it listens
  on the addresses of its file, and closes the handle of its database three times at the end.\<close>

lemma crypto_lines_outcome: "crypto_lines cs = None \<longleftrightarrow> (\<exists>c\<in>set cs. c \<noteq> QVPN_Crypto_NO_CRYPTO)"
  by (induction cs) (auto simp: QVPNVerboser_crypto_mode_verbose_def rd_def crypto_modes_def QVPN_Crypto_NO_CRYPTO_def
      unat_eq_zero)

lemma server_application_outcome:
  assumes "QVPNServerSettings_parse_settings QVPNServerSettings_new file = Inr s"
  shows "(\<exists>c\<in>set (sset_crypto s). c \<noteq> QVPN_Crypto_NO_CRYPTO) \<Longrightarrow> server_main sys sq vb file w = None"
    "\<forall>c\<in>set (sset_crypto s). c = QVPN_Crypto_NO_CRYPTO \<Longrightarrow>
      sqlite3_open sq (c_str (text_of (db_host (sset_database s)))) w = (db, w') \<Longrightarrow>
      server_main sys sq vb file w = map_option (\<lambda>(socks, w). (Returned 0, socks, (sqlite3_close sq db ^^ 3) w))
        (QVPNServerDriver_open_sockets sys (sset_connection s) w')"
  using crypto_lines_outcome [of "sset_crypto s"]
  by (auto simp: server_main_def assms QVPNServerDriver_of_def QVPNServerSettings_get_server_settings_info_def
      QVPNServerCryptoSettings_get_supported_crypto_info_def SQLiteDatabase_of_def SQLiteDatabase_delete_def Let_def
      QVPNDatabaseSettings_get_db_host_def QVPNServerConnectionSettings_get_addrs_def ServerDatabaseAdapter_of_def
      ServerStatsAdatper_of_def eval_nat_numeral map_option_case split: prod.splits option.splits Option.bind_splits)

definition sample_file :: client_json where
  "sample_file = \<lparr> cj_addr_type = 4, cj_addr = ''127.0.0.1'', cj_port = 5151, cj_proto = 6, cj_mode = 0, cj_crypto_method = 0,
     cj_key = [], cj_auth_data = [117], cj_whitelists = [] \<rparr>"

text \<open>A machine without Wintun and without network.\<close>

definition sample_wintun :: "string list wintun" where
  "sample_wintun = \<lparr> wt_load_library = \<lambda>w. (0, w), wt_proc = \<lambda>_. False, wt_free_library = \<lambda>_ w. w, wt_last_error = \<lambda>_. 126,
     wt_create_adapter = \<lambda>_ _ w. (0, w), wt_adapter_luid = \<lambda>_ _. None, wt_start_session = \<lambda>_ _ w. (0, w),
     wt_end_session = \<lambda>_ w. w, wt_receive_packet = \<lambda>_ w. (None, w), wt_release_packet = \<lambda>_ w. w, wt_wait = \<lambda>_ w. w,
     inet_pton4 = \<lambda>_. None, create_ip_forward_entry = \<lambda>_ w. (0, w), set_ip_interface_entry = \<lambda>_ w. (0, w),
     create_unicast_entry = \<lambda>_ w. (0, w),
     init_ip_forward_entry = \<lparr> row_luid = 0, DestinationPrefix = \<lparr> prefix_family = 0, prefix_addr = [], PrefixLength = 0 \<rparr>,
       hop_family = 0, hop_addr = [], row_metric = 0, row_protocol = 0 \<rparr>,
     init_ip_interface_entry = \<lparr> ifc_family = 0, ifc_luid = 0, ifc_metric = 0, UseAutomaticMetric = True, SitePrefixLength = 0 \<rparr>,
     init_unicast_entry = \<lparr> uni_family = 0, uni_addr = 0, uni_luid = 0, OnLinkPrefixLength = 0, DadState = 0 \<rparr> \<rparr>"

text \<open>A WinDivert that notes the texts it is opened with.\<close>

definition noting_windivert :: "(string list, unit) windivert" where
  "noting_windivert = \<lparr> wd_open = \<lambda>f w. (1, w @ [f]), wd_recv = \<lambda>_ _ w. (None, w), wd_send = \<lambda>_ _ _ w. (True, w),
     wd_calc_checksums = \<lambda>p a. (p, a), wd_close = \<lambda>_ w. (True, w) \<rparr>"

definition offline_env :: client_env where
  "offline_env = sample_env\<lparr> env_connect := \<lambda>_ _. \<lparr> ns_success = False, ns_status = 1 \<rparr>,
     env_reconnect := \<lambda>_ _ _. \<lparr> ns_success = False, ns_status = 1 \<rparr> \<rparr>"

lemma offline_init: "WinDivertClient_init_driver (offline_env\<lparr> env_settings := s \<rparr>) = Some None"
proof -
  have "\<not> fst (try_reconnect_loop (\<lambda>k. \<lparr> ns_success = False, ns_status = 1 \<rparr>) k n False)" for k n
    by (induction "nat n" arbitrary: k n) (subst try_reconnect_loop.simps; simp)+
  moreover have "env_try_reconnect (offline_env\<lparr> env_settings := s \<rparr>) = (\<lambda>k. \<lparr> ns_success = False, ns_status = 1 \<rparr>)"
    by (rule ext) (simp add: env_try_reconnect_def QVPNClientDriver_reconnect_def offline_env_def)
  ultimately show ?thesis
    by (simp add: WinDivertClient_init_driver_def QVPNClientDriver_try_reconnect_def)
      (simp add: offline_env_def QVPNClientDriver_connect_def)
qed

lemma sample_file_parsed:
  "\<exists>s. QVPNClientSettings_parse_settings QVPNClientSettings_new (Some sample_file) = Inr s \<and>
    QVPNClientDriver_get_vpn_address s = [127, 0, 0, 1] \<and> ccs_crypto_method (cset_crypto s) = 0"
proof -
  have "parse_net_addr ''127.0.0.1'' = Inr [127, 0, 0, 1]" by code_simp
  then show ?thesis
    by (simp add: QVPNClientSettings_parse_settings_def sample_file_def QVPNClientConnectionSettings_set_ip_address_def
        QVPNConnectionEntity_set_ip_address_def QVPNClientConnectionSettings_set_port_def QVPNConnectionEntity_set_port_def
        QVPNClientConnectionSettings_set_transport_proto_def QVPNConnectionEntity_set_transport_proto_def
        QVPNClientDriver_get_vpn_address_def QVPNClientConnectionSettings_get_ip_address_def
        QVPNConnectionEntity_get_ip_address_def QVPNClientCryptoSettings_set_crypto_method_def
        QVPNClientCryptoSettings_set_key_def Let_def)
qed

section \<open>Properties\<close>

text \<open>C30: a run of the client application. A settings file whose crypto method is not the only one that has a name makes the
  client read behind a table when it starts. With any other file that can be read the client loads Wintun, connects, and
  opens WinDivert with two texts, in which the filters of the application come before the default ones. But it never
  returns from \<open>main\<close>: when it is asked to end, its threads still hold the loops, and the program is terminated.\<close>

theorem client_application_outcome:
  assumes "QVPNClientSettings_parse_settings QVPNClientSettings_new file = Inr s"
    and "length (QVPNClientDriver_get_vpn_address s) = 4"
  defines "vpn \<equiv> NetAddr_to_string (QVPNClientDriver_get_vpn_address s)"
  shows "(QVPNClientCryptoSettings_get_crypto_method (cset_crypto s) \<noteq> QVPN_Crypto_NO_CRYPTO \<longrightarrow>
      client_main wt wd vb env memory file w = None) \<and>
    (QVPNClientCryptoSettings_get_crypto_method (cset_crypto s) = QVPN_Crypto_NO_CRYPTO \<and>
      WinDivertClient_init_driver (env\<lparr> env_settings := s \<rparr>) \<noteq> None \<longrightarrow>
      client_main wt wd vb env memory file w = Some (Terminated, snd (wd_open wd (incoming_text vpn)
        (snd (wd_open wd (outgoing_text vpn) (snd (WinTunDriver_new wt w)))))))"
proof -
  note driver = client_driver_outcome [OF parsed_mode [OF assms(1)]]
  let ?env = "env\<lparr> env_settings := s \<rparr>"
  have "length (QVPNClientDriver_get_vpn_address (env_settings ?env)) = 4" using assms(2) by simp
  note start = start_vpn_client [OF this, where wd = wd]
  obtain d w' where wt: "WinTunDriver_new wt w = (d, w')" by fastforce
  show ?thesis
    using start [of "\<lparr> vc_adapter_driver = d, vc_net_driver = (WinDivertClient_of memory
          \<lparr> packet_manager = QVPNPacketManager_new,
            drv_layers = QVPNLayersSettings_apply_strategy [] DefaultLayersStrategy_get_layers \<rparr>)
          \<lparr> filters_out := [app_filter], outgoing_filters_data := app_filter, filters_in := [app_filter],
            incoming_filters_data := app_filter \<rparr>,
        vc_default_addr = IPv4Address 192 168 50 193, out_worker = False, in_worker = False \<rparr>" w']
    by (auto simp: client_main_def assms(1) vpn_def VPNClient_of_def wt driver init_vpn_outcome VPNClient_delete_def
        QVPNClientCryptoSettings_get_crypto_method_def QVPN_Crypto_NO_CRYPTO_def WinDivertClient_of_def Let_def
        WinDivertClient_add_outgoing_traffic_filter_def WinDivertClient_add_incoming_traffic_filter_def
        WinDivertClient_calculate_outgoing_filters_def WinDivertClient_calculate_incoming_filters_def
        WinDivertTrafficFilterType_and_def WinDivertTrafficFilterType_of_def app_filter_text)
qed

theorem client_application_outcome_witness:
  "client_main sample_wintun noting_windivert
      \<lparr> vb_net = default_net_names, vb_transport = default_transport_names, vb_options = sample_names, vb_addrs = Map.empty \<rparr>
      offline_env sample_client (Some sample_file) [] =
    Some (Terminated, [outgoing_text ''127.0.0.1'', incoming_text ''127.0.0.1''])"
proof -
  obtain s where s: "QVPNClientSettings_parse_settings QVPNClientSettings_new (Some sample_file) = Inr s"
      "QVPNClientDriver_get_vpn_address s = [127, 0, 0, 1]" "ccs_crypto_method (cset_crypto s) = 0"
    using sample_file_parsed by blast
  have "NetAddr_to_string [127, 0, 0, 1] = ''127.0.0.1''" by code_simp
  then show ?thesis
    using client_application_outcome [OF s(1), of sample_wintun noting_windivert _ offline_env sample_client "[]"] s(2,3)
    by (simp add: offline_init QVPNClientCryptoSettings_get_crypto_method_def QVPN_Crypto_NO_CRYPTO_def noting_windivert_def
        WinTunDriver_new_def WinTunDriver_init_wintun_def sample_wintun_def)
qed

end
