(* ===== verification/ViewRefinement.thy ===== *)
theory ViewRefinement
  imports UdpPacket
begin

text \<open>The two kinds of packet class against each other.  An owning object is what a viewing one shows of its memory: every
  accessor of a view gives what the accessor of the owning class gives for the bytes the view stands on, and every setter
  changes the memory as if the bytes had been taken out, given to the setter of the owning class and put back.  The only
  operations for which this fails are those whose definitions differ in the source: the sizes and the checksum of an IPv4
  header with options, and the replacement of TCP options.\<close>

section \<open>Operations on a part of the memory\<close>

definition reads_slice :: "ptr \<Rightarrow> nat \<Rightarrow> (mem \<Rightarrow> 'a) \<Rightarrow> (bytes \<Rightarrow> 'a) \<Rightarrow> bool" where
  "reads_slice p n view own = (\<forall>m. p + n \<le> length m \<longrightarrow> view m = own (mslice m p n))"

definition writes_slice :: "ptr \<Rightarrow> nat \<Rightarrow> (mem \<Rightarrow> mem option) \<Rightarrow> (bytes \<Rightarrow> bytes option) \<Rightarrow> bool" where
  "writes_slice p n view own = (\<forall>m. p + n \<le> length m \<longrightarrow>
     view m = map_option (overwrite m p) (own (mslice m p n)) \<and>
     (\<forall>h. own (mslice m p n) = Some h \<longrightarrow> length h = n))"

named_theorems slice_simps \<open>reads and writes of a part of the memory\<close>

lemma rd_slice [slice_simps]: "i < n \<Longrightarrow> p + n \<le> length m \<Longrightarrow> rd (mslice m p n) i = rd m (p + i)"
  by (simp add: rd_def mslice_def)

lemma rd16_slice [slice_simps]: "i + 2 \<le> n \<Longrightarrow> p + n \<le> length m \<Longrightarrow> rd16 (mslice m p n) i = rd16 m (p + i)"
  by (simp add: rd16_def rd_slice)

lemma rd32_slice [slice_simps]: "i + 4 \<le> n \<Longrightarrow> p + n \<le> length m \<Longrightarrow> rd32 (mslice m p n) i = rd32 m (p + i)"
  by (simp add: rd32_def rd_slice add.assoc)

lemma rd_range_slice [slice_simps]:
  "e \<le> n \<Longrightarrow> p + n \<le> length m \<Longrightarrow> rd_range (mslice m p n) b e = rd_range m (p + b) (p + e)"
  by (auto simp: rd_range_def mslice_def drop_take add.commute)

lemma overwrite_slice: "p + n \<le> length m \<Longrightarrow> overwrite m p (mslice m p n) = m"
  by (simp add: overwrite_def mslice_def) (metis add.commute append_take_drop_id drop_drop)

lemma mslice_overwrite: "length h = n \<Longrightarrow> p + n \<le> length m \<Longrightarrow> mslice (overwrite m p h) p n = h"
  by (simp add: mslice_def overwrite_def)

lemma overwrite_twice:
  "length h = length k \<Longrightarrow> p + length h \<le> length m \<Longrightarrow> overwrite (overwrite m p h) p k = overwrite m p k"
  by (simp add: overwrite_def)

lemma overwrite_update:
  assumes "i < length h" "p + length h \<le> length m"
  shows "overwrite m p (h[i := x]) = (overwrite m p h)[p + i := x]"
  using assms by (simp add: overwrite_def list_update_append)

lemma overwrite_inner:
  assumes "i + length ys \<le> length h" "p + length h \<le> length m"
  shows "overwrite m p (overwrite h i ys) = overwrite (overwrite m p h) (p + i) ys"
  using assms by (simp add: overwrite_def)

text \<open>Single writes, and writes one after the other.\<close>

lemma writes_wr: "i < n \<Longrightarrow> writes_slice p n (\<lambda>m. wr m (p + i) x) (\<lambda>h. wr h i x)"
  by (auto simp: writes_slice_def wr_def overwrite_update overwrite_slice)

lemma writes_range:
  "i + length ys \<le> n \<Longrightarrow> writes_slice p n (\<lambda>m. wr_range m (p + i) ys) (\<lambda>h. wr_range h i ys)"
  by (auto simp: writes_slice_def wr_range_def overwrite_inner overwrite_slice)

lemma writes_bind:
  assumes "writes_slice p n f f'" "writes_slice p n g g'"
  shows "writes_slice p n (\<lambda>m. f m \<bind> g) (\<lambda>h. f' h \<bind> g')"
  unfolding writes_slice_def
proof (intro allI impI)
  fix m :: mem
  assume m: "p + n \<le> length m"
  show "(f m \<bind> g) = map_option (overwrite m p) (f' (mslice m p n) \<bind> g') \<and>
    (\<forall>h. (f' (mslice m p n) \<bind> g') = Some h \<longrightarrow> length h = n)"
  proof (cases "f' (mslice m p n)")
    case None
    thus ?thesis using assms(1) m by (simp add: writes_slice_def)
  next
    case (Some h)
    hence h: "f m = Some (overwrite m p h)" "length h = n" using assms(1) m by (auto simp: writes_slice_def)
    hence "p + n \<le> length (overwrite m p h)" "mslice (overwrite m p h) p n = h" using m by (simp_all add: mslice_overwrite)
    hence "g (overwrite m p h) = map_option (overwrite (overwrite m p h) p) (g' h) \<and> (\<forall>k. g' h = Some k \<longrightarrow> length k = n)"
      using assms(2) by (auto simp: writes_slice_def)
    thus ?thesis using Some h m by (cases "g' h") (simp_all add: overwrite_twice)
  qed
qed

lemma writes_after_read:
  assumes "reads_slice p n r r'" "\<And>x. writes_slice p n (f x) (f' x)"
  shows "writes_slice p n (\<lambda>m. r m \<bind> (\<lambda>x. f x m)) (\<lambda>h. r' h \<bind> (\<lambda>x. f' x h))"
  using assms by (auto simp: writes_slice_def reads_slice_def split: Option.bind_split)

lemma reads_rd: "i < n \<Longrightarrow> reads_slice p n (\<lambda>m. rd m (p + i)) (\<lambda>h. rd h i)"
  by (simp add: reads_slice_def slice_simps)

lemma writes_wr16: "i + 2 \<le> n \<Longrightarrow> writes_slice p n (\<lambda>m. wr16 m (p + i) x) (\<lambda>h. wr16 h i x)"
  unfolding wr16_def add.assoc by (intro writes_bind writes_wr) simp_all

lemma writes_wr32: "i + 4 \<le> n \<Longrightarrow> writes_slice p n (\<lambda>m. wr32 m (p + i) x) (\<lambda>h. wr32 h i x)"
  unfolding wr32_def add.assoc by (intro writes_bind writes_wr) simp_all

lemmas writes_rules = writes_wr writes_range writes_wr16 writes_wr32 writes_bind writes_after_read reads_rd

section \<open>IPv4 headers\<close>

lemma ip4_view_reads:
  assumes "ip4_header v = p" "20 \<le> n"
  shows "reads_slice p n (Ipv4PacketView_get_ip_version v) Ipv4PacketLE_get_ip_version"
    "reads_slice p n (Ipv4PacketView_get_ip_header_length v) Ipv4PacketLE_get_ip_header_length"
    "reads_slice p n (Ipv4PacketView_get_ip_dscp v) Ipv4PacketLE_get_ip_dscp"
    "reads_slice p n (Ipv4PacketView_get_ip_ecn v) Ipv4PacketLE_get_ip_ecn"
    "reads_slice p n (Ipv4PacketView_get_ip_total_length v) Ipv4PacketLE_get_ip_total_length"
    "reads_slice p n (Ipv4PacketView_get_ip_id v) Ipv4PacketLE_get_ip_id"
    "reads_slice p n (Ipv4PacketView_get_ip_flags v) Ipv4PacketLE_get_ip_flags"
    "reads_slice p n (Ipv4PacketView_get_ip_df_flag v) Ipv4PacketLE_get_ip_df_flag"
    "reads_slice p n (Ipv4PacketView_get_ip_mf_flag v) Ipv4PacketLE_get_ip_mf_flag"
    "reads_slice p n (Ipv4PacketView_get_ip_offset v) Ipv4PacketLE_get_ip_offset"
    "reads_slice p n (Ipv4PacketView_get_ip_ttl v) Ipv4PacketLE_get_ip_ttl"
    "reads_slice p n (Ipv4PacketView_get_ip_protocol v) Ipv4PacketLE_get_ip_protocol"
    "reads_slice p n (Ipv4PacketView_get_ip_checksum v) Ipv4PacketLE_get_ip_checksum"
    "reads_slice p n (Ipv4PacketView_get_ip_source v) Ipv4PacketLE_get_ip_source"
    "reads_slice p n (Ipv4PacketView_get_ip_dest v) Ipv4PacketLE_get_ip_dest"
    "reads_slice p n (Ipv4PacketView_get_src_addr v) Ipv4PacketLE_get_src_addr"
    "reads_slice p n (Ipv4PacketView_get_dst_addr v) Ipv4PacketLE_get_dst_addr"
    "reads_slice p n (Ipv4PacketView_get_protocol_version v) Ipv4PacketLE_get_protocol_version"
    "reads_slice p n (Ipv4PacketView_get_transport_protocol v) Ipv4PacketLE_get_transport_protocol"
  using assms by (simp_all add: reads_slice_def ip4_le_get_defs ip4_view_get_defs slice_simps)

lemma ip4_view_writes:
  assumes "ip4_header v = p" "20 \<le> n" "length a = 4"
  shows "writes_slice p n (\<lambda>m. Ipv4PacketView_set_ip_source v m i) (\<lambda>h. Ipv4PacketLE_set_ip_source h i)"
    "writes_slice p n (\<lambda>m. Ipv4PacketView_set_ip_dest v m i) (\<lambda>h. Ipv4PacketLE_set_ip_dest h i)"
    "writes_slice p n (\<lambda>m. Ipv4PacketView_set_src_addr v m a) (\<lambda>h. Ipv4PacketLE_set_src_addr h a)"
    "writes_slice p n (\<lambda>m. Ipv4PacketView_set_dst_addr v m a) (\<lambda>h. Ipv4PacketLE_set_dst_addr h a)"
    "writes_slice p n (\<lambda>m. Ipv4PacketView_set_ip_total_length v m k) (\<lambda>h. Ipv4PacketLE_set_ip_total_length h k)"
    "writes_slice p n (\<lambda>m. Ipv4PacketView_set_ip_checksum v m k) (\<lambda>h. Ipv4PacketLE_set_ip_checksum h k)"
  unfolding ip4_le_set_defs ip4_view_set_defs assms(1)
  by (rule writes_rules; use assms in \<open>simp add: NetAddr_to_bytes_def\<close>)+

text \<open>The checksum of a header without options.\<close>

lemma ip4_view_recalculates:
  assumes "ip4_header v = p" "ip4_add_header_size v \<le> 0"
  shows "writes_slice p 20 (Ipv4PacketView_recalculate_ip_checksum v) Ipv4PacketLE_recalculate_ip_checksum"
proof -
  have "reads_slice p 20 (\<lambda>m. rd_range m p (p + ip4_header_size) \<bind> (\<lambda>f. sum_words f 0)) (\<lambda>h. sum_words h 0)"
    by (simp add: reads_slice_def rd_range_Some mslice_def ip4_header_size_def)
  hence "writes_slice p 20 (\<lambda>m. Ipv4PacketView_set_ip_checksum v m 0 \<bind>
      (\<lambda>m. (rd_range m p (p + ip4_header_size) \<bind> (\<lambda>f. sum_words f 0)) \<bind> (\<lambda>s. Ipv4PacketView_set_ip_checksum v m (checksum_of s))))
    (\<lambda>h. Ipv4PacketLE_set_ip_checksum h 0 \<bind> (\<lambda>h. sum_words h 0 \<bind> (\<lambda>s. Ipv4PacketLE_set_ip_checksum h (checksum_of s))))"
    using assms(1) by (intro writes_bind writes_after_read ip4_view_writes(6) [where a = "[0, 0, 0, 0]"]) simp_all
  thus ?thesis using assms
    by (simp add: Ipv4PacketView_recalculate_ip_checksum_def [abs_def] Ipv4PacketLE_recalculate_ip_checksum_def [abs_def])
qed

section \<open>TCP headers\<close>

lemma tcp_view_reads:
  assumes "tcp_header v = p" "20 \<le> n"
  shows "reads_slice p n (TcpPacketView_get_tcp_src_port v) TcpPacketLE_get_tcp_src_port"
    "reads_slice p n (TcpPacketView_get_tcp_dst_port v) TcpPacketLE_get_tcp_dst_port"
    "reads_slice p n (TcpPacketView_get_tcp_seq_number v) TcpPacketLE_get_tcp_seq_number"
    "reads_slice p n (TcpPacketView_get_tcp_ack_number v) TcpPacketLE_get_tcp_ack_number"
    "reads_slice p n (TcpPacketView_get_tcp_header_length v) TcpPacketLE_get_tcp_header_length"
    "reads_slice p n (TcpPacketView_get_tcp_flags v) TcpPacketLE_get_tcp_flags"
    "reads_slice p n (TcpPacketView_get_tcp_window_size v) TcpPacketLE_get_tcp_window_size"
    "reads_slice p n (TcpPacketView_get_tcp_checksum v) TcpPacketLE_get_tcp_checksum"
    "reads_slice p n (TcpPacketView_get_tcp_urgent_pointer v) TcpPacketLE_get_tcp_urgent_pointer"
    "reads_slice p n (TcpPacketView_get_src_port v) TcpPacketLE_get_src_port"
    "reads_slice p n (TcpPacketView_get_dst_port v) TcpPacketLE_get_dst_port"
    "reads_slice p n (TcpPacketView_get_transport_length v) TcpPacketLE_get_transport_length"
    "reads_slice p n (TcpPacketView_get_sender_number v) TcpPacketLE_get_sender_number"
    "reads_slice p n (TcpPacketView_get_receiver_number v) TcpPacketLE_get_receiver_number"
    "reads_slice p n (TcpPacketView_get_flags v) TcpPacketLE_get_flags"
    "reads_slice p n (TcpPacketView_is_reset_connection_packet v) TcpPacketLE_is_reset_connection_packet"
  using assms by (simp_all add: reads_slice_def tcp_le_get_defs tcp_view_get_defs slice_simps)

text \<open>The reserved bits are not the same: the view takes the lowest four bits of the byte, the owning class the three above
  the lowest.\<close>

lemma tcp_reserved_differs:
  "tcp_header v + 20 \<le> length m \<Longrightarrow> TcpPacketView_get_tcp_reserved v m = Some (m ! (tcp_header v + 12) AND 0x0F) \<and>
   TcpPacketLE_get_tcp_reserved (mslice m (tcp_header v) 20) = Some (drop_bit 1 (m ! (tcp_header v + 12)) AND 7)"
  by (simp add: TcpPacketView_get_tcp_reserved_def TcpPacketLE_get_tcp_reserved_def lo_nibble_def rd_def mslice_def)

text \<open>Both classes put the NS flag, bit 8 of the flags, on bit 1, so that a segment that carries it seems to carry SYN.\<close>

lemma tcp_ns_read_as_syn:
  assumes "bit x 0"
  shows "TcpFlagsObject_get_syn (tcp_flags_of x y) = 1 \<and> TcpFlagsObject_get_ns (tcp_flags_of x y) = 0"
proof -
  have x: "x AND 1 = 1" using assms by (simp add: and_one_eq mod_2_eq_odd bit_0)
  have y: "\<not> bit y 8" using bit_imp_le_length [of y 8] by auto
  have "bit (2 :: UShort) (Suc 0)" "\<not> bit (2 :: UShort) 8" by simp_all
  thus ?thesis using y
    by (auto simp: tcp_flags_of_def TcpFlagsObject_get_syn_def TcpFlagsObject_get_ns_def x bit_simps intro!: bit_word_eqI)
qed

lemma tcp_view_writes:
  assumes "tcp_header v = p" "20 \<le> n"
  shows "writes_slice p n (\<lambda>m. TcpPacketView_set_tcp_checksum v m k) (\<lambda>h. TcpPacketLE_set_tcp_checksum h k)"
    "writes_slice p n (\<lambda>m. TcpPacketView_set_dst_port v m k) (\<lambda>h. TcpPacketLE_set_dst_port h k)"
    "writes_slice p n (\<lambda>m. TcpPacketView_set_src_port v m k) (\<lambda>h. TcpPacketLE_set_src_port h k)"
    "writes_slice p n (\<lambda>m. TcpPacketView_set_transport_length v m k) (\<lambda>h. TcpPacketLE_set_transport_length h k)"
    "writes_slice p n (\<lambda>m. TcpPacketView_set_transport_checksum v m k) (\<lambda>h. TcpPacketLE_set_transport_checksum h k)"
    "writes_slice p n (\<lambda>m. TcpPacketView_set_tcp_seq_number v m q) (\<lambda>h. TcpPacketLE_set_tcp_seq_number h q)"
    "writes_slice p n (\<lambda>m. TcpPacketView_set_tcp_ack_number v m q) (\<lambda>h. TcpPacketLE_set_tcp_ack_number h q)"
    "writes_slice p n (\<lambda>m. TcpPacketView_set_tcp_flags v m k) (\<lambda>h. TcpPacketLE_set_tcp_flags h k)"
    "writes_slice p n (\<lambda>m. TcpPacketView_set_tcp_offset v m b) (\<lambda>h. TcpPacketLE_set_tcp_offset h b)"
    "writes_slice p n (\<lambda>m. TcpPacketView_set_tcp_window v m k) (\<lambda>h. TcpPacketLE_set_tcp_window h k)"
    "writes_slice p n (\<lambda>m. TcpPacketView_set_tcp_urgent v m k) (\<lambda>h. TcpPacketLE_set_tcp_urgent h k)"
    "writes_slice p n (\<lambda>m. TcpPacketView_set_tcp_length v m b) (\<lambda>h. TcpPacketLE_set_tcp_length h b)"
    "writes_slice p n (\<lambda>m. TcpPacketView_set_sender_number v m q) (\<lambda>h. TcpPacketLE_set_sender_number h q)"
    "writes_slice p n (\<lambda>m. TcpPacketView_set_receiver_number v m q) (\<lambda>h. TcpPacketLE_set_receiver_number h q)"
    "writes_slice p n (\<lambda>m. TcpPacketView_set_flags v m k) (\<lambda>h. TcpPacketLE_set_flags h k)"
  unfolding tcp_le_set_defs tcp_view_set_defs assms(1)
  by (intro writes_rules; use assms in simp)+

text \<open>The checksum of a segment: the options belong to the slice, the data lies behind it and is given to the owning class.\<close>

lemma tcp_view_recalculates:
  assumes "TcpPacketView_valid v m" "TcpPacketView_data_ok v m (b, e)" "even (length pseudo)"
    and p: "p = tcp_header v" and n: "n = 20 + nat (tcp_options_size v)"
  shows "TcpPacketView_recalculate_transport_checksum v m pseudo b e =
    map_option (overwrite m p) (TcpPacketLE_recalculate_transport_checksum (mslice m p n) pseudo (mslice m b (e - b)))"
proof -
  let ?h = "mslice m p n"
  let ?d = "words_sum pseudo + words_sum (mslice m b (e - b))"
  let ?c = "checksum_of (of_nat (words_sum (?h[16 := 0, 17 := 0]) + ?d))"
  have len: "length ?h = n" "p + n \<le> length m" "20 \<le> n" and valid: "TcpPacketLE_valid ?h"
    using assms by (auto simp: TcpPacketView_valid_def TcpPacketLE_valid_def even_nat_iff)
  have "?h[16 := 0, 17 := 0] = (mslice m p 20)[16 := 0, 17 := 0] @ mslice m (p + 20) (n - 20)"
    using len mslice_append [of p 20 m "n - 20"] by (simp add: list_update_append)
  hence "words_sum (?h[16 := 0, 17 := 0]) = words_sum ((mslice m p 20)[16 := 0, 17 := 0]) + words_sum (mslice m (p + 20) (n - 20))"
    using len by (simp add: words_sum_append)
  hence "?c = checksum_of (of_nat (words_sum ((mslice m p 20)[16 := 0, 17 := 0]) +
      (words_sum pseudo + words_sum (mslice m (p + 20) (nat (tcp_options_size v))) + words_sum (mslice m b (e - b)))))"
    using n by (simp add: ac_simps)
  from TcpPacketView_recalculate_eq [OF assms(1-3) refl p this]
  show ?thesis
    using len overwrite_slice [OF len(2)] by (simp add: TcpPacketLE_recalculate_eq [OF valid assms(3) refl] overwrite_update)
qed

section \<open>UDP headers\<close>

lemma udp_view_reads:
  assumes "udp_header v = p" "8 \<le> n"
  shows "reads_slice p n (UdpPacketView_get_udp_src_port v) UdpPacketLE_get_udp_src_port"
    "reads_slice p n (UdpPacketView_get_udp_dst_port v) UdpPacketLE_get_udp_dst_port"
    "reads_slice p n (UdpPacketView_get_udp_length v) UdpPacketLE_get_udp_length"
    "reads_slice p n (UdpPacketView_get_udp_checksum v) UdpPacketLE_get_udp_checksum"
    "reads_slice p n (UdpPacketView_get_src_port v) UdpPacketLE_get_src_port"
    "reads_slice p n (UdpPacketView_get_dst_port v) UdpPacketLE_get_dst_port"
    "reads_slice p n (UdpPacketView_get_transport_length v) UdpPacketLE_get_transport_length"
  using assms by (simp_all add: reads_slice_def udp_le_get_defs udp_view_get_defs slice_simps)

lemma udp_view_writes:
  assumes "udp_header v = p" "8 \<le> n"
  shows "writes_slice p n (\<lambda>m. UdpPacketView_set_udp_checksum v m k) (\<lambda>h. UdpPacketLE_set_udp_checksum h k)"
    "writes_slice p n (\<lambda>m. UdpPacketView_set_transport_checksum v m k) (\<lambda>h. UdpPacketLE_set_transport_checksum h k)"
    "writes_slice p n (\<lambda>m. UdpPacketView_set_dst_port v m k) (\<lambda>h. UdpPacketLE_set_dst_port h k)"
    "writes_slice p n (\<lambda>m. UdpPacketView_set_src_port v m k) (\<lambda>h. UdpPacketLE_set_src_port h k)"
    "writes_slice p n (\<lambda>m. UdpPacketView_set_transport_length v m k) (\<lambda>h. UdpPacketLE_set_transport_length h k)"
  unfolding udp_le_set_defs udp_view_set_defs assms(1)
  by (intro writes_rules; use assms in simp)+

lemma udp_view_recalculates:
  assumes "UdpPacketView_data_ok v m (b, e)" "even (length pseudo)" and p: "p = udp_header v"
  shows "UdpPacketView_recalculate_transport_checksum v m pseudo b e =
    map_option (overwrite m p) (UdpPacketLE_recalculate_transport_checksum (mslice m p 8) pseudo (mslice m b (e - b)))"
proof -
  have len: "p + 8 \<le> length m" and valid: "UdpPacketLE_valid (mslice m p 8)"
    using assms by (auto simp: UdpPacketView_data_ok_def UdpPacketLE_valid_def)
  show ?thesis
    using len overwrite_slice [OF len] by (simp add: UdpPacketView_recalculate_eq [OF assms refl]
        UdpPacketLE_recalculate_eq [OF valid assms(2) refl] overwrite_update)
qed

section \<open>Sequences of operations\<close>

text \<open>Readdressing a header in place, as the driver does with a packet it built, is readdressing the owned header.\<close>

definition ip4_readdress_view :: "Ipv4PacketView \<Rightarrow> NetAddr \<Rightarrow> NetAddr \<Rightarrow> UShort \<Rightarrow> mem \<Rightarrow> mem option" where
  "ip4_readdress_view v a b k m = do {
     m \<leftarrow> Ipv4PacketView_set_src_addr v m a;
     m \<leftarrow> Ipv4PacketView_set_dst_addr v m b;
     m \<leftarrow> Ipv4PacketView_set_ip_total_length v m k;
     Ipv4PacketView_recalculate_ip_checksum v m }"

definition ip4_readdress_le :: "NetAddr \<Rightarrow> NetAddr \<Rightarrow> UShort \<Rightarrow> bytes \<Rightarrow> bytes option" where
  "ip4_readdress_le a b k h = do {
     h \<leftarrow> Ipv4PacketLE_set_src_addr h a;
     h \<leftarrow> Ipv4PacketLE_set_dst_addr h b;
     h \<leftarrow> Ipv4PacketLE_set_ip_total_length h k;
     Ipv4PacketLE_recalculate_ip_checksum h }"

lemma ip4_readdress_refines:
  assumes "ip4_header v = p" "ip4_add_header_size v \<le> 0" "length a = 4" "length b = 4"
  shows "writes_slice p 20 (ip4_readdress_view v a b k) (ip4_readdress_le a b k)"
  unfolding ip4_readdress_view_def [abs_def] ip4_readdress_le_def [abs_def]
  using assms by (intro writes_bind ip4_view_recalculates ip4_view_writes) auto

text \<open>A header generated from a parent packet is the parent's header, taken out of its memory and readdressed.\<close>

lemma ip4_generated_from_parent:
  assumes "ip4_header v = p" "ip4_additional_header v = p + 20" "ip4_add_header_size v = 0" "p + 20 \<le> length m"
    and "lo_nibble (m ! p) \<le> 5" "length a = 4" "length b = 4"
  shows "Ipv4PacketLE_generate_from_parent v m a b k = ip4_readdress_le a b k (mslice m p 20)"
    and "Ipv4PacketView_generate_from_parent v m a b k = ip4_readdress_le a b k (mslice m p 20)"
proof -
  let ?h = "mslice m p 20"
  have len: "length ?h = 20" "?h ! 0 = m ! p" using assms(4) by (simp_all add: mslice_def)
  obtain u where u: "Ipv4PacketView_of_range ?h 0 20 = Some u" "ip4_header u = 0" "ip4_add_header_size u \<le> 0"
    using len assms(5) by (simp add: Ipv4PacketView_of_range_def Ipv4PacketView_parse_packet_def
        Ipv4PacketView_get_ip_header_length_def rd_Some default_ip_quart_size_def word_le_def)
  have "writes_slice 0 20 (ip4_readdress_view u a b k) (ip4_readdress_le a b k)"
    using u(2,3) assms(6,7) by (rule ip4_readdress_refines)
  moreover have "0 + 20 \<le> length ?h" "mslice ?h 0 20 = ?h" using len(1) by (simp_all add: mslice_def)
  ultimately have w: "ip4_readdress_view u a b k ?h = map_option (overwrite ?h 0) (ip4_readdress_le a b k ?h)"
      "\<forall>h. ip4_readdress_le a b k ?h = Some h \<longrightarrow> length h = 20"
    unfolding writes_slice_def by metis+
  have "overwrite ?h 0 h = h" if "length h = 20" for h using that len(1) by (simp add: overwrite_def)
  hence "ip4_readdress_view u a b k ?h = ip4_readdress_le a b k ?h"
    using w by (cases "ip4_readdress_le a b k ?h") auto
  moreover have "Ipv4PacketView_to_bytes v = (p, p + 20)" "rd_range m p (p + 20) = Some ?h"
    using assms(1-4) by (simp_all add: Ipv4PacketView_to_bytes_def rd_range_Some mslice_def)
  ultimately show "Ipv4PacketLE_generate_from_parent v m a b k = ip4_readdress_le a b k ?h"
    "Ipv4PacketView_generate_from_parent v m a b k = ip4_readdress_le a b k ?h"
    using u(1) len(1) by (simp_all add: Ipv4PacketLE_generate_from_parent_def Ipv4PacketView_generate_from_parent_def
        ip4_readdress_view_def)
qed

section \<open>Sizes and options\<close>

text \<open>What the two classes make of a header of \<open>q\<close> words in memory: the view of an IPv4 header counts its options in words
  where the owning class counts bytes, so that its size and its end are wrong as soon as there are options.\<close>

lemma ip4_view_sizes:
  assumes "p + 4 * q \<le> length m" "5 \<le> q" "unat (lo_nibble (m ! p)) = q"
  shows "\<exists>w h. Ipv4PacketView_of_range m p e = Some w \<and> Ipv4PacketLE_of_range m p e = Some h \<and> h = mslice m p (4 * q) \<and>
    Ipv4PacketLE_get_size h = of_nat (4 * q) \<and> Ipv4PacketView_get_size w = of_nat (15 + q) \<and>
    Ipv4PacketLE_get_ip_additional_header h = Some (mslice m (p + 20) (4 * q - 20)) \<and>
    Ipv4PacketView_get_ip_additional_header w = (int (p + 20), int (p + 15 + q)) \<and> Ipv4PacketView_to_bytes w = (p, p + 15 + q)"
proof -
  have 0: "mslice m p 20 ! 0 = m ! p" using assms(1,2) by (simp add: mslice_def)
  have opts: "(q - 5) * 4 = 4 * q - 20" "p + 20 + (4 * q - 20) \<le> length m" using assms(1,2) by simp_all
  have range: "rd_range m p (p + 20) = Some (mslice m p 20)"
    "rd_range m (p + 20) (p + 20 + (q - 5) * 4) = Some (mslice m (p + 20) (4 * q - 20))"
    using assms(1,2) opts by (simp_all add: rd_range_def mslice_def)
  have "mslice m p 20 @ mslice m (p + 20) (4 * q - 20) = mslice m p (4 * q)"
    using mslice_append [of p 20 m "4 * q - 20"] assms(1,2) by simp
  then have h: "Ipv4PacketLE_of_range m p e = Some (mslice m p (4 * q))"
    using range assms by (simp add: Ipv4PacketLE_of_range_def Ipv4PacketLE_parse_packet_def ip_size_defs
        Ipv4PacketLE_get_ip_header_length_def rd_def 0 del: length_greater_0_conv)
  have "uint (lo_nibble (m ! p)) = int q" using assms(3) [symmetric] by simp
  then have w: "Ipv4PacketView_of_range m p e =
      Some \<lparr> ip4_header = p, ip4_additional_header = p + 20, ip4_add_header_size = int q - 5 \<rparr>"
    using assms by (simp add: Ipv4PacketView_of_range_def Ipv4PacketView_parse_packet_def ip_size_defs
        Ipv4PacketView_get_ip_header_length_def rd_def)
  have "int 20 + (int q - 5) = int (15 + q)" "nat (int (p + 20) + (int q - 5)) = p + 15 + q" using assms(2) by simp_all
  then have "(of_int (int 20 + (int q - 5)) :: UShort) = of_nat (15 + q)" by (simp only: of_int_of_nat_eq)
  moreover have "rd_range (mslice m p (4 * q)) 20 (length (mslice m p (4 * q))) = Some (mslice m (p + 20) (4 * q - 20))"
    using assms(1,2) by (simp add: rd_range_def mslice_def drop_take add.commute)
  moreover have "length (mslice m p (4 * q)) = 4 * q" using assms(1) by simp
  ultimately show ?thesis
    using h w \<open>nat (int (p + 20) + (int q - 5)) = p + 15 + q\<close>
    by (simp add: Ipv4PacketLE_get_size_def Ipv4PacketView_get_size_def ip4_header_size_def Ipv4PacketLE_get_ip_additional_header_def
        Ipv4PacketView_get_ip_additional_header_def Ipv4PacketView_to_bytes_def ip_size_defs del: length_mslice)
qed

text \<open>For a TCP header both agree.\<close>

lemma tcp_view_sizes:
  assumes "p + 4 * q \<le> length m" "5 \<le> q" "unat (hi_nibble (m ! (p + 12))) = q"
  shows "\<exists>w h. TcpPacketView_of_range m p e = Some w \<and> TcpPacketLE_of_range m p e = Some h \<and> h = mslice m p (4 * q) \<and>
    TcpPacketLE_get_size h = of_nat (4 * q) \<and> TcpPacketView_get_size w = of_nat (4 * q) \<and>
    TcpPacketLE_get_tcp_options h = Some (mslice m (p + 20) (4 * q - 20)) \<and>
    TcpPacketView_get_tcp_options w = (p + 20, p + 4 * q) \<and> TcpPacketView_to_bytes w = (p, p + 4 * q)"
proof -
  have 12: "mslice m p 20 ! 12 = m ! (p + 12)" using assms(1,2) by (simp add: mslice_def)
  have opts: "(q - 5) * 4 = 4 * q - 20" "p + 20 + (4 * q - 20) \<le> length m" using assms(1,2) by simp_all
  have range: "rd_range m p (p + 20) = Some (mslice m p 20)"
    "rd_range m (p + 20) (p + 20 + (q - 5) * 4) = Some (mslice m (p + 20) (4 * q - 20))"
    using assms(1,2) opts by (simp_all add: rd_range_def mslice_def)
  have "mslice m p 20 @ mslice m (p + 20) (4 * q - 20) = mslice m p (4 * q)"
    using mslice_append [of p 20 m "4 * q - 20"] assms(1,2) by simp
  then have h: "TcpPacketLE_of_range m p e = Some (mslice m p (4 * q))"
    using range assms by (simp add: TcpPacketLE_of_range_def TcpPacketLE_parse_packet_def tcp_size_defs
        TcpPacketLE_get_tcp_header_length_def rd_def 12)
  have "uint (hi_nibble (m ! (p + 12))) = int q" using assms(3) [symmetric] by simp
  then have w: "TcpPacketView_of_range m p e =
      Some \<lparr> tcp_header = p, tcp_options = p + 20, tcp_options_size = (int q - 5) * 4 \<rparr>"
    using assms by (simp add: TcpPacketView_of_range_def TcpPacketView_parse_packet_def tcp_size_defs
        TcpPacketView_get_tcp_header_length_def rd_def)
  have sz: "int 20 + (int q - 5) * 4 = int (4 * q)" "nat (int (p + 20) + (int q - 5) * 4) = p + 4 * q"
    using assms(2) by simp_all
  from sz(1) have "(of_int (int 20 + (int q - 5) * 4) :: UShort) = of_nat (4 * q)" by (simp only: of_int_of_nat_eq)
  moreover have "rd_range (mslice m p (4 * q)) 20 (length (mslice m p (4 * q))) = Some (mslice m (p + 20) (4 * q - 20))"
    using assms(1,2) by (simp add: rd_range_def mslice_def drop_take add.commute)
  moreover have "length (mslice m p (4 * q)) = 4 * q" using assms(1) by simp
  ultimately show ?thesis
    using h w sz(2)
    by (simp add: TcpPacketLE_get_size_def TcpPacketView_get_size_def tcp_header_size_def TcpPacketLE_get_tcp_options_def
        TcpPacketView_get_tcp_options_def TcpPacketView_to_bytes_def tcp_size_defs del: length_mslice)
qed

section \<open>Properties\<close>

text \<open>C14: an IPv4 header in memory is the owned header. For a view that stands on \<open>n\<close> bytes of a memory, at least
  the twenty of the fixed header, every accessor of a field of the fixed header gives what the owning class gives for these
  bytes, and every setter changes the memory as if the bytes were taken out, changed by the owning class and put back,
  everything else untouched. Without options this is so for the checksum too, and a header generated from a parent packet is
  the parent's header, taken out, readdressed and summed by the owning class. The two accessors that are left, \<open>get_size\<close> and
  \<open>get_ip_additional_header\<close>, do not refine the owner's: of a header of \<open>q\<close> words the view takes the options to be \<open>q - 5\<close>
  bytes long, so that it has \<open>15 + q\<close> bytes where the owner has \<open>4 * q\<close>, which agree for \<open>q = 5\<close> only.\<close>

theorem ip4_view_refines_owner:
  assumes "ip4_header v = p" "20 \<le> n" "length a = 4" "length b = 4"
  shows "reads_slice p n (Ipv4PacketView_get_ip_version v) Ipv4PacketLE_get_ip_version \<and>
    reads_slice p n (Ipv4PacketView_get_ip_header_length v) Ipv4PacketLE_get_ip_header_length \<and>
    reads_slice p n (Ipv4PacketView_get_ip_dscp v) Ipv4PacketLE_get_ip_dscp \<and>
    reads_slice p n (Ipv4PacketView_get_ip_ecn v) Ipv4PacketLE_get_ip_ecn \<and>
    reads_slice p n (Ipv4PacketView_get_ip_total_length v) Ipv4PacketLE_get_ip_total_length \<and>
    reads_slice p n (Ipv4PacketView_get_ip_id v) Ipv4PacketLE_get_ip_id \<and>
    reads_slice p n (Ipv4PacketView_get_ip_flags v) Ipv4PacketLE_get_ip_flags \<and>
    reads_slice p n (Ipv4PacketView_get_ip_df_flag v) Ipv4PacketLE_get_ip_df_flag \<and>
    reads_slice p n (Ipv4PacketView_get_ip_mf_flag v) Ipv4PacketLE_get_ip_mf_flag \<and>
    reads_slice p n (Ipv4PacketView_get_ip_offset v) Ipv4PacketLE_get_ip_offset \<and>
    reads_slice p n (Ipv4PacketView_get_ip_ttl v) Ipv4PacketLE_get_ip_ttl \<and>
    reads_slice p n (Ipv4PacketView_get_ip_protocol v) Ipv4PacketLE_get_ip_protocol \<and>
    reads_slice p n (Ipv4PacketView_get_ip_checksum v) Ipv4PacketLE_get_ip_checksum \<and>
    reads_slice p n (Ipv4PacketView_get_ip_source v) Ipv4PacketLE_get_ip_source \<and>
    reads_slice p n (Ipv4PacketView_get_ip_dest v) Ipv4PacketLE_get_ip_dest \<and>
    reads_slice p n (Ipv4PacketView_get_src_addr v) Ipv4PacketLE_get_src_addr \<and>
    reads_slice p n (Ipv4PacketView_get_dst_addr v) Ipv4PacketLE_get_dst_addr \<and>
    reads_slice p n (Ipv4PacketView_get_protocol_version v) Ipv4PacketLE_get_protocol_version \<and>
    reads_slice p n (Ipv4PacketView_get_transport_protocol v) Ipv4PacketLE_get_transport_protocol \<and>
    writes_slice p n (\<lambda>m. Ipv4PacketView_set_ip_source v m i) (\<lambda>h. Ipv4PacketLE_set_ip_source h i) \<and>
    writes_slice p n (\<lambda>m. Ipv4PacketView_set_ip_dest v m i) (\<lambda>h. Ipv4PacketLE_set_ip_dest h i) \<and>
    writes_slice p n (\<lambda>m. Ipv4PacketView_set_src_addr v m a) (\<lambda>h. Ipv4PacketLE_set_src_addr h a) \<and>
    writes_slice p n (\<lambda>m. Ipv4PacketView_set_dst_addr v m a) (\<lambda>h. Ipv4PacketLE_set_dst_addr h a) \<and>
    writes_slice p n (\<lambda>m. Ipv4PacketView_set_ip_total_length v m k) (\<lambda>h. Ipv4PacketLE_set_ip_total_length h k) \<and>
    writes_slice p n (\<lambda>m. Ipv4PacketView_set_ip_checksum v m k) (\<lambda>h. Ipv4PacketLE_set_ip_checksum h k) \<and>
    (ip4_add_header_size v \<le> 0 \<longrightarrow>
      writes_slice p 20 (Ipv4PacketView_recalculate_ip_checksum v) Ipv4PacketLE_recalculate_ip_checksum) \<and>
    (ip4_add_header_size v = 0 \<and> ip4_additional_header v = p + 20 \<and> p + n \<le> length m \<and> lo_nibble (m ! p) \<le> 5 \<longrightarrow>
      Ipv4PacketView_generate_from_parent v m a b k = do {
        h \<leftarrow> Ipv4PacketLE_set_src_addr (mslice m p 20) a;
        h \<leftarrow> Ipv4PacketLE_set_dst_addr h b;
        h \<leftarrow> Ipv4PacketLE_set_ip_total_length h k;
        Ipv4PacketLE_recalculate_ip_checksum h }) \<and>
    (p + 4 * q \<le> length m \<and> 5 \<le> q \<and> unat (lo_nibble (m ! p)) = q \<longrightarrow>
      (\<exists>w h. Ipv4PacketView_of_range m p e = Some w \<and> Ipv4PacketLE_of_range m p e = Some h \<and> h = mslice m p (4 * q) \<and>
        Ipv4PacketLE_get_size h = of_nat (4 * q) \<and> Ipv4PacketView_get_size w = of_nat (15 + q) \<and>
        Ipv4PacketLE_get_ip_additional_header h = Some (mslice m (p + 20) (4 * q - 20)) \<and>
        Ipv4PacketView_get_ip_additional_header w = (int (p + 20), int (p + 15 + q)) \<and>
        Ipv4PacketView_to_bytes w = (p, p + 15 + q)))"
  using ip4_view_sizes [of p q m e] ip4_view_reads [OF assms(1,2)] ip4_view_writes [OF assms(1-3)] ip4_view_recalculates [OF assms(1)]
    ip4_generated_from_parent(2) [OF assms(1) _ _ _ _ assms(3,4)] assms(2)
  by (simp add: ip4_readdress_le_def)

theorem ip4_view_refines_owner_witness:
  "Ipv4PacketView_set_ip_total_length \<lparr> ip4_header = 2, ip4_additional_header = 22, ip4_add_header_size = 0 \<rparr>
      ([7, 7, 0x45] @ replicate 30 0) 0x1234 =
    map_option (overwrite ([7, 7, 0x45] @ replicate 30 0) 2)
      (Ipv4PacketLE_set_ip_total_length (mslice ([7, 7, 0x45] @ replicate 30 0) 2 20) 0x1234) \<and>
    (\<exists>w h. Ipv4PacketView_of_range ([7, 7, 0x46] @ replicate 30 0) 2 26 = Some w \<and> Ipv4PacketView_get_size w = 21 \<and>
      Ipv4PacketLE_of_range ([7, 7, 0x46] @ replicate 30 0) 2 26 = Some h \<and> Ipv4PacketLE_get_size h = 24)"
proof (rule conjI)
  show "Ipv4PacketView_set_ip_total_length \<lparr> ip4_header = 2, ip4_additional_header = 22, ip4_add_header_size = 0 \<rparr>
      ([7, 7, 0x45] @ replicate 30 0) 0x1234 =
    map_option (overwrite ([7, 7, 0x45] @ replicate 30 0) 2)
      (Ipv4PacketLE_set_ip_total_length (mslice ([7, 7, 0x45] @ replicate 30 0) 2 20) 0x1234)"
    using ip4_view_refines_owner [where v = "\<lparr> ip4_header = 2, ip4_additional_header = 22, ip4_add_header_size = 0 \<rparr>" and p = 2
      and n = 20 and a = "[10, 0, 0, 1]" and b = "[10, 0, 0, 2]"]
    by (simp add: writes_slice_def)
  have "unat (lo_nibble (0x46 :: UByte)) = 6" by (simp add: lo_nibble_def)
  then show "\<exists>w h. Ipv4PacketView_of_range ([7, 7, 0x46] @ replicate 30 0) 2 26 = Some w \<and> Ipv4PacketView_get_size w = 21 \<and>
      Ipv4PacketLE_of_range ([7, 7, 0x46] @ replicate 30 0) 2 26 = Some h \<and> Ipv4PacketLE_get_size h = 24"
    using ip4_view_sizes [of 2 6 "[7, 7, 0x46] @ replicate 30 0" 26] by auto
qed

text \<open>C15: a TCP header in memory is the owned header. For a view that stands on \<open>n\<close> bytes, at least the twenty of the
  fixed header, every accessor of a field but that of the reserved bits gives what the owning class gives for these bytes, and every
  setter of a field changes the memory as if the bytes were taken out, changed by the owning class and put back. When the
  options belong to the bytes and the data lies behind them, the checksum is the one the owning class calculates from
  these bytes, the pseudo header and the data. Sizes and options agree too. The reserved bits are read from other bits of the
  byte, and the setters of the options, of which the owner's changes its size, are not compared.\<close>

theorem tcp_view_refines_owner:
  assumes "tcp_header v = p" "20 \<le> n"
  shows "reads_slice p n (TcpPacketView_get_tcp_src_port v) TcpPacketLE_get_tcp_src_port \<and>
    reads_slice p n (TcpPacketView_get_tcp_dst_port v) TcpPacketLE_get_tcp_dst_port \<and>
    reads_slice p n (TcpPacketView_get_tcp_seq_number v) TcpPacketLE_get_tcp_seq_number \<and>
    reads_slice p n (TcpPacketView_get_tcp_ack_number v) TcpPacketLE_get_tcp_ack_number \<and>
    reads_slice p n (TcpPacketView_get_tcp_header_length v) TcpPacketLE_get_tcp_header_length \<and>
    reads_slice p n (TcpPacketView_get_tcp_flags v) TcpPacketLE_get_tcp_flags \<and>
    reads_slice p n (TcpPacketView_get_tcp_window_size v) TcpPacketLE_get_tcp_window_size \<and>
    reads_slice p n (TcpPacketView_get_tcp_checksum v) TcpPacketLE_get_tcp_checksum \<and>
    reads_slice p n (TcpPacketView_get_tcp_urgent_pointer v) TcpPacketLE_get_tcp_urgent_pointer \<and>
    reads_slice p n (TcpPacketView_get_src_port v) TcpPacketLE_get_src_port \<and>
    reads_slice p n (TcpPacketView_get_dst_port v) TcpPacketLE_get_dst_port \<and>
    reads_slice p n (TcpPacketView_get_transport_length v) TcpPacketLE_get_transport_length \<and>
    reads_slice p n (TcpPacketView_get_sender_number v) TcpPacketLE_get_sender_number \<and>
    reads_slice p n (TcpPacketView_get_receiver_number v) TcpPacketLE_get_receiver_number \<and>
    reads_slice p n (TcpPacketView_get_flags v) TcpPacketLE_get_flags \<and>
    reads_slice p n (TcpPacketView_is_reset_connection_packet v) TcpPacketLE_is_reset_connection_packet \<and>
    writes_slice p n (\<lambda>m. TcpPacketView_set_tcp_checksum v m k) (\<lambda>h. TcpPacketLE_set_tcp_checksum h k) \<and>
    writes_slice p n (\<lambda>m. TcpPacketView_set_dst_port v m k) (\<lambda>h. TcpPacketLE_set_dst_port h k) \<and>
    writes_slice p n (\<lambda>m. TcpPacketView_set_src_port v m k) (\<lambda>h. TcpPacketLE_set_src_port h k) \<and>
    writes_slice p n (\<lambda>m. TcpPacketView_set_transport_length v m k) (\<lambda>h. TcpPacketLE_set_transport_length h k) \<and>
    writes_slice p n (\<lambda>m. TcpPacketView_set_transport_checksum v m k) (\<lambda>h. TcpPacketLE_set_transport_checksum h k) \<and>
    writes_slice p n (\<lambda>m. TcpPacketView_set_tcp_seq_number v m q) (\<lambda>h. TcpPacketLE_set_tcp_seq_number h q) \<and>
    writes_slice p n (\<lambda>m. TcpPacketView_set_tcp_ack_number v m q) (\<lambda>h. TcpPacketLE_set_tcp_ack_number h q) \<and>
    writes_slice p n (\<lambda>m. TcpPacketView_set_tcp_flags v m k) (\<lambda>h. TcpPacketLE_set_tcp_flags h k) \<and>
    writes_slice p n (\<lambda>m. TcpPacketView_set_tcp_offset v m b) (\<lambda>h. TcpPacketLE_set_tcp_offset h b) \<and>
    writes_slice p n (\<lambda>m. TcpPacketView_set_tcp_window v m k) (\<lambda>h. TcpPacketLE_set_tcp_window h k) \<and>
    writes_slice p n (\<lambda>m. TcpPacketView_set_tcp_urgent v m k) (\<lambda>h. TcpPacketLE_set_tcp_urgent h k) \<and>
    writes_slice p n (\<lambda>m. TcpPacketView_set_tcp_length v m b) (\<lambda>h. TcpPacketLE_set_tcp_length h b) \<and>
    writes_slice p n (\<lambda>m. TcpPacketView_set_sender_number v m q) (\<lambda>h. TcpPacketLE_set_sender_number h q) \<and>
    writes_slice p n (\<lambda>m. TcpPacketView_set_receiver_number v m q) (\<lambda>h. TcpPacketLE_set_receiver_number h q) \<and>
    writes_slice p n (\<lambda>m. TcpPacketView_set_flags v m k) (\<lambda>h. TcpPacketLE_set_flags h k) \<and>
    (TcpPacketView_valid v m \<and> TcpPacketView_data_ok v m (s, e) \<and> even (length pseudo) \<and> n = 20 + nat (tcp_options_size v) \<longrightarrow>
      TcpPacketView_recalculate_transport_checksum v m pseudo s e = map_option (overwrite m p)
        (TcpPacketLE_recalculate_transport_checksum (mslice m p n) pseudo (mslice m s (e - s)))) \<and>
    (p + 20 \<le> length m \<longrightarrow> TcpPacketView_get_tcp_reserved v m = Some (m ! (p + 12) AND 0x0F) \<and>
      TcpPacketLE_get_tcp_reserved (mslice m p 20) = Some (drop_bit 1 (m ! (p + 12)) AND 7)) \<and>
    (p + 4 * i \<le> length m \<and> 5 \<le> i \<and> unat (hi_nibble (m ! (p + 12))) = i \<longrightarrow>
      (\<exists>w h. TcpPacketView_of_range m p j = Some w \<and> TcpPacketLE_of_range m p j = Some h \<and> h = mslice m p (4 * i) \<and>
        TcpPacketLE_get_size h = of_nat (4 * i) \<and> TcpPacketView_get_size w = of_nat (4 * i) \<and>
        TcpPacketLE_get_tcp_options h = Some (mslice m (p + 20) (4 * i - 20)) \<and>
        TcpPacketView_get_tcp_options w = (p + 20, p + 4 * i) \<and> TcpPacketView_to_bytes w = (p, p + 4 * i)))"
  using tcp_view_sizes [of p i m j] tcp_view_reads [OF assms] tcp_view_writes [OF assms] tcp_view_recalculates [of v m s e pseudo p n]
    tcp_reserved_differs [of v m] assms(1) by simp

theorem tcp_view_refines_owner_witness:
  "TcpPacketView_get_tcp_reserved \<lparr> tcp_header = 1, tcp_options = 21, tcp_options_size = 0 \<rparr> (replicate 40 2) = Some 2 \<and>
    TcpPacketLE_get_tcp_reserved (mslice (replicate 40 2) 1 20) = Some 1"
  using tcp_view_refines_owner [where v = "\<lparr> tcp_header = 1, tcp_options = 21, tcp_options_size = 0 \<rparr>" and p = 1 and n = 20
      and m = "replicate 40 2"] by simp

end
