(* ===== verification/EchoApps.thy ===== *)
theory EchoApps
  imports WinSockets TcpOptions
begin

text \<open>The echo programs with which the tunnel is tried out: \<open>QVPN User Client App Linux\<close>, \<open>QVPN User Client App Windows\<close>
  and \<open>QVPN User Server App Linux\<close>, a \<open>main.cpp\<close> each.  A client sends a line and reads as many bytes back; the server
  sends back what it reads.  The operating system is a record of calls over a state of any type.  Of the messages on the
  console only the echo itself is kept, as the call \<open>px_show\<close>; setting the locale and installing the signal handlers of the
  server are left out.

  The loops of client and server around \<open>send\<close> and \<open>recv\<close> are written once, as the place a program is at when it makes
  its next call and the place it goes to with the result.  The programs run through these places one call after the
  other; the relation \<open>echo_step\<close> runs a client and a server side by side over a connection with bounded queues.\<close>

section \<open>Calls\<close>

record 'w posix =
  px_socket :: "int \<Rightarrow> int \<Rightarrow> int \<Rightarrow> 'w \<Rightarrow> int \<times> 'w"
  px_setsockopt :: "int \<Rightarrow> int \<Rightarrow> int \<Rightarrow> int \<Rightarrow> 'w \<Rightarrow> int \<times> 'w"
  px_getaddrinfo :: "string \<Rightarrow> string \<Rightarrow> int \<Rightarrow> int \<Rightarrow> int \<Rightarrow> 'w \<Rightarrow> (int \<times> bytes list) \<times> 'w"
  px_freeaddrinfo :: "bytes list \<Rightarrow> 'w \<Rightarrow> 'w"
  px_inet_pton :: "string \<Rightarrow> UInt option"
  px_connect :: "int \<Rightarrow> bytes \<Rightarrow> 'w \<Rightarrow> int \<times> 'w"
  px_bind :: "int \<Rightarrow> bytes \<Rightarrow> 'w \<Rightarrow> int \<times> 'w"
  px_listen :: "int \<Rightarrow> int \<Rightarrow> 'w \<Rightarrow> int \<times> 'w"
  px_accept :: "int \<Rightarrow> 'w \<Rightarrow> (int \<times> bytes) \<times> 'w"
  px_send :: "int \<Rightarrow> bytes \<Rightarrow> 'w \<Rightarrow> int \<times> 'w"
  px_recv :: "int \<Rightarrow> nat \<Rightarrow> 'w \<Rightarrow> (int \<times> bytes) \<times> 'w"
  px_shutdown :: "int \<Rightarrow> int \<Rightarrow> 'w \<Rightarrow> 'w"
  px_close :: "int \<Rightarrow> 'w \<Rightarrow> 'w"
  px_getline :: "'w \<Rightarrow> string option \<times> 'w"
  px_show :: "bytes \<Rightarrow> 'w \<Rightarrow> 'w"

definition SHUT_RDWR :: int where "SHUT_RDWR = 2"
definition SO_REUSEADDR :: int where "SO_REUSEADDR = 2"

text \<open>\<open>std::atoi\<close> gives zero where there is no number, and is undefined for a number that is no \<open>int\<close>.\<close>

definition atoi_int :: "string \<Rightarrow> int option" where
  "atoi_int s = (case stoi s of Inr v \<Rightarrow> Some v | Inl ex \<Rightarrow> if ex = Invalid_argument then Some 0 else None)"

definition is_quit :: "string \<Rightarrow> bool" where
  "is_quit line = (line = [] \<or> line = ''exit'' \<or> line = ''quit'')"

text \<open>The loop over the results of \<open>getaddrinfo\<close>: the first address that takes the connection ends it.\<close>

fun connect_any :: "(bytes \<Rightarrow> 'w \<Rightarrow> int \<times> 'w) \<Rightarrow> bytes list \<Rightarrow> 'w \<Rightarrow> bool \<times> 'w" where
  "connect_any conn [] w = (False, w)"
| "connect_any conn (a # as) w =
     (let (res, w) = conn a w in if res = 0 then (True, w) else connect_any conn as w)"

section \<open>The client for Linux\<close>

text \<open>Sending from \<open>sent_total\<close> on, receiving at \<open>recv_total\<close>, done with a line, or at the end of the program.\<close>

datatype client_at =
    Sending bytes nat
  | Receiving bytes bytes nat
  | Echoed bytes
  | Exited int

definition client_recv_head :: "bytes \<Rightarrow> bytes \<Rightarrow> nat \<Rightarrow> client_at" where
  "client_recv_head line response recv_total =
     (if recv_total < length line then Receiving line response recv_total else Echoed response)"

definition client_send_head :: "bytes \<Rightarrow> nat \<Rightarrow> client_at" where
  "client_send_head line sent_total =
     (if sent_total < length line then Sending line sent_total
      else client_recv_head line (replicate (length line) 0) 0)"

definition client_sent :: "bytes \<Rightarrow> nat \<Rightarrow> int \<Rightarrow> client_at" where
  "client_sent line sent_total sent =
     (if sent \<le> 0 then Exited 1 else client_send_head line (sent_total + nat sent))"

text \<open>The bytes that came lie in the response from \<open>recv_total\<close> on; outside it, writing is undefined.\<close>

definition client_received :: "bytes \<Rightarrow> bytes \<Rightarrow> nat \<Rightarrow> int \<Rightarrow> bytes \<Rightarrow> client_at option" where
  "client_received line response recv_total received data =
     (if received = 0 then Some (Exited 0) else if received < 0 then Some (Exited 1)
      else do {
        response \<leftarrow> wr_range response recv_total (take (nat received) data);
        Some (client_recv_head line response (recv_total + nat received)) })"

text \<open>The two inner loops, from a place until the line is echoed or the program ends.\<close>

fun client_left :: "client_at \<Rightarrow> nat" where
  "client_left (Sending line n) = 2 * length line - n"
| "client_left (Receiving line response n) = length line - n"
| "client_left _ = 0"

lemma client_left_recv_head: "client_left (client_recv_head line response n) = length line - n"
  by (simp add: client_recv_head_def)

lemma client_left_sent:
  "n < length line \<Longrightarrow> client_left (client_sent line n sent) < client_left (Sending line n)"
  by (auto simp: client_sent_def client_send_head_def client_left_recv_head)

lemma client_left_received:
  "n < length line \<Longrightarrow> client_received line response n received data = Some at \<Longrightarrow>
   client_left at < client_left (Receiving line response n)"
  by (auto simp: client_received_def client_left_recv_head split: if_splits Option.bind_splits)

text \<open>The places reached from \<open>client_send_head\<close> are below the length of the line; any other ends the loop.\<close>

fun client_exchange_call :: "'w posix \<Rightarrow> int \<Rightarrow> client_at \<Rightarrow> 'w \<Rightarrow> (client_at \<times> 'w) option" where
  "client_exchange_call sys sock (Sending line sent_total) w =
     (let (sent, w) = px_send sys sock (drop sent_total line) w in Some (client_sent line sent_total sent, w))"
| "client_exchange_call sys sock (Receiving line response recv_total) w =
     (let ((received, data), w) = px_recv sys sock (length line - recv_total) w
      in map_option (\<lambda>at. (at, w)) (client_received line response recv_total received data))"
| "client_exchange_call sys sock at w = Some (at, w)"

fun client_busy :: "client_at \<Rightarrow> bool" where
  "client_busy (Sending line n) = (n < length line)"
| "client_busy (Receiving line response n) = (n < length line)"
| "client_busy _ = False"

lemma client_exchange_call_decreases:
  "client_busy at \<Longrightarrow> client_exchange_call sys sock at w = Some (at', w') \<Longrightarrow> client_left at' < client_left at"
  by (cases at) (auto simp: client_left_sent client_left_received split: prod.splits simp del: client_left.simps)

function client_exchange :: "'w posix \<Rightarrow> int \<Rightarrow> client_at \<Rightarrow> 'w \<Rightarrow> (client_at \<times> 'w) option" where
  "client_exchange sys sock at w =
     (if client_busy at then (case client_exchange_call sys sock at w of
        None \<Rightarrow> None | Some (at, w) \<Rightarrow> client_exchange sys sock at w)
      else Some (at, w))"
  by pat_completeness auto
termination
  by (relation "measure (\<lambda>(_, _, at, _). client_left at)") (auto simp: client_exchange_call_decreases)

declare client_exchange.simps [simp del]

definition line_bytes :: "string \<Rightarrow> bytes" where
  "line_bytes line = map of_char line"

text \<open>The loop over the lines of the standard input need not end.  \<open>Inl\<close> is the code \<open>main\<close> returns inside the loop.\<close>

partial_function (option) client_loop :: "'w posix \<Rightarrow> int \<Rightarrow> 'w \<Rightarrow> ((int + unit) \<times> 'w) option option" where
  "client_loop sys sock w =
     (case px_getline sys w of (line, w) \<Rightarrow>
      case line of None \<Rightarrow> Some (Some (Inr (), w))
      | Some line \<Rightarrow>
        if is_quit line then Some (Some (Inr (), w))
        else (case client_exchange sys sock (client_send_head (line_bytes line) 0) w of
          None \<Rightarrow> Some None
        | Some (Exited c, w) \<Rightarrow> Some (Some (Inl c, px_close sys sock w))
        | Some (Echoed response, w) \<Rightarrow> client_loop sys sock (px_show sys response w)
        | Some (_, w) \<Rightarrow> Some None))"

definition client_arguments :: "string list \<Rightarrow> (string \<times> int + int) option" where
  "client_arguments argv =
     (let server_addr = (if 2 \<le> length argv then argv ! 1 else ''127.0.0.1'') in
      if 3 \<le> length argv then do {
        port \<leftarrow> atoi_int (argv ! 2);
        Some (if port \<le> 0 \<or> port > 65535 then Inr 1 else Inl (server_addr, port)) }
      else Some (Inl (server_addr, 8080)))"

definition client_connect :: "'w posix \<Rightarrow> string \<Rightarrow> int \<Rightarrow> 'w \<Rightarrow> (int + int) \<times> 'w" where
  "client_connect sys server_addr port w =
     (let (sock, w) = px_socket sys AF_INET SOCK_STREAM 0 w in
      if sock < 0 then (Inr 1, w)
      else let ((gai, result), w) =
              px_getaddrinfo sys server_addr (dec_nat (nat port)) AF_INET SOCK_STREAM IPPROTO_TCP w in
      if gai \<noteq> 0 then (Inr 1, px_close sys sock w)
      else let (connected, w) = connect_any (px_connect sys sock) result w;
               w = px_freeaddrinfo sys result w in
      if \<not> connected then (Inr 1, px_close sys sock w) else (Inl sock, w))"

definition echo_client_main :: "'w posix \<Rightarrow> string list \<Rightarrow> 'w \<Rightarrow> (int \<times> 'w) option option" where
  "echo_client_main sys argv w =
     (case client_arguments argv of None \<Rightarrow> Some None
      | Some (Inr c) \<Rightarrow> Some (Some (c, w))
      | Some (Inl (server_addr, port)) \<Rightarrow>
        (case client_connect sys server_addr port w of
           (Inr c, w) \<Rightarrow> Some (Some (c, w))
         | (Inl sock, w) \<Rightarrow>
           (case client_loop sys sock w of None \<Rightarrow> None | Some None \<Rightarrow> Some None
            | Some (Some (Inl c, w)) \<Rightarrow> Some (Some (c, w))
            | Some (Some (Inr _, w)) \<Rightarrow> Some (Some (0, px_close sys sock (px_shutdown sys sock SHUT_RDWR w))))))"

section \<open>The client for Windows\<close>

text \<open>It sends a line once and waits for as many bytes as were taken; the response has the size of the line.  The calls
  that are not in \<open>winsock\<close>: resolving a name, the output of the response, and the settings of the console.\<close>

record 'w echo_winsock = "'w winsock" +
  wse_getaddrinfo :: "string \<Rightarrow> string \<Rightarrow> int \<Rightarrow> int \<Rightarrow> int \<Rightarrow> 'w \<Rightarrow> (int \<times> bytes list) \<times> 'w"
  wse_freeaddrinfo :: "bytes list \<Rightarrow> 'w \<Rightarrow> 'w"
  wse_recv :: "SOCKET \<Rightarrow> nat \<Rightarrow> 'w \<Rightarrow> (int \<times> bytes) \<times> 'w"
  wse_show :: "bytes \<Rightarrow> 'w \<Rightarrow> 'w"
  wse_std_handle :: "'w \<Rightarrow> 64 word"
  wse_get_console_mode :: "64 word \<Rightarrow> 'w \<Rightarrow> UInt option"
  wse_set_console_mode :: "64 word \<Rightarrow> UInt \<Rightarrow> 'w \<Rightarrow> 'w"
  wse_setlocale :: "string \<Rightarrow> 'w \<Rightarrow> 'w"

definition WinsockInit_new :: "'w echo_winsock \<Rightarrow> 'w \<Rightarrow> bool \<times> 'w" where
  "WinsockInit_new sys w = (let (result, w) = wsk_startup sys w in (result = 0, w))"

definition EnableANSI :: "'w echo_winsock \<Rightarrow> 'w \<Rightarrow> 'w" where
  "EnableANSI sys w =
     (let hOut = wse_std_handle sys w in
      if hOut = -1 then w
      else (case wse_get_console_mode sys hOut w of None \<Rightarrow> w
        | Some dwMode \<Rightarrow> wse_setlocale sys ''Russian'' (wse_set_console_mode sys hOut (dwMode OR 4) w)))"

text \<open>\<open>Inl\<close> is the code \<open>main\<close> returns in the loop.  A call that gives nothing and no error is made again for ever.\<close>

partial_function (option) win_echo_recv_loop ::
    "'w echo_winsock \<Rightarrow> SOCKET \<Rightarrow> int \<Rightarrow> bytes \<Rightarrow> int \<Rightarrow> 'w \<Rightarrow> ((int + bytes) \<times> 'w) option option" where
  "win_echo_recv_loop sys sock sent response total_received w =
     (if total_received < sent then
        (case wse_recv sys sock (nat (sent - total_received)) w of ((received, data), w) \<Rightarrow>
           if received = 0 then Some (Some (Inl 0, wsk_closesocket sys sock w))
           else if received = SOCKET_ERROR then Some (Some (Inl 1, wsk_closesocket sys sock w))
           else (case wr_range response (nat total_received) (take (nat received) data) of None \<Rightarrow> Some None
             | Some response \<Rightarrow> win_echo_recv_loop sys sock sent response (total_received + received) w))
      else Some (Some (Inr response, w)))"

partial_function (option) win_echo_loop ::
    "'w echo_winsock \<Rightarrow> SOCKET \<Rightarrow> string \<Rightarrow> 'w \<Rightarrow> ((int + unit) \<times> 'w) option option" where
  "win_echo_loop sys sock line w =
     (if is_quit line then Some (Some (Inr (), w))
      else (case wsk_send sys sock (line_bytes line) 0 w of (sent, w) \<Rightarrow>
        if sent = SOCKET_ERROR then Some (Some (Inr (), w))
        else (case win_echo_recv_loop sys sock sent (replicate (length line) 0) 0 w of
          None \<Rightarrow> None | Some None \<Rightarrow> Some None
        | Some (Some (Inl c, w)) \<Rightarrow> Some (Some (Inl c, w))
        | Some (Some (Inr response, w)) \<Rightarrow> win_echo_loop sys sock line (wse_show sys response w))))"

definition win_echo_connect :: "'w echo_winsock \<Rightarrow> string \<Rightarrow> int \<Rightarrow> 'w \<Rightarrow> (SOCKET + int) \<times> 'w" where
  "win_echo_connect sys server_addr port w =
     (let (sock, w) = wsk_socket sys AF_INET SOCK_STREAM IPPROTO_TCP w in
      if sock = INVALID_SOCKET then (Inr 1, w)
      else let ((gai, result), w) =
              wse_getaddrinfo sys server_addr (dec_nat (nat port)) AF_INET SOCK_STREAM IPPROTO_TCP w in
      if gai \<noteq> 0 then (Inr 1, wsk_closesocket sys sock w)
      else let (connected, w) = connect_any (wsk_connect sys sock) result w;
               w = wse_freeaddrinfo sys result w in
      if \<not> connected then (Inr 1, wsk_closesocket sys sock w) else (Inl sock, w))"

text \<open>The arguments of the program are not read.  The destructor of \<open>WinsockInit\<close> runs wherever the block is left, but
  not when its constructor throws.\<close>

definition win_echo_main :: "'w echo_winsock \<Rightarrow> string list \<Rightarrow> 'w \<Rightarrow> (int \<times> 'w) option option" where
  "win_echo_main sys argv w =
     (let w = EnableANSI sys w; server_addr = ''127.0.0.1''; port = 8080 in
      if port \<le> 0 \<or> port > 65535 then Some (Some (1, w))
      else let (wsa, w) = WinsockInit_new sys w in
      if \<not> wsa then Some (Some (1, w))
      else (case win_echo_connect sys server_addr port w of
          (Inr c, w) \<Rightarrow> Some (Some (c, wsk_cleanup sys w))
        | (Inl sock, w) \<Rightarrow> (case win_echo_loop sys sock ''test'' w of None \<Rightarrow> None | Some None \<Rightarrow> Some None
            | Some (Some (Inl c, w)) \<Rightarrow> Some (Some (c, wsk_cleanup sys w))
            | Some (Some (Inr _, w)) \<Rightarrow> Some (Some (0, wsk_cleanup sys (wsk_closesocket sys sock w))))))"

section \<open>The server\<close>

text \<open>The globals of the program, the threads it has started, and the rest of the world.  A signal is handled while a call
  runs: a call may change the globals, as \<open>signal_handler\<close> does.\<close>

record 'w echo_server =
  g_running :: bool
  g_listen_sock :: int
  es_threads :: "(int \<times> bytes) list"
  es_world :: 'w

type_synonym 'w server_calls = "'w echo_server posix"

definition signal_handler :: "'w server_calls \<Rightarrow> 'w echo_server \<Rightarrow> 'w echo_server" where
  "signal_handler sys s =
     (let s = s\<lparr> g_running := False \<rparr> in
      if g_listen_sock s \<noteq> -1 then
        let s = px_shutdown sys (g_listen_sock s) SHUT_RDWR s; s = px_close sys (g_listen_sock s) s
        in s\<lparr> g_listen_sock := -1 \<rparr>
      else s)"

text \<open>Waiting for bytes, sending a buffer back from \<open>sent_total\<close> on, leaving the loop, or returned after an error of
  \<open>send\<close>.\<close>

datatype server_at =
    Waiting
  | Echoing bytes nat
  | Leaving
  | Send_failed

definition BUF_SIZE :: nat where "BUF_SIZE = 4096"

definition server_send_head :: "bytes \<Rightarrow> nat \<Rightarrow> server_at" where
  "server_send_head buffer sent_total = (if sent_total < length buffer then Echoing buffer sent_total else Waiting)"

text \<open>A call that says it wrote more than the buffer holds is undefined.\<close>

definition server_received :: "int \<Rightarrow> bytes \<Rightarrow> server_at option" where
  "server_received received data =
     (if received = 0 then Some Leaving else if received < 0 then Some Leaving
      else if nat received \<le> BUF_SIZE \<and> nat received \<le> length data then Some (server_send_head (take (nat received) data) 0)
      else None)"

definition server_sent :: "bytes \<Rightarrow> nat \<Rightarrow> int \<Rightarrow> server_at" where
  "server_sent buffer sent_total sent =
     (if sent \<le> 0 then Send_failed else server_send_head buffer (sent_total + nat sent))"

text \<open>The client's socket is closed on both ways out.  The flag is read before each \<open>recv\<close>.\<close>

partial_function (option) handle_client_loop ::
    "'w server_calls \<Rightarrow> int \<Rightarrow> server_at \<Rightarrow> 'w echo_server \<Rightarrow> 'w echo_server option option" where
  "handle_client_loop sys client_sock at s =
     (case at of
        Waiting \<Rightarrow> if g_running s then
            (case px_recv sys client_sock BUF_SIZE s of ((received, data), s) \<Rightarrow>
              (case server_received received data of None \<Rightarrow> Some None
               | Some at \<Rightarrow> handle_client_loop sys client_sock at s))
          else Some (Some (px_close sys client_sock s))
      | Echoing buffer sent_total \<Rightarrow> (case px_send sys client_sock (drop sent_total buffer) s of (sent, s) \<Rightarrow>
            handle_client_loop sys client_sock (server_sent buffer sent_total sent) s)
      | Leaving \<Rightarrow> Some (Some (px_close sys client_sock s))
      | Send_failed \<Rightarrow> Some (Some (px_close sys client_sock s)))"

definition handle_client :: "'w server_calls \<Rightarrow> int \<Rightarrow> 'w echo_server \<Rightarrow> 'w echo_server option option" where
  "handle_client sys client_sock s = handle_client_loop sys client_sock Waiting s"

text \<open>Accepting clients, each in a detached thread with a copy of its address.\<close>

partial_function (option) echo_accept_loop :: "'w server_calls \<Rightarrow> 'w echo_server \<Rightarrow> 'w echo_server option" where
  "echo_accept_loop sys s =
     (if g_running s then
        (case px_accept sys (g_listen_sock s) s of ((client_sock, client_addr), s) \<Rightarrow>
           if client_sock < 0 then (if \<not> g_running s then Some s else echo_accept_loop sys s)
           else echo_accept_loop sys (s\<lparr> es_threads := es_threads s @ [(client_sock, client_addr)] \<rparr>))
      else Some s)"

definition echo_bind_addr :: "'w server_calls \<Rightarrow> string \<Rightarrow> UInt option" where
  "echo_bind_addr sys bind_addr =
     (if bind_addr = ''*'' \<or> bind_addr = ''any'' \<or> bind_addr = ''0.0.0.0'' then Some 0
      else px_inet_pton sys bind_addr)"

text \<open>The arguments are not read here either.  After an error the listening socket is closed, but \<open>g_listen_sock\<close> keeps it.\<close>

definition echo_server_open :: "'w server_calls \<Rightarrow> 'w echo_server \<Rightarrow> bool \<times> 'w echo_server" where
  "echo_server_open sys s =
     (let port = 8080;
          (sock, s) = px_socket sys AF_INET SOCK_STREAM 0 s;
          s = s\<lparr> g_listen_sock := sock \<rparr> in
      if g_listen_sock s < 0 then (False, s)
      else let (r, s) = px_setsockopt sys (g_listen_sock s) SOL_SOCKET SO_REUSEADDR 1 s in
      if r < 0 then (False, px_close sys (g_listen_sock s) s)
      else (case echo_bind_addr sys ''127.0.0.1'' of None \<Rightarrow> (False, px_close sys (g_listen_sock s) s)
        | Some addr \<Rightarrow>
          let (r, s) = px_bind sys (g_listen_sock s) (sockaddr_in (htons port) addr) s in
          if r < 0 then (False, px_close sys (g_listen_sock s) s)
          else let (r, s) = px_listen sys (g_listen_sock s) SOMAXCONN s in
          if r < 0 then (False, px_close sys (g_listen_sock s) s)
          else (True, s)))"

definition echo_server_main :: "'w server_calls \<Rightarrow> string list \<Rightarrow> 'w \<Rightarrow> (int \<times> 'w echo_server) option" where
  "echo_server_main sys argv w =
     (case echo_server_open sys \<lparr> g_running = True, g_listen_sock = -1, es_threads = [], es_world = w \<rparr> of
        (False, s) \<Rightarrow> Some (1, s)
      | (True, s) \<Rightarrow> map_option (\<lambda>s. (0, s)) (echo_accept_loop sys s))"

section \<open>A client and a server\<close>

text \<open>The connection holds what was sent and not yet received, at most \<open>up_max\<close> bytes towards the server and \<open>down_max\<close>
  towards the client.  A call to \<open>send\<close> takes some of what it is offered, as much as there is room for at most, and waits
  while there is none; \<open>recv\<close> gives some of what is there, and waits while there is nothing.\<close>

record echo_conn =
  ec_client :: client_at
  ec_server :: server_at
  ec_up :: bytes
  ec_down :: bytes

definition may_take :: "nat \<Rightarrow> bytes \<Rightarrow> bytes \<Rightarrow> nat \<Rightarrow> bool" where
  "may_take room queue data n = (0 < n \<and> n \<le> length data \<and> length queue + n \<le> room)"

definition may_give :: "nat \<Rightarrow> bytes \<Rightarrow> nat \<Rightarrow> bool" where
  "may_give room queue n = (0 < n \<and> n \<le> room \<and> n \<le> length queue)"

inductive echo_step :: "nat \<Rightarrow> nat \<Rightarrow> echo_conn \<Rightarrow> echo_conn \<Rightarrow> bool" for up_max down_max where
  client_sends: "\<lbrakk> ec_client c = Sending line i; may_take up_max (ec_up c) (drop i line) n \<rbrakk> \<Longrightarrow>
    echo_step up_max down_max c
      (c\<lparr> ec_client := client_sent line i (int n), ec_up := ec_up c @ take n (drop i line) \<rparr>)"
| client_receives: "\<lbrakk> ec_client c = Receiving line response i; may_give (length line - i) (ec_down c) n;
    client_received line response i (int n) (take n (ec_down c)) = Some at \<rbrakk> \<Longrightarrow>
    echo_step up_max down_max c (c\<lparr> ec_client := at, ec_down := drop n (ec_down c) \<rparr>)"
| server_receives: "\<lbrakk> ec_server c = Waiting; may_give BUF_SIZE (ec_up c) n;
    server_received (int n) (take n (ec_up c)) = Some at \<rbrakk> \<Longrightarrow>
    echo_step up_max down_max c (c\<lparr> ec_server := at, ec_up := drop n (ec_up c) \<rparr>)"
| server_sends: "\<lbrakk> ec_server c = Echoing buffer i; may_take down_max (ec_down c) (drop i buffer) n \<rbrakk> \<Longrightarrow>
    echo_step up_max down_max c
      (c\<lparr> ec_server := server_sent buffer i (int n), ec_down := ec_down c @ take n (drop i buffer) \<rparr>)"

definition echo_start :: "bytes \<Rightarrow> echo_conn" where
  "echo_start line = \<lparr> ec_client = client_send_head line 0, ec_server = Waiting, ec_up = [], ec_down = [] \<rparr>"

definition echo_stuck :: "nat \<Rightarrow> nat \<Rightarrow> echo_conn \<Rightarrow> bool" where
  "echo_stuck up_max down_max c = (\<nexists>c'. echo_step up_max down_max c c')"

section \<open>The connection\<close>

text \<open>Where the bytes of the line are: got back by the client, on their way to it, with the server, on their way to it, or
  not yet sent.\<close>

fun sent_of :: "bytes \<Rightarrow> client_at \<Rightarrow> nat" where
  "sent_of line (Sending l i) = i"
| "sent_of line _ = length line"

fun got_of :: "client_at \<Rightarrow> bytes" where
  "got_of (Receiving l response i) = take i response"
| "got_of (Echoed response) = response"
| "got_of _ = []"

fun pending_of :: "server_at \<Rightarrow> bytes" where
  "pending_of (Echoing buffer i) = drop i buffer"
| "pending_of _ = []"

fun echo_client_ok :: "bytes \<Rightarrow> client_at \<Rightarrow> bool" where
  "echo_client_ok line (Sending l i) = (l = line \<and> i < length line)"
| "echo_client_ok line (Receiving l response i) = (l = line \<and> i < length line \<and> length response = length line)"
| "echo_client_ok line (Echoed response) = (length response = length line)"
| "echo_client_ok line (Exited c) = False"

fun echo_server_ok :: "server_at \<Rightarrow> bool" where
  "echo_server_ok Waiting = True"
| "echo_server_ok (Echoing buffer i) = (i < length buffer \<and> length buffer \<le> BUF_SIZE)"
| "echo_server_ok _ = False"

definition conn_ok :: "nat \<Rightarrow> nat \<Rightarrow> bytes \<Rightarrow> echo_conn \<Rightarrow> bool" where
  "conn_ok up_max down_max line c =
     (echo_client_ok line (ec_client c) \<and> echo_server_ok (ec_server c) \<and>
      length (ec_up c) \<le> up_max \<and> length (ec_down c) \<le> down_max \<and>
      got_of (ec_client c) @ ec_down c @ pending_of (ec_server c) @ ec_up c = take (sent_of line (ec_client c)) line)"

definition conn_work :: "bytes \<Rightarrow> echo_conn \<Rightarrow> nat" where
  "conn_work line c = 4 * (length line - sent_of line (ec_client c)) + 3 * length (ec_up c) +
     2 * length (pending_of (ec_server c)) + length (ec_down c)"

text \<open>Where a call leads.\<close>

lemma client_recv_head_ok:
  "length response = length line \<Longrightarrow> i \<le> length line \<Longrightarrow> echo_client_ok line (client_recv_head line response i) \<and>
   sent_of line (client_recv_head line response i) = length line \<and> got_of (client_recv_head line response i) = take i response"
  by (auto simp: client_recv_head_def)

lemma client_send_head_ok:
  "i \<le> length line \<Longrightarrow> echo_client_ok line (client_send_head line i) \<and> sent_of line (client_send_head line i) = i \<and>
   got_of (client_send_head line i) = []"
  using client_recv_head_ok [of "replicate (length line) 0" line 0] by (auto simp: client_send_head_def)

lemma client_sent_ok:
  "0 < n \<Longrightarrow> i + n \<le> length line \<Longrightarrow> echo_client_ok line (client_sent line i (int n)) \<and>
   sent_of line (client_sent line i (int n)) = i + n \<and> got_of (client_sent line i (int n)) = []"
  using client_send_head_ok [of "i + n" line] by (simp add: client_sent_def)

lemma client_received_ok:
  assumes "0 < n" "i + n \<le> length line" "length response = length line" "length data = n"
  shows "\<exists>at. client_received line response i (int n) data = Some at \<and> echo_client_ok line at \<and>
    sent_of line at = length line \<and> got_of at = take i response @ data"
proof -
  have "length (overwrite response i data) = length line" "take (i + n) (overwrite response i data) = take i response @ data"
    using assms by (auto simp: overwrite_def)
  thus ?thesis
    using assms client_recv_head_ok [of "overwrite response i data" line "i + n"]
    by (simp add: client_received_def wr_range_Some)
qed

lemma server_send_head_ok:
  "length buffer \<le> BUF_SIZE \<Longrightarrow> echo_server_ok (server_send_head buffer i) \<and> pending_of (server_send_head buffer i) = drop i buffer"
  by (simp add: server_send_head_def)

lemma server_received_ok:
  "0 < n \<Longrightarrow> n \<le> BUF_SIZE \<Longrightarrow> length data = n \<Longrightarrow>
   \<exists>at. server_received (int n) data = Some at \<and> echo_server_ok at \<and> pending_of at = data"
  using server_send_head_ok [of data 0] by (simp add: server_received_def)

lemma server_sent_ok:
  "0 < n \<Longrightarrow> length buffer \<le> BUF_SIZE \<Longrightarrow>
   echo_server_ok (server_sent buffer i (int n)) \<and> pending_of (server_sent buffer i (int n)) = drop (i + n) buffer"
  using server_send_head_ok [of buffer "i + n"] by (simp add: server_sent_def)

text \<open>No byte is lost or changes its place, and each step leaves less to do.\<close>

lemma take_more: "take i xs @ take n (drop i xs) = take (i + n) xs"
  by (simp add: take_add)

lemma conn_ok_step:
  assumes "echo_step up_max down_max c c'" "conn_ok up_max down_max line c"
  shows "conn_ok up_max down_max line c' \<and> conn_work line c' < conn_work line c"
  using assms
proof (induction rule: echo_step.induct)
  case (client_sends c l i n)
  have n: "l = line" "0 < n" "i + n \<le> length line" "length (ec_up c) + n \<le> up_max" and
    e: "ec_down c @ pending_of (ec_server c) @ ec_up c = take i line"
    using client_sends by (simp_all add: conn_ok_def may_take_def) linarith
  have "ec_down c @ pending_of (ec_server c) @ ec_up c @ take n (drop i line) = take (i + n) line"
    by (subst take_more [symmetric], subst e [symmetric]) simp
  moreover have "length (take n (drop i line)) = n" using n by simp
  ultimately show ?case using n client_sends client_sent_ok [OF n(2,3)]
    by (simp add: conn_ok_def conn_work_def)
next
  case (client_receives c l response i n at)
  have n: "l = line" "length response = length line" "0 < n" "i + n \<le> length line" "n \<le> length (ec_down c)" and
    e: "take i response @ ec_down c @ pending_of (ec_server c) @ ec_up c = line"
    using client_receives by (simp_all add: conn_ok_def may_give_def) linarith
  have "(take i response @ take n (ec_down c)) @ drop n (ec_down c) @ pending_of (ec_server c) @ ec_up c = line"
    using e by (metis append.assoc append_take_drop_id)
  moreover have "echo_client_ok line at" "sent_of line at = length line" "got_of at = take i response @ take n (ec_down c)"
    using client_received_ok [OF n(3,4,2), of "take n (ec_down c)"] n(1,5) client_receives.hyps(3) by auto
  ultimately show ?case using n(3-) client_receives.hyps(1) client_receives.prems by (simp add: conn_ok_def conn_work_def) linarith
next
  case (server_receives c n at)
  have n: "0 < n" "n \<le> BUF_SIZE" "n \<le> length (ec_up c)" and
    e: "got_of (ec_client c) @ ec_down c @ ec_up c = take (sent_of line (ec_client c)) line"
    using server_receives by (simp_all add: conn_ok_def may_give_def)
  moreover have "echo_server_ok at" "pending_of at = take n (ec_up c)"
    using server_received_ok [OF n(1,2), of "take n (ec_up c)"] n(3) server_receives.hyps(3) by auto
  ultimately show ?case using n server_receives.hyps(1) server_receives.prems by (simp add: conn_ok_def conn_work_def) linarith
next
  case (server_sends c buffer i n)
  have n: "length buffer \<le> BUF_SIZE" "0 < n" "i + n \<le> length buffer" "length (ec_down c) + n \<le> down_max" and
    e: "got_of (ec_client c) @ ec_down c @ drop i buffer @ ec_up c = take (sent_of line (ec_client c)) line"
    using server_sends by (simp_all add: conn_ok_def may_take_def) linarith
  have "drop i buffer = take n (drop i buffer) @ drop (i + n) buffer" by (metis add.commute append_take_drop_id drop_drop)
  hence "got_of (ec_client c) @ ec_down c @ take n (drop i buffer) @ drop (i + n) buffer @ ec_up c =
      take (sent_of line (ec_client c)) line" using e by (metis append.assoc)
  thus ?case using n server_sends.hyps(1) server_sends.prems server_sent_ok [OF n(2,1), of i]
    by (simp add: conn_ok_def conn_work_def)
qed

lemma conn_ok_start: "conn_ok up_max down_max line (echo_start line)"
  using client_send_head_ok [of 0 line] by (simp add: conn_ok_def echo_start_def)

lemma conn_work_start: "conn_work line (echo_start line) = 4 * length line"
  using client_send_head_ok [of 0 line] by (simp add: conn_work_def echo_start_def)

lemma conn_run:
  assumes "(echo_step up_max down_max ^^ n) (echo_start line) c"
  shows "conn_ok up_max down_max line c \<and> conn_work line c + n \<le> 4 * length line"
  using assms
proof (induction n arbitrary: c)
  case 0 thus ?case using conn_ok_start conn_work_start by auto
next
  case (Suc n)
  then obtain b where "(echo_step up_max down_max ^^ n) (echo_start line) b" "echo_step up_max down_max b c" by auto
  thus ?case using Suc.IH conn_ok_step [of up_max down_max b c line] by fastforce
qed

lemma conn_reachable_ok: "(echo_step up_max down_max)\<^sup>*\<^sup>* (echo_start line) c \<Longrightarrow> conn_ok up_max down_max line c"
  using conn_run by (metis rtranclp_imp_relpowp)

text \<open>A connection in order stands still when the line is back, or when the client cannot send because all of both queues
  is taken and the server cannot send either.\<close>

lemma may_take_one: "data \<noteq> [] \<Longrightarrow> length queue < room \<Longrightarrow> may_take room queue data 1"
  by (cases data) (auto simp: may_take_def)

lemma may_give_one: "queue \<noteq> [] \<Longrightarrow> 0 < room \<Longrightarrow> may_give room queue 1"
  by (cases queue) (auto simp: may_give_def)

lemma stuck_server:
  assumes "conn_ok up_max down_max line c" "echo_stuck up_max down_max c"
  shows "(ec_server c = Waiting \<and> ec_up c = []) \<or>
    (\<exists>buffer i. ec_server c = Echoing buffer i \<and> i < length buffer \<and> down_max = length (ec_down c))"
proof (cases "ec_server c")
  case Waiting
  moreover have "\<not> may_give BUF_SIZE (ec_up c) 1"
  proof
    assume g: "may_give BUF_SIZE (ec_up c) 1"
    then obtain at where "server_received (int 1) (take 1 (ec_up c)) = Some at"
      using server_received_ok [of 1 "take 1 (ec_up c)"] by (auto simp: may_give_def)
    thus False using server_receives [OF Waiting g, of at up_max down_max] assms(2) by (auto simp: echo_stuck_def)
  qed
  ultimately show ?thesis using may_give_one [of "ec_up c" BUF_SIZE] by (auto simp: BUF_SIZE_def)
next
  case (Echoing buffer i)
  moreover have "\<not> may_take down_max (ec_down c) (drop i buffer) 1"
    using server_sends [OF Echoing] assms(2) by (auto simp: echo_stuck_def)
  ultimately show ?thesis using assms(1) may_take_one [of "drop i buffer" "ec_down c" down_max] by (fastforce simp: conn_ok_def)
qed (use assms(1) in \<open>auto simp: conn_ok_def\<close>)

lemma stuck_full:
  assumes ok: "conn_ok up_max down_max line c" and stuck: "echo_stuck up_max down_max c" and room: "0 < up_max" "0 < down_max"
    and sending: "ec_client c = Sending l i"
  shows "length (ec_up c) = up_max \<and> length (ec_down c) = down_max \<and> l = line \<and> up_max + down_max < i \<and> i < length line"
proof -
  have l: "l = line" "i < length line" using ok sending by (auto simp: conn_ok_def)
  have "\<not> may_take up_max (ec_up c) (drop i line) 1"
    using client_sends [of c line i up_max 1 down_max] sending l stuck by (auto simp: echo_stuck_def)
  hence up: "length (ec_up c) = up_max" using may_take_one [of "drop i line" "ec_up c" up_max] l(2) ok by (fastforce simp: conn_ok_def)
  then obtain buffer j where e: "ec_server c = Echoing buffer j" "j < length buffer" "down_max = length (ec_down c)"
    using stuck_server [OF ok stuck] room(1) by auto
  have "length (got_of (ec_client c) @ ec_down c @ pending_of (ec_server c) @ ec_up c) = i"
    using ok sending l by (simp add: conn_ok_def)
  thus ?thesis using sending e up l by auto
qed

lemma stuck_cases:
  assumes ok: "conn_ok up_max down_max line c" and stuck: "echo_stuck up_max down_max c" and room: "0 < up_max" "0 < down_max"
  shows "ec_client c = Echoed line \<or>
    (\<exists>i. ec_client c = Sending line i \<and> up_max + down_max < i \<and> i < length line)"
proof (cases "ec_client c")
  case (Sending l i)
  thus ?thesis using stuck_full [OF ok stuck room Sending] by auto
next
  case (Receiving l response i)
  hence l: "l = line" "i < length line" "length response = length line" using ok by (auto simp: conn_ok_def)
  have down: "ec_down c = []"
  proof (rule ccontr)
    assume "ec_down c \<noteq> []"
    hence g: "may_give (length line - i) (ec_down c) 1" using l(2) by (intro may_give_one) auto
    then obtain at where "client_received line response i (int 1) (take 1 (ec_down c)) = Some at"
      using client_received_ok [of 1 i line response "take 1 (ec_down c)"] l by (auto simp: may_give_def)
    thus False using client_receives [of c line response i 1 at up_max down_max] Receiving l(1) g stuck
      by (auto simp: echo_stuck_def)
  qed
  hence "ec_server c = Waiting" "ec_up c = []" using stuck_server [OF ok stuck] room(2) by auto
  hence "take i response = line" using ok Receiving down l(1) by (simp add: conn_ok_def)
  thus ?thesis using l by (metis length_take min.absorb2 nat_less_le)
qed (use ok in \<open>auto simp: conn_ok_def\<close>)

text \<open>From every state some run leads to a state that stands still.\<close>

lemma runs_end:
  "conn_ok up_max down_max line c \<Longrightarrow> \<exists>c'. (echo_step up_max down_max)\<^sup>*\<^sup>* c c' \<and> echo_stuck up_max down_max c'"
proof (induction "conn_work line c" arbitrary: c rule: less_induct)
  case less
  show ?case
  proof (cases "echo_stuck up_max down_max c")
    case False
    then obtain b where "echo_step up_max down_max c b" by (auto simp: echo_stuck_def)
    thus ?thesis using conn_ok_step [OF _ less.prems] less.hyps [of b] by (meson converse_rtranclp_into_rtranclp)
  qed auto
qed

lemma conn_ok_sent:
  "conn_ok up_max down_max line c \<Longrightarrow>
   sent_of line (ec_client c) = length (got_of (ec_client c)) + length (ec_down c) + length (pending_of (ec_server c)) + length (ec_up c)"
proof -
  assume ok: "conn_ok up_max down_max line c"
  have "sent_of line (ec_client c) \<le> length line" using ok by (cases "ec_client c") (auto simp: conn_ok_def)
  moreover have "length (got_of (ec_client c) @ ec_down c @ pending_of (ec_server c) @ ec_up c) =
      length (take (sent_of line (ec_client c)) line)" using ok by (simp only: conn_ok_def)
  ultimately show ?thesis by simp
qed

lemma pending_small: "echo_server_ok at \<Longrightarrow> length (pending_of at) \<le> 4096"
  by (cases at) (auto simp: BUF_SIZE_def)

lemma small_line_echoed:
  assumes "0 < up_max" "0 < down_max" "length line \<le> up_max + down_max + 1" "conn_ok up_max down_max line c"
    "echo_stuck up_max down_max c"
  shows "ec_client c = Echoed line"
  using stuck_cases [OF assms(4,5,1,2)] assms(3) by auto

text \<open>While the client sends, it has got nothing; it cannot end sending a line that fits nowhere.\<close>

lemma long_line_sending:
  assumes "(echo_step up_max down_max)\<^sup>*\<^sup>* (echo_start line) c" "up_max + down_max + 4096 < length line"
  shows "\<exists>i. ec_client c = Sending line i"
  using assms(1)
proof (induction rule: rtranclp_induct)
  case base thus ?case using assms(2) by (auto simp: echo_start_def client_send_head_def)
next
  case (step b c)
  then obtain i where b: "ec_client b = Sending line i" by blast
  have ok: "conn_ok up_max down_max line c" using step.hyps by (intro conn_reachable_ok) auto
  have "ec_client c = ec_client b \<or> (\<exists>n. ec_client c = client_sent line i (int n) \<and> 0 < n)"
    using step.hyps(2) b by (cases rule: echo_step.cases) (auto simp: may_take_def)
  moreover have "ec_client c \<noteq> ec_client b \<Longrightarrow> got_of (ec_client c) = [] \<Longrightarrow> sent_of line (ec_client c) < length line"
    using conn_ok_sent [OF ok] ok assms(2) pending_small [of "ec_server c"] by (simp add: conn_ok_def)
  ultimately show ?case using b by (auto simp: client_sent_def client_send_head_def client_recv_head_def split: if_splits)
qed

section \<open>One program at a time\<close>

text \<open>\<open>recv\<close> gives at most what was asked for, and as many bytes as it says.\<close>

definition recv_fits :: "'w posix \<Rightarrow> bool" where
  "recv_fits sys = (\<forall>sock n w. fst (fst (px_recv sys sock n w)) \<le> int n \<and>
     length (snd (fst (px_recv sys sock n w))) = nat (fst (fst (px_recv sys sock n w))))"

lemma client_exchange_call_ok:
  assumes "recv_fits sys" "client_busy at" "echo_client_ok line at"
  shows "\<exists>at' w'. client_exchange_call sys sock at w = Some (at', w') \<and> (echo_client_ok line at' \<or> at' = Exited 0 \<or> at' = Exited 1)"
proof (cases at)
  case (Sending l i)
  obtain sent w1 where s: "px_send sys sock (drop i l) w = (sent, w1)" by force
  have "echo_client_ok line (client_sent line i sent) \<or> client_sent line i sent = Exited 1"
    by (auto simp: client_sent_def client_send_head_def client_recv_head_def)
  thus ?thesis using Sending s assms(3) by auto
next
  case (Receiving l response i)
  hence l: "l = line" "i < length line" "length response = length line" using assms(3) by simp_all
  obtain received data w1 where r: "px_recv sys sock (length line - i) w = ((received, data), w1)" by (metis prod.collapse)
  have fits: "received \<le> int (length line - i)" "length data = nat received"
    using assms(1) r unfolding recv_fits_def by (metis fst_conv snd_conv)+
  have "\<exists>at'. client_received line response i received data = Some at' \<and> (echo_client_ok line at' \<or> at' = Exited 0 \<or> at' = Exited 1)"
  proof (cases "0 < received")
    case True
    hence "client_received line response i (int (nat received)) data = client_received line response i received data"
      "i + nat received \<le> length line" using fits(1) l(2) by auto
    thus ?thesis using True client_received_ok [of "nat received" i line response data] l(3) fits(2) by auto
  qed (auto simp: client_received_def)
  thus ?thesis using Receiving r l(1) by auto
qed (use assms in auto)

text \<open>The exchange of a line ends, in its echo or in the end of the program.\<close>

lemma client_exchange_outcome:
  assumes "recv_fits sys" "echo_client_ok line at"
  shows "\<exists>at' w'. client_exchange sys sock at w = Some (at', w') \<and>
    (at' = Exited 0 \<or> at' = Exited 1 \<or> (\<exists>response. at' = Echoed response \<and> length response = length line))"
  using assms
proof (induction sys sock at w rule: client_exchange.induct)
  case (1 sys sock at w)
  show ?case
  proof (cases "client_busy at")
    case True
    then obtain at' w' where c: "client_exchange_call sys sock at w = Some (at', w')"
        "echo_client_ok line at' \<or> at' = Exited 0 \<or> at' = Exited 1"
      using client_exchange_call_ok [OF "1.prems"(1) _ "1.prems"(2)] by blast
    have "client_exchange sys sock at w = client_exchange sys sock at' w'"
      using True c(1) by (subst client_exchange.simps) simp
    moreover have "at' = Exited x \<Longrightarrow> client_exchange sys sock at' w' = Some (Exited x, w')" for x
      by (simp add: client_exchange.simps)
    ultimately show ?thesis using "1.IH" [OF True c(1) refl "1.prems"(1)] c(2) by auto
  next
    case False
    thus ?thesis using "1.prems"(2) by (cases at) (simp_all add: client_exchange.simps)
  qed
qed

text \<open>What the client for Windows shows when \<open>send\<close> took only the first bytes of a line and they came back at once.\<close>

lemma win_partial_echo:
  assumes "wse_recv sys sock k w = ((int k, data), w')" "length data = k" "0 < k" "k \<le> n"
  shows "win_echo_recv_loop sys sock (int k) (replicate n 0) 0 w = Some (Some (Inr (data @ replicate (n - k) 0), w'))"
proof -
  have "wr_range (replicate n 0) 0 data = Some (data @ replicate (n - k) 0)"
    using assms by (simp add: wr_range_def overwrite_def)
  moreover have "win_echo_recv_loop sys sock (int k) response (int k) w' = Some (Some (Inr response, w'))" for response
    by (subst win_echo_recv_loop.simps) simp
  ultimately show ?thesis using assms by (subst win_echo_recv_loop.simps) (simp add: SOCKET_ERROR_def)
qed

text \<open>A call that fails ends the client for Windows with code 0 when it was \<open>send\<close>, with code 1 when it was \<open>recv\<close>.\<close>

lemma win_send_fails:
  "\<not> is_quit line \<Longrightarrow> wsk_send sys sock (line_bytes line) 0 w = (SOCKET_ERROR, w') \<Longrightarrow>
   win_echo_loop sys sock line w = Some (Some (Inr (), w'))"
  by (subst win_echo_loop.simps) simp

text \<open>A signal that comes while the server waits for a client makes \<open>accept\<close> fail and ends the loop; a failing \<open>accept\<close>
  without a signal is made again.\<close>

lemma accept_after_signal:
  "px_accept sys (g_listen_sock s) s = ((client_sock, a), s') \<Longrightarrow> client_sock < 0 \<Longrightarrow>
   echo_accept_loop sys s = (if \<not> g_running s then Some s else if \<not> g_running s' then Some s' else echo_accept_loop sys s')"
  by (subst echo_accept_loop.simps) simp

section \<open>Properties\<close>

text \<open>C19: a line comes back. Let the echo client send a line that is at most one byte longer than the two queues of the
  connection together. However the system cuts the sending and receiving of client and server into pieces and whichever of
  the two runs when, they make at most four steps for each byte, the whole never stands still before the client has shown
  exactly the line it sent, and every state from which it goes on can reach that end.\<close>

theorem echo_line_comes_back:
  assumes "0 < up_max" "0 < down_max" "length line \<le> up_max + down_max + 1"
    and "(echo_step up_max down_max ^^ n) (echo_start line) c"
  shows "n \<le> 4 * length line \<and> (echo_stuck up_max down_max c \<longrightarrow> ec_client c = Echoed line) \<and>
    (\<exists>c'. (echo_step up_max down_max)\<^sup>*\<^sup>* c c' \<and> ec_client c' = Echoed line)"
proof -
  have ok: "conn_ok up_max down_max line c" and n: "n \<le> 4 * length line" using conn_run [OF assms(4)] by auto
  obtain c' where c': "(echo_step up_max down_max)\<^sup>*\<^sup>* c c'" "echo_stuck up_max down_max c'" using runs_end [OF ok] by blast
  have "(echo_step up_max down_max)\<^sup>*\<^sup>* (echo_start line) c'"
    using relpowp_imp_rtranclp [OF assms(4)] c'(1) by (rule rtranclp_trans)
  thus ?thesis using n c' small_line_echoed [OF assms(1-3)] conn_reachable_ok ok by blast
qed

theorem echo_line_comes_back_witness:
  "\<exists>c. (echo_step 1 1)\<^sup>*\<^sup>* (echo_start (line_bytes ''abc'')) c \<and> ec_client c = Echoed (line_bytes ''abc'')"
  using echo_line_comes_back [of 1 1 "line_bytes ''abc''" 0 "echo_start (line_bytes ''abc'')"] by (simp add: line_bytes_def)

text \<open>C38: a long line blocks both programs. When a line is longer than the two queues of the connection and the server's
  buffer together, the client, which reads nothing before the whole line is sent, is sending in every state that can be
  reached, and from each of them the programs come to a state in which both wait for room for ever.\<close>

theorem long_line_blocks:
  assumes "0 < up_max" "0 < down_max" "up_max + down_max + BUF_SIZE < length line"
    and "(echo_step up_max down_max)\<^sup>*\<^sup>* (echo_start line) c"
  shows "(\<exists>i. ec_client c = Sending line i) \<and>
    (\<exists>c' i. (echo_step up_max down_max)\<^sup>*\<^sup>* c c' \<and> echo_stuck up_max down_max c' \<and> ec_client c' = Sending line i \<and>
      length (ec_up c') = up_max \<and> length (ec_down c') = down_max)"
proof -
  have long: "up_max + down_max + 4096 < length line" using assms(3) by (simp add: BUF_SIZE_def)
  obtain c' where c': "(echo_step up_max down_max)\<^sup>*\<^sup>* c c'" "echo_stuck up_max down_max c'"
    using runs_end [OF conn_reachable_ok [OF assms(4)]] by blast
  have reach: "(echo_step up_max down_max)\<^sup>*\<^sup>* (echo_start line) c'" using assms(4) c'(1) by (rule rtranclp_trans)
  then obtain i where "ec_client c' = Sending line i" using long_line_sending [OF _ long] by blast
  thus ?thesis
    using long_line_sending [OF assms(4) long] c' stuck_full [OF conn_reachable_ok [OF reach] c'(2) assms(1,2)] by blast
qed

theorem long_line_blocks_witness:
  "\<exists>c. (echo_step 1 1)\<^sup>*\<^sup>* (echo_start (replicate 5000 0)) c \<and> echo_stuck 1 1 c \<and> ec_client c \<noteq> Echoed (replicate 5000 0)"
  using long_line_blocks [of 1 1 "replicate 5000 0" "echo_start (replicate 5000 0)"] by (force simp: BUF_SIZE_def)

end
