(* ===== verification/Spec2Isabelle.thy ===== *)
theory Spec2Isabelle
  imports FullPacket SocketFilter Layers SafeReceive Authorisation ServerDriver ClientCapture Http Database Installer WinSockets Applications
    ViewRefinement EchoApps
begin

text \<open>
  \<^bold>\<open>A verification library for the QVPN tunnel.\<close>

  QVPN (directory \<open>QVPN/QVPN Lib\<close>) is a user-space VPN written in C++20. A client captures IP packets, turns
  the transport header of each into a compact block of protocol data, wraps that block, the addresses of the
  flow and the payload into a TLS application record, and sends the record to the server over one TCP
  connection. The server takes the record out of the byte stream, unwraps it, rebuilds a packet for the
  destination and sends it through a raw socket; a BPF program (\<open>QVPN/QVPN Socket Filter\<close>) keeps the kernel
  from delivering anything but the replies. Replies take the same way back.

  \<^bold>\<open>How the code is read.\<close> \<open>UByte\<close>, \<open>UShort\<close> and \<open>UInt\<close> are words of 8, 16 and 32 bits, so every narrowing
  and wrap-around of the source is in the definitions; \<open>size_t\<close> and pointers are natural numbers, signed
  distances are integers. A buffer is a list of bytes and a pointer an index into it. An access outside a
  buffer, which is undefined in C++, is \<open>None\<close>: an operation that returns \<open>Some\<close> has been shown to stay
  inside its buffers. The owning classes (\<open>...LittleEndian\<close>, here \<open>...LE\<close>) are their byte vectors. The
  viewing classes (\<open>...View\<close>) are records of pointers, and their setters return the changed memory. A member
  function \<open>C::f\<close> is the definition \<open>C_f\<close>, a constructor is \<open>C_of_...\<close> or \<open>C_new\<close>.

  \<^bold>\<open>Theories.\<close>

  \<^item> \<open>QBase\<close>: types, checked reads and writes, big-endian words, and their simplification rules
    (\<open>bytes_simps\<close>).
  \<^item> \<open>NetAddress\<close> (\<open>qvpn_lib.hpp/.cpp\<close>, \<open>qvpn_tools.cpp\<close>): protocol numbers, \<open>IPv4Address\<close>, \<open>IPv6Address\<close>,
    \<open>NetAddr\<close>, the text parser, \<open>TcpFlagsObject\<close>. Shown: conversions lose nothing; the dotted text parses
    back.
  \<^item> \<open>Checksum\<close> (the loops of \<open>recalculate_ip_checksum\<close> and \<open>recalculate_transport_checksum\<close>): shown to end
    and to be one's complement arithmetic, so that a stored checksum verifies.
  \<^item> \<open>Ipv4Packet\<close>, \<open>TcpPacket\<close>, \<open>UdpPacket\<close> (\<open>qvpn_structures.hpp/.cpp\<close>): the owning and viewing header
    classes, their generators and generation strategy. The C++ concepts the classes satisfy are locales with
    the laws of the accessors, interpreted on both kinds of class.
  \<^item> \<open>ViewRefinement\<close>: the two kinds of class against each other. Shown: a viewing class is the owning class on the
    bytes it stands on, for the accessors and setters of the fields and for the checksum; how the size of an IPv4 header with
    options differs.
  \<^item> \<open>QTunnelProto\<close>: \<open>QTunnelProtoData\<close>, \<open>QTunnelProxy\<close>, \<open>QTunnelData\<close> and the TCP and UDP schemes. Shown: a
    header collected into protocol data and generated again is the same header with new ports.
  \<^item> \<open>FullPacket\<close>: the IPv4 specialisations of \<open>FullPacket\<close> and \<open>NoNetPacket\<close>. Shown: recalculation makes
    both checksums of a whole packet without IPv4 options verify, and what becomes of them with options; a packet rebuilt from tunnel data carries what was sent.
  \<^item> \<open>SocketFilter\<close>: \<open>bpf_filter.c\<close> and the class \<open>QVPN_SocketFilter\<close>. The kernel's load and lookup helpers
    are parameters with their documented behaviour as named hypotheses. Shown: of plain IPv4 packets exactly the replies pass;
    with options the decision is about the wrong bytes.
  \<^item> \<open>PacketManager\<close> (\<open>qvpn_driver.hpp/.cpp\<close>): splitting, the builders, and the table of packets under
    construction. Shown: what is sent is built again; building returns on all input and keeps the table
    well-formed.
  \<^item> \<open>TlsRecord\<close>: records and application data with their generators and \<open>bytes_parse\<close>.
  \<^item> \<open>Layers\<close>: the layer interface, the quiet layer, the layer settings, and \<open>encode_data\<close>/\<open>decode_data\<close> of
    the client and server drivers. The contract of a layer is the locale \<open>layer_codec\<close>, closed under
    stacking and interpreted on the quiet layer and on the default settings.
  \<^item> \<open>SafeReceive\<close> (\<open>qvpn_lib.hpp\<close>, \<open>qvpn_net_tools\<close> for Linux): \<open>SafeReceiveData\<close>, \<open>receive\<close> and
    \<open>safe_recv\<close>. The contract of an object template is the locale \<open>proto_template\<close>, interpreted on both record
    classes.

  \<^item> \<open>TlsFields\<close>, \<open>TlsHello\<close> (\<open>qvpn_structures.hpp/.cpp\<close>): the fields, extensions, messages and hellos of the
    handshake, owning and viewing, with the default generation strategies. The contract of a field that begins
    with its own length is the locale \<open>tls_field\<close>, interpreted on the four such fields. Shown: what a strategy
    generates is a well-formed hello whose scheme covers every byte; the search for the server name.
  \<^item> \<open>Settings\<close> (\<open>qvpn_driver.hpp/.cpp\<close>, \<open>qvpn_lib.hpp/.cpp\<close>): connection settings of client and server,
    whitelists, user statistics. The values read from the settings files are parameters.
  \<^item> \<open>Authorisation\<close> (\<open>qvpn_driver.hpp\<close>): \<open>init\<close>, \<open>try_reconnect\<close> and \<open>encode_and_send\<close> of the client, a round of
    \<open>listen_and_connect_socket_\<close> of the server. Shown: the client is connected exactly when the database
    knows its user; nothing else is served; reconnecting ends.

  \<^item> \<open>Sockets\<close> (\<open>qvpn_net_tools\<close> for Linux, \<open>qvpn_lib\<close>): \<open>QVPN_Socket\<close>, \<open>QVPN_RawSocket\<close>, the factory \<open>QVPNNetTools\<close> and
    their helpers. The operating system is a record of the system calls over a state of any type. What connecting
    and binding store in a socket is the locale \<open>endpoint\<close>, interpreted on both classes of each build.
  \<^item> \<open>WinSockets\<close> (\<open>qvpn_net_tools\<close> and \<open>qvpn_socket_filters\<close> for Windows): the same classes in the Windows build, under
    names that begin with \<open>Win\<close>, over a record of the Winsock functions and with address structures as bytes. They
    are further instances of \<open>endpoint\<close>. Shown: connecting reads behind the address structure; a socket bound to an
    IPv4 address accepts clients; how filter keys differ from those of Linux.
  \<^item> \<open>PreParser\<close> (\<open>qvpn_tools.hpp\<close>): \<open>PacketPreParser\<close> and the packet class for unknown packets.
  \<^item> \<open>ServerDriver\<close> (\<open>qvpn_driver.hpp\<close>): the connections of the server, the packets it builds, a round of the request
    loop and of the response loop. The running server, with any number of clients, is the inductive relation
    \<open>server_step\<close>, each step a whole round. Shown: every socket in the tables leads to the endpoint of its key in
    every reachable state; what a client sent is sent on, and what comes back reaches it; what goes wrong for UDP,
    after a reset, and with two clients on one flow.

  \<^item> \<open>Database\<close> (\<open>QVPN Server App/src/database.cpp\<close>): the users and statistics of the server application. SQLite is a record
    of its calls; what it documents of one query is the hypothesis \<open>selects_matching\<close>. Shown: whom the server authorises.
  \<^item> \<open>Installer\<close> (\<open>qvpn_driver.hpp\<close>): \<open>ConnectionInstaller\<close>, which makes the handshake of a TCP connection through a raw
    socket, and the loop around it. Nothing calls them at present. Shown: the numbers it sends and when the loop ends.
  \<^item> \<open>TcpOptions\<close> (\<open>qvpn_structures\<close>, \<open>qvpn_lib\<close>): single options and lists of options, owning and viewing, and their
    text, which is printed for every captured packet. Shown: when the loop over the options ends and what it prints.
  \<^item> \<open>Library\<close> (\<open>qvpn_lib.hpp/.cpp\<close>, \<open>qvpn_tools.hpp\<close>): the version of the library, the names of modes, protocols and
    addresses, the layout of labels, the two loggers. The clock and \<open>std::vformat\<close> are arguments. Shown: what each level
    prints; the names of modes read back; what the version comes out as.
  \<^item> \<open>FriendlyView\<close> (\<open>qvpn_structures\<close>, \<open>qvpn_driver\<close>): the texts of headers, packets, layers and settings. Server and client
    print the packets they handle: the rounds of their loops need these texts, through \<open>printed\<close>, and do not return
    without them. Shown: a packet in memory has a text unless its options trap the loop.
  \<^item> \<open>Http\<close> (\<open>qvpn_tools\<close>, \<open>qvpn_structures\<close>): the tables and functions of \<open>HttpTools\<close>, requests and responses, owning and
    viewing. Nothing in the tunnel uses them yet. Shown: what header lines and the end of the header come out as.
  \<^item> \<open>ClientCapture\<close> (\<open>windivert_ext.hpp/.cpp\<close>, \<open>qvpn_driver.hpp\<close>, \<open>qvpn_tools\<close>): the client on Windows: filter texts,
    the filters and handles of the capture driver, one round of its outgoing and of its incoming loop, the speed meter.
    WinDivert is a record of its calls over a state of any type. Shown: what the filters are; a packet rebuilt from a
    captured one and the server's data carries that data with valid lengths and checksums.
  \<^item> \<open>Adapters\<close> (\<open>qvpn_structures.hpp\<close>, \<open>wintun_ext\<close>, \<open>pcap_ext\<close>): network adapters, the Wintun and the pcap driver over
    records of the calls. The client still makes a Wintun driver but captures with WinDivert. Shown: which prefixes are
    understood; what is undefined when no adapter or session was made.
  \<^item> \<open>Applications\<close> (\<open>QVPN Client App\<close>, \<open>QVPN Server App\<close>, \<open>qvpn_driver.hpp\<close>): the two \<open>main\<close> functions with \<open>VPNClient\<close> and the
    constructors of the drivers. A thread opens its driver when it is started. Shown: the texts with which the client
    opens WinDivert and how it ends; on which sockets the server listens.

  \<^item> \<open>EchoApps\<close> (\<open>QVPN User Client App Linux\<close>, \<open>QVPN User Client App Windows\<close>, \<open>QVPN User Server App Linux\<close>): the echo
    programs with which the tunnel is tried out, over records of the system calls, and the inductive relation \<open>echo_step\<close> in
    which a client and a server run beside each other over a connection with bounded queues. Shown: a line that the queues
    hold comes back, however the calls are cut and interleaved; a longer one blocks both programs.

  The properties of a component are at the end of its theory; the ones below span components: a captured packet
  travels from the client's outgoing loop to its destination, and a reply from the server's raw socket to the
  client's incoming loop, which injects a number of bytes that is not the packet's length.

  \<^bold>\<open>Loops and bounds.\<close> Loops over data are structural recursion or \<open>fun\<close> with a
  measure. The loops that can run for ever, \<open>_add_data_and_parse\<close>, \<open>safe_recv\<close>, the search
  for the server name, the thread of a client, the text of TCP options, the installation of a connection, the
  loop over the packets of Wintun and the loops of the echo programs over lines and clients, are \<open>partial_function\<close>s in the option monad: that they return is
  proved as such, and so are the inputs on which they do not. The endless loops of the server are taken one round at a
  time. No fuel is used. The order in which the hash table of packets is walked is a parameter with the hypothesis
  \<open>order_spec\<close>: it lists the keys.

  \<^bold>\<open>Assumptions that recur.\<close> \<open>proxy_wf\<close>: IPv4 addresses and protocol data that begins with its own length, as
  the schemes produce it. \<open>pm_quiet\<close>: between two frames no packet of the manager is full and nothing is
  cached; every decode re-establishes it. \<open>quiet_only\<close>: exactly one active layer, the quiet one, as the
  default strategy sets up; with two the code does not decode what it encoded, which is proved. \<open>options_ok\<close>: the TCP options of a packet are
  well-formed; with an option of length zero its text, which is printed, never ends, and the loop that handles it stays
  there for ever, which is proved too. \<open>willing\<close>: the
  operating system grants sockets and says its address.

  \<^bold>\<open>Not modelled.\<close> The calls of the loggers within the drivers and what is written to the console (that the text of a packet
  exists before it is written is modelled), the empty setters of the dummy packets, IPv6
  packets (the code refuses them), the interleaving of threads inside a round of a loop,
  what the filter texts mean to WinDivert, the parsing of command lines and of JSON, vendored libraries.
\<close>

section \<open>Encoded payloads as records\<close>

text \<open>What a driver encodes for a payload below the size limit is one application record, and the other side decodes it.\<close>

lemma encoded_record:
  assumes "quiet_only (drv_layers client)" "quiet_only (drv_layers server)" "proxy_wf px" "order_spec order"
    and "n < unat (data_max_size (packet_manager client))" "proxy_len px + n \<le> 65525" "b + n \<le> length m"
    and "pm_quiet (packet_manager server)"
      "packets (packet_manager server) (last_packet_id (packet_manager client)) = None"
  shows "\<exists>sp client' x. QVPNClientDriver_encode_data client px m b (b + n) = Some (sp, client') \<and>
    sp_parts sp = Some [x] \<and> is_app_record x \<and>
    QVPNServerDriver_decode_data order server x 0 (length x) = Some (Some (delivered px (mslice m b n)), server)"
proof -
  let ?f = "pb_frame (last_packet_id (packet_manager client)) 0 (n + proxy_len px) (proxy_block px (mslice m b n))"
  have len: "length ?f = 5 + (n + proxy_len px)"
    using assms(6,7) length_proxy_block [OF assms(3), of "mslice m b n"] pb_frame_reads(4) [of 0 "n + proxy_len px"] by simp
  have "sp_parts (SplittedPacket_add_data SplittedPacket_new (app_record ?f)) = Some [app_record ?f]"
    by (rule sp_parts_one) (use len assms(6) in simp)
  moreover have "is_app_record (app_record ?f)"
    using len assms(6) by (auto simp: is_app_record_iff intro!: exI [of _ ?f])
  ultimately show ?thesis
    using whole_delivery [OF assms] encode_whole [OF assms(1,3) refl assms(5,7)] by auto
qed

lemma is_app_record_ne: "is_app_record x \<Longrightarrow> x \<noteq> []"
  by (auto simp: is_app_record_def)

text \<open>A request reaches its destination. Let a client encode the payload of a TCP packet whose header \<open>t\<close> its proxy block
  describes. However the record is cut into pieces on the way to the server, one round of the server's request loop
  opens a raw socket connected to the destination, or takes the one it has, and sends the packet through it.\<close>

lemma request_reaches_destination:
  assumes os: "willing sys a" and table: "table_ok (rq_sock_map rq)"
    and drv: "quiet_only (drv_layers client)" "quiet_only (drv_layers (srv_driver (rq_server rq)))" "proxy_wf px"
      "order_spec order" "n < unat (data_max_size (packet_manager client))" "proxy_len px + n \<le> 65525" "b + n \<le> length m"
      "pm_quiet (packet_manager (srv_driver (rq_server rq)))"
      "packets (packet_manager (srv_driver (rq_server rq))) (last_packet_id (packet_manager client)) = None"
    and t: "transport_protocol px = TransportProtocol_TCP" "TcpPacketLE_generate_proxy_bytes px = Some t" "20 \<le> length t"
      "4 * unat (hi_nibble (t ! 12)) = length t" "20 + length t + n \<le> 65535" "options_ok (drop 20 t)"
  shows "\<exists>sp client' x. QVPNClientDriver_encode_data client px m b (b + n) = Some (sp, client') \<and> sp_parts sp = Some [x] \<and> x \<noteq> [] \<and>
    (\<forall>ps. concat ps = x \<and>
        pieces_arrive (\<lambda>k. fst (sys_recv sys (sock_fd cs) 0 (recv_world sys cs (rq_world rq) k))) 0 ps \<longrightarrow>
      (\<exists>pkt raw w rq'. QVPNServerDriver_vpn_request_loop_iteration sys order init cs rq = Some (True, rq') \<and>
        tcp_packet_carries pkt a (dst_addr px) t (mslice m b n) \<and>
        routed ((request_key px)\<lparr> server_local_addr := a \<rparr>) raw \<and>
        rq_world rq' = snd (QVPN_RawSocket_send sys raw pkt w)))"
proof -
  obtain sp client' x where x: "QVPNClientDriver_encode_data client px m b (b + n) = Some (sp, client')"
      "sp_parts sp = Some [x]" "is_app_record x"
      "QVPNServerDriver_decode_data order (srv_driver (rq_server rq)) x 0 (length x) =
        Some (Some (delivered px (mslice m b n)), srv_driver (rq_server rq))"
    using encoded_record [OF drv] by blast
  have px: "net_protocol px = NetProtocol_IPv4" "length (dst_addr px) = 4" using drv(3) by (simp_all add: proxy_wf_def)
  have len: "20 + length t + length (mslice m b n) \<le> 65535" using t(5) by (simp add: mslice_def)
  show ?thesis
    using x(1,2) is_app_record_ne [OF x(3)] request_round [OF os table _ _ x(3,4) px(1) t(1) px(2) t(2-4) len t(6)] by blast
qed

section \<open>Properties that span components\<close>

text \<open>C3: from driver to driver over a byte stream. The record that the client's \<open>encode_data\<close> produces for a
  payload below the size limit may be cut into any non-empty pieces on its way: \<open>safe_recv\<close> at the server
  returns exactly one object, and \<open>decode_data\<close> of that object gives the client's proxy block and payload
  and leaves the server's driver as it was.\<close>

theorem tunnel_over_stream:
  assumes "quiet_only (drv_layers client)" "quiet_only (drv_layers server)" "proxy_wf px" "order_spec order"
    and "n < unat (data_max_size (packet_manager client))" "proxy_len px + n \<le> 65525" "b + n \<le> length m"
    and "pm_quiet (packet_manager server)"
      "packets (packet_manager server) (last_packet_id (packet_manager client)) = None"
  shows "\<exists>sp client' x. QVPNClientDriver_encode_data client px m b (b + n) = Some (sp, client') \<and>
    sp_parts sp = Some [x] \<and> x \<noteq> [] \<and>
    (\<forall>cs recv. concat cs = x \<and> pieces_arrive recv 0 cs \<longrightarrow>
      (\<exists>sr ob oe. QVPN_Socket_safe_recv TLS13_RecordView_bytes_parse recv = Some (sr, length cs) \<and>
        SafeReceiveData_get_objects_num sr = 1 \<and> SafeReceiveData_get_object_bytes sr 0 = Some (ob, oe) \<and>
        QVPNServerDriver_decode_data order server (sr_data sr) ob oe =
          Some (Some (delivered px (mslice m b n)), server)))"
proof -
  obtain sp client' x where x: "QVPNClientDriver_encode_data client px m b (b + n) = Some (sp, client')"
      "sp_parts sp = Some [x]" "is_app_record x"
      "QVPNServerDriver_decode_data order server x 0 (length x) = Some (Some (delivered px (mslice m b n)), server)"
    using encoded_record [OF assms] by blast
  note ne = is_app_record_ne [OF x(3)]
  have "QVPN_Socket_safe_recv TLS13_RecordView_bytes_parse recv =
      Some (\<lparr> sr_status = ok_status, sr_separators = [(0, length x)], sr_data = x \<rparr>, length cs)"
    if "concat cs = x" "pieces_arrive recv 0 cs" for cs recv
    using record_view.object_in_pieces [OF _ _ that(2)] x(3) ne that(1) by (cases "cs = []") auto
  then show ?thesis
    using x ne by (auto simp: SafeReceiveData_get_objects_num_def SafeReceiveData_get_object_bytes_def rd_pair)
qed

theorem tunnel_over_stream_witness:
  "\<exists>sp client' x. QVPNClientDriver_encode_data fresh_driver sample_proxy [1, 2, 3] 0 (0 + 3) = Some (sp, client') \<and>
    sp_parts sp = Some [x] \<and>
    (\<exists>sr ob oe. QVPN_Socket_safe_recv TLS13_RecordView_bytes_parse (\<lambda>k. (int (length x), 0, x)) = Some (sr, 1) \<and>
      QVPNServerDriver_decode_data ascending fresh_driver (sr_data sr) ob oe =
        Some (Some (delivered sample_proxy [1, 2, 3]), fresh_driver))"
proof -
  obtain sp client' x where x: "QVPNClientDriver_encode_data fresh_driver sample_proxy [1, 2, 3] 0 (0 + 3) = Some (sp, client')"
    "sp_parts sp = Some [x]" "x \<noteq> []"
    and *: "\<And>cs recv. concat cs = x \<Longrightarrow> pieces_arrive recv 0 cs \<Longrightarrow>
      (\<exists>sr ob oe. QVPN_Socket_safe_recv TLS13_RecordView_bytes_parse recv = Some (sr, length cs) \<and>
        SafeReceiveData_get_objects_num sr = 1 \<and> SafeReceiveData_get_object_bytes sr 0 = Some (ob, oe) \<and>
        QVPNServerDriver_decode_data ascending fresh_driver (sr_data sr) ob oe =
          Some (Some (delivered sample_proxy (mslice [1, 2, 3] 0 3)), fresh_driver))"
    using tunnel_over_stream [of fresh_driver fresh_driver sample_proxy ascending 3 0 "[1, 2, 3]"]
      fresh_driver_ok sample_proxy_ok ascending_order_spec by auto
  show ?thesis using x * [of "[x]" "\<lambda>k. (int (length x), 0, x)"] by (force simp: mslice_def)
qed

text \<open>C1: a packet of the client reaches its destination. Let the client capture an IPv4 TCP packet \<open>m\<close> whose payload fits
  into one record. A round of its outgoing loop sends exactly one record to the server. However that record is cut into
  pieces on the way, one round of the server's request loop opens a raw socket connected to the packet's destination, or
  takes the one it has, and sends through it an IPv4 packet from its own address to that destination with the
  captured packet's TCP header up to the checksum and with its payload; the length and both checksums are right, and
  the connection to the client is kept. Client and server print the packet before they send it, so the TCP options of \<open>m\<close>
  have to be well-formed: with an option of length zero the client's round never returns (lemma
  \<open>trapped_packet_stops_outgoing\<close>).\<close>

theorem captured_packet_reaches_destination:
  assumes os: "willing sys a" and table: "table_ok (rq_sock_map rq)"
    and recv: "wd_recv wd (out_hDivert c) (length packet) w = (Some (m, addr), w')" and ok: "tcp_reply m k" "length m \<le> 65500"
    and opts: "options_ok (mslice m 40 (4 * k - 20))"
    and cl: "quiet_only (drv_layers (wdc_driver c))"
      "length m - (20 + 4 * k) < unat (data_max_size (packet_manager (wdc_driver c)))" "\<And>x. ns_success (env_send env 0 x)"
    and srv: "quiet_only (drv_layers (srv_driver (rq_server rq)))" "order_spec order"
      "pm_quiet (packet_manager (srv_driver (rq_server rq)))"
      "packets (packet_manager (srv_driver (rq_server rq))) (last_packet_id (packet_manager (wdc_driver c))) = None"
  shows "\<exists>x c'. WinDivertClient_outgoing_capture_round wd env packet c w = Some ([x], m @ drop (length m) packet, c', w') \<and> x \<noteq> [] \<and>
    (\<forall>ps. concat ps = x \<and>
        pieces_arrive (\<lambda>i. fst (sys_recv sys (sock_fd cs) 0 (recv_world sys cs (rq_world rq) i))) 0 ps \<longrightarrow>
      (\<exists>pkt raw ws rq'. QVPNServerDriver_vpn_request_loop_iteration sys order init cs rq = Some (True, rq') \<and>
        tcp_packet_carries pkt a (mslice m 16 4) (plain_tcp_header m k) (drop (20 + 4 * k) m) \<and>
        remote_addr (sock_data raw) = mslice m 16 4 \<and> remote_port (sock_data raw) = be16 (m ! 22) (m ! 23) \<and>
        rq_world rq' = snd (QVPN_RawSocket_send sys raw pkt ws)))"
proof -
  let ?m = "m @ drop (length m) packet" and ?n = "length m - (20 + 4 * k)"
  have m: "20 + 4 * k \<le> length m" "5 \<le> k" using ok by (simp_all add: tcp_reply_def)
  then have n: "20 + 4 * k + ?n = length m" by simp
  note parsed = reply_parsed(1) [OF ok(1), of "drop (length m) packet"]
  obtain px where px: "capture_proxy ?m (TcpPacketOf \<lparr>
      tcpv_net = \<lparr> ip4_header = 0, ip4_additional_header = 20, ip4_add_header_size = 0 \<rparr>,
      tcpv_transport = \<lparr> tcp_header = 20, tcp_options = 40, tcp_options_size = 4 * (int k - 5) \<rparr>,
      tcpv_payload = DataPacketView_of_range (20 + 4 * k) (length m) \<rparr>) = Some px" "proxy_wf px" "proxy_len px = 11 + 4 * k"
      "transport_protocol px = TransportProtocol_TCP" "dst_addr px = mslice m 16 4" "dst_port px = be16 (m ! 22) (m ! 23)"
      "TcpPacketLE_generate_proxy_bytes px = Some (plain_tcp_header m k)"
    using captured_proxy [OF ok(1) parsed] by blast
  have fits: "proxy_len px + ?n \<le> 65525" "20 + 4 * k + ?n \<le> length ?m" using px(3) m ok(2) by simp_all
  have t: "20 \<le> length (plain_tcp_header m k)"
    "4 * unat (hi_nibble (plain_tcp_header m k ! 12)) = length (plain_tcp_header m k)"
    "20 + length (plain_tcp_header m k) + ?n \<le> 65535" "options_ok (drop 20 (plain_tcp_header m k))"
    using opts header_options(1) [OF ok(1)] length_plain_tcp_header [OF ok(1)] plain_tcp_header_offset [OF ok(1)] m ok(2) by simp_all
  have pay: "mslice ?m (20 + 4 * k) ?n = drop (20 + 4 * k) m" using m by (simp add: mslice_def)
  obtain sp d' x where x: "QVPNClientDriver_encode_data (wdc_driver c) px ?m (20 + 4 * k) (20 + 4 * k + ?n) = Some (sp, d')"
      "sp_parts sp = Some [x]" "x \<noteq> []"
      "\<forall>ps. concat ps = x \<and>
        pieces_arrive (\<lambda>i. fst (sys_recv sys (sock_fd cs) 0 (recv_world sys cs (rq_world rq) i))) 0 ps \<longrightarrow>
      (\<exists>pkt raw ws rq'. QVPNServerDriver_vpn_request_loop_iteration sys order init cs rq = Some (True, rq') \<and>
        tcp_packet_carries pkt a (dst_addr px) (plain_tcp_header m k) (mslice ?m (20 + 4 * k) ?n) \<and>
        routed ((request_key px)\<lparr> server_local_addr := a \<rparr>) raw \<and>
        rq_world rq' = snd (QVPN_RawSocket_send sys raw pkt ws))"
    using request_reaches_destination [OF os table cl(1) srv(1) px(2) srv(2) cl(2) fits srv(3,4) px(4,7) t] by blast
  have "\<exists>c'. WinDivertClient_outgoing_capture_round wd env packet c w = Some ([x], ?m, c', w')"
    using outgoing_round_sends [OF recv ok(1) opts px(1) _ x(2) cl(3)] x(1) unfolding n by blast
  moreover have "remote_addr (sock_data raw) = mslice m 16 4 \<and> remote_port (sock_data raw) = be16 (m ! 22) (m ! 23)"
    if "routed ((request_key px)\<lparr> server_local_addr := a \<rparr>) raw" for raw
    using that px(5,6) by (simp add: routed_def request_key_def)
  ultimately show ?thesis using x(3,4) unfolding pay px(5) by blast
qed

theorem captured_packet_reaches_destination_witness:
  "\<exists>x c' packet pkt raw ws rq'.
    WinDivertClient_outgoing_capture_round sample_windivert sample_env (replicate 60 0) sample_client ([sample_capture], []) =
      Some ([x], packet, c', ([], [])) \<and>
    QVPNServerDriver_vpn_request_loop_iteration sample_sys ascending sample_filter QVPN_Socket_new
      (sample_request Map.empty Map.empty [x]) = Some (True, rq') \<and>
    tcp_packet_carries pkt [192, 0, 2, 1] [198, 51, 100, 1]
      [0x12, 0x34, 0, 80, 0, 0, 0, 9, 0, 0, 0, 8, 0x50, 0x18, 1, 0, 0, 0, 0, 0] [1, 2, 3] \<and>
    rq_world rq' = snd (QVPN_RawSocket_send sample_sys raw pkt ws)"
proof -
  let ?round = "WinDivertClient_outgoing_capture_round sample_windivert sample_env (replicate 60 0) sample_client
    ([sample_capture], [])"
  let ?arrive = "\<lambda>i ps. pieces_arrive (\<lambda>k. fst (sys_recv sample_sys (sock_fd QVPN_Socket_new) 0
    (recv_world sample_sys QVPN_Socket_new (rq_world (sample_request Map.empty Map.empty i)) k))) 0 ps"
  have *: "\<exists>x c'. ?round = Some ([x], sample_capture @ drop (length sample_capture) (replicate 60 0), c', ([], [])) \<and> x \<noteq> [] \<and>
    (\<forall>ps. concat ps = x \<and> ?arrive i ps \<longrightarrow>
      (\<exists>pkt raw ws rq'. QVPNServerDriver_vpn_request_loop_iteration sample_sys ascending sample_filter QVPN_Socket_new
          (sample_request Map.empty Map.empty i) = Some (True, rq') \<and>
        tcp_packet_carries pkt [192, 0, 2, 1] (mslice sample_capture 16 4) (plain_tcp_header sample_capture 5)
          (drop (20 + 4 * 5) sample_capture) \<and>
        remote_addr (sock_data raw) = mslice sample_capture 16 4 \<and>
        remote_port (sock_data raw) = be16 (sample_capture ! 22) (sample_capture ! 23) \<and>
        rq_world rq' = snd (QVPN_RawSocket_send sample_sys raw pkt ws)))" for i
    by (rule captured_packet_reaches_destination [OF sample_sys_willing])
      (use fresh_driver_ok ascending_order_spec sample_capture_ok in \<open>simp_all add: mslice_def sample_windivert_def sample_client_def
        sample_env_def sample_request_def sample_server_def table_ok_def ok_status_def\<close>)
  then obtain x c' where x: "?round = Some ([x], sample_capture @ drop (length sample_capture) (replicate 60 0), c', ([], []))"
    "x \<noteq> []" by blast
  from x(2) have "?arrive [x] [x]" by (simp add: sample_sys_def recv_world_def sample_request_def)
  moreover have one: "concat [x] = x" "20 + 4 * 5 = (40 :: nat)" by simp_all
  moreover obtain x' c'' where
      x': "?round = Some ([x'], sample_capture @ drop (length sample_capture) (replicate 60 0), c'', ([], []))"
    and all: "\<And>ps. concat ps = x' \<Longrightarrow> ?arrive [x] ps \<Longrightarrow>
      (\<exists>pkt raw ws rq'. QVPNServerDriver_vpn_request_loop_iteration sample_sys ascending sample_filter QVPN_Socket_new
          (sample_request Map.empty Map.empty [x]) = Some (True, rq') \<and>
        tcp_packet_carries pkt [192, 0, 2, 1] (mslice sample_capture 16 4) (plain_tcp_header sample_capture 5)
          (drop (20 + 4 * 5) sample_capture) \<and>
        remote_addr (sock_data raw) = mslice sample_capture 16 4 \<and>
        remote_port (sock_data raw) = be16 (sample_capture ! 22) (sample_capture ! 23) \<and>
        rq_world rq' = snd (QVPN_RawSocket_send sample_sys raw pkt ws))"
    using * [of "[x]"] by blast
  moreover have "x' = x" using x(1) x' by simp
  ultimately show ?thesis using all [of "[x]"] x(1) unfolding one sample_capture_parts by blast
qed

text \<open>C2: a reply comes back to the application. The server turns a TCP packet \<open>m\<close> that it reads from a raw socket into one
  record on the client's connection. When the client captures an IPv4 TCP packet that carries just this record, a round
  of its incoming loop rebuilds an IPv4 packet from \<open>m\<close>'s source to the client's own address and port, with \<open>m\<close>'s payload
  and with a TCP header that differs from \<open>m\<close>'s in the destination port and the checksum only, lets WinDivert calculate
  its checksums, and injects its first \<open>n\<close> bytes, where \<open>n\<close> is the size of a C++ object and not that of the packet: a longer
  packet is cut off, and of a shorter one the code reads past the end. All three packets are printed on the way, so the TCP
  options of \<open>m\<close> and of the captured packet have to be well-formed: with an option of length zero neither loop returns
  (lemmas \<open>reply_stops_server\<close>, \<open>trapped_packet_stops_incoming\<close>). WinDivert's helper changes the checksums only.\<close>

theorem reply_reaches_application:
  assumes ok: "tcp_reply m k" "options_ok (mslice m 40 (4 * k - 20))" and key: "length (client_local_addr key) = 4"
    and srv: "quiet_only (drv_layers (srv_driver st))"
      "length m - (20 + 4 * k) < unat (data_max_size (packet_manager (srv_driver st)))" "length m \<le> 65500"
    and cl: "quiet_only (drv_layers (wdc_driver c))" "pm_quiet (packet_manager (wdc_driver c))" "order_spec (env_order env)"
      "packets (packet_manager (wdc_driver c)) (last_packet_id (packet_manager (srv_driver st))) = None"
    and calc: "calculates_checksums wd"
  shows "\<exists>x st'. QVPNServerDriver_vpn_response_loop_iteration sys s key (m @ rest) 0 (length m) st ws =
      Some (st', snd (QVPN_Socket_send sys s x ws)) \<and> length x = length m + 1 \<and>
    (\<forall>seg j addr w w'. wd_recv wd (in_hDivert c) (length packet) w = (Some (seg, addr), w') \<and> length seg \<le> length packet \<and>
        tcp_reply seg j \<and> options_ok (mslice seg 40 (4 * j - 20)) \<and> 20 + 4 * j < length seg \<and> drop (20 + 4 * j) seg = x \<longrightarrow>
      (\<exists>pkt c'. tcp_packet_carries pkt (mslice m 12 4) (client_local_addr key) (reply_header m k key) (drop (20 + 4 * k) m) \<and>
        WinDivertClient_incoming_capture_round wd env n packet c w =
          (if n \<le> length pkt then Some (seg @ drop (length seg) packet, c', snd (wd_send wd (in_hDivert c)
             (take n (fst (wd_calc_checksums wd pkt addr))) (snd (wd_calc_checksums wd pkt addr)) w'))
           else None)))"
proof -
  obtain x px st' where x: "QVPNServerDriver_vpn_response_loop_iteration sys s key (m @ rest) 0 (length m) st ws =
      Some (st', snd (QVPN_Socket_send sys s x ws))"
      "QVPNClientDriver_decode_data (env_order env) (wdc_driver c) x 0 (length x) =
        Some (Some (delivered px (drop (20 + 4 * k) m)), wdc_driver c)"
      "transport_protocol px = TransportProtocol_TCP" "source_addr px = mslice m 12 4" "dst_addr px = client_local_addr key"
      "TcpPacketLE_generate_proxy_bytes px = Some (reply_header m k key)" "net_protocol px = NetProtocol_IPv4"
      "length x = length m + 1"
    using response_forwards [OF ok key srv cl(1,2,3,4), of sys s rest ws] by auto
  have m: "40 \<le> length m" "20 + 4 * k \<le> length m" "5 \<le> k" using ok(1) by (simp_all add: tcp_reply_def)
  have px: "length (source_addr px) = 4" "length (dst_addr px) = 4" using x(4,5) key m(1) by (simp_all add: mslice_def)
  have t: "20 \<le> length (reply_header m k key)" "20 + length (reply_header m k key) + length (drop (20 + 4 * k) m) \<le> 65535"
    "options_ok (drop 20 (reply_header m k key))"
    using ok(2) header_options(2) [OF ok(1)] reply_header_parts(1) [OF ok(1), of key] m srv(3) by simp_all
  have "\<exists>pkt c'. tcp_packet_carries pkt (mslice m 12 4) (client_local_addr key) (reply_header m k key) (drop (20 + 4 * k) m) \<and>
      WinDivertClient_incoming_capture_round wd env n packet c w =
        (if n \<le> length pkt then Some (seg @ drop (length seg) packet, c', snd (wd_send wd (in_hDivert c)
           (take n (fst (wd_calc_checksums wd pkt addr))) (snd (wd_calc_checksums wd pkt addr)) w'))
         else None)"
    if seg: "wd_recv wd (in_hDivert c) (length packet) w = (Some (seg, addr), w')" "length seg \<le> length packet"
      "tcp_reply seg j" "20 + 4 * j < length seg" "drop (20 + 4 * j) seg = x" "options_ok (mslice seg 40 (4 * j - 20))" for seg j addr w w'
  proof -
    have "x \<noteq> []" using seg(4,5) by auto
    from incoming_round_injects [OF seg(1-3) this seg(5,6) x(2,7,3) px x(6) t(1) reply_header_parts(2) [OF ok(1)] t(2,3) calc, of n]
    show ?thesis unfolding x(4,5) by blast
  qed
  with x(1,8) show ?thesis by blast
qed

theorem reply_reaches_application_witness:
  "\<exists>x pkt c' st'. QVPNServerDriver_vpn_response_loop_iteration sample_sys QVPN_Socket_new sample_key sample_reply 0
      (length sample_reply) sample_server ([], []) = Some (st', snd (QVPN_Socket_send sample_sys QVPN_Socket_new x ([], []))) \<and>
    tcp_packet_carries pkt [198, 51, 100, 1] [10, 0, 0, 1]
      [0, 80, 0x12, 0x34, 0, 0, 0, 8, 0, 0, 0, 9, 0x50, 0x18, 1, 0, 0, 0, 0, 0] [77, 78] \<and>
    WinDivertClient_incoming_capture_round sample_windivert sample_env 42 (replicate 100 0) sample_client
      ([sample_segment x], []) = Some (sample_segment x @ replicate 17 0, c', ([], [pkt]))"
proof -
  have calc: "calculates_checksums sample_windivert" by (simp add: calculates_checksums_def sample_windivert_def)
  have opts: "options_ok (mslice y 40 (4 * 5 - 20))" for y by (simp add: mslice_def)
  have len: "length sample_reply = 42" by (simp add: sample_reply_def)
  have key: "length (client_local_addr sample_key) = 4" by (simp add: sample_key_def)
  have srv: "quiet_only (drv_layers (srv_driver sample_server))" "length sample_reply \<le> 65500"
    "length sample_reply - (20 + 4 * 5) < unat (data_max_size (packet_manager (srv_driver sample_server)))"
    using fresh_driver_ok len by (simp_all add: sample_server_def)
  have cl: "quiet_only (drv_layers (wdc_driver sample_client))" "pm_quiet (packet_manager (wdc_driver sample_client))"
    "order_spec (env_order sample_env)"
    "packets (packet_manager (wdc_driver sample_client)) (last_packet_id (packet_manager (srv_driver sample_server))) = None"
    using fresh_driver_ok ascending_order_spec by (simp_all add: sample_client_def sample_env_def)
  obtain x st' where x: "QVPNServerDriver_vpn_response_loop_iteration sample_sys QVPN_Socket_new sample_key (sample_reply @ []) 0
      (length sample_reply) sample_server ([], []) = Some (st', snd (QVPN_Socket_send sample_sys QVPN_Socket_new x ([], [])))"
    "length x = length sample_reply + 1"
    "\<forall>seg j addr w w'. wd_recv sample_windivert (in_hDivert sample_client) (length (replicate 100 (0 :: UByte))) w =
        (Some (seg, addr), w') \<and> length seg \<le> length (replicate 100 (0 :: UByte)) \<and>
        tcp_reply seg j \<and> options_ok (mslice seg 40 (4 * j - 20)) \<and> 20 + 4 * j < length seg \<and> drop (20 + 4 * j) seg = x \<longrightarrow>
      (\<exists>pkt c'. tcp_packet_carries pkt (mslice sample_reply 12 4) (client_local_addr sample_key)
          (reply_header sample_reply 5 sample_key) (drop (20 + 4 * 5) sample_reply) \<and>
        WinDivertClient_incoming_capture_round sample_windivert sample_env 42 (replicate 100 0) sample_client w =
          (if 42 \<le> length pkt then Some (seg @ drop (length seg) (replicate 100 0), c', snd (wd_send sample_windivert
             (in_hDivert sample_client) (take 42 (fst (wd_calc_checksums sample_windivert pkt addr)))
             (snd (wd_calc_checksums sample_windivert pkt addr)) w'))
           else None))"
    using reply_reaches_application [OF sample_reply_ok opts key srv(1) _ _ cl calc, of sample_sys QVPN_Socket_new "[]" "([], [])"
        "replicate 100 0" 42] srv(2,3) by blast
  have seg: "length (sample_segment x) = 83" "tcp_reply (sample_segment x) 5" "drop 40 (sample_segment x) = x"
    "wd_recv sample_windivert (in_hDivert sample_client) (length (replicate 100 (0 :: UByte))) ([sample_segment x], []) =
      (Some (sample_segment x, ()), ([], []))"
    using x(2) len sample_segment_ok [of x] by (simp_all add: sample_windivert_def)
  have parts: "mslice sample_reply 12 4 = [198, 51, 100, 1]" "drop 40 sample_reply = [77, 78]" "client_local_addr sample_key = [10, 0, 0, 1]"
    "reply_header sample_reply 5 sample_key = [0, 80, 0x12, 0x34, 0, 0, 0, 8, 0, 0, 0, 9, 0x50, 0x18, 1, 0, 0, 0, 0, 0]"
    by (simp_all add: sample_reply_def sample_key_def mslice_def reply_header_def be16_bytes_def byte_of_def)
  have calls: "snd (wd_send sample_windivert h p a w) = (fst w, snd w @ [p])" "wd_calc_checksums sample_windivert p a = (p, a)" for h p a w
    by (simp_all add: sample_windivert_def)
  obtain pkt c' where pkt: "tcp_packet_carries pkt [198, 51, 100, 1] [10, 0, 0, 1]
      [0, 80, 0x12, 0x34, 0, 0, 0, 8, 0, 0, 0, 9, 0x50, 0x18, 1, 0, 0, 0, 0, 0] [77, 78]"
    "WinDivertClient_incoming_capture_round sample_windivert sample_env 42 (replicate 100 0) sample_client
      ([sample_segment x], []) = (if 42 \<le> length pkt then Some (sample_segment x @ drop 83 (replicate 100 0), c', ([], [take 42 pkt]))
        else None)"
    using x(3) [rule_format, of "([sample_segment x], [])" "sample_segment x" "()" "([], [])" 5] seg opts
    by (fastforce simp: parts calls)
  then have "length pkt = 42" by (simp add: tcp_packet_carries_def)
  with pkt x(1) show ?thesis by (intro exI) (auto simp: drop_replicate)
qed

end
